(* ===== verification/Prelude.thy ===== *)
theory Prelude
  imports Main "HOL-Library.Word"
begin

text \<open>
  Shared vocabulary of the development: the machine types of the C++ sources, the error
  values that stand for failed assertions and undefined behaviour, the lemma collections,
  and the facts on words, lists and results that several components use.
\<close>

unbundle bit_operations_syntax

section \<open>Machine types\<close>

type_synonym u8 = "8 word"
type_synonym u16 = "16 word"
type_synonym u32 = "32 word"
type_synonym u64 = "64 word"
type_synonym usize = "64 word"

section \<open>Lemma collections\<close>

named_theorems align_simps \<open>masking with powers of two, read through \<open>unat\<close>\<close>
named_theorems result_simps \<open>computing with results\<close>
named_theorems table_simps \<open>reading and writing the slots of a growing vector\<close>

section \<open>Errors as values\<close>

text \<open>
  A failed \<^verbatim>\<open>assert\<close> is \<open>AssertionFailure\<close>; a C++ exception carries its message; the
  constructors up to \<open>UseAfterFree\<close> name the undefined behaviour the sources would run into, and
  \<open>Diverges\<close> is the outcome of a loop that does not end.
\<close>

datatype aub_error =
    AssertionFailure
  | NullDereference
  | IndexOutOfRange
  | DivisionByZero
  | UseAfterFree
  | Diverges
  | LogicError string
  | RuntimeError string

type_synonym 'a result = "aub_error + 'a"

definition bindR :: "'a result \<Rightarrow> ('a \<Rightarrow> 'b result) \<Rightarrow> 'b result" where
  "bindR m f = (case m of Inl e \<Rightarrow> Inl e | Inr x \<Rightarrow> f x)"

definition assertR :: "bool \<Rightarrow> 'a result \<Rightarrow> 'a result" where
  "assertR b m = (if b then m else Inl AssertionFailure)"

lemma bindR_simps [simp, result_simps]:
  "bindR (Inl e) f = Inl e"
  "bindR (Inr x) f = f x"
  by (simp_all add: bindR_def)

lemma bindR_Inr_iff [result_simps]:
  "bindR m f = Inr y \<longleftrightarrow> (\<exists>x. m = Inr x \<and> f x = Inr y)"
  by (cases m) auto

lemma bindR_cong [fundef_cong]:
  "m = m' \<Longrightarrow> (\<And>x. m' = Inr x \<Longrightarrow> f x = f' x) \<Longrightarrow> bindR m f = bindR m' f'"
  by (cases m') auto

lemma assertR_cong [fundef_cong]:
  "b = b' \<Longrightarrow> (b' \<Longrightarrow> m = m') \<Longrightarrow> assertR b m = assertR b' m'"
  by (simp add: assertR_def)

lemma bindR_InrE:
  assumes "bindR m f = Inr y"
  obtains x where "m = Inr x" and "f x = Inr y"
  using assms by (auto simp: bindR_Inr_iff)

lemma assertR_simps [simp, result_simps]:
  "assertR True m = m"
  "assertR False m = Inl AssertionFailure"
  by (simp_all add: assertR_def)

lemma assertR_Inr_iff [result_simps]: "assertR b m = Inr y \<longleftrightarrow> b \<and> m = Inr y"
  by (cases b) auto

section \<open>Masks and alignment\<close>

lemma unat_two_power:
  "n < LENGTH('a) \<Longrightarrow> unat (2 ^ n :: 'a::len word) = 2 ^ n"
  by transfer simp

lemma unat_word_of_nat_small:
  "n < 2 ^ LENGTH('a) \<Longrightarrow> unat (word_of_nat n :: 'a::len word) = n"
  by (simp add: unsigned_of_nat take_bit_nat_eq_self)

lemma ucast_word_of_nat_small:
  "n < 2 ^ LENGTH('a) \<Longrightarrow> (ucast (word_of_nat n :: 'a::len word) :: 'b::len word) = word_of_nat n"
  by (simp add: unsigned_of_nat take_bit_nat_eq_self)

lemma unat_bound: "unat x < 2 ^ LENGTH('a)"
  for x :: "'a::len word"
  by (rule unsigned_less)

lemma unat_bound64: "unat x < 18446744073709551616"
  for x :: u64
proof -
  have len: "(2::nat) ^ LENGTH(64) = 18446744073709551616"
    by simp
  show ?thesis
    using unat_bound [of x] by (simp only: len)
qed

lemma unat_bound32: "unat x < 4294967296"
  for x :: u32
proof -
  have len: "(2::nat) ^ LENGTH(32) = 4294967296"
    by simp
  show ?thesis
    using unat_bound [of x] by (simp only: len)
qed

lemma unat_shift_right: "unat (drop_bit n x) = unat x div 2 ^ n"
  for x :: "'a::len word"
proof -
  have "unat (drop_bit n x) = drop_bit n (unat x)"
    by (rule unat_drop_bit_eq)
  then show ?thesis
    by (simp only: drop_bit_eq_div)
qed

lemma low_bits_eq_take_bit:
  fixes x :: "'a::len word"
  shows "x AND (2 ^ n - 1) = take_bit n x"
  by (simp add: take_bit_eq_mask mask_eq_exp_minus_1)

lemma unat_low_bits [align_simps]:
  fixes x :: "'a::len word"
  shows "unat (x AND (2 ^ n - 1)) = unat x mod 2 ^ n"
proof -
  have "unat (take_bit n x) = take_bit n (unat x)"
    by (rule unsigned_take_bit_eq)
  then show ?thesis
    by (simp add: low_bits_eq_take_bit take_bit_eq_mod)
qed

lemma high_bits_eq_minus:
  fixes x m :: "'a::len word"
  shows "x AND NOT m = x - (x AND m)"
proof -
  have "(x AND NOT m) + (x AND m) = (x AND NOT m) OR (x AND m)"
    by (rule disjunctive_add [symmetric, THEN sym])
       (simp add: bit_simps)
  also have "\<dots> = x"
    by (rule bit_eqI) (auto simp: bit_simps)
  finally show ?thesis
    by (simp add: algebra_simps)
qed

lemma unat_high_bits [align_simps]:
  fixes x :: "'a::len word"
  shows "unat (x AND NOT (2 ^ n - 1)) = unat x div 2 ^ n * 2 ^ n"
proof -
  have le: "x AND (2 ^ n - 1) \<le> x"
    by (simp add: word_le_nat_alt unat_low_bits)
  have "unat (x AND NOT (2 ^ n - 1)) = unat x - unat (x AND (2 ^ n - 1))"
    by (simp only: high_bits_eq_minus unat_sub [OF le])
  then show ?thesis
    by (simp only: unat_low_bits minus_mod_eq_div_mult)
qed

section \<open>Rounding up\<close>

lemma round_up_least:
  fixes m n d :: nat
  assumes "0 < d" and "d dvd m" and "n \<le> m"
  shows "(n + d - 1) div d * d \<le> m"
proof -
  obtain k where m: "m = d * k"
    using assms(2) by auto
  have "n + d - 1 < d * Suc k"
    using assms(1,3) m by simp
  then have "(n + d - 1) div d < Suc k"
    using assms(1) by (simp add: less_mult_imp_div_less mult.commute)
  then show ?thesis
    using m by (simp add: mult.commute)
qed

lemma round_up_ge:
  fixes n d :: nat
  assumes "0 < d"
  shows "n \<le> (n + d - 1) div d * d"
proof -
  have "n + d - 1 = (n + d - 1) div d * d + (n + d - 1) mod d"
    by simp
  moreover have "(n + d - 1) mod d < d"
    using assms by simp
  ultimately show ?thesis
    by linarith
qed

lemma unat_power_minus_one:
  assumes "n < LENGTH('a)"
  shows "unat (2 ^ n - 1 :: 'a::len word) = 2 ^ n - 1"
proof -
  have pow: "unat (2 ^ n :: 'a word) = 2 ^ n"
    using assms by (simp add: unat_two_power)
  then have "(1 :: 'a word) \<le> 2 ^ n"
    by (simp add: word_le_nat_alt)
  then show ?thesis
    by (simp add: unat_sub pow)
qed

lemma unat_add_small:
  fixes x y :: "'a::len word"
  assumes "unat x + unat y < 2 ^ LENGTH('a)"
  shows "unat (x + y) = unat x + unat y"
  using assms by (simp add: unat_word_ariths)

lemma unat_round_up [align_simps]:
  fixes x :: "'a::len word"
  assumes "n < LENGTH('a)" and "unat x + 2 ^ n - 1 < 2 ^ LENGTH('a)"
  shows "unat ((x + (2 ^ n - 1)) AND NOT (2 ^ n - 1)) = (unat x + 2 ^ n - 1) div 2 ^ n * 2 ^ n"
proof -
  have "unat (x + (2 ^ n - 1)) = unat x + 2 ^ n - 1"
    using assms by (simp add: unat_add_small unat_power_minus_one)
  then show ?thesis
    by (simp only: unat_high_bits)
qed

text \<open>Rounding with an arbitrary mask still never moves below the start nor above the sum.\<close>

lemma mask_round_bounds:
  fixes x m :: "'a::len word"
  assumes "unat x + unat m < 2 ^ LENGTH('a)"
  shows "unat x \<le> unat ((x + m) AND NOT m)" and "unat ((x + m) AND NOT m) \<le> unat x + unat m"
proof -
  have "unat ((x + m) AND NOT m) = unat (x + m) - unat ((x + m) AND m)"
    by (simp only: high_bits_eq_minus unat_sub word_and_le2)
  moreover have "unat ((x + m) AND m) \<le> unat m"
    by (simp only: word_le_nat_alt [symmetric] word_and_le1)
  ultimately show "unat x \<le> unat ((x + m) AND NOT m)"
    and "unat ((x + m) AND NOT m) \<le> unat x + unat m"
    using unat_add_small [OF assms] by linarith+
qed

section \<open>Byte memories\<close>

text \<open>Storing and loading bytes; addresses wrap.\<close>

definition memStore :: "u64 \<Rightarrow> u8 list \<Rightarrow> (u64 \<Rightarrow> u8) \<Rightarrow> u64 \<Rightarrow> u8" where
  "memStore a bs f = (\<lambda>x. if unat (x - a) < length bs then bs ! unat (x - a) else f x)"

definition memLoad :: "u64 \<Rightarrow> nat \<Rightarrow> (u64 \<Rightarrow> u8) \<Rightarrow> u8 list" where
  "memLoad a n f = map (\<lambda>i. f (a + word_of_nat i)) [0..<n]"

end
