(* ===== verification/MemoryBanks.thy ===== *)
theory MemoryBanks
  imports Prelude
begin

text \<open>
  The arithmetic helpers and the memory banks: \<^verbatim>\<open>align_helpers.h\<close>, \<^verbatim>\<open>memory_banks.h\<close>,
  \<^verbatim>\<open>memory_banks.cpp\<close> and \<^verbatim>\<open>memory_bank_helper.h\<close>.  A set of banks is a 32-bit mask; bank 0 of
  the enumeration (\<open>MEMORY_BANK_SYSTEM\<close>) is the empty mask.  The helper splits an allocation
  evenly over the banks of its mask ("colouring").  Its constructor loops while
  \<open>mask <= memoryBanks\<close>; the loop is a partial function because the shifted mask wraps to 0.
\<close>

section \<open>Alignment\<close>

definition alignUp :: "u64 \<Rightarrow> u64 \<Rightarrow> u64" where
  "alignUp sz alignementBits =
     (let alignementVal = push_bit (unat alignementBits) 1;
          alignementMask = alignementVal - 1
      in (sz + alignementMask) AND NOT alignementMask)"

definition alignDown :: "u64 \<Rightarrow> u64 \<Rightarrow> u64" where
  "alignDown address alignementBits =
     (let alignementVal = push_bit (unat alignementBits) 1;
          alignementMask = alignementVal - 1
      in address AND NOT alignementMask)"

lemma push_bit_one: "push_bit n (1::'a::len word) = 2 ^ n"
  by (simp add: push_bit_eq_mult)

lemma unat_alignDown:
  "unat (alignDown a b) = unat a div 2 ^ unat b * 2 ^ unat b"
  by (simp add: alignDown_def Let_def push_bit_one unat_high_bits)

lemma unat_alignUp:
  assumes "unat b < 64" and "unat s + 2 ^ unat b - 1 < 2 ^ 64"
  shows "unat (alignUp s b) = (unat s + 2 ^ unat b - 1) div 2 ^ unat b * 2 ^ unat b"
  using assms by (simp add: alignUp_def Let_def push_bit_one unat_round_up)

section \<open>Banks\<close>

definition KB :: u32 where "KB = 1024"
definition MB :: u32 where "MB = 1024 * KB"
definition GB :: u32 where "GB = 1024 * MB"

definition MEMORY_BANK_SYSTEM :: u32 where "MEMORY_BANK_SYSTEM = 0"
definition MEMORY_BANK_0 :: u32 where "MEMORY_BANK_0 = 1"
definition MEMORY_BANKS_ALL :: u32 where "MEMORY_BANKS_ALL = 0xffffffff"

text \<open>The enumerators of \<^verbatim>\<open>MemoryBank\<close> in order.\<close>

definition MemoryBank_values :: "u32 list" where
  "MemoryBank_values =
     [0, 1, 2, 4, 8, 16, 32, 64, 128, 256, 512, 1024, 2048, 4096, 8192, 16384, 32768,
      65536, 131072, 262144, 524288, 1048576, 2097152, 4194304, 8388608, 16777216,
      33554432, 67108864, 134217728, 268435456, 536870912, 1073741824, 2147483648,
      0xffffffff]"

definition MEMORY_BANK :: "u32 \<Rightarrow> u32" where
  "MEMORY_BANK device = push_bit (unat device) MEMORY_BANK_0"

function toMemoryBankId_loop :: "u32 \<Rightarrow> u32 \<Rightarrow> u32" where
  "toMemoryBankId_loop bank n =
     (let bank' = drop_bit 1 bank
      in if bank' \<noteq> 0 then toMemoryBankId_loop bank' (n + 1) else n)"
  by pat_completeness auto
termination
proof (relation "measure (\<lambda>(bank, n). unat bank)")
  fix bank x :: u32 and n :: u32
  assume x: "x = drop_bit 1 bank" and "x \<noteq> 0"
  then have "0 < unat (drop_bit 1 bank)"
    by (metis unat_gt_0)
  then have "0 < unat bank div 2"
    by (simp only: unat_shift_right power_one_right)
  then show "((x, n + 1), (bank, n)) \<in> measure (\<lambda>(bank, n). unat bank)"
    by (simp only: x unat_shift_right power_one_right in_measure case_prod_conv)
qed simp

declare toMemoryBankId_loop.simps [simp del]

definition toMemoryBankId :: "u32 \<Rightarrow> u32" where
  "toMemoryBankId mb = toMemoryBankId_loop mb 0"

subsection \<open>Printing a set of banks\<close>

text \<open>\<open>operator<<\<close> of an output stream on integers: decimal, and hexadecimal with \<open>showbase\<close>.\<close>

definition digit_char :: "nat \<Rightarrow> char" where
  "digit_char d = ''0123456789abcdef'' ! d"

fun show_base :: "nat \<Rightarrow> nat \<Rightarrow> string" where
  "show_base b n =
     (if b \<le> 1 \<or> n < b then [digit_char n] else show_base b (n div b) @ [digit_char (n mod b)])"

declare show_base.simps [simp del]

definition show_dec :: "nat \<Rightarrow> string" where
  "show_dec n = show_base 10 n"

definition show_hex :: "nat \<Rightarrow> string" where
  "show_hex n = (if n = 0 then ''0'' else ''0x'' @ show_base 16 n)"

function memoryBanksToString_loop :: "u32 \<Rightarrow> nat \<Rightarrow> string \<Rightarrow> string" where
  "memoryBanksToString_loop memoryBanks i separator =
     (if memoryBanks \<noteq> 0
      then (if memoryBanks AND 1 \<noteq> 0 then separator @ ''bank'' @ show_dec i else [])
           @ memoryBanksToString_loop (drop_bit 1 memoryBanks) (i + 1) separator
      else [])"
  by pat_completeness auto
termination
proof (relation "measure (\<lambda>(m, i, s). unat m)")
  fix m :: u32 and i :: nat and s :: string
  assume "m \<noteq> 0"
  then have "0 < unat m"
    by (simp add: unat_gt_0)
  then show "((drop_bit 1 m, i + 1, s), (m, i, s)) \<in> measure (\<lambda>(m, i, s). unat m)"
    by (simp only: in_measure case_prod_conv unat_shift_right power_one_right)
qed simp

declare memoryBanksToString_loop.simps [simp del]

definition memoryBanksToString :: "u32 \<Rightarrow> string \<Rightarrow> string" where
  "memoryBanksToString memoryBanks separator =
     (if memoryBanks \<noteq> 0 then memoryBanksToString_loop memoryBanks 0 separator
      else separator @ ''sys'')"

section \<open>Splitting an allocation over banks\<close>

record MemoryBankHelper =
  mbh_memoryBanks :: u32
  mbh_initialGfxAddress :: u64
  mbh_size :: usize
  mbh_colorSize :: usize
  mbh_numberOfBanks :: u32
  mbh_singleBanks :: "u32 list"

text \<open>The \<open>do ... while (mask <= memoryBanks)\<close> loop of the constructor.\<close>

partial_function (option) singleBanks_loop :: "u32 \<Rightarrow> u32 \<Rightarrow> u32 list \<Rightarrow> u32 list option" where
  "singleBanks_loop memoryBanks msk singleBanks =
     (let singleBanks' = (if msk AND memoryBanks \<noteq> 0 then singleBanks @ [msk] else singleBanks);
          msk' = push_bit 1 msk
      in if msk' \<le> memoryBanks then singleBanks_loop memoryBanks msk' singleBanks'
         else Some singleBanks')"

declare singleBanks_loop.simps [code]

definition makeMemoryBankHelper :: "u32 \<Rightarrow> u64 \<Rightarrow> usize \<Rightarrow> MemoryBankHelper option" where
  "makeMemoryBankHelper memoryBanksIn initialGfxAddress sz =
     (case singleBanks_loop memoryBanksIn 1 [] of
        None \<Rightarrow> None
      | Some singleBanks \<Rightarrow>
          (let numberOfBanks = word_of_nat (length singleBanks) :: u32;
               colorSize = (if numberOfBanks > 0 then sz div ucast numberOfBanks else 1)
           in Some \<lparr>mbh_memoryBanks = memoryBanksIn, mbh_initialGfxAddress = initialGfxAddress,
                    mbh_size = sz, mbh_colorSize = colorSize, mbh_numberOfBanks = numberOfBanks,
                    mbh_singleBanks = singleBanks\<rparr>))"

definition getMemoryBank :: "MemoryBankHelper \<Rightarrow> u64 \<Rightarrow> u32 result" where
  "getMemoryBank h gfxAddress =
     (if mbh_numberOfBanks h = 0 then Inr 0
      else if mbh_numberOfBanks h = 1 then Inr (mbh_singleBanks h ! 0)
      else assertR (gfxAddress \<ge> mbh_initialGfxAddress h)
        (if mbh_colorSize h = 0 then Inl DivisionByZero
         else (let diff = gfxAddress - mbh_initialGfxAddress h
               in Inr (mbh_singleBanks h !
                    unat ((diff div mbh_colorSize h) mod ucast (mbh_numberOfBanks h))))))"


section \<open>Properties\<close>

subsection \<open>The bank list\<close>

definition bank_list :: "u32 \<Rightarrow> u32 list" where
  "bank_list banks = map (\<lambda>i. 2 ^ i) (filter (bit banks) [0..<32])"

lemma and_power_nonzero_iff:
  fixes x :: "'a::len word"
  assumes "i < LENGTH('a)"
  shows "2 ^ i AND x \<noteq> 0 \<longleftrightarrow> bit x i"
proof -
  have "2 ^ i AND x = of_bool (bit x i) * 2 ^ i"
    by (rule bit_eqI) (auto simp: bit_simps)
  moreover have "(2 ^ i :: 'a word) \<noteq> 0"
    using assms by simp
  ultimately show ?thesis
    by simp
qed

lemma high_bits_unset:
  fixes x :: "'a::len word"
  assumes "unat x < 2 ^ n" and "n \<le> i"
  shows "\<not> bit x i"
proof
  assume "bit x i"
  then have "bit (unat x) i"
    by (simp add: bit_unsigned_iff)
  moreover have "take_bit n (unat x) = unat x"
    using assms(1) by (simp add: take_bit_nat_eq_self)
  ultimately show False
    using assms(2) by (metis bit_take_bit_iff not_less)
qed

lemma shifted_power: "push_bit 1 (2 ^ i :: u32) = 2 ^ Suc i"
  by (simp add: push_bit_eq_mult)

lemma power_zero_or_small: "(2 ^ j :: u32) = 0 \<or> j < 32"
  by (cases "j < 32") (simp_all add: word_exp_length_eq_0 exp_eq_zero_iff)

lemma singleBanks_loop_step:
  assumes "i < 32"
  shows "singleBanks_loop banks (2 ^ i) acc =
    (if 2 ^ Suc i \<le> banks
     then singleBanks_loop banks (2 ^ Suc i) (if bit banks i then acc @ [2 ^ i] else acc)
     else Some (if bit banks i then acc @ [2 ^ i] else acc))"
proof -
  have i: "2 ^ i AND banks \<noteq> 0 \<longleftrightarrow> bit banks i"
    using assms by (intro and_power_nonzero_iff) simp
  show ?thesis
    by (subst singleBanks_loop.simps) (simp only: Let_def i shifted_power)
qed

lemma singleBanks_loop_from:
  assumes "unat banks < 2 ^ 31" and "i \<le> 30"
  shows "singleBanks_loop banks (2 ^ i) acc
           = Some (acc @ map (\<lambda>j. 2 ^ j) (filter (bit banks) [i..<31]))"
  using assms(2)
proof (induction "30 - i" arbitrary: i acc)
  case 0
  then have i: "i = 30" by simp
  have "\<not> (2 ^ Suc 30 :: u32) \<le> banks"
    using assms(1) by (simp add: word_le_nat_alt)
  moreover have "[30..<31] = [30::nat]"
    by (simp add: upt_rec)
  ultimately show ?case
    using singleBanks_loop_step [of 30 banks acc] by (simp add: i)
next
  case (Suc n)
  then have i: "i < 30" by simp
  have step: "[i..<31] = i # [Suc i..<31]"
    using i by (simp add: upt_conv_Cons)
  note unfold = singleBanks_loop_step [of i banks acc]
  show ?case
  proof (cases "(2 ^ Suc i :: u32) \<le> banks")
    case True
    have "n = 30 - Suc i" and "Suc i \<le> 30"
      using Suc.hyps(2) i by simp_all
    note IH = Suc.hyps(1) [OF this]
    show ?thesis
      using i by (simp add: unfold True IH step del: power_Suc)
  next
    case False
    then have "unat banks < 2 ^ Suc i"
      using i by (simp add: word_le_nat_alt unat_two_power del: power_Suc)
    then have none: "filter (bit banks) [Suc i..<31] = []"
      using high_bits_unset [of banks "Suc i"] by (auto simp: filter_empty_conv simp del: power_Suc)
    show ?thesis
      using i by (simp add: unfold False none step del: power_Suc)
  qed
qed

lemma singleBanks_loop_Some:
  assumes "unat banks < 2 ^ 31"
  shows "singleBanks_loop banks 1 [] = Some (bank_list banks)"
proof -
  have "[0..<32] = [0..<31] @ [31::nat]"
    using upt_Suc_append [of 0 31] by simp
  then have "bank_list banks = map (\<lambda>j. 2 ^ j) (filter (bit banks) [0..<31])"
    using high_bits_unset [of banks 31 31] assms by (simp add: bank_list_def)
  then show ?thesis
    using singleBanks_loop_from [OF assms, of 0 "[]"] by simp
qed

lemma singleBanks_loop_diverges:
  assumes ret: "singleBanks_loop banks msk acc = Some r"
    and "2 ^ 31 \<le> unat banks" and "msk = 0 \<or> (\<exists>i. msk = 2 ^ i)"
  shows False
proof -
  let ?P = "\<lambda>banks msk acc r. \<not> (2 ^ 31 \<le> unat banks \<and> (msk = 0 \<or> (\<exists>i. msk = 2 ^ i)))"
  have "?P banks msk acc r"
  proof (rule singleBanks_loop.raw_induct [where P = ?P, OF _ ret])
    fix f :: "u32 \<Rightarrow> u32 \<Rightarrow> u32 list \<Rightarrow> u32 list option" and banks msk acc r
    assume IH: "\<And>banks msk acc r. f banks msk acc = Some r \<Longrightarrow> ?P banks msk acc r"
      and eq: "(let acc' = if msk AND banks \<noteq> 0 then acc @ [msk] else acc; msk' = push_bit 1 msk
        in if msk' \<le> banks then f banks msk' acc' else Some acc') = Some r"
    show "?P banks msk acc r"
    proof
      assume h: "2 ^ 31 \<le> unat banks \<and> (msk = 0 \<or> (\<exists>i. msk = 2 ^ i))"
      then have "push_bit 1 msk = 0 \<or> (\<exists>j. push_bit 1 msk = 2 ^ j)"
        by (metis push_bit_of_0 shifted_power)
      then obtain j where j: "push_bit 1 msk = 0 \<or> push_bit 1 msk = 2 ^ j \<and> j < 32"
        by (metis power_zero_or_small)
      moreover have "(2::nat) ^ j \<le> 2 ^ 31" if "j < 32"
        by (rule power_increasing) (use that in simp_all)
      ultimately have "unat (push_bit 1 msk) \<le> 2 ^ 31"
        using unat_two_power [of j, where 'a = 32] by fastforce
      then have "push_bit 1 msk \<le> banks"
        using h by (simp add: word_le_nat_alt)
      with eq obtain acc' where "f banks (push_bit 1 msk) acc' = Some r"
        by (auto simp: Let_def)
      from IH [OF this] show False
        using h j by auto
    qed
  qed
  with assms show False by blast
qed


lemma makeMemoryBankHelper_Some:
  assumes "unat banks < 2 ^ 31"
  shows "makeMemoryBankHelper banks a sz =
    Some \<lparr>mbh_memoryBanks = banks, mbh_initialGfxAddress = a, mbh_size = sz,
      mbh_colorSize = (if 0 < length (bank_list banks) then sz div word_of_nat (length (bank_list banks)) else 1),
      mbh_numberOfBanks = word_of_nat (length (bank_list banks)), mbh_singleBanks = bank_list banks\<rparr>"
proof -
  have len: "length (bank_list banks) \<le> 32"
    using length_filter_le [of "bit banks" "[0..<32]"] by (simp add: bank_list_def)
  then have "unat (word_of_nat (length (bank_list banks)) :: u32) = length (bank_list banks)"
    by (simp add: unat_word_of_nat_small)
  then have "(word_of_nat (length (bank_list banks)) :: u32) > 0 \<longleftrightarrow> 0 < length (bank_list banks)"
    by (metis unat_gt_0 word_neq_0_conv)
  then show ?thesis
    using len by (simp add: makeMemoryBankHelper_def singleBanks_loop_Some [OF assms] Let_def ucast_word_of_nat_small)
qed

lemma bank_list_elem: "b \<in> set (bank_list banks) \<longleftrightarrow> (\<exists>i<32. b = 2 ^ i \<and> bit banks i)"
  by (auto simp: bank_list_def)


lemma getMemoryBank_cases:
  assumes "unat banks < 2 ^ 31" and "banks \<noteq> 0" and "32 \<le> unat sz"
    and "makeMemoryBankHelper banks a sz = Some h" and "a \<le> gfx"
  shows "\<exists>k < length (bank_list banks). getMemoryBank h gfx = Inr (bank_list banks ! k)
    \<and> k = (unat (gfx - a) div (unat sz div length (bank_list banks))) mod length (bank_list banks)"
proof -
  let ?n = "length (bank_list banks)"
  have len: "?n \<le> 32"
    using length_filter_le [of "bit banks" "[0..<32]"] by (simp add: bank_list_def)
  obtain i where "bit banks i"
    using assms(2) by (metis bit_eqI bit_0_eq bot_apply bot_bool_def)
  then have "i < 32"
    using bit_imp_le_length [of banks i] by simp
  with \<open>bit banks i\<close> have pos: "0 < ?n"
    by (auto simp: bank_list_def filter_empty_conv)
  note h = makeMemoryBankHelper_Some [OF assms(1), of a sz] assms(4)
  have u32: "unat (word_of_nat ?n :: u32) = ?n" and u64: "unat (word_of_nat ?n :: u64) = ?n"
    using len by (simp_all add: unat_word_of_nat_small)
  have col: "unat (sz div word_of_nat ?n) = unat sz div ?n"
    by (simp add: unat_div u64)
  have "0 < unat sz div ?n"
    using assms(3) len pos by (simp add: div_greater_zero_iff)
  then have nz: "sz div word_of_nat ?n \<noteq> 0"
    by (metis col less_numeral_extra(3) unat_0)
  have idx: "unat ((gfx - a) div (sz div word_of_nat ?n) mod word_of_nat ?n)
      = unat (gfx - a) div (unat sz div ?n) mod ?n"
    by (simp add: unat_mod unat_div u64)
  show ?thesis
  proof (cases "?n = 1")
    case True
    then show ?thesis
      using h pos by (auto simp: getMemoryBank_def)
  next
    case False
    then have "word_of_nat ?n \<noteq> (0::u32)" "word_of_nat ?n \<noteq> (1::u32)"
      using u32 pos by (metis unat_0 less_numeral_extra(3), metis unat_1)
    then show ?thesis
      using h pos len assms(5) nz
      by (intro exI [of _ "unat (gfx - a) div (unat sz div ?n) mod ?n"])
         (auto simp: getMemoryBank_def Let_def idx ucast_word_of_nat_small)
  qed
qed


subsection \<open>Claims\<close>

text \<open>AlignUp returns the least multiple of the power of two that is not below the size,
  whenever the rounding does not overflow 64 bits.\<close>

theorem alignUp_least:
  assumes "unat b < 64" and "unat s + 2 ^ unat b - 1 < 2 ^ 64"
  shows "2 ^ unat b dvd unat (alignUp s b) \<and> unat s \<le> unat (alignUp s b)
    \<and> (\<forall>m. 2 ^ unat b dvd m \<and> unat s \<le> m \<longrightarrow> unat (alignUp s b) \<le> m)"
  using round_up_ge [of "2 ^ unat b" "unat s"] round_up_least [of "2 ^ unat b" _ "unat s"]
  by (simp add: unat_alignUp [OF assms])

theorem alignUp_least_witness:
  "unat (alignUp 0x100001 20) = 0x200000 \<and> unat (alignUp 0x100001 20) \<le> 0x300000"
proof -
  have "unat (20::u64) < 64" and "unat (0x100001::u64) + 2 ^ unat (20::u64) - 1 < 2 ^ 64"
    by simp_all
  from alignUp_least [OF this] show ?thesis
    by (simp add: alignUp_def Let_def)
qed

text \<open>For a mask that does not contain bank 31 the constructor of MemoryBankHelper terminates
  and lists exactly the one-bit masks of the banks in the mask, in ascending order.\<close>

theorem singleBanks_terminates:
  assumes "unat banks < 2 ^ 31"
  shows "singleBanks_loop banks 1 [] = Some (map (\<lambda>i. 2 ^ i) (filter (bit banks) [0..<32]))"
  using singleBanks_loop_Some [OF assms] by (simp add: bank_list_def)

theorem singleBanks_terminates_witness:
  "singleBanks_loop 5 1 [] = Some [1, 4]"
proof -
  have "unat (5::u32) < 2 ^ 31"
    by simp
  from singleBanks_terminates [OF this] show ?thesis
    by (simp add: upt_rec bit_simps)
qed

text \<open>C31: for every mask that contains bank 31, such as \<open>MEMORY_BANKS_ALL\<close>, the constructor of
  MemoryBankHelper does not terminate: the shifted mask wraps to 0 and stays below the mask.\<close>

theorem singleBanks_bank31_diverges:
  assumes "2 ^ 31 \<le> unat banks"
  shows "singleBanks_loop banks 1 [] = None \<and> makeMemoryBankHelper banks a sz = None"
proof -
  have "singleBanks_loop banks 1 [] = None"
  proof (rule ccontr)
    assume "singleBanks_loop banks 1 [] \<noteq> None"
    then obtain r where "singleBanks_loop banks 1 [] = Some r"
      by auto
    then show False
      by (rule singleBanks_loop_diverges [OF _ assms]) (metis power_0)
  qed
  then show ?thesis
    by (simp add: makeMemoryBankHelper_def)
qed

theorem singleBanks_bank31_diverges_witness:
  "makeMemoryBankHelper MEMORY_BANKS_ALL 0 4096 = None"
proof -
  have "2 ^ 31 \<le> unat MEMORY_BANKS_ALL"
    by (simp add: MEMORY_BANKS_ALL_def)
  from singleBanks_bank31_diverges [OF this, of 0 4096] show ?thesis
    by simp
qed

text \<open>For a non-empty mask without bank 31 and an allocation of at least 32 bytes, the helper
  maps every address of the allocation to one single bank of the mask: it never divides by zero,
  and the bank is the one of the equal slice the address lies in.\<close>

theorem getMemoryBank_slice:
  assumes "unat banks < 2 ^ 31" and "banks \<noteq> 0" and "32 \<le> unat sz"
    and "makeMemoryBankHelper banks a sz = Some h" and "a \<le> gfx"
  shows "\<exists>i < 32. getMemoryBank h gfx = Inr (2 ^ i) \<and> bit banks i
    \<and> 2 ^ i = bank_list banks ! ((unat (gfx - a) div (unat sz div length (bank_list banks)))
                 mod length (bank_list banks))"
proof -
  from getMemoryBank_cases [OF assms] obtain k where k: "k < length (bank_list banks)"
    and bank: "getMemoryBank h gfx = Inr (bank_list banks ! k)"
    and slice: "k = (unat (gfx - a) div (unat sz div length (bank_list banks)))
                 mod length (bank_list banks)"
    by auto
  from nth_mem [OF k] obtain i where "i < 32" "bank_list banks ! k = 2 ^ i" "bit banks i"
    by (auto simp: bank_list_elem)
  then show ?thesis
    using bank slice by metis
qed

theorem getMemoryBank_slice_witness:
  "\<exists>i < 32. getMemoryBank \<lparr>mbh_memoryBanks = 3, mbh_initialGfxAddress = 0x10000, mbh_size = 0x20000,
      mbh_colorSize = 0x10000, mbh_numberOfBanks = 2, mbh_singleBanks = [1, 2]\<rparr> 0x20000 = Inr (2 ^ i)
    \<and> bit (3::u32) i \<and> (2 ^ i :: u32) = 2"
proof -
  have list: "bank_list 3 = [1, 2]"
    by (simp add: bank_list_def upt_rec bit_simps)
  have mk: "makeMemoryBankHelper 3 0x10000 0x20000 = Some \<lparr>mbh_memoryBanks = 3,
      mbh_initialGfxAddress = 0x10000, mbh_size = 0x20000, mbh_colorSize = 0x10000,
      mbh_numberOfBanks = 2, mbh_singleBanks = [1, 2]\<rparr>"
    using makeMemoryBankHelper_Some [of 3 "0x10000" "0x20000"] by (simp add: list)
  have "(0x10000::u64) \<le> 0x20000"
    by simp
  from getMemoryBank_slice [OF _ _ _ mk this] show ?thesis
    by (simp add: list flip: numeral_2_eq_2)
qed

end
