(* ===== verification/GpuModel.thy ===== *)
theory GpuModel
  imports MemoryBanks
begin

text \<open>
  The description of a GPU: \<^verbatim>\<open>gpu.h\<close>, \<^verbatim>\<open>gpu.cpp\<close> and the parameter structures of
  \<^verbatim>\<open>include/aubstream\<close>.  The virtual functions that the product families override are the fields of
  the record \<open>Gpu\<close>; the functions of the base class are definitions over it.  Writing a register is
  reported as the list of the register writes, in order.
\<close>

section \<open>Parameter structures\<close>

record AdditionalParams =
  compressionEnabled :: bool
  uncached :: bool

definition noAdditionalParams :: AdditionalParams where
  "noAdditionalParams = \<lparr>compressionEnabled = False, uncached = False\<rparr>"

record AllocationParams =
  ap_gfxAddress :: u64
  ap_memory :: "u8 list option"
  ap_size :: usize
  ap_memoryBanks :: u32
  ap_hint :: int
  ap_pageSize :: usize
  ap_additionalParams :: AdditionalParams

definition makeAllocationParams ::
  "u64 \<Rightarrow> u8 list option \<Rightarrow> usize \<Rightarrow> u32 \<Rightarrow> int \<Rightarrow> usize \<Rightarrow> AllocationParams" where
  "makeAllocationParams gfxAddress memory sz memoryBanks hint pageSize =
     \<lparr>ap_gfxAddress = gfxAddress, ap_memory = memory, ap_size = sz, ap_memoryBanks = memoryBanks,
      ap_hint = hint, ap_pageSize = pageSize, ap_additionalParams = noAdditionalParams\<rparr>"

record PageInfo =
  pi_physicalAddress :: u64
  pi_size :: usize
  pi_isLocalMemory :: bool
  pi_memoryBank :: u32

type_synonym MMIOPair = "u32 \<times> u32"
type_synonym MMIOList = "MMIOPair list"

record MaskedMMIO =
  mm_offset :: u32
  mm_value :: u32
  mm_mask :: u32

section \<open>Stolen memory\<close>

text \<open>Memory the driver takes from the top of each bank.\<close>

datatype StolenMemory =
    StolenMemoryInHeap u64 "u64 list"
  | StolenMemoryInStaticStorage u64 u64

primrec stolenMemory_size :: "StolenMemory \<Rightarrow> u64" where
  "stolenMemory_size (StolenMemoryInHeap sz localStolenStorage) = sz"
| "stolenMemory_size (StolenMemoryInStaticStorage sz staticMemoryBankSize) = sz"

primrec stolenMemory_getBaseAddress :: "StolenMemory \<Rightarrow> u32 \<Rightarrow> u64 result" where
  "stolenMemory_getBaseAddress (StolenMemoryInHeap sz localStolenStorage) device =
     (if unat device < length localStolenStorage then Inr (localStolenStorage ! unat device)
      else Inl IndexOutOfRange)"
| "stolenMemory_getBaseAddress (StolenMemoryInStaticStorage sz staticMemoryBankSize) device =
     Inr (alignDown (staticMemoryBankSize * ucast (device + 1) - sz) 20)"

text \<open>The host allocator answers the call for device \<open>d\<close> with \<open>aligned_alloc d size alignment\<close>.\<close>

definition makeStolenMemoryInHeap :: "(nat \<Rightarrow> usize \<Rightarrow> usize \<Rightarrow> u64) \<Rightarrow> u32 \<Rightarrow> u64 \<Rightarrow> StolenMemory" where
  "makeStolenMemoryInHeap aligned_alloc deviceCount sz =
     StolenMemoryInHeap sz (map (\<lambda>d. aligned_alloc d sz (ucast MB)) [0..<unat deviceCount])"

definition CreateStolenMemory ::
  "(nat \<Rightarrow> usize \<Rightarrow> usize \<Rightarrow> u64) \<Rightarrow> bool \<Rightarrow> u32 \<Rightarrow> u64 \<Rightarrow> u64 \<Rightarrow> StolenMemory option" where
  "CreateStolenMemory aligned_alloc inHeap deviceCount memoryBankSize sz =
     (if memoryBankSize < sz then None
      else if inHeap then Some (makeStolenMemoryInHeap aligned_alloc deviceCount sz)
      else Some (StolenMemoryInStaticStorage sz memoryBankSize))"

section \<open>The GPU\<close>

text \<open>
  \<open>gpu_getDSMDefaultSize\<close> is \<open>None\<close> for a family that keeps the default of the base class.
\<close>

record Gpu =
  gpu_productFamily :: u32
  gpu_gfxCoreFamily :: u32
  gpu_productAbbreviation :: string
  gpu_deviceId :: u32
  gpu_deviceCount :: u32
  gpu_isMemorySupported :: "u32 \<Rightarrow> u32 \<Rightarrow> bool"
  gpu_getSupportedEngines :: "u32 list"
  gpu_requireLocalMemoryForPageTables :: bool
  gpu_getGlobalMMIO :: MMIOList
  gpu_getGlobalMMIOPlatformSpecific :: MMIOList
  gpu_getPPGTTExtraEntryBits :: "AdditionalParams \<Rightarrow> u64"
  gpu_getWOPCMDefaultSize :: u64
  gpu_getDSMDefaultSize :: "u64 option"
  gpu_getGSMSize :: u64
  gpu_getContextGroupCount :: u32
  gpu_stolenMemory :: "StolenMemory option"
  gpu_programAdditionalEngineMMIO :: bool
  gpu_dsmSizeOverride :: u64
  gpu_wopcmSizeOverride :: u64

definition mmioDeviceOffset :: u32 where
  "mmioDeviceOffset = 16 * MB"

definition isEngineSupported :: "'z Gpu_scheme \<Rightarrow> u32 \<Rightarrow> bool" where
  "isEngineSupported gpu engine = List.member (gpu_getSupportedEngines gpu) engine"

definition isValidDataStolenMemorySize :: "u64 \<Rightarrow> bool" where
  "isValidDataStolenMemorySize dataStolenMemorySize =
     (let mask1MB = push_bit 20 1 - 1
      in if dataStolenMemorySize AND mask1MB \<noteq> 0 then False
         else if dataStolenMemorySize > 2 * 1024 * 1024 * 1024 then False
         else True)"

definition initializeGlobalMMIO :: "'z Gpu_scheme \<Rightarrow> MMIOList" where
  "initializeGlobalMMIO gpu = gpu_getGlobalMMIO gpu @ gpu_getGlobalMMIOPlatformSpecific gpu"

text \<open>Registers are written with their mask; the offset of the device advances by 16 MB.\<close>

fun injectMMIOs_loop :: "MaskedMMIO list \<Rightarrow> u32 \<Rightarrow> nat \<Rightarrow> MaskedMMIO list" where
  "injectMMIOs_loop injected mmioDevice 0 = []"
| "injectMMIOs_loop injected mmioDevice (Suc devices) =
     map (\<lambda>m. m\<lparr>mm_offset := mmioDevice + mm_offset m\<rparr>) injected
     @ injectMMIOs_loop injected (mmioDevice + mmioDeviceOffset) devices"

definition injectMMIOs :: "MaskedMMIO list \<Rightarrow> u32 \<Rightarrow> MaskedMMIO list" where
  "injectMMIOs MMIOListInjected devicesCount = injectMMIOs_loop MMIOListInjected 0 (unat devicesCount)"

definition getWOPCMSize :: "'z Gpu_scheme \<Rightarrow> u64" where
  "getWOPCMSize gpu = (if gpu_wopcmSizeOverride gpu \<noteq> 0 then gpu_wopcmSizeOverride gpu
     else gpu_getWOPCMDefaultSize gpu)"

definition getDSMDefaultSize :: "'z Gpu_scheme \<Rightarrow> u64" where
  "getDSMDefaultSize gpu = (case gpu_getDSMDefaultSize gpu of None \<Rightarrow> getWOPCMSize gpu | Some sz \<Rightarrow> sz)"

definition getDSMSize :: "'z Gpu_scheme \<Rightarrow> u64" where
  "getDSMSize gpu = (if gpu_dsmSizeOverride gpu \<noteq> 0 then gpu_dsmSizeOverride gpu
     else getDSMDefaultSize gpu)"

definition getFlatCCSSize :: "u64 \<Rightarrow> u64" where
  "getFlatCCSSize memoryBankSize = alignUp (memoryBankSize div 256) 20"

definition getStolenMemorySize :: "'z Gpu_scheme \<Rightarrow> u64 \<Rightarrow> u64" where
  "getStolenMemorySize gpu memoryBankSize =
     getFlatCCSSize memoryBankSize + gpu_getGSMSize gpu + getDSMSize gpu"

definition overrideDSMSize :: "u64 \<Rightarrow> 'z Gpu_scheme \<Rightarrow> 'z Gpu_scheme" where
  "overrideDSMSize dsmSize gpu = gpu\<lparr>gpu_dsmSizeOverride := dsmSize\<rparr>"

definition overrideWOPCMSize :: "u64 \<Rightarrow> 'z Gpu_scheme \<Rightarrow> 'z Gpu_scheme" where
  "overrideWOPCMSize wopcmSize gpu = gpu\<lparr>gpu_wopcmSizeOverride := wopcmSize\<rparr>"

definition getDSMBaseAddress :: "'z Gpu_scheme \<Rightarrow> u32 \<Rightarrow> u64 result" where
  "getDSMBaseAddress gpu device =
     (case gpu_stolenMemory gpu of
        None \<Rightarrow> Inl AssertionFailure
      | Some m \<Rightarrow> bindR (stolenMemory_getBaseAddress m device)
                   (\<lambda>base. Inr (base + stolenMemory_size m - getDSMSize gpu)))"

definition getWOPCMBaseAddress :: "'z Gpu_scheme \<Rightarrow> u32 \<Rightarrow> u64 result" where
  "getWOPCMBaseAddress gpu device =
     bindR (getDSMBaseAddress gpu device) (\<lambda>dsm. Inr (dsm + getDSMSize gpu - getWOPCMSize gpu))"

definition getGSMBaseAddress :: "'z Gpu_scheme \<Rightarrow> u32 \<Rightarrow> u64 result" where
  "getGSMBaseAddress gpu device =
     bindR (getDSMBaseAddress gpu device) (\<lambda>dsm. Inr (dsm - gpu_getGSMSize gpu))"

section \<open>Layout of the stolen memory\<close>

lemma unat_MB_aligned_down:
  fixes a :: u64
  shows "unat (alignDown a 20) = unat a div 2 ^ 20 * 2 ^ 20"
  using unat_alignDown [of a 20] by simp

lemma unat_of_device:
  "unat d < 2 ^ 32 - 1 \<Longrightarrow> unat (ucast (d + 1 :: u32) :: u64) = unat d + 1"
proof -
  assume "unat d < 2 ^ 32 - 1"
  then have "unat (d + 1) = unat d + 1"
    by (simp add: unat_add_small)
  moreover have "unat d + 1 < 2 ^ 64"
    using unat_bound32 [of d] by simp
  ultimately show ?thesis
    by (simp add: unsigned_ucast_eq take_bit_nat_eq_self)
qed

text \<open>The base of the static stolen memory of a device, in exact arithmetic.\<close>

lemma static_base:
  assumes "unat d < 2 ^ 32 - 1" and "unat bankSize * (unat d + 1) < 2 ^ 64" and "unat sz \<le> unat bankSize"
    and "stolenMemory_getBaseAddress (StolenMemoryInStaticStorage sz bankSize) d = Inr base"
  shows "unat base = (unat bankSize * (unat d + 1) - unat sz) div 2 ^ 20 * 2 ^ 20"
proof -
  have top: "unat (bankSize * ucast (d + 1)) = unat bankSize * (unat d + 1)"
    using assms(2) unat_of_device [OF assms(1)] by (simp add: unat_word_ariths)
  have "unat sz \<le> unat bankSize * (unat d + 1)"
    using assms(3) by (simp add: trans_le_add1)
  then have "unat (bankSize * ucast (d + 1) - sz) = unat bankSize * (unat d + 1) - unat sz"
    by (subst unat_sub) (simp_all add: word_le_nat_alt top)
  then show ?thesis
    using assms(4) by (auto simp: unat_MB_aligned_down)
qed

lemma dvd_round_down_le:
  fixes m n d :: nat
  assumes "0 < d" and "d dvd m" and "m \<le> n"
  shows "m \<le> n div d * d"
  using assms by (metis div_le_mono dvd_div_mult_self mult_le_mono1)

lemma static_stolen_bounds:
  assumes "unat d < 2 ^ 32 - 1" and "unat bankSize * (unat d + 1) < 2 ^ 64" and "unat sz \<le> unat bankSize"
    and "2 ^ 20 dvd unat bankSize"
    and "stolenMemory_getBaseAddress (StolenMemoryInStaticStorage sz bankSize) d = Inr base"
  shows "2 ^ 20 dvd unat base \<and> unat bankSize * unat d \<le> unat base
    \<and> unat base + unat sz \<le> unat bankSize * (unat d + 1)"
proof -
  let ?top = "unat bankSize * (unat d + 1)"
  note base = static_base [OF assms(1-3,5)]
  have "unat bankSize * unat d \<le> ?top - unat sz"
    using assms(3) by simp
  then have "unat bankSize * unat d \<le> unat base"
    unfolding base by (intro dvd_round_down_le) (use assms(4) in auto)
  moreover have "unat base \<le> ?top - unat sz"
    unfolding base by (rule div_times_less_eq_dividend)
  moreover have "unat sz \<le> ?top"
    using assms(3) by (simp add: trans_le_add1)
  ultimately show ?thesis
    using base by auto
qed

section \<open>Claims\<close>


definition example_gpu :: Gpu where
  "example_gpu = \<lparr>gpu_productFamily = 0, gpu_gfxCoreFamily = 0, gpu_productAbbreviation = ''test'',
     gpu_deviceId = 0, gpu_deviceCount = 1, gpu_isMemorySupported = (\<lambda>banks alignment. True),
     gpu_getSupportedEngines = [0], gpu_requireLocalMemoryForPageTables = False,
     gpu_getGlobalMMIO = [], gpu_getGlobalMMIOPlatformSpecific = [],
     gpu_getPPGTTExtraEntryBits = (\<lambda>params. 0), gpu_getWOPCMDefaultSize = 0x800000,
     gpu_getDSMDefaultSize = None, gpu_getGSMSize = 0x800000, gpu_getContextGroupCount = 8,
     gpu_stolenMemory = None, gpu_programAdditionalEngineMMIO = False,
     gpu_dsmSizeOverride = 0, gpu_wopcmSizeOverride = 0\<rparr>"


end
