(* ===== verification/Allocator.thy ===== *)
theory Allocator
  imports Prelude "HOL-Library.Multiset"
begin

text \<open>
  The physical address allocators: \<^verbatim>\<open>physical_address_allocator.h\<close> and
  \<^verbatim>\<open>physical_address_allocator.cpp\<close>.  A \<^verbatim>\<open>std::multimap\<close> is an association list kept in key order.
  The host allocator (\<^verbatim>\<open>posix_memalign\<close>) is a parameter: the function \<open>aligned_alloc\<close> gives the
  pointer the n-th call returns, 0 when it fails.  The mutexes are left out: every operation runs
  under its lock, so that operations are sequential.
\<close>

section \<open>Ordered multimaps\<close>

fun mmap_insert :: "'k::linorder \<Rightarrow> 'v \<Rightarrow> ('k \<times> 'v) list \<Rightarrow> ('k \<times> 'v) list" where
  "mmap_insert k v [] = [(k, v)]"
| "mmap_insert k v ((k', v') # m) =
     (if k' \<le> k then (k', v') # mmap_insert k v m else (k, v) # (k', v') # m)"

lemma mset_mmap_insert [simp]: "mset (mmap_insert k v m) = add_mset (k, v) (mset m)"
  by (induction m) auto

lemma set_mmap_insert [simp]: "set (mmap_insert k v m) = insert (k, v) (set m)"
  using mset_mmap_insert [of k v m] by (metis set_mset_add_mset_insert set_mset_mset)

lemma sorted_mmap_insert [simp]:
  "sorted (map fst m) \<Longrightarrow> sorted (map fst (mmap_insert k v m))"
proof (induction m)
  case (Cons x m)
  then show ?case
  proof (cases "fst x \<le> k")
    case False
    then have "k \<le> fst x"
      by simp
    with False Cons.prems show ?thesis
      by (cases x) (auto intro: order_trans)
  qed (cases x; auto)
qed simp

lemma sorted_without:
  "sorted (map fst (ys @ x # zs)) \<Longrightarrow> sorted (map fst (ys @ zs))"
  by (simp add: sorted_append)

section \<open>The simple allocator\<close>

record (overloaded) 'a SimpleAllocator =
  nextAddress :: "'a word"
  usedAllocationsMap :: "('a word \<times> usize) list"
  freeAllocationsMap :: "('a word \<times> usize) list"

definition makeSimpleAllocator :: "'a::len word \<Rightarrow> 'a SimpleAllocator" where
  "makeSimpleAllocator firstAddress =
     \<lparr>nextAddress = firstAddress, usedAllocationsMap = [], freeAllocationsMap = []\<rparr>"

definition alignedAlloc ::
  "usize \<Rightarrow> 'a::len word \<Rightarrow> 'a SimpleAllocator \<Rightarrow> 'a word \<times> 'a SimpleAllocator" where
  "alignedAlloc sz alignment s =
     (case List.extract (\<lambda>(k, v). v = sz) (freeAllocationsMap s) of
        Some (ys, (physicalAddress, v), zs) \<Rightarrow>
          (physicalAddress,
           s\<lparr>usedAllocationsMap := mmap_insert physicalAddress v (usedAllocationsMap s),
             freeAllocationsMap := ys @ zs\<rparr>)
      | None \<Rightarrow>
          (let alignment' = max alignment 4096;
               physicalAddress = (nextAddress s + (alignment' - 1)) AND NOT (alignment' - 1)
           in (physicalAddress,
               s\<lparr>nextAddress := physicalAddress + ucast sz,
                 usedAllocationsMap := mmap_insert physicalAddress sz (usedAllocationsMap s)\<rparr>)))"

definition alignedFree :: "u64 \<Rightarrow> 'a::len SimpleAllocator \<Rightarrow> 'a SimpleAllocator" where
  "alignedFree address s =
     (case List.extract (\<lambda>(k, v). k = ucast address) (usedAllocationsMap s) of
        Some (ys, (k, v), zs) \<Rightarrow>
          s\<lparr>freeAllocationsMap := mmap_insert k v (freeAllocationsMap s),
            usedAllocationsMap := ys @ zs\<rparr>
      | None \<Rightarrow> s)"

section \<open>One allocator per memory bank\<close>

definition reservedGGTTSpace :: usize where "reservedGGTTSpace = 0x80000"

record PhysicalAddressAllocatorSimple =
  mainAllocator :: "64 SimpleAllocator"
  numberOfAllocators :: u32
  allocatorSize :: u64
  allocators :: "64 SimpleAllocator list"

fun bankAllocators :: "nat \<Rightarrow> u64 \<Rightarrow> u64 \<Rightarrow> 64 SimpleAllocator list" where
  "bankAllocators 0 startAddress step = []"
| "bankAllocators (Suc n) startAddress step =
     makeSimpleAllocator (max startAddress 0x1000) # bankAllocators n (startAddress + step) step"

definition makePhysicalAddressAllocatorSimple ::
  "u32 \<Rightarrow> u64 \<Rightarrow> bool \<Rightarrow> PhysicalAddressAllocatorSimple" where
  "makePhysicalAddressAllocatorSimple numAllocators singleAllocatorSize localMemorySupport =
     \<lparr>mainAllocator = makeSimpleAllocator reservedGGTTSpace,
      numberOfAllocators = numAllocators,
      allocatorSize = singleAllocatorSize,
      allocators = bankAllocators (unat numAllocators)
        (if localMemorySupport then singleAllocatorSize div 256 else 0) singleAllocatorSize\<rparr>"

text \<open>
  The loop \<^verbatim>\<open>while ((memoryBank & 1u) == 0)\<close>.  Both callers return before it when the mask is 0, the
  only value for which it would not end; the second conjunct makes the function total there.
\<close>

function allocatorIndex_loop :: "u32 \<Rightarrow> nat \<Rightarrow> nat" where
  "allocatorIndex_loop memoryBank allocatorIndex =
     (if memoryBank AND 1 = 0 \<and> memoryBank \<noteq> 0
      then allocatorIndex_loop (drop_bit 1 memoryBank) (allocatorIndex + 1)
      else allocatorIndex)"
  by pat_completeness auto
termination
proof (relation "measure (\<lambda>(m, i). unat m)")
  fix m :: u32 and i :: nat
  assume "m AND 1 = 0 \<and> m \<noteq> 0"
  then have "0 < unat m"
    by (simp add: unat_gt_0)
  then show "((drop_bit 1 m, i + 1), (m, i)) \<in> measure (\<lambda>(m, i). unat m)"
    by (simp only: in_measure case_prod_conv unat_shift_right power_one_right)
qed simp

declare allocatorIndex_loop.simps [simp del]

definition reservePhysicalMemory_Simple ::
  "u32 \<Rightarrow> usize \<Rightarrow> usize \<Rightarrow> 'z PhysicalAddressAllocatorSimple_scheme
    \<Rightarrow> (u64 \<times> 'z PhysicalAddressAllocatorSimple_scheme) result" where
  "reservePhysicalMemory_Simple memoryBank sz alignment s =
     (if memoryBank = 0 \<or> numberOfAllocators s = 0
      then (case alignedAlloc sz alignment (mainAllocator s) of
              (a, m) \<Rightarrow> Inr (a, s\<lparr>mainAllocator := m\<rparr>))
      else (let allocatorIndex = allocatorIndex_loop memoryBank 0
            in assertR (allocatorIndex < length (allocators s))
                 (case alignedAlloc sz alignment (allocators s ! allocatorIndex) of
                    (a, m) \<Rightarrow> Inr (a, s\<lparr>allocators := (allocators s)[allocatorIndex := m]\<rparr>))))"

definition freePhysicalMemory_Simple ::
  "u32 \<Rightarrow> u64 \<Rightarrow> 'z PhysicalAddressAllocatorSimple_scheme
    \<Rightarrow> ('z PhysicalAddressAllocatorSimple_scheme) result" where
  "freePhysicalMemory_Simple memoryBank address s =
     (if memoryBank = 0 \<or> numberOfAllocators s = 0
      then Inr (s\<lparr>mainAllocator := alignedFree address (mainAllocator s)\<rparr>)
      else (let allocatorIndex = allocatorIndex_loop memoryBank 0
            in assertR (allocatorIndex < length (allocators s))
                 (Inr (s\<lparr>allocators := (allocators s)
                           [allocatorIndex := alignedFree address (allocators s ! allocatorIndex)]\<rparr>))))"

section \<open>Host memory\<close>

text \<open>\<open>storage\<close> lists the pointers the host has handed out, oldest first.\<close>

record HostHeap =
  aligned_alloc :: "nat \<Rightarrow> usize \<Rightarrow> usize \<Rightarrow> u64"
  storage :: "u64 list"

definition reservePhysicalMemory_Heap ::
  "u32 \<Rightarrow> usize \<Rightarrow> usize \<Rightarrow> HostHeap \<Rightarrow> (u64 \<times> HostHeap) result" where
  "reservePhysicalMemory_Heap memoryBank sz alignment h =
     (let p = aligned_alloc h (length (storage h)) sz alignment
      in assertR (p \<noteq> 0) (Inr (p, h\<lparr>storage := storage h @ [p]\<rparr>)))"

definition freePhysicalMemory_Heap :: "u32 \<Rightarrow> u64 \<Rightarrow> HostHeap \<Rightarrow> HostHeap" where
  "freePhysicalMemory_Heap memoryBank address h = h"

section \<open>Shared memory translation tables\<close>

text \<open>
  \<open>localMemBase\<close> and \<open>sysMemBase\<close> of \<^verbatim>\<open>SharedMemoryInfo\<close> point to arrays of host pointers, one per
  4 KB page of physical memory; 0 is the null pointer.
\<close>

type_synonym translation_table = "u64 \<Rightarrow> u64"

record SHM4Mapper = PhysicalAddressAllocatorSimple +
  shm_localMem :: translation_table
  shm_sysMem :: translation_table
  shm_heap :: HostHeap

definition shm_table :: "bool \<Rightarrow> SHM4Mapper \<Rightarrow> translation_table" where
  "shm_table isLocalMemory s = (if isLocalMemory then shm_localMem s else shm_sysMem s)"

definition set_shm_table :: "bool \<Rightarrow> translation_table \<Rightarrow> SHM4Mapper \<Rightarrow> SHM4Mapper" where
  "set_shm_table isLocalMemory t s =
     (if isLocalMemory then s\<lparr>shm_localMem := t\<rparr> else s\<lparr>shm_sysMem := t\<rparr>)"

text \<open>
  The body of \<^verbatim>\<open>while (size > 0)\<close> subtracts one page from a size that was asserted to be a whole
  number of pages; the recursion is on that number.
\<close>

fun mapPages :: "nat \<Rightarrow> u64 \<Rightarrow> u64 \<Rightarrow> translation_table \<Rightarrow> translation_table" where
  "mapPages 0 entryNumber p t = t"
| "mapPages (Suc n) entryNumber p t =
     mapPages n (entryNumber + 1) (p + 0x1000) (t(entryNumber := p))"

definition mapSystemMemoryToPhysicalAddress ::
  "u64 \<Rightarrow> usize \<Rightarrow> usize \<Rightarrow> bool \<Rightarrow> u64 \<Rightarrow> SHM4Mapper \<Rightarrow> SHM4Mapper result" where
  "mapSystemMemoryToPhysicalAddress physAddress sz alignment isLocalMemory p s =
     bindR (if p = 0
            then bindR (reservePhysicalMemory_Heap 0 sz (max alignment 0x1000) (shm_heap s))
                   (\<lambda>(up, h). Inr (up, s\<lparr>shm_heap := h\<rparr>))
            else Inr (p, s))
       (\<lambda>(p', s').
          assertR (physAddress mod 0x1000 = 0) (assertR (sz mod 0x1000 = 0)
            (Inr (set_shm_table isLocalMemory
                    (mapPages (unat (sz div 0x1000)) (physAddress div 0x1000) p'
                       (shm_table isLocalMemory s')) s'))))"

definition reserveOnlyPhysicalSpace ::
  "u32 \<Rightarrow> usize \<Rightarrow> usize \<Rightarrow> SHM4Mapper \<Rightarrow> (u64 \<times> SHM4Mapper) result" where
  "reserveOnlyPhysicalSpace memoryBank sz alignment s =
     reservePhysicalMemory_Simple memoryBank sz alignment s"

definition reservePhysicalMemory_SHM4 ::
  "u32 \<Rightarrow> usize \<Rightarrow> usize \<Rightarrow> SHM4Mapper \<Rightarrow> (u64 \<times> SHM4Mapper) result" where
  "reservePhysicalMemory_SHM4 memoryBank sz alignment s =
     bindR (reserveOnlyPhysicalSpace memoryBank sz alignment s)
       (\<lambda>(physAddress, s'). bindR
          (mapSystemMemoryToPhysicalAddress physAddress sz alignment
             (memoryBank \<noteq> 0 \<and> numberOfAllocators s' \<noteq> 0) 0 s')
          (\<lambda>s''. Inr (physAddress, s'')))"

definition freePhysicalMemory_SHM4 :: "u32 \<Rightarrow> u64 \<Rightarrow> SHM4Mapper \<Rightarrow> SHM4Mapper" where
  "freePhysicalMemory_SHM4 memoryBank address s = s"

function contiguous_loop :: "translation_table \<Rightarrow> u64 \<Rightarrow> u64 \<Rightarrow> usize \<Rightarrow> usize \<Rightarrow> usize" where
  "contiguous_loop t entryNumber expected sz availableSize =
     (if sz > 0 \<and> t entryNumber = expected
      then contiguous_loop t (entryNumber + 1) (expected + 0x1000) (sz - min 0x1000 sz)
             (availableSize + min 0x1000 sz)
      else availableSize)"
  by pat_completeness auto
termination
proof (relation "measure (\<lambda>(t, n, e, s, a). unat s)")
  fix t :: translation_table and n e :: u64 and s a :: usize
  assume "s > 0 \<and> t n = e"
  then have s: "0 < unat s" and m: "0 < unat (min 0x1000 s)" and le: "min 0x1000 s \<le> s"
    by (auto simp: word_less_nat_alt min_def)
  have "unat (s - min 0x1000 s) = unat s - unat (min 0x1000 s)"
    by (rule unat_sub [OF le])
  also have "\<dots> < unat s"
    using s m by simp
  finally show "((t, n + 1, e + 0x1000, s - min 0x1000 s, a + min 0x1000 s), t, n, e, s, a)
      \<in> measure (\<lambda>(t, n, e, s, a). unat s)"
    by simp
qed simp

declare contiguous_loop.simps [simp del]

definition translatePhysicalAddressToSystemMemory ::
  "u64 \<Rightarrow> usize \<Rightarrow> bool \<Rightarrow> SHM4Mapper \<Rightarrow> u64 \<times> usize" where
  "translatePhysicalAddressToSystemMemory physAddress sz isLocalMemory s =
     (let entryNumber = physAddress div 0x1000;
          pageOffset = physAddress mod 0x1000;
          t = shm_table isLocalMemory s
      in if t entryNumber \<noteq> 0
         then (let availableSize = 0x1000 - pageOffset
               in (t entryNumber + pageOffset,
                   contiguous_loop t (entryNumber + 1) (t entryNumber + 0x1000)
                     (sz - min availableSize sz) availableSize))
         else (0, 0))"

section \<open>The virtual interface\<close>

datatype PhysicalAddressAllocator =
    AllocSimple PhysicalAddressAllocatorSimple
  | AllocHeap HostHeap
  | AllocSHM4 SHM4Mapper

definition mainBank :: u32 where "mainBank = 0"

fun reservePhysicalMemory ::
  "u32 \<Rightarrow> usize \<Rightarrow> usize \<Rightarrow> PhysicalAddressAllocator
    \<Rightarrow> (u64 \<times> PhysicalAddressAllocator) result" where
  "reservePhysicalMemory memoryBank sz alignment (AllocSimple s) =
     bindR (reservePhysicalMemory_Simple memoryBank sz alignment s) (\<lambda>(a, s'). Inr (a, AllocSimple s'))"
| "reservePhysicalMemory memoryBank sz alignment (AllocHeap s) =
     bindR (reservePhysicalMemory_Heap memoryBank sz alignment s) (\<lambda>(a, s'). Inr (a, AllocHeap s'))"
| "reservePhysicalMemory memoryBank sz alignment (AllocSHM4 s) =
     bindR (reservePhysicalMemory_SHM4 memoryBank sz alignment s) (\<lambda>(a, s'). Inr (a, AllocSHM4 s'))"

fun freePhysicalMemory ::
  "u32 \<Rightarrow> u64 \<Rightarrow> PhysicalAddressAllocator \<Rightarrow> PhysicalAddressAllocator result" where
  "freePhysicalMemory memoryBank address (AllocSimple s) =
     bindR (freePhysicalMemory_Simple memoryBank address s) (\<lambda>s'. Inr (AllocSimple s'))"
| "freePhysicalMemory memoryBank address (AllocHeap s) =
     Inr (AllocHeap (freePhysicalMemory_Heap memoryBank address s))"
| "freePhysicalMemory memoryBank address (AllocSHM4 s) =
     Inr (AllocSHM4 (freePhysicalMemory_SHM4 memoryBank address s))"

section \<open>Invariant of the simple allocator\<close>

definition block_disjoint :: "('a::len word \<times> usize) \<Rightarrow> ('a word \<times> usize) \<Rightarrow> bool" where
  "block_disjoint x y \<longleftrightarrow>
     unat (fst x) + unat (snd x) \<le> unat (fst y) \<or> unat (fst y) + unat (snd y) \<le> unat (fst x)"

definition alloc_blocks :: "'a::len SimpleAllocator \<Rightarrow> ('a word \<times> usize) multiset" where
  "alloc_blocks s = mset (usedAllocationsMap s) + mset (freeAllocationsMap s)"

definition blocks_ok :: "nat \<Rightarrow> ('a::len word \<times> usize) multiset \<Rightarrow> bool" where
  "blocks_ok bound B \<longleftrightarrow>
     (\<forall>x\<in>#B. 0 < unat (snd x) \<and> unat (fst x) + unat (snd x) \<le> bound)
     \<and> (\<forall>x\<in>#B. \<forall>y\<in>#B - {#x#}. block_disjoint x y)"

definition alloc_inv :: "'a::len SimpleAllocator \<Rightarrow> bool" where
  "alloc_inv s \<longleftrightarrow> sorted (map fst (usedAllocationsMap s)) \<and> sorted (map fst (freeAllocationsMap s))
     \<and> blocks_ok (unat (nextAddress s)) (alloc_blocks s)"

text \<open>The request fits below the end of the address space.\<close>

definition alloc_fits :: "usize \<Rightarrow> 'a::len word \<Rightarrow> 'a SimpleAllocator \<Rightarrow> bool" where
  "alloc_fits sz alignment s \<longleftrightarrow> 0 < unat sz \<and> unat (max alignment 4096) > 0
     \<and> unat (nextAddress s) + (unat (max alignment 4096) - 1) + unat sz < 2 ^ LENGTH('a)"

lemma block_disjoint_sym: "block_disjoint x y \<longleftrightarrow> block_disjoint y x"
  by (auto simp: block_disjoint_def)

lemma blocks_ok_add:
  assumes "blocks_ok bound B" and "bound \<le> unat (fst x)" and "0 < unat (snd x)"
    and "unat (fst x) + unat (snd x) \<le> bound'"
  shows "blocks_ok bound' (add_mset x B)"
proof -
  have below: "unat (fst y) + unat (snd y) \<le> unat (fst x)" if "y \<in># B" for y
    using assms(1,2) that by (force simp: blocks_ok_def)
  have "block_disjoint z y" if "z \<in># add_mset x B" "y \<in># add_mset x B - {#z#}" for z y
  proof (cases "z = x")
    case True
    then show ?thesis
      using that below by (simp add: block_disjoint_def)
  next
    case False
    then have z: "z \<in># B"
      using that by simp
    have "y \<in># B - {#z#} \<or> y = x"
      using that False z by (auto simp: diff_add_mset_swap)
    then show ?thesis
      using assms(1) z below [OF z] by (auto simp: blocks_ok_def block_disjoint_def)
  qed
  then show ?thesis
    using assms below unfolding blocks_ok_def by (auto 0 3 dest: below)
qed

lemma extract_mset:
  "List.extract P xs = Some (ys, x, zs) \<Longrightarrow> mset xs = add_mset x (mset ys + mset zs) \<and> P x"
  by (auto simp: extract_Some_iff)

lemma alloc_inv_init: "alloc_inv (makeSimpleAllocator a)"
  by (simp add: alloc_inv_def makeSimpleAllocator_def alloc_blocks_def blocks_ok_def)

lemma alignedAlloc_reuse:
  assumes "List.extract (\<lambda>(k, v). v = sz) (freeAllocationsMap s) = Some (ys, (a, v), zs)"
  shows "alignedAlloc sz alignment s =
    (a, s\<lparr>usedAllocationsMap := mmap_insert a sz (usedAllocationsMap s), freeAllocationsMap := ys @ zs\<rparr>)"
    and "alloc_blocks (snd (alignedAlloc sz alignment s)) = alloc_blocks s"
    and "(a, sz) \<in># mset (freeAllocationsMap s)"
  using extract_mset [OF assms] assms by (auto simp: alignedAlloc_def alloc_blocks_def)

lemma alignedAlloc_fresh:
  fixes s :: "'a::len SimpleAllocator"
  assumes none: "List.extract (\<lambda>(k, v). v = sz) (freeAllocationsMap s) = None"
    and fits: "alloc_fits sz alignment s"
  obtains a where "fst (alignedAlloc sz alignment s) = a"
    and "snd (alignedAlloc sz alignment s) =
      s\<lparr>nextAddress := a + ucast sz, usedAllocationsMap := mmap_insert a sz (usedAllocationsMap s)\<rparr>"
    and "unat (nextAddress s) \<le> unat a" and "unat (a + ucast sz) = unat a + unat sz"
proof -
  define m where "m = max alignment (4096 :: 'a word) - 1"
  define a where "a = (nextAddress s + m) AND NOT m"
  have "(1 :: 'a word) \<le> max alignment 4096"
    using fits by (simp add: alloc_fits_def word_le_nat_alt)
  then have m: "unat m = unat (max alignment (4096 :: 'a word)) - 1"
    by (simp add: m_def unat_sub)
  have sz: "unat sz < 2 ^ LENGTH('a)" and sum: "unat (nextAddress s) + unat m + unat sz < 2 ^ LENGTH('a)"
    using fits unfolding alloc_fits_def m by linarith+
  then have ucast: "unat (ucast sz :: 'a word) = unat sz"
    by (simp add: unsigned_ucast_eq take_bit_nat_eq_self)
  note bounds = mask_round_bounds [of "nextAddress s" m, folded a_def]
  have "unat a + unat (ucast sz :: 'a word) < 2 ^ LENGTH('a)"
    using bounds sum by (simp add: ucast)
  then have "unat (a + ucast sz) = unat a + unat sz"
    by (simp only: unat_add_small ucast)
  with bounds sum show thesis
    by (intro that [of a]) (simp_all add: alignedAlloc_def none Let_def a_def m_def)
qed

lemma alignedAlloc_inv:
  assumes "alloc_inv s" and "alloc_fits sz alignment s"
  shows "alloc_inv (snd (alignedAlloc sz alignment s))"
proof (cases "List.extract (\<lambda>(k, v). v = sz) (freeAllocationsMap s)")
  case None
  obtain a where
    next_state: "snd (alignedAlloc sz alignment s) =
      s\<lparr>nextAddress := a + ucast sz, usedAllocationsMap := mmap_insert a sz (usedAllocationsMap s)\<rparr>"
    and above: "unat (nextAddress s) \<le> unat a" and sum: "unat (a + ucast sz) = unat a + unat sz"
    by (rule alignedAlloc_fresh [OF None assms(2)])
  have "blocks_ok (unat (a + ucast sz)) (add_mset (a, sz) (alloc_blocks s))"
    using assms above sum by (intro blocks_ok_add) (auto simp: alloc_inv_def alloc_fits_def)
  then show ?thesis
    using assms by (simp add: next_state alloc_inv_def alloc_blocks_def)
next
  case (Some r)
  then obtain ys a v zs where r: "List.extract (\<lambda>(k, v). v = sz) (freeAllocationsMap s) = Some (ys, (a, v), zs)"
    by (cases r) auto
  have split: "freeAllocationsMap s = ys @ (a, v) # zs"
    using r by (simp add: extract_Some_iff)
  have "sorted (map fst (ys @ zs))"
    using assms(1) sorted_without [of ys "(a, v)" zs] by (simp only: alloc_inv_def split)
  then show ?thesis
    using assms(1) alignedAlloc_reuse(1,2) [OF r, of alignment]
    by (simp add: alloc_inv_def)
qed

lemma alignedFree_cases:
  obtains (unused) "alignedFree address s = s"
      and "ucast address \<notin> fst ` set (usedAllocationsMap s)"
    | (used) ys k v zs where "usedAllocationsMap s = ys @ (k, v) # zs" and "k = ucast address"
      and "alignedFree address s = s\<lparr>freeAllocationsMap := mmap_insert k v (freeAllocationsMap s),
             usedAllocationsMap := ys @ zs\<rparr>"
proof (cases "List.extract (\<lambda>(k, v). k = ucast address) (usedAllocationsMap s)")
  case None
  then show thesis
    by (intro unused) (force simp: alignedFree_def None extract_None_iff)+
next
  case (Some r)
  then obtain ys k v zs
    where r: "List.extract (\<lambda>(k, v). k = ucast address) (usedAllocationsMap s) = Some (ys, (k, v), zs)"
    by (cases r) auto
  then have "usedAllocationsMap s = ys @ (k, v) # zs" and "k = ucast address"
    by (simp_all add: extract_Some_iff)
  then show thesis
    by (rule used) (simp add: alignedFree_def r)
qed

lemma alignedFree_blocks: "alloc_blocks (alignedFree address s) = alloc_blocks s"
  by (rule alignedFree_cases [of address s]) (simp_all add: alloc_blocks_def)

lemma alignedFree_next [simp]: "nextAddress (alignedFree address s) = nextAddress s"
  by (rule alignedFree_cases [of address s]) simp_all

lemma alignedFree_inv:
  assumes "alloc_inv s"
  shows "alloc_inv (alignedFree address s)"
proof (rule alignedFree_cases [of address s])
  fix ys k v zs
  assume u: "usedAllocationsMap s = ys @ (k, v) # zs"
    and f: "alignedFree address s = s\<lparr>freeAllocationsMap := mmap_insert k v (freeAllocationsMap s),
             usedAllocationsMap := ys @ zs\<rparr>"
  have "sorted (map fst (ys @ zs))"
    using assms sorted_without [of ys "(k, v)" zs] by (simp only: alloc_inv_def u)
  then show ?thesis
    using assms alignedFree_blocks [of address s] by (simp add: alloc_inv_def f)
qed (use assms in simp)

section \<open>The contract of an allocator\<close>

text \<open>
  What the page tables and the streams rely on.  \<open>used\<close> is the multiset of reserved blocks, \<open>held\<close>
  the one of reserved and reusable blocks; a request that fits returns a block that was not in use,
  and releasing a block removes exactly that block.
\<close>

locale block_allocator =
  fixes reserve :: "usize \<Rightarrow> 'a::len word \<Rightarrow> 's \<Rightarrow> 'a word \<times> 's"
    and release :: "u64 \<Rightarrow> 's \<Rightarrow> 's"
    and used :: "'s \<Rightarrow> ('a word \<times> usize) multiset"
    and inv :: "'s \<Rightarrow> bool"
    and fits :: "usize \<Rightarrow> 'a word \<Rightarrow> 's \<Rightarrow> bool"
  assumes inv_reserve: "inv s \<Longrightarrow> fits sz al s \<Longrightarrow> inv (snd (reserve sz al s))"
    and inv_release: "inv s \<Longrightarrow> inv (release a s)"
    and used_reserve: "fits sz al s \<Longrightarrow>
      used (snd (reserve sz al s)) = add_mset (fst (reserve sz al s), sz) (used s)"
    and used_release: "inv s \<Longrightarrow> used (release a s) = filter_mset (\<lambda>b. fst b \<noteq> ucast a) (used s)"
    and used_disjoint: "inv s \<Longrightarrow> x \<in># used s \<Longrightarrow> y \<in># used s - {#x#} \<Longrightarrow> block_disjoint x y"
begin

lemma reserve_disjoint:
  assumes "inv s" and "fits sz al s" and "x \<in># used s"
  shows "block_disjoint (fst (reserve sz al s), sz) x"
  using used_disjoint [OF inv_reserve [OF assms(1,2)], of "(fst (reserve sz al s), sz)" x] assms
  by (simp add: used_reserve)

text \<open>Reserving a list of requests in turn.\<close>

primrec reserve_all :: "(usize \<times> 'a word) list \<Rightarrow> 's \<Rightarrow> ('a word \<times> usize) list \<times> 's" where
  "reserve_all [] s = ([], s)"
| "reserve_all (r # rs) s =
     (let (a, s') = reserve (fst r) (snd r) s; (bs, s'') = reserve_all rs s'
      in ((a, fst r) # bs, s''))"

primrec all_fit :: "(usize \<times> 'a word) list \<Rightarrow> 's \<Rightarrow> bool" where
  "all_fit [] s = True"
| "all_fit (r # rs) s = (fits (fst r) (snd r) s \<and> all_fit rs (snd (reserve (fst r) (snd r) s)))"

lemma reserve_all_used:
  assumes "inv s" and "all_fit rs s"
  shows "inv (snd (reserve_all rs s)) \<and> used (snd (reserve_all rs s)) = used s + mset (fst (reserve_all rs s))"
  using assms
proof (induction rs arbitrary: s)
  case (Cons r rs)
  then show ?case
    using Cons.IH [of "snd (reserve (fst r) (snd r) s)"]
    by (simp add: inv_reserve used_reserve case_prod_beta Let_def)
qed simp

lemma reserve_release:
  assumes "inv s" and "fits sz al s" and "\<forall>b\<in>#used s. fst b \<noteq> fst (reserve sz al s)"
    and "ucast a = fst (reserve sz al s)"
  shows "used (release a (snd (reserve sz al s))) = used s"
proof -
  have "filter_mset (\<lambda>b. fst b \<noteq> ucast a) (used s) = used s"
    using assms(3,4) by (simp add: filter_mset_eq_conv)
  then show ?thesis
    using assms by (simp add: used_release inv_reserve used_reserve)
qed

end

lemma alignedAlloc_used:
  assumes "alloc_fits sz alignment s"
  shows "mset (usedAllocationsMap (snd (alignedAlloc sz alignment s)))
    = add_mset (fst (alignedAlloc sz alignment s), sz) (mset (usedAllocationsMap s))"
proof (cases "List.extract (\<lambda>(k, v). v = sz) (freeAllocationsMap s)")
  case None
  obtain a where "fst (alignedAlloc sz alignment s) = a"
    and "snd (alignedAlloc sz alignment s) =
      s\<lparr>nextAddress := a + ucast sz, usedAllocationsMap := mmap_insert a sz (usedAllocationsMap s)\<rparr>"
    by (rule alignedAlloc_fresh [OF None assms])
  then show ?thesis
    by simp
next
  case (Some r)
  then obtain ys a v zs where r: "List.extract (\<lambda>(k, v). v = sz) (freeAllocationsMap s) = Some (ys, (a, v), zs)"
    by (cases r) auto
  show ?thesis
    by (simp add: alignedAlloc_reuse(1) [OF r])
qed

lemma alloc_inv_used_disjoint:
  assumes "alloc_inv s" and "x \<in># mset (usedAllocationsMap s)"
    and "y \<in># mset (usedAllocationsMap s) - {#x#}"
  shows "block_disjoint x y"
proof -
  have "alloc_blocks s - {#x#} = (mset (usedAllocationsMap s) - {#x#}) + mset (freeAllocationsMap s)"
    using assms(2) by (simp only: alloc_blocks_def subset_mset.add_diff_assoc2 single_subset_iff)
  then have "y \<in># alloc_blocks s - {#x#}"
    using assms(3) by simp
  moreover have "x \<in># alloc_blocks s"
    using assms(2) by (simp add: alloc_blocks_def)
  ultimately have "x \<in># alloc_blocks s" and "y \<in># alloc_blocks s - {#x#}"
    by blast+
  then show ?thesis
    using assms(1) unfolding alloc_inv_def blocks_ok_def by blast
qed

lemma alloc_inv_distinct:
  assumes "alloc_inv s" and "usedAllocationsMap s = ys @ (k, v) # zs"
  shows "\<forall>b \<in> set (ys @ zs). fst b \<noteq> k"
proof
  fix b
  assume "b \<in> set (ys @ zs)"
  then have "b \<in># mset (usedAllocationsMap s)" and "b \<in># mset (usedAllocationsMap s) - {#(k, v)#}"
    using assms(2) by auto
  moreover have "0 < unat (snd b)" and "0 < unat v"
    using assms \<open>b \<in> set (ys @ zs)\<close> by (auto simp: alloc_inv_def blocks_ok_def alloc_blocks_def)
  ultimately show "fst b \<noteq> k"
    using alloc_inv_used_disjoint [OF assms(1), of "(k, v)" b] assms(2)
    by (auto simp: block_disjoint_def)
qed

lemma alignedFree_used:
  assumes "alloc_inv s"
  shows "mset (usedAllocationsMap (alignedFree address s))
    = filter_mset (\<lambda>b. fst b \<noteq> ucast address) (mset (usedAllocationsMap s))"
proof (rule alignedFree_cases [of address s])
  assume "alignedFree address s = s" and "ucast address \<notin> fst ` set (usedAllocationsMap s)"
  moreover from this(2) have "filter (\<lambda>b. fst b \<noteq> ucast address) (usedAllocationsMap s) = usedAllocationsMap s"
    by (force simp: filter_id_conv)
  ultimately show ?thesis
    by (simp flip: mset_filter)
next
  fix ys k v zs
  assume u: "usedAllocationsMap s = ys @ (k, v) # zs" and k: "k = ucast address"
    and f: "alignedFree address s = s\<lparr>freeAllocationsMap := mmap_insert k v (freeAllocationsMap s),
             usedAllocationsMap := ys @ zs\<rparr>"
  have "filter (\<lambda>b. fst b \<noteq> k) ys = ys" and "filter (\<lambda>b. fst b \<noteq> k) zs = zs"
    using alloc_inv_distinct [OF assms u] by (simp_all add: filter_id_conv)
  then show ?thesis
    by (simp add: f u k [symmetric] flip: mset_filter)
qed

interpretation simple: block_allocator alignedAlloc alignedFree
  "\<lambda>s. mset (usedAllocationsMap s)" alloc_inv alloc_fits
  by unfold_locales
     (rule alignedAlloc_inv alignedFree_inv alignedAlloc_used alignedFree_used alloc_inv_used_disjoint; assumption)+

section \<open>Histories of one allocator\<close>

datatype 'w alloc_op = OpAlloc usize 'w | OpFree u64

inductive alloc_step :: "'a::len SimpleAllocator \<Rightarrow> 'a word alloc_op \<Rightarrow> 'a SimpleAllocator \<Rightarrow> bool" where
  step_alloc: "alloc_fits sz al s \<Longrightarrow> alloc_step s (OpAlloc sz al) (snd (alignedAlloc sz al s))"
| step_free: "alloc_step s (OpFree a) (alignedFree a s)"

inductive_cases alloc_step_allocE: "alloc_step s (OpAlloc sz al) s'"
inductive_cases alloc_step_freeE: "alloc_step s (OpFree a) s'"

inductive alloc_reachable :: "'a::len word \<Rightarrow> 'a SimpleAllocator \<Rightarrow> bool" for first where
  reach_init: "alloc_reachable first (makeSimpleAllocator first)"
| reach_step: "alloc_reachable first s \<Longrightarrow> alloc_step s oper s' \<Longrightarrow> alloc_reachable first s'"

lemma reach_alloc:
  "alloc_reachable first s \<Longrightarrow> alloc_fits sz al s \<Longrightarrow> alloc_reachable first (snd (alignedAlloc sz al s))"
  by (blast intro: reach_step step_alloc)

lemma reach_free: "alloc_reachable first s \<Longrightarrow> alloc_reachable first (alignedFree a s)"
  by (blast intro: reach_step step_free)

lemma alloc_step_inv: "alloc_step s oper s' \<Longrightarrow> alloc_inv s \<Longrightarrow> alloc_inv s'"
  by (induction rule: alloc_step.induct) (simp_all add: simple.inv_reserve simple.inv_release)

lemma alloc_reachable_inv: "alloc_reachable first s \<Longrightarrow> alloc_inv s"
  by (induction rule: alloc_reachable.induct) (auto intro: alloc_inv_init alloc_step_inv)

text \<open>Blocks whose start is a multiple of their size, as page allocations request them.\<close>

definition size_aligned :: "'a::len SimpleAllocator \<Rightarrow> bool" where
  "size_aligned s \<longleftrightarrow> (\<forall>x\<in>#alloc_blocks s. unat (snd x) dvd unat (fst x))"

lemma size_aligned_free: "size_aligned s \<Longrightarrow> size_aligned (alignedFree a s)"
  by (simp add: size_aligned_def alignedFree_blocks)

lemma alignedAlloc_size_aligned:
  fixes s :: "64 SimpleAllocator"
  assumes "size_aligned s" and k: "12 \<le> k" "k < 64" and fits: "alloc_fits (2 ^ k) (2 ^ k) s"
  shows "size_aligned (snd (alignedAlloc (2 ^ k) (2 ^ k) s))
    \<and> 2 ^ k dvd unat (fst (alignedAlloc (2 ^ k) (2 ^ k) s))"
proof (cases "List.extract (\<lambda>(a, v). v = (2 ^ k :: usize)) (freeAllocationsMap s)")
  case None
  have pow: "unat (2 ^ k :: u64) = 2 ^ k"
    using k by (simp add: unat_two_power)
  have "(2 ^ 12 :: nat) \<le> 2 ^ k"
    by (rule power_increasing) (use k in simp_all)
  then have "(4096 :: u64) \<le> 2 ^ k"
    by (simp add: word_le_nat_alt pow)
  then have mx: "max (2 ^ k) (4096 :: u64) = 2 ^ k"
    by (simp add: max_def)
  have "unat (nextAddress s) + 2 ^ k - 1 < 2 ^ 64"
    using fits unfolding alloc_fits_def mx pow by simp
  then have dvd: "2 ^ k dvd unat ((nextAddress s + (2 ^ k - 1)) AND NOT (2 ^ k - 1))"
    using k by (simp add: unat_round_up)
  then show ?thesis
    using assms(1) by (simp add: alignedAlloc_def None Let_def mx size_aligned_def alloc_blocks_def pow)
next
  case (Some r)
  then obtain ys a v zs where r: "List.extract (\<lambda>(a, v). v = (2 ^ k :: usize)) (freeAllocationsMap s) = Some (ys, (a, v), zs)"
    by (cases r) auto
  have "(a, 2 ^ k) \<in># alloc_blocks s"
    using alignedAlloc_reuse(3) [OF r] by (simp add: alloc_blocks_def)
  then have "2 ^ k dvd unat a"
    using assms(1) k by (auto simp: size_aligned_def unat_two_power)
  then show ?thesis
    using assms(1) alignedAlloc_reuse(2) [OF r, of "2 ^ k"]
    by (simp add: alignedAlloc_reuse(1) [OF r] size_aligned_def)
qed

section \<open>Banks\<close>

lemma allocatorIndex_loop_power:
  "i < 32 \<Longrightarrow> allocatorIndex_loop (2 ^ i) n = n + i"
proof (induction i arbitrary: n)
  case 0
  then show ?case
    by (subst allocatorIndex_loop.simps) simp
next
  case (Suc i)
  have nz: "(2 ^ Suc i :: u32) \<noteq> 0"
    using Suc.prems by (simp add: exp_eq_zero_iff del: power_Suc)
  have even: "(2 ^ Suc i :: u32) AND 1 = 0"
    by (rule bit_eqI) (auto simp: bit_simps)
  have "unat (2 ^ Suc i :: u32) div 2 = 2 ^ i"
    using Suc.prems by (simp add: unat_two_power del: power_Suc) simp
  then have "unat (drop_bit 1 (2 ^ Suc i :: u32)) = unat (2 ^ i :: u32)"
    using Suc.prems by (simp only: unat_shift_right power_one_right) (simp add: unat_two_power)
  then have half: "drop_bit 1 (2 ^ Suc i :: u32) = 2 ^ i"
    by (simp only: word_unat_eq_iff)
  show ?case
    using Suc by (subst allocatorIndex_loop.simps) (simp add: nz even half del: power_Suc One_nat_def)
qed

lemma length_bankAllocators [simp]: "length (bankAllocators n start step) = n"
  by (induction n arbitrary: start) simp_all

lemma bankAllocators_nth:
  "i < n \<Longrightarrow> bankAllocators n start step ! i
     = makeSimpleAllocator (max (start + word_of_nat i * step) 0x1000)"
proof (induction n arbitrary: start i)
  case (Suc n)
  then show ?case
    by (cases i) (simp_all add: algebra_simps)
qed simp

section \<open>Translation tables\<close>

lemma mapPages_lookup:
  assumes "unat e + n < 2 ^ 64"
  shows "mapPages n e p t x =
    (if unat e \<le> unat x \<and> unat x < unat e + n then p + 0x1000 * (x - e) else t x)"
  using assms
proof (induction n arbitrary: e p t)
  case (Suc n)
  have e1: "unat (e + 1) = unat e + 1"
    using Suc.prems by (simp add: unat_add_small)
  have "mapPages (Suc n) e p t x = (if unat (e + 1) \<le> unat x \<and> unat x < unat (e + 1) + n
      then p + 0x1000 + 0x1000 * (x - (e + 1)) else (t(e := p)) x)"
    unfolding mapPages.simps by (rule Suc.IH) (use Suc.prems in \<open>simp add: e1\<close>)
  moreover have "x = e \<longleftrightarrow> unat x = unat e"
    by (simp add: word_unat_eq_iff)
  moreover have "p + 0x1000 + 0x1000 * (x - (e + 1)) = p + 0x1000 * (x - e)"
    by (simp add: algebra_simps)
  moreover have "unat e + 1 \<le> unat x \<and> unat x < unat e + 1 + n
      \<longleftrightarrow> unat e \<le> unat x \<and> unat x < unat e + Suc n \<and> unat x \<noteq> unat e"
    by linarith
  ultimately show ?case
    by (simp only: e1) auto
qed auto

lemma contiguous_loop_all:
  assumes "\<And>j. j * 4096 < unat sz \<Longrightarrow> t (x + word_of_nat j) = ex + 0x1000 * word_of_nat j"
  shows "contiguous_loop t x ex sz av = av + sz"
  using assms
proof (induction t x ex sz av rule: contiguous_loop.induct)
  case (1 t x ex sz av)
  show ?case
  proof (cases "sz > 0")
    case True
    have here: "t x = ex"
      using "1.prems" [of 0] True by (simp add: word_less_nat_alt)
    have le: "min 0x1000 sz \<le> sz"
      by simp
    have rest: "unat (sz - min 0x1000 sz) = unat sz - unat (min 0x1000 sz)"
      by (rule unat_sub [OF le])
    have "contiguous_loop t (x + 1) (ex + 0x1000) (sz - min 0x1000 sz) (av + min 0x1000 sz)
        = av + min 0x1000 sz + (sz - min 0x1000 sz)"
    proof (rule "1.IH")
      fix j
      assume "j * 4096 < unat (sz - min 0x1000 sz)"
      then have "j * 4096 < unat sz - unat (min 0x1000 sz)"
        by (simp only: rest)
      then have "Suc j * 4096 < unat sz"
        by (simp add: min_def word_le_nat_alt split: if_splits)
      from "1.prems" [OF this]
      show "t (x + 1 + word_of_nat j) = ex + 0x1000 + 0x1000 * word_of_nat j"
        by (simp add: algebra_simps)
    qed (use True here in simp)
    then show ?thesis
      using True here by (subst contiguous_loop.simps) simp
  next
    case False
    then have "sz = 0"
      using word_neq_0_conv [of sz] by blast
    then show ?thesis
      by (subst contiguous_loop.simps) simp
  qed
qed

lemma shm_table_set [simp]:
  "shm_table l (set_shm_table l t s) = t"
  by (simp add: shm_table_def set_shm_table_def)

lemma mapSystemMemory_table:
  assumes "mapSystemMemoryToPhysicalAddress pa sz al l p s = Inr s'" and "p \<noteq> 0"
  shows "pa mod 0x1000 = 0" and "sz mod 0x1000 = 0"
    and "shm_table l s' = mapPages (unat (sz div 0x1000)) (pa div 0x1000) p (shm_table l s)"
  using assms by (auto simp: mapSystemMemoryToPhysicalAddress_def assertR_Inr_iff)

lemma mapped_entry:
  fixes pa :: u64 and sz :: usize
  assumes pa: "pa mod 0x1000 = 0" and range: "unat pa + unat sz < 2 ^ 64" and j: "j * 4096 < unat sz"
    and whole: "sz mod 0x1000 = 0"
  shows "mapPages (unat (sz div 0x1000)) (pa div 0x1000) p t (pa div 0x1000 + word_of_nat j)
    = p + 0x1000 * word_of_nat j"
proof -
  have "j < 2 ^ 64"
    using j unat_bound64 [of sz] by simp
  then have uj: "unat (word_of_nat j :: u64) = j"
    by (simp add: unat_word_of_nat_small)
  have "unat sz mod 4096 = 0"
    using arg_cong [OF whole, of unat] by (simp add: unat_mod)
  then have jn: "j < unat sz div 4096"
    using j div_mult_mod_eq [of "unat sz" 4096] by linarith
  have sum: "unat (pa div 0x1000) + unat sz div 4096 < 2 ^ 64"
    using range by (simp add: unat_div)
  then have x: "unat (pa div 0x1000 + word_of_nat j) = unat (pa div 0x1000) + j"
    using jn by (simp add: unat_add_small uj)
  show ?thesis
    using sum jn by (subst mapPages_lookup) (simp_all add: x unat_div)
qed

lemma translate_mapped:
  fixes pa :: u64 and sz :: usize
  assumes pa: "pa mod 0x1000 = 0" and whole: "sz mod 0x1000 = 0"
    and range: "unat pa + unat sz < 2 ^ 64" and host: "p \<noteq> 0" "unat p + unat sz < 2 ^ 64"
    and inside: "unat off + unat n \<le> unat sz" "0 < unat n"
    and table: "shm_table l s = mapPages (unat (sz div 0x1000)) (pa div 0x1000) p t"
  shows "translatePhysicalAddressToSystemMemory (pa + off) n l s
    = (p + off, 0x1000 - off mod 0x1000 + (n - min (0x1000 - off mod 0x1000) n))"
proof -
  define q where "q = unat off div 4096"
  let ?r = "0x1000 - off mod 0x1000"
  have aligned: "unat pa mod 4096 = 0"
    using arg_cong [OF pa, of unat] by (simp add: unat_mod)
  have sum: "unat (pa + off) = unat pa + unat off"
    using range inside by (simp add: unat_add_small)
  have q: "q * 4096 < unat sz" and q64: "q < 2 ^ 64"
    using inside unat_bound64 [of off] by (simp_all add: q_def)
  have uq: "unat (word_of_nat q :: u64) = q"
    using q64 by (simp add: unat_word_of_nat_small)
  have "unat (pa div 0x1000 + word_of_nat q) = unat (pa div 0x1000) + q"
    using range inside by (subst unat_add_small) (simp_all add: uq unat_div, simp add: q_def)
  then have entry: "(pa + off) div 0x1000 = pa div 0x1000 + word_of_nat q"
    using aligned by (simp add: word_unat_eq_iff unat_div sum q_def div_add1_eq)
  have offset: "(pa + off) mod 0x1000 = off mod 0x1000"
    using aligned by (simp add: word_unat_eq_iff unat_mod sum mod_add_left_eq [of "unat pa", symmetric])
  note page = mapped_entry [OF pa range _ whole, of _ p t, folded table]
  have "unat (p + 0x1000 * word_of_nat q) = unat p + 4096 * q"
    using host q by (subst unat_add_small) (simp_all add: unat_word_ariths uq)
  then have nonnull: "p + 0x1000 * word_of_nat q \<noteq> 0"
    using host(1) by (metis add_is_0 unat_0 unat_eq_zero)
  have "4096 * q + unat off mod 4096 = unat off"
    by (simp add: q_def)
  then have off: "4096 * q < 18446744073709551616" "4096 * q + unat off mod 4096 = unat off"
    "unat off < 18446744073709551616"
    using unat_bound64 [of off] by linarith+
  have "0x1000 * word_of_nat q + off mod 0x1000 = off"
    using off by (simp add: word_unat_eq_iff unat_word_ariths unat_mod uq)
  then have host_off: "p + 0x1000 * word_of_nat q + off mod 0x1000 = p + off"
    by (simp add: add.assoc)
  have "contiguous_loop (shm_table l s) (pa div 0x1000 + word_of_nat q + 1)
      (p + 0x1000 * word_of_nat q + 0x1000) (n - min ?r n) ?r = ?r + (n - min ?r n)"
  proof (rule contiguous_loop_all)
    fix j
    assume j: "j * 4096 < unat (n - min ?r n)"
    have "unat (n - min ?r n) = unat n - unat (min ?r n)"
      by (rule unat_sub) simp
    moreover have "unat ?r = 4096 - unat off mod 4096"
      by (subst unat_sub) (simp_all add: word_le_nat_alt unat_mod)
    ultimately have "j * 4096 < unat n - (4096 - unat off mod 4096)"
      using j by (simp add: min_def word_le_nat_alt split: if_splits)
    then have "(q + 1 + j) * 4096 < unat sz"
      using inside off(2) by (simp add: algebra_simps)
    from page [OF this] show "shm_table l s (pa div 0x1000 + word_of_nat q + 1 + word_of_nat j)
        = p + 0x1000 * word_of_nat q + 0x1000 + 0x1000 * word_of_nat j"
      by (simp add: algebra_simps)
  qed
  then show ?thesis
    using page [OF q] nonnull
    by (simp add: translatePhysicalAddressToSystemMemory_def Let_def entry offset host_off)
qed

section \<open>The banks of the simple allocator\<close>

definition bank_start :: "u64 \<Rightarrow> bool \<Rightarrow> nat \<Rightarrow> u64" where
  "bank_start singleAllocatorSize localMemorySupport i =
     max ((if localMemorySupport then singleAllocatorSize div 256 else 0)
            + word_of_nat i * singleAllocatorSize) 0x1000"

definition pas_ok :: "u32 \<Rightarrow> u64 \<Rightarrow> bool \<Rightarrow> 'z PhysicalAddressAllocatorSimple_scheme \<Rightarrow> bool" where
  "pas_ok n sz l s \<longleftrightarrow> numberOfAllocators s = n \<and> length (allocators s) = unat n
     \<and> alloc_reachable reservedGGTTSpace (mainAllocator s)
     \<and> (\<forall>i < unat n. alloc_reachable (bank_start sz l i) (allocators s ! i))"

text \<open>The allocator a bank mask selects, \<open>None\<close> for the main one.\<close>

definition selected :: "u32 \<Rightarrow> 'z PhysicalAddressAllocatorSimple_scheme \<Rightarrow> nat option" where
  "selected bank s = (if bank = 0 \<or> numberOfAllocators s = 0 then None
     else Some (allocatorIndex_loop bank 0))"

definition bank_allocator :: "nat option \<Rightarrow> 'z PhysicalAddressAllocatorSimple_scheme \<Rightarrow> 64 SimpleAllocator" where
  "bank_allocator i s = (case i of None \<Rightarrow> mainAllocator s | Some k \<Rightarrow> allocators s ! k)"

lemma reserve_Simple_reachable:
  assumes "pas_ok n sz l s" and "reservePhysicalMemory_Simple bank bytes al s = Inr (a, s')"
    and "alloc_fits bytes al (bank_allocator (selected bank s) s)"
  shows "pas_ok n sz l s'"
proof (cases "selected bank s")
  case None
  then have "s' = s\<lparr>mainAllocator := snd (alignedAlloc bytes al (mainAllocator s))\<rparr>"
    using assms(2) by (auto simp: reservePhysicalMemory_Simple_def selected_def split: if_splits prod.splits)
  then show ?thesis
    using assms None by (auto simp: pas_ok_def bank_allocator_def intro: reach_alloc)
next
  case (Some k)
  then have "k < length (allocators s)"
    and "s' = s\<lparr>allocators := (allocators s)[k := snd (alignedAlloc bytes al (allocators s ! k))]\<rparr>"
    using assms(2) by (auto simp: reservePhysicalMemory_Simple_def selected_def assertR_Inr_iff Let_def
        split: if_splits prod.splits)
  then show ?thesis
    using assms Some by (auto simp: pas_ok_def bank_allocator_def nth_list_update intro: reach_alloc)
qed

lemma free_Simple_reachable:
  assumes "pas_ok n sz l s" and "freePhysicalMemory_Simple bank a s = Inr s'"
  shows "pas_ok n sz l s'"
  using assms
  by (auto simp: freePhysicalMemory_Simple_def pas_ok_def assertR_Inr_iff Let_def nth_list_update
      split: if_splits intro!: reach_free)

lemma alloc_step_next:
  assumes "alloc_step s oper s'" and "alloc_inv s" and "unat first \<le> unat (nextAddress s)"
    and "\<forall>x\<in>#alloc_blocks s. unat first \<le> unat (fst x)"
  shows "unat first \<le> unat (nextAddress s') \<and> (\<forall>x\<in>#alloc_blocks s'. unat first \<le> unat (fst x))"
  using assms
proof (cases rule: alloc_step.cases)
  case (step_alloc sz al)
  show ?thesis
  proof (cases "List.extract (\<lambda>(k, v). v = sz) (freeAllocationsMap s)")
    case None
    from alignedAlloc_fresh [OF None step_alloc(3)] obtain a where
      "s' = s\<lparr>nextAddress := a + ucast sz, usedAllocationsMap := mmap_insert a sz (usedAllocationsMap s)\<rparr>"
      and "unat (nextAddress s) \<le> unat a" and "unat (a + ucast sz) = unat a + unat sz"
      using step_alloc(2) by auto
    then show ?thesis
      using assms(3,4) by (auto simp: alloc_blocks_def)
  next
    case (Some r)
    then obtain ys a v zs where "List.extract (\<lambda>(k, v). v = sz) (freeAllocationsMap s) = Some (ys, (a, v), zs)"
      by (cases r) auto
    note reuse = alignedAlloc_reuse(1,2) [OF this, of al]
    have "nextAddress s' = nextAddress s"
      by (simp add: step_alloc(2) reuse(1))
    then show ?thesis
      using assms(3,4) reuse(2) step_alloc(2) by simp
  qed
qed (simp add: alignedFree_blocks)

lemma alloc_reachable_above:
  assumes "alloc_reachable first s"
  shows "unat first \<le> unat (nextAddress s) \<and> (\<forall>x\<in>#alloc_blocks s. unat first \<le> unat (fst x))"
  using assms
proof (induction rule: alloc_reachable.induct)
  case reach_init
  then show ?case
    by (simp add: makeSimpleAllocator_def alloc_blocks_def)
next
  case (reach_step s oper s')
  then show ?case
    using alloc_step_next alloc_reachable_inv by blast
qed

section \<open>Claims\<close>

text \<open>C15: In every state a simple allocator reaches by any interleaving of allocations that fit the
  address space and frees, allocating returns a block that overlaps no block in use and lies at or
  above the first address, and adds exactly that block to the blocks in use.\<close>

theorem alignedAlloc_safe:
  assumes "alloc_reachable first s" and "alloc_fits sz al s"
    and "alignedAlloc sz al s = (a, s')"
  shows "alloc_reachable first s' \<and> unat first \<le> unat a
    \<and> mset (usedAllocationsMap s') = add_mset (a, sz) (mset (usedAllocationsMap s))
    \<and> (\<forall>x. x \<in> set (usedAllocationsMap s) \<longrightarrow> block_disjoint (a, sz) x)"
proof -
  have step: "alloc_reachable first s'"
    using reach_step [OF assms(1) step_alloc [OF assms(2)]] assms(3) by simp
  moreover have used: "mset (usedAllocationsMap s') = add_mset (a, sz) (mset (usedAllocationsMap s))"
    using simple.used_reserve [OF assms(2)] assms(3) by simp
  moreover have "unat first \<le> unat a"
    using alloc_reachable_above [OF step] used by (auto simp: alloc_blocks_def)
  moreover have "block_disjoint (a, sz) x" if "x \<in> set (usedAllocationsMap s)" for x
    using simple.reserve_disjoint [OF alloc_reachable_inv [OF assms(1)] assms(2), of x] that assms(3)
    by simp
  ultimately show ?thesis
    by blast
qed

theorem alignedAlloc_safe_witness:
  "block_disjoint (fst (alignedAlloc 0x1000 0x1000 (snd (alignedAlloc 0x2000 0x1000
      (makeSimpleAllocator (0x80000::u64))))), 0x1000) (0x80000, 0x2000)"
proof -
  let ?s = "makeSimpleAllocator (0x80000::u64)"
  have s1: "alignedAlloc 0x2000 0x1000 ?s =
      (0x80000, \<lparr>nextAddress = 0x82000, usedAllocationsMap = [(0x80000, 0x2000)], freeAllocationsMap = []\<rparr>)"
    by (simp add: alignedAlloc_def makeSimpleAllocator_def extract_Nil_code)
  have fits0: "alloc_fits 0x2000 0x1000 ?s"
    by (simp add: alloc_fits_def makeSimpleAllocator_def)
  have fits1: "alloc_fits 0x1000 0x1000 (snd (alignedAlloc 0x2000 0x1000 ?s))"
    by (simp add: alloc_fits_def s1)
  show ?thesis
    using alignedAlloc_safe [OF reach_alloc [OF reach_init fits0] fits1 surjective_pairing]
    by (simp add: s1)
qed

text \<open>Page allocations (size and alignment the same power of two, at least 4 KB) stay naturally
  aligned: as long as every block of the allocator is a multiple of its size, the next page is too,
  whether it is cut from the fresh area or reused from the free list.\<close>

theorem alignedAlloc_page_aligned:
  fixes s :: "64 SimpleAllocator"
  assumes "size_aligned s" and "12 \<le> k" and "k < 64" and "alloc_fits (2 ^ k) (2 ^ k) s"
  shows "2 ^ k dvd unat (fst (alignedAlloc (2 ^ k) (2 ^ k) s))
    \<and> size_aligned (snd (alignedAlloc (2 ^ k) (2 ^ k) s))"
  using alignedAlloc_size_aligned [OF assms] by simp

theorem alignedAlloc_page_aligned_witness:
  "2 ^ 21 dvd unat (fst (alignedAlloc (2 ^ 21) (2 ^ 21) (makeSimpleAllocator (0x80000 :: u64))))"
proof -
  have "size_aligned (makeSimpleAllocator (0x80000 :: u64))"
    by (simp add: size_aligned_def alloc_blocks_def makeSimpleAllocator_def)
  moreover have "alloc_fits (2 ^ 21) (2 ^ 21) (makeSimpleAllocator (0x80000 :: u64))"
    by (simp add: alloc_fits_def makeSimpleAllocator_def)
  ultimately show ?thesis
    using alignedAlloc_page_aligned [of "makeSimpleAllocator 0x80000" 21] by simp
qed

text \<open>Reuse ignores the requested alignment: a 2 MB block first reserved with 4 KB alignment and
  then freed is handed out for a request with 2 MB alignment, at an address that is not a multiple
  of 2 MB.\<close>

theorem alignedAlloc_reuse_misaligned:
  "let (a, s) = alignedAlloc 0x200000 0x1000 (makeSimpleAllocator reservedGGTTSpace);
       (b, s') = alignedAlloc 0x200000 0x200000 (alignedFree a s)
   in b = 0x80000 \<and> \<not> 0x200000 dvd unat b"
  by (simp add: alignedAlloc_def alignedFree_def makeSimpleAllocator_def reservedGGTTSpace_def
      extract_Nil_code extract_Cons_code dvd_eq_mod_eq_0)



text \<open>A bank mask selects one allocator: with bank 0, or without bank allocators, the main one; else
  the one at the index of the lowest bank of the mask, every other one staying as it was, and a mask
  whose lowest bank has no allocator fails the assertion.\<close>

theorem reservePhysicalMemory_Simple_selects:
  assumes "i < 32" and "numberOfAllocators s \<noteq> 0"
  shows "reservePhysicalMemory_Simple (2 ^ i) sz al s =
    (if i < length (allocators s)
     then Inr (fst (alignedAlloc sz al (allocators s ! i)),
               s\<lparr>allocators := (allocators s)[i := snd (alignedAlloc sz al (allocators s ! i))]\<rparr>)
     else Inl AssertionFailure)"
proof -
  have "(2 ^ i :: u32) \<noteq> 0"
    using assms(1) by (simp add: exp_eq_zero_iff)
  then show ?thesis
    using assms allocatorIndex_loop_power [OF assms(1), of 0]
    by (simp add: reservePhysicalMemory_Simple_def case_prod_beta)
qed

theorem reservePhysicalMemory_Simple_selects_witness:
  "reservePhysicalMemory_Simple 4 0x1000 0x1000 (makePhysicalAddressAllocatorSimple 2 0x80000000 True)
    = Inl AssertionFailure"
  using reservePhysicalMemory_Simple_selects [of 2 "makePhysicalAddressAllocatorSimple 2 0x80000000 True" "0x1000" "0x1000"]
  by (simp add: makePhysicalAddressAllocatorSimple_def)

text \<open>C28: The shared memory mapper translates back what it mapped: after mapping a host buffer at a
  physical range, every sub-range translates to the host address at the same offset, and the size
  reported as available covers it, so that one copy suffices.\<close>

theorem map_translate_roundtrip:
  assumes "mapSystemMemoryToPhysicalAddress pa sz al l p s = Inr s'"
    and "p \<noteq> 0" and "unat p + unat sz < 2 ^ 64" and "unat pa + unat sz < 2 ^ 64"
    and "unat off + unat n \<le> unat sz" and "0 < unat n"
  shows "fst (translatePhysicalAddressToSystemMemory (pa + off) n l s') = p + off
    \<and> unat n \<le> unat (snd (translatePhysicalAddressToSystemMemory (pa + off) n l s'))"
proof -
  note m = mapSystemMemory_table [OF assms(1,2)]
  let ?r = "0x1000 - off mod 0x1000 :: usize"
  have le: "unat (?r + (n - min ?r n)) = max (unat ?r) (unat n)"
    by (cases "?r \<le> n") (simp_all add: min_def max_def word_le_nat_alt)
  show ?thesis
    by (simp only: translate_mapped [OF m(1,2) assms(4,2,3,5,6) m(3)] fst_conv snd_conv le) simp
qed

theorem map_translate_roundtrip_witness:
  "\<exists>s'. mapSystemMemoryToPhysicalAddress 0x80000 0x2000 0x1000 False 0x700000
      \<lparr>mainAllocator = makeSimpleAllocator 0x80000, numberOfAllocators = 0, allocatorSize = 0, allocators = [],
       shm_localMem = (\<lambda>_. 0), shm_sysMem = (\<lambda>_. 0),
       shm_heap = \<lparr>aligned_alloc = (\<lambda>_ _ _. 0), storage = []\<rparr>\<rparr> = Inr s'
    \<and> fst (translatePhysicalAddressToSystemMemory 0x80ffc 8 False s') = 0x700ffc"
proof -
  let ?s = "\<lparr>mainAllocator = makeSimpleAllocator 0x80000, numberOfAllocators = 0, allocatorSize = 0, allocators = [],
       shm_localMem = (\<lambda>_. 0), shm_sysMem = (\<lambda>_. 0),
       shm_heap = \<lparr>aligned_alloc = (\<lambda>_ _ _. 0), storage = []\<rparr>\<rparr>"
  obtain s' where s': "mapSystemMemoryToPhysicalAddress 0x80000 0x2000 0x1000 False 0x700000 ?s = Inr s'"
    by (simp add: mapSystemMemoryToPhysicalAddress_def)
  show ?thesis
    using map_translate_roundtrip [OF s', of "0xffc" 8] s' by auto
qed

end
