(* ===== verification/PageTable.thy ===== *)
theory PageTable
  imports GpuModel Allocator
begin

text \<open>
  The page tables: \<^verbatim>\<open>page_table_entry_bits.h\<close>, \<^verbatim>\<open>page_table.h\<close>, \<^verbatim>\<open>page_table_pml5.h\<close> and
  \<^verbatim>\<open>page_table.cpp\<close>.  A page table owns its children, so that the object graph is a tree: the class of
  a node is its \<open>pt_kind\<close>, the virtual functions are functions that match on it, and the vector of
  owning pointers is a list of optional children.  \<open>pt_hasAllocator\<close> says whether the node's allocator
  pointer is set: the nodes of one tree share one allocator, which is threaded through the operations.
\<close>

section \<open>Entry bits\<close>

definition toBitValue :: "nat list \<Rightarrow> u64" where
  "toBitValue bits = foldr (\<lambda>b acc. push_bit b 1 OR acc) bits 0"

definition presentBit :: nat where "presentBit = 0"
definition writableBit :: nat where "writableBit = 1"
definition userSupervisorBit :: nat where "userSupervisorBit = 2"
definition intermediatePageSizeBit :: nat where "intermediatePageSizeBit = 6"
definition largePageSizeBit :: nat where "largePageSizeBit = 7"
definition ps64Bit :: nat where "ps64Bit = 8"
definition atomicEnableBit :: nat where "atomicEnableBit = 10"
definition legacyIntermediatePageSizeBit :: nat where "legacyIntermediatePageSizeBit = 11"
definition localMemoryBit :: nat where "localMemoryBit = 11"

lemmas entry_bit_defs = presentBit_def writableBit_def userSupervisorBit_def
  intermediatePageSizeBit_def largePageSizeBit_def ps64Bit_def atomicEnableBit_def
  legacyIntermediatePageSizeBit_def localMemoryBit_def

section \<open>Nodes\<close>

datatype ptKind =
    PageTableMemory | Page2MB
  | PTE4KB | PTE64KB | LegacyPTE64KB
  | PDE | LegacyPDE
  | PDP | LegacyPDP | PDP4 | LegacyPDP4
  | PML4 | LegacyPML4 | PML5

datatype PageTable = PageTable
  (pt_kind: ptKind)
  (pt_physicalAddress: u64)
  (pt_memoryBank: u32)
  (pt_table: "PageTable option list")
  (pt_ps64: bool)
  (pt_pendingWrite: bool)
  (pt_hasAllocator: bool)
  (pt_params: AdditionalParams)

definition pageSize2MB :: usize where "pageSize2MB = 2 * 1024 * 1024"

primrec set_table :: "PageTable option list \<Rightarrow> PageTable \<Rightarrow> PageTable" where
  "set_table t' (PageTable k a b t p w h x) = PageTable k a b t' p w h x"

primrec setPhysicalAddress :: "u64 \<Rightarrow> PageTable \<Rightarrow> PageTable" where
  "setPhysicalAddress a' (PageTable k a b t p w h x) = PageTable k a' b t p w h x"

primrec setMemoryBank :: "u32 \<Rightarrow> PageTable \<Rightarrow> PageTable" where
  "setMemoryBank b' (PageTable k a b t p w h x) = PageTable k a b' t p w h x"

primrec setPs64 :: "bool \<Rightarrow> PageTable \<Rightarrow> PageTable" where
  "setPs64 p' (PageTable k a b t p w h x) = PageTable k a b t p' w h x"

primrec setPendingWrite :: "bool \<Rightarrow> PageTable \<Rightarrow> PageTable" where
  "setPendingWrite w' (PageTable k a b t p w h x) = PageTable k a b t p w' h x"

definition isLocalMemory :: "PageTable \<Rightarrow> bool" where
  "isLocalMemory n \<longleftrightarrow> pt_memoryBank n \<noteq> 0"

text \<open>Reading and writing a slot of a vector that grows on demand.\<close>

definition slot_get :: "'a option list \<Rightarrow> nat \<Rightarrow> 'a option" where
  "slot_get t index = (if length t \<le> index then None else t ! index)"

definition slot_set :: "nat \<Rightarrow> 'a option \<Rightarrow> 'a option list \<Rightarrow> 'a option list" where
  "slot_set index child t = (t @ replicate (index + 1 - length t) None)[index := child]"

lemma slot_get_set [simp]:
  "slot_get (slot_set i c t) j = (if i = j then c else slot_get t j)"
  by (auto simp: slot_get_def slot_set_def nth_list_update nth_append)

lemma slot_get_Nil [simp]: "slot_get [] i = None"
  by (simp add: slot_get_def)

definition getChild :: "PageTable \<Rightarrow> nat \<Rightarrow> PageTable option" where
  "getChild n index = slot_get (pt_table n) index"

definition setChild :: "nat \<Rightarrow> PageTable option \<Rightarrow> PageTable \<Rightarrow> PageTable" where
  "setChild index child n = set_table (slot_set index child (pt_table n)) n"

definition isEmpty :: "PageTable \<Rightarrow> bool" where
  "isEmpty n \<longleftrightarrow> list_all (\<lambda>entry. entry = None) (pt_table n)"

fun getNumLevels :: "ptKind \<Rightarrow> nat" where
  "getNumLevels PML5 = 5"
| "getNumLevels PML4 = 4"
| "getNumLevels LegacyPML4 = 4"
| "getNumLevels PDP4 = 3"
| "getNumLevels LegacyPDP4 = 3"
| "getNumLevels k = 0"

fun getNumAddressBits :: "ptKind \<Rightarrow> nat" where
  "getNumAddressBits PML5 = 57"
| "getNumAddressBits PML4 = 48"
| "getNumAddressBits LegacyPML4 = 48"
| "getNumAddressBits PDP4 = 32"
| "getNumAddressBits LegacyPDP4 = 32"
| "getNumAddressBits k = 0"

fun getPageSize :: "ptKind \<Rightarrow> usize" where
  "getPageSize PTE4KB = 4096"
| "getPageSize PTE64KB = 65536"
| "getPageSize LegacyPTE64KB = 65536"
| "getPageSize Page2MB = pageSize2MB"
| "getPageSize k = 0"

fun getIndex :: "ptKind \<Rightarrow> u64 \<Rightarrow> nat" where
  "getIndex PTE4KB gfxAddress = unat (drop_bit 12 gfxAddress AND 0x1ff)"
| "getIndex PTE64KB gfxAddress = unat (drop_bit 16 gfxAddress AND 0x1f)"
| "getIndex LegacyPTE64KB gfxAddress = unat (drop_bit 12 gfxAddress AND 0x1f0)"
| "getIndex PDE gfxAddress = unat (drop_bit 21 gfxAddress AND 0x1ff)"
| "getIndex LegacyPDE gfxAddress = unat (drop_bit 21 gfxAddress AND 0x1ff)"
| "getIndex PDP gfxAddress = unat (drop_bit 30 gfxAddress AND 0x1ff)"
| "getIndex LegacyPDP gfxAddress = unat (drop_bit 30 gfxAddress AND 0x1ff)"
| "getIndex PDP4 gfxAddress = unat (drop_bit 30 gfxAddress AND 3)"
| "getIndex LegacyPDP4 gfxAddress = unat (drop_bit 30 gfxAddress AND 3)"
| "getIndex PML4 gfxAddress = unat (drop_bit 39 gfxAddress AND 0x1ff)"
| "getIndex LegacyPML4 gfxAddress = unat (drop_bit 39 gfxAddress AND 0x1ff)"
| "getIndex PML5 gfxAddress = unat (drop_bit 48 gfxAddress AND 0x1ff)"
| "getIndex PageTableMemory gfxAddress = 0"
| "getIndex Page2MB gfxAddress = 0"

section \<open>Entry values\<close>

definition pageEntryBits :: "'z Gpu_scheme \<Rightarrow> PageTable \<Rightarrow> u64" where
  "pageEntryBits gpu n =
     toBitValue [writableBit, presentBit]
     OR (if isLocalMemory n then toBitValue [localMemoryBit] else 0)
     OR (if pt_ps64 n then toBitValue [ps64Bit] else 0)
     OR gpu_getPPGTTExtraEntryBits gpu (pt_params n)"

definition page2MBEntryBits :: "'z Gpu_scheme \<Rightarrow> PageTable \<Rightarrow> u64" where
  "page2MBEntryBits gpu n =
     toBitValue [largePageSizeBit, writableBit, presentBit]
     OR (if isLocalMemory n then toBitValue [localMemoryBit] else 0)
     OR gpu_getPPGTTExtraEntryBits gpu (pt_params n)"

definition getEntryValue :: "'z Gpu_scheme \<Rightarrow> PageTable \<Rightarrow> u64 result" where
  "getEntryValue gpu n = (case pt_kind n of
       PageTableMemory \<Rightarrow> Inr (pt_physicalAddress n OR pageEntryBits gpu n)
     | Page2MB \<Rightarrow> assertR (pt_physicalAddress n AND (pageSize2MB - 1) = 0)
                    (Inr (pt_physicalAddress n OR page2MBEntryBits gpu n))
     | LegacyPTE64KB \<Rightarrow> Inr (pt_physicalAddress n
                    OR toBitValue [legacyIntermediatePageSizeBit, writableBit, presentBit])
     | PTE64KB \<Rightarrow> Inr (pt_physicalAddress n
                    OR toBitValue [intermediatePageSizeBit, writableBit, presentBit])
     | _ \<Rightarrow> Inr (pt_physicalAddress n OR toBitValue [writableBit, presentBit]))"

section \<open>Construction\<close>

text \<open>
  The constructor that may reserve memory.  The argument \<open>hasAllocator\<close> is false where the sources pass
  a null allocator; reserving through it would dereference null.
\<close>

definition newPageTable ::
  "ptKind \<Rightarrow> bool \<Rightarrow> usize \<Rightarrow> u32 \<Rightarrow> AdditionalParams \<Rightarrow> PhysicalAddressAllocator
    \<Rightarrow> (PageTable \<times> PhysicalAddressAllocator) result" where
  "newPageTable kind hasAllocator sz memoryBank params alloc =
     (if sz \<noteq> 0
      then (if hasAllocator
            then (let sz' = max sz 4096
                  in bindR (reservePhysicalMemory memoryBank sz' sz' alloc)
                       (\<lambda>(a, alloc'). Inr (PageTable kind a memoryBank [] False False True params, alloc')))
            else Inl NullDereference)
      else Inr (PageTable kind 0 memoryBank [] False False hasAllocator params, alloc))"

text \<open>The constructor at a given physical address: no allocator.\<close>

definition newPageTableAt :: "ptKind \<Rightarrow> u64 \<Rightarrow> u32 \<Rightarrow> AdditionalParams \<Rightarrow> PageTable" where
  "newPageTableAt kind physicalAddress memoryBank params =
     PageTable kind physicalAddress memoryBank [] False False False params"

definition newPage2MBAt :: "u64 \<Rightarrow> u32 \<Rightarrow> AdditionalParams \<Rightarrow> PageTable result" where
  "newPage2MBAt physicalAddress memoryBank params =
     assertR (physicalAddress AND (pageSize2MB - 1) = 0)
       (Inr (newPageTableAt Page2MB physicalAddress memoryBank params))"

definition newTable ::
  "ptKind \<Rightarrow> bool \<Rightarrow> u32 \<Rightarrow> PhysicalAddressAllocator \<Rightarrow> (PageTable \<times> PhysicalAddressAllocator) result" where
  "newTable kind hasAllocator memoryBank alloc =
     newPageTable kind hasAllocator 4096 memoryBank noAdditionalParams alloc"

section \<open>Children\<close>

text \<open>
  \<open>allocateChild\<close> without, with additional parameters, and at a pre-reserved physical address; the
  result is \<open>None\<close> where the base class returns a null pointer.
\<close>

definition allocatePdeChild ::
  "ptKind \<Rightarrow> PageTable \<Rightarrow> usize \<Rightarrow> u32 \<Rightarrow> PhysicalAddressAllocator
    \<Rightarrow> (PageTable option \<times> PhysicalAddressAllocator) result" where
  "allocatePdeChild child64KB n pageSize bank alloc =
     (if pageSize = pageSize2MB
      then bindR (newPageTable Page2MB (pt_hasAllocator n) pageSize2MB bank noAdditionalParams alloc)
             (\<lambda>(c, a). Inr (Some c, a))
      else assertR (bank = pt_memoryBank n)
             (bindR (newTable (if pageSize = 65536 then child64KB else PTE4KB) (pt_hasAllocator n) bank alloc)
                (\<lambda>(c, a). Inr (Some c, a))))"

definition allocateTableChild ::
  "ptKind \<Rightarrow> PageTable \<Rightarrow> u32 \<Rightarrow> PhysicalAddressAllocator
    \<Rightarrow> (PageTable option \<times> PhysicalAddressAllocator) result" where
  "allocateTableChild childKind n bank alloc =
     assertR (bank = pt_memoryBank n)
       (bindR (newTable childKind (pt_hasAllocator n) bank alloc) (\<lambda>(c, a). Inr (Some c, a)))"

definition allocateChild ::
  "PageTable \<Rightarrow> usize \<Rightarrow> u32 \<Rightarrow> PhysicalAddressAllocator
    \<Rightarrow> (PageTable option \<times> PhysicalAddressAllocator) result" where
  "allocateChild n pageSize bank alloc =
     (let page = bindR (newPageTable PageTableMemory (pt_hasAllocator n) pageSize bank noAdditionalParams alloc)
                   (\<lambda>(c, a). Inr (Some c, a))
      in case pt_kind n of
           PTE4KB \<Rightarrow> page
         | PTE64KB \<Rightarrow> page
         | LegacyPTE64KB \<Rightarrow> page
         | PDE \<Rightarrow> allocatePdeChild PTE64KB n pageSize bank alloc
         | LegacyPDE \<Rightarrow> allocatePdeChild LegacyPTE64KB n pageSize bank alloc
         | PDP \<Rightarrow> allocateTableChild PDE n bank alloc
         | LegacyPDP \<Rightarrow> allocateTableChild LegacyPDE n bank alloc
         | PDP4 \<Rightarrow> allocateTableChild PDE n bank alloc
         | LegacyPDP4 \<Rightarrow> allocateTableChild LegacyPDE n bank alloc
         | PML4 \<Rightarrow> allocateTableChild PDP n bank alloc
         | LegacyPML4 \<Rightarrow> allocateTableChild LegacyPDP n bank alloc
         | PML5 \<Rightarrow> allocateTableChild PML4 n bank alloc
         | _ \<Rightarrow> Inr (None, alloc))"

definition allocateChildWith ::
  "PageTable \<Rightarrow> usize \<Rightarrow> u32 \<Rightarrow> AdditionalParams \<Rightarrow> PhysicalAddressAllocator
    \<Rightarrow> (PageTable option \<times> PhysicalAddressAllocator) result" where
  "allocateChildWith n pageSize bank params alloc =
     (let page = bindR (newPageTable PageTableMemory (pt_hasAllocator n) pageSize bank params alloc)
                   (\<lambda>(c, a). Inr (Some c, a));
          pde = (if pageSize = pageSize2MB
                 then bindR (newPageTable Page2MB (pt_hasAllocator n) pageSize2MB bank params alloc)
                        (\<lambda>(c, a). Inr (Some c, a))
                 else assertR (bank = pt_memoryBank n) (allocateChild n pageSize bank alloc))
      in case pt_kind n of
           PTE4KB \<Rightarrow> page
         | PTE64KB \<Rightarrow> page
         | LegacyPTE64KB \<Rightarrow> page
         | PDE \<Rightarrow> pde
         | LegacyPDE \<Rightarrow> pde
         | _ \<Rightarrow> Inr (None, alloc))"

definition allocateChildAt ::
  "PageTable \<Rightarrow> usize \<Rightarrow> u32 \<Rightarrow> AdditionalParams \<Rightarrow> u64 \<Rightarrow> PhysicalAddressAllocator
    \<Rightarrow> (PageTable option \<times> PhysicalAddressAllocator) result" where
  "allocateChildAt n pageSize bank params physicalAddress alloc =
     (let page = Inr (Some (newPageTableAt PageTableMemory physicalAddress bank params), alloc);
          pde = (if pageSize = pageSize2MB
                 then bindR (newPage2MBAt physicalAddress bank params) (\<lambda>c. Inr (Some c, alloc))
                 else assertR (bank = pt_memoryBank n) (allocateChild n pageSize bank alloc))
      in case pt_kind n of
           PTE4KB \<Rightarrow> page
         | PTE64KB \<Rightarrow> page
         | LegacyPTE64KB \<Rightarrow> page
         | PDE \<Rightarrow> pde
         | LegacyPDE \<Rightarrow> pde
         | _ \<Rightarrow> Inr (None, alloc))"

section \<open>Destruction\<close>

text \<open>The destructor frees the node's memory, then deletes the children in order.\<close>

fun deletePageTable :: "PageTable \<Rightarrow> PhysicalAddressAllocator \<Rightarrow> PhysicalAddressAllocator result"
and deleteChildren :: "PageTable option list \<Rightarrow> PhysicalAddressAllocator \<Rightarrow> PhysicalAddressAllocator result" where
  "deletePageTable (PageTable k a b t p w h x) alloc =
     bindR (if h then freePhysicalMemory b a alloc else Inr alloc) (deleteChildren t)"
| "deleteChildren [] alloc = Inr alloc"
| "deleteChildren (None # t) alloc = deleteChildren t alloc"
| "deleteChildren (Some c # t) alloc = bindR (deletePageTable c alloc) (deleteChildren t)"

section \<open>Roots\<close>

definition newPDP4_child ::
  "ptKind \<Rightarrow> nat \<Rightarrow> PageTable \<times> PhysicalAddressAllocator \<Rightarrow> (PageTable \<times> PhysicalAddressAllocator) result" where
  "newPDP4_child childKind i = (\<lambda>(n, alloc).
     bindR (allocateTableChild childKind n (pt_memoryBank n) alloc)
       (\<lambda>(c, alloc'). Inr (setChild i c n, alloc')))"

definition newPDP4 ::
  "bool \<Rightarrow> u32 \<Rightarrow> PhysicalAddressAllocator \<Rightarrow> (PageTable \<times> PhysicalAddressAllocator) result" where
  "newPDP4 legacy memoryBank alloc =
     (let kind = (if legacy then LegacyPDP4 else PDP4); childKind = (if legacy then LegacyPDE else PDE)
      in bindR (newPageTable kind True 0 memoryBank noAdditionalParams alloc) (\<lambda>s0.
         bindR (newPDP4_child childKind 0 s0) (\<lambda>s1.
         bindR (newPDP4_child childKind 1 s1) (\<lambda>s2.
         bindR (newPDP4_child childKind 2 s2) (newPDP4_child childKind 3)))))"

record GGTT =
  ggtt_memoryBank :: u32
  ggtt_table :: "PageTable option list"
  ggtt_entryOffset :: u64
  ggtt_gfxAddressAllocator :: "32 SimpleAllocator"
  ggtt_gttTableOffset :: u64

function entryOffset_loop :: "u32 \<Rightarrow> u64 \<Rightarrow> u64" where
  "entryOffset_loop memoryBank entryOffset =
     (if memoryBank \<noteq> 0 \<and> memoryBank AND 1 = 0
      then entryOffset_loop (drop_bit 1 memoryBank) (entryOffset + 0x1000000)
      else entryOffset)"
  by pat_completeness auto
termination
proof (relation "measure (\<lambda>(m, e). unat m)")
  fix m :: u32 and e :: u64
  assume "m \<noteq> 0 \<and> m AND 1 = 0"
  then have "0 < unat m"
    by (simp add: unat_gt_0)
  then show "((drop_bit 1 m, e + 0x1000000), (m, e)) \<in> measure (\<lambda>(m, e). unat m)"
    by (simp only: in_measure case_prod_conv unat_shift_right power_one_right)
qed simp

declare entryOffset_loop.simps [simp del]

definition newGGTT :: "u32 \<Rightarrow> u64 \<Rightarrow> GGTT result" where
  "newGGTT memoryBank gttBaseAddress =
     assertR (memoryBank = 0 \<or> memoryBank AND (memoryBank - 1) = 0)
       (Inr \<lparr>ggtt_memoryBank = memoryBank, ggtt_table = [],
             ggtt_entryOffset = entryOffset_loop memoryBank 0,
             ggtt_gfxAddressAllocator = makeSimpleAllocator 0,
             ggtt_gttTableOffset = gttBaseAddress\<rparr>)"

definition ggtt_getIndex :: "u64 \<Rightarrow> nat" where
  "ggtt_getIndex gfxAddress = unat (drop_bit 12 (ucast gfxAddress :: u32))"

definition ggtt_getChild :: "GGTT \<Rightarrow> nat \<Rightarrow> PageTable option" where
  "ggtt_getChild g index = slot_get (ggtt_table g) index"

definition ggtt_setChild :: "nat \<Rightarrow> PageTable option \<Rightarrow> GGTT \<Rightarrow> GGTT" where
  "ggtt_setChild index child g = g\<lparr>ggtt_table := slot_set index child (ggtt_table g)\<rparr>"

definition ggtt_allocateChild ::
  "GGTT \<Rightarrow> usize \<Rightarrow> u32 \<Rightarrow> PhysicalAddressAllocator \<Rightarrow> (PageTable \<times> PhysicalAddressAllocator) result" where
  "ggtt_allocateChild g pageSize bank alloc =
     assertR (bank = ggtt_memoryBank g)
       (newPageTable PageTableMemory True pageSize bank noAdditionalParams alloc)"

definition deleteGGTT :: "GGTT \<Rightarrow> PhysicalAddressAllocator \<Rightarrow> PhysicalAddressAllocator result" where
  "deleteGGTT g alloc = bindR (freePhysicalMemory (ggtt_memoryBank g) 0 alloc) (deleteChildren (ggtt_table g))"

section \<open>Slots\<close>

text \<open>
  What the walkers rely on when they read and write the children of a table: reading a slot after a
  write gives what was written, and the other slots keep their children.
\<close>

locale child_slots =
  fixes get :: "'t \<Rightarrow> nat \<Rightarrow> 'c option" and put :: "nat \<Rightarrow> 'c option \<Rightarrow> 't \<Rightarrow> 't"
  assumes get_put: "get (put i c t) j = (if i = j then c else get t j)"
begin

lemma get_put_same: "get (put i c t) i = c"
  by (simp add: get_put)

lemma get_put_other: "i \<noteq> j \<Longrightarrow> get (put i c t) j = get t j"
  by (simp add: get_put)

lemma get_put_all: "(\<forall>j d. get t j = Some d \<longrightarrow> P j d) \<Longrightarrow> P i c
    \<Longrightarrow> (\<forall>j d. get (put i (Some c) t) j = Some d \<longrightarrow> P j d)"
  by (simp add: get_put)

lemma get_fold_put:
  assumes "i \<notin> fst ` set ws"
  shows "get (fold (\<lambda>w. put (fst w) (snd w)) ws t) i = get t i"
  using assms by (induction ws arbitrary: t) (simp_all add: get_put)

end

lemma pt_table_set [simp]: "pt_table (set_table t n) = t"
  by (cases n) simp

lemma set_table_other [simp]:
  "pt_kind (set_table t n) = pt_kind n" "pt_physicalAddress (set_table t n) = pt_physicalAddress n"
  "pt_memoryBank (set_table t n) = pt_memoryBank n" "pt_ps64 (set_table t n) = pt_ps64 n"
  "pt_pendingWrite (set_table t n) = pt_pendingWrite n" "pt_hasAllocator (set_table t n) = pt_hasAllocator n"
  "pt_params (set_table t n) = pt_params n"
  by (cases n; simp)+

lemma setPhysicalAddress_sel [simp]:
  "pt_kind (setPhysicalAddress a n) = pt_kind n" "pt_physicalAddress (setPhysicalAddress a n) = a"
  "pt_memoryBank (setPhysicalAddress a n) = pt_memoryBank n" "pt_table (setPhysicalAddress a n) = pt_table n"
  "pt_ps64 (setPhysicalAddress a n) = pt_ps64 n" "pt_pendingWrite (setPhysicalAddress a n) = pt_pendingWrite n"
  "pt_hasAllocator (setPhysicalAddress a n) = pt_hasAllocator n" "pt_params (setPhysicalAddress a n) = pt_params n"
  by (cases n; simp)+

lemma setMemoryBank_sel [simp]:
  "pt_kind (setMemoryBank b n) = pt_kind n" "pt_physicalAddress (setMemoryBank b n) = pt_physicalAddress n"
  "pt_memoryBank (setMemoryBank b n) = b" "pt_table (setMemoryBank b n) = pt_table n"
  "pt_ps64 (setMemoryBank b n) = pt_ps64 n" "pt_pendingWrite (setMemoryBank b n) = pt_pendingWrite n"
  "pt_hasAllocator (setMemoryBank b n) = pt_hasAllocator n" "pt_params (setMemoryBank b n) = pt_params n"
  by (cases n; simp)+

lemma setPs64_sel [simp]:
  "pt_kind (setPs64 p n) = pt_kind n" "pt_physicalAddress (setPs64 p n) = pt_physicalAddress n"
  "pt_memoryBank (setPs64 p n) = pt_memoryBank n" "pt_table (setPs64 p n) = pt_table n"
  "pt_ps64 (setPs64 p n) = p" "pt_pendingWrite (setPs64 p n) = pt_pendingWrite n"
  "pt_hasAllocator (setPs64 p n) = pt_hasAllocator n" "pt_params (setPs64 p n) = pt_params n"
  by (cases n; simp)+

lemma setPendingWrite_sel [simp]:
  "pt_kind (setPendingWrite w n) = pt_kind n" "pt_physicalAddress (setPendingWrite w n) = pt_physicalAddress n"
  "pt_memoryBank (setPendingWrite w n) = pt_memoryBank n" "pt_table (setPendingWrite w n) = pt_table n"
  "pt_ps64 (setPendingWrite w n) = pt_ps64 n" "pt_pendingWrite (setPendingWrite w n) = w"
  "pt_hasAllocator (setPendingWrite w n) = pt_hasAllocator n" "pt_params (setPendingWrite w n) = pt_params n"
  by (cases n; simp)+

lemma getChild_setters [simp]:
  "getChild (setPhysicalAddress a n) i = getChild n i" "getChild (setMemoryBank b n) i = getChild n i"
  "getChild (setPs64 p n) i = getChild n i" "getChild (setPendingWrite w n) i = getChild n i"
  by (simp_all add: getChild_def)

lemma getChild_setChild [simp]: "getChild (setChild i c n) j = (if i = j then c else getChild n j)"
  by (simp add: getChild_def setChild_def)

lemma setChild_other [simp]:
  "pt_kind (setChild i c n) = pt_kind n" "pt_physicalAddress (setChild i c n) = pt_physicalAddress n"
  "pt_memoryBank (setChild i c n) = pt_memoryBank n" "pt_ps64 (setChild i c n) = pt_ps64 n"
  "pt_pendingWrite (setChild i c n) = pt_pendingWrite n" "pt_hasAllocator (setChild i c n) = pt_hasAllocator n"
  "pt_params (setChild i c n) = pt_params n"
  by (simp_all add: setChild_def)

interpretation pt: child_slots getChild setChild
  by unfold_locales simp

interpretation ggtt: child_slots ggtt_getChild ggtt_setChild
  by unfold_locales (simp add: ggtt_getChild_def ggtt_setChild_def)

end
