(* ===== verification/Walker.thy ===== *)
theory Walker
  imports PageTable
begin

text \<open>
  The page table walker: \<^verbatim>\<open>page_table_walker.h\<close> and \<^verbatim>\<open>page_table_walker.cpp\<close>.  The walk descends from
  the root for every page of the allocation, creates the missing tables and pages (or follows the
  existing ones), and records the page table entries and the pages it went through.  A pointer to a
  node of the tree is the path of indices from the root to it.  The mutable locals of the C++ function
  are the records \<open>walk_ctx\<close> (constant during one page), \<open>walk_local\<close> (changed while descending) and
  \<open>PageTableWalker\<close> (the members of the class, the per-walk set \<open>emittedPending\<close> and the allocator).
  The log messages are left out.
\<close>

section \<open>State\<close>

datatype WalkMode = Reserve | Clone | Expect

record PageEntryInfo =
  pe_physicalAddress :: u64
  pe_tableEntry :: u64

type_synonym path = "nat list"

record PageTableWalker =
  w_entries :: "PageInfo list"
  w_pageWalkEntries :: "nat \<Rightarrow> PageEntryInfo list"
  w_pendingNodes :: "nat \<Rightarrow> path list"
  w_pages64KB :: "u64 list"
  w_emittedPending :: "nat \<Rightarrow> path list"
  w_alloc :: PhysicalAddressAllocator

definition makeWalker :: "PhysicalAddressAllocator \<Rightarrow> PageTableWalker" where
  "makeWalker alloc = \<lparr>w_entries = [], w_pageWalkEntries = (\<lambda>_. []), w_pendingNodes = (\<lambda>_. []),
     w_pages64KB = [], w_emittedPending = (\<lambda>_. []), w_alloc = alloc\<rparr>"

definition pushWalkEntry :: "nat \<Rightarrow> u64 \<Rightarrow> u64 \<Rightarrow> PageTableWalker \<Rightarrow> PageTableWalker" where
  "pushWalkEntry level address entry w = w\<lparr>w_pageWalkEntries := (w_pageWalkEntries w)
     (level := w_pageWalkEntries w level @ [\<lparr>pe_physicalAddress = address, pe_tableEntry = entry\<rparr>])\<rparr>"

definition pushPending :: "nat \<Rightarrow> path \<Rightarrow> PageTableWalker \<Rightarrow> PageTableWalker" where
  "pushPending level p w = w\<lparr>w_pendingNodes := (w_pendingNodes w)
     (level := w_pendingNodes w level @ [p])\<rparr>"

text \<open>\<^verbatim>\<open>emittedPending[level].insert(p).second\<close> and the set after it.\<close>

definition isEmitted :: "nat \<Rightarrow> path \<Rightarrow> PageTableWalker \<Rightarrow> bool" where
  "isEmitted level p w = List.member (w_emittedPending w level) p"

definition insertEmitted :: "nat \<Rightarrow> path \<Rightarrow> PageTableWalker \<Rightarrow> PageTableWalker" where
  "insertEmitted level p w = (if isEmitted level p w then w
     else w\<lparr>w_emittedPending := (w_emittedPending w)(level := w_emittedPending w level @ [p])\<rparr>)"

section \<open>The global table\<close>

definition ggttEntryInfo :: "GGTT \<Rightarrow> nat \<Rightarrow> u64 \<Rightarrow> u64 \<Rightarrow> PageTableWalker \<Rightarrow> PageTableWalker" where
  "ggttEntryInfo g index physAddress enableBits w =
     pushWalkEntry 0 (ggtt_entryOffset g + 8 * word_of_nat index) (physAddress OR enableBits) w"

text \<open>The loop over the remaining 4 KB entries of a larger page.\<close>

fun ggttDumpEntries ::
  "nat \<Rightarrow> nat \<Rightarrow> u64 \<Rightarrow> u32 \<Rightarrow> u64 \<Rightarrow> GGTT \<Rightarrow> PageTableWalker \<Rightarrow> GGTT \<times> PageTableWalker" where
  "ggttDumpEntries 0 index physAddress bank enableBits g w = (g, w)"
| "ggttDumpEntries (Suc n) index physAddress bank enableBits g w =
     (let physAddress' = physAddress + 4096;
          g' = ggtt_setChild index
                 (Some (newPageTableAt PageTableMemory physAddress' bank noAdditionalParams)) g
      in ggttDumpEntries n (index + 1) physAddress' bank enableBits g'
           (ggttEntryInfo g index physAddress' enableBits w))"

definition ggttGetOrAllocate ::
  "u32 \<Rightarrow> usize \<Rightarrow> WalkMode \<Rightarrow> nat \<Rightarrow> GGTT \<Rightarrow> PageTableWalker
    \<Rightarrow> (PageTable \<times> GGTT \<times> PageTableWalker) result" where
  "ggttGetOrAllocate memoryBanks pageSize mode index g w =
     (case ggtt_getChild g index of
        Some child \<Rightarrow> Inr (child, g, w)
      | None \<Rightarrow>
          assertR (mode \<noteq> Expect)
            (bindR (ggtt_allocateChild g pageSize (ggtt_memoryBank g) (w_alloc w))
              (\<lambda>(child, alloc).
                 let enableBits = (if memoryBanks \<noteq> mainBank then 3 else 1);
                     g1 = ggtt_setChild index (Some child) g;
                     w1 = ggttEntryInfo g index (pt_physicalAddress child) enableBits (w\<lparr>w_alloc := alloc\<rparr>);
                     (g2, w2) = ggttDumpEntries (unat (pageSize div 4096) - 1) (index + 1)
                                  (pt_physicalAddress child) (pt_memoryBank child) enableBits g1 w1
                 in Inr (child, g2, w2))))"

text \<open>
  A page size that leaves no progress (0) keeps the C++ loop in place forever; it is the error
  \<open>Diverges\<close>.  Otherwise the size decreases in every pass.
\<close>

function walkGgtt ::
  "u32 \<Rightarrow> usize \<Rightarrow> WalkMode \<Rightarrow> u64 \<Rightarrow> usize \<Rightarrow> GGTT \<Rightarrow> PageTableWalker
    \<Rightarrow> (GGTT \<times> PageTableWalker) result" where
  "walkGgtt memoryBanks pageSize mode gfxAddress sz g w =
     (if sz > 0 then
        (let pageOffset = gfxAddress AND (pageSize - 1);
             gpuAddressAligned = ucast (gfxAddress - pageOffset) :: u32;
             index = ggtt_getIndex (ucast gpuAddressAligned)
         in bindR (ggttGetOrAllocate memoryBanks pageSize mode index g w)
              (\<lambda>(child, g', w').
                 let sizeThisPass = min (pageSize - pageOffset) sz;
                     info = \<lparr>pi_physicalAddress = pt_physicalAddress child + pageOffset,
                             pi_size = sizeThisPass, pi_isLocalMemory = isLocalMemory child,
                             pi_memoryBank = 0\<rparr>
                 in if sizeThisPass = 0 then Inl Diverges
                    else walkGgtt memoryBanks pageSize mode
                           (gfxAddress + ucast (ucast sizeThisPass :: u32)) (sz - sizeThisPass) g'
                           (w'\<lparr>w_entries := w_entries w' @ [info]\<rparr>)))
      else Inr (g, w))"
  by pat_completeness auto
termination
proof (relation "measure (\<lambda>(b, p, m, a, s, g, w). unat s)", goal_cases)
  case (2 banks pageSize mode gfx sz g w pageOffset aligned index r child r2 g' w' sizeThisPass info)
  then have le: "sizeThisPass \<le> sz" and pos: "0 < unat sizeThisPass"
    by (auto simp: unat_gt_0)
  then have "unat (sz - sizeThisPass) < unat sz"
    by (simp add: unat_sub word_le_nat_alt)
  then show ?case
    by simp
qed simp

declare walkGgtt.simps [simp del]

section \<open>The per-process table\<close>

record walk_ctx =
  c_gpu :: Gpu
  c_params :: AdditionalParams
  c_mode :: WalkMode
  c_isLocalMemory :: bool
  c_ps64Applicable :: bool
  c_clonePageInfo :: "PageInfo option"
  c_pageMemoryBank :: u32
  c_gfxAddress :: u64
  c_size :: usize

record walk_local =
  l_pageSize :: usize
  l_leafLevel :: nat
  l_physicalAddress :: "u64 option"
  l_pte :: "usize option"

definition Pte :: nat where "Pte = 0"
definition Pde :: nat where "Pde = 1"

definition adjustPageSizeForHardwareSupport :: "Gpu \<Rightarrow> usize \<Rightarrow> u32 \<Rightarrow> usize" where
  "adjustPageSizeForHardwareSupport gpu pageSize memoryBanks =
     (if pageSize = pageSize2MB \<and> \<not> gpu_isMemorySupported gpu memoryBanks (ucast pageSize)
      then 65536 else pageSize)"

definition hasExistingPageTableConflict :: "PageTable option \<Rightarrow> nat \<Rightarrow> usize \<Rightarrow> bool" where
  "hasExistingPageTableConflict child level pageSize = (case child of
       None \<Rightarrow> False
     | Some c \<Rightarrow> level = Pde \<and> pageSize = pageSize2MB \<and> getPageSize (pt_kind c) \<noteq> pageSize2MB)"

definition ps64EntryFlags :: "Gpu \<Rightarrow> PageTable \<Rightarrow> u64 result" where
  "ps64EntryFlags gpu n = bindR (getEntryValue gpu n)
     (\<lambda>v. Inr ((v XOR pt_physicalAddress n) AND NOT (toBitValue [ps64Bit])))"

fun ps64GroupRest :: "Gpu \<Rightarrow> PageTable \<Rightarrow> nat \<Rightarrow> u64 \<Rightarrow> u64 \<Rightarrow> nat list \<Rightarrow> bool result" where
  "ps64GroupRest gpu parent hwBase base flags0 [] = Inr True"
| "ps64GroupRest gpu parent hwBase base flags0 (i # is) =
     (case getChild parent (hwBase + i) of
        None \<Rightarrow> Inr False
      | Some ci \<Rightarrow>
          if pt_physicalAddress ci \<noteq> base + word_of_nat i * 4096 then Inr False
          else bindR (ps64EntryFlags gpu ci)
                 (\<lambda>f. if f \<noteq> flags0 then Inr False
                      else ps64GroupRest gpu parent hwBase base flags0 is))"

definition isPs64GroupComplete :: "Gpu \<Rightarrow> PageTable \<Rightarrow> nat \<Rightarrow> bool result" where
  "isPs64GroupComplete gpu parent hwBase = (case getChild parent hwBase of
       None \<Rightarrow> Inr False
     | Some c0 \<Rightarrow>
         if pt_physicalAddress c0 AND 0xffff \<noteq> 0 then Inr False
         else bindR (ps64EntryFlags gpu c0)
                (\<lambda>flags0. ps64GroupRest gpu parent hwBase (pt_physicalAddress c0) flags0 [1..<16]))"

text \<open>The address of a slot of a table.\<close>

definition slotAddress :: "PageTable \<Rightarrow> nat \<Rightarrow> u64" where
  "slotAddress parent index = pt_physicalAddress parent + word_of_nat index * 8"

subsection \<open>Creating and remapping the child\<close>

definition newWalkChild ::
  "walk_ctx \<Rightarrow> nat \<Rightarrow> PageTable \<Rightarrow> walk_local \<Rightarrow> PhysicalAddressAllocator
    \<Rightarrow> (PageTable option \<times> PhysicalAddressAllocator) result" where
  "newWalkChild c level parent l alloc =
     (case (level = l_leafLevel l, c_clonePageInfo c) of
        (True, Some info) \<Rightarrow>
          (let physicalAddressAligned = pi_physicalAddress info AND NOT (l_pageSize l - 1)
           in if l_pageSize l = pageSize2MB
              then bindR (newPage2MBAt physicalAddressAligned (pi_memoryBank info) (c_params c))
                     (\<lambda>n. Inr (Some n, alloc))
              else Inr (Some (newPageTableAt PageTableMemory physicalAddressAligned (pi_memoryBank info)
                                (c_params c)), alloc))
      | (False, _) \<Rightarrow> allocateChild parent (l_pageSize l) (pt_memoryBank parent) alloc
      | (True, None) \<Rightarrow>
          (case l_physicalAddress l of
             Some physicalAddress \<Rightarrow>
               allocateChildAt parent (l_pageSize l) (c_pageMemoryBank c) (c_params c) physicalAddress alloc
           | None \<Rightarrow> allocateChildWith parent (l_pageSize l) (c_pageMemoryBank c) (c_params c) alloc))"

definition createChild ::
  "walk_ctx \<Rightarrow> nat \<Rightarrow> nat \<Rightarrow> PageTable \<Rightarrow> walk_local \<Rightarrow> PageTableWalker
    \<Rightarrow> (PageTable \<times> PageTable \<times> PageTableWalker) result" where
  "createChild c level index parent l w =
     assertR (c_mode c \<noteq> Expect)
       (bindR (newWalkChild c level parent l (w_alloc w))
         (\<lambda>(child, alloc). case child of
            None \<Rightarrow> Inl NullDereference
          | Some n \<Rightarrow>
              (let n' = setPendingWrite True n;
                   w' = w\<lparr>w_alloc := alloc,
                          w_pages64KB := (if level = Pte \<and> c_mode c = Reserve \<and> \<not> c_isLocalMemory c
                                             \<and> l_pageSize l = 65536
                                          then w_pages64KB w @ [pt_physicalAddress n'] else w_pages64KB w)\<rparr>
               in Inr (setChild index (Some n') parent, n', w'))))"

definition remapChild ::
  "walk_ctx \<Rightarrow> nat \<Rightarrow> walk_local \<Rightarrow> PageTable \<Rightarrow> PageTable \<times> bool" where
  "remapChild c level l child =
     (case l_physicalAddress l of
        None \<Rightarrow> (child, False)
      | Some physicalAddress \<Rightarrow>
          if level = l_leafLevel l then
            (let (n1, e1) = (if pt_physicalAddress child \<noteq> physicalAddress
                             then (setPendingWrite True (setPhysicalAddress physicalAddress child), True)
                             else (child, False))
             in if pt_memoryBank n1 \<noteq> c_pageMemoryBank c
                then (setPendingWrite True (setMemoryBank (c_pageMemoryBank c) n1), True)
                else (n1, e1))
          else (child, False))"

subsection \<open>Groups of 64 KB\<close>

definition ps64CompleteSlot ::
  "Gpu \<Rightarrow> nat \<Rightarrow> path \<Rightarrow> nat \<Rightarrow> nat \<Rightarrow> PageTable \<times> PageTableWalker
    \<Rightarrow> (PageTable \<times> PageTableWalker) result" where
  "ps64CompleteSlot gpu level parentPath hwBase i = (\<lambda>(parent, w).
     case getChild parent (hwBase + i) of
       None \<Rightarrow> Inl NullDereference
     | Some ci \<Rightarrow>
         (let p = parentPath @ [hwBase + i];
              isNewPs64 = (\<not> pt_ps64 ci);
              ci' = (if isNewPs64 then setPendingWrite True (setPs64 True ci) else ci);
              isNewPending = (pt_pendingWrite ci' \<and> \<not> isEmitted level p w);
              w1 = (if pt_pendingWrite ci' then insertEmitted level p w else w)
          in bindR (if isNewPs64 \<or> isNewPending
                    then bindR (getEntryValue gpu ci')
                           (\<lambda>v. Inr (pushWalkEntry level (slotAddress parent (hwBase + i)) v w1))
                    else Inr w1)
               (\<lambda>w2. Inr (setChild (hwBase + i) (Some ci') parent,
                          if isNewPending then pushPending level p w2 else w2))))"

definition ps64ClearSlot ::
  "Gpu \<Rightarrow> nat \<Rightarrow> path \<Rightarrow> nat \<Rightarrow> nat \<Rightarrow> PageTable \<times> PageTableWalker
    \<Rightarrow> (PageTable \<times> PageTableWalker) result" where
  "ps64ClearSlot gpu level parentPath hwBase i = (\<lambda>(parent, w).
     case getChild parent (hwBase + i) of
       None \<Rightarrow> Inl AssertionFailure
     | Some ci \<Rightarrow>
         (let p = parentPath @ [hwBase + i];
              ci' = setPendingWrite True (setPs64 False ci)
          in bindR (getEntryValue gpu ci')
               (\<lambda>v. let w1 = pushWalkEntry level (slotAddress parent (hwBase + i)) v w;
                        w2 = insertEmitted level p w1;
                        w3 = (if isEmitted level p w1 then w2 else pushPending level p w2)
                    in Inr (setChild (hwBase + i) (Some ci') parent, w3))))"

fun forSlots :: "(nat \<Rightarrow> 's \<Rightarrow> 's result) \<Rightarrow> nat list \<Rightarrow> 's \<Rightarrow> 's result" where
  "forSlots f [] s = Inr s"
| "forSlots f (i # is) s = bindR (f i s) (forSlots f is)"

definition ps64WillComplete ::
  "walk_ctx \<Rightarrow> PageTable option \<Rightarrow> PageTable \<Rightarrow> nat \<Rightarrow> bool result" where
  "ps64WillComplete c c0 child k =
     (let expectedPhysBase = pt_physicalAddress child - word_of_nat k * 4096
      in if expectedPhysBase AND 0xffff = 0 \<and> c_size c \<ge> word_of_nat (16 - k) * 4096
         then (if k = 0 then Inr True
               else (case c0 of
                       None \<Rightarrow> Inr False
                     | Some n0 \<Rightarrow>
                         if pt_physicalAddress n0 = expectedPhysBase
                         then bindR (ps64EntryFlags (c_gpu c) n0)
                                (\<lambda>f0. bindR (ps64EntryFlags (c_gpu c) child) (\<lambda>f. Inr (f0 = f)))
                         else Inr False))
         else Inr False)"

text \<open>
  The branch under \<open>checkPs64\<close>: the parent and the walker after it, and \<open>emitEntry\<close>.  The pointer \<open>c0\<close>
  was read before the child was created; when it was null the group could only have become complete
  through another child.  When the child is itself slot 0 of the group, \<open>c0\<close> is not used.
\<close>

definition ps64Step ::
  "walk_ctx \<Rightarrow> nat \<Rightarrow> path \<Rightarrow> nat \<Rightarrow> bool \<Rightarrow> PageTable option \<Rightarrow> PageTable \<Rightarrow> PageTableWalker
    \<Rightarrow> (PageTable \<times> PageTableWalker \<times> bool) result" where
  "ps64Step c level parentPath index wasPs64Group c0 parent w =
     (let hwBase = index - index mod 16
      in bindR (isPs64GroupComplete (c_gpu c) parent hwBase)
           (\<lambda>complete.
              if complete
              then bindR (forSlots (ps64CompleteSlot (c_gpu c) level parentPath hwBase) [0..<16] (parent, w))
                     (\<lambda>(parent', w'). Inr (parent', w', False))
              else if wasPs64Group
              then bindR (forSlots (ps64ClearSlot (c_gpu c) level parentPath hwBase) [0..<16] (parent, w))
                     (\<lambda>(parent', w'). Inr (parent', w', False))
              else (case getChild parent index of
                      None \<Rightarrow> Inl NullDereference
                    | Some child \<Rightarrow>
                        bindR (ps64WillComplete c c0 child (index - hwBase))
                          (\<lambda>will. Inr (if will
                                       then setChild index (Some (setPendingWrite True (setPs64 True child))) parent
                                       else parent, w, True)))))"

subsection \<open>One level\<close>

text \<open>The outcome of one pass of the inner loop: leave it with the current child, or go on below it.\<close>

datatype walk_step =
    StepBreak PageTable PageTable walk_local PageTableWalker
  | StepNext nat PageTable PageTable walk_local PageTableWalker

text \<open>The lines after the child exists: PS64 handling, pending writes and the entry of the child.\<close>

definition emitChild ::
  "walk_ctx \<Rightarrow> nat \<Rightarrow> path \<Rightarrow> nat \<Rightarrow> bool \<Rightarrow> bool \<Rightarrow> PageTable option \<Rightarrow> bool \<Rightarrow> walk_local
    \<Rightarrow> PageTable \<Rightarrow> PageTableWalker \<Rightarrow> (PageTable \<times> PageTableWalker) result" where
  "emitChild c level parentPath index checkPs64 wasPs64Group c0 emitEntry l parent w =
     (let p = parentPath @ [index]
      in bindR
           (if checkPs64 then ps64Step c level parentPath index wasPs64Group c0 parent w
            else (case getChild parent index of
                    None \<Rightarrow> Inl NullDereference
                  | Some child \<Rightarrow>
                      (let emit1 = (emitEntry \<or> l_physicalAddress l \<noteq> None);
                           fresh = (pt_pendingWrite child \<and> \<not> isEmitted level p w)
                       in Inr (parent, if fresh then pushPending level p (insertEmitted level p w) else w,
                               emit1 \<or> fresh))))
           (\<lambda>(parent', w', emit).
              if emit
              then (case getChild parent' index of
                      None \<Rightarrow> Inl NullDereference
                    | Some child \<Rightarrow>
                        bindR (getEntryValue (c_gpu c) child)
                          (\<lambda>v. let w1 = pushWalkEntry level (slotAddress parent' index) v w';
                                   fresh = (checkPs64 \<and> pt_pendingWrite child \<and> \<not> isEmitted level p w1)
                               in Inr (parent', if fresh then pushPending level p (insertEmitted level p w1)
                                                else w1)))
              else Inr (parent', w')))"

definition pageSizeAtLevel :: "nat \<Rightarrow> PageTable \<Rightarrow> walk_local \<Rightarrow> walk_local" where
  "pageSizeAtLevel level parent l =
     (if level = Pte then l\<lparr>l_pte := Some (getPageSize (pt_kind parent)),
                            l_pageSize := getPageSize (pt_kind parent)\<rparr>
      else l\<lparr>l_pte := None\<rparr>)"

definition existing2MB :: "nat \<Rightarrow> PageTable option \<Rightarrow> bool" where
  "existing2MB level child = (case child of
       None \<Rightarrow> False
     | Some c \<Rightarrow> level = Pde \<and> getPageSize (pt_kind c) = pageSize2MB)"

text \<open>Page size, leaf level and physical address after the checks on the existing child.\<close>

definition adjustLocals :: "nat \<Rightarrow> PageTable option \<Rightarrow> walk_local \<Rightarrow> walk_local" where
  "adjustLocals level child l =
     (let l1 = (if existing2MB level child then l\<lparr>l_pageSize := pageSize2MB, l_leafLevel := Pde\<rparr> else l);
          l2 = (if hasExistingPageTableConflict child level (l_pageSize l1)
                then l1\<lparr>l_pageSize := 65536, l_leafLevel := Pte\<rparr> else l1)
      in case l_physicalAddress l2 of
           None \<Rightarrow> l2
         | Some a \<Rightarrow>
             if level = l_leafLevel l2 \<and> l_pageSize l2 = pageSize2MB \<and> a AND (pageSize2MB - 1) \<noteq> 0
             then l2\<lparr>l_physicalAddress := Some ((a AND NOT (pageSize2MB - 1)) + pageSize2MB)\<rparr>
             else l2)"

definition getOrCreate ::
  "walk_ctx \<Rightarrow> nat \<Rightarrow> nat \<Rightarrow> PageTable \<Rightarrow> walk_local \<Rightarrow> PageTableWalker
    \<Rightarrow> (PageTable \<times> PageTable \<times> PageTableWalker \<times> bool) result" where
  "getOrCreate c level index parent l w = (case getChild parent index of
       Some n \<Rightarrow> Inr (parent, n, w, False)
     | None \<Rightarrow> bindR (createChild c level index parent l w)
                 (\<lambda>(parent', n, w'). Inr (parent', n, w', True)))"

definition wasPs64Group :: "Gpu \<Rightarrow> PageTable \<Rightarrow> nat \<Rightarrow> PageTable option \<Rightarrow> bool result" where
  "wasPs64Group gpu parent hwBase c0 = (case c0 of
       None \<Rightarrow> Inr False
     | Some n0 \<Rightarrow> if pt_ps64 n0 then isPs64GroupComplete gpu parent hwBase else Inr False)"

text \<open>The part of the pass after the early exit on an existing 2 MB page.\<close>

definition walkStepNext ::
  "walk_ctx \<Rightarrow> nat \<Rightarrow> path \<Rightarrow> nat \<Rightarrow> PageTable \<Rightarrow> walk_local \<Rightarrow> PageTableWalker \<Rightarrow> walk_step result" where
  "walkStepNext c level parentPath index parent l w =
     (let checkPs64 = (c_ps64Applicable c \<and> level = Pte \<and> l_pte l = Some 4096);
          hwBase = (if checkPs64 then index - index mod 16 else 0);
          c0 = (if checkPs64 then getChild parent hwBase else None)
      in bindR (wasPs64Group (c_gpu c) parent hwBase c0) (\<lambda>was.
         bindR (getOrCreate c level index parent l w) (\<lambda>(parent1, n, w1, emitNew).
         let (n', emitRemap) = remapChild c level l n
         in bindR (emitChild c level parentPath index checkPs64 was c0 (emitNew \<or> emitRemap) l
                     (setChild index (Some n') parent1) w1)
              (\<lambda>(parent3, w3). case getChild parent3 index of
                 None \<Rightarrow> Inl NullDereference
               | Some n3 \<Rightarrow> Inr (StepNext index parent3 n3 l w3)))))"

definition walkStep ::
  "walk_ctx \<Rightarrow> nat \<Rightarrow> path \<Rightarrow> PageTable \<Rightarrow> walk_local \<Rightarrow> PageTableWalker \<Rightarrow> walk_step result" where
  "walkStep c level parentPath parent l0 w =
     (let index = getIndex (pt_kind parent) (c_gfxAddress c);
          child0 = getChild parent index;
          l = adjustLocals level child0 (pageSizeAtLevel level parent l0)
      in if existing2MB level child0 \<and> l_physicalAddress l0 = None
         then (case child0 of
                 None \<Rightarrow> Inl NullDereference
               | Some n \<Rightarrow> Inr (StepBreak parent n l w))
         else walkStepNext c level parentPath index parent l w)"

text \<open>
  The inner loop \<^verbatim>\<open>while (level >= leafLevel)\<close>; the first argument is the level plus one.  The results
  are the table after the walk, the child the loop ends with, the locals and the walker.
\<close>

fun walkLevels ::
  "walk_ctx \<Rightarrow> nat \<Rightarrow> path \<Rightarrow> PageTable \<Rightarrow> walk_local \<Rightarrow> PageTableWalker
    \<Rightarrow> (PageTable \<times> PageTable \<times> walk_local \<times> PageTableWalker) result" where
  "walkLevels c 0 p node l w = Inr (node, node, l, w)"
| "walkLevels c (Suc level) p node l w =
     (if level < l_leafLevel l then Inr (node, node, l, w)
      else bindR (walkStep c level p node l w)
             (\<lambda>step. case step of
                StepBreak parent child l' w' \<Rightarrow> Inr (parent, child, l', w')
              | StepNext index parent child l' w' \<Rightarrow>
                  bindR (walkLevels c level (p @ [index]) child l' w')
                    (\<lambda>(child', leaf, l'', w''). Inr (setChild index (Some child') parent, leaf, l'', w''))))"

subsection \<open>The outer loop\<close>

record walk_args =
  wa_gpu :: Gpu
  wa_params :: AdditionalParams
  wa_mode :: WalkMode
  wa_memoryBanks :: u32
  wa_requestedPageSize :: usize
  wa_ps64Applicable :: bool
  wa_bankHelper :: MemoryBankHelper
  wa_pageInfos :: "PageInfo list"

definition pageBank :: "walk_args \<Rightarrow> u64 option \<Rightarrow> u64 \<Rightarrow> u32 result" where
  "pageBank a physicalAddress gfxAddress =
     (if physicalAddress \<noteq> None then Inr (wa_memoryBanks a)
      else getMemoryBank (wa_bankHelper a) gfxAddress)"

definition cloneInfo :: "walk_args \<Rightarrow> nat \<Rightarrow> PageInfo option result" where
  "cloneInfo a clonePageInfoIndex =
     (if wa_mode a = Clone
      then (if clonePageInfoIndex < length (wa_pageInfos a)
            then Inr (Some (wa_pageInfos a ! clonePageInfoIndex)) else Inl IndexOutOfRange)
      else Inr None)"

definition startLocals :: "walk_args \<Rightarrow> u64 option \<Rightarrow> walk_local" where
  "startLocals a physicalAddress =
     \<lparr>l_pageSize = wa_requestedPageSize a,
      l_leafLevel = (if wa_requestedPageSize a = pageSize2MB then Pde else Pte),
      l_physicalAddress = physicalAddress, l_pte = None\<rparr>"

definition pageCtx :: "walk_args \<Rightarrow> PageInfo option \<Rightarrow> u32 \<Rightarrow> u64 \<Rightarrow> usize \<Rightarrow> walk_ctx" where
  "pageCtx a info bank gfxAddress sz =
     \<lparr>c_gpu = wa_gpu a, c_params = wa_params a, c_mode = wa_mode a,
      c_isLocalMemory = (wa_memoryBanks a \<noteq> mainBank), c_ps64Applicable = wa_ps64Applicable a,
      c_clonePageInfo = info, c_pageMemoryBank = bank, c_gfxAddress = gfxAddress, c_size = sz\<rparr>"

definition pageSizeThisIteration :: "walk_local \<Rightarrow> usize result" where
  "pageSizeThisIteration l =
     (if l_pageSize l = pageSize2MB then Inr pageSize2MB
      else (case l_pte l of None \<Rightarrow> Inl AssertionFailure | Some sz \<Rightarrow> Inr sz))"

text \<open>One pass of the outer loop up to the assertion on the page size.\<close>

definition walkPage ::
  "walk_args \<Rightarrow> nat \<Rightarrow> u64 option \<Rightarrow> u64 \<Rightarrow> usize \<Rightarrow> PageTable \<Rightarrow> PageTableWalker
    \<Rightarrow> (usize \<times> u32 \<times> PageTable \<times> PageTable \<times> walk_local \<times> PageTableWalker) result" where
  "walkPage a cloneIndex physicalAddress gfxAddress sz root w =
     bindR (pageBank a physicalAddress gfxAddress) (\<lambda>bank.
     bindR (cloneInfo a cloneIndex) (\<lambda>info.
     bindR (walkLevels (pageCtx a info bank gfxAddress sz) (getNumLevels (pt_kind root)) [] root
              (startLocals a physicalAddress) w) (\<lambda>(root', leaf, l, w').
     bindR (pageSizeThisIteration l) (\<lambda>ps.
     assertR (ps = 4096 \<or> ps = 65536 \<or> ps = pageSize2MB)
       (Inr (ps, bank, root', leaf, l, w'))))))"

definition nextPhysicalAddress :: "usize \<Rightarrow> usize \<Rightarrow> u64 \<Rightarrow> u64" where
  "nextPhysicalAddress ps sizeThisIteration a =
     (if ps = pageSize2MB then (a AND NOT (pageSize2MB - 1)) + pageSize2MB else a + sizeThisIteration)"

definition leafInfo :: "PageTable \<Rightarrow> u64 \<Rightarrow> usize \<Rightarrow> u32 \<Rightarrow> PageInfo" where
  "leafInfo leaf pageOffset sizeThisIteration bank =
     \<lparr>pi_physicalAddress = pt_physicalAddress leaf + pageOffset, pi_size = sizeThisIteration,
      pi_isLocalMemory = isLocalMemory leaf, pi_memoryBank = bank\<rparr>"

definition iterationSize :: "usize \<Rightarrow> u64 \<Rightarrow> usize \<Rightarrow> usize" where
  "iterationSize ps gfxAddress sz = min sz (ps - (gfxAddress AND (ps - 1)))"

lemma iterationSize_bounds:
  assumes "ps = 4096 \<or> ps = 65536 \<or> ps = pageSize2MB" and "sz > 0"
  shows "0 < unat (iterationSize ps gfx sz)" and "iterationSize ps gfx sz \<le> sz"
proof -
  obtain k where k: "ps = 2 ^ k" "k < 64"
    using assms(1) that [of 12] that [of 16] that [of 21] by (auto simp: pageSize2MB_def)
  have "unat (gfx AND (ps - 1)) < unat ps"
    using k by (simp add: unat_low_bits unat_two_power)
  then have "0 < unat (ps - (gfx AND (ps - 1)))"
    by (subst unat_sub) (simp_all add: word_le_nat_alt)
  then show "0 < unat (iterationSize ps gfx sz)"
    using assms(2) by (simp add: iterationSize_def min_def word_less_nat_alt)
  show "iterationSize ps gfx sz \<le> sz"
    by (simp add: iterationSize_def)
qed

function walkPages ::
  "walk_args \<Rightarrow> nat \<Rightarrow> u64 option \<Rightarrow> u64 \<Rightarrow> usize \<Rightarrow> PageTable \<Rightarrow> PageTableWalker
    \<Rightarrow> (PageTable \<times> PageTableWalker) result" where
  "walkPages a cloneIndex physicalAddress gfxAddress sz root w =
     (if sz > 0 then
        bindR (walkPage a cloneIndex physicalAddress gfxAddress sz root w)
          (\<lambda>(ps, bank, root', leaf, l, w').
             let pageOffset = gfxAddress AND (ps - 1);
                 sizeThisIteration = iterationSize ps gfxAddress sz;
                 w'' = w'\<lparr>w_entries := w_entries w' @ [leafInfo leaf pageOffset sizeThisIteration bank]\<rparr>;
                 physicalAddress' = map_option (nextPhysicalAddress ps sizeThisIteration) (l_physicalAddress l)
             in walkPages a (cloneIndex + 1) physicalAddress' (gfxAddress + sizeThisIteration)
                  (sz - sizeThisIteration) root' w'')
      else Inr (root, w))"
  by pat_completeness auto
termination
proof (relation "measure (\<lambda>(a, i, pa, g, s, r, w). unat s)", goal_cases)
  case (2 a i pa gfx sz root w x ps x2 bank x3 root' x4 leaf x5 l w' off this w'' pa')
  then have "ps = 4096 \<or> ps = 65536 \<or> ps = pageSize2MB"
    by (auto simp: walkPage_def bindR_Inr_iff assertR_Inr_iff)
  then have "0 < unat this" and "this \<le> sz"
    using 2 by (auto simp: iterationSize_bounds)
  then have "unat (sz - this) < unat sz"
    using 2 by (simp add: unat_sub word_le_nat_alt)
  then show ?case
    by simp
qed simp

declare walkPages.simps [simp del]

text \<open>
  The walk itself.  \<open>enablePs64\<close> is the setting \<^verbatim>\<open>EnablePs64\<close>; the constructor of the bank helper may
  not terminate.
\<close>

definition walkMemory ::
  "Gpu \<Rightarrow> bool \<Rightarrow> AllocationParams \<Rightarrow> WalkMode \<Rightarrow> PageInfo list \<Rightarrow> u64 option \<Rightarrow> PageTable
    \<Rightarrow> PageTableWalker \<Rightarrow> (PageTable \<times> PageTableWalker) result" where
  "walkMemory gpu enablePs64 params mode pageInfos physicalAddress ppgtt w =
     (let sz = ap_size params; memoryBanks = ap_memoryBanks params; gfxAddress = ap_gfxAddress params
      in if sz = 0 then Inr (ppgtt, w)
         else assertR (ap_pageSize params > 0)
           (let pageSize = adjustPageSizeForHardwareSupport gpu (ap_pageSize params) memoryBanks;
                alignedStart = gfxAddress AND NOT (pageSize - 1);
                alignedEnd = (gfxAddress + sz + pageSize - 1) AND NOT (pageSize - 1);
                sizePageAligned = alignedEnd - alignedStart
            in case makeMemoryBankHelper memoryBanks alignedStart sizePageAligned of
                 None \<Rightarrow> Inl Diverges
               | Some helper \<Rightarrow>
                   walkPages \<lparr>wa_gpu = gpu, wa_params = ap_additionalParams params, wa_mode = mode,
                              wa_memoryBanks = memoryBanks, wa_requestedPageSize = pageSize,
                              wa_ps64Applicable = (enablePs64 \<and> pageSize = 4096
                                                   \<and> getNumLevels (pt_kind ppgtt) = 5),
                              wa_bankHelper = helper, wa_pageInfos = pageInfos\<rparr>
                     0 physicalAddress gfxAddress sz ppgtt (w\<lparr>w_emittedPending := (\<lambda>_. [])\<rparr>)))"

end
