(* ===== verification/WalkerProps.thy ===== *)
theory WalkerProps
  imports Walker
begin

text \<open>
  What a walk does to the tree.  \<open>translate\<close> is the specification: the leaf a GPU finds for an address,
  with the size of its page.  The lemmas show, from one slot up to the whole walk, that a walk without
  remapping keeps every existing translation and the shape of the tree, and that the pages it records
  are those the tree translates to afterwards.
\<close>

section \<open>Shape of the tree\<close>

fun tableAt :: "nat \<Rightarrow> ptKind \<Rightarrow> bool" where
  "tableAt 0 k \<longleftrightarrow> k = PTE4KB \<or> k = PTE64KB \<or> k = LegacyPTE64KB"
| "tableAt (Suc 0) k \<longleftrightarrow> k = PDE \<or> k = LegacyPDE"
| "tableAt (Suc (Suc 0)) k \<longleftrightarrow> k = PDP \<or> k = LegacyPDP \<or> k = PDP4 \<or> k = LegacyPDP4"
| "tableAt (Suc (Suc (Suc 0))) k \<longleftrightarrow> k = PML4 \<or> k = LegacyPML4"
| "tableAt (Suc (Suc (Suc (Suc 0)))) k \<longleftrightarrow> k = PML5"
| "tableAt n k \<longleftrightarrow> False"

text \<open>
  A table of the given level with well-formed tables or pages below it; the tables of a tree are in
  one memory bank, as the assertions of \<open>allocateChild\<close> demand.
\<close>

fun wf_at :: "nat \<Rightarrow> PageTable \<Rightarrow> bool" where
  "wf_at 0 n \<longleftrightarrow> tableAt 0 (pt_kind n) \<and> pt_hasAllocator n
     \<and> (\<forall>i c. getChild n i = Some c \<longrightarrow> pt_kind c = PageTableMemory)"
| "wf_at (Suc lev) n \<longleftrightarrow> tableAt (Suc lev) (pt_kind n) \<and> pt_hasAllocator n
     \<and> (\<forall>i c. getChild n i = Some c \<longrightarrow>
          wf_at lev c \<and> pt_memoryBank c = pt_memoryBank n \<or> lev = 0 \<and> pt_kind c = Page2MB)"

lemma wf_at_tableAt: "wf_at lev n \<Longrightarrow> tableAt lev (pt_kind n) \<and> pt_hasAllocator n"
  by (cases lev) auto

lemma wf_at_child:
  "wf_at (Suc lev) n \<Longrightarrow> getChild n i = Some c \<Longrightarrow>
     wf_at lev c \<and> pt_memoryBank c = pt_memoryBank n \<or> lev = 0 \<and> pt_kind c = Page2MB"
  by simp

lemma wf_at_page: "wf_at 0 n \<Longrightarrow> getChild n i = Some c \<Longrightarrow> pt_kind c = PageTableMemory"
  by simp

fun translate :: "nat \<Rightarrow> PageTable \<Rightarrow> u64 \<Rightarrow> (usize \<times> PageTable) option" where
  "translate 0 n g = None"
| "translate (Suc lev) n g =
     (case getChild n (getIndex (pt_kind n) g) of
        None \<Rightarrow> None
      | Some c \<Rightarrow>
          if lev = 0 then Some (getPageSize (pt_kind n), c)
          else if pt_kind c = Page2MB then Some (pageSize2MB, c)
          else translate lev c g)"

section \<open>Nodes that differ in their flags only\<close>

definition same_node :: "PageTable \<Rightarrow> PageTable \<Rightarrow> bool" where
  "same_node a b \<longleftrightarrow> pt_kind a = pt_kind b \<and> pt_physicalAddress a = pt_physicalAddress b
     \<and> pt_memoryBank a = pt_memoryBank b \<and> pt_table a = pt_table b
     \<and> pt_hasAllocator a = pt_hasAllocator b \<and> pt_params a = pt_params b"

lemma same_node_refl [simp]: "same_node a a"
  by (simp add: same_node_def)

lemma same_node_trans: "same_node a b \<Longrightarrow> same_node b c \<Longrightarrow> same_node a c"
  by (simp add: same_node_def)

lemma same_node_setters [simp]:
  "same_node a (setPendingWrite w b) \<longleftrightarrow> same_node a b"
  "same_node a (setPs64 p b) \<longleftrightarrow> same_node a b"
  by (simp_all add: same_node_def)

lemma same_node_kind: "same_node a b \<Longrightarrow> pt_kind a = pt_kind b"
  by (simp add: same_node_def)

lemma same_node_getChild: "same_node a b \<Longrightarrow> getChild a i = getChild b i"
  by (simp add: same_node_def getChild_def)

lemma same_node_translate: "same_node a b \<Longrightarrow> translate lev a g = translate lev b g"
  by (cases lev) (auto simp: same_node_def getChild_def split: option.splits)

lemma same_node_wf: "same_node a b \<Longrightarrow> wf_at lev a = wf_at lev b"
  by (cases lev) (simp_all add: same_node_def getChild_def)

definition same_children :: "PageTable \<Rightarrow> PageTable \<Rightarrow> bool" where
  "same_children n n' \<longleftrightarrow> pt_kind n = pt_kind n' \<and> pt_physicalAddress n = pt_physicalAddress n'
     \<and> pt_memoryBank n = pt_memoryBank n' \<and> pt_hasAllocator n = pt_hasAllocator n'
     \<and> (\<forall>i. rel_option same_node (getChild n i) (getChild n' i))"

lemma rel_option_same_node_refl [simp]: "rel_option same_node x x"
  by (cases x) simp_all

lemma same_children_refl [simp]: "same_children n n"
  by (simp add: same_children_def)

lemma same_children_trans:
  assumes "same_children a b" and "same_children b c"
  shows "same_children a c"
proof -
  have "rel_option same_node (getChild a i) (getChild c i)" for i
    using assms by (cases "getChild a i"; cases "getChild b i"; cases "getChild c i")
      (auto simp: same_children_def dest!: spec [of _ i] intro: same_node_trans)
  then show ?thesis
    using assms by (simp add: same_children_def)
qed

lemma same_children_setChild:
  "getChild n i = Some c \<Longrightarrow> same_node c c' \<Longrightarrow> same_children n (setChild i (Some c') n)"
  by (simp add: same_children_def)

lemma forSlots_same_children:
  assumes step: "\<And>i n w n' w'. f i (n, w) = Inr (n', w') \<Longrightarrow> same_children n n'"
    and "forSlots f is (n, w) = Inr (n', w')"
  shows "same_children n n'"
  using assms(2)
proof (induction "is" arbitrary: n w)
  case (Cons i "is")
  then obtain n1 w1 where "f i (n, w) = Inr (n1, w1)" and "forSlots f is (n1, w1) = Inr (n', w')"
    by (auto simp: bindR_Inr_iff)
  then show ?case
    using Cons.IH step by (blast intro: same_children_trans)
qed simp

lemma ps64CompleteSlot_same:
  "ps64CompleteSlot gpu level p hwBase i (n, w) = Inr (n', w') \<Longrightarrow> same_children n n'"
  by (auto simp: ps64CompleteSlot_def bindR_Inr_iff Let_def split: option.splits if_splits
      intro!: same_children_setChild)

lemma ps64ClearSlot_same:
  "ps64ClearSlot gpu level p hwBase i (n, w) = Inr (n', w') \<Longrightarrow> same_children n n'"
  by (auto simp: ps64ClearSlot_def bindR_Inr_iff Let_def split: option.splits if_splits
      intro!: same_children_setChild)

lemma ps64Step_same:
  assumes "ps64Step c level p index was c0 n w = Inr (n', w', e)"
  shows "same_children n n'"
  using assms
  by (auto simp: ps64Step_def bindR_Inr_iff Let_def split: option.splits if_splits
      intro: forSlots_same_children ps64CompleteSlot_same ps64ClearSlot_same same_children_setChild)

lemma emitChild_same:
  assumes "emitChild c level p index chk was c0 emit l n w = Inr (n', w')"
  shows "same_children n n'"
  using assms
  by (auto simp: emitChild_def bindR_Inr_iff Let_def split: option.splits if_splits
      dest: ps64Step_same)

section \<open>New children\<close>

lemma newPageTable_sel:
  assumes "newPageTable k h sz b x alloc = Inr (n, alloc')"
  shows "pt_kind n = k \<and> pt_memoryBank n = b \<and> pt_table n = [] \<and> pt_hasAllocator n = h
    \<and> pt_params n = x \<and> \<not> pt_ps64 n \<and> \<not> pt_pendingWrite n"
  using assms by (auto simp: newPageTable_def bindR_Inr_iff Let_def split: if_splits)

text \<open>The page size is 2 MB exactly when the walk stops at the page directory.\<close>

definition locals_ok :: "walk_local \<Rightarrow> bool" where
  "locals_ok l \<longleftrightarrow> l_leafLevel l = 0 \<and> l_pageSize l \<noteq> pageSize2MB
     \<or> l_leafLevel l = 1 \<and> l_pageSize l = pageSize2MB"

definition leaf_kind :: "nat \<Rightarrow> ptKind" where
  "leaf_kind level = (if level = 0 then PageTableMemory else Page2MB)"

lemma allocateChild_kind:
  assumes "allocateChild n ps b alloc = Inr (Some ch, alloc')" and "tableAt (Suc lev) (pt_kind n)"
    and "lev = 0 \<longrightarrow> ps \<noteq> pageSize2MB"
  shows "tableAt lev (pt_kind ch) \<and> pt_table ch = [] \<and> pt_hasAllocator ch = pt_hasAllocator n
    \<and> pt_memoryBank ch = pt_memoryBank n"
proof -
  have "lev = 0 \<or> lev = 1 \<or> lev = 2 \<or> lev = 3"
    using assms(2) by (cases "(Suc lev, pt_kind n)" rule: tableAt.cases) auto
  then show ?thesis
    using assms
    by (elim disjE) (auto simp: allocateChild_def allocatePdeChild_def allocateTableChild_def newTable_def
        numeral_2_eq_2 numeral_3_eq_3 bindR_Inr_iff assertR_Inr_iff Let_def
        dest!: newPageTable_sel split: if_splits)
qed

lemma allocateChildWith_kind:
  assumes "allocateChildWith n ps b x alloc = Inr (Some ch, alloc')" and "tableAt lev (pt_kind n)"
    and "lev = 0 \<or> lev = 1 \<and> ps = pageSize2MB"
  shows "pt_kind ch = leaf_kind lev \<and> pt_table ch = [] \<and> pt_memoryBank ch = b"
  using assms
  by (auto simp: allocateChildWith_def leaf_kind_def bindR_Inr_iff Let_def
      dest!: newPageTable_sel split: if_splits)

lemma allocateChildAt_kind:
  assumes "allocateChildAt n ps b x a alloc = Inr (Some ch, alloc')" and "tableAt lev (pt_kind n)"
    and "lev = 0 \<or> lev = 1 \<and> ps = pageSize2MB"
  shows "pt_kind ch = leaf_kind lev \<and> pt_table ch = [] \<and> pt_memoryBank ch = b \<and> pt_physicalAddress ch = a"
  using assms
  by (auto simp: allocateChildAt_def leaf_kind_def newPageTableAt_def newPage2MBAt_def bindR_Inr_iff
      assertR_Inr_iff Let_def split: if_splits)

lemma locals_leaf: "locals_ok l \<Longrightarrow> l_leafLevel l = 0 \<or> l_leafLevel l = 1 \<and> l_pageSize l = pageSize2MB"
  by (auto simp: locals_ok_def)

lemma newWalkChild_kind:
  assumes new: "newWalkChild c level n l alloc = Inr (Some ch, alloc')"
    and n: "tableAt level (pt_kind n)" and l: "locals_ok l" "l_leafLevel l \<le> level"
  shows "pt_table ch = [] \<and>
    (if level = l_leafLevel l then pt_kind ch = leaf_kind level
     else tableAt (level - 1) (pt_kind ch) \<and> pt_hasAllocator ch = pt_hasAllocator n
       \<and> pt_memoryBank ch = pt_memoryBank n)"
proof (cases "level = l_leafLevel l")
  case True
  note leaf = locals_leaf [OF l(1), folded True]
  show ?thesis
  proof (cases "c_clonePageInfo c")
    case None
    then show ?thesis
      using new True leaf allocateChildAt_kind [OF _ n] allocateChildWith_kind [OF _ n]
      by (auto simp: newWalkChild_def split: option.splits)
  next
    case (Some info)
    then show ?thesis
      using new True l(1)
      by (auto simp: newWalkChild_def newPage2MBAt_def newPageTableAt_def leaf_kind_def locals_ok_def
          bindR_Inr_iff assertR_Inr_iff Let_def split: if_splits)
  qed
next
  case False
  then obtain lev where lev: "level = Suc lev"
    using l(2) by (cases level) auto
  have "lev = 0 \<longrightarrow> l_pageSize l \<noteq> pageSize2MB"
    using l False lev by (auto simp: locals_ok_def)
  moreover have "allocateChild n (l_pageSize l) (pt_memoryBank n) alloc = Inr (Some ch, alloc')"
    using new False by (simp add: newWalkChild_def)
  ultimately show ?thesis
    using allocateChild_kind [of n "l_pageSize l" "pt_memoryBank n" alloc ch alloc' lev] n lev False by simp
qed

section \<open>One step\<close>

definition same_struct :: "PageTable \<Rightarrow> PageTable \<Rightarrow> bool" where
  "same_struct a b \<longleftrightarrow> pt_kind a = pt_kind b \<and> pt_table a = pt_table b
     \<and> pt_hasAllocator a = pt_hasAllocator b \<and> pt_params a = pt_params b"

lemma same_node_struct: "same_node a b \<Longrightarrow> same_struct a b"
  by (simp add: same_node_def same_struct_def)

lemma same_struct_node: "same_struct a b \<Longrightarrow> same_node b c \<Longrightarrow> same_struct a c"
  by (simp add: same_node_def same_struct_def)

lemma remapChild_spec:
  assumes "remapChild c level l n = (n', e)"
  shows "same_struct n n'" and "l_physicalAddress l = None \<or> level \<noteq> l_leafLevel l \<Longrightarrow> n' = n \<and> \<not> e"
    and "level = l_leafLevel l \<Longrightarrow> l_physicalAddress l = Some a \<Longrightarrow>
           pt_physicalAddress n' = a \<and> pt_memoryBank n' = c_pageMemoryBank c"
  using assms by (auto simp: remapChild_def same_struct_def split: option.splits if_splits)

definition step_locals :: "walk_ctx \<Rightarrow> nat \<Rightarrow> PageTable \<Rightarrow> walk_local \<Rightarrow> walk_local" where
  "step_locals c level n l0 =
     adjustLocals level (getChild n (getIndex (pt_kind n) (c_gfxAddress c))) (pageSizeAtLevel level n l0)"

lemma pageSize2MB_neq [simp]:
  "pageSize2MB \<noteq> 4096" "pageSize2MB \<noteq> 65536" "4096 \<noteq> pageSize2MB" "65536 \<noteq> pageSize2MB"
  "pageSize2MB \<noteq> 0" "0 \<noteq> pageSize2MB"
  by (simp_all add: pageSize2MB_def)

lemma getPageSize_2MB_iff: "getPageSize k = pageSize2MB \<longleftrightarrow> k = Page2MB"
  by (cases k) simp_all

lemma step_locals_ok:
  assumes "locals_ok l0" and "l_leafLevel l0 \<le> level" and "tableAt level (pt_kind n)"
  shows "locals_ok (step_locals c level n l0)" and "l_leafLevel (step_locals c level n l0) \<le> level"
    and "l_pte (step_locals c level n l0) = (if level = 0 then Some (getPageSize (pt_kind n)) else None)"
    and "l_physicalAddress l0 = None \<longleftrightarrow> l_physicalAddress (step_locals c level n l0) = None"
proof -
  have "level = 0 \<longrightarrow> pt_kind n \<noteq> Page2MB"
    using assms(3) by auto
  then show "locals_ok (step_locals c level n l0)" and "l_leafLevel (step_locals c level n l0) \<le> level"
    and "l_pte (step_locals c level n l0) = (if level = 0 then Some (getPageSize (pt_kind n)) else None)"
    and "l_physicalAddress l0 = None \<longleftrightarrow> l_physicalAddress (step_locals c level n l0) = None"
    using assms(1,2)
    by (auto simp: step_locals_def adjustLocals_def pageSizeAtLevel_def locals_ok_def Let_def Pte_def Pde_def
        existing2MB_def hasExistingPageTableConflict_def getPageSize_2MB_iff split: option.splits)
qed

lemma leaf_child_kind:
  assumes "wf_at level n" and "locals_ok l0" and "l_leafLevel l0 \<le> level"
    and "getChild n (getIndex (pt_kind n) (c_gfxAddress c)) = Some ch"
  shows "level = l_leafLevel (step_locals c level n l0) \<longleftrightarrow> pt_kind ch = leaf_kind level \<and> level \<le> 1"
proof (cases level)
  case 0
  then show ?thesis
    using assms by (auto simp: step_locals_def adjustLocals_def pageSizeAtLevel_def leaf_kind_def
        existing2MB_def hasExistingPageTableConflict_def Let_def Pte_def Pde_def split: option.splits)
next
  case (Suc lev)
  have table: "getPageSize (pt_kind ch) \<noteq> pageSize2MB \<Longrightarrow> pt_kind ch \<noteq> Page2MB"
    by (auto simp: getPageSize_2MB_iff)
  show ?thesis
    using assms(2,3) Suc table assms(4)
    by (auto simp: step_locals_def adjustLocals_def pageSizeAtLevel_def leaf_kind_def locals_ok_def
        existing2MB_def hasExistingPageTableConflict_def getPageSize_2MB_iff Let_def Pte_def Pde_def
        split: option.splits)
qed

lemma walkStep_break:
  assumes "walkStep c level p n l0 w = Inr (StepBreak n' ch l w')"
  shows "n' = n \<and> w' = w \<and> l = step_locals c level n l0 \<and> level = 1 \<and> pt_kind ch = Page2MB
    \<and> l_pageSize l = pageSize2MB \<and> getChild n (getIndex (pt_kind n) (c_gfxAddress c)) = Some ch"
proof -
  have "existing2MB level (getChild n (getIndex (pt_kind n) (c_gfxAddress c))) \<and> l_physicalAddress l0 = None"
    using assms by (auto simp: walkStep_def walkStepNext_def Let_def bindR_Inr_iff case_prod_beta
        split: if_splits option.splits)
  then show ?thesis
    using assms
    by (auto simp: walkStep_def step_locals_def adjustLocals_def existing2MB_def Let_def Pde_def Pte_def
        getPageSize_2MB_iff pageSizeAtLevel_def hasExistingPageTableConflict_def split: option.splits if_splits)
qed

lemma walkStep_next:
  assumes step: "walkStep c level p n l0 w = Inr (StepNext i n' ch l w')"
  obtains n1 n2 ch1 w1 chk was c0 em where
    "i = getIndex (pt_kind n) (c_gfxAddress c)" "l = step_locals c level n l0"
    "(getChild n i = Some ch1 \<and> n1 = n \<and> w1 = w) \<or>
     (getChild n i = None \<and> createChild c level i n l w = Inr (n1, ch1, w1))"
    "n2 = setChild i (Some (fst (remapChild c level l ch1))) n1"
    "emitChild c level p i chk was c0 em l n2 w1 = Inr (n', w')"
    "chk = (c_ps64Applicable c \<and> level = Pte \<and> l_pte l = Some 4096)"
    "getChild n' i = Some ch"
proof -
  let ?i = "getIndex (pt_kind n) (c_gfxAddress c)"
  let ?l = "step_locals c level n l0"
  have next_step: "walkStepNext c level p ?i n ?l w = Inr (StepNext i n' ch l w')"
    using step unfolding walkStep_def Let_def step_locals_def [symmetric]
    by (auto split: if_splits option.splits)
  let ?chk = "c_ps64Applicable c \<and> level = Pte \<and> l_pte ?l = Some 4096"
  define hw where "hw = (if ?chk then ?i - ?i mod 16 else 0)"
  define c0 where "c0 = (if ?chk then getChild n hw else None)"
  from next_step obtain was n1 ch1 w1 em where
      created: "getOrCreate c level ?i n ?l w = Inr (n1, ch1, w1, em)"
    and emit: "emitChild c level p ?i ?chk was c0 (em \<or> snd (remapChild c level ?l ch1)) ?l
         (setChild ?i (Some (fst (remapChild c level ?l ch1))) n1) w1 = Inr (n', w')"
    and result: "getChild n' ?i = Some ch" "i = ?i" "l = ?l"
    unfolding walkStepNext_def Let_def hw_def [symmetric] c0_def [symmetric]
    by (auto simp: bindR_Inr_iff case_prod_beta split: option.splits)
  have "(getChild n ?i = Some ch1 \<and> n1 = n \<and> w1 = w) \<or>
     (getChild n ?i = None \<and> createChild c level ?i n ?l w = Inr (n1, ch1, w1))"
    using created by (auto simp: getOrCreate_def bindR_Inr_iff split: option.splits)
  with emit result show thesis
    by (intro that) simp_all
qed

lemma createChild_spec:
  assumes "createChild c level i n l w = Inr (n1, ch, w1)"
    and "tableAt level (pt_kind n)" and "pt_hasAllocator n" and "locals_ok l" and "l_leafLevel l \<le> level"
  shows "n1 = setChild i (Some ch) n" and "c_mode c \<noteq> Expect" and "pt_table ch = []"
    and "if level = l_leafLevel l then pt_kind ch = leaf_kind level
         else tableAt (level - 1) (pt_kind ch) \<and> pt_hasAllocator ch \<and> pt_memoryBank ch = pt_memoryBank n"
    and "w_entries w1 = w_entries w"
proof -
  from assms(1) obtain m alloc where new: "newWalkChild c level n l (w_alloc w) = Inr (Some m, alloc)"
    and ch: "ch = setPendingWrite True m" "n1 = setChild i (Some ch) n" "c_mode c \<noteq> Expect"
      "w_entries w1 = w_entries w"
    by (auto simp: createChild_def bindR_Inr_iff assertR_Inr_iff Let_def split: option.splits)
  show "n1 = setChild i (Some ch) n" "c_mode c \<noteq> Expect" "w_entries w1 = w_entries w"
    using ch by simp_all
  show "pt_table ch = []" "if level = l_leafLevel l then pt_kind ch = leaf_kind level
         else tableAt (level - 1) (pt_kind ch) \<and> pt_hasAllocator ch \<and> pt_memoryBank ch = pt_memoryBank n"
    using newWalkChild_kind [OF new assms(2,4,5)] assms(3) ch(1) by (simp_all split: if_splits)
qed

text \<open>Emitting entries leaves the recorded pages, the 64 KB pages and the allocator alone.\<close>

definition same_pages :: "PageTableWalker \<Rightarrow> PageTableWalker \<Rightarrow> bool" where
  "same_pages w w' \<longleftrightarrow> w_entries w' = w_entries w \<and> w_alloc w' = w_alloc w
     \<and> w_pages64KB w' = w_pages64KB w"

lemma same_pages_refl [simp]: "same_pages w w"
  by (simp add: same_pages_def)

lemma same_pages_trans: "same_pages w w1 \<Longrightarrow> same_pages w1 w2 \<Longrightarrow> same_pages w w2"
  by (simp add: same_pages_def)

lemma same_pages_push [simp]:
  "same_pages w (pushWalkEntry level a v w') \<longleftrightarrow> same_pages w w'"
  "same_pages w (pushPending level p w') \<longleftrightarrow> same_pages w w'"
  "same_pages w (insertEmitted level p w') \<longleftrightarrow> same_pages w w'"
  by (simp_all add: same_pages_def pushWalkEntry_def pushPending_def insertEmitted_def)

lemma forSlots_same_pages:
  assumes step: "\<And>i n w n' w'. f i (n, w) = Inr (n', w') \<Longrightarrow> same_pages w w'"
    and "forSlots f is (n, w) = Inr (n', w')"
  shows "same_pages w w'"
  using assms(2)
proof (induction "is" arbitrary: n w)
  case (Cons i "is")
  then obtain n1 w1 where "f i (n, w) = Inr (n1, w1)" and "forSlots f is (n1, w1) = Inr (n', w')"
    by (auto simp: bindR_Inr_iff)
  then show ?case
    using Cons.IH step by (blast intro: same_pages_trans)
qed simp

lemma ps64CompleteSlot_pages:
  "ps64CompleteSlot gpu level p hwBase i (n, w) = Inr (n', w') \<Longrightarrow> same_pages w w'"
  by (auto simp: ps64CompleteSlot_def bindR_Inr_iff Let_def split: option.splits if_splits)

lemma ps64ClearSlot_pages:
  "ps64ClearSlot gpu level p hwBase i (n, w) = Inr (n', w') \<Longrightarrow> same_pages w w'"
  by (auto simp: ps64ClearSlot_def bindR_Inr_iff Let_def split: option.splits if_splits)

lemma ps64Step_pages:
  "ps64Step c level p index was c0 n w = Inr (n', w', e) \<Longrightarrow> same_pages w w'"
  by (auto simp: ps64Step_def bindR_Inr_iff Let_def split: option.splits if_splits
      intro: forSlots_same_pages ps64CompleteSlot_pages ps64ClearSlot_pages)

lemma emitChild_pages:
  assumes "emitChild c level p i chk was c0 em l n w = Inr (n', w')"
  shows "same_pages w w'"
proof -
  have ps64: "same_pages w w1" if "ps64Step c level p i was c0 n w = Inr (n1, w1, e)" for n1 w1 e
    using that by (rule ps64Step_pages)
  show ?thesis
    using assms by (auto simp: emitChild_def bindR_Inr_iff Let_def split: option.splits if_splits
      dest!: ps64)
qed

lemma walkStep_next_spec:
  assumes step: "walkStep c level p n l0 w = Inr (StepNext i n' ch l w')"
    and wf: "wf_at level n" and l0: "locals_ok l0" "l_leafLevel l0 \<le> level"
  shows "i = getIndex (pt_kind n) (c_gfxAddress c)" and "l = step_locals c level n l0"
    and "pt_kind n' = pt_kind n \<and> pt_physicalAddress n' = pt_physicalAddress n
         \<and> pt_memoryBank n' = pt_memoryBank n \<and> pt_hasAllocator n'"
    and "getChild n' i = Some ch"
    and "\<And>j. j \<noteq> i \<Longrightarrow> rel_option same_node (getChild n j) (getChild n' j)"
    and "getChild n i = None \<Longrightarrow> pt_table ch = [] \<and> c_mode c \<noteq> Expect
           \<and> (if level = l_leafLevel l then pt_kind ch = leaf_kind level
              else tableAt (level - 1) (pt_kind ch) \<and> pt_hasAllocator ch \<and> pt_memoryBank ch = pt_memoryBank n)"
    and "\<And>d. getChild n i = Some d \<Longrightarrow> same_struct d ch
           \<and> (l_physicalAddress l = None \<or> level \<noteq> l_leafLevel l \<longrightarrow> same_node d ch)"
    and "\<And>a. level = l_leafLevel l \<Longrightarrow> l_physicalAddress l = Some a \<Longrightarrow>
           pt_physicalAddress ch = a \<and> pt_memoryBank ch = c_pageMemoryBank c"
    and "w_entries w' = w_entries w"
proof -
  from walkStep_next [OF step] obtain n1 n2 ch1 w1 chk was c0 em where
    i: "i = getIndex (pt_kind n) (c_gfxAddress c)" and l: "l = step_locals c level n l0"
    and created: "(getChild n i = Some ch1 \<and> n1 = n \<and> w1 = w) \<or>
     (getChild n i = None \<and> createChild c level i n l w = Inr (n1, ch1, w1))"
    and n2: "n2 = setChild i (Some (fst (remapChild c level l ch1))) n1"
    and emit: "emitChild c level p i chk was c0 em l n2 w1 = Inr (n', w')"
    and ch: "getChild n' i = Some ch"
    by (rule walkStep_next [OF step])
  note wfn = wf_at_tableAt [OF wf]
  note lok = step_locals_ok [OF l0 wfn [THEN conjunct1], of c, folded l]
  have new: "n1 = setChild i (Some ch1) n" "c_mode c \<noteq> Expect" "pt_table ch1 = []"
      "if level = l_leafLevel l then pt_kind ch1 = leaf_kind level
       else tableAt (level - 1) (pt_kind ch1) \<and> pt_hasAllocator ch1 \<and> pt_memoryBank ch1 = pt_memoryBank n"
      "w_entries w1 = w_entries w"
    if "getChild n i = None"
    using createChild_spec [of c level i n l w n1 ch1 w1] created that wfn lok(1,2) by auto
  define m where "m = fst (remapChild c level l ch1)"
  obtain e where m: "remapChild c level l ch1 = (m, e)"
    by (metis m_def prod.collapse)
  note remap = remapChild_spec [OF m]
  have n1: "pt_kind n1 = pt_kind n \<and> pt_physicalAddress n1 = pt_physicalAddress n
      \<and> pt_memoryBank n1 = pt_memoryBank n \<and> pt_hasAllocator n1 = pt_hasAllocator n
      \<and> (\<forall>j. j \<noteq> i \<longrightarrow> getChild n1 j = getChild n j)"
    using created new by (cases "getChild n i") auto
  note same = emitChild_same [OF emit, unfolded n2 m_def [symmetric]]
  have mch: "same_node m ch"
    using same ch by (auto simp: same_children_def dest!: spec [of _ i])
  show "i = getIndex (pt_kind n) (c_gfxAddress c)" "l = step_locals c level n l0" "getChild n' i = Some ch"
    by (fact i l ch)+
  show "pt_kind n' = pt_kind n \<and> pt_physicalAddress n' = pt_physicalAddress n
         \<and> pt_memoryBank n' = pt_memoryBank n \<and> pt_hasAllocator n'"
    using same n1 wfn by (simp add: same_children_def)
  show "rel_option same_node (getChild n j) (getChild n' j)" if "j \<noteq> i" for j
    using same n1 that by (auto simp: same_children_def dest!: spec [of _ j])
  show "pt_table ch = [] \<and> c_mode c \<noteq> Expect \<and> (if level = l_leafLevel l then pt_kind ch = leaf_kind level
              else tableAt (level - 1) (pt_kind ch) \<and> pt_hasAllocator ch \<and> pt_memoryBank ch = pt_memoryBank n)" if "getChild n i = None"
    using new [OF that] remap(1,2) mch by (auto simp: same_struct_def same_node_def)
  show "same_struct d ch \<and> (l_physicalAddress l = None \<or> level \<noteq> l_leafLevel l \<longrightarrow> same_node d ch)"
    if "getChild n i = Some d" for d
  proof -
    have "ch1 = d"
      using created that by auto
    then show ?thesis
      using remap(1,2) mch same_struct_node by blast
  qed
  show "pt_physicalAddress ch = a \<and> pt_memoryBank ch = c_pageMemoryBank c"
    if "level = l_leafLevel l" "l_physicalAddress l = Some a" for a
    using remap(3) [OF that] mch by (simp add: same_node_def)
  show "w_entries w' = w_entries w"
    using emitChild_pages [OF emit] created new(5) by (cases "getChild n i") (auto simp: same_pages_def)
qed

section \<open>Descending one page\<close>

definition same_root :: "PageTable \<Rightarrow> PageTable \<Rightarrow> bool" where
  "same_root n n' \<longleftrightarrow> pt_kind n' = pt_kind n \<and> pt_physicalAddress n' = pt_physicalAddress n
     \<and> pt_memoryBank n' = pt_memoryBank n \<and> pt_hasAllocator n' = pt_hasAllocator n"

lemma same_root_refl [simp]: "same_root n n"
  by (simp add: same_root_def)

lemma same_root_trans: "same_root a b \<Longrightarrow> same_root b c \<Longrightarrow> same_root a c"
  by (simp add: same_root_def)

text \<open>Every translation of the first tree is one of the second, up to flags of the leaf.\<close>

definition extends :: "nat \<Rightarrow> PageTable \<Rightarrow> PageTable \<Rightarrow> bool" where
  "extends lev n n' \<longleftrightarrow> (\<forall>g ps leaf. translate (Suc lev) n g = Some (ps, leaf) \<longrightarrow>
     (\<exists>leaf'. translate (Suc lev) n' g = Some (ps, leaf') \<and> same_node leaf leaf'))"

lemma extends_refl [simp]: "extends lev n n"
  by (auto simp: extends_def)

lemma extends_trans: "extends lev a b \<Longrightarrow> extends lev b c \<Longrightarrow> extends lev a c"
  unfolding extends_def by (meson same_node_trans)

text \<open>Replacing children slot by slot: enough to look at each slot.\<close>

lemma wf_at_slots:
  assumes "wf_at lev n" and "pt_kind n' = pt_kind n" and "pt_hasAllocator n'"
    and bank: "pt_memoryBank n' = pt_memoryBank n"
    and "\<And>j. j \<noteq> i \<Longrightarrow> rel_option same_node (getChild n j) (getChild n' j)"
    and "\<And>c. getChild n' i = Some c \<Longrightarrow>
      (case lev of 0 \<Rightarrow> pt_kind c = PageTableMemory | Suc k \<Rightarrow> wf_at k c \<and> pt_memoryBank c = pt_memoryBank n
         \<or> k = 0 \<and> pt_kind c = Page2MB)"
  shows "wf_at lev n'"
proof -
  have slot: "(case lev of 0 \<Rightarrow> pt_kind c = PageTableMemory | Suc k \<Rightarrow> wf_at k c \<and> pt_memoryBank c = pt_memoryBank n
         \<or> k = 0 \<and> pt_kind c = Page2MB)"
    if "getChild n' j = Some c" for j c
  proof (cases "j = i")
    case False
    then have "rel_option same_node (getChild n j) (Some c)"
      using assms(5) [of j] that by simp
    then obtain d where "getChild n j = Some d" "same_node d c"
      by (auto simp: option_rel_Some2)
    moreover from this(1) have "(case lev of 0 \<Rightarrow> pt_kind d = PageTableMemory
        | Suc k \<Rightarrow> wf_at k d \<and> pt_memoryBank d = pt_memoryBank n \<or> k = 0 \<and> pt_kind d = Page2MB)"
      using assms(1) by (cases lev) (auto dest: wf_at_page wf_at_child simp del: wf_at.simps)
    ultimately show ?thesis
      by (cases lev) (auto simp: same_node_wf [of d c] same_node_def simp del: wf_at.simps)
  qed (use assms(6) that in simp)
  show ?thesis
  proof (cases lev)
    case 0
    then show ?thesis
      using assms(1-3) bank slot by auto
  next
    case (Suc k)
    then show ?thesis
      using assms(1-3) bank slot by auto
  qed
qed

lemma extends_slots:
  assumes "pt_kind n' = pt_kind n"
    and "\<And>j. j \<noteq> i \<Longrightarrow> rel_option same_node (getChild n j) (getChild n' j)"
    and "\<And>d. getChild n i = Some d \<Longrightarrow> \<exists>c. getChild n' i = Some c \<and> pt_kind c = pt_kind d
      \<and> (if lev = 0 \<or> pt_kind d = Page2MB then same_node d c else extends (lev - 1) d c)"
  shows "extends lev n n'"
  unfolding extends_def
proof (intro allI impI)
  fix g ps leaf
  assume t: "translate (Suc lev) n g = Some (ps, leaf)"
  let ?j = "getIndex (pt_kind n) g"
  from t obtain d where d: "getChild n ?j = Some d"
    by (auto split: option.splits)
  have "\<exists>c. getChild n' ?j = Some c \<and> pt_kind c = pt_kind d
      \<and> (if lev = 0 \<or> pt_kind d = Page2MB then same_node d c else extends (lev - 1) d c)"
  proof (cases "?j = i")
    case True
    then show ?thesis
      using assms(3) d by simp
  next
    case False
    then obtain c where c: "getChild n' ?j = Some c" "same_node d c"
      using assms(2) [of ?j] d by (cases "getChild n' ?j") auto
    moreover have "extends k d c" for k
      using same_node_translate [OF c(2)] by (auto simp: extends_def)
    ultimately show ?thesis
      by (auto simp: same_node_kind)
  qed
  then obtain c where c: "getChild n' ?j = Some c" "pt_kind c = pt_kind d"
    "if lev = 0 \<or> pt_kind d = Page2MB then same_node d c else extends (lev - 1) d c"
    by blast
  show "\<exists>leaf'. translate (Suc lev) n' g = Some (ps, leaf') \<and> same_node leaf leaf'"
  proof (cases "lev = 0 \<or> pt_kind d = Page2MB")
    case True
    then show ?thesis
      using t d c assms(1) by auto
  next
    case False
    then obtain k where k: "lev = Suc k"
      by (cases lev) auto
    then have "translate (Suc k) d g = Some (ps, leaf)"
      using t d False by simp
    then obtain leaf' where "translate (Suc k) c g = Some (ps, leaf')" "same_node leaf leaf'"
      using c(3) False k unfolding extends_def by (metis diff_Suc_1)
    then show ?thesis
      using c False k assms(1) by auto
  qed
qed

text \<open>The result of the inner loop, as the outer loop uses it.\<close>

definition page_found :: "nat \<Rightarrow> PageTable \<Rightarrow> PageTable \<Rightarrow> u64 \<Rightarrow> PageTable \<Rightarrow> walk_local \<Rightarrow> bool" where
  "page_found lev n n' gfx leaf l \<longleftrightarrow> wf_at lev n' \<and> same_root n n'
     \<and> (\<exists>ps. pageSizeThisIteration l = Inr ps \<and> translate (Suc lev) n' gfx = Some (ps, leaf)
            \<and> (ps = 4096 \<or> ps = 65536 \<or> ps = pageSize2MB))"

lemma wf_at_fresh:
  assumes "tableAt lev (pt_kind n)" and "pt_hasAllocator n" and "pt_table n = []"
  shows "wf_at lev n"
  using assms by (cases lev) (auto simp: getChild_def)

lemma pte_page_size:
  "tableAt 0 k \<Longrightarrow> getPageSize k = 4096 \<or> getPageSize k = 65536"
  by auto

lemma walk_leaf_step:
  assumes step: "walkStep c lev p n l0 w = Inr (StepNext i n' ch l w')"
    and wf: "wf_at lev n" and l0: "locals_ok l0" "l_leafLevel l0 \<le> lev" and leaf: "lev = l_leafLevel l"
  shows "page_found lev n (setChild i (Some ch) n') (c_gfxAddress c) ch l"
    and "l_physicalAddress l0 = None \<Longrightarrow> extends lev n (setChild i (Some ch) n')"
proof -
  note spec = walkStep_next_spec [OF step wf l0]
  note tab = wf_at_tableAt [OF wf]
  note lok = step_locals_ok [OF l0 tab [THEN conjunct1], of c, folded spec(2)]
  have le: "lev \<le> 1"
    using locals_leaf [OF lok(1)] leaf by auto
  have kind: "pt_kind ch = leaf_kind lev"
  proof (cases "getChild n i")
    case None
    then show ?thesis
      using spec(6) leaf by simp
  next
    case (Some d)
    have "pt_kind d = leaf_kind lev"
      using leaf_child_kind [OF wf l0 Some [unfolded spec(1)]] leaf [unfolded spec(2)] by blast
    then show ?thesis
      using spec(7) [OF Some] by (simp add: same_struct_def)
  qed
  have slot: "(case lev of 0 \<Rightarrow> pt_kind ch = PageTableMemory | Suc k \<Rightarrow> wf_at k ch \<and> pt_memoryBank ch = pt_memoryBank n
         \<or> k = 0 \<and> pt_kind ch = Page2MB)"
    using kind le by (cases lev) (simp_all add: leaf_kind_def del: wf_at.simps)
  have "wf_at lev (setChild i (Some ch) n')"
    by (rule wf_at_slots [OF wf, of _ i]) (use spec(3,5) slot in \<open>simp_all del: wf_at.simps\<close>)
  moreover have "pageSizeThisIteration l = Inr (if lev = 0 then getPageSize (pt_kind n) else pageSize2MB)"
    using lok(1,3) leaf by (auto simp: pageSizeThisIteration_def locals_ok_def)
  moreover have "translate (Suc lev) (setChild i (Some ch) n') (c_gfxAddress c)
      = Some (if lev = 0 then getPageSize (pt_kind n) else pageSize2MB, ch)"
    using spec(1,3) kind le by (auto simp: leaf_kind_def)
  moreover have "lev = 0 \<Longrightarrow> getPageSize (pt_kind n) = 4096 \<or> getPageSize (pt_kind n) = 65536"
    using tab pte_page_size by blast
  ultimately show "page_found lev n (setChild i (Some ch) n') (c_gfxAddress c) ch l"
    using spec(3) tab by (auto simp: page_found_def same_root_def)
  show "extends lev n (setChild i (Some ch) n')" if "l_physicalAddress l0 = None"
  proof (rule extends_slots [of _ _ i])
    fix d
    assume d: "getChild n i = Some d"
    then have "same_node d ch"
      using spec(7) that lok(4) by blast
    then show "\<exists>ca. getChild (setChild i (Some ch) n') i = Some ca \<and> pt_kind ca = pt_kind d
        \<and> (if lev = 0 \<or> pt_kind d = Page2MB then same_node d ca else extends (lev - 1) d ca)"
      using kind le by (auto simp: leaf_kind_def same_node_kind)
  qed (use spec(3,5) in auto)
qed

lemma walk_inner_step:
  assumes step: "walkStep c (Suc k) p n l0 w = Inr (StepNext i n' ch l w')"
    and wf: "wf_at (Suc k) n" and l0: "locals_ok l0" "l_leafLevel l0 \<le> Suc k" and inner: "Suc k \<noteq> l_leafLevel l"
  shows "wf_at k ch" and "locals_ok l" and "l_leafLevel l \<le> k"
    and "page_found k ch ch' (c_gfxAddress c) leaf l' \<Longrightarrow>
      page_found (Suc k) n (setChild i (Some ch') n') (c_gfxAddress c) leaf l'"
    and "wf_at k ch' \<Longrightarrow> pt_kind ch' = pt_kind ch \<Longrightarrow> extends k ch ch' \<Longrightarrow>
      extends (Suc k) n (setChild i (Some ch') n')"
proof -
  note spec = walkStep_next_spec [OF step wf l0]
  note tab = wf_at_tableAt [OF wf]
  note lok = step_locals_ok [OF l0 tab [THEN conjunct1], of c, folded spec(2)]
  have old: "wf_at k d \<and> pt_memoryBank d = pt_memoryBank n" if "getChild n i = Some d" for d
    using wf_at_child [OF wf that] leaf_child_kind [OF wf l0 that [unfolded spec(1)]] inner [unfolded spec(2)]
    by (auto simp: leaf_kind_def)
  have child: "wf_at k ch \<and> pt_memoryBank ch = pt_memoryBank n"
  proof (cases "getChild n i")
    case None
    then show ?thesis
      using spec(6) inner by (auto intro: wf_at_fresh)
  next
    case (Some d)
    then show ?thesis
      using old [OF Some] spec(7) [OF Some] inner same_node_wf [of d ch k] by (auto simp: same_node_def)
  qed
  then show "wf_at k ch" ..
  show "locals_ok l" "l_leafLevel l \<le> k"
    using lok(1,2) inner by simp_all
  have kind2MB: "pt_kind x \<noteq> Page2MB" if "wf_at k x" for x
    using wf_at_tableAt [OF that] by (cases "(k, pt_kind x)" rule: tableAt.cases) auto
  show "page_found (Suc k) n (setChild i (Some ch') n') (c_gfxAddress c) leaf l'"
    if found: "page_found k ch ch' (c_gfxAddress c) leaf l'"
  proof -
    have ch': "wf_at k ch'" "pt_memoryBank ch' = pt_memoryBank n"
      using found child by (simp_all add: page_found_def same_root_def)
    have "wf_at (Suc k) (setChild i (Some ch') n')"
      by (rule wf_at_slots [OF wf, of _ i]) (use spec(3,5) ch' in \<open>simp_all del: wf_at.simps\<close>)
    then show ?thesis
      using found spec(1,3) tab kind2MB [OF ch'(1)] by (auto simp: page_found_def same_root_def)
  qed
  show "extends (Suc k) n (setChild i (Some ch') n')"
    if ch': "wf_at k ch'" "pt_kind ch' = pt_kind ch" and ext: "extends k ch ch'"
  proof (rule extends_slots [of _ _ i])
    fix d
    assume d: "getChild n i = Some d"
    then have "same_node d ch"
      using spec(7) inner by blast
    then have "extends k d ch'" and "pt_kind ch' = pt_kind d"
      using ext ch'(2) same_node_translate [of d ch] by (auto simp: extends_def same_node_kind)
    then show "\<exists>ca. getChild (setChild i (Some ch') n') i = Some ca \<and> pt_kind ca = pt_kind d
        \<and> (if Suc k = 0 \<or> pt_kind d = Page2MB then same_node d ca else extends (Suc k - 1) d ca)"
      using kind2MB [OF ch'(1)] by auto
  qed (use spec(3,5) in auto)
qed

lemma walkLevels_stop: "lev \<le> l_leafLevel l \<Longrightarrow> walkLevels c lev p n l w = Inr (n, n, l, w)"
  by (cases lev) simp_all

lemma walkLevels_next:
  assumes "walkStep c lev p n l0 w = Inr (StepNext i m ch l1 w1)" and "l_leafLevel l0 \<le> lev"
  shows "walkLevels c (Suc lev) p n l0 w = bindR (walkLevels c lev (p @ [i]) ch l1 w1)
    (\<lambda>(child', leaf, l'', w''). Inr (setChild i (Some child') m, leaf, l'', w''))"
  using assms by simp

lemma walkLevels_spec:
  assumes "walkLevels c (Suc lev) p n l0 w = Inr (n', leaf, l, w')"
    and "wf_at lev n" and "locals_ok l0" and "l_leafLevel l0 \<le> lev"
  shows "page_found lev n n' (c_gfxAddress c) leaf l \<and> w_entries w' = w_entries w
    \<and> (l_physicalAddress l0 = None \<longrightarrow> extends lev n n' \<and> l_physicalAddress l = None)"
  using assms
proof (induction lev arbitrary: p n l0 w n' leaf l w')
  case 0
  obtain step where step: "walkStep c 0 p n l0 w = Inr step"
    using "0.prems"(1,4) by (cases "walkStep c 0 p n l0 w") simp_all
  then obtain i m where next_step: "walkStep c 0 p n l0 w = Inr (StepNext i m leaf l w')"
    and n': "n' = setChild i (Some leaf) m"
    using walkStep_break [of c 0 p n l0 w] "0.prems"(1,4) by (cases step) auto
  note lok = step_locals_ok [OF "0.prems"(3,4) wf_at_tableAt [OF "0.prems"(2), THEN conjunct1], of c]
  have "l_leafLevel l = 0"
    using walkStep_next_spec(2) [OF next_step "0.prems"(2-4)] lok(2) by simp
  then show ?case
    using walk_leaf_step [OF next_step "0.prems"(2-4)] walkStep_next_spec(2,9) [OF next_step "0.prems"(2-4)]
      lok(4) n' by simp
next
  case (Suc lev)
  show ?case
  proof (cases "walkStep c (Suc lev) p n l0 w")
    case (Inr step)
    show ?thesis
    proof (cases step)
      case (StepBreak parent child l' w1)
      note brk = walkStep_break [OF Inr [unfolded StepBreak]]
      have eq: "n' = n" "leaf = child" "l = l'" "w' = w"
        using Suc.prems(1,4) Inr StepBreak brk by auto
      have "l_physicalAddress l0 = None \<longleftrightarrow> l_physicalAddress l = None"
        using step_locals_ok(4) [OF Suc.prems(3,4), of n c] wf_at_tableAt [OF Suc.prems(2)] brk eq by simp
      then show ?thesis
        using brk eq Suc.prems(2) by (auto simp: page_found_def pageSizeThisIteration_def)
    next
      case (StepNext i m ch l1 w1)
      note next_step = Inr [unfolded StepNext]
      note spec = walkStep_next_spec [OF next_step Suc.prems(2-4)]
      note lok = step_locals_ok [OF Suc.prems(3,4) wf_at_tableAt [OF Suc.prems(2), THEN conjunct1], of c]
      show ?thesis
      proof (cases "Suc lev = l_leafLevel l1")
        case True
        then have "n' = setChild i (Some ch) m \<and> leaf = ch \<and> l = l1 \<and> w' = w1"
          using Suc.prems(1) walkLevels_next [OF next_step Suc.prems(4)]
            walkLevels_stop [of "Suc lev" l1 c "p @ [i]" ch w1] by simp
        then show ?thesis
          using walk_leaf_step [OF next_step Suc.prems(2-4) True] spec(2,9) lok(4) by simp
      next
        case False
        note inner = walk_inner_step [OF next_step Suc.prems(2-4) False]
        obtain ch' where
          rec: "walkLevels c (Suc lev) (p @ [i]) ch l1 w1 = Inr (ch', leaf, l, w')"
          and n': "n' = setChild i (Some ch') m"
          using Suc.prems(1) unfolding walkLevels_next [OF next_step Suc.prems(4)]
          by (elim bindR_InrE) (auto simp del: walkLevels.simps)
        note IH = Suc.IH [OF rec inner(1-3)]
        have phys: "l_physicalAddress l0 = None \<longleftrightarrow> l_physicalAddress l1 = None"
          using lok(4) spec(2) by simp
        have "wf_at lev ch'" "pt_kind ch' = pt_kind ch"
          using IH by (auto simp: page_found_def same_root_def)
        then show ?thesis
          using IH inner(4,5) n' spec(9) phys by auto
      qed
    qed
  qed (use Suc.prems(1,4) in simp)
qed

section \<open>The whole walk\<close>

text \<open>The recorded pages follow the translation, one after the other from the given address on.\<close>

fun covers :: "nat \<Rightarrow> PageTable \<Rightarrow> u64 \<Rightarrow> PageInfo list \<Rightarrow> bool" where
  "covers lev n g [] \<longleftrightarrow> True"
| "covers lev n g (e # es) \<longleftrightarrow> (case translate (Suc lev) n g of
       None \<Rightarrow> False
     | Some (ps, leaf) \<Rightarrow>
         (ps = 4096 \<or> ps = 65536 \<or> ps = pageSize2MB)
         \<and> pi_physicalAddress e = pt_physicalAddress leaf + (g AND (ps - 1))
         \<and> 0 < pi_size e \<and> pi_size e \<le> ps - (g AND (ps - 1))
         \<and> pi_isLocalMemory e = isLocalMemory leaf
         \<and> covers lev n (g + pi_size e) es)"

definition total_size :: "PageInfo list \<Rightarrow> nat" where
  "total_size es = (\<Sum>e\<leftarrow>es. unat (pi_size e))"

lemma total_size_simps [simp]:
  "total_size [] = 0" "total_size (e # es) = unat (pi_size e) + total_size es"
  by (simp_all add: total_size_def)

lemma covers_extends:
  assumes "covers lev n g es" and "extends lev n n'"
  shows "covers lev n' g es"
  using assms(1)
proof (induction es arbitrary: g)
  case (Cons e es)
  obtain ps leaf where t: "translate (Suc lev) n g = Some (ps, leaf)"
    using Cons.prems by (auto split: option.splits simp del: translate.simps)
  with assms(2) obtain leaf' where t': "translate (Suc lev) n' g = Some (ps, leaf')" and "same_node leaf leaf'"
    unfolding extends_def by blast
  then show ?case
    using Cons t by (simp add: same_node_def isLocalMemory_def del: translate.simps)
qed simp

lemma walkPage_spec:
  assumes "walkPage a i None gfx sz root w = Inr (ps, bank, root', leaf, l, w')"
    and "wf_at lev root" and "getNumLevels (pt_kind root) = Suc lev" and "1 \<le> lev"
  shows "wf_at lev root'" and "same_root root root'" and "extends lev root root'"
    and "translate (Suc lev) root' gfx = Some (ps, leaf)" and "ps = 4096 \<or> ps = 65536 \<or> ps = pageSize2MB"
    and "w_entries w' = w_entries w" and "l_physicalAddress l = None"
proof -
  from assms(1) obtain info where
    levels: "walkLevels (pageCtx a info bank gfx sz) (Suc lev) [] root (startLocals a None) w
      = Inr (root', leaf, l, w')"
    and ps: "pageSizeThisIteration l = Inr ps" "ps = 4096 \<or> ps = 65536 \<or> ps = pageSize2MB"
    unfolding walkPage_def assms(3)
    by (auto simp: bindR_Inr_iff assertR_Inr_iff simp del: walkLevels.simps)
  have "locals_ok (startLocals a None)" and "l_leafLevel (startLocals a None) \<le> lev"
    using assms(4) by (auto simp: startLocals_def locals_ok_def Pde_def Pte_def)
  note spec = walkLevels_spec [OF levels assms(2) this]
  show "wf_at lev root'" "same_root root root'" "translate (Suc lev) root' gfx = Some (ps, leaf)"
    using spec ps(1) by (auto simp: page_found_def pageCtx_def simp del: translate.simps)
  show "extends lev root root'" "l_physicalAddress l = None" "w_entries w' = w_entries w"
    using spec by (simp_all add: startLocals_def)
  show "ps = 4096 \<or> ps = 65536 \<or> ps = pageSize2MB"
    by (fact ps)
qed

lemma unat_minus_le: "x \<le> y \<Longrightarrow> unat x + unat (y - x) = unat y"
  for x y :: "'a::len word"
  by (simp add: unat_sub word_le_nat_alt)

lemma walkPages_spec:
  assumes "walkPages a i None gfx sz root w = Inr (root', w')"
    and "wf_at lev root" and "getNumLevels (pt_kind root) = Suc lev" and "1 \<le> lev"
  shows "wf_at lev root' \<and> same_root root root' \<and> extends lev root root'
    \<and> (\<exists>es. w_entries w' = w_entries w @ es \<and> covers lev root' gfx es \<and> total_size es = unat sz)"
  using assms
proof (induction a i "None :: u64 option" gfx sz root w arbitrary: root' w' rule: walkPages.induct)
  case (1 a i gfx sz root w)
  show ?case
  proof (cases "sz > 0")
    case False
    then have "root' = root" and "w' = w" and "sz = 0"
      using "1.prems"(1) word_neq_0_conv [of sz] by (auto simp: walkPages.simps)
    then show ?thesis
      using "1.prems"(2) by (auto intro!: exI [of _ "[]"])
  next
    case True
    then obtain ps bank root1 leaf l w1 where
      page: "walkPage a i None gfx sz root w = Inr (ps, bank, root1, leaf, l, w1)"
      using "1.prems"(1) by (subst (asm) walkPages.simps) (auto simp: bindR_Inr_iff)
    note spec = walkPage_spec [OF page "1.prems"(2-4)]
    define this_size where "this_size = iterationSize ps gfx sz"
    define e where "e = leafInfo leaf (gfx AND (ps - 1)) this_size bank"
    define w2 where "w2 = w1\<lparr>w_entries := w_entries w1 @ [e]\<rparr>"
    have rest: "walkPages a (i + 1) None (gfx + this_size) (sz - this_size) root1 w2 = Inr (root', w')"
      using "1.prems"(1) True page spec(7)
      by (subst (asm) walkPages.simps) (simp add: Let_def this_size_def e_def w2_def)
    note size_bounds = iterationSize_bounds [OF spec(5) True, of gfx, folded this_size_def]
    have levels: "getNumLevels (pt_kind root1) = Suc lev"
      using spec(2) "1.prems"(3) by (simp add: same_root_def)
    have IH: "wf_at lev root' \<and> same_root root1 root' \<and> extends lev root1 root'
      \<and> (\<exists>es. w_entries w' = w_entries w2 @ es \<and> covers lev root' (gfx + this_size) es
            \<and> total_size es = unat (sz - this_size))"
      using "1.hyps" [OF True page refl refl refl refl refl refl refl refl]
        rest spec(1,7) levels "1.prems"(4) by (simp add: this_size_def e_def w2_def)
    then obtain es where es: "w_entries w' = w_entries w2 @ es" "covers lev root' (gfx + this_size) es"
      "total_size es = unat (sz - this_size)"
      by blast
    obtain leaf' where leaf': "translate (Suc lev) root' gfx = Some (ps, leaf')" "same_node leaf leaf'"
      using IH spec(4) unfolding extends_def by blast
    have "this_size \<le> ps - (gfx AND (ps - 1))"
      by (simp add: this_size_def iterationSize_def)
    then have "covers lev root' gfx (e # es)"
      using leaf' es(2) spec(5) size_bounds
      by (simp add: e_def leafInfo_def same_node_def isLocalMemory_def word_less_nat_alt del: translate.simps)
    moreover have "total_size (e # es) = unat sz"
      using es(3) unat_minus_le [OF size_bounds(2)] by (simp add: e_def leafInfo_def)
    moreover have "w_entries w' = w_entries w @ (e # es)"
      using es(1) spec(6) by (simp add: w2_def)
    ultimately show ?thesis
      using IH spec(2,3) by (blast intro: same_root_trans extends_trans)
  qed
qed

section \<open>Bytes\<close>

text \<open>The lowest address bit the index of a table depends on.\<close>

fun index_shift :: "ptKind \<Rightarrow> nat" where
  "index_shift PTE4KB = 12"
| "index_shift PTE64KB = 16"
| "index_shift LegacyPTE64KB = 16"
| "index_shift PDE = 21"
| "index_shift LegacyPDE = 21"
| "index_shift PDP = 30"
| "index_shift LegacyPDP = 30"
| "index_shift PDP4 = 30"
| "index_shift LegacyPDP4 = 30"
| "index_shift PML4 = 39"
| "index_shift LegacyPML4 = 39"
| "index_shift PML5 = 48"
| "index_shift k = 64"

lemma and_push_bit: "x AND push_bit n m = push_bit n (drop_bit n x AND m)"
  for x m :: "'a::len word"
  by (rule bit_word_eqI) (auto simp: bit_simps)

lemma legacy_index: "drop_bit 12 g AND 0x1f0 = push_bit 4 (drop_bit 16 g AND 0x1f)"
  for g :: u64
proof -
  have m: "0x1f0 = push_bit 4 (0x1f :: u64)"
    by simp
  have "drop_bit 4 (drop_bit 12 g) = drop_bit 16 g"
    by (simp only: drop_bit_drop_bit) simp
  then show ?thesis
    by (simp only: m and_push_bit)
qed

lemma getIndex_shift:
  assumes "drop_bit (index_shift k) g = drop_bit (index_shift k) g'"
  shows "getIndex k g = getIndex k g'"
  using assms by (cases k) (simp_all only: getIndex.simps index_shift.simps legacy_index)

lemma drop_bit_mono:
  fixes g g' :: u64
  assumes "drop_bit k g = drop_bit k g'" and "k \<le> m"
  shows "drop_bit m g = drop_bit m g'"
proof -
  have "drop_bit m g = drop_bit (m - k) (drop_bit k g)" "drop_bit m g' = drop_bit (m - k) (drop_bit k g')"
    using assms(2) by (simp_all only: drop_bit_drop_bit le_add_diff_inverse2)
  then show ?thesis
    using assms(1) by (simp only:)
qed

text \<open>The exponent of a page size.\<close>

definition page_shift :: "usize \<Rightarrow> nat" where
  "page_shift ps = (if ps = 4096 then 12 else if ps = 65536 then 16 else 21)"

lemma page_shift_power:
  "ps = 4096 \<or> ps = 65536 \<or> ps = pageSize2MB \<Longrightarrow> ps = 2 ^ page_shift ps \<and> page_shift ps < 64"
  by (auto simp: page_shift_def pageSize2MB_def)

lemma table_shift: "tableAt (Suc lev) k \<Longrightarrow> 21 \<le> index_shift k"
  by (cases "(Suc lev, k)" rule: tableAt.cases) auto

lemma pte_shift: "tableAt 0 k \<Longrightarrow> index_shift k = page_shift (getPageSize k)"
  by (auto simp: page_shift_def)

lemma page_shift_le: "page_shift ps \<le> 21"
  by (simp add: page_shift_def)

lemma translate_same_page:
  assumes "wf_at lev n" and "translate (Suc lev) n g = Some (ps, leaf)"
    and "drop_bit (page_shift ps) g = drop_bit (page_shift ps) g'"
  shows "translate (Suc lev) n g' = Some (ps, leaf)"
  using assms(1,2)
proof (induction lev arbitrary: n)
  case 0
  then have "ps = getPageSize (pt_kind n)"
    by (simp split: option.splits)
  moreover have "tableAt 0 (pt_kind n)"
    using "0.prems"(1) by simp
  ultimately have "drop_bit (index_shift (pt_kind n)) g = drop_bit (index_shift (pt_kind n)) g'"
    using assms(3) by (simp only: pte_shift)
  then have "getIndex (pt_kind n) g = getIndex (pt_kind n) g'"
    by (rule getIndex_shift)
  then show ?case
    using "0.prems"(2) by (simp split: option.splits)
next
  case (Suc lev)
  have "21 \<le> index_shift (pt_kind n)"
    using Suc.prems(1) by (intro table_shift [of lev]) simp
  then have "drop_bit (index_shift (pt_kind n)) g = drop_bit (index_shift (pt_kind n)) g'"
    by (rule drop_bit_mono [OF assms(3) order_trans [OF page_shift_le]])
  then have idx: "getIndex (pt_kind n) g = getIndex (pt_kind n) g'"
    by (rule getIndex_shift)
  from Suc.prems(2) obtain c where c: "getChild n (getIndex (pt_kind n) g) = Some c"
    by (auto split: option.splits)
  show ?case
  proof (cases "pt_kind c = Page2MB")
    case True
    then show ?thesis
      using Suc.prems(2) c idx by simp
  next
    case False
    then have "wf_at lev c"
      using wf_at_child [OF Suc.prems(1) c] by blast
    moreover have "translate (Suc lev) c g = Some (ps, leaf)"
      using Suc.prems(2) c False by simp
    ultimately have "translate (Suc lev) c g' = Some (ps, leaf)"
      by (rule Suc.IH)
    then show ?thesis
      using c False idx by simp
  qed
qed

lemma inside_page:
  fixes g d :: u64
  assumes ps: "ps = 2 ^ k" "k < 64" and inside: "unat d < unat (ps - (g AND (ps - 1)))"
  shows "drop_bit k (g + d) = drop_bit k g" and "(g + d) AND (ps - 1) = (g AND (ps - 1)) + d"
proof -
  let ?o = "unat g mod 2 ^ k"
  have off: "unat (g AND (ps - 1)) = ?o"
    by (simp add: ps unat_low_bits)
  have "unat (ps - (g AND (ps - 1))) = 2 ^ k - ?o"
    using ps(2) by (subst unat_sub) (simp_all add: word_le_nat_alt off ps(1) unat_two_power unat_low_bits)
  then have lt: "?o + unat d < 2 ^ k"
    using inside by linarith
  have split: "unat g = unat g div 2 ^ k * 2 ^ k + ?o"
    by (rule div_mult_mod_eq [symmetric])
  have "(unat g div 2 ^ k + 1) * 2 ^ k \<le> 2 ^ 64"
  proof -
    have p: "(2::nat) ^ 64 = 2 ^ (64 - k) * 2 ^ k"
      using ps(2) by (simp flip: power_add)
    have "unat g < 2 ^ (64 - k) * 2 ^ k"
      using unat_bound64 [of g] p by simp
    then have "unat g div 2 ^ k < 2 ^ (64 - k)"
      by (simp add: less_mult_imp_div_less)
    then show ?thesis
      unfolding p by (intro mult_le_mono1) simp
  qed
  then have "unat g div 2 ^ k * 2 ^ k + 2 ^ k \<le> 2 ^ 64"
    by (simp add: algebra_simps)
  then have "unat g + unat d < 2 ^ 64"
    using lt split by linarith
  then have sum: "unat (g + d) = unat g div 2 ^ k * 2 ^ k + (?o + unat d)"
    using split by (simp add: unat_add_small)
  have "unat (g + d) div 2 ^ k = unat g div 2 ^ k"
    unfolding sum using lt by simp
  then show "drop_bit k (g + d) = drop_bit k g"
    by (simp only: word_unat_eq_iff unat_shift_right)
  have "unat (g + d) mod 2 ^ k = ?o + unat d"
    unfolding sum using lt by simp
  moreover have "unat ((g AND (ps - 1)) + d) = ?o + unat d"
  proof -
    have "(2::nat) ^ k < 2 ^ 64"
      using ps(2) by (intro power_strict_increasing) simp_all
    then show ?thesis
      using lt by (simp add: unat_add_small off)
  qed
  ultimately show "(g + d) AND (ps - 1) = (g AND (ps - 1)) + d"
    by (simp only: word_unat_eq_iff ps(1) unat_low_bits)
qed

text \<open>The physical address of a byte, by the recorded pages and by the tree.\<close>

fun byte_address :: "PageInfo list \<Rightarrow> nat \<Rightarrow> u64 option" where
  "byte_address [] d = None"
| "byte_address (e # es) d =
     (if d < unat (pi_size e) then Some (pi_physicalAddress e + word_of_nat d)
      else byte_address es (d - unat (pi_size e)))"

definition translate_address :: "nat \<Rightarrow> PageTable \<Rightarrow> u64 \<Rightarrow> u64 option" where
  "translate_address lev n g =
     map_option (\<lambda>(ps, leaf). pt_physicalAddress leaf + (g AND (ps - 1))) (translate (Suc lev) n g)"

lemma covers_byte_address:
  assumes "wf_at lev n" and "covers lev n g es" and "d < total_size es"
  shows "byte_address es d = translate_address lev n (g + word_of_nat d)"
  using assms(2,3)
proof (induction es arbitrary: g d)
  case (Cons e es)
  obtain ps leaf where t: "translate (Suc lev) n g = Some (ps, leaf)"
    using Cons.prems by (auto split: option.splits simp del: translate.simps)
  with Cons.prems(1) have ps: "ps = 4096 \<or> ps = 65536 \<or> ps = pageSize2MB"
    and addr: "pi_physicalAddress e = pt_physicalAddress leaf + (g AND (ps - 1))"
    and sz: "unat (pi_size e) \<le> unat (ps - (g AND (ps - 1)))"
    and rest: "covers lev n (g + pi_size e) es"
    by (simp_all add: word_le_nat_alt del: translate.simps)
  note shift = page_shift_power [OF ps]
  show ?case
  proof (cases "d < unat (pi_size e)")
    case True
    have "d < 2 ^ 64"
      using True unat_bound64 [of "pi_size e"] by simp
    then have ud: "unat (word_of_nat d :: u64) = d"
      by (simp add: unat_word_of_nat_small)
    have inside: "unat (word_of_nat d :: u64) < unat (ps - (g AND (ps - 1)))"
      using True sz ud by linarith
    note page = inside_page [OF shift [THEN conjunct1] shift [THEN conjunct2] inside]
    have "translate (Suc lev) n (g + word_of_nat d) = Some (ps, leaf)"
      by (rule translate_same_page [OF assms(1) t page(1) [symmetric]])
    then show ?thesis
      using True addr page(2) by (simp add: translate_address_def add.assoc del: translate.simps)
  next
    case False
    then have "byte_address (e # es) d = translate_address lev n (g + pi_size e + word_of_nat (d - unat (pi_size e)))"
      using Cons.IH [OF rest, of "d - unat (pi_size e)"] Cons.prems(2) by simp
    moreover have "pi_size e + word_of_nat (d - unat (pi_size e)) = word_of_nat d"
      using False by (simp flip: of_nat_add add: of_nat_diff)
    ultimately show ?thesis
      by (simp add: add.assoc)
  qed
qed simp

section \<open>Following existing translations\<close>

lemma setChild_same: "getChild n i = Some c \<Longrightarrow> setChild i (Some c) n = n"
proof -
  assume "getChild n i = Some c"
  then have "i < length (pt_table n)" and "pt_table n ! i = Some c"
    by (auto simp: getChild_def slot_get_def split: if_splits)
  then have "slot_set i (Some c) (pt_table n) = pt_table n"
    by (metis Nat.le_imp_diff_is_add Suc_eq_plus1 Suc_leI add_0 append_Nil2 diff_is_0_eq
        list_update_id replicate_empty slot_set_def)
  then show ?thesis
    by (cases n) (simp add: setChild_def)
qed

lemma getEntryValue_Inr: "pt_kind n \<noteq> Page2MB \<Longrightarrow> \<exists>v. getEntryValue gpu n = Inr v"
  by (cases "pt_kind n") (simp_all add: getEntryValue_def)

lemma emitChild_plain:
  assumes "getChild n i = Some ch" and "pt_kind ch \<noteq> Page2MB"
  shows "\<exists>w'. emitChild c level p i False was c0 em l n w = Inr (n, w') \<and> same_pages w w'"
proof -
  obtain v where "getEntryValue (c_gpu c) ch = Inr v"
    using getEntryValue_Inr [OF assms(2)] by blast
  then show ?thesis
    using assms(1) by (auto simp: emitChild_def Let_def)
qed

lemma walkStepNext_existing:
  assumes "getChild n i = Some ch" and "pt_kind ch \<noteq> Page2MB" and "\<not> c_ps64Applicable c"
    and "l_physicalAddress l = None"
  shows "\<exists>w'. walkStepNext c level p i n l w = Inr (StepNext i n ch l w') \<and> same_pages w w'"
proof -
  have remap: "remapChild c level l ch = (ch, False)"
    using assms(4) by (simp add: remapChild_def)
  obtain w' where "emitChild c level p i False False None False l n w = Inr (n, w') \<and> same_pages w w'"
    using emitChild_plain [OF assms(1,2)] by blast
  then show ?thesis
    using assms by (auto simp: walkStepNext_def getOrCreate_def wasPs64Group_def remap setChild_same)
qed

lemma walkLevels_existing:
  assumes "wf_at lev n" and "translate (Suc lev) n (c_gfxAddress c) = Some (ps, leaf)"
    and "locals_ok l0" and "l_leafLevel l0 \<le> lev" and "l_physicalAddress l0 = None"
    and "\<not> c_ps64Applicable c"
  shows "\<exists>l w'. walkLevels c (Suc lev) p n l0 w = Inr (n, leaf, l, w') \<and> same_pages w w'"
  using assms(1-5)
proof (induction lev arbitrary: p n l0 w)
  case 0
  let ?i = "getIndex (pt_kind n) (c_gfxAddress c)"
  have ch: "getChild n ?i = Some leaf"
    using "0.prems"(2) by (auto split: option.splits)
  have kind: "pt_kind leaf \<noteq> Page2MB"
    using wf_at_page [OF "0.prems"(1) ch] by simp
  note lok = step_locals_ok [OF "0.prems"(3,4) wf_at_tableAt [OF "0.prems"(1), THEN conjunct1], of c]
  have "walkStep c 0 p n l0 w = walkStepNext c 0 p ?i n (step_locals c 0 n l0) w"
    by (simp add: walkStep_def step_locals_def ch existing2MB_def Pde_def)
  then obtain w' where "walkStep c 0 p n l0 w = Inr (StepNext ?i n leaf (step_locals c 0 n l0) w')"
      and "same_pages w w'"
    using walkStepNext_existing [OF ch kind assms(6)] lok(4) "0.prems"(5) by metis
  then show ?case
    using walkLevels_next [of c 0 p n l0 w] "0.prems"(4) setChild_same [OF ch] by simp
next
  case (Suc lev)
  let ?i = "getIndex (pt_kind n) (c_gfxAddress c)" and ?l = "step_locals c (Suc lev) n l0"
  from Suc.prems(2) obtain ch where ch: "getChild n ?i = Some ch"
    by (auto split: option.splits)
  note lok = step_locals_ok [OF Suc.prems(3,4) wf_at_tableAt [OF Suc.prems(1), THEN conjunct1], of c]
  show ?case
  proof (cases "pt_kind ch = Page2MB")
    case True
    have lev: "lev = 0"
      using wf_at_child [OF Suc.prems(1) ch] wf_at_tableAt [of lev ch] True
      by (cases "(lev, pt_kind ch)" rule: tableAt.cases) auto
    have "leaf = ch"
      using Suc.prems(2) ch True by simp
    moreover have "existing2MB (Suc lev) (Some ch)"
      using True lev by (simp add: existing2MB_def Pde_def)
    ultimately have "walkStep c (Suc lev) p n l0 w = Inr (StepBreak n leaf ?l w)"
      using Suc.prems(5) ch by (simp add: walkStep_def step_locals_def)
    then show ?thesis
      using Suc.prems(4) by simp
  next
    case False
    then have wf: "wf_at lev ch" and t: "translate (Suc lev) ch (c_gfxAddress c) = Some (ps, leaf)"
      using wf_at_child [OF Suc.prems(1) ch] Suc.prems(2) ch by auto
    have "\<not> existing2MB (Suc lev) (Some ch)"
      using False by (simp add: existing2MB_def getPageSize_2MB_iff)
    then have "walkStep c (Suc lev) p n l0 w = walkStepNext c (Suc lev) p ?i n ?l w"
      using ch by (simp add: walkStep_def step_locals_def)
    then obtain w1 where step: "walkStep c (Suc lev) p n l0 w = Inr (StepNext ?i n ch ?l w1)"
        and w1: "same_pages w w1"
      using walkStepNext_existing [OF ch False assms(6)] lok(4) Suc.prems(5) by metis
    have "Suc lev \<noteq> l_leafLevel ?l"
      using leaf_child_kind [OF Suc.prems(1,3,4) ch] False by (auto simp: leaf_kind_def)
    then have "l_leafLevel ?l \<le> lev"
      using lok(2) by simp
    from Suc.IH [OF wf t lok(1) this] lok(4) Suc.prems(5) obtain l w' where
      "walkLevels c (Suc lev) (p @ [?i]) ch ?l w1 = Inr (ch, leaf, l, w')" "same_pages w1 w'"
      by metis
    then show ?thesis
      using walkLevels_next [OF step Suc.prems(4)] setChild_same [OF ch] same_pages_trans [OF w1]
      by (auto simp del: walkLevels.simps)
  qed
qed

lemma walkPages_existing:
  assumes "wf_at lev root" and "getNumLevels (pt_kind root) = Suc lev" and "1 \<le> lev"
    and "\<not> wa_ps64Applicable a" and "wa_mode a \<noteq> Clone"
    and "\<And>d. d < unat sz \<Longrightarrow> \<exists>b. getMemoryBank (wa_bankHelper a) (gfx + word_of_nat d) = Inr b"
    and "\<And>d. d < unat sz \<Longrightarrow> translate (Suc lev) root (gfx + word_of_nat d) \<noteq> None"
  shows "\<exists>w'. walkPages a i None gfx sz root w = Inr (root, w') \<and> w_alloc w' = w_alloc w"
  using assms(1,2,4-7)
proof (induction a i "None :: u64 option" gfx sz root w rule: walkPages.induct)
  case (1 a i gfx sz root w)
  show ?case
  proof (cases "sz > 0")
    case False
    then show ?thesis
      by (simp add: walkPages.simps)
  next
    case True
    then have pos: "0 < unat sz"
      by (simp add: word_less_nat_alt)
    obtain b where b: "getMemoryBank (wa_bankHelper a) gfx = Inr b"
      using "1.prems"(5) [OF pos] by auto
    obtain ps leaf where t: "translate (Suc lev) root gfx = Some (ps, leaf)"
      using "1.prems"(6) [OF pos] by (auto simp del: translate.simps)
    let ?c = "pageCtx a None b gfx sz"
    have "locals_ok (startLocals a None)" and "l_leafLevel (startLocals a None) \<le> lev"
      using assms(3) by (auto simp: startLocals_def locals_ok_def Pde_def Pte_def)
    note start = this
    obtain l w1 where levels: "walkLevels ?c (Suc lev) [] root (startLocals a None) w = Inr (root, leaf, l, w1)"
        and w1: "same_pages w w1"
      using walkLevels_existing [OF "1.prems"(1), of ?c ps leaf "startLocals a None" "[]" w] t start "1.prems"(3)
      by (auto simp: pageCtx_def startLocals_def simp del: walkLevels.simps translate.simps)
    note spec = walkLevels_spec [OF levels "1.prems"(1) start]
    have ps: "pageSizeThisIteration l = Inr ps" "ps = 4096 \<or> ps = 65536 \<or> ps = pageSize2MB"
      using spec t by (auto simp: page_found_def pageCtx_def simp del: translate.simps)
    have page: "walkPage a i None gfx sz root w = Inr (ps, b, root, leaf, l, w1)"
      using b levels ps "1.prems"(2,4)
      by (simp add: walkPage_def pageBank_def cloneInfo_def del: walkLevels.simps)
    define n where "n = iterationSize ps gfx sz"
    define e where "e = leafInfo leaf (gfx AND (ps - 1)) n b"
    note bounds = iterationSize_bounds [OF ps(2) True, of gfx, folded n_def]
    have shift: "gfx + n + word_of_nat d = gfx + word_of_nat (unat n + d)" for d
      by simp
    have less: "unat n + d < unat sz" if "d < unat (sz - n)" for d
      using that unat_minus_le [OF bounds(2)] by linarith
    have phys: "l_physicalAddress l = None"
      using spec by (simp add: startLocals_def)
    have banks: "\<exists>b. getMemoryBank (wa_bankHelper a) (gfx + n + word_of_nat d) = Inr b"
      and mapped: "translate (Suc lev) root (gfx + n + word_of_nat d) \<noteq> None"
      if "d < unat (sz - n)" for d
      using "1.prems"(5,6) [OF less [OF that]] unfolding shift by blast+
    obtain w' where "walkPages a (i + 1) None (gfx + n) (sz - n) root (w1\<lparr>w_entries := w_entries w1 @ [e]\<rparr>)
        = Inr (root, w')" "w_alloc w' = w_alloc w1"
      using "1.hyps" [OF True page refl refl refl refl refl refl refl refl] "1.prems"(1-4) phys banks mapped
      by (auto simp: n_def e_def simp del: translate.simps)
    then show ?thesis
      using True page phys w1 by (subst walkPages.simps) (simp add: n_def e_def same_pages_def)
  qed
qed

section \<open>Reserving succeeds\<close>

fun can_reserve :: "u32 \<Rightarrow> PhysicalAddressAllocator \<Rightarrow> bool" where
  "can_reserve bank (AllocSimple s) \<longleftrightarrow>
     bank = 0 \<or> numberOfAllocators s = 0 \<or> allocatorIndex_loop bank 0 < length (allocators s)"
| "can_reserve bank alloc \<longleftrightarrow> False"

definition keeps_reserve :: "PhysicalAddressAllocator \<Rightarrow> PhysicalAddressAllocator \<Rightarrow> bool" where
  "keeps_reserve alloc alloc' \<longleftrightarrow> (\<forall>b. can_reserve b alloc \<longrightarrow> can_reserve b alloc')"

lemma keeps_reserve_refl [simp]: "keeps_reserve a a"
  by (simp add: keeps_reserve_def)

lemma keeps_reserve_trans: "keeps_reserve a b \<Longrightarrow> keeps_reserve b c \<Longrightarrow> keeps_reserve a c"
  by (simp add: keeps_reserve_def)

lemma reserve_total:
  assumes "can_reserve bank alloc"
  shows "\<exists>a alloc'. reservePhysicalMemory bank sz al alloc = Inr (a, alloc') \<and> keeps_reserve alloc alloc'"
  using assms
  by (cases alloc) (auto simp: reservePhysicalMemory_Simple_def Let_def keeps_reserve_def split: prod.splits)

lemma newPageTable_total:
  assumes "can_reserve bank alloc" and "sz \<noteq> 0"
  shows "\<exists>n alloc'. newPageTable k True sz bank x alloc = Inr (n, alloc') \<and> keeps_reserve alloc alloc'"
  using reserve_total [OF assms(1), of "max sz 4096" "max sz 4096"] assms(2)
  by (auto simp: newPageTable_def Let_def)

lemma allocateChild_total:
  assumes "can_reserve (pt_memoryBank n) alloc" and "pt_hasAllocator n" and "tableAt (Suc lev) (pt_kind n)"
    and "ps \<noteq> pageSize2MB"
  shows "\<exists>ch alloc'. allocateChild n ps (pt_memoryBank n) alloc = Inr (Some ch, alloc') \<and> keeps_reserve alloc alloc'"
proof -
  have new: "\<exists>ch alloc'. bindR (newTable k True (pt_memoryBank n) alloc) (\<lambda>(c, a). Inr (Some c, a))
      = Inr (Some ch, alloc') \<and> keeps_reserve alloc alloc'" for k
    using newPageTable_total [OF assms(1), of 4096 k noAdditionalParams] by (auto simp: newTable_def)
  show ?thesis
    using assms new
    by (cases "(Suc lev, pt_kind n)" rule: tableAt.cases)
       (auto simp: allocateChild_def allocatePdeChild_def allocateTableChild_def Let_def)
qed

lemma allocateChildWith_total:
  assumes "can_reserve bank alloc" and "pt_hasAllocator n" and "tableAt 0 (pt_kind n)" and "ps \<noteq> 0"
  shows "\<exists>ch alloc'. allocateChildWith n ps bank x alloc = Inr (Some ch, alloc') \<and> keeps_reserve alloc alloc'"
  using newPageTable_total [OF assms(1,4), of PageTableMemory x] assms(2,3)
  by (auto simp: allocateChildWith_def Let_def)

text \<open>The conditions on one page of a reserving walk without 2 MB pages.\<close>

definition reserve_ctx :: "walk_ctx \<Rightarrow> bool" where
  "reserve_ctx c \<longleftrightarrow> c_mode c \<noteq> Expect \<and> c_clonePageInfo c = None \<and> \<not> c_ps64Applicable c"

lemma createChild_total:
  assumes "reserve_ctx c" and "wf_at level n" and "l_leafLevel l = 0" and "l_pageSize l \<noteq> pageSize2MB"
    and "l_physicalAddress l = None" and "level = 0 \<longrightarrow> l_pageSize l \<noteq> 0"
    and "can_reserve (pt_memoryBank n) (w_alloc w)" and "can_reserve (c_pageMemoryBank c) (w_alloc w)"
  shows "\<exists>n' ch w'. createChild c level i n l w = Inr (n', ch, w') \<and> keeps_reserve (w_alloc w) (w_alloc w')"
proof -
  note tab = wf_at_tableAt [OF assms(2)]
  have "\<exists>ch alloc'. newWalkChild c level n l (w_alloc w) = Inr (Some ch, alloc') \<and> keeps_reserve (w_alloc w) alloc'"
  proof (cases level)
    case 0
    then show ?thesis
      using allocateChildWith_total [OF assms(8), of n "l_pageSize l" "c_params c"] assms tab
      by (simp add: newWalkChild_def reserve_ctx_def)
  next
    case (Suc k)
    then show ?thesis
      using allocateChild_total [OF assms(7), of k "l_pageSize l"] assms tab
      by (simp add: newWalkChild_def reserve_ctx_def)
  qed
  then show ?thesis
    using assms(1) by (auto simp: createChild_def reserve_ctx_def Let_def)
qed

lemma step_locals_small:
  assumes "l_leafLevel l0 = 0" and "l_pageSize l0 \<noteq> pageSize2MB" and "tableAt level (pt_kind n)"
    and "l_physicalAddress l0 = None"
    and "\<not> existing2MB level (getChild n (getIndex (pt_kind n) (c_gfxAddress c)))"
  shows "l_leafLevel (step_locals c level n l0) = 0" and "l_pageSize (step_locals c level n l0) \<noteq> pageSize2MB"
    and "l_physicalAddress (step_locals c level n l0) = None"
    and "level = 0 \<longrightarrow> l_pageSize (step_locals c level n l0) \<noteq> 0"
proof -
  have "level = 0 \<longrightarrow> getPageSize (pt_kind n) = 4096 \<or> getPageSize (pt_kind n) = 65536"
    using assms(3) pte_page_size by auto
  then show "l_leafLevel (step_locals c level n l0) = 0"
    and "l_pageSize (step_locals c level n l0) \<noteq> pageSize2MB"
    and "l_physicalAddress (step_locals c level n l0) = None"
    and "level = 0 \<longrightarrow> l_pageSize (step_locals c level n l0) \<noteq> 0"
    using assms by (auto simp: step_locals_def adjustLocals_def pageSizeAtLevel_def Let_def Pte_def Pde_def
        hasExistingPageTableConflict_def split: option.splits)
qed

lemma walkStepNext_total:
  assumes ctx: "reserve_ctx c" and wf: "wf_at level n" and l: "l_leafLevel l = 0" "l_pageSize l \<noteq> pageSize2MB"
      "l_physicalAddress l = None" "level = 0 \<longrightarrow> l_pageSize l \<noteq> 0"
    and banks: "can_reserve (pt_memoryBank n) (w_alloc w)" "can_reserve (c_pageMemoryBank c) (w_alloc w)"
    and old: "\<forall>d. getChild n i = Some d \<longrightarrow> pt_kind d \<noteq> Page2MB"
  shows "\<exists>n' ch w'. walkStepNext c level p i n l w = Inr (StepNext i n' ch l w') \<and> keeps_reserve (w_alloc w) (w_alloc w')"
proof (cases "getChild n i")
  case (Some d)
  then show ?thesis
    using walkStepNext_existing [OF Some _ _ l(3), of c level p w] old ctx
    by (fastforce simp: reserve_ctx_def same_pages_def)
next
  case None
  obtain n1 ch w1 where new: "createChild c level i n l w = Inr (n1, ch, w1)"
      and keep: "keeps_reserve (w_alloc w) (w_alloc w1)"
    using createChild_total [OF ctx wf l banks] by blast
  note tab = wf_at_tableAt [OF wf]
  have lok: "locals_ok l" "l_leafLevel l \<le> level"
    using l by (simp_all add: locals_ok_def)
  note spec = createChild_spec [OF new conjunct1 [OF tab] conjunct2 [OF tab] lok]
  have "pt_kind ch \<noteq> Page2MB"
  proof (cases level)
    case 0
    then show ?thesis
      using spec(4) l(1) by (simp add: leaf_kind_def)
  next
    case (Suc k)
    then have "tableAt k (pt_kind ch)"
      using spec(4) l(1) by simp
    then show ?thesis
      by (cases "(k, pt_kind ch)" rule: tableAt.cases) auto
  qed
  moreover have n1: "getChild n1 i = Some ch" "setChild i (Some ch) n1 = n1"
    using spec(1) by (simp_all add: setChild_same)
  ultimately obtain w2 where "emitChild c level p i False False None True l n1 w1 = Inr (n1, w2)"
      and "same_pages w1 w2"
    using emitChild_plain [of n1 i ch c level p False None True l w1] by blast
  moreover have "remapChild c level l ch = (ch, False)"
    using l(3) by (simp add: remapChild_def)
  ultimately show ?thesis
    using ctx new keep n1 None
    by (auto simp: walkStepNext_def getOrCreate_def wasPs64Group_def reserve_ctx_def same_pages_def)
qed

lemma walkLevels_total:
  assumes "reserve_ctx c" and "wf_at lev n" and "l_leafLevel l0 = 0" and "l_pageSize l0 \<noteq> pageSize2MB"
    and "l_physicalAddress l0 = None"
    and "can_reserve (pt_memoryBank n) (w_alloc w)" and "can_reserve (c_pageMemoryBank c) (w_alloc w)"
  shows "\<exists>n' leaf l w'. walkLevels c (Suc lev) p n l0 w = Inr (n', leaf, l, w') \<and> keeps_reserve (w_alloc w) (w_alloc w')"
  using assms(2-7)
proof (induction lev arbitrary: p n l0 w)
  case 0
  let ?i = "getIndex (pt_kind n) (c_gfxAddress c)"
  have no2MB: "\<not> existing2MB 0 (getChild n ?i)"
    by (simp add: existing2MB_def Pde_def split: option.splits)
  note small = step_locals_small [OF "0.prems"(2,3) wf_at_tableAt [OF "0.prems"(1), THEN conjunct1] "0.prems"(4) no2MB]
  have old: "\<forall>d. getChild n ?i = Some d \<longrightarrow> pt_kind d \<noteq> Page2MB"
    using "0.prems"(1) by auto
  have "walkStep c 0 p n l0 w = walkStepNext c 0 p ?i n (step_locals c 0 n l0) w"
    using no2MB by (simp add: walkStep_def step_locals_def Let_def)
  then obtain m ch w' where step: "walkStep c 0 p n l0 w = Inr (StepNext ?i m ch (step_locals c 0 n l0) w')"
      and "keeps_reserve (w_alloc w) (w_alloc w')"
    using walkStepNext_total [OF assms(1) "0.prems"(1) small "0.prems"(5,6) old] by metis
  then show ?case
    using walkLevels_next [OF step] "0.prems"(2) by simp
next
  case (Suc lev)
  let ?i = "getIndex (pt_kind n) (c_gfxAddress c)" and ?l = "step_locals c (Suc lev) n l0"
  note tab = wf_at_tableAt [OF Suc.prems(1)]
  have l0: "locals_ok l0" "l_leafLevel l0 \<le> Suc lev"
    using Suc.prems by (simp_all add: locals_ok_def)
  show ?case
  proof (cases "existing2MB (Suc lev) (getChild n ?i)")
    case True
    then obtain d where "getChild n ?i = Some d"
      by (auto simp: existing2MB_def split: option.splits)
    then have "walkStep c (Suc lev) p n l0 w = Inr (StepBreak n d ?l w)"
      using True Suc.prems(4) by (simp add: walkStep_def step_locals_def)
    then show ?thesis
      using Suc.prems(2) by simp
  next
    case False
    note small = step_locals_small [OF Suc.prems(2,3) tab [THEN conjunct1] Suc.prems(4) False]
    have old: "\<forall>d. getChild n ?i = Some d \<longrightarrow> pt_kind d \<noteq> Page2MB"
    proof (intro allI impI notI)
      fix d
      assume d: "getChild n ?i = Some d" "pt_kind d = Page2MB"
      have "lev = 0"
        using wf_at_child [OF Suc.prems(1) d(1)] wf_at_tableAt [of lev d] d(2)
        by (cases "(lev, pt_kind d)" rule: tableAt.cases) auto
      then show False
        using False d by (simp add: existing2MB_def Pde_def)
    qed
    have "walkStep c (Suc lev) p n l0 w = walkStepNext c (Suc lev) p ?i n ?l w"
      using False by (simp add: walkStep_def step_locals_def Let_def)
    then obtain m ch w1 where step: "walkStep c (Suc lev) p n l0 w = Inr (StepNext ?i m ch ?l w1)"
        and keep: "keeps_reserve (w_alloc w) (w_alloc w1)"
      using walkStepNext_total [OF assms(1) Suc.prems(1) small Suc.prems(5,6) old] by metis
    note inner = walk_inner_step [OF step Suc.prems(1) l0]
    have "wf_at lev ch"
      using inner(1) small(1) by simp
    moreover have "pt_memoryBank ch = pt_memoryBank n"
    proof -
      note spec = walkStep_next_spec [OF step Suc.prems(1) l0]
      show ?thesis
      proof (cases "getChild n ?i")
        case None
        then show ?thesis
          using spec(6) small(1) by simp
      next
        case (Some d)
        then have "pt_memoryBank d = pt_memoryBank n"
          using wf_at_child [OF Suc.prems(1) Some] old by blast
        then show ?thesis
          using spec(7) [OF Some] small(3) by (simp add: same_node_def)
      qed
    qed
    moreover have "can_reserve (pt_memoryBank n) (w_alloc w1)" "can_reserve (c_pageMemoryBank c) (w_alloc w1)"
      using keep Suc.prems(5,6) by (simp_all add: keeps_reserve_def)
    ultimately obtain ch' leaf l w' where
      "walkLevels c (Suc lev) (p @ [?i]) ch ?l w1 = Inr (ch', leaf, l, w')" "keeps_reserve (w_alloc w1) (w_alloc w')"
      using Suc.IH [of ch ?l w1 "p @ [?i]"] small(1-3) by auto
    then show ?thesis
      using walkLevels_next [OF step] Suc.prems(2) keeps_reserve_trans [OF keep]
      by (auto simp del: walkLevels.simps)
  qed
qed

lemma walkPages_total:
  assumes "wf_at lev root" and "getNumLevels (pt_kind root) = Suc lev" and "1 \<le> lev"
    and "\<not> wa_ps64Applicable a" and "wa_mode a = Reserve" and "wa_requestedPageSize a \<noteq> pageSize2MB"
    and "can_reserve (pt_memoryBank root) (w_alloc w)"
    and "\<And>d. d < unat sz \<Longrightarrow> \<exists>b. getMemoryBank (wa_bankHelper a) (gfx + word_of_nat d) = Inr b
           \<and> can_reserve b (w_alloc w)"
  shows "\<exists>root' w'. walkPages a i None gfx sz root w = Inr (root', w')"
  using assms(1,2,4-8)
proof (induction a i "None :: u64 option" gfx sz root w rule: walkPages.induct)
  case (1 a i gfx sz root w)
  show ?case
  proof (cases "sz > 0")
    case False
    then show ?thesis
      by (simp add: walkPages.simps)
  next
    case True
    then have pos: "0 < unat sz"
      by (simp add: word_less_nat_alt)
    obtain b where b: "getMemoryBank (wa_bankHelper a) gfx = Inr b" "can_reserve b (w_alloc w)"
      using "1.prems"(7) [OF pos] by auto
    let ?c = "pageCtx a None b gfx sz"
    have start: "l_leafLevel (startLocals a None) = 0" "l_pageSize (startLocals a None) \<noteq> pageSize2MB"
        "l_physicalAddress (startLocals a None) = None"
      using "1.prems"(5) by (simp_all add: startLocals_def Pte_def)
    have ctx: "reserve_ctx ?c" "can_reserve (c_pageMemoryBank ?c) (w_alloc w)"
      using "1.prems"(3,4) b(2) by (simp_all add: reserve_ctx_def pageCtx_def)
    obtain root1 leaf l w1 where
      levels: "walkLevels ?c (Suc lev) [] root (startLocals a None) w = Inr (root1, leaf, l, w1)"
      and keep: "keeps_reserve (w_alloc w) (w_alloc w1)"
      using walkLevels_total [OF ctx(1) "1.prems"(1) start "1.prems"(6) ctx(2)] by blast
    have "locals_ok (startLocals a None)" "l_leafLevel (startLocals a None) \<le> lev"
      using start by (simp_all add: locals_ok_def)
    note spec = walkLevels_spec [OF levels "1.prems"(1) this]
    then obtain ps where ps: "pageSizeThisIteration l = Inr ps" "ps = 4096 \<or> ps = 65536 \<or> ps = pageSize2MB"
      by (auto simp: page_found_def simp del: translate.simps)
    have page: "walkPage a i None gfx sz root w = Inr (ps, b, root1, leaf, l, w1)"
      using b levels ps "1.prems"(2,4)
      by (simp add: walkPage_def pageBank_def cloneInfo_def del: walkLevels.simps)
    define n where "n = iterationSize ps gfx sz"
    define e where "e = leafInfo leaf (gfx AND (ps - 1)) n b"
    note bounds = iterationSize_bounds [OF ps(2) True, of gfx, folded n_def]
    have shift: "gfx + n + word_of_nat d = gfx + word_of_nat (unat n + d)" for d
      by simp
    have less: "unat n + d < unat sz" if "d < unat (sz - n)" for d
      using that unat_minus_le [OF bounds(2)] by linarith
    have banks: "\<exists>b. getMemoryBank (wa_bankHelper a) (gfx + n + word_of_nat d) = Inr b \<and> can_reserve b (w_alloc w1)"
      if "d < unat (sz - n)" for d
      using "1.prems"(7) [OF less [OF that]] keep unfolding shift keeps_reserve_def by blast
    have root1: "wf_at lev root1" "getNumLevels (pt_kind root1) = Suc lev"
        "can_reserve (pt_memoryBank root1) (w_alloc w1)"
      using spec "1.prems"(2,6) keep by (auto simp: page_found_def same_root_def keeps_reserve_def)
    have phys: "l_physicalAddress l = None"
      using spec start(3) by simp
    obtain root' w' where "walkPages a (i + 1) None (gfx + n) (sz - n) root1 (w1\<lparr>w_entries := w_entries w1 @ [e]\<rparr>)
        = Inr (root', w')"
      using "1.hyps" [OF True page refl refl refl refl refl refl refl refl] "1.prems"(3-5) phys banks root1
      by (auto simp: n_def e_def simp del: translate.simps)
    then show ?thesis
      using True page phys by (subst walkPages.simps) (simp add: n_def e_def)
  qed
qed

section \<open>Allocations in one bank\<close>

lemma filter_single: "filter (\<lambda>j. j = i) [0..<n] = (if i < n then [i] else [])"
  by (induction n) auto

lemma bank_list_single: "i < 32 \<Longrightarrow> bank_list (2 ^ i) = [2 ^ i]"
proof -
  assume i: "i < 32"
  have "filter (bit (2 ^ i :: u32)) [0..<32] = filter (\<lambda>j. j = i) [0..<32]"
    by (rule filter_cong) (auto simp: bit_simps)
  then show ?thesis
    using i by (simp add: bank_list_def filter_single)
qed

lemma bank_list_zero: "bank_list 0 = []"
  by (simp add: bank_list_def)

lemma single_bank_helper:
  assumes "banks = 0 \<or> (\<exists>i<31. banks = 2 ^ i)"
  obtains h where "makeMemoryBankHelper banks start sz = Some h" and "\<And>g. getMemoryBank h g = Inr banks"
proof (cases "banks = 0")
  case True
  then have "makeMemoryBankHelper banks start sz = Some \<lparr>mbh_memoryBanks = 0, mbh_initialGfxAddress = start,
      mbh_size = sz, mbh_colorSize = 1, mbh_numberOfBanks = 0, mbh_singleBanks = []\<rparr>"
    using makeMemoryBankHelper_Some [of banks start sz] by (simp add: bank_list_zero)
  then show thesis
    by (rule that) (simp add: getMemoryBank_def True)
next
  case False
  then obtain i where i: "i < 31" "banks = 2 ^ i"
    using assms by blast
  have "(2::nat) ^ i < 2 ^ 31"
    using i(1) by (intro power_strict_increasing) simp_all
  then have "unat banks < 2 ^ 31"
    using i by (simp add: unat_two_power)
  then have "makeMemoryBankHelper banks start sz = Some \<lparr>mbh_memoryBanks = banks, mbh_initialGfxAddress = start,
      mbh_size = sz, mbh_colorSize = sz, mbh_numberOfBanks = 1, mbh_singleBanks = [banks]\<rparr>"
    using makeMemoryBankHelper_Some [of banks start sz] i bank_list_single [of i] by simp
  then show thesis
    by (rule that) (simp add: getMemoryBank_def)
qed

lemma levels_of_root: "getNumLevels k = Suc lev \<Longrightarrow> 1 \<le> lev"
  by (cases k) simp_all

lemma walkMemory_pages:
  assumes "walkMemory gpu ps64 params mode infos pa root w = Inr (root', w')" and "ap_size params \<noteq> 0"
  obtains a where "walkPages a 0 pa (ap_gfxAddress params) (ap_size params) root (w\<lparr>w_emittedPending := (\<lambda>_. [])\<rparr>)
      = Inr (root', w')"
    and "wa_mode a = mode" and "wa_gpu a = gpu"
  using assms by (auto simp: walkMemory_def Let_def assertR_Inr_iff split: option.splits)

lemma walkMemory_total:
  assumes "wf_at lev root" and "getNumLevels (pt_kind root) = Suc lev"
    and "ap_memoryBanks params = 0 \<or> (\<exists>i<31. ap_memoryBanks params = 2 ^ i)"
    and "ap_pageSize params = 4096 \<or> ap_pageSize params = 65536"
    and "can_reserve (pt_memoryBank root) (w_alloc w)" and "can_reserve (ap_memoryBanks params) (w_alloc w)"
  shows "\<exists>root' w'. walkMemory gpu False params Reserve infos None root w = Inr (root', w')"
proof -
  let ?ps = "adjustPageSizeForHardwareSupport gpu (ap_pageSize params) (ap_memoryBanks params)"
  have ps: "?ps = ap_pageSize params" "ap_pageSize params \<noteq> pageSize2MB" "ap_pageSize params > 0"
    using assms(4) by (auto simp: adjustPageSizeForHardwareSupport_def)
  obtain h where h: "makeMemoryBankHelper (ap_memoryBanks params)
        (ap_gfxAddress params AND NOT (ap_pageSize params - 1))
        (((ap_gfxAddress params + ap_size params + ap_pageSize params - 1) AND NOT (ap_pageSize params - 1))
           - (ap_gfxAddress params AND NOT (ap_pageSize params - 1))) = Some h"
    and bank: "\<And>g. getMemoryBank h g = Inr (ap_memoryBanks params)"
    using single_bank_helper [OF assms(3)] by blast
  let ?a = "\<lparr>wa_gpu = gpu, wa_params = ap_additionalParams params, wa_mode = Reserve,
     wa_memoryBanks = ap_memoryBanks params, wa_requestedPageSize = ap_pageSize params,
     wa_ps64Applicable = False, wa_bankHelper = h, wa_pageInfos = infos\<rparr>"
  have "\<exists>root' w'. walkPages ?a 0 None (ap_gfxAddress params) (ap_size params) root
      (w\<lparr>w_emittedPending := (\<lambda>_. [])\<rparr>) = Inr (root', w')"
    by (rule walkPages_total [OF assms(1,2) levels_of_root [OF assms(2)]])
       (use ps(2) bank assms(5,6) in simp_all)
  then show ?thesis
    using h ps by (simp add: walkMemory_def Let_def)
qed

definition example_root :: PageTable where
  "example_root = PageTable PML4 0x1000 0 [] False False True noAdditionalParams"

definition example_alloc :: PhysicalAddressAllocator where
  "example_alloc = AllocSimple (makePhysicalAddressAllocatorSimple 0 0 False)"

definition example_params :: AllocationParams where
  "example_params = makeAllocationParams 0x1ff800 None 0x2000 0 0 4096"

lemma example_root_wf: "wf_at 3 example_root" "getNumLevels (pt_kind example_root) = Suc 3"
  by (auto simp: example_root_def numeral_3_eq_3 getChild_def)

lemma example_walk:
  obtains root' w' where "walkMemory example_gpu False example_params Reserve [] None example_root
     (makeWalker example_alloc) = Inr (root', w')"
  using walkMemory_total [OF example_root_wf, of example_params "makeWalker example_alloc" example_gpu "[]"]
  by (auto simp: example_params_def makeAllocationParams_def example_root_def makeWalker_def example_alloc_def
        makePhysicalAddressAllocatorSimple_def)

lemma byte_address_Some: "d < total_size es \<Longrightarrow> byte_address es d \<noteq> None"
  by (induction es arbitrary: d) auto

lemma walkMemory_result:
  assumes "walkMemory gpu ps64 params mode infos None root w = Inr (root', w')"
    and "wf_at lev root" and "getNumLevels (pt_kind root) = Suc lev"
  shows "wf_at lev root'" and "same_root root root'"
    and "\<exists>es. w_entries w' = w_entries w @ es \<and> total_size es = unat (ap_size params)
         \<and> (\<forall>d < unat (ap_size params).
              byte_address es d = translate_address lev root' (ap_gfxAddress params + word_of_nat d))"
    and "extends lev root root'"
proof -
  have "wf_at lev root' \<and> same_root root root' \<and> extends lev root root'
    \<and> (\<exists>es. w_entries w' = w_entries w @ es \<and> total_size es = unat (ap_size params)
         \<and> (\<forall>d < unat (ap_size params).
              byte_address es d = translate_address lev root' (ap_gfxAddress params + word_of_nat d)))"
  proof (cases "ap_size params = 0")
    case True
    then have "root' = root" and "w' = w"
      using assms(1) by (simp_all add: walkMemory_def Let_def)
    then show ?thesis
      using True assms(2) by (auto intro!: exI [of _ "[]"])
  next
    case False
    from walkMemory_pages [OF assms(1) False] obtain a where
      pages: "walkPages a 0 None (ap_gfxAddress params) (ap_size params) root (w\<lparr>w_emittedPending := (\<lambda>_. [])\<rparr>)
        = Inr (root', w')"
      by blast
    note spec = walkPages_spec [OF pages assms(2,3) levels_of_root [OF assms(3)]]
    then show ?thesis
      using covers_byte_address [of lev root' "ap_gfxAddress params"] by auto
  qed
  then show "wf_at lev root'" and "same_root root root'" and "extends lev root root'"
    and "\<exists>es. w_entries w' = w_entries w @ es \<and> total_size es = unat (ap_size params)
         \<and> (\<forall>d < unat (ap_size params).
              byte_address es d = translate_address lev root' (ap_gfxAddress params + word_of_nat d))"
    by blast+
qed

section \<open>The global table\<close>

definition ggtt_extends :: "GGTT \<Rightarrow> GGTT \<Rightarrow> bool" where
  "ggtt_extends g g' \<longleftrightarrow> (\<forall>i c. ggtt_getChild g i = Some c \<longrightarrow> ggtt_getChild g' i = Some c)"

fun ggtt_covers :: "GGTT \<Rightarrow> u64 \<Rightarrow> PageInfo list \<Rightarrow> bool" where
  "ggtt_covers g a [] \<longleftrightarrow> True"
| "ggtt_covers g a (e # es) \<longleftrightarrow> (case ggtt_getChild g (ggtt_getIndex a) of
       None \<Rightarrow> False
     | Some c \<Rightarrow> pi_physicalAddress e = pt_physicalAddress c + (a AND 0xfff)
         \<and> 0 < pi_size e \<and> pi_size e \<le> 0x1000 - (a AND 0xfff)
         \<and> pi_isLocalMemory e = isLocalMemory c \<and> ggtt_covers g (a + pi_size e) es)"

lemma ggtt_covers_extends: "ggtt_covers g a es \<Longrightarrow> ggtt_extends g g' \<Longrightarrow> ggtt_covers g' a es"
  by (induction es arbitrary: a) (auto simp: ggtt_extends_def split: option.splits)

lemma ggtt_index_aligned:
  "ggtt_getIndex (ucast (ucast (a - (a AND 0xfff)) :: u32)) = ggtt_getIndex a"
proof -
  have m: "(0xfff :: u64) = mask 12"
    by (simp add: mask_eq_exp_minus_1)
  have "a - (a AND 0xfff) = a AND NOT 0xfff"
    by (rule high_bits_eq_minus [symmetric])
  then have "drop_bit 12 (ucast (ucast (ucast (a - (a AND 0xfff)) :: u32) :: u64) :: u32) = drop_bit 12 (ucast a :: u32)"
    unfolding m by (intro bit_word_eqI) (auto simp: bit_simps)
  then show ?thesis
    unfolding ggtt_getIndex_def by (rule arg_cong)
qed

lemma ggttGetOrAllocate_4K:
  assumes "ggttGetOrAllocate banks 4096 mode i g w = Inr (c, g', w')"
  shows "ggtt_getChild g' i = Some c" and "ggtt_extends g g'" and "w_entries w' = w_entries w"
  using assms
  by (auto simp: ggttGetOrAllocate_def ggtt_extends_def assertR_Inr_iff bindR_Inr_iff ggttEntryInfo_def
      pushWalkEntry_def ggtt.get_put split: option.splits)

lemma walkGgtt_spec:
  assumes "walkGgtt banks 4096 mode a sz g w = Inr (g', w')"
  shows "ggtt_extends g g' \<and> (\<exists>es. w_entries w' = w_entries w @ es \<and> ggtt_covers g' a es \<and> total_size es = unat sz)"
  using assms
proof (induction banks "4096 :: usize" mode a sz g w arbitrary: g' w' rule: walkGgtt.induct)
  case (1 banks mode a sz g w)
  show ?case
  proof (cases "sz > 0")
    case False
    then have "sz = 0"
      using word_neq_0_conv [of sz] by blast
    then show ?thesis
      using "1.prems" by (subst (asm) walkGgtt.simps) (auto simp: ggtt_extends_def)
  next
    case True
    let ?off = "a AND 0xfff"
    let ?i = "ggtt_getIndex (ucast (ucast (a - ?off) :: u32))"
    define n where "n = min (0x1000 - ?off) sz"
    from "1.prems" True obtain c g1 w1 where
      get: "ggttGetOrAllocate banks 4096 mode ?i g w = Inr (c, g1, w1)" and nz: "n \<noteq> 0"
      and rest: "walkGgtt banks 4096 mode (a + ucast (ucast n :: u32)) (sz - n) g1
        (w1\<lparr>w_entries := w_entries w1 @ [\<lparr>pi_physicalAddress = pt_physicalAddress c + ?off, pi_size = n,
            pi_isLocalMemory = isLocalMemory c, pi_memoryBank = 0\<rparr>]\<rparr>) = Inr (g', w')"
      by (subst (asm) walkGgtt.simps) (auto simp: bindR_Inr_iff Let_def n_def split: if_splits)
    note step = ggttGetOrAllocate_4K [OF get, unfolded ggtt_index_aligned]
    have "unat n \<le> unat (0x1000 - ?off)"
      by (simp add: n_def min_def word_le_nat_alt)
    also have "\<dots> \<le> 4096"
      by (subst unat_sub) (simp_all add: word_le_nat_alt unat_low_bits [of a 12, simplified])
    finally have n32: "ucast (ucast n :: u32) = n"
      by (simp add: word_unat_eq_iff unsigned_ucast_eq unsigned_take_bit_eq take_bit_nat_eq_self)
    have IH: "ggtt_extends g1 g' \<and> (\<exists>es. w_entries w' = (w_entries w1 @ [\<lparr>pi_physicalAddress = pt_physicalAddress c + ?off,
          pi_size = n, pi_isLocalMemory = isLocalMemory c, pi_memoryBank = 0\<rparr>]) @ es
        \<and> ggtt_covers g' (a + n) es \<and> total_size es = unat (sz - n))"
      using "1.hyps" [OF True refl refl refl, simplified, OF get refl refl refl refl nz [unfolded n_def]] rest
      by (simp add: n32 flip: n_def)
    then obtain es where es: "w_entries w' = w_entries w1 @ \<lparr>pi_physicalAddress = pt_physicalAddress c + ?off,
          pi_size = n, pi_isLocalMemory = isLocalMemory c, pi_memoryBank = 0\<rparr> # es"
        "ggtt_covers g' (a + n) es" "total_size es = unat (sz - n)"
      by auto
    have "n \<le> sz" "n \<le> 0x1000 - ?off"
      by (simp_all add: n_def)
    then show ?thesis
      using IH es step nz unat_minus_le [of n sz]
      by (auto simp: ggtt_extends_def word_neq_0_conv split: option.splits
          intro!: exI [of _ "\<lparr>pi_physicalAddress = pt_physicalAddress c + ?off,
            pi_size = n, pi_isLocalMemory = isLocalMemory c, pi_memoryBank = 0\<rparr> # es"])
  qed
qed

lemma ggttGetOrAllocate_total:
  assumes "can_reserve (ggtt_memoryBank g) (w_alloc w)" and "mode \<noteq> Expect"
  shows "\<exists>c g' w'. ggttGetOrAllocate banks 4096 mode i g w = Inr (c, g', w')
    \<and> can_reserve (ggtt_memoryBank g') (w_alloc w')"
proof (cases "ggtt_getChild g i")
  case None
  obtain n alloc where "newPageTable PageTableMemory True 4096 (ggtt_memoryBank g) noAdditionalParams (w_alloc w) = Inr (n, alloc)"
      and "keeps_reserve (w_alloc w) alloc"
    using newPageTable_total [OF assms(1), of 4096 PageTableMemory noAdditionalParams] by auto
  then show ?thesis
    using None assms by (simp add: ggttGetOrAllocate_def ggtt_allocateChild_def ggttEntryInfo_def pushWalkEntry_def
        ggtt_setChild_def keeps_reserve_def)
qed (use assms in \<open>simp add: ggttGetOrAllocate_def\<close>)

lemma page_rest_positive: "0 < sz \<Longrightarrow> min (0x1000 - (a AND 0xfff)) sz \<noteq> (0 :: u64)"
proof -
  have "unat (a AND 0xfff) < 4096"
    by (simp add: unat_low_bits [of a 12, simplified])
  then have "0 < unat (0x1000 - (a AND 0xfff))"
    by (subst unat_sub) (simp_all add: word_le_nat_alt)
  then have "0x1000 - (a AND 0xfff) \<noteq> 0"
    by (metis less_irrefl unat_0)
  then show "min (0x1000 - (a AND 0xfff)) sz \<noteq> 0" if "0 < sz"
    using that by (auto simp: min_def)
qed

lemma walkGgtt_total:
  assumes "can_reserve (ggtt_memoryBank g) (w_alloc w)" and "mode \<noteq> Expect"
  shows "\<exists>g' w'. walkGgtt banks 4096 mode a sz g w = Inr (g', w')"
  using assms
proof (induction banks "4096 :: usize" mode a sz g w rule: walkGgtt.induct)
  case (1 banks mode a sz g w)
  show ?case
  proof (cases "sz > 0")
    case True
    let ?i = "ggtt_getIndex (ucast (ucast (a - (a AND 0xfff)) :: u32))"
    obtain c g1 w1 where get: "ggttGetOrAllocate banks 4096 mode ?i g w = Inr (c, g1, w1)"
        and can: "can_reserve (ggtt_memoryBank g1) (w_alloc w1)"
      using ggttGetOrAllocate_total [OF "1.prems"] by blast
    have "\<exists>g' w'. walkGgtt banks 4096 mode (a + ucast (ucast (min (0x1000 - (a AND 0xfff)) sz) :: u32))
        (sz - min (0x1000 - (a AND 0xfff)) sz) g1 (w1\<lparr>w_entries := w_entries w1
          @ [\<lparr>pi_physicalAddress = pt_physicalAddress c + (a AND 0xfff), pi_size = min (0x1000 - (a AND 0xfff)) sz,
              pi_isLocalMemory = isLocalMemory c, pi_memoryBank = 0\<rparr>]\<rparr>) = Inr (g', w')"
      using "1.hyps" [OF True refl refl refl, simplified, OF get refl refl refl refl page_rest_positive [OF True]]
        can "1.prems"(2) by simp
    then show ?thesis
      using True get page_rest_positive [OF True, of a] by (subst walkGgtt.simps) (simp add: Let_def)
  qed (simp add: walkGgtt.simps)
qed

section \<open>Claims\<close>

text \<open>C6: A walk of the PPGTT without remapping (writing, cloning or comparing an allocation) keeps the
  tree well-formed and every existing translation, and the pages it records cover the allocation
  exactly: byte d of the allocation is at the physical address to which the tree translates the GPU
  address of byte d afterwards.\<close>

theorem walkMemory_translates:
  assumes "walkMemory gpu ps64 params mode infos None root w = Inr (root', w')"
    and "wf_at lev root" and "getNumLevels (pt_kind root) = Suc lev"
  shows "wf_at lev root' \<and> extends lev root root'
    \<and> (\<exists>es. w_entries w' = w_entries w @ es \<and> total_size es = unat (ap_size params)
         \<and> (\<forall>d < unat (ap_size params).
              byte_address es d = translate_address lev root' (ap_gfxAddress params + word_of_nat d)))"
  using walkMemory_result [OF assms] by blast

theorem walkMemory_translates_witness:
  "\<exists>root' w' es. walkMemory example_gpu False example_params Reserve [] None example_root
      (makeWalker example_alloc) = Inr (root', w') \<and> w_entries w' = es
    \<and> byte_address es 0x1fff = translate_address 3 root' 0x2017ff"
proof -
  obtain root' w' where walk: "walkMemory example_gpu False example_params Reserve [] None example_root
      (makeWalker example_alloc) = Inr (root', w')"
    by (rule example_walk)
  have "ap_size example_params = 0x2000" "ap_gfxAddress example_params = 0x1ff800"
      "w_entries (makeWalker example_alloc) = []"
    by (simp_all add: example_params_def makeAllocationParams_def makeWalker_def)
  then have "byte_address (w_entries w') 0x1fff = translate_address 3 root' 0x2017ff"
    using walkMemory_translates [OF walk example_root_wf] by auto
  then show ?thesis
    using walk by blast
qed





text \<open>C27: Writing through the GGTT with 4 KB pages always succeeds when the bank of the table has an
  allocator, keeps every entry the table had, and records pages that add up to the requested size,
  each at the physical address of the entry the table has for it afterwards.\<close>

theorem ggtt_walk_translates:
  assumes "can_reserve (ggtt_memoryBank g) (w_alloc w)"
  shows "\<exists>g' w' es. walkGgtt banks 4096 Reserve gfx sz g w = Inr (g', w') \<and> ggtt_extends g g'
    \<and> w_entries w' = w_entries w @ es \<and> ggtt_covers g' gfx es \<and> total_size es = unat sz"
proof -
  obtain g' w' where "walkGgtt banks 4096 Reserve gfx sz g w = Inr (g', w')"
    using walkGgtt_total [OF assms, of Reserve] by blast
  then show ?thesis
    using walkGgtt_spec [of banks Reserve gfx sz g w g' w'] by blast
qed

theorem ggtt_walk_translates_witness:
  "\<exists>g g' w' es. newGGTT 0 0 = Inr g
    \<and> walkGgtt 0 4096 Reserve 0x1ffc 8 g (makeWalker example_alloc) = Inr (g', w')
    \<and> ggtt_covers g' 0x1ffc es \<and> total_size es = 8"
proof -
  obtain g where g: "newGGTT 0 0 = Inr g" "ggtt_memoryBank g = 0"
    by (simp add: newGGTT_def)
  then have "can_reserve (ggtt_memoryBank g) (w_alloc (makeWalker example_alloc))"
    by (simp add: example_alloc_def makeWalker_def)
  from ggtt_walk_translates [OF this, of 0 "0x1ffc" 8] show ?thesis
    using g(1) by (auto intro: exI [of _ g])
qed

end
