(* ===== verification/AubServices.thy ===== *)
theory AubServices
  imports Prelude
begin

text \<open>
  The records of an AUB file: the packed structures of \<^verbatim>\<open>includes/aub_services.h\<close> and
  \<^verbatim>\<open>aub_header.h\<close> with the layout \<^verbatim>\<open>#pragma pack(4)\<close> gives them on a little-endian machine, the
  header accessors of every structure, and the enumerations the writers use.  \<open>AubReader\<close> gives the
  records their meaning.
\<close>

section \<open>Bytes and bit fields\<close>

definition dwordBytes :: "u32 \<Rightarrow> u8 list" where
  "dwordBytes w = [ucast w, ucast (drop_bit 8 w), ucast (drop_bit 16 w), ucast (drop_bit 24 w)]"

text \<open>Two dwords, the low one first: how \<^verbatim>\<open>setMisalignedUint64\<close> stores a 64-bit value.\<close>

definition qwordBytes :: "u64 \<Rightarrow> u8 list" where
  "qwordBytes v = dwordBytes (ucast v) @ dwordBytes (ucast (drop_bit 32 v))"

definition charBytes :: "string \<Rightarrow> u8 list" where
  "charBytes s = map of_char s"

text \<open>Bit fields of one dword, the first one in the low bits; an unnamed field has the value 0.\<close>

fun packBits :: "(nat \<times> u32) list \<Rightarrow> u32" where
  "packBits [] = 0"
| "packBits ((w, v) # fs) = take_bit w v OR push_bit w (packBits fs)"

fun unpackBits :: "nat list \<Rightarrow> u32 \<Rightarrow> u32 list" where
  "unpackBits [] x = []"
| "unpackBits (w # ws) x = take_bit w x # unpackBits ws (drop_bit w x)"

section \<open>The command header\<close>

record AubCmdHdr =
  DwordLength :: u16
  SubOp :: "7 word"
  Opcode :: "6 word"
  Type :: "3 word"

definition AubCmdHdr_zero :: AubCmdHdr where
  "AubCmdHdr_zero = \<lparr>DwordLength = 0, SubOp = 0, Opcode = 0, Type = 0\<rparr>"

definition AubCmdHdr_dword :: "AubCmdHdr \<Rightarrow> u32" where
  "AubCmdHdr_dword h = packBits
     [(16, ucast (DwordLength h)), (7, ucast (SubOp h)), (6, ucast (Opcode h)), (3, ucast (Type h))]"

text \<open>
  Every structure of \<^verbatim>\<open>aub_services.h\<close> repeats the same accessors with its own constants.  A \<open>CmdLayout\<close>
  holds the constants of one structure; \<open>cl_dataStart\<close> is what its \<^verbatim>\<open>getDataLength\<close> (or
  \<^verbatim>\<open>getCommentLength\<close>, \<^verbatim>\<open>getCommandLineLength\<close>, \<^verbatim>\<open>getFilenameLength\<close>) subtracts from the packet size.
\<close>

record CmdLayout =
  cl_type :: u32
  cl_opcode :: u32
  cl_subOpcode :: u32
  cl_lengthBias :: int
  cl_baseLength :: u32
  cl_dataStart :: "int option"

definition getPacketSize :: "AubCmdHdr \<Rightarrow> int" where
  "getPacketSize h = uint (DwordLength h) + 1"

definition getDataLength :: "CmdLayout \<Rightarrow> AubCmdHdr \<Rightarrow> int option" where
  "getDataLength l h = map_option (\<lambda>start. getPacketSize h - start) (cl_dataStart l)"

definition matchesHeader :: "CmdLayout \<Rightarrow> AubCmdHdr \<Rightarrow> bool" where
  "matchesHeader l h =
     (if ucast (Type h) \<noteq> cl_type l then False
      else if ucast (Opcode h) \<noteq> cl_opcode l then False
      else if ucast (SubOp h) \<noteq> cl_subOpcode l then False
      else True)"

definition setHeader :: "CmdLayout \<Rightarrow> AubCmdHdr \<Rightarrow> AubCmdHdr" where
  "setHeader l h = h\<lparr>Type := ucast (cl_type l), Opcode := ucast (cl_opcode l),
     SubOp := ucast (cl_subOpcode l)\<rparr>"

text \<open>An address/size pair of \<^verbatim>\<open>Dword_2_To_190\<close>: 12 bytes under \<^verbatim>\<open>pack(4)\<close>.\<close>

definition pairBytes :: "u64 \<times> u32 \<Rightarrow> u8 list" where
  "pairBytes p = qwordBytes (fst p) @ dwordBytes (snd p)"

section \<open>The structures of \<^verbatim>\<open>aub_services.h\<close>\<close>

text \<open>
  For each structure: its fields, its bytes in memory, its value \<^verbatim>\<open>{}\<close> and its constants.  The bytes
  before a trailing array of one element are named apart, since the writers emit them alone.
\<close>

record CmdServicesMemTraceVersion =
  ver_Header :: AubCmdHdr
  ver_memtraceFileVersion :: u32
  ver_metal :: "3 word"
  ver_stepping :: "5 word"
  ver_device :: u8
  ver_csxSwizzling :: "2 word"
  ver_recordingMethod :: "2 word"
  ver_pch :: u8
  ver_captureTool :: "4 word"
  ver_deviceAbbreviation :: "u8 list"
  ver_commandLine :: "u8 list"

definition ver_headerBytes :: "CmdServicesMemTraceVersion \<Rightarrow> u8 list" where
  "ver_headerBytes cmd =
     dwordBytes (AubCmdHdr_dword (ver_Header cmd))
     @ dwordBytes (ver_memtraceFileVersion cmd)
     @ dwordBytes (packBits
       [(3, ucast (ver_metal cmd)), (5, ucast (ver_stepping cmd)),
        (8, ucast (ver_device cmd)), (2, ucast (ver_csxSwizzling cmd)),
        (2, ucast (ver_recordingMethod cmd)), (8, ucast (ver_pch cmd)),
        (4, ucast (ver_captureTool cmd))])
     @ ver_deviceAbbreviation cmd"

definition ver_bytes :: "CmdServicesMemTraceVersion \<Rightarrow> u8 list" where
  "ver_bytes cmd = ver_headerBytes cmd @ ver_commandLine cmd"

definition ver_zero :: CmdServicesMemTraceVersion where
  "ver_zero = \<lparr>ver_Header = AubCmdHdr_zero, ver_memtraceFileVersion = 0, ver_metal = 0,
     ver_stepping = 0, ver_device = 0, ver_csxSwizzling = 0, ver_recordingMethod = 0,
     ver_pch = 0, ver_captureTool = 0, ver_deviceAbbreviation = replicate 8 0,
     ver_commandLine = replicate 4 0\<rparr>"

definition ver_layout :: CmdLayout where
  "ver_layout = \<lparr>cl_type = 0x7, cl_opcode = 0x2e, cl_subOpcode = 0xe,
     cl_lengthBias = 1, cl_baseLength = 4, cl_dataStart = Some 5\<rparr>"

record CmdServicesMemTraceRegisterCompare =
  rc_Header :: AubCmdHdr
  rc_registerOffset :: u32
  rc_noReadExpect :: "1 word"
  rc_registerSize :: "4 word"
  rc_registerSpace :: "4 word"
  rc_readMaskLow :: u32
  rc_readMaskHigh :: u32
  rc_data :: u32

definition rc_headerBytes :: "CmdServicesMemTraceRegisterCompare \<Rightarrow> u8 list" where
  "rc_headerBytes cmd =
     dwordBytes (AubCmdHdr_dword (rc_Header cmd))
     @ dwordBytes (rc_registerOffset cmd)
     @ dwordBytes (packBits
       [(1, ucast (rc_noReadExpect cmd)), (15, 0),
        (4, ucast (rc_registerSize cmd)), (8, 0),
        (4, ucast (rc_registerSpace cmd))])
     @ dwordBytes (rc_readMaskLow cmd)
     @ dwordBytes (rc_readMaskHigh cmd)"

definition rc_bytes :: "CmdServicesMemTraceRegisterCompare \<Rightarrow> u8 list" where
  "rc_bytes cmd = rc_headerBytes cmd @ dwordBytes (rc_data cmd)"

definition rc_zero :: CmdServicesMemTraceRegisterCompare where
  "rc_zero = \<lparr>rc_Header = AubCmdHdr_zero, rc_registerOffset = 0, rc_noReadExpect = 0,
     rc_registerSize = 0, rc_registerSpace = 0, rc_readMaskLow = 0, rc_readMaskHigh = 0,
     rc_data = 0\<rparr>"

definition rc_layout :: CmdLayout where
  "rc_layout = \<lparr>cl_type = 0x7, cl_opcode = 0x2e, cl_subOpcode = 0x1,
     cl_lengthBias = 1, cl_baseLength = 4, cl_dataStart = Some 5\<rparr>"

record CmdServicesMemTraceRegisterPoll =
  rp_Header :: AubCmdHdr
  rp_registerOffset :: u32
  rp_timeoutAction :: "1 word"
  rp_pollNotEqual :: "1 word"
  rp_operationType :: "4 word"
  rp_registerSize :: "4 word"
  rp_registerSpace :: "4 word"
  rp_pollMaskLow :: u32
  rp_pollMaskHigh :: u32
  rp_data :: u32

definition rp_headerBytes :: "CmdServicesMemTraceRegisterPoll \<Rightarrow> u8 list" where
  "rp_headerBytes cmd =
     dwordBytes (AubCmdHdr_dword (rp_Header cmd))
     @ dwordBytes (rp_registerOffset cmd)
     @ dwordBytes (packBits
       [(1, 0), (1, ucast (rp_timeoutAction cmd)),
        (1, ucast (rp_pollNotEqual cmd)), (1, 0),
        (4, ucast (rp_operationType cmd)), (8, 0),
        (4, ucast (rp_registerSize cmd)), (8, 0),
        (4, ucast (rp_registerSpace cmd))])
     @ dwordBytes (rp_pollMaskLow cmd)
     @ dwordBytes (rp_pollMaskHigh cmd)"

definition rp_bytes :: "CmdServicesMemTraceRegisterPoll \<Rightarrow> u8 list" where
  "rp_bytes cmd = rp_headerBytes cmd @ dwordBytes (rp_data cmd)"

definition rp_zero :: CmdServicesMemTraceRegisterPoll where
  "rp_zero = \<lparr>rp_Header = AubCmdHdr_zero, rp_registerOffset = 0, rp_timeoutAction = 0,
     rp_pollNotEqual = 0, rp_operationType = 0, rp_registerSize = 0, rp_registerSpace = 0,
     rp_pollMaskLow = 0, rp_pollMaskHigh = 0, rp_data = 0\<rparr>"

definition rp_layout :: CmdLayout where
  "rp_layout = \<lparr>cl_type = 0x7, cl_opcode = 0x2e, cl_subOpcode = 0x2,
     cl_lengthBias = 1, cl_baseLength = 4, cl_dataStart = Some 5\<rparr>"

record CmdServicesMemTraceRegisterWrite =
  rw_Header :: AubCmdHdr
  rw_registerOffset :: u32
  rw_messageSourceId :: "4 word"
  rw_registerSize :: "4 word"
  rw_registerSpace :: "4 word"
  rw_writeMaskLow :: u32
  rw_writeMaskHigh :: u32
  rw_data :: u32

definition rw_headerBytes :: "CmdServicesMemTraceRegisterWrite \<Rightarrow> u8 list" where
  "rw_headerBytes cmd =
     dwordBytes (AubCmdHdr_dword (rw_Header cmd))
     @ dwordBytes (rw_registerOffset cmd)
     @ dwordBytes (packBits
       [(4, 0), (4, ucast (rw_messageSourceId cmd)), (8, 0),
        (4, ucast (rw_registerSize cmd)), (8, 0),
        (4, ucast (rw_registerSpace cmd))])
     @ dwordBytes (rw_writeMaskLow cmd)
     @ dwordBytes (rw_writeMaskHigh cmd)"

definition rw_bytes :: "CmdServicesMemTraceRegisterWrite \<Rightarrow> u8 list" where
  "rw_bytes cmd = rw_headerBytes cmd @ dwordBytes (rw_data cmd)"

definition rw_zero :: CmdServicesMemTraceRegisterWrite where
  "rw_zero = \<lparr>rw_Header = AubCmdHdr_zero, rw_registerOffset = 0, rw_messageSourceId = 0,
     rw_registerSize = 0, rw_registerSpace = 0, rw_writeMaskLow = 0, rw_writeMaskHigh = 0,
     rw_data = 0\<rparr>"

definition rw_layout :: CmdLayout where
  "rw_layout = \<lparr>cl_type = 0x7, cl_opcode = 0x2e, cl_subOpcode = 0x3,
     cl_lengthBias = 1, cl_baseLength = 4, cl_dataStart = Some 5\<rparr>"

record CmdServicesMemTraceMemoryCompare =
  mc_Header :: AubCmdHdr
  mc_address :: u32
  mc_addressHigh :: u32
  mc_noReadExpect :: "1 word"
  mc_repeatMemory :: "1 word"
  mc_tiling :: "2 word"
  mc_crcCompare :: "1 word"
  mc_compareOperation :: "1 word"
  mc_deferCompareEvaluation :: "1 word"
  mc_dataTypeHint :: u8
  mc_addressSpace :: "4 word"
  mc_dataSizeInBytes :: u32
  mc_data :: u32

definition mc_headerBytes :: "CmdServicesMemTraceMemoryCompare \<Rightarrow> u8 list" where
  "mc_headerBytes cmd =
     dwordBytes (AubCmdHdr_dword (mc_Header cmd))
     @ dwordBytes (mc_address cmd)
     @ dwordBytes (mc_addressHigh cmd)
     @ dwordBytes (packBits
       [(1, ucast (mc_noReadExpect cmd)), (1, ucast (mc_repeatMemory cmd)),
        (2, ucast (mc_tiling cmd)), (2, 0), (1, ucast (mc_crcCompare cmd)),
        (1, ucast (mc_compareOperation cmd)), (1, 0),
        (1, ucast (mc_deferCompareEvaluation cmd)), (10, 0),
        (8, ucast (mc_dataTypeHint cmd)), (4, ucast (mc_addressSpace cmd))])
     @ dwordBytes (mc_dataSizeInBytes cmd)"

definition mc_bytes :: "CmdServicesMemTraceMemoryCompare \<Rightarrow> u8 list" where
  "mc_bytes cmd = mc_headerBytes cmd @ dwordBytes (mc_data cmd)"

definition mc_zero :: CmdServicesMemTraceMemoryCompare where
  "mc_zero = \<lparr>mc_Header = AubCmdHdr_zero, mc_address = 0, mc_addressHigh = 0, mc_noReadExpect = 0,
     mc_repeatMemory = 0, mc_tiling = 0, mc_crcCompare = 0, mc_compareOperation = 0,
     mc_deferCompareEvaluation = 0, mc_dataTypeHint = 0, mc_addressSpace = 0,
     mc_dataSizeInBytes = 0, mc_data = 0\<rparr>"

definition mc_layout :: CmdLayout where
  "mc_layout = \<lparr>cl_type = 0x7, cl_opcode = 0x2e, cl_subOpcode = 0x4,
     cl_lengthBias = 1, cl_baseLength = 4, cl_dataStart = Some 5\<rparr>"

record CmdServicesMemTraceMemoryPoll =
  mp_Header :: AubCmdHdr
  mp_address :: u32
  mp_addressHigh :: u32
  mp_pollNotEqual :: "1 word"
  mp_tiling :: "2 word"
  mp_dataSize :: "2 word"
  mp_timeoutAction :: "1 word"
  mp_comparison :: "3 word"
  mp_dataTypeHint :: u8
  mp_addressSpace :: "4 word"
  mp_pollMaskLow :: u32
  mp_pollMaskHigh :: u32
  mp_data :: u32

definition mp_headerBytes :: "CmdServicesMemTraceMemoryPoll \<Rightarrow> u8 list" where
  "mp_headerBytes cmd =
     dwordBytes (AubCmdHdr_dword (mp_Header cmd))
     @ dwordBytes (mp_address cmd)
     @ dwordBytes (mp_addressHigh cmd)
     @ dwordBytes (packBits
       [(1, ucast (mp_pollNotEqual cmd)), (1, 0), (2, ucast (mp_tiling cmd)),
        (2, ucast (mp_dataSize cmd)), (2, 0), (1, ucast (mp_timeoutAction cmd)),
        (1, 0), (3, ucast (mp_comparison cmd)), (7, 0),
        (8, ucast (mp_dataTypeHint cmd)), (4, ucast (mp_addressSpace cmd))])
     @ dwordBytes (mp_pollMaskLow cmd)
     @ dwordBytes (mp_pollMaskHigh cmd)"

definition mp_bytes :: "CmdServicesMemTraceMemoryPoll \<Rightarrow> u8 list" where
  "mp_bytes cmd = mp_headerBytes cmd @ dwordBytes (mp_data cmd)"

definition mp_zero :: CmdServicesMemTraceMemoryPoll where
  "mp_zero = \<lparr>mp_Header = AubCmdHdr_zero, mp_address = 0, mp_addressHigh = 0, mp_pollNotEqual = 0,
     mp_tiling = 0, mp_dataSize = 0, mp_timeoutAction = 0, mp_comparison = 0,
     mp_dataTypeHint = 0, mp_addressSpace = 0, mp_pollMaskLow = 0, mp_pollMaskHigh = 0,
     mp_data = 0\<rparr>"

definition mp_layout :: CmdLayout where
  "mp_layout = \<lparr>cl_type = 0x7, cl_opcode = 0x2e, cl_subOpcode = 0x5,
     cl_lengthBias = 1, cl_baseLength = 5, cl_dataStart = Some 6\<rparr>"

record CmdServicesMemTraceMemoryWrite =
  mw_Header :: AubCmdHdr
  mw_address :: u64
  mw_frontDoorAccess :: "1 word"
  mw_repeatMemory :: "1 word"
  mw_tiling :: "2 word"
  mw_dataTypeHint :: u8
  mw_addressSpace :: "4 word"
  mw_dataSizeInBytes :: u32
  mw_data :: u32

definition mw_headerBytes :: "CmdServicesMemTraceMemoryWrite \<Rightarrow> u8 list" where
  "mw_headerBytes cmd =
     dwordBytes (AubCmdHdr_dword (mw_Header cmd))
     @ qwordBytes (mw_address cmd)
     @ dwordBytes (packBits
       [(1, ucast (mw_frontDoorAccess cmd)), (1, ucast (mw_repeatMemory cmd)),
        (2, ucast (mw_tiling cmd)), (16, 0), (8, ucast (mw_dataTypeHint cmd)),
        (4, ucast (mw_addressSpace cmd))])
     @ dwordBytes (mw_dataSizeInBytes cmd)"

definition mw_bytes :: "CmdServicesMemTraceMemoryWrite \<Rightarrow> u8 list" where
  "mw_bytes cmd = mw_headerBytes cmd @ dwordBytes (mw_data cmd)"

definition mw_zero :: CmdServicesMemTraceMemoryWrite where
  "mw_zero = \<lparr>mw_Header = AubCmdHdr_zero, mw_address = 0, mw_frontDoorAccess = 0,
     mw_repeatMemory = 0, mw_tiling = 0, mw_dataTypeHint = 0, mw_addressSpace = 0,
     mw_dataSizeInBytes = 0, mw_data = 0\<rparr>"

definition mw_layout :: CmdLayout where
  "mw_layout = \<lparr>cl_type = 0x7, cl_opcode = 0x2e, cl_subOpcode = 0x6,
     cl_lengthBias = 1, cl_baseLength = 4, cl_dataStart = Some 5\<rparr>"

record CmdServicesMemTraceMemoryWriteDiscontiguous =
  mwd_Header :: AubCmdHdr
  mwd_frontDoorAccess :: "1 word"
  mwd_repeatMemory :: "1 word"
  mwd_tiling :: "2 word"
  mwd_numberOfAddressDataPairs :: u16
  mwd_dataTypeHint :: u8
  mwd_addressSpace :: "4 word"
  mwd_Dword_2_To_190 :: "(u64 \<times> u32) list"
  mwd_data :: u32

definition mwd_headerBytes :: "CmdServicesMemTraceMemoryWriteDiscontiguous \<Rightarrow> u8 list" where
  "mwd_headerBytes cmd =
     dwordBytes (AubCmdHdr_dword (mwd_Header cmd))
     @ dwordBytes (packBits
       [(1, ucast (mwd_frontDoorAccess cmd)), (1, ucast (mwd_repeatMemory cmd)),
        (2, ucast (mwd_tiling cmd)),
        (16, ucast (mwd_numberOfAddressDataPairs cmd)),
        (8, ucast (mwd_dataTypeHint cmd)), (4, ucast (mwd_addressSpace cmd))])
     @ concat (map pairBytes (mwd_Dword_2_To_190 cmd))"

definition mwd_bytes :: "CmdServicesMemTraceMemoryWriteDiscontiguous \<Rightarrow> u8 list" where
  "mwd_bytes cmd = mwd_headerBytes cmd @ dwordBytes (mwd_data cmd)"

definition mwd_zero :: CmdServicesMemTraceMemoryWriteDiscontiguous where
  "mwd_zero = \<lparr>mwd_Header = AubCmdHdr_zero, mwd_frontDoorAccess = 0, mwd_repeatMemory = 0,
     mwd_tiling = 0, mwd_numberOfAddressDataPairs = 0, mwd_dataTypeHint = 0,
     mwd_addressSpace = 0, mwd_Dword_2_To_190 = replicate 63 (0, 0), mwd_data = 0\<rparr>"

definition mwd_layout :: CmdLayout where
  "mwd_layout = \<lparr>cl_type = 0x7, cl_opcode = 0x2e, cl_subOpcode = 0xb,
     cl_lengthBias = 1, cl_baseLength = 190, cl_dataStart = Some 191\<rparr>"

record CmdServicesMemTraceFrameBegin =
  fb_Header :: AubCmdHdr
  fb_frameNumber :: u16

definition fb_bytes :: "CmdServicesMemTraceFrameBegin \<Rightarrow> u8 list" where
  "fb_bytes cmd =
     dwordBytes (AubCmdHdr_dword (fb_Header cmd))
     @ dwordBytes (packBits
       [(16, ucast (fb_frameNumber cmd)), (16, 0)])"

definition fb_zero :: CmdServicesMemTraceFrameBegin where
  "fb_zero = \<lparr>fb_Header = AubCmdHdr_zero, fb_frameNumber = 0\<rparr>"

definition fb_layout :: CmdLayout where
  "fb_layout = \<lparr>cl_type = 0x7, cl_opcode = 0x2e, cl_subOpcode = 0x7,
     cl_lengthBias = 1, cl_baseLength = 1, cl_dataStart = None\<rparr>"

record CmdServicesMemTraceComment =
  cm_Header :: AubCmdHdr
  cm_syncOnComment :: "1 word"
  cm_syncOnSimulatorDisplay :: "1 word"
  cm_comment :: "u8 list"

definition cm_headerBytes :: "CmdServicesMemTraceComment \<Rightarrow> u8 list" where
  "cm_headerBytes cmd =
     dwordBytes (AubCmdHdr_dword (cm_Header cmd))
     @ dwordBytes (packBits
       [(1, ucast (cm_syncOnComment cmd)),
        (1, ucast (cm_syncOnSimulatorDisplay cmd)), (30, 0)])"

definition cm_bytes :: "CmdServicesMemTraceComment \<Rightarrow> u8 list" where
  "cm_bytes cmd = cm_headerBytes cmd @ cm_comment cmd"

definition cm_zero :: CmdServicesMemTraceComment where
  "cm_zero = \<lparr>cm_Header = AubCmdHdr_zero, cm_syncOnComment = 0, cm_syncOnSimulatorDisplay = 0,
     cm_comment = replicate 4 0\<rparr>"

definition cm_layout :: CmdLayout where
  "cm_layout = \<lparr>cl_type = 0x7, cl_opcode = 0x2e, cl_subOpcode = 0x8,
     cl_lengthBias = 1, cl_baseLength = 1, cl_dataStart = Some 2\<rparr>"

record CmdServicesMemTraceDelay =
  dl_Header :: AubCmdHdr
  dl_time :: u32

definition dl_bytes :: "CmdServicesMemTraceDelay \<Rightarrow> u8 list" where
  "dl_bytes cmd =
     dwordBytes (AubCmdHdr_dword (dl_Header cmd))
     @ dwordBytes (dl_time cmd)"

definition dl_zero :: CmdServicesMemTraceDelay where
  "dl_zero = \<lparr>dl_Header = AubCmdHdr_zero, dl_time = 0\<rparr>"

definition dl_layout :: CmdLayout where
  "dl_layout = \<lparr>cl_type = 0x7, cl_opcode = 0x2e, cl_subOpcode = 0x9,
     cl_lengthBias = 1, cl_baseLength = 1, cl_dataStart = None\<rparr>"

record CmdServicesMemTraceMemoryDump =
  md_Header :: AubCmdHdr
  md_physicalAddressDwordLow :: u32
  md_physicalAddressDwordHigh :: u32
  md_stride :: u32
  md_width :: u32
  md_height :: u32
  md_addressSpace :: "2 word"
  md_tiling :: "2 word"
  md_filename :: "u8 list"

definition md_headerBytes :: "CmdServicesMemTraceMemoryDump \<Rightarrow> u8 list" where
  "md_headerBytes cmd =
     dwordBytes (AubCmdHdr_dword (md_Header cmd))
     @ dwordBytes (md_physicalAddressDwordLow cmd)
     @ dwordBytes (md_physicalAddressDwordHigh cmd)
     @ dwordBytes (md_stride cmd)
     @ dwordBytes (md_width cmd)
     @ dwordBytes (md_height cmd)
     @ dwordBytes (packBits
       [(2, ucast (md_addressSpace cmd)), (2, 0), (2, ucast (md_tiling cmd)),
        (26, 0)])"

definition md_bytes :: "CmdServicesMemTraceMemoryDump \<Rightarrow> u8 list" where
  "md_bytes cmd = md_headerBytes cmd @ md_filename cmd"

definition md_zero :: CmdServicesMemTraceMemoryDump where
  "md_zero = \<lparr>md_Header = AubCmdHdr_zero, md_physicalAddressDwordLow = 0,
     md_physicalAddressDwordHigh = 0, md_stride = 0, md_width = 0, md_height = 0,
     md_addressSpace = 0, md_tiling = 0, md_filename = replicate 4 0\<rparr>"

definition md_layout :: CmdLayout where
  "md_layout = \<lparr>cl_type = 0x7, cl_opcode = 0x2e, cl_subOpcode = 0xa,
     cl_lengthBias = 1, cl_baseLength = 5, cl_dataStart = Some 7\<rparr>"

record CmdServicesMemTraceTestPhaseMarker =
  tpm_Header :: AubCmdHdr
  tpm_toolSpecificSubPhase :: "12 word"
  tpm_beginTestPhase :: "4 word"

definition tpm_bytes :: "CmdServicesMemTraceTestPhaseMarker \<Rightarrow> u8 list" where
  "tpm_bytes cmd =
     dwordBytes (AubCmdHdr_dword (tpm_Header cmd))
     @ dwordBytes (packBits
       [(12, ucast (tpm_toolSpecificSubPhase cmd)),
        (4, ucast (tpm_beginTestPhase cmd)), (16, 0)])"

definition tpm_zero :: CmdServicesMemTraceTestPhaseMarker where
  "tpm_zero = \<lparr>tpm_Header = AubCmdHdr_zero, tpm_toolSpecificSubPhase = 0, tpm_beginTestPhase = 0\<rparr>"

definition tpm_layout :: CmdLayout where
  "tpm_layout = \<lparr>cl_type = 0x7, cl_opcode = 0x2e, cl_subOpcode = 0xc,
     cl_lengthBias = 1, cl_baseLength = 1, cl_dataStart = None\<rparr>"

record CmdServicesMemTraceMemoryContinuousRegion =
  mcr_Header :: AubCmdHdr
  mcr_address :: u64
  mcr_regionSize :: u64

definition mcr_bytes :: "CmdServicesMemTraceMemoryContinuousRegion \<Rightarrow> u8 list" where
  "mcr_bytes cmd =
     dwordBytes (AubCmdHdr_dword (mcr_Header cmd))
     @ qwordBytes (mcr_address cmd)
     @ qwordBytes (mcr_regionSize cmd)"

definition mcr_zero :: CmdServicesMemTraceMemoryContinuousRegion where
  "mcr_zero = \<lparr>mcr_Header = AubCmdHdr_zero, mcr_address = 0, mcr_regionSize = 0\<rparr>"

definition mcr_layout :: CmdLayout where
  "mcr_layout = \<lparr>cl_type = 0x7, cl_opcode = 0x2e, cl_subOpcode = 0xd,
     cl_lengthBias = 1, cl_baseLength = 4, cl_dataStart = None\<rparr>"

record CmdServicesMemTracePredicate =
  pr_Header :: AubCmdHdr
  pr_predicateState :: "1 word"
  pr_target :: "4 word"

definition pr_bytes :: "CmdServicesMemTracePredicate \<Rightarrow> u8 list" where
  "pr_bytes cmd =
     dwordBytes (AubCmdHdr_dword (pr_Header cmd))
     @ dwordBytes (packBits
       [(1, ucast (pr_predicateState cmd)), (4, ucast (pr_target cmd)), (27, 0)])"

definition pr_zero :: CmdServicesMemTracePredicate where
  "pr_zero = \<lparr>pr_Header = AubCmdHdr_zero, pr_predicateState = 0, pr_target = 0\<rparr>"

definition pr_layout :: CmdLayout where
  "pr_layout = \<lparr>cl_type = 0x7, cl_opcode = 0x2e, cl_subOpcode = 0xf,
     cl_lengthBias = 1, cl_baseLength = 4, cl_dataStart = None\<rparr>"

record CmdServicesMemTraceDumpCompress =
  dc_Header :: AubCmdHdr
  dc_surfaceAddress :: u64
  dc_surfaceWidth :: u32
  dc_surfaceHeight :: u32
  dc_surfacePitch :: u32
  dc_surfaceFormat :: "12 word"
  dc_dumpType :: "3 word"
  dc_surfaceTilingType :: "3 word"
  dc_surfaceType :: "3 word"
  dc_tiledResourceMode :: "2 word"
  dc_useClearValue :: "1 word"
  dc_auxSurfaceAddress :: u64
  dc_auxSurfaceWidth :: u32
  dc_auxSurfaceHeight :: u32
  dc_auxSurfacePitch :: u32
  dc_auxSurfaceQPitch :: "17 word"
  dc_auxSurfaceTilingType :: "3 word"
  dc_auxEncodingFormat :: "7 word"
  dc_auxEncodingValid :: "1 word"
  dc_blockWidth :: u8
  dc_blockHeight :: u8
  dc_blockDepth :: u8
  dc_mode :: "1 word"
  dc_algorithm :: "3 word"
  dc_tileWidth :: u32
  dc_tileHeight :: u32
  dc_tileDepth :: u32
  dc_clearColorRed :: u32
  dc_clearColorGreen :: u32
  dc_clearColorBlue :: u32
  dc_clearColorAlpha :: u32
  dc_gttType :: "2 word"
  dc_clearColorType :: "1 word"
  dc_directoryHandle :: u32
  dc_clearColorAddress :: u64

definition dc_bytes :: "CmdServicesMemTraceDumpCompress \<Rightarrow> u8 list" where
  "dc_bytes cmd =
     dwordBytes (AubCmdHdr_dword (dc_Header cmd))
     @ qwordBytes (dc_surfaceAddress cmd)
     @ dwordBytes (dc_surfaceWidth cmd)
     @ dwordBytes (dc_surfaceHeight cmd)
     @ dwordBytes (dc_surfacePitch cmd)
     @ dwordBytes (packBits
       [(12, ucast (dc_surfaceFormat cmd)), (3, ucast (dc_dumpType cmd)), (1, 0),
        (3, ucast (dc_surfaceTilingType cmd)), (3, 0),
        (3, ucast (dc_surfaceType cmd)), (3, 0),
        (2, ucast (dc_tiledResourceMode cmd)), (1, 0),
        (1, ucast (dc_useClearValue cmd))])
     @ qwordBytes (dc_auxSurfaceAddress cmd)
     @ dwordBytes (dc_auxSurfaceWidth cmd)
     @ dwordBytes (dc_auxSurfaceHeight cmd)
     @ dwordBytes (dc_auxSurfacePitch cmd)
     @ dwordBytes (packBits
       [(17, ucast (dc_auxSurfaceQPitch cmd)), (4, 0),
        (3, ucast (dc_auxSurfaceTilingType cmd)),
        (7, ucast (dc_auxEncodingFormat cmd)),
        (1, ucast (dc_auxEncodingValid cmd))])
     @ dwordBytes (packBits
       [(8, ucast (dc_blockWidth cmd)), (8, ucast (dc_blockHeight cmd)),
        (8, ucast (dc_blockDepth cmd)), (1, ucast (dc_mode cmd)),
        (3, ucast (dc_algorithm cmd)), (4, 0)])
     @ dwordBytes (dc_tileWidth cmd)
     @ dwordBytes (dc_tileHeight cmd)
     @ dwordBytes (dc_tileDepth cmd)
     @ dwordBytes (dc_clearColorRed cmd)
     @ dwordBytes (dc_clearColorGreen cmd)
     @ dwordBytes (dc_clearColorBlue cmd)
     @ dwordBytes (dc_clearColorAlpha cmd)
     @ dwordBytes (packBits
       [(2, ucast (dc_gttType cmd)), (1, ucast (dc_clearColorType cmd)), (29, 0)])
     @ dwordBytes (dc_directoryHandle cmd)
     @ qwordBytes (dc_clearColorAddress cmd)"

definition dc_zero :: CmdServicesMemTraceDumpCompress where
  "dc_zero = \<lparr>dc_Header = AubCmdHdr_zero, dc_surfaceAddress = 0, dc_surfaceWidth = 0,
     dc_surfaceHeight = 0, dc_surfacePitch = 0, dc_surfaceFormat = 0, dc_dumpType = 0,
     dc_surfaceTilingType = 0, dc_surfaceType = 0, dc_tiledResourceMode = 0,
     dc_useClearValue = 0, dc_auxSurfaceAddress = 0, dc_auxSurfaceWidth = 0,
     dc_auxSurfaceHeight = 0, dc_auxSurfacePitch = 0, dc_auxSurfaceQPitch = 0,
     dc_auxSurfaceTilingType = 0, dc_auxEncodingFormat = 0, dc_auxEncodingValid = 0,
     dc_blockWidth = 0, dc_blockHeight = 0, dc_blockDepth = 0, dc_mode = 0,
     dc_algorithm = 0, dc_tileWidth = 0, dc_tileHeight = 0, dc_tileDepth = 0,
     dc_clearColorRed = 0, dc_clearColorGreen = 0, dc_clearColorBlue = 0,
     dc_clearColorAlpha = 0, dc_gttType = 0, dc_clearColorType = 0, dc_directoryHandle = 0,
     dc_clearColorAddress = 0\<rparr>"

definition dc_layout :: CmdLayout where
  "dc_layout = \<lparr>cl_type = 0x7, cl_opcode = 0x2e, cl_subOpcode = 0x10,
     cl_lengthBias = 1, cl_baseLength = 19, cl_dataStart = None\<rparr>"

section \<open>The structures of \<^verbatim>\<open>aub_header.h\<close>\<close>

record AubCmdDumpBmpHd =
  bmp_Header :: AubCmdHdr
  bmp_Xmin :: u32
  bmp_Ymin :: u32
  bmp_BufferPitch :: u32
  bmp_BitsPerPixel :: u8
  bmp_Format :: u8
  bmp_Reserved_0 :: u16
  bmp_Xsize :: u32
  bmp_Ysize :: u32
  bmp_BaseAddr :: u64
  bmp_Secure :: "1 word"
  bmp_UseFence :: "1 word"
  bmp_TileOn :: "1 word"
  bmp_WalkY :: "1 word"
  bmp_UsePPGTT :: "1 word"
  bmp_Use32BitDump :: "1 word"
  bmp_UseFullFormat :: "1 word"
  bmp_Reserved_1 :: "25 word"
  bmp_DirectoryHandle :: u32

definition bmp_bytes :: "AubCmdDumpBmpHd \<Rightarrow> u8 list" where
  "bmp_bytes cmd =
     dwordBytes (AubCmdHdr_dword (bmp_Header cmd))
     @ dwordBytes (bmp_Xmin cmd)
     @ dwordBytes (bmp_Ymin cmd)
     @ dwordBytes (bmp_BufferPitch cmd)
     @ dwordBytes (packBits
       [(8, ucast (bmp_BitsPerPixel cmd)), (8, ucast (bmp_Format cmd)),
        (16, ucast (bmp_Reserved_0 cmd))])
     @ dwordBytes (bmp_Xsize cmd)
     @ dwordBytes (bmp_Ysize cmd)
     @ qwordBytes (bmp_BaseAddr cmd)
     @ dwordBytes (packBits
       [(1, ucast (bmp_Secure cmd)), (1, ucast (bmp_UseFence cmd)),
        (1, ucast (bmp_TileOn cmd)), (1, ucast (bmp_WalkY cmd)),
        (1, ucast (bmp_UsePPGTT cmd)), (1, ucast (bmp_Use32BitDump cmd)),
        (1, ucast (bmp_UseFullFormat cmd)), (25, ucast (bmp_Reserved_1 cmd))])
     @ dwordBytes (bmp_DirectoryHandle cmd)"

definition bmp_zero :: AubCmdDumpBmpHd where
  "bmp_zero = \<lparr>bmp_Header = AubCmdHdr_zero, bmp_Xmin = 0, bmp_Ymin = 0, bmp_BufferPitch = 0,
     bmp_BitsPerPixel = 0, bmp_Format = 0, bmp_Reserved_0 = 0, bmp_Xsize = 0, bmp_Ysize = 0,
     bmp_BaseAddr = 0, bmp_Secure = 0, bmp_UseFence = 0, bmp_TileOn = 0, bmp_WalkY = 0,
     bmp_UsePPGTT = 0, bmp_Use32BitDump = 0, bmp_UseFullFormat = 0, bmp_Reserved_1 = 0,
     bmp_DirectoryHandle = 0\<rparr>"

record AubPpgttContextCreate =
  pcc_Header :: AubCmdHdr
  pcc_Handle :: u32
  pcc_AdvancedContext :: "1 word"
  pcc_SixtyFourBit :: "1 word"
  pcc_Reserved_31_2 :: "30 word"
  pcc_PageDirPointer :: "u64 list"

definition pcc_bytes :: "AubPpgttContextCreate \<Rightarrow> u8 list" where
  "pcc_bytes cmd =
     dwordBytes (AubCmdHdr_dword (pcc_Header cmd))
     @ dwordBytes (pcc_Handle cmd)
     @ dwordBytes (packBits
       [(1, ucast (pcc_AdvancedContext cmd)), (1, ucast (pcc_SixtyFourBit cmd)),
        (30, ucast (pcc_Reserved_31_2 cmd))])
     @ concat (map qwordBytes (pcc_PageDirPointer cmd))"

definition pcc_zero :: AubPpgttContextCreate where
  "pcc_zero = \<lparr>pcc_Header = AubCmdHdr_zero, pcc_Handle = 0, pcc_AdvancedContext = 0,
     pcc_SixtyFourBit = 0, pcc_Reserved_31_2 = 0, pcc_PageDirPointer = replicate 4 0\<rparr>"

record AubCaptureBinaryDumpHD =
  cbd_Header :: AubCmdHdr
  cbd_BaseAddr :: u64
  cbd_Width :: u64
  cbd_Height :: u64
  cbd_Pitch :: u64
  cbd_SurfaceType :: "4 word"
  cbd_GttType :: "2 word"
  cbd_Reserved_31_6 :: "26 word"
  cbd_DirectoryHandle :: u32
  cbd_ReservedDW1 :: u32
  cbd_ReservedDW2 :: u32
  cbd_OutputFile :: "u8 list"

definition cbd_bytes :: "AubCaptureBinaryDumpHD \<Rightarrow> u8 list" where
  "cbd_bytes cmd =
     dwordBytes (AubCmdHdr_dword (cbd_Header cmd))
     @ qwordBytes (cbd_BaseAddr cmd)
     @ qwordBytes (cbd_Width cmd)
     @ qwordBytes (cbd_Height cmd)
     @ qwordBytes (cbd_Pitch cmd)
     @ dwordBytes (packBits
       [(4, ucast (cbd_SurfaceType cmd)), (2, ucast (cbd_GttType cmd)),
        (26, ucast (cbd_Reserved_31_6 cmd))])
     @ dwordBytes (cbd_DirectoryHandle cmd)
     @ dwordBytes (cbd_ReservedDW1 cmd)
     @ dwordBytes (cbd_ReservedDW2 cmd)
     @ cbd_OutputFile cmd"

definition cbd_zero :: AubCaptureBinaryDumpHD where
  "cbd_zero = \<lparr>cbd_Header = AubCmdHdr_zero, cbd_BaseAddr = 0, cbd_Width = 0, cbd_Height = 0,
     cbd_Pitch = 0, cbd_SurfaceType = 0, cbd_GttType = 0, cbd_Reserved_31_6 = 0,
     cbd_DirectoryHandle = 0, cbd_ReservedDW1 = 0, cbd_ReservedDW2 = 0,
     cbd_OutputFile = replicate 4 0\<rparr>"

section \<open>Enumerations\<close>

text \<open>The hints of \<^verbatim>\<open>hint_values.h\<close>, the address spaces of memory writes and the comparisons of memory polls.\<close>

definition DataTypeHintValues :: "(string \<times> int) list" where
  "DataTypeHintValues =
    [(''TraceNotype'', 0),
     (''TraceBatchBuffer'', 1),
     (''TraceBinBuffer'', 2),
     (''TraceBinPointerList'', 3),
     (''TraceSlowStateBuffer'', 4),
     (''TraceVertexBufferState'', 5),
     (''Trace2DMap'', 6),
     (''TraceCubeMap'', 7),
     (''TraceIndirectStateBuffer'', 8),
     (''TraceVolumeMap'', 9),
     (''Trace1DMap'', 10),
     (''TraceConstantBuffer'', 11),
     (''TraceConstantUrbEntry'', 12),
     (''TraceIndexBuffer'', 13),
     (''TraceVertexShaderState'', 16),
     (''TraceGeometryShaderState'', 17),
     (''TraceClipperState'', 18),
     (''TraceStripsFansState'', 19),
     (''TraceWindowerIzState'', 20),
     (''TraceColorCalcState'', 21),
     (''TraceClipViewport'', 22),
     (''TraceSfViewport'', 23),
     (''TraceCcViewport'', 24),
     (''TraceSamplerState'', 25),
     (''TraceKernelInstructions'', 26),
     (''TraceScratchSpace'', 27),
     (''TraceSamplerDefaultColor'', 28),
     (''TraceInterfaceDescriptor'', 29),
     (''TraceVldState'', 30),
     (''TraceVfeState'', 31),
     (''TraceBlendState'', 32),
     (''TraceDepthStencilState'', 33),
     (''TraceBindingTableState'', 34),
     (''TraceRenderSurfaceState'', 35),
     (''TraceMediaObjectIndirectData'', 36),
     (''TraceRemap'', 37),
     (''TraceCommandBuffer'', 38),
     (''TraceCommandBufferPrimary'', 39),
     (''TraceCommandBufferBlt'', 40),
     (''TraceCommandBufferMfx'', 41),
     (''TraceBatchBufferPrimary'', 42),
     (''TraceBatchBufferBlt'', 43),
     (''TraceBatchBufferMfx'', 44),
     (''TraceAudioCommandBuffer'', 45),
     (''TraceAudioLinkTable'', 46),
     (''TraceAudioData'', 47),
     (''TraceLogicalRingContextRcs'', 48),
     (''TraceLogicalRingContextBcs'', 49),
     (''TraceLogicalRingContextVcs'', 50),
     (''TraceLogicalRingContextVecs'', 51),
     (''TraceExtendedRootTableEntry'', 52),
     (''TraceExtendedContextTableEntry'', 53),
     (''TracePasidTableEntry'', 54),
     (''TraceRingContextRcs'', 55),
     (''TraceRingContextBcs'', 56),
     (''TraceRingContextVcs'', 57),
     (''TraceRingContextVecs'', 58),
     (''TraceLri'', 59),
     (''TraceGucProcessDescriptor'', 60),
     (''TraceGucContextDescriptor'', 61),
     (''TraceDummyGgttEntry'', 62),
     (''TraceLogicalRingContextCcs'', 64),
     (''TracePpgttLevel1'', 65),
     (''TracePpgttLevel2'', 66),
     (''TracePpgttLevel3'', 67),
     (''TracePpgttLevel4'', 68),
     (''TracePpgttLevel5'', 69),
     (''TraceIndirectRingContextRcs'', 70),
     (''TraceIndirectRingContextBcs'', 71),
     (''TraceIndirectRingContextVcs'', 72),
     (''TraceIndirectRingContextVecs'', 73),
     (''TraceIndirectRingContextCcs'', 74)]"

definition hintValue :: "string \<Rightarrow> int" where
  "hintValue name = the (map_of DataTypeHintValues name)"

datatype AddressSpaceValues =
    TraceGttEntry
  | TraceNonapetureGttGfx
  | TraceLocal
  | TracePml4Entry
  | TraceGttGfx
  | TraceNonlocal
  | TraceGttPdEntry
  | TracePpgttEntry
  | TracePpgttGfx
  | TracePpgttPdEntry
  | TracePowerContext
  | TracePhysicalPdpEntry

fun addressSpaceValue :: "AddressSpaceValues \<Rightarrow> int" where
  "addressSpaceValue TraceGttEntry = 4"
| "addressSpaceValue TraceNonapetureGttGfx = 7"
| "addressSpaceValue TraceLocal = 1"
| "addressSpaceValue TracePml4Entry = 10"
| "addressSpaceValue TraceGttGfx = 0"
| "addressSpaceValue TraceNonlocal = 2"
| "addressSpaceValue TraceGttPdEntry = 3"
| "addressSpaceValue TracePpgttEntry = 6"
| "addressSpaceValue TracePpgttGfx = 5"
| "addressSpaceValue TracePpgttPdEntry = 9"
| "addressSpaceValue TracePowerContext = 11"
| "addressSpaceValue TracePhysicalPdpEntry = 8"

datatype ComparisonValues = Legacy | Equal | NotEqual | Less | LessEqual | Greater | GreaterEqual

fun comparisonValue :: "ComparisonValues \<Rightarrow> u32" where
  "comparisonValue Legacy = 0"
| "comparisonValue Equal = 1"
| "comparisonValue NotEqual = 2"
| "comparisonValue Less = 3"
| "comparisonValue LessEqual = 4"
| "comparisonValue Greater = 5"
| "comparisonValue GreaterEqual = 6"

end
