(* ===== verification/AubReader.thy ===== *)
theory AubReader
  imports AubServices
begin

text \<open>
  An AUB reader written against the record formats of \<open>AubServices\<close>, the specification of the
  writers: it cuts a byte sequence into packets by the dword counts of their headers and gives
  each packet its meaning as a list of events.  A memory write is one event per byte, so that the
  way a writer cuts its data into packets does not show.
\<close>

section \<open>Reading words\<close>

fun bytesDword :: "u8 list \<Rightarrow> u32" where
  "bytesDword (b0 # b1 # b2 # b3 # bs) =
     ucast b0 OR push_bit 8 (ucast b1) OR push_bit 16 (ucast b2) OR push_bit 24 (ucast b3)"
| "bytesDword bs = 0"

definition dwordAt :: "nat \<Rightarrow> u8 list \<Rightarrow> u32" where
  "dwordAt i bs = bytesDword (drop i bs)"

definition qwordAt :: "nat \<Rightarrow> u8 list \<Rightarrow> u64" where
  "qwordAt i bs = push_bit 32 (ucast (dwordAt (i + 4) bs)) OR ucast (dwordAt i bs)"

definition AubCmdHdr_of_dword :: "u32 \<Rightarrow> AubCmdHdr" where
  "AubCmdHdr_of_dword w = (case unpackBits [16, 7, 6, 3] w of
     [l, s, opc, t] \<Rightarrow> \<lparr>DwordLength = ucast l, SubOp = ucast s, Opcode = ucast opc, Type = ucast t\<rparr>
   | _ \<Rightarrow> AubCmdHdr_zero)"

lemma dwordBytes_length [simp]: "length (dwordBytes w) = 4"
  by (simp add: dwordBytes_def)

lemma qwordBytes_length [simp]: "length (qwordBytes w) = 8"
  by (simp add: qwordBytes_def)

lemma pairBytes_length [simp]: "length (pairBytes p) = 12"
  by (simp add: pairBytes_def)

lemma dwordBytes_neq_Nil [simp]: "dwordBytes w \<noteq> []"
  by (simp add: dwordBytes_def)

lemma bytesDword_dwordBytes [simp]: "bytesDword (dwordBytes w @ bs) = w"
proof (rule bit_word_eqI)
  fix n assume "n < LENGTH(32)"
  moreover have "n < 8 \<or> 8 \<le> n \<and> n < 16 \<or> 16 \<le> n \<and> n < 24 \<or> 24 \<le> n"
    by linarith
  ultimately show "bit (bytesDword (dwordBytes w @ bs)) n = bit w n"
    by (auto simp: dwordBytes_def bit_simps)
qed

lemma dwordAt_append:
  "dwordAt i (xs @ ys) = dwordAt (i - length xs) ys" if "length xs \<le> i"
  using that by (simp add: dwordAt_def)

lemma dwordAt_0 [simp]: "dwordAt 0 (dwordBytes w @ bs) = w" "dwordAt 0 (dwordBytes w) = w"
  using bytesDword_dwordBytes [of w "[]"] by (simp_all add: dwordAt_def)

lemma qword_join: "push_bit 32 (ucast (ucast (drop_bit 32 v) :: u32)) OR ucast (ucast v :: u32) = v"
  for v :: u64
  by (rule bit_word_eqI) (auto simp: bit_simps)

lemma dwordAt_qwordBytes [simp]:
  "dwordAt 0 (qwordBytes v @ bs) = ucast v"
  "dwordAt 4 (qwordBytes v @ bs) = ucast (drop_bit 32 v)"
  by (simp_all add: qwordBytes_def dwordAt_append)

lemma qwordAt_append:
  "qwordAt i (xs @ ys) = qwordAt (i - length xs) ys" if "length xs \<le> i"
  using that by (simp add: qwordAt_def dwordAt_append)

lemma qwordAt_0 [simp]: "qwordAt 0 (qwordBytes v @ bs) = v"
  by (simp add: qwordAt_def qword_join)

lemmas at_simps = dwordAt_append qwordAt_append

section \<open>Bit fields\<close>

lemma packBits_bit_bound: "bit (packBits fs) n \<Longrightarrow> n < sum_list (map fst fs)"
proof (induction fs arbitrary: n)
  case (Cons a fs)
  obtain w v where a: "a = (w, v)" by (cases a)
  from Cons.prems have "n < w \<or> (w \<le> n \<and> bit (packBits fs) (n - w))"
    by (auto simp: a bit_simps)
  then show ?case
    using Cons.IH [of "n - w"] by (auto simp: a)
qed simp

lemma drop_bit_packBits:
  assumes "w + sum_list (map fst fs) \<le> 32"
  shows "drop_bit w (packBits ((w, v) # fs)) = packBits fs"
proof (rule bit_word_eqI)
  fix n assume "n < LENGTH(32)"
  show "bit (drop_bit w (packBits ((w, v) # fs))) n = bit (packBits fs) n"
    using packBits_bit_bound [of fs n] assms by (auto simp: bit_simps)
qed

lemma take_bit_packBits: "take_bit w (packBits ((w, v) # fs)) = take_bit w v"
  by (rule bit_word_eqI) (auto simp: bit_simps)

theorem unpack_packBits:
  "sum_list (map fst fs) \<le> 32 \<Longrightarrow>
   unpackBits (map fst fs) (packBits fs) = map (\<lambda>(w, v). take_bit w v) fs"
proof (induction fs)
  case (Cons a fs)
  obtain w v where a: "a = (w, v)" by (cases a)
  show ?case
    using Cons by (simp add: a drop_bit_packBits take_bit_packBits del: packBits.simps)
qed simp

lemma take_bit_ucast_full:
  "LENGTH('a::len) \<le> w \<Longrightarrow> take_bit w (ucast (x :: 'a word) :: u32) = ucast x"
  by (rule bit_word_eqI) (auto simp: bit_simps dest: bit_imp_le_length)

lemma ucast_1_mod_2 [simp]: "ucast (x :: 1 word) mod 2 = (ucast x :: u32)"
  using take_bit_ucast_full [of 1 x] by (simp add: take_bit_eq_mod)

lemma ucast_ucast_32 [simp]:
  "LENGTH('a::len) \<le> 32 \<Longrightarrow> (ucast (ucast (x :: 'a word) :: u32) :: 'a word) = x"
  by (rule bit_word_eqI) (auto simp: bit_simps)

lemma ucast_32_eq_0: "LENGTH('a::len) \<le> 32 \<Longrightarrow> (ucast (x :: 'a word) :: u32) = 0 \<longleftrightarrow> x = 0"
  by (metis ucast_ucast_32 unsigned_0)

lemma header_roundtrip [simp]: "AubCmdHdr_of_dword (AubCmdHdr_dword h) = h"
proof -
  have "unpackBits [16, 7, 6, 3] (AubCmdHdr_dword h) =
    [ucast (DwordLength h), ucast (SubOp h), ucast (Opcode h), ucast (Type h)]"
    unfolding AubCmdHdr_dword_def
    using unpack_packBits [of "[(16, ucast (DwordLength h)), (7, ucast (SubOp h)), (6, ucast (Opcode h)), (3, ucast (Type h))]"]
    by (simp add: take_bit_ucast_full del: packBits.simps unpackBits.simps One_nat_def)
  then show ?thesis
    by (simp add: AubCmdHdr_of_dword_def del: unpackBits.simps One_nat_def)
qed

lemma unpack_packBits_fields:
  "ws = map fst fs \<Longrightarrow> sum_list (map fst fs) \<le> 32 \<Longrightarrow>
   unpackBits ws (packBits fs) = map (\<lambda>(w, v). take_bit w v) fs"
  by (simp add: unpack_packBits)

section \<open>Events\<close>

text \<open>
  \<open>EvStore space hint address byte\<close> is one byte of a memory write, \<open>EvComment\<close> the payload of a
  comment record, padding included; the other events hold the fields of their record.
\<close>

datatype AubEvent =
    EvVersion u32 u32 u32 u32 "u8 list" "u8 list"
  | EvStore u32 u32 u64 u8
  | EvComment "u8 list"
  | EvRegisterWrite u32 u32 u32
  | EvRegisterPoll u32 u32 u32 u32 u32
  | EvMemoryPoll u32 u64 u32 u32
  | EvMemoryCompare u32 u64 "u8 list" u32 u32
  | EvRegion u64 u64
  | EvContext u32 bool "u64 list"
  | EvDumpBin u64 u64 u32 u32
  | EvDumpSurface u64 u32 u32

fun stores :: "u32 \<Rightarrow> u32 \<Rightarrow> u64 \<Rightarrow> u8 list \<Rightarrow> AubEvent list" where
  "stores space hint a [] = []"
| "stores space hint a (b # bs) = EvStore space hint a b # stores space hint (a + 1) bs"

fun pairStores :: "u32 \<Rightarrow> u32 \<Rightarrow> (u64 \<times> u32) list \<Rightarrow> u8 list \<Rightarrow> AubEvent list option" where
  "pairStores space hint [] ds = (if ds = [] then Some [] else None)"
| "pairStores space hint ((a, sz) # ps) ds =
     (if length ds < unat sz then None
      else map_option ((@) (stores space hint a (take (unat sz) ds)))
             (pairStores space hint ps (drop (unat sz) ds)))"

section \<open>Packets\<close>

definition dataOf :: "CmdLayout \<Rightarrow> u8 list \<Rightarrow> u8 list" where
  "dataOf l p = drop (4 * nat (the (cl_dataStart l))) p"

definition paddedTo4 :: "nat \<Rightarrow> u8 list \<Rightarrow> bool" where
  "paddedTo4 n ds = (n \<le> length ds \<and> length ds < n + 4)"

definition readVersion :: "u8 list \<Rightarrow> AubEvent list option" where
  "readVersion p = (case unpackBits [3, 5, 8, 2, 2, 8, 4] (dwordAt 8 p) of
     [metal, stepping, device, swizzling, recording, pch, tool] \<Rightarrow>
       Some [EvVersion stepping device recording tool (take 8 (drop 12 p)) (dataOf ver_layout p)]
   | _ \<Rightarrow> None)"

definition readMemoryWrite :: "u8 list \<Rightarrow> AubEvent list option" where
  "readMemoryWrite p = (case unpackBits [1, 1, 2, 16, 8, 4] (dwordAt 12 p) of
     [frontDoor, repeat, tiling, r, hint, space] \<Rightarrow>
       (if paddedTo4 (unat (dwordAt 16 p)) (dataOf mw_layout p)
        then Some (stores space hint (qwordAt 4 p) (take (unat (dwordAt 16 p)) (dataOf mw_layout p)))
        else None)
   | _ \<Rightarrow> None)"

definition readPairs :: "nat \<Rightarrow> u8 list \<Rightarrow> (u64 \<times> u32) list" where
  "readPairs n p = map (\<lambda>i. (qwordAt (8 + 12 * i) p, dwordAt (16 + 12 * i) p)) [0..<n]"

definition readDiscontiguous :: "u8 list \<Rightarrow> AubEvent list option" where
  "readDiscontiguous p = (case unpackBits [1, 1, 2, 16, 8, 4] (dwordAt 4 p) of
     [frontDoor, repeat, tiling, n, hint, space] \<Rightarrow>
       (if unat n \<le> 63 then pairStores space hint (readPairs (unat n) p) (dataOf mwd_layout p)
        else None)
   | _ \<Rightarrow> None)"

definition readRegisterWrite :: "u8 list \<Rightarrow> AubEvent list option" where
  "readRegisterWrite p = Some [EvRegisterWrite (dwordAt 4 p) (dwordAt 12 p) (dwordAt 20 p)]"

definition readRegisterPoll :: "u8 list \<Rightarrow> AubEvent list option" where
  "readRegisterPoll p = (case unpackBits [1, 1, 1, 1, 4, 8, 4, 8, 4] (dwordAt 8 p) of
     [r0, timeout, notEqual, r1, operation, r2, regSize, r3, regSpace] \<Rightarrow>
       Some [EvRegisterPoll (dwordAt 4 p) (dwordAt 12 p) (dwordAt 20 p) notEqual timeout]
   | _ \<Rightarrow> None)"

definition joinDwords :: "u32 \<Rightarrow> u32 \<Rightarrow> u64" where
  "joinDwords low high = push_bit 32 (ucast high) OR ucast low"

definition readMemoryPoll :: "u8 list \<Rightarrow> AubEvent list option" where
  "readMemoryPoll p = (case unpackBits [1, 1, 2, 2, 2, 1, 1, 3, 7, 8, 4] (dwordAt 12 p) of
     [notEqual, r0, tiling, dataSize, r1, timeout, r2, comparison, r3, hint, space] \<Rightarrow>
       Some [EvMemoryPoll space (joinDwords (dwordAt 4 p) (dwordAt 8 p)) (dwordAt 24 p) comparison]
   | _ \<Rightarrow> None)"

definition readMemoryCompare :: "u8 list \<Rightarrow> AubEvent list option" where
  "readMemoryCompare p = (case unpackBits [1, 1, 2, 2, 1, 1, 1, 1, 10, 8, 4] (dwordAt 12 p) of
     [noRead, repeat, tiling, r0, crc, compareOp, r1, deferred, r2, hint, space] \<Rightarrow>
       (if paddedTo4 (unat (dwordAt 16 p)) (dataOf mc_layout p)
        then Some [EvMemoryCompare space (joinDwords (dwordAt 4 p) (dwordAt 8 p))
                     (take (unat (dwordAt 16 p)) (dataOf mc_layout p)) compareOp deferred]
        else None)
   | _ \<Rightarrow> None)"

definition readContext :: "u8 list \<Rightarrow> AubEvent list option" where
  "readContext p = (case unpackBits [1, 1, 30] (dwordAt 8 p) of
     [advanced, sixtyFour, r] \<Rightarrow>
       Some [EvContext (dwordAt 4 p) (sixtyFour \<noteq> 0) (map (\<lambda>i. qwordAt (12 + 8 * i) p) [0..<4])]
   | _ \<Rightarrow> None)"

definition readDumpBin :: "u8 list \<Rightarrow> AubEvent list option" where
  "readDumpBin p = (case unpackBits [4, 2, 26] (dwordAt 36 p) of
     [surfaceType, gtt, r] \<Rightarrow> Some [EvDumpBin (qwordAt 4 p) (qwordAt 12 p) gtt (dwordAt 40 p)]
   | _ \<Rightarrow> None)"

definition readDumpCompress :: "u8 list \<Rightarrow> AubEvent list option" where
  "readDumpCompress p = (case unpackBits [2, 1, 29] (dwordAt 84 p) of
     [gtt, clearColor, r] \<Rightarrow> Some [EvDumpSurface (qwordAt 4 p) gtt (dwordAt 88 p)]
   | _ \<Rightarrow> None)"

text \<open>The two records with opcode 1 count their dwords after the second one.\<close>

definition headerOf :: "u8 list \<Rightarrow> AubCmdHdr" where
  "headerOf p = AubCmdHdr_of_dword (dwordAt 0 p)"

definition packetBytes :: "AubCmdHdr \<Rightarrow> nat" where
  "packetBytes h = 4 * (if Opcode h = 1 then unat (DwordLength h) + 2 else nat (getPacketSize h))"

definition isLegacy :: "7 word \<Rightarrow> AubCmdHdr \<Rightarrow> bool" where
  "isLegacy sub h = (Type h = 7 \<and> Opcode h = 1 \<and> SubOp h = sub)"

definition readPacket :: "u8 list \<Rightarrow> AubEvent list option" where
  "readPacket p = (let h = headerOf p in
     if matchesHeader mw_layout h then readMemoryWrite p
     else if matchesHeader mwd_layout h then readDiscontiguous p
     else if matchesHeader cm_layout h then Some [EvComment (dataOf cm_layout p)]
     else if matchesHeader rw_layout h then readRegisterWrite p
     else if matchesHeader rp_layout h then readRegisterPoll p
     else if matchesHeader mp_layout h then readMemoryPoll p
     else if matchesHeader mc_layout h then readMemoryCompare p
     else if matchesHeader mcr_layout h then Some [EvRegion (qwordAt 4 p) (qwordAt 12 p)]
     else if matchesHeader ver_layout h then readVersion p
     else if matchesHeader dc_layout h then readDumpCompress p
     else if isLegacy 0x14 h then readContext p
     else if isLegacy 0x15 h then readDumpBin p
     else None)"

function readAub :: "u8 list \<Rightarrow> AubEvent list option" where
  "readAub bs =
     (let n = packetBytes (headerOf bs)
      in if bs = [] then Some []
         else if length bs < n then None
         else (case readPacket (take n bs) of
                 None \<Rightarrow> None
               | Some evs \<Rightarrow> map_option ((@) evs) (readAub (drop n bs))))"
  by auto
termination
  by (relation "measure length") (auto simp: packetBytes_def getPacketSize_def split: if_splits)

declare readAub.simps [simp del]

section \<open>Bytes that stand for events\<close>

text \<open>Wherever the bytes stand in a file, the reader gives their events and goes on behind them.\<close>

definition encodes :: "u8 list \<Rightarrow> AubEvent list \<Rightarrow> bool" where
  "encodes bs evs = (\<forall>rest. readAub (bs @ rest) = map_option ((@) evs) (readAub rest))"

lemma readAub_Nil [simp]: "readAub [] = Some []"
  by (simp add: readAub.simps)

lemma encodes_Nil [simp]: "encodes [] []"
  by (simp add: encodes_def option.map_ident append_Nil [abs_def])

lemma encodes_append: "encodes a x \<Longrightarrow> encodes b y \<Longrightarrow> encodes (a @ b) (x @ y)"
  by (simp add: encodes_def option.map_comp comp_def append_assoc [abs_def])

lemma encodes_read: "encodes bs evs \<Longrightarrow> readAub bs = Some evs"
  using spec [of "\<lambda>rest. readAub (bs @ rest) = map_option ((@) evs) (readAub rest)" "[]"]
  by (simp add: encodes_def)

lemma bytesDword_append: "4 \<le> length p \<Longrightarrow> bytesDword (p @ rest) = bytesDword p"
  by (cases p rule: bytesDword.cases) auto

lemma headerOf_append: "4 \<le> length p \<Longrightarrow> headerOf (p @ rest) = headerOf p"
  by (simp add: headerOf_def dwordAt_def bytesDword_append)

lemma encodes_packet:
  assumes "packetBytes (headerOf p) = length p" and "readPacket p = Some evs"
  shows "encodes p evs"
  unfolding encodes_def
proof
  fix rest
  have "4 \<le> packetBytes h" for h
    by (auto simp: packetBytes_def getPacketSize_def nat_add_distrib)
  then have "4 \<le> length p"
    using assms(1) by metis
  then have "p \<noteq> []" and "headerOf (p @ rest) = headerOf p"
    by (auto simp: headerOf_append)
  then show "readAub (p @ rest) = map_option ((@) evs) (readAub rest)"
    using assms by (subst readAub.simps) (simp add: Let_def)
qed

lemma headerOf_dword [simp]: "headerOf (dwordBytes (AubCmdHdr_dword h) @ bs) = h"
  by (simp add: headerOf_def)

lemma stores_append:
  "stores sp h a (xs @ ys) = stores sp h a xs @ stores sp h (a + word_of_nat (length xs)) ys"
proof (induction xs arbitrary: a)
  case (Cons x xs)
  have "a + 1 + word_of_nat (length xs) = a + word_of_nat (length (x # xs))"
    by simp
  then show ?case
    using Cons.IH [of "a + 1"] by (simp only: append_Cons stores.simps)
qed simp

lemma stores_length [simp]: "length (stores sp h a bs) = length bs"
  by (induction bs arbitrary: a) auto

text \<open>The header of a record of \<^verbatim>\<open>aub_services.h\<close> is recognised as its own kind and as no other.\<close>

definition memtraceHeader :: "u32 \<Rightarrow> u16 \<Rightarrow> AubCmdHdr" where
  "memtraceHeader sub n = \<lparr>DwordLength = n, SubOp = ucast sub, Opcode = 0x2e, Type = 7\<rparr>"

lemmas layout_defs =
  ver_layout_def rc_layout_def rp_layout_def rw_layout_def mc_layout_def mp_layout_def mw_layout_def
  mwd_layout_def fb_layout_def cm_layout_def dl_layout_def md_layout_def tpm_layout_def
  mcr_layout_def pr_layout_def dc_layout_def

definition allLayouts :: "CmdLayout list" where
  "allLayouts = [ver_layout, rc_layout, rp_layout, rw_layout, mc_layout, mp_layout, mw_layout,
     mwd_layout, fb_layout, cm_layout, dl_layout, md_layout, tpm_layout, mcr_layout, pr_layout,
     dc_layout]"

lemma layout_constants:
  assumes "l \<in> set allLayouts"
  shows "cl_type l = 7" and "cl_opcode l = 0x2e" and "cl_subOpcode l < 128"
  using assms by (auto simp: allLayouts_def layout_defs)

lemma setHeader_memtrace:
  "l \<in> set allLayouts \<Longrightarrow> setHeader l h = memtraceHeader (cl_subOpcode l) (DwordLength h)"
  by (simp add: layout_constants setHeader_def memtraceHeader_def)

lemma ucast_7_id: "x < 128 \<Longrightarrow> ucast (ucast x :: 7 word) = x"
  for x :: u32
proof -
  assume "x < 128"
  then have "take_bit 7 x = x"
    by (simp add: word_unat_eq_iff unsigned_take_bit_eq take_bit_nat_eq_self_iff word_less_nat_alt)
  moreover have "ucast (ucast x :: 7 word) = take_bit 7 x"
    by (rule bit_word_eqI) (auto simp: bit_simps)
  ultimately show ?thesis by simp
qed

lemma matches_memtrace:
  assumes "l \<in> set allLayouts" and "sub < 128"
  shows "matchesHeader l (memtraceHeader sub n) \<longleftrightarrow> cl_subOpcode l = sub"
  using layout_constants [OF assms(1)] assms(2)
  by (auto simp: matchesHeader_def memtraceHeader_def ucast_7_id)

lemma subOpcodes [simp]:
  "cl_subOpcode ver_layout = 0xe" "cl_subOpcode rp_layout = 2" "cl_subOpcode rw_layout = 3"
  "cl_subOpcode mc_layout = 4" "cl_subOpcode mp_layout = 5" "cl_subOpcode mw_layout = 6"
  "cl_subOpcode mwd_layout = 0xb" "cl_subOpcode cm_layout = 8" "cl_subOpcode mcr_layout = 0xd"
  "cl_subOpcode dc_layout = 0x10"
  by (simp_all add: layout_defs)

lemma in_allLayouts [simp]:
  "ver_layout \<in> set allLayouts" "rp_layout \<in> set allLayouts" "rw_layout \<in> set allLayouts"
  "mc_layout \<in> set allLayouts" "mp_layout \<in> set allLayouts" "mw_layout \<in> set allLayouts"
  "mwd_layout \<in> set allLayouts" "cm_layout \<in> set allLayouts" "mcr_layout \<in> set allLayouts"
  "dc_layout \<in> set allLayouts"
  by (simp_all add: allLayouts_def)

lemma dataOf_append:
  "dataOf l (xs @ ys) = ys" if "length xs = 4 * nat (the (cl_dataStart l))"
  using that by (simp add: dataOf_def)

lemma dataStarts [simp]:
  "cl_dataStart ver_layout = Some 5" "cl_dataStart mc_layout = Some 5"
  "cl_dataStart mw_layout = Some 5" "cl_dataStart mwd_layout = Some 191"
  "cl_dataStart cm_layout = Some 2"
  by (simp_all add: layout_defs)

lemma packetBytes_memtrace [simp]: "packetBytes (memtraceHeader sub n) = 4 * (unat n + 1)"
  by (simp add: packetBytes_def memtraceHeader_def getPacketSize_def nat_add_distrib)

lemma memtrace_not_legacy [simp]: "\<not> isLegacy s (memtraceHeader sub n)"
  by (simp add: isLegacy_def memtraceHeader_def)

lemmas readPacket_simps = readPacket_def Let_def matches_memtrace

section \<open>The packets of the memory writers\<close>

lemma mw_headerBytes_length [simp]: "length (mw_headerBytes cmd) = 20"
  by (simp add: mw_headerBytes_def)

lemma encodes_memoryWrite:
  assumes hdr: "mw_Header cmd = memtraceHeader 6 n" and count: "4 * unat n = 16 + length ds"
    and pad: "paddedTo4 (unat (mw_dataSizeInBytes cmd)) ds"
  shows "encodes (mw_headerBytes cmd @ ds)
    (stores (ucast (mw_addressSpace cmd)) (ucast (mw_dataTypeHint cmd)) (mw_address cmd)
       (take (unat (mw_dataSizeInBytes cmd)) ds))"
proof (rule encodes_packet)
  let ?p = "mw_headerBytes cmd @ ds"
  have h: "headerOf ?p = memtraceHeader 6 n"
    by (simp add: mw_headerBytes_def hdr)
  show "packetBytes (headerOf ?p) = length ?p"
    using count by (simp add: h)
  have at: "qwordAt 4 ?p = mw_address cmd" "dwordAt 16 ?p = mw_dataSizeInBytes cmd"
    "dataOf mw_layout ?p = ds"
    by (simp_all add: mw_headerBytes_def at_simps dataOf_def)
  have fields: "unpackBits [1, 1, 2, 16, 8, 4] (dwordAt 12 ?p) =
     [ucast (mw_frontDoorAccess cmd), ucast (mw_repeatMemory cmd), ucast (mw_tiling cmd), 0,
      ucast (mw_dataTypeHint cmd), ucast (mw_addressSpace cmd)]"
    by (simp add: mw_headerBytes_def at_simps unpack_packBits_fields take_bit_ucast_full
        del: packBits.simps unpackBits.simps One_nat_def)
  show "readPacket ?p = Some (stores (ucast (mw_addressSpace cmd)) (ucast (mw_dataTypeHint cmd))
       (mw_address cmd) (take (unat (mw_dataSizeInBytes cmd)) ds))"
    using pad by (simp add: readPacket_simps h readMemoryWrite_def at fields del: unpackBits.simps One_nat_def)
qed

lemma concat_pairBytes_length [simp]: "length (concat (map pairBytes ps)) = 12 * length ps"
  by (induction ps) auto

lemma mwd_headerBytes_length: "length (mwd_headerBytes cmd) = 8 + 12 * length (mwd_Dword_2_To_190 cmd)"
  by (simp add: mwd_headerBytes_def)

lemma pair_at:
  "i < length ps \<Longrightarrow>
   qwordAt (12 * i) (concat (map pairBytes ps) @ ds) = fst (ps ! i) \<and>
   dwordAt (12 * i + 8) (concat (map pairBytes ps) @ ds) = snd (ps ! i)"
proof (induction ps arbitrary: i)
  case (Cons q ps)
  show ?case
  proof (cases i)
    case 0
    then show ?thesis by (simp add: pairBytes_def at_simps)
  next
    case (Suc j)
    then show ?thesis
      using Cons by (simp add: at_simps add.commute [of 8])
  qed
qed simp

lemma readPairs_header:
  assumes "k \<le> length ps" and "length hd8 = 8"
  shows "readPairs k (hd8 @ concat (map pairBytes ps) @ ds) = take k ps"
proof (rule nth_equalityI)
  fix i assume "i < length (readPairs k (hd8 @ concat (map pairBytes ps) @ ds))"
  then have "i < k" by (simp add: readPairs_def)
  then show "readPairs k (hd8 @ concat (map pairBytes ps) @ ds) ! i = take k ps ! i"
    using assms pair_at [of i ps ds]
    by (simp add: readPairs_def at_simps add.commute [of 8] prod_eq_iff)
qed (use assms in \<open>simp add: readPairs_def\<close>)

lemma encodes_discontiguous:
  assumes hdr: "mwd_Header cmd = memtraceHeader 0xb n" and count: "4 * unat n = 760 + length ds"
    and pairs: "length (mwd_Dword_2_To_190 cmd) = 63"
    and k: "unat (mwd_numberOfAddressDataPairs cmd) = k" "k \<le> 63"
    and st: "pairStores (ucast (mwd_addressSpace cmd)) (ucast (mwd_dataTypeHint cmd))
          (take k (mwd_Dword_2_To_190 cmd)) ds = Some evs"
  shows "encodes (mwd_headerBytes cmd @ ds) evs"
proof (rule encodes_packet)
  let ?p = "mwd_headerBytes cmd @ ds"
  have h: "headerOf ?p = memtraceHeader 0xb n"
    by (simp add: mwd_headerBytes_def hdr)
  show "packetBytes (headerOf ?p) = length ?p"
    using count pairs by (simp add: h mwd_headerBytes_length)
  have data: "dataOf mwd_layout ?p = ds"
    by (simp add: dataOf_append mwd_headerBytes_length pairs)
  have ps: "readPairs k ?p = take k (mwd_Dword_2_To_190 cmd)"
    using readPairs_header [of k "mwd_Dword_2_To_190 cmd"] k pairs
    by (simp add: mwd_headerBytes_def flip: append_assoc)
  have fields: "unpackBits [1, 1, 2, 16, 8, 4] (dwordAt 4 ?p) =
     [ucast (mwd_frontDoorAccess cmd), ucast (mwd_repeatMemory cmd), ucast (mwd_tiling cmd),
      ucast (mwd_numberOfAddressDataPairs cmd),
      ucast (mwd_dataTypeHint cmd), ucast (mwd_addressSpace cmd)]"
    by (simp add: mwd_headerBytes_def at_simps unpack_packBits_fields take_bit_ucast_full
        del: packBits.simps unpackBits.simps One_nat_def)
  have n: "unat (ucast (mwd_numberOfAddressDataPairs cmd) :: u32) = k"
    using k by (simp add: unsigned_ucast_eq take_bit_nat_eq_self_iff)
  show "readPacket ?p = Some evs"
    using st k(2)
    by (simp add: readPacket_simps h readDiscontiguous_def data ps fields n del: unpackBits.simps One_nat_def)
qed

section \<open>The packets of fixed size and the comments\<close>

lemma cm_headerBytes_length [simp]: "length (cm_headerBytes cmd) = 8"
  by (simp add: cm_headerBytes_def)

lemma encodes_comment:
  assumes hdr: "cm_Header cmd = memtraceHeader 8 n" and count: "4 * unat n = 4 + length ds"
  shows "encodes (cm_headerBytes cmd @ ds) [EvComment ds]"
proof (rule encodes_packet)
  have h: "headerOf (cm_headerBytes cmd @ ds) = memtraceHeader 8 n"
    by (simp add: cm_headerBytes_def hdr)
  show "packetBytes (headerOf (cm_headerBytes cmd @ ds)) = length (cm_headerBytes cmd @ ds)"
    using count by (simp add: h)
  show "readPacket (cm_headerBytes cmd @ ds) = Some [EvComment ds]"
    by (simp add: readPacket_simps h dataOf_append)
qed

lemma encodes_registerWrite:
  assumes hdr: "rw_Header cmd = memtraceHeader 3 5"
  shows "encodes (rw_bytes cmd)
    [EvRegisterWrite (rw_registerOffset cmd) (rw_writeMaskLow cmd) (rw_data cmd)]"
proof (rule encodes_packet)
  have h: "headerOf (rw_bytes cmd) = memtraceHeader 3 5"
    by (simp add: rw_bytes_def rw_headerBytes_def hdr)
  show "packetBytes (headerOf (rw_bytes cmd)) = length (rw_bytes cmd)"
    by (simp add: h) (simp add: rw_bytes_def rw_headerBytes_def)
  show "readPacket (rw_bytes cmd) = Some
    [EvRegisterWrite (rw_registerOffset cmd) (rw_writeMaskLow cmd) (rw_data cmd)]"
    by (simp add: readPacket_simps h readRegisterWrite_def)
       (simp add: rw_bytes_def rw_headerBytes_def at_simps)
qed

lemma encodes_registerPoll:
  assumes hdr: "rp_Header cmd = memtraceHeader 2 5"
  shows "encodes (rp_bytes cmd)
    [EvRegisterPoll (rp_registerOffset cmd) (rp_pollMaskLow cmd) (rp_data cmd)
       (ucast (rp_pollNotEqual cmd)) (ucast (rp_timeoutAction cmd))]"
proof (rule encodes_packet)
  have h: "headerOf (rp_bytes cmd) = memtraceHeader 2 5"
    by (simp add: rp_bytes_def rp_headerBytes_def hdr)
  show "packetBytes (headerOf (rp_bytes cmd)) = length (rp_bytes cmd)"
    by (simp add: h) (simp add: rp_bytes_def rp_headerBytes_def)
  have at: "dwordAt 4 (rp_bytes cmd) = rp_registerOffset cmd"
    "dwordAt 12 (rp_bytes cmd) = rp_pollMaskLow cmd" "dwordAt 20 (rp_bytes cmd) = rp_data cmd"
    by (simp_all add: rp_bytes_def rp_headerBytes_def at_simps)
  have "unpackBits [1, 1, 1, 1, 4, 8, 4, 8, 4] (dwordAt 8 (rp_bytes cmd)) =
     [0, ucast (rp_timeoutAction cmd), ucast (rp_pollNotEqual cmd), 0,
      ucast (rp_operationType cmd), 0, ucast (rp_registerSize cmd), 0,
      ucast (rp_registerSpace cmd)]"
    by (simp add: rp_bytes_def rp_headerBytes_def at_simps unpack_packBits_fields
        take_bit_ucast_full del: packBits.simps unpackBits.simps One_nat_def)
  then show "readPacket (rp_bytes cmd) = Some
    [EvRegisterPoll (rp_registerOffset cmd) (rp_pollMaskLow cmd) (rp_data cmd)
       (ucast (rp_pollNotEqual cmd)) (ucast (rp_timeoutAction cmd))]"
    by (simp add: readPacket_simps h readRegisterPoll_def at del: unpackBits.simps One_nat_def)
qed

lemma encodes_memoryPoll:
  assumes hdr: "mp_Header cmd = memtraceHeader 5 6"
  shows "encodes (mp_bytes cmd)
    [EvMemoryPoll (ucast (mp_addressSpace cmd))
       (joinDwords (mp_address cmd) (mp_addressHigh cmd)) (mp_data cmd) (ucast (mp_comparison cmd))]"
proof (rule encodes_packet)
  have h: "headerOf (mp_bytes cmd) = memtraceHeader 5 6"
    by (simp add: mp_bytes_def mp_headerBytes_def hdr)
  show "packetBytes (headerOf (mp_bytes cmd)) = length (mp_bytes cmd)"
    by (simp add: h) (simp add: mp_bytes_def mp_headerBytes_def)
  have at: "dwordAt 4 (mp_bytes cmd) = mp_address cmd"
    "dwordAt 8 (mp_bytes cmd) = mp_addressHigh cmd" "dwordAt 24 (mp_bytes cmd) = mp_data cmd"
    by (simp_all add: mp_bytes_def mp_headerBytes_def at_simps)
  have "unpackBits [1, 1, 2, 2, 2, 1, 1, 3, 7, 8, 4] (dwordAt 12 (mp_bytes cmd)) =
     [ucast (mp_pollNotEqual cmd), 0, ucast (mp_tiling cmd), ucast (mp_dataSize cmd), 0,
      ucast (mp_timeoutAction cmd), 0, ucast (mp_comparison cmd), 0,
      ucast (mp_dataTypeHint cmd), ucast (mp_addressSpace cmd)]"
    by (simp add: mp_bytes_def mp_headerBytes_def at_simps unpack_packBits_fields
        take_bit_ucast_full del: packBits.simps unpackBits.simps One_nat_def)
  then show "readPacket (mp_bytes cmd) = Some
    [EvMemoryPoll (ucast (mp_addressSpace cmd))
       (joinDwords (mp_address cmd) (mp_addressHigh cmd)) (mp_data cmd) (ucast (mp_comparison cmd))]"
    by (simp add: readPacket_simps h readMemoryPoll_def at del: unpackBits.simps One_nat_def)
qed

lemma encodes_memoryCompare:
  assumes hdr: "mc_Header cmd = memtraceHeader 4 n" and count: "4 * unat n = 16 + length ds"
    and pad: "paddedTo4 (unat (mc_dataSizeInBytes cmd)) ds"
  shows "encodes (mc_headerBytes cmd @ ds)
    [EvMemoryCompare (ucast (mc_addressSpace cmd))
       (joinDwords (mc_address cmd) (mc_addressHigh cmd))
       (take (unat (mc_dataSizeInBytes cmd)) ds) (ucast (mc_compareOperation cmd))
       (ucast (mc_deferCompareEvaluation cmd))]"
proof (rule encodes_packet)
  let ?p = "mc_headerBytes cmd @ ds"
  have len: "length (mc_headerBytes cmd) = 20"
    by (simp add: mc_headerBytes_def)
  have h: "headerOf ?p = memtraceHeader 4 n"
    by (simp add: mc_headerBytes_def hdr)
  show "packetBytes (headerOf ?p) = length ?p"
    using count by (simp add: h len)
  have at: "dwordAt 4 ?p = mc_address cmd" "dwordAt 8 ?p = mc_addressHigh cmd"
    "dwordAt 16 ?p = mc_dataSizeInBytes cmd" "dataOf mc_layout ?p = ds"
    by (simp_all add: mc_headerBytes_def at_simps dataOf_def)
  have "unpackBits [1, 1, 2, 2, 1, 1, 1, 1, 10, 8, 4] (dwordAt 12 ?p) =
     [ucast (mc_noReadExpect cmd), ucast (mc_repeatMemory cmd), ucast (mc_tiling cmd), 0,
      ucast (mc_crcCompare cmd), ucast (mc_compareOperation cmd), 0,
      ucast (mc_deferCompareEvaluation cmd), 0, ucast (mc_dataTypeHint cmd),
      ucast (mc_addressSpace cmd)]"
    by (simp add: mc_headerBytes_def at_simps unpack_packBits_fields
        take_bit_ucast_full del: packBits.simps unpackBits.simps One_nat_def)
  then show "readPacket ?p = Some [EvMemoryCompare (ucast (mc_addressSpace cmd))
       (joinDwords (mc_address cmd) (mc_addressHigh cmd))
       (take (unat (mc_dataSizeInBytes cmd)) ds) (ucast (mc_compareOperation cmd))
       (ucast (mc_deferCompareEvaluation cmd))]"
    using pad
    by (simp add: readPacket_simps h readMemoryCompare_def at del: unpackBits.simps One_nat_def)
qed

lemma encodes_region:
  assumes hdr: "mcr_Header cmd = memtraceHeader 0xd 4"
  shows "encodes (mcr_bytes cmd) [EvRegion (mcr_address cmd) (mcr_regionSize cmd)]"
proof (rule encodes_packet)
  have h: "headerOf (mcr_bytes cmd) = memtraceHeader 0xd 4"
    by (simp add: mcr_bytes_def hdr)
  show "packetBytes (headerOf (mcr_bytes cmd)) = length (mcr_bytes cmd)"
    by (simp add: h) (simp add: mcr_bytes_def)
  have "qwordAt 12 (mcr_bytes cmd) = mcr_regionSize cmd"
    using qwordAt_0 [of _ "[]"] by (simp add: mcr_bytes_def at_simps)
  moreover have "qwordAt 4 (mcr_bytes cmd) = mcr_address cmd"
    by (simp add: mcr_bytes_def at_simps)
  ultimately show "readPacket (mcr_bytes cmd) =
      Some [EvRegion (mcr_address cmd) (mcr_regionSize cmd)]"
    by (simp add: readPacket_simps h)
qed

lemma joinDwords_split [simp]: "joinDwords (ucast a) (ucast (drop_bit 32 a)) = a"
  for a :: u64
  by (simp add: joinDwords_def qword_join)

lemma encodes_version:
  assumes hdr: "ver_Header cmd = memtraceHeader 0xe 5"
    and len: "length (ver_deviceAbbreviation cmd) = 8" "length (ver_commandLine cmd) = 4"
  shows "encodes (ver_bytes cmd)
    [EvVersion (ucast (ver_stepping cmd)) (ucast (ver_device cmd)) (ucast (ver_recordingMethod cmd))
       (ucast (ver_captureTool cmd)) (ver_deviceAbbreviation cmd) (ver_commandLine cmd)]"
proof (rule encodes_packet)
  have h: "headerOf (ver_bytes cmd) = memtraceHeader 0xe 5"
    by (simp add: ver_bytes_def ver_headerBytes_def hdr)
  show "packetBytes (headerOf (ver_bytes cmd)) = length (ver_bytes cmd)"
    by (simp add: h) (simp add: ver_bytes_def ver_headerBytes_def len)
  have at: "take 8 (drop 12 (ver_bytes cmd)) = ver_deviceAbbreviation cmd"
    "dataOf ver_layout (ver_bytes cmd) = ver_commandLine cmd"
    by (simp_all add: ver_bytes_def ver_headerBytes_def dataOf_def len)
  have "unpackBits [3, 5, 8, 2, 2, 8, 4] (dwordAt 8 (ver_bytes cmd)) =
     [ucast (ver_metal cmd), ucast (ver_stepping cmd), ucast (ver_device cmd),
      ucast (ver_csxSwizzling cmd), ucast (ver_recordingMethod cmd), ucast (ver_pch cmd),
      ucast (ver_captureTool cmd)]"
    by (simp add: ver_bytes_def ver_headerBytes_def at_simps unpack_packBits_fields
        take_bit_ucast_full del: packBits.simps unpackBits.simps One_nat_def)
  then show "readPacket (ver_bytes cmd) = Some
    [EvVersion (ucast (ver_stepping cmd)) (ucast (ver_device cmd)) (ucast (ver_recordingMethod cmd))
       (ucast (ver_captureTool cmd)) (ver_deviceAbbreviation cmd) (ver_commandLine cmd)]"
    by (simp add: readPacket_simps h readVersion_def at del: unpackBits.simps One_nat_def)
qed

lemma encodes_dumpCompress:
  assumes hdr: "dc_Header cmd = memtraceHeader 0x10 24"
  shows "encodes (dc_bytes cmd)
    [EvDumpSurface (dc_surfaceAddress cmd) (ucast (dc_gttType cmd)) (dc_directoryHandle cmd)]"
proof (rule encodes_packet)
  have h: "headerOf (dc_bytes cmd) = memtraceHeader 0x10 24"
    by (simp add: dc_bytes_def hdr)
  show "packetBytes (headerOf (dc_bytes cmd)) = length (dc_bytes cmd)"
    by (simp add: h) (simp add: dc_bytes_def del: packBits.simps)
  have at: "qwordAt 4 (dc_bytes cmd) = dc_surfaceAddress cmd"
    "dwordAt 88 (dc_bytes cmd) = dc_directoryHandle cmd"
    by (simp_all add: dc_bytes_def at_simps del: packBits.simps)
  have "unpackBits [2, 1, 29] (dwordAt 84 (dc_bytes cmd)) =
     [ucast (dc_gttType cmd), ucast (dc_clearColorType cmd), 0]"
    by (simp add: dc_bytes_def at_simps unpack_packBits_fields
        take_bit_ucast_full del: packBits.simps unpackBits.simps One_nat_def)
  then show "readPacket (dc_bytes cmd) = Some
    [EvDumpSurface (dc_surfaceAddress cmd) (ucast (dc_gttType cmd)) (dc_directoryHandle cmd)]"
    by (simp add: readPacket_simps h readDumpCompress_def at del: unpackBits.simps One_nat_def)
qed

text \<open>The header of the two records with opcode 1.\<close>

definition legacyHeader :: "7 word \<Rightarrow> u16 \<Rightarrow> AubCmdHdr" where
  "legacyHeader sub n = \<lparr>DwordLength = n, SubOp = sub, Opcode = 1, Type = 7\<rparr>"

lemma packetBytes_legacy [simp]: "packetBytes (legacyHeader sub n) = 4 * (unat n + 2)"
  by (simp add: packetBytes_def legacyHeader_def)

lemma matches_legacy [simp]: "l \<in> set allLayouts \<Longrightarrow> \<not> matchesHeader l (legacyHeader sub n)"
  by (simp add: matchesHeader_def legacyHeader_def layout_constants)

lemma isLegacy_legacy [simp]: "isLegacy s (legacyHeader sub n) \<longleftrightarrow> sub = s"
  by (simp add: isLegacy_def legacyHeader_def)

lemma qwordAt_list:
  "i < length qs \<Longrightarrow> qwordAt (8 * i) (concat (map qwordBytes qs)) = qs ! i"
proof (induction qs arbitrary: i)
  case (Cons q qs)
  then show ?case
    by (cases i) (simp_all add: at_simps)
qed simp

lemma concat_qwordBytes_length [simp]: "length (concat (map qwordBytes qs)) = 8 * length qs"
  by (induction qs) auto

lemma encodes_context:
  assumes hdr: "pcc_Header cmd = legacyHeader 0x14 9" and len: "length (pcc_PageDirPointer cmd) = 4"
  shows "encodes (pcc_bytes cmd)
    [EvContext (pcc_Handle cmd) (pcc_SixtyFourBit cmd \<noteq> 0) (pcc_PageDirPointer cmd)]"
proof (rule encodes_packet)
  have h: "headerOf (pcc_bytes cmd) = legacyHeader 0x14 9"
    by (simp add: pcc_bytes_def hdr)
  show "packetBytes (headerOf (pcc_bytes cmd)) = length (pcc_bytes cmd)"
    by (simp add: h) (simp add: pcc_bytes_def len)
  have at: "dwordAt 4 (pcc_bytes cmd) = pcc_Handle cmd"
    by (simp add: pcc_bytes_def at_simps)
  have ps: "map (\<lambda>i. qwordAt (12 + 8 * i) (pcc_bytes cmd)) [0..<4] = pcc_PageDirPointer cmd"
    by (rule nth_equalityI)
       (simp_all add: len pcc_bytes_def at_simps qwordAt_list del: upt_rec_numeral)
  have "unpackBits [1, 1, 30] (dwordAt 8 (pcc_bytes cmd)) =
     [ucast (pcc_AdvancedContext cmd), ucast (pcc_SixtyFourBit cmd), ucast (pcc_Reserved_31_2 cmd)]"
    by (simp add: pcc_bytes_def at_simps unpack_packBits_fields
        take_bit_ucast_full del: packBits.simps unpackBits.simps One_nat_def)
  moreover have "(ucast (pcc_SixtyFourBit cmd) :: u32) = 0 \<longleftrightarrow> pcc_SixtyFourBit cmd = 0"
    by (simp add: ucast_32_eq_0)
  ultimately show "readPacket (pcc_bytes cmd) = Some
    [EvContext (pcc_Handle cmd) (pcc_SixtyFourBit cmd \<noteq> 0) (pcc_PageDirPointer cmd)]"
    by (simp add: readPacket_simps h readContext_def at ps
        del: unpackBits.simps One_nat_def upt_rec_numeral)
qed

lemma encodes_dumpBin:
  assumes hdr: "cbd_Header cmd = legacyHeader 0x15 12" and len: "length (cbd_OutputFile cmd) = 4"
  shows "encodes (cbd_bytes cmd)
    [EvDumpBin (cbd_BaseAddr cmd) (cbd_Width cmd) (ucast (cbd_GttType cmd)) (cbd_DirectoryHandle cmd)]"
proof (rule encodes_packet)
  have h: "headerOf (cbd_bytes cmd) = legacyHeader 0x15 12"
    by (simp add: cbd_bytes_def hdr)
  show "packetBytes (headerOf (cbd_bytes cmd)) = length (cbd_bytes cmd)"
    by (simp add: h) (simp add: cbd_bytes_def len)
  have at: "qwordAt 4 (cbd_bytes cmd) = cbd_BaseAddr cmd"
    "qwordAt 12 (cbd_bytes cmd) = cbd_Width cmd"
    "dwordAt 40 (cbd_bytes cmd) = cbd_DirectoryHandle cmd"
    by (simp_all add: cbd_bytes_def at_simps)
  have "unpackBits [4, 2, 26] (dwordAt 36 (cbd_bytes cmd)) =
     [ucast (cbd_SurfaceType cmd), ucast (cbd_GttType cmd), ucast (cbd_Reserved_31_6 cmd)]"
    by (simp add: cbd_bytes_def at_simps unpack_packBits_fields
        take_bit_ucast_full del: packBits.simps unpackBits.simps One_nat_def)
  then show "readPacket (cbd_bytes cmd) = Some
    [EvDumpBin (cbd_BaseAddr cmd) (cbd_Width cmd) (ucast (cbd_GttType cmd)) (cbd_DirectoryHandle cmd)]"
    by (simp add: readPacket_simps h readDumpBin_def at del: unpackBits.simps One_nat_def)
qed

end
