(* ===== verification/AubFileStream.thy ===== *)
theory AubFileStream
  imports AubReader Walker
begin

text \<open>
  The file backend: \<^verbatim>\<open>aub_file_stream.h\<close> and \<^verbatim>\<open>aub_file_stream.cpp\<close>.  The standard file stream is
  modelled with its two error flags, the disk it writes to and the outcomes the operating system will
  give to the next operations; every operation of \<^verbatim>\<open>AubFileStream\<close> is a function from the stream to the
  stream it leaves behind or to the error it ends with.  Log messages are left out.
\<close>

section \<open>Standard file streams\<close>

text \<open>
  An operation of the system succeeds or fails with an error number; a failed write may have
  put the first bytes into the file.  When the script of outcomes is used up, operations succeed.
  As the standard prescribes, a write that fails sets the bad bit, a failed \<^verbatim>\<open>open\<close> or \<^verbatim>\<open>close\<close> the
  fail bit, and a successful \<^verbatim>\<open>open\<close> clears both.
\<close>

datatype IoOutcome = IoOk | IoError nat nat

record ofstream =
  of_isOpen :: bool
  of_bad :: bool
  of_fail :: bool
  of_name :: string
  of_disk :: "string \<Rightarrow> u8 list"
  of_errno :: nat
  of_outcomes :: "IoOutcome list"

definition EFAULT :: nat where "EFAULT = 14"

definition outcome :: "ofstream \<Rightarrow> IoOutcome" where
  "outcome f = (case of_outcomes f of [] \<Rightarrow> IoOk | x # xs \<Rightarrow> x)"

definition nextOutcome :: "ofstream \<Rightarrow> ofstream" where
  "nextOutcome f = f\<lparr>of_outcomes := tl (of_outcomes f)\<rparr>"

definition appendFile :: "u8 list \<Rightarrow> ofstream \<Rightarrow> ofstream" where
  "appendFile bs f = f\<lparr>of_disk := (of_disk f)(of_name f := of_disk f (of_name f) @ bs)\<rparr>"

definition ofs_write :: "u8 list \<Rightarrow> ofstream \<Rightarrow> ofstream" where
  "ofs_write bs f =
     (if of_bad f \<or> of_fail f then f\<lparr>of_fail := True\<rparr>
      else if \<not> of_isOpen f then f\<lparr>of_bad := True\<rparr>
      else case outcome f of
             IoOk \<Rightarrow> appendFile bs (nextOutcome f)
           | IoError e n \<Rightarrow> (appendFile (take n bs) (nextOutcome f))\<lparr>of_bad := True, of_errno := e\<rparr>)"

definition ofs_flush :: "ofstream \<Rightarrow> ofstream" where
  "ofs_flush f =
     (if of_bad f \<or> of_fail f \<or> \<not> of_isOpen f then f
      else case outcome f of
             IoOk \<Rightarrow> nextOutcome f
           | IoError e n \<Rightarrow> (nextOutcome f)\<lparr>of_bad := True, of_errno := e\<rparr>)"

definition ofs_clear :: "ofstream \<Rightarrow> ofstream" where
  "ofs_clear f = f\<lparr>of_bad := False, of_fail := False\<rparr>"

definition ofs_close :: "ofstream \<Rightarrow> ofstream" where
  "ofs_close f =
     (if \<not> of_isOpen f then f\<lparr>of_fail := True\<rparr>
      else case outcome f of
             IoOk \<Rightarrow> (nextOutcome f)\<lparr>of_isOpen := False\<rparr>
           | IoError e n \<Rightarrow> (nextOutcome f)\<lparr>of_isOpen := False, of_fail := True, of_errno := e\<rparr>)"

definition ofs_open :: "string \<Rightarrow> bool \<Rightarrow> ofstream \<Rightarrow> ofstream" where
  "ofs_open name app f =
     (if of_isOpen f then f\<lparr>of_fail := True\<rparr>
      else case outcome f of
             IoOk \<Rightarrow> ofs_clear ((nextOutcome f)\<lparr>of_isOpen := True, of_name := name,
               of_disk := (if app then of_disk f else (of_disk f)(name := []))\<rparr>)
           | IoError e n \<Rightarrow> (nextOutcome f)\<lparr>of_fail := True, of_errno := e\<rparr>)"

section \<open>\<^verbatim>\<open>FileHandleWrapper\<close>\<close>

record FileHandleWrapper =
  fh_file :: ofstream
  fh_throwOnError :: bool

definition newline :: string where
  "newline = [CHR 0x0A]"

definition fh_check :: "string \<Rightarrow> FileHandleWrapper \<Rightarrow> (bool \<times> FileHandleWrapper) result" where
  "fh_check message h =
     (if of_bad (fh_file h)
      then if fh_throwOnError h then Inl (RuntimeError message) else Inr (False, h)
      else Inr (True, h))"

definition fh_write :: "u8 list \<Rightarrow> FileHandleWrapper \<Rightarrow> (bool \<times> FileHandleWrapper) result" where
  "fh_write bs h =
     fh_check (''write() to file failed'' @ newline) (h\<lparr>fh_file := ofs_write bs (fh_file h)\<rparr>)"

definition fh_flush :: "FileHandleWrapper \<Rightarrow> (bool \<times> FileHandleWrapper) result" where
  "fh_flush h =
     fh_check (''flush() to file failed'' @ newline) (h\<lparr>fh_file := ofs_flush (fh_file h)\<rparr>)"

definition fh_clear :: "FileHandleWrapper \<Rightarrow> FileHandleWrapper" where
  "fh_clear h = h\<lparr>fh_file := ofs_clear (fh_file h)\<rparr>"

definition fh_close :: "FileHandleWrapper \<Rightarrow> (bool \<times> FileHandleWrapper) result" where
  "fh_close h = fh_check (''close() file failed'' @ newline) (h\<lparr>fh_file := ofs_close (fh_file h)\<rparr>)"

definition fh_open :: "string \<Rightarrow> bool \<Rightarrow> FileHandleWrapper \<Rightarrow> (bool \<times> FileHandleWrapper) result" where
  "fh_open name app h =
     fh_check (''open() file failed'' @ newline) (h\<lparr>fh_file := ofs_open name app (fh_file h)\<rparr>)"

section \<open>\<^verbatim>\<open>AubFileStream\<close>\<close>

record AubFileStream =
  afs_fileHandle :: FileHandleWrapper
  afs_fileName :: string
  afs_tmpWriteBuffer :: "u8 list"
  afs_dumpBinSupported :: bool
  afs_dumpSurfaceSupported :: bool

abbreviation afs_file :: "AubFileStream \<Rightarrow> ofstream" where
  "afs_file s \<equiv> fh_file (afs_fileHandle s)"

definition newAubFileStream :: "(string \<Rightarrow> u8 list) \<Rightarrow> IoOutcome list \<Rightarrow> AubFileStream" where
  "newAubFileStream disk outcomes = \<lparr>afs_fileHandle = \<lparr>fh_file = \<lparr>of_isOpen = False, of_bad = False,
     of_fail = False, of_name = [], of_disk = disk, of_errno = 0, of_outcomes = outcomes\<rparr>,
     fh_throwOnError = False\<rparr>, afs_fileName = [], afs_tmpWriteBuffer = [],
     afs_dumpBinSupported = False, afs_dumpSurfaceSupported = False\<rparr>"

definition enableThrowOnError :: "bool \<Rightarrow> AubFileStream \<Rightarrow> AubFileStream" where
  "enableThrowOnError enabled s =
     s\<lparr>afs_fileHandle := (afs_fileHandle s)\<lparr>fh_throwOnError := enabled\<rparr>\<rparr>"

definition isOpen :: "AubFileStream \<Rightarrow> bool" where
  "isOpen s = of_isOpen (afs_file s)"

text \<open>The fallback of \<^verbatim>\<open>write\<close> when the kernel could not read the buffer.\<close>

definition retryWrite :: "u8 list \<Rightarrow> AubFileStream \<Rightarrow> AubFileStream result" where
  "retryWrite bs s =
     bindR (fh_close (fh_clear (afs_fileHandle s))) (\<lambda>(_, h).
     bindR (fh_open (afs_fileName s) True h) (\<lambda>(opened, h).
       if \<not> opened then Inr (s\<lparr>afs_fileHandle := h\<rparr>)
       else bindR (fh_write bs h) (\<lambda>(_, h). Inr (s\<lparr>afs_fileHandle := h\<rparr>))))"

definition afs_write :: "u8 list \<Rightarrow> AubFileStream \<Rightarrow> AubFileStream result" where
  "afs_write bs s =
     (if \<not> isOpen s then Inr (s\<lparr>afs_tmpWriteBuffer := afs_tmpWriteBuffer s @ bs\<rparr>)
      else if bs = [] then Inl AssertionFailure
      else bindR (fh_write bs (afs_fileHandle s)) (\<lambda>(_, h).
        let s = s\<lparr>afs_fileHandle := h\<rparr>
        in if of_bad (fh_file h) \<and> of_errno (fh_file h) = EFAULT then retryWrite bs s else Inr s))"

definition flush :: "AubFileStream \<Rightarrow> AubFileStream result" where
  "flush s = bindR (fh_flush (afs_fileHandle s)) (\<lambda>(_, h). Inr (s\<lparr>afs_fileHandle := h\<rparr>))"

definition open_file :: "string \<Rightarrow> AubFileStream \<Rightarrow> AubFileStream result" where
  "open_file name s =
     bindR (fh_open name False (afs_fileHandle s)) (\<lambda>(_, h).
     assertR (of_isOpen (fh_file h)) (Inr (s\<lparr>afs_fileHandle := h, afs_fileName := name\<rparr>)))"

definition close_file :: "AubFileStream \<Rightarrow> AubFileStream result" where
  "close_file s = bindR (fh_close (afs_fileHandle s)) (\<lambda>(_, h).
     Inr (s\<lparr>afs_fileHandle := h, afs_fileName := []\<rparr>))"

definition deleteAubFileStream :: "AubFileStream \<Rightarrow> AubFileStream result" where
  "deleteAubFileStream s =
     (if isOpen s then bindR (fh_close (afs_fileHandle s)) (\<lambda>(_, h). Inr (s\<lparr>afs_fileHandle := h\<rparr>))
      else Inr s)"

text \<open>\<^verbatim>\<open>memory\<close> is a pointer to a buffer; reading past its end is undefined.\<close>

definition readBuffer :: "u8 list \<Rightarrow> nat \<Rightarrow> nat \<Rightarrow> u8 list result" where
  "readBuffer memory off n =
     (if off + n \<le> length memory then Inr (take n (drop off memory)) else Inl IndexOutOfRange)"

text \<open>The zero bytes that fill up the last dword.\<close>

definition writePadding :: "nat \<Rightarrow> AubFileStream \<Rightarrow> AubFileStream result" where
  "writePadding n s = (let remainder = n mod 4
     in if remainder \<noteq> 0 then afs_write (replicate (4 - remainder) 0) s else Inr s)"

subsection \<open>Comments\<close>

definition maxMessageBytesPerRecord :: nat where
  "maxMessageBytesPerRecord = (65535 - 1) * 4"

definition commentHeader :: "nat \<Rightarrow> CmdServicesMemTraceComment" where
  "commentHeader chunkBytes = (let dwordLen = (chunkBytes + 4 - 1) div 4
     in cm_zero\<lparr>cm_Header := (setHeader cm_layout AubCmdHdr_zero)\<lparr>DwordLength := word_of_nat (dwordLen + 1)\<rparr>,
          cm_syncOnComment := 0, cm_syncOnSimulatorDisplay := 0\<rparr>)"

definition commentRecord :: "u8 list \<Rightarrow> AubFileStream \<Rightarrow> AubFileStream result" where
  "commentRecord chunk s =
     bindR (afs_write (cm_headerBytes (commentHeader (length chunk))) s) (\<lambda>s.
     bindR (afs_write chunk s) (\<lambda>s. writePadding (length chunk) s))"

text \<open>\<open>cursor\<close> is the rest of the message with its terminating zero: \<^verbatim>\<open>remaining\<close> bytes.\<close>

function addComment_loop :: "u8 list \<Rightarrow> AubFileStream \<Rightarrow> AubFileStream result" where
  "addComment_loop cursor s =
     (let chunkBytes = min (length cursor) maxMessageBytesPerRecord;
          rest = drop chunkBytes cursor
      in bindR (commentRecord (take chunkBytes cursor) s) (\<lambda>s.
           if 0 < length rest then addComment_loop rest s else Inr s))"
  by auto
termination
  by (relation "measure (\<lambda>(cursor, s). length cursor)") (auto simp: maxMessageBytesPerRecord_def)

definition addComment :: "string \<Rightarrow> AubFileStream \<Rightarrow> AubFileStream result" where
  "addComment message s = bindR (addComment_loop (takeWhile (\<lambda>b. b \<noteq> 0) (charBytes message) @ [0]) s) flush"

subsection \<open>Records for the dump tools\<close>

definition childAddress :: "PageTable \<Rightarrow> nat \<Rightarrow> u64" where
  "childAddress ppgtt i = (case getChild ppgtt i of Some entry \<Rightarrow> pt_physicalAddress entry | None \<Rightarrow> 0)"

definition legacyHdr :: "7 word \<Rightarrow> nat \<Rightarrow> AubCmdHdr" where
  "legacyHdr subOp sizeOfCmd =
     \<lparr>DwordLength = word_of_nat ((sizeOfCmd - 4) div 4 - 1), SubOp = subOp, Opcode = 0x1, Type = 0x7\<rparr>"

definition contextCreate :: "u32 \<Rightarrow> PageTable \<Rightarrow> AubPpgttContextCreate" where
  "contextCreate handleDumpContext ppgtt =
     (let sixtyFourBit = 48 \<le> getNumAddressBits (pt_kind ppgtt)
      in pcc_zero\<lparr>pcc_Header := legacyHdr 0x14 44, pcc_Handle := handleDumpContext,
           pcc_AdvancedContext := 0, pcc_SixtyFourBit := (if sixtyFourBit then 1 else 0),
           pcc_PageDirPointer :=
             (if sixtyFourBit then [pt_physicalAddress ppgtt, 0, 0, 0]
              else [childAddress ppgtt 0, childAddress ppgtt 1, childAddress ppgtt 2,
                    childAddress ppgtt 3])\<rparr>)"

definition declareContextForDumping ::
  "u32 \<Rightarrow> PageTable \<Rightarrow> AubFileStream \<Rightarrow> AubFileStream result" where
  "declareContextForDumping handleDumpContext ppgtt s =
     bindR (afs_write (pcc_bytes (contextCreate handleDumpContext ppgtt)) s) flush"

definition binaryDump :: "u32 \<Rightarrow> u64 \<Rightarrow> usize \<Rightarrow> u32 \<Rightarrow> AubCaptureBinaryDumpHD" where
  "binaryDump gttType gfxAddress sz handleDumpContext =
     cbd_zero\<lparr>cbd_Header := legacyHdr 0x15 56, cbd_Height := 1, cbd_Width := sz,
       cbd_BaseAddr := gfxAddress, cbd_Pitch := sz, cbd_GttType := ucast gttType,
       cbd_DirectoryHandle := handleDumpContext\<rparr>"

definition dumpBufferBIN ::
  "u32 \<Rightarrow> u64 \<Rightarrow> usize \<Rightarrow> u32 \<Rightarrow> AubFileStream \<Rightarrow> AubFileStream result" where
  "dumpBufferBIN gttType gfxAddress sz handleDumpContext s =
     (if \<not> afs_dumpBinSupported s then Inr s
      else bindR (afs_write (cbd_bytes (binaryDump gttType gfxAddress sz handleDumpContext)) s) flush)"

record SurfaceInfo =
  si_address :: u64
  si_width :: u32
  si_height :: u32
  si_pitch :: u32
  si_format :: u32
  si_surftype :: u32
  si_tilingType :: u32
  si_compressed :: bool
  si_dumpType :: u32
  si_useClearValue :: bool
  si_clearColorType :: u32
  si_auxEncodingFormat :: u32
  si_auxSurfaceWidth :: u32
  si_auxSurfaceHeight :: u32
  si_auxSurfacePitch :: u32
  si_auxSurfaceQPitch :: u32
  si_auxSurfaceTilingType :: u32
  si_clearColorAddress :: u64
  si_auxSurfaceAddress :: u64

definition dumpCompress :: "u32 \<Rightarrow> SurfaceInfo \<Rightarrow> u32 \<Rightarrow> CmdServicesMemTraceDumpCompress" where
  "dumpCompress gttType surfaceInfo handleDumpContext =
     (let cmd = dc_zero\<lparr>
            dc_Header := \<lparr>DwordLength = (100 - 1) div 4, SubOp = 0x10, Opcode = 0x2e, Type = 0x7\<rparr>,
            dc_surfaceAddress := si_address surfaceInfo,
            dc_surfaceWidth := si_width surfaceInfo, dc_surfaceHeight := si_height surfaceInfo,
            dc_surfacePitch := si_pitch surfaceInfo, dc_surfaceFormat := ucast (si_format surfaceInfo),
            dc_surfaceTilingType := ucast (si_tilingType surfaceInfo),
            dc_surfaceType := ucast (si_surftype surfaceInfo)\<rparr>;
          cmd = (if si_compressed surfaceInfo then cmd\<lparr>dc_algorithm := 2, dc_mode := 1\<rparr>
                 else cmd\<lparr>dc_algorithm := 4\<rparr>)
      in cmd\<lparr>dc_dumpType := ucast (si_dumpType surfaceInfo), dc_gttType := ucast gttType,
            dc_directoryHandle := handleDumpContext,
            dc_useClearValue := (if si_useClearValue surfaceInfo then 1 else 0),
            dc_clearColorType := ucast (si_clearColorType surfaceInfo),
            dc_clearColorAddress := si_clearColorAddress surfaceInfo,
            dc_auxSurfaceAddress := si_auxSurfaceAddress surfaceInfo,
            dc_auxSurfaceWidth := si_auxSurfaceWidth surfaceInfo,
            dc_auxSurfaceHeight := si_auxSurfaceHeight surfaceInfo,
            dc_auxSurfacePitch := si_auxSurfacePitch surfaceInfo,
            dc_auxSurfaceQPitch := ucast (si_auxSurfaceQPitch surfaceInfo),
            dc_auxSurfaceTilingType := ucast (si_auxSurfaceTilingType surfaceInfo),
            dc_auxEncodingFormat := ucast (si_auxEncodingFormat surfaceInfo)\<rparr>)"

definition dumpSurface ::
  "u32 \<Rightarrow> SurfaceInfo \<Rightarrow> u32 \<Rightarrow> AubFileStream \<Rightarrow> AubFileStream result" where
  "dumpSurface gttType surfaceInfo handleDumpContext s =
     (if \<not> afs_dumpSurfaceSupported s then Inr s
      else bindR (afs_write (dc_bytes (dumpCompress gttType surfaceInfo handleDumpContext)) s) flush)"

subsection \<open>Initialisation\<close>

text \<open>The families of \<^verbatim>\<open>gfx_core_family.h\<close> and the callers of \<^verbatim>\<open>aubstream.h\<close>.\<close>

definition CoreFamily_XeHpCore :: u32 where "CoreFamily_XeHpCore = 4"
definition CoreFamily_XeHpgCore :: u32 where "CoreFamily_XeHpgCore = 5"

definition getHeaderStr :: "u32 \<Rightarrow> u8 list \<Rightarrow> u8 list" where
  "getHeaderStr caller header =
     (let s = (if caller = 1 then ''RLR'' else if caller = 2 then ''RLC'' else if caller = 3 then ''RLL''
               else if caller = 4 then ''RL'' else if caller = 0 then ''NEO'' else ''UNK'');
          bs = charBytes s @ [0]
      in bs @ drop (length bs) header)"

definition versionRecord :: "u32 \<Rightarrow> int \<Rightarrow> 'z Gpu_scheme \<Rightarrow> CmdServicesMemTraceVersion" where
  "versionRecord caller stepping gpu =
     (let abbreviation8 = take 8 (charBytes (gpu_productAbbreviation gpu))
      in ver_zero\<lparr>
           ver_Header := (setHeader ver_layout AubCmdHdr_zero)\<lparr>DwordLength := 24 div 4 - 1\<rparr>,
           ver_stepping := of_int stepping, ver_metal := 0, ver_device := ucast (gpu_deviceId gpu),
           ver_csxSwizzling := 0, ver_recordingMethod := 1, ver_pch := 0, ver_captureTool := 5,
           ver_deviceAbbreviation :=
             (if gpu_deviceId gpu = 0
              then abbreviation8 @ replicate (8 - length abbreviation8) 0 else replicate 8 0),
           ver_commandLine := getHeaderStr caller (replicate 4 0)\<rparr>)"

definition writeTmpBuffer :: "AubFileStream \<Rightarrow> AubFileStream result" where
  "writeTmpBuffer s =
     (if 0 < length (afs_tmpWriteBuffer s)
      then bindR (afs_write (afs_tmpWriteBuffer s) s) (\<lambda>s. Inr (s\<lparr>afs_tmpWriteBuffer := []\<rparr>))
      else Inr s)"

definition afs_init ::
  "u32 \<Rightarrow> int \<Rightarrow> 'z Gpu_scheme \<Rightarrow> AubFileStream \<Rightarrow> AubFileStream result" where
  "afs_init aubStreamCaller stepping gpu s =
     (let supported = CoreFamily_XeHpCore \<le> gpu_gfxCoreFamily gpu
            \<and> gpu_gfxCoreFamily gpu \<le> CoreFamily_XeHpgCore;
          s = s\<lparr>afs_dumpBinSupported := supported, afs_dumpSurfaceSupported := supported\<rparr>
      in bindR (afs_write (ver_bytes (versionRecord aubStreamCaller stepping gpu)) s) (\<lambda>s.
         bindR (writeTmpBuffer s) flush))"

subsection \<open>Expecting and reserving memory\<close>

definition addressSpaceOf :: "bool \<Rightarrow> int" where
  "addressSpaceOf isLocal = addressSpaceValue (if isLocal then TraceLocal else TraceNonlocal)"

definition compareRecord :: "PageInfo \<Rightarrow> bool \<Rightarrow> u32 \<Rightarrow> CmdServicesMemTraceMemoryCompare" where
  "compareRecord entry isLast compareOperation =
     (let dwordCount = (20 + pi_size entry + 4 - 1) div 4
      in mc_zero\<lparr>mc_Header := (setHeader mc_layout AubCmdHdr_zero)\<lparr>DwordLength := ucast (dwordCount - 1)\<rparr>,
           mc_address := ucast (pi_physicalAddress entry),
           mc_addressHigh := ucast (drop_bit 32 (pi_physicalAddress entry)),
           mc_noReadExpect := 0, mc_repeatMemory := 0, mc_tiling := 0, mc_crcCompare := 0,
           mc_compareOperation := ucast compareOperation, mc_dataTypeHint := 0,
           mc_addressSpace := of_int (addressSpaceOf (pi_isLocalMemory entry)),
           mc_deferCompareEvaluation := (if isLast \<or> compareOperation = 0 then 0 else 1),
           mc_dataSizeInBytes := ucast (pi_size entry)\<rparr>)"

fun expectMemoryTable_loop ::
  "u8 list \<Rightarrow> usize \<Rightarrow> PageInfo list \<Rightarrow> u32 \<Rightarrow> AubFileStream \<Rightarrow> (usize \<times> AubFileStream) result" where
  "expectMemoryTable_loop memory sizeWritten [] compareOperation s = Inr (sizeWritten, s)"
| "expectMemoryTable_loop memory sizeWritten (entry # entries) compareOperation s =
     (let n = unat (pi_size entry)
      in bindR (afs_write (mc_headerBytes (compareRecord entry (entries = []) compareOperation)) s) (\<lambda>s.
         bindR (readBuffer memory 0 n) (\<lambda>bs.
         bindR (afs_write bs s) (\<lambda>s.
         bindR (writePadding n s) (\<lambda>s.
           expectMemoryTable_loop (drop n memory) (sizeWritten + pi_size entry) entries
             compareOperation s)))))"

definition expectMemoryTable ::
  "u8 list \<Rightarrow> usize \<Rightarrow> PageInfo list \<Rightarrow> u32 \<Rightarrow> AubFileStream \<Rightarrow> AubFileStream result" where
  "expectMemoryTable memory sz entries compareOperation s =
     bindR (expectMemoryTable_loop memory 0 entries compareOperation s) (\<lambda>(sizeWritten, s).
     bindR (flush s) (\<lambda>s. assertR (sizeWritten = sz) (Inr s)))"

definition regionRecord :: "u64 \<Rightarrow> CmdServicesMemTraceMemoryContinuousRegion" where
  "regionRecord page = mcr_zero\<lparr>
     mcr_Header := (setHeader mcr_layout AubCmdHdr_zero)\<lparr>DwordLength := 20 div 4 - 1\<rparr>,
     mcr_regionSize := 0x10000, mcr_address := page\<rparr>"

fun reserveContiguousPages_loop :: "u64 list \<Rightarrow> AubFileStream \<Rightarrow> AubFileStream result" where
  "reserveContiguousPages_loop [] s = Inr s"
| "reserveContiguousPages_loop (page # pages) s =
     bindR (afs_write (mcr_bytes (regionRecord page)) s) (reserveContiguousPages_loop pages)"

definition reserveContiguousPages :: "u64 list \<Rightarrow> AubFileStream \<Rightarrow> AubFileStream result" where
  "reserveContiguousPages entries s = bindR (reserveContiguousPages_loop entries s) flush"

subsection \<open>Contiguous writes\<close>

text \<open>The header has 20 bytes; the count of dwords must fit into 16 bits.\<close>

definition maxDwordCount :: nat where
  "maxDwordCount = 65535"

definition maxChunkSize :: nat where
  "maxChunkSize = (maxDwordCount - 20 div 4) * 4"

definition memoryWriteHeader :: "nat \<Rightarrow> u64 \<Rightarrow> int \<Rightarrow> int \<Rightarrow> nat \<Rightarrow> CmdServicesMemTraceMemoryWrite" where
  "memoryWriteHeader dwordCount address addressSpace hint chunkSize = mw_zero\<lparr>
     mw_Header := (setHeader mw_layout AubCmdHdr_zero)\<lparr>DwordLength := word_of_nat (dwordCount - 1)\<rparr>,
     mw_address := address, mw_repeatMemory := 0, mw_tiling := 0, mw_dataTypeHint := of_int hint,
     mw_addressSpace := of_int addressSpace, mw_dataSizeInBytes := word_of_nat chunkSize\<rparr>"

definition writeChunk ::
  "u8 list \<Rightarrow> nat \<Rightarrow> u64 \<Rightarrow> int \<Rightarrow> int \<Rightarrow> AubFileStream \<Rightarrow> AubFileStream result" where
  "writeChunk memory chunkSize address addressSpace hint s =
     (let alignedBlockSize = (chunkSize + 4 - 1) div 4 * 4;
          dwordCount = (20 + alignedBlockSize) div 4
      in assertR (dwordCount \<le> maxDwordCount)
        (bindR (afs_write (mw_headerBytes
                 (memoryWriteHeader dwordCount address addressSpace hint chunkSize)) s) (\<lambda>s.
         bindR (readBuffer memory 0 chunkSize) (\<lambda>bs.
         bindR (afs_write bs s) (\<lambda>s. writePadding chunkSize s)))))"

function writeContiguousPages_loop ::
  "u8 list \<Rightarrow> nat \<Rightarrow> u64 \<Rightarrow> int \<Rightarrow> int \<Rightarrow> AubFileStream \<Rightarrow> AubFileStream result" where
  "writeContiguousPages_loop memory remainingSize address addressSpace hint s =
     (if 0 < remainingSize
      then let chunkSize = min remainingSize maxChunkSize
           in bindR (writeChunk memory chunkSize address addressSpace hint s) (\<lambda>s.
                writeContiguousPages_loop (drop chunkSize memory) (remainingSize - chunkSize)
                  (address + word_of_nat chunkSize) addressSpace hint s)
      else Inr s)"
  by auto
termination
  by (relation "measure (\<lambda>(memory, remainingSize, rest). remainingSize)")
     (auto simp: maxChunkSize_def maxDwordCount_def)

definition writeContiguousPages ::
  "u8 list \<Rightarrow> usize \<Rightarrow> u64 \<Rightarrow> int \<Rightarrow> int \<Rightarrow> AubFileStream \<Rightarrow> AubFileStream result" where
  "writeContiguousPages memory sz physAddress addressSpace hint s =
     assertR (0 < maxChunkSize)
       (bindR (writeContiguousPages_loop memory (unat sz) physAddress addressSpace hint s) flush)"

declare addComment_loop.simps [simp del] writeContiguousPages_loop.simps [simp del]

subsection \<open>Discontiguous writes of pages\<close>

text \<open>
  The locals of \<^verbatim>\<open>writeDiscontiguousPages\<close> that its loop changes.  The iterators \<^verbatim>\<open>itorCurrent\<close> and
  \<^verbatim>\<open>itorDumpStart\<close> are the lists of the pages behind them, \<^verbatim>\<open>ptr\<close> and \<^verbatim>\<open>ptrDump\<close> offsets into \<^verbatim>\<open>memory\<close>.
\<close>

record dw_state =
  dw_cmd :: CmdServicesMemTraceMemoryWriteDiscontiguous
  dw_index :: nat
  dw_writtenSize :: usize
  dw_pending :: "PageInfo list"
  dw_ptrDump :: nat
  dw_ptr :: nat
  dw_stream :: AubFileStream

definition unaligned4 :: "u64 \<Rightarrow> bool" where
  "unaligned4 x \<longleftrightarrow> x AND 3 \<noteq> 0"

definition maxEntries :: nat where
  "maxEntries = 63"

text \<open>The header has 764 bytes.\<close>

definition headerDwordCount :: nat where
  "headerDwordCount = 764 div 4 - 1"

definition maxDataDwordCount :: nat where
  "maxDataDwordCount = maxDwordCount - headerDwordCount"

definition discontiguousZero :: "int \<Rightarrow> int \<Rightarrow> CmdServicesMemTraceMemoryWriteDiscontiguous" where
  "discontiguousZero addressSpace hint = mwd_zero\<lparr>
     mwd_Header := (setHeader mwd_layout AubCmdHdr_zero)\<lparr>DwordLength := 0\<rparr>,
     mwd_frontDoorAccess := 0, mwd_repeatMemory := 0, mwd_tiling := 0,
     mwd_dataTypeHint := of_int hint, mwd_addressSpace := of_int addressSpace\<rparr>"

abbreviation cmdDwordCount :: "CmdServicesMemTraceMemoryWriteDiscontiguous \<Rightarrow> nat" where
  "cmdDwordCount cmd \<equiv> unat (DwordLength (mwd_Header cmd))"

definition setDwordCount ::
  "nat \<Rightarrow> CmdServicesMemTraceMemoryWriteDiscontiguous \<Rightarrow> CmdServicesMemTraceMemoryWriteDiscontiguous" where
  "setDwordCount n cmd = cmd\<lparr>mwd_Header := (mwd_Header cmd)\<lparr>DwordLength := word_of_nat n\<rparr>\<rparr>"

text \<open>\<open>pending\<close> is the list of the pages from \<^verbatim>\<open>itorDumpStart\<close> up to \<^verbatim>\<open>itorCurrent\<close>.\<close>

fun dumpPending ::
  "u8 list \<Rightarrow> bool \<Rightarrow> PageInfo list \<Rightarrow> nat \<Rightarrow> AubFileStream \<Rightarrow> (nat \<times> AubFileStream) result" where
  "dumpPending memory isLocal [] ptrDump s = Inr (ptrDump, s)"
| "dumpPending memory isLocal (page # pending) ptrDump s =
     (let n = unat (pi_size page);
          plain = (\<not> unaligned4 (pi_size page) \<and> \<not> unaligned4 (pi_physicalAddress page)
                   \<and> isLocal = pi_isLocalMemory page)
      in bindR (if plain then bindR (readBuffer memory ptrDump n) (\<lambda>bs. afs_write bs s) else Inr s)
           (dumpPending memory isLocal pending (ptrDump + n)))"

definition flushDiscontiguousToken :: "u8 list \<Rightarrow> bool \<Rightarrow> dw_state \<Rightarrow> dw_state result" where
  "flushDiscontiguousToken memory isLocal d =
     (if dw_index d = 0 then Inr d
      else let cmd = (dw_cmd d)\<lparr>mwd_numberOfAddressDataPairs := word_of_nat (dw_index d)\<rparr>
           in bindR (afs_write (mwd_headerBytes cmd) (dw_stream d)) (\<lambda>s.
              bindR (dumpPending memory isLocal (dw_pending d) (dw_ptrDump d) s) (\<lambda>(ptrDump, s).
              Inr (d\<lparr>dw_cmd := setDwordCount 0 cmd, dw_index := 0, dw_pending := [],
                     dw_ptrDump := ptrDump, dw_stream := s\<rparr>))))"

definition alignedDwords :: "usize \<Rightarrow> u32" where
  "alignedDwords sz = ucast (((sz + 4 - 1) AND NOT (4 - 1)) div 4)"

definition needsContiguous :: "bool \<Rightarrow> PageInfo \<Rightarrow> bool" where
  "needsContiguous isLocal page \<longleftrightarrow>
     unaligned4 (pi_size page) \<or> unaligned4 (pi_physicalAddress page)
     \<or> isLocal \<noteq> pi_isLocalMemory page \<or> maxDataDwordCount < unat (alignedDwords (pi_size page))"

text \<open>The branch that leaves the token: the page is written on its own.\<close>

definition writeAlone :: "u8 list \<Rightarrow> bool \<Rightarrow> int \<Rightarrow> PageInfo \<Rightarrow> dw_state \<Rightarrow> dw_state result" where
  "writeAlone memory isLocal hint page d =
     bindR (flushDiscontiguousToken memory isLocal d) (\<lambda>d.
     bindR (writeContiguousPages (drop (dw_ptr d) memory) (pi_size page) (pi_physicalAddress page)
              (addressSpaceOf (pi_isLocalMemory page)) hint (dw_stream d)) (\<lambda>s.
     let ptr = dw_ptr d + unat (pi_size page)
     in Inr (d\<lparr>dw_ptr := ptr, dw_ptrDump := ptr, dw_pending := [],
               dw_writtenSize := dw_writtenSize d + pi_size page, dw_stream := s\<rparr>)))"

definition startToken :: "dw_state \<Rightarrow> dw_state result" where
  "startToken d =
     (if cmdDwordCount (dw_cmd d) = 0
      then assertR (dw_pending d = []) (assertR (dw_ptrDump d = dw_ptr d)
             (Inr (d\<lparr>dw_cmd := setDwordCount headerDwordCount (dw_cmd d), dw_index := 0\<rparr>)))
      else Inr d)"

definition makeRoom :: "u8 list \<Rightarrow> bool \<Rightarrow> nat \<Rightarrow> dw_state \<Rightarrow> dw_state result" where
  "makeRoom memory isLocal dwordCount d =
     (if maxEntries \<le> dw_index d \<or> maxDwordCount < dwordCount + cmdDwordCount (dw_cmd d)
      then bindR (flushDiscontiguousToken memory isLocal d) (\<lambda>d.
           assertR (dw_pending d = []) (assertR (dw_ptrDump d = dw_ptr d)
             (Inr (d\<lparr>dw_cmd := setDwordCount headerDwordCount (dw_cmd d)\<rparr>))))
      else Inr d)"

definition setPair ::
  "nat \<Rightarrow> u64 \<Rightarrow> u32 \<Rightarrow> CmdServicesMemTraceMemoryWriteDiscontiguous \<Rightarrow>
   CmdServicesMemTraceMemoryWriteDiscontiguous" where
  "setPair index address dataSizeInBytes cmd =
     cmd\<lparr>mwd_Dword_2_To_190 := (mwd_Dword_2_To_190 cmd)[index := (address, dataSizeInBytes)]\<rparr>"

definition storePair :: "nat \<Rightarrow> PageInfo \<Rightarrow> dw_state \<Rightarrow> dw_state result" where
  "storePair dwordCount page d =
     (if dw_index d < length (mwd_Dword_2_To_190 (dw_cmd d))
      then let cmd = setPair (dw_index d) (pi_physicalAddress page) (ucast (pi_size page)) (dw_cmd d)
           in Inr (d\<lparr>dw_cmd := setDwordCount (cmdDwordCount cmd + dwordCount) cmd,
                  dw_index := dw_index d + 1, dw_ptr := dw_ptr d + unat (pi_size page),
                  dw_writtenSize := dw_writtenSize d + pi_size page,
                  dw_pending := dw_pending d @ [page]\<rparr>)
      else Inl IndexOutOfRange)"

definition dw_step :: "u8 list \<Rightarrow> bool \<Rightarrow> int \<Rightarrow> PageInfo \<Rightarrow> dw_state \<Rightarrow> dw_state result" where
  "dw_step memory isLocal hint page d =
     (let dwordCount = unat (alignedDwords (pi_size page))
      in if needsContiguous isLocal page then writeAlone memory isLocal hint page d
         else bindR (startToken d) (\<lambda>d.
              bindR (makeRoom memory isLocal dwordCount d) (storePair dwordCount page)))"

fun dw_loop :: "u8 list \<Rightarrow> bool \<Rightarrow> int \<Rightarrow> PageInfo list \<Rightarrow> dw_state \<Rightarrow> dw_state result" where
  "dw_loop memory isLocal hint [] d = Inr d"
| "dw_loop memory isLocal hint (page # pages) d =
     bindR (dw_step memory isLocal hint page d) (dw_loop memory isLocal hint pages)"

definition dw_start :: "bool \<Rightarrow> int \<Rightarrow> AubFileStream \<Rightarrow> dw_state" where
  "dw_start isLocal hint s = \<lparr>dw_cmd = discontiguousZero (addressSpaceOf isLocal) hint, dw_index = 0,
     dw_writtenSize = 0, dw_pending = [], dw_ptrDump = 0, dw_ptr = 0, dw_stream = s\<rparr>"

definition writeDiscontiguousPages ::
  "u8 list \<Rightarrow> usize \<Rightarrow> PageInfo list \<Rightarrow> int \<Rightarrow> AubFileStream \<Rightarrow> AubFileStream result" where
  "writeDiscontiguousPages memory sz writeInfoTable hint s =
     (case writeInfoTable of
        [] \<Rightarrow> Inl IndexOutOfRange
      | [entry] \<Rightarrow> writeContiguousPages memory sz (pi_physicalAddress entry)
                    (addressSpaceOf (pi_isLocalMemory entry)) hint s
      | entry # entries \<Rightarrow>
          bindR (dw_loop memory (pi_isLocalMemory entry) hint writeInfoTable
                   (dw_start (pi_isLocalMemory entry) hint s)) (\<lambda>d.
          bindR (flushDiscontiguousToken memory (pi_isLocalMemory entry) d) (\<lambda>d.
          bindR (flush (dw_stream d)) (\<lambda>s. assertR (dw_writtenSize d = sz) (Inr s)))))"

subsection \<open>Discontiguous writes of page table entries\<close>

record de_state =
  de_cmd :: CmdServicesMemTraceMemoryWriteDiscontiguous
  de_index :: nat
  de_pending :: "PageEntryInfo list"
  de_stream :: AubFileStream

fun dumpEntries :: "PageEntryInfo list \<Rightarrow> AubFileStream \<Rightarrow> AubFileStream result" where
  "dumpEntries [] s = Inr s"
| "dumpEntries (e # es) s = bindR (afs_write (qwordBytes (pe_tableEntry e)) s) (dumpEntries es)"

definition writeEntryToken :: "de_state \<Rightarrow> de_state result" where
  "writeEntryToken d =
     (let cmd = (de_cmd d)\<lparr>mwd_numberOfAddressDataPairs := word_of_nat (de_index d)\<rparr>
      in bindR (afs_write (mwd_headerBytes cmd) (de_stream d)) (\<lambda>s.
         bindR (dumpEntries (de_pending d) s) (\<lambda>s.
         Inr (d\<lparr>de_cmd := cmd, de_pending := [], de_stream := s\<rparr>))))"

definition entryRoom :: "de_state \<Rightarrow> de_state result" where
  "entryRoom d =
     (if maxEntries \<le> de_index d \<or> 65535 < 2 + cmdDwordCount (de_cmd d)
      then bindR (writeEntryToken d) (\<lambda>d. Inr (d\<lparr>de_cmd := setDwordCount 0 (de_cmd d)\<rparr>))
      else Inr d)"

definition entryStart :: "de_state \<Rightarrow> de_state result" where
  "entryStart d =
     (if cmdDwordCount (de_cmd d) = 0
      then assertR (de_pending d = [])
             (Inr (d\<lparr>de_cmd := setDwordCount (764 div 4 - 1) (de_cmd d), de_index := 0\<rparr>))
      else Inr d)"

definition entryStore :: "PageEntryInfo \<Rightarrow> de_state \<Rightarrow> de_state result" where
  "entryStore e d =
     assertR (de_index d < maxEntries)
       (let cmd = setPair (de_index d) (pe_physicalAddress e) 8 (de_cmd d)
        in Inr (d\<lparr>de_cmd := setDwordCount (cmdDwordCount cmd + 2) cmd, de_index := de_index d + 1,
                 de_pending := de_pending d @ [e]\<rparr>))"

fun de_loop :: "PageEntryInfo list \<Rightarrow> de_state \<Rightarrow> de_state result" where
  "de_loop [] d = Inr d"
| "de_loop (e # es) d =
     bindR (entryRoom d) (\<lambda>d. bindR (entryStart d) (\<lambda>d. bindR (entryStore e d) (de_loop es)))"

definition de_finish :: "de_state \<Rightarrow> de_state result" where
  "de_finish d =
     (if de_index d \<noteq> 0 then assertR (de_pending d \<noteq> []) (writeEntryToken d) else Inr d)"

definition writeDiscontiguousEntries ::
  "PageEntryInfo list \<Rightarrow> int \<Rightarrow> int \<Rightarrow> AubFileStream \<Rightarrow> AubFileStream result" where
  "writeDiscontiguousEntries writeInfoTable addressSpace hint s =
     (case writeInfoTable of
        [entry] \<Rightarrow> writeContiguousPages (qwordBytes (pe_tableEntry entry)) 8
                    (pe_physicalAddress entry) addressSpace hint s
      | _ \<Rightarrow> bindR (de_loop writeInfoTable \<lparr>de_cmd = discontiguousZero addressSpace hint, de_index = 0,
                      de_pending = [], de_stream = s\<rparr>) (\<lambda>d.
             bindR (de_finish d) (\<lambda>d. flush (de_stream d))))"

definition writeGttPages :: "PageEntryInfo list \<Rightarrow> AubFileStream \<Rightarrow> AubFileStream result" where
  "writeGttPages writeInfoTable s =
     writeDiscontiguousEntries writeInfoTable (addressSpaceValue TraceGttEntry)
       (hintValue ''TraceNotype'') s"

subsection \<open>Registers and polls\<close>

definition registerWriteRecord :: "u32 \<Rightarrow> u32 \<Rightarrow> u32 \<Rightarrow> CmdServicesMemTraceRegisterWrite" where
  "registerWriteRecord off val msk = rw_zero\<lparr>
     rw_Header := (setHeader rw_layout AubCmdHdr_zero)\<lparr>DwordLength := 24 div 4 - 1\<rparr>,
     rw_registerOffset := off, rw_messageSourceId := 0, rw_registerSize := 2, rw_registerSpace := 0,
     rw_writeMaskLow := msk, rw_writeMaskHigh := 0, rw_data := val\<rparr>"

definition writeMMIO :: "u32 \<Rightarrow> u32 \<Rightarrow> u32 \<Rightarrow> AubFileStream \<Rightarrow> AubFileStream result" where
  "writeMMIO off val msk s = bindR (afs_write (rw_bytes (registerWriteRecord off val msk)) s) flush"

definition registerPollRecord ::
  "u32 \<Rightarrow> u32 \<Rightarrow> u32 \<Rightarrow> bool \<Rightarrow> u32 \<Rightarrow> CmdServicesMemTraceRegisterPoll" where
  "registerPollRecord registerOffset msk desiredValue pollNotEqual timeoutAction = rp_zero\<lparr>
     rp_Header := (setHeader rp_layout AubCmdHdr_zero)\<lparr>DwordLength := 24 div 4 - 1\<rparr>,
     rp_registerOffset := registerOffset, rp_timeoutAction := ucast timeoutAction,
     rp_pollNotEqual := (if pollNotEqual then 1 else 0), rp_operationType := 0, rp_registerSize := 2,
     rp_registerSpace := 0, rp_pollMaskLow := msk, rp_data := desiredValue\<rparr>"

definition registerPoll ::
  "u32 \<Rightarrow> u32 \<Rightarrow> u32 \<Rightarrow> bool \<Rightarrow> u32 \<Rightarrow> AubFileStream \<Rightarrow> AubFileStream result" where
  "registerPoll registerOffset msk desiredValue pollNotEqual timeoutAction s =
     bindR (afs_write (rp_bytes
       (registerPollRecord registerOffset msk desiredValue pollNotEqual timeoutAction)) s) flush"

definition memoryPollRecord :: "PageInfo \<Rightarrow> u32 \<Rightarrow> u32 \<Rightarrow> CmdServicesMemTraceMemoryPoll" where
  "memoryPollRecord entry val compareMode = mp_zero\<lparr>
     mp_Header := (setHeader mp_layout AubCmdHdr_zero)\<lparr>DwordLength := 28 div 4 - 1\<rparr>,
     mp_address := ucast (pi_physicalAddress entry AND 0xFFFFFFFF),
     mp_addressHigh := ucast (drop_bit 32 (pi_physicalAddress entry)),
     mp_tiling := 0, mp_dataSize := 2, mp_comparison := ucast compareMode, mp_timeoutAction := 0,
     mp_dataTypeHint := 0, mp_addressSpace := of_int (addressSpaceOf (pi_isLocalMemory entry)),
     mp_pollMaskLow := 0xFFFFFFFF, mp_pollMaskHigh := 0xFFFFFFFF, mp_data := val\<rparr>"

definition memoryPoll :: "PageInfo list \<Rightarrow> u32 \<Rightarrow> u32 \<Rightarrow> AubFileStream \<Rightarrow> AubFileStream result" where
  "memoryPoll entries val compareMode s =
     assertR (comparisonValue Equal \<le> compareMode \<and> compareMode \<le> comparisonValue GreaterEqual)
       (case entries of
          [entry] \<Rightarrow> bindR (afs_write (mp_bytes (memoryPollRecord entry val compareMode)) s) flush
        | _ \<Rightarrow> Inl AssertionFailure)"

end
