(* ===== verification/AubFileStreamProps.thy ===== *)
theory AubFileStreamProps
  imports AubFileStream
begin

text \<open>
  Correctness of the file backend: what the reader of \<open>AubReader\<close> gets back from the bytes that every
  operation of \<open>AubFileStream\<close> writes, and the error paths of the file itself.
\<close>

section \<open>Streams whose operations succeed\<close>

definition healthy :: "AubFileStream \<Rightarrow> bool" where
  "healthy s \<longleftrightarrow> \<not> of_bad (afs_file s) \<and> \<not> of_fail (afs_file s) \<and> of_outcomes (afs_file s) = []"

text \<open>What the stream has taken in: the file once it is open, the buffer before.\<close>

definition written :: "AubFileStream \<Rightarrow> u8 list" where
  "written s = (if isOpen s then of_disk (afs_file s) (of_name (afs_file s)) else afs_tmpWriteBuffer s)"

definition emit :: "u8 list \<Rightarrow> AubFileStream \<Rightarrow> AubFileStream" where
  "emit bs s =
     (if isOpen s
      then s\<lparr>afs_fileHandle := (afs_fileHandle s)\<lparr>fh_file := appendFile bs (afs_file s)\<rparr>\<rparr>
      else s\<lparr>afs_tmpWriteBuffer := afs_tmpWriteBuffer s @ bs\<rparr>)"

lemma written_emit [simp]: "written (emit bs s) = written s @ bs"
  by (simp add: written_def emit_def isOpen_def appendFile_def)

lemma healthy_emit [simp]: "healthy (emit bs s) = healthy s"
  by (simp add: healthy_def emit_def appendFile_def)

lemma isOpen_emit [simp]: "isOpen (emit bs s) = isOpen s"
  by (simp add: isOpen_def emit_def appendFile_def)

lemma emit_emit [simp]: "emit b (emit a s) = emit (a @ b) s"
  by (simp add: emit_def isOpen_def appendFile_def)

lemma emit_Nil [simp]: "emit [] s = s"
  by (simp add: emit_def appendFile_def)

lemma emit_supported [simp]:
  "afs_dumpBinSupported (emit bs s) = afs_dumpBinSupported s"
  "afs_dumpSurfaceSupported (emit bs s) = afs_dumpSurfaceSupported s"
  by (simp_all add: emit_def)

lemma nextOutcome_done: "of_outcomes f = [] \<Longrightarrow> nextOutcome f = f"
  by (simp add: nextOutcome_def)

lemma write_healthy [simp]:
  assumes "healthy s" and "bs \<noteq> []"
  shows "afs_write bs s = Inr (emit bs s)"
  using assms
  by (simp add: afs_write_def healthy_def emit_def isOpen_def fh_write_def fh_check_def ofs_write_def
      outcome_def nextOutcome_done appendFile_def Let_def)

lemma flush_healthy [simp]: "healthy s \<Longrightarrow> flush s = Inr s"
  by (simp add: flush_def healthy_def fh_flush_def fh_check_def ofs_flush_def outcome_def
      nextOutcome_done)

section \<open>Operations that write events\<close>

definition writesEvents :: "AubFileStream \<Rightarrow> AubFileStream result \<Rightarrow> AubEvent list \<Rightarrow> bool" where
  "writesEvents s r evs = (\<exists>bs. r = Inr (emit bs s) \<and> encodes bs evs)"

lemma writesEvents_none: "writesEvents s (Inr s) []"
  unfolding writesEvents_def by (rule exI [of _ "[]"]) simp

lemma writesEvents_bind:
  assumes "writesEvents s r x" and "\<And>bs. writesEvents (emit bs s) (f (emit bs s)) y"
  shows "writesEvents s (bindR r f) (x @ y)"
proof -
  obtain a where a: "r = Inr (emit a s)" "encodes a x"
    using assms(1) by (auto simp: writesEvents_def)
  obtain b where b: "f (emit a s) = Inr (emit b (emit a s))" "encodes b y"
    using assms(2) [of a] by (auto simp: writesEvents_def)
  then show ?thesis
    using a by (auto simp: writesEvents_def intro!: exI [of _ "a @ b"] encodes_append)
qed

lemma writesEvents_flush:
  assumes "healthy s" and "writesEvents s r x"
  shows "writesEvents s (bindR r flush) x"
  using writesEvents_bind [OF assms(2), of flush "[]"] assms(1)
  by (simp add: writesEvents_none)

lemma writesEvents_emit: "encodes bs evs \<Longrightarrow> writesEvents s (Inr (emit bs s)) evs"
  by (auto simp: writesEvents_def)

lemma writesEvents_packet:
  assumes "healthy s" and "encodes bs evs" and "bs \<noteq> []"
  shows "writesEvents s (bindR (afs_write bs s) flush) evs"
  using assms by (auto simp: writesEvents_def intro!: exI [of _ bs])

text \<open>What a reader of the finished file sees.\<close>

lemma writesEvents_read:
  assumes "writesEvents s r evs" and "encodes (written s) old"
  shows "\<exists>s'. r = Inr s' \<and> readAub (written s') = Some (old @ evs)"
  using assms by (auto simp: writesEvents_def intro!: encodes_read encodes_append)

lemma padding_healthy [simp]:
  "healthy s \<Longrightarrow> writePadding n s = Inr (emit (replicate ((4 - n mod 4) mod 4) 0) s)"
proof (cases "n mod 4 = 0")
  case True
  then show ?thesis by (simp add: writePadding_def)
next
  case False
  moreover have "(4 - n mod 4) mod 4 = 4 - n mod 4"
    using False by (intro mod_less) linarith
  ultimately show "healthy s \<Longrightarrow> ?thesis"
    by (simp add: writePadding_def Let_def)
qed

lemma padded_length: "n + (4 - n mod 4) mod 4 = (n + 3) div 4 * 4"
  for n :: nat
proof -
  obtain q r where n: "n = 4 * q + r" and "r < 4"
    by (metis mod_less_divisor mult_div_mod_eq zero_less_numeral)
  then have "r = 0 \<or> r = 1 \<or> r = 2 \<or> r = 3"
    by linarith
  then show ?thesis
    by (auto simp: n)
qed

lemma padded_paddedTo4: "paddedTo4 (length bs) (bs @ replicate ((4 - length bs mod 4) mod 4) 0)"
  by (simp add: paddedTo4_def)

section \<open>Records of fixed size\<close>

lemma setHeader_zero [simp]:
  "l \<in> set allLayouts \<Longrightarrow>
   (setHeader l AubCmdHdr_zero)\<lparr>DwordLength := n\<rparr> = memtraceHeader (cl_subOpcode l) n"
  by (simp add: setHeader_memtrace memtraceHeader_def)

lemma bytes_neq_Nil [simp]:
  "rw_bytes w \<noteq> []" "rp_bytes p \<noteq> []" "mp_bytes m \<noteq> []" "mcr_bytes c \<noteq> []" "ver_bytes v \<noteq> []"
  "pcc_bytes x \<noteq> []" "cbd_bytes b \<noteq> []" "dc_bytes d \<noteq> []"
  "mw_headerBytes mw \<noteq> []" "mwd_headerBytes mwd \<noteq> []" "cm_headerBytes cm \<noteq> []"
  "mc_headerBytes mc \<noteq> []"
  by (simp_all add: rw_bytes_def rw_headerBytes_def rp_bytes_def rp_headerBytes_def mp_bytes_def
      mp_headerBytes_def mcr_bytes_def ver_bytes_def ver_headerBytes_def pcc_bytes_def cbd_bytes_def
      dc_bytes_def mw_headerBytes_def mwd_headerBytes_def cm_headerBytes_def mc_headerBytes_def)

lemma writeMMIO_event:
  "healthy s \<Longrightarrow> writesEvents s (writeMMIO off val msk s) [EvRegisterWrite off msk val]"
  unfolding writeMMIO_def
  by (rule writesEvents_packet)
     (use encodes_registerWrite [of "registerWriteRecord off val msk"] in
       \<open>simp_all add: registerWriteRecord_def\<close>)

lemma registerPoll_event:
  "healthy s \<Longrightarrow> writesEvents s (registerPoll off msk val ne t s)
     [EvRegisterPoll off msk val (if ne then 1 else 0) (take_bit 1 t)]"
proof -
  have "ucast (ucast t :: 1 word) = take_bit 1 t"
    by (rule bit_word_eqI) (auto simp: bit_simps bit_0)
  then show "healthy s \<Longrightarrow> ?thesis"
    unfolding registerPoll_def
    by (intro writesEvents_packet)
       (use encodes_registerPoll [of "registerPollRecord off msk val ne t"] in
         \<open>simp_all add: registerPollRecord_def split: if_splits\<close>)
qed

lemma memoryPoll_event:
  assumes "healthy s" and "1 \<le> mode" and "mode \<le> 6"
  shows "writesEvents s (memoryPoll [entry] val mode s)
     [EvMemoryPoll (if pi_isLocalMemory entry then 1 else 2) (pi_physicalAddress entry) val mode]"
proof -
  have "take_bit 3 mode = mode"
    using assms(3)
    by (simp add: word_unat_eq_iff unsigned_take_bit_eq take_bit_nat_eq_self_iff word_le_nat_alt)
  moreover have "ucast (ucast mode :: 3 word) = take_bit 3 mode"
    by (rule bit_word_eqI) (auto simp: bit_simps)
  ultimately have mode: "ucast (ucast mode :: 3 word) = mode"
    by simp
  have low: "ucast (a AND 0xFFFFFFFF) = (ucast a :: u32)" for a :: u64
  proof -
    have "a AND 0xFFFFFFFF = take_bit 32 a"
      by (simp add: take_bit_eq_mask mask_eq_exp_minus_1)
    then show ?thesis
      by (simp only:) (rule bit_word_eqI, simp add: bit_simps)
  qed
  show ?thesis
    unfolding memoryPoll_def
    using assms encodes_memoryPoll [of "memoryPollRecord entry val mode"]
    by (auto simp: memoryPollRecord_def mode low addressSpaceOf_def intro!: writesEvents_emit)
qed

lemma reserve_events:
  assumes "healthy s"
  shows "writesEvents s (reserveContiguousPages pages s) (map (\<lambda>p. EvRegion p 0x10000) pages)"
proof -
  have "healthy s \<Longrightarrow> writesEvents s (reserveContiguousPages_loop pages s)
      (map (\<lambda>p. EvRegion p 0x10000) pages)" for s
  proof (induction pages arbitrary: s)
    case Nil
    then show ?case by (simp add: writesEvents_none)
  next
    case (Cons p pages)
    have "encodes (mcr_bytes (regionRecord p)) [EvRegion p 0x10000]"
      using encodes_region [of "regionRecord p"] by (simp add: regionRecord_def)
    then have "writesEvents s (afs_write (mcr_bytes (regionRecord p)) s) [EvRegion p 0x10000]"
      using Cons.prems by (simp add: writesEvents_emit)
    from writesEvents_bind [OF this, of "reserveContiguousPages_loop pages"] show ?case
      using Cons by simp
  qed
  then show ?thesis
    using assms by (simp add: reserveContiguousPages_def writesEvents_flush)
qed

section \<open>Contiguous writes\<close>

text \<open>The values the bit fields of the records keep of an address space and of a hint.\<close>

definition spaceField :: "int \<Rightarrow> u32" where
  "spaceField space = ucast (of_int space :: 4 word)"

definition hintField :: "int \<Rightarrow> u32" where
  "hintField hint = ucast (of_int hint :: 8 word)"

lemma maxChunkSize_value: "maxChunkSize = 262120"
  by (simp add: maxChunkSize_def maxDwordCount_def)

abbreviation padOf :: "u8 list \<Rightarrow> u8 list" where
  "padOf bs \<equiv> replicate ((4 - length bs mod 4) mod 4) 0"

lemma padOf_length: "length bs + length (padOf bs) = (length bs + 3) div 4 * 4"
  by (simp add: padded_length)

lemma writeChunk_event:
  assumes s: "healthy s" and chunk: "0 < n" "n \<le> maxChunkSize" "n \<le> length memory"
  shows "writesEvents s (writeChunk memory n address space hint s)
    (stores (spaceField space) (hintField hint) address (take n memory))"
proof -
  define bs where "bs = take n memory"
  define k where "k = (n + 3) div 4"
  have len: "length bs = n" and ne: "bs \<noteq> []"
    using chunk by (auto simp: bs_def)
  have k: "k \<le> 65530"
    using chunk(2) by (simp add: k_def maxChunkSize_value)
  have k3: "(3 + n) div 4 = k"
    by (simp add: k_def add.commute)
  define w :: u16 where "w = word_of_nat (5 + k - 1)"
  define cmd where "cmd = memoryWriteHeader (5 + k) address space hint n"
  have fields: "mw_Header cmd = memtraceHeader 6 w" "mw_address cmd = address"
    "mw_addressSpace cmd = of_int space" "mw_dataTypeHint cmd = of_int hint"
    "mw_dataSizeInBytes cmd = word_of_nat n"
    by (simp_all add: cmd_def memoryWriteHeader_def w_def)
  have size: "unat (word_of_nat n :: u32) = n"
    using chunk(2) by (simp add: maxChunkSize_value unat_word_of_nat_small)
  have w: "unat w = 4 + k"
    unfolding w_def by (subst unat_word_of_nat_small) (use k in simp_all)
  have "encodes (mw_headerBytes cmd @ bs @ padOf bs)
    (stores (spaceField space) (hintField hint) address (take n (bs @ padOf bs)))"
    using encodes_memoryWrite [of cmd w "bs @ padOf bs"]
      padOf_length [of bs] padded_paddedTo4 [of bs]
    by (simp add: fields size w len spaceField_def hintField_def k_def)
  moreover have "writeChunk memory n address space hint s =
      Inr (emit (mw_headerBytes cmd @ bs @ padOf bs) s)"
    using s k chunk ne
    by (simp add: writeChunk_def Let_def k3 cmd_def readBuffer_def len maxDwordCount_def
        flip: bs_def)
  ultimately show ?thesis
    by (simp add: writesEvents_emit len flip: bs_def)
qed

lemma writeContiguous_loop_event:
  "healthy s \<Longrightarrow> n \<le> length memory \<Longrightarrow>
   writesEvents s (writeContiguousPages_loop memory n address space hint s)
     (stores (spaceField space) (hintField hint) address (take n memory))"
proof (induction n arbitrary: memory address s rule: less_induct)
  case (less n)
  define c where "c = min n maxChunkSize"
  show ?case
  proof (cases "n = 0")
    case True
    then show ?thesis
      by (simp add: writeContiguousPages_loop.simps writesEvents_none)
  next
    case False
    then have c: "0 < c" "c \<le> maxChunkSize" "c \<le> n"
      by (auto simp: c_def maxChunkSize_value)
    have split: "take n memory = take c memory @ take (n - c) (drop c memory)"
      using c(3) by (metis le_add_diff_inverse take_add)
    have step: "writesEvents s (writeChunk memory c address space hint s)
        (stores (spaceField space) (hintField hint) address (take c memory))"
      using less.prems c by (intro writeChunk_event) auto
    have rest: "writesEvents (emit bs s)
        (writeContiguousPages_loop (drop c memory) (n - c) (address + word_of_nat c) space hint (emit bs s))
        (stores (spaceField space) (hintField hint) (address + word_of_nat c)
           (take (n - c) (drop c memory)))" for bs
      using less.prems c by (intro less.IH) auto
    have "writesEvents s (bindR (writeChunk memory c address space hint s)
        (writeContiguousPages_loop (drop c memory) (n - c) (address + word_of_nat c) space hint))
        (stores (spaceField space) (hintField hint) address (take n memory))"
      using writesEvents_bind [OF step rest] less.prems c by (simp add: split stores_append)
    then show ?thesis
      using False by (subst writeContiguousPages_loop.simps) (simp add: c_def Let_def)
  qed
qed

lemma writeContiguous_event:
  assumes "healthy s" and "unat sz \<le> length memory"
  shows "writesEvents s (writeContiguousPages memory sz address space hint s)
    (stores (spaceField space) (hintField hint) address (take (unat sz) memory))"
  using assms
  by (simp add: writeContiguousPages_def maxChunkSize_value writesEvents_flush
      writeContiguous_loop_event)

section \<open>Discontiguous tokens\<close>

text \<open>A command that is being filled: its first pairs are \<open>ps\<close>.\<close>

definition token ::
  "int \<Rightarrow> int \<Rightarrow> (u64 \<times> u32) list \<Rightarrow> CmdServicesMemTraceMemoryWriteDiscontiguous \<Rightarrow> bool" where
  "token space hint ps cmd \<longleftrightarrow>
     SubOp (mwd_Header cmd) = 0xb \<and> Opcode (mwd_Header cmd) = 0x2e \<and> Type (mwd_Header cmd) = 7
     \<and> length (mwd_Dword_2_To_190 cmd) = 63 \<and> length ps \<le> 63
     \<and> take (length ps) (mwd_Dword_2_To_190 cmd) = ps
     \<and> mwd_dataTypeHint cmd = of_int hint \<and> mwd_addressSpace cmd = of_int space"

lemma token_header:
  "token space hint ps cmd \<Longrightarrow> mwd_Header cmd = memtraceHeader 0xb (DwordLength (mwd_Header cmd))"
  by (cases "mwd_Header cmd") (simp add: token_def memtraceHeader_def)

lemma token_start: "token space hint [] (discontiguousZero space hint)"
  by (simp add: token_def discontiguousZero_def mwd_zero_def memtraceHeader_def)

lemma token_restart: "token space hint ps cmd \<Longrightarrow> token space hint [] cmd"
  by (simp add: token_def)

lemma token_setDwordCount [simp]: "token space hint ps (setDwordCount n cmd) = token space hint ps cmd"
  by (simp add: token_def setDwordCount_def)

lemma token_pairs [simp]:
  "token space hint ps (cmd\<lparr>mwd_numberOfAddressDataPairs := n\<rparr>) = token space hint ps cmd"
  by (simp add: token_def)

lemma take_update_append: "n < length xs \<Longrightarrow> take (Suc n) (xs[n := x]) = take n xs @ [x]"
  by (simp add: take_Suc_conv_app_nth)

lemma token_setPair:
  assumes "token space hint ps cmd" and "length ps < 63"
  shows "token space hint (ps @ [(a, n)]) (setPair (length ps) a n cmd)"
  using assms by (auto simp: token_def setPair_def take_update_append)

lemma cmdDwordCount_simps [simp]:
  "n < 65536 \<Longrightarrow> cmdDwordCount (setDwordCount n cmd) = n"
  "cmdDwordCount (setPair i a sz cmd) = cmdDwordCount cmd"
  "cmdDwordCount (cmd\<lparr>mwd_numberOfAddressDataPairs := k\<rparr>) = cmdDwordCount cmd"
  "cmdDwordCount (discontiguousZero space hint) = 0"
  by (simp_all add: setDwordCount_def setPair_def discontiguousZero_def
      memtraceHeader_def unat_word_of_nat_small)

lemma token_encodes:
  assumes tok: "token space hint ps cmd" and count: "4 * cmdDwordCount cmd = 760 + length ds"
    and st: "pairStores (spaceField space) (hintField hint) ps ds = Some evs"
  shows "encodes (mwd_headerBytes (cmd\<lparr>mwd_numberOfAddressDataPairs := word_of_nat (length ps)\<rparr>) @ ds) evs"
proof -
  have "length ps \<le> 63"
    using tok by (simp add: token_def)
  then have "unat (word_of_nat (length ps) :: u16) = length ps"
    by (simp add: unat_word_of_nat_small)
  then show ?thesis
    using assms
    by (intro encodes_discontiguous [where n = "DwordLength (mwd_Header cmd)" and k = "length ps"])
       (auto simp: token_def spaceField_def hintField_def intro: token_header)
qed

section \<open>Discontiguous writes of page table entries\<close>

definition entryEvents :: "int \<Rightarrow> int \<Rightarrow> PageEntryInfo list \<Rightarrow> AubEvent list" where
  "entryEvents space hint es = concat (map (\<lambda>e. stores (spaceField space) (hintField hint)
     (pe_physicalAddress e) (qwordBytes (pe_tableEntry e))) es)"

abbreviation entryPairs :: "PageEntryInfo list \<Rightarrow> (u64 \<times> u32) list" where
  "entryPairs es \<equiv> map (\<lambda>e. (pe_physicalAddress e, 8)) es"

abbreviation entryData :: "PageEntryInfo list \<Rightarrow> u8 list" where
  "entryData es \<equiv> concat (map (\<lambda>e. qwordBytes (pe_tableEntry e)) es)"

lemma entryData_length [simp]: "length (entryData es) = 8 * length es"
  by (induction es) auto

lemma pairStores_entries:
  "pairStores (spaceField space) (hintField hint) (entryPairs es) (entryData es) =
   Some (entryEvents space hint es)"
  by (induction es) (simp_all add: entryEvents_def)

lemma dumpEntries_healthy: "healthy s \<Longrightarrow> dumpEntries es s = Inr (emit (entryData es) s)"
proof (induction es arbitrary: s)
  case (Cons e es)
  have "qwordBytes v \<noteq> []" for v
    using qwordBytes_length [of v] by (metis list.size(3) zero_neq_numeral)
  then show ?case
    using Cons by simp
qed simp

text \<open>The token of the loop: the pending entries are in the command and its length counts them.\<close>

definition de_inv :: "int \<Rightarrow> int \<Rightarrow> AubFileStream \<Rightarrow> PageEntryInfo list \<Rightarrow> de_state \<Rightarrow> bool" where
  "de_inv space hint s0 es d \<longleftrightarrow>
     (\<exists>flushed bs. es = flushed @ de_pending d \<and> de_stream d = emit bs s0
        \<and> encodes bs (entryEvents space hint flushed))
     \<and> token space hint (entryPairs (de_pending d)) (de_cmd d)
     \<and> de_index d = length (de_pending d)
     \<and> cmdDwordCount (de_cmd d) = (if de_pending d = [] then 0 else 190 + 2 * length (de_pending d))"

lemma entryEvents_append: "entryEvents space hint (xs @ ys) = entryEvents space hint xs @ entryEvents space hint ys"
  by (simp add: entryEvents_def)

lemma writeEntryToken_inv:
  assumes s: "healthy s0" and inv: "de_inv space hint s0 es d" and ne: "de_pending d \<noteq> []"
  shows "\<exists>d'. writeEntryToken d = Inr d' \<and> de_pending d' = [] \<and> de_index d' = de_index d
     \<and> token space hint [] (de_cmd d')
     \<and> (\<exists>bs. de_stream d' = emit bs s0 \<and> encodes bs (entryEvents space hint es))"
proof -
  obtain flushed bs where es: "es = flushed @ de_pending d" and st: "de_stream d = emit bs s0"
    and enc: "encodes bs (entryEvents space hint flushed)"
    using inv by (auto simp: de_inv_def)
  define cmd where "cmd = (de_cmd d)\<lparr>mwd_numberOfAddressDataPairs := word_of_nat (de_index d)\<rparr>"
  have "encodes (mwd_headerBytes cmd @ entryData (de_pending d)) (entryEvents space hint (de_pending d))"
    using token_encodes [of space hint "entryPairs (de_pending d)" "de_cmd d" "entryData (de_pending d)"]
      inv ne by (simp add: de_inv_def pairStores_entries cmd_def)
  then have all: "encodes (bs @ mwd_headerBytes cmd @ entryData (de_pending d)) (entryEvents space hint es)"
    using enc by (simp add: es entryEvents_append encodes_append)
  have "writeEntryToken d = Inr (d\<lparr>de_cmd := cmd, de_pending := [],
      de_stream := emit (bs @ mwd_headerBytes cmd @ entryData (de_pending d)) s0\<rparr>)"
    using s by (simp add: writeEntryToken_def cmd_def st dumpEntries_healthy Let_def)
  moreover have "token space hint [] cmd"
    using inv by (auto simp: de_inv_def cmd_def intro: token_restart)
  ultimately show ?thesis
    using all by auto
qed

lemma entry_room_start:
  assumes "healthy s0" and inv: "de_inv space hint s0 es d"
  shows "\<exists>d'. bindR (entryRoom d) entryStart = Inr d' \<and> de_index d' = length (de_pending d')
     \<and> length (de_pending d') < 63
     \<and> (\<exists>flushed bs. es = flushed @ de_pending d' \<and> de_stream d' = emit bs s0
          \<and> encodes bs (entryEvents space hint flushed))
     \<and> token space hint (entryPairs (de_pending d')) (de_cmd d')
     \<and> cmdDwordCount (de_cmd d') = 190 + 2 * length (de_pending d')"
proof (cases "63 \<le> length (de_pending d)")
  case True
  then obtain d' where "writeEntryToken d = Inr d'" "de_pending d' = []"
      "token space hint [] (de_cmd d')"
      "\<exists>bs. de_stream d' = emit bs s0 \<and> encodes bs (entryEvents space hint es)"
    using writeEntryToken_inv [OF assms] by fastforce
  then show ?thesis
    using inv True by (auto simp: entryRoom_def entryStart_def de_inv_def maxEntries_def)
next
  case False
  then have "entryRoom d = Inr d"
    using inv by (simp add: entryRoom_def de_inv_def maxEntries_def)
  then show ?thesis
    using inv False by (auto simp: entryStart_def de_inv_def split: if_splits)
qed

lemma entryStore_inv:
  assumes "de_index d = length (de_pending d)" and "length (de_pending d) < 63"
    and "es = flushed @ de_pending d" and "de_stream d = emit bs s0"
    and "encodes bs (entryEvents space hint flushed)"
    and "token space hint (entryPairs (de_pending d)) (de_cmd d)"
    and "cmdDwordCount (de_cmd d) = 190 + 2 * length (de_pending d)"
  shows "\<exists>d'. entryStore e d = Inr d' \<and> de_inv space hint s0 (es @ [e]) d'"
  using assms token_setPair [OF assms(6), of "pe_physicalAddress e" 8]
  by (auto simp: entryStore_def de_inv_def maxEntries_def Let_def)

lemma de_loop_inv:
  assumes "healthy s0"
  shows "de_inv space hint s0 done d \<Longrightarrow>
    \<exists>d'. de_loop es d = Inr d' \<and> de_inv space hint s0 (done @ es) d'"
proof (induction es arbitrary: d "done")
  case (Cons e es)
  obtain d1 flushed bs where d1: "bindR (entryRoom d) entryStart = Inr d1"
      "de_index d1 = length (de_pending d1)" "length (de_pending d1) < 63"
      "done = flushed @ de_pending d1" "de_stream d1 = emit bs s0"
      "encodes bs (entryEvents space hint flushed)"
      "token space hint (entryPairs (de_pending d1)) (de_cmd d1)"
      "cmdDwordCount (de_cmd d1) = 190 + 2 * length (de_pending d1)"
    using entry_room_start [OF assms Cons.prems] by auto
  obtain d2 where d2: "entryStore e d1 = Inr d2" "de_inv space hint s0 (done @ [e]) d2"
    using entryStore_inv [OF d1(2-8), of e] by auto
  have "de_loop (e # es) d = de_loop es d2"
    using d1(1) d2(1) by (cases "entryRoom d") auto
  then show ?case
    using Cons.IH [OF d2(2)] by simp
qed simp

lemma writeEntries_event:
  assumes s: "healthy s"
  shows "writesEvents s (writeDiscontiguousEntries es space hint s) (entryEvents space hint es)"
proof -
  define d0 where "d0 = \<lparr>de_cmd = discontiguousZero space hint, de_index = 0, de_pending = [],
    de_stream = s\<rparr>"
  have "de_inv space hint s [] d0"
    by (auto simp: de_inv_def d0_def token_start entryEvents_def intro!: exI [of _ "[]"])
  then obtain d where d: "de_loop es d0 = Inr d" "de_inv space hint s es d"
    using de_loop_inv [OF s, of space hint "[]" d0 es] by auto
  have "\<exists>d' bs. de_finish d = Inr d' \<and> de_stream d' = emit bs s \<and> encodes bs (entryEvents space hint es)"
  proof (cases "de_pending d = []")
    case True
    then show ?thesis
      using d(2) by (auto simp: de_finish_def de_inv_def)
  next
    case False
    then show ?thesis
      using writeEntryToken_inv [OF s d(2) False] d(2) by (auto simp: de_finish_def de_inv_def)
  qed
  then have many: "writesEvents s (bindR (de_loop es d0) (\<lambda>d. bindR (de_finish d) (\<lambda>d. flush (de_stream d))))
      (entryEvents space hint es)"
    using d(1) s by (auto intro!: writesEvents_emit)
  show ?thesis
  proof (cases "\<exists>e. es = [e]")
    case True
    then obtain e where "es = [e]"
      by blast
    then show ?thesis
      using writeContiguous_event [OF s, of 8 "qwordBytes (pe_tableEntry e)"]
      by (simp add: writeDiscontiguousEntries_def entryEvents_def)
  next
    case False
    then have "writeDiscontiguousEntries es space hint s =
        bindR (de_loop es d0) (\<lambda>d. bindR (de_finish d) (\<lambda>d. flush (de_stream d)))"
      by (simp add: writeDiscontiguousEntries_def d0_def split: list.split)
    then show ?thesis
      using many by simp
  qed
qed

section \<open>Discontiguous writes of pages\<close>

fun pageEvents :: "int \<Rightarrow> PageInfo list \<Rightarrow> u8 list \<Rightarrow> AubEvent list" where
  "pageEvents hint [] memory = []"
| "pageEvents hint (p # ps) memory =
     stores (spaceField (addressSpaceOf (pi_isLocalMemory p))) (hintField hint) (pi_physicalAddress p)
       (take (unat (pi_size p)) memory)
     @ pageEvents hint ps (drop (unat (pi_size p)) memory)"

definition totalSize :: "PageInfo list \<Rightarrow> nat" where
  "totalSize ps = sum_list (map (\<lambda>p. unat (pi_size p)) ps)"

lemma totalSize_simps [simp]:
  "totalSize [] = 0" "totalSize (p # ps) = unat (pi_size p) + totalSize ps"
  "totalSize (ps @ qs) = totalSize ps + totalSize qs"
  by (simp_all add: totalSize_def)

lemma pageEvents_append:
  "pageEvents hint (ps @ qs) memory = pageEvents hint ps memory @ pageEvents hint qs (drop (totalSize ps) memory)"
  by (induction ps arbitrary: memory) (simp_all add: add.commute)

text \<open>A page the token can take, and the pages the loop accepts at all.\<close>

definition plainPage :: "bool \<Rightarrow> PageInfo \<Rightarrow> bool" where
  "plainPage isLocal p \<longleftrightarrow> \<not> unaligned4 (pi_size p) \<and> \<not> unaligned4 (pi_physicalAddress p)
     \<and> pi_isLocalMemory p = isLocal \<and> 0 < unat (pi_size p) \<and> unat (pi_size p) \<le> 4 * 65345"

abbreviation pagePairs :: "PageInfo list \<Rightarrow> (u64 \<times> u32) list" where
  "pagePairs ps \<equiv> map (\<lambda>p. (pi_physicalAddress p, ucast (pi_size p))) ps"

lemma unat_ucast_32_small: "unat x < 2 ^ 32 \<Longrightarrow> unat (ucast x :: u32) = unat x"
  for x :: u64
  by (simp add: unsigned_ucast_eq take_bit_nat_eq_self_iff)

lemma plainPage_size: "plainPage isLocal p \<Longrightarrow> unat (ucast (pi_size p) :: u32) = unat (pi_size p)"
  by (simp add: plainPage_def unat_ucast_32_small)

lemma pairStores_pages:
  "\<forall>p\<in>set ps. plainPage isLocal p \<Longrightarrow> totalSize ps \<le> length memory \<Longrightarrow>
   pairStores (spaceField (addressSpaceOf isLocal)) (hintField hint) (pagePairs ps)
     (take (totalSize ps) memory) = Some (pageEvents hint ps memory)"
proof (induction ps arbitrary: memory)
  case (Cons p ps)
  have "pi_isLocalMemory p = isLocal"
    using Cons.prems by (simp add: plainPage_def)
  moreover have "drop (unat (pi_size p)) (take (totalSize (p # ps)) memory)
      = take (totalSize ps) (drop (unat (pi_size p)) memory)"
    by (simp add: drop_take)
  ultimately show ?case
    using Cons.prems Cons.IH [of "drop (unat (pi_size p)) memory"] plainPage_size [of isLocal p]
    by simp
qed simp

lemma dumpPending_healthy:
  "healthy s \<Longrightarrow> \<forall>p\<in>set ps. plainPage isLocal p \<Longrightarrow> ptr + totalSize ps \<le> length memory \<Longrightarrow>
   dumpPending memory isLocal ps ptr s =
     Inr (ptr + totalSize ps, emit (take (totalSize ps) (drop ptr memory)) s)"
proof (induction ps arbitrary: ptr s)
  case (Cons p ps)
  let ?n = "unat (pi_size p)"
  have p: "plainPage isLocal p"
    using Cons.prems(2) by simp
  then have "take ?n (drop ptr memory) \<noteq> []"
    using Cons.prems(3) by (auto simp: plainPage_def)
  moreover have "take ?n (drop ptr memory) @ take (totalSize ps) (drop (ptr + ?n) memory)
      = take (totalSize (p # ps)) (drop ptr memory)"
    by (simp add: take_add add.commute [of _ ptr])
  ultimately show ?case
    using Cons p by (simp add: plainPage_def readBuffer_def add.assoc Let_def)
qed simp

lemma word_4_aligned: "\<not> unaligned4 x \<longleftrightarrow> unat x mod 4 = 0"
proof -
  have "unat (x AND (2 ^ 2 - 1)) = unat x mod 4"
    by (subst unat_low_bits) simp
  then have "unat (x AND 3) = unat x mod 4"
    by simp
  then show ?thesis
    by (simp add: unaligned4_def word_unat_eq_iff)
qed

lemma alignedDwords_value:
  assumes "unat sz < 2 ^ 34 - 4"
  shows "unat (alignedDwords sz) = (unat sz + 3) div 4"
proof -
  have "unat ((sz + (2 ^ 2 - 1)) AND NOT (2 ^ 2 - 1)) = (unat sz + 2 ^ 2 - 1) div 2 ^ 2 * 2 ^ 2"
    by (rule unat_round_up) (use assms in simp_all)
  then have "unat ((sz + 3) AND NOT 3) = (unat sz + 3) div 4 * 4"
    by simp
  then have "unat (((sz + 3) AND NOT 3) div 4) = (unat sz + 3) div 4"
    by (simp add: unat_div)
  then show ?thesis
    using assms by (simp add: alignedDwords_def add_diff_eq [symmetric] unat_ucast_32_small)
qed

text \<open>The state of the loop after the pages \<open>ps\<close>, without and with the length of the token.\<close>

definition dw_core ::
  "u8 list \<Rightarrow> bool \<Rightarrow> int \<Rightarrow> AubFileStream \<Rightarrow> PageInfo list \<Rightarrow> dw_state \<Rightarrow> bool" where
  "dw_core memory isLocal hint s0 ps d \<longleftrightarrow>
     (\<exists>flushed bs. ps = flushed @ dw_pending d \<and> dw_stream d = emit bs s0
        \<and> encodes bs (pageEvents hint flushed memory) \<and> dw_ptrDump d = totalSize flushed)
     \<and> dw_ptr d = totalSize ps \<and> dw_writtenSize d = word_of_nat (totalSize ps)
     \<and> (\<forall>p\<in>set (dw_pending d). plainPage isLocal p)
     \<and> token (addressSpaceOf isLocal) hint (pagePairs (dw_pending d)) (dw_cmd d)
     \<and> dw_index d = length (dw_pending d)"

abbreviation tokenLength :: "PageInfo list \<Rightarrow> nat" where
  "tokenLength ps \<equiv> 190 + totalSize ps div 4"

definition dw_inv ::
  "u8 list \<Rightarrow> bool \<Rightarrow> int \<Rightarrow> AubFileStream \<Rightarrow> PageInfo list \<Rightarrow> dw_state \<Rightarrow> bool" where
  "dw_inv memory isLocal hint s0 ps d \<longleftrightarrow> dw_core memory isLocal hint s0 ps d
     \<and> cmdDwordCount (dw_cmd d) = (if dw_pending d = [] then 0 else tokenLength (dw_pending d))"

lemma plain_total_mod4: "\<forall>p\<in>set ps. plainPage isLocal p \<Longrightarrow> totalSize ps mod 4 = 0"
  by (induction ps) (auto simp: plainPage_def word_4_aligned mod_add_eq [symmetric])

lemma flushToken_core:
  assumes s: "healthy s0" and core: "dw_core memory isLocal hint s0 ps d"
    and fits: "totalSize ps \<le> length memory" and ne: "dw_pending d \<noteq> []"
    and count: "cmdDwordCount (dw_cmd d) = tokenLength (dw_pending d)"
  shows "\<exists>d'. flushDiscontiguousToken memory isLocal d = Inr d' \<and> dw_pending d' = []
     \<and> dw_inv memory isLocal hint s0 ps d'"
proof -
  obtain flushed bs where ps: "ps = flushed @ dw_pending d" and st: "dw_stream d = emit bs s0"
    and enc: "encodes bs (pageEvents hint flushed memory)" and ptr: "dw_ptrDump d = totalSize flushed"
    using core by (auto simp: dw_core_def)
  let ?q = "dw_pending d" and ?rest = "drop (totalSize flushed) memory"
  let ?cmd = "(dw_cmd d)\<lparr>mwd_numberOfAddressDataPairs := word_of_nat (length ?q)\<rparr>"
  have plain: "\<forall>p\<in>set ?q. plainPage isLocal p" and index: "dw_index d = length ?q"
    and tok: "token (addressSpaceOf isLocal) hint (pagePairs ?q) (dw_cmd d)"
    using core by (auto simp: dw_core_def)
  have fits2: "totalSize ?q \<le> length ?rest"
    using fits ps by simp
  have "encodes (mwd_headerBytes ?cmd @ take (totalSize ?q) ?rest) (pageEvents hint ?q ?rest)"
  proof -
    have "4 * (totalSize ?q div 4) = totalSize ?q"
      using plain_total_mod4 [OF plain] by auto
    then show ?thesis
      using token_encodes [OF tok, of "take (totalSize ?q) ?rest"] pairStores_pages [OF plain fits2]
        count fits2 by simp
  qed
  then have "encodes (bs @ mwd_headerBytes ?cmd @ take (totalSize ?q) ?rest) (pageEvents hint ps memory)"
    using enc by (simp add: ps pageEvents_append encodes_append)
  moreover have "flushDiscontiguousToken memory isLocal d = Inr (d\<lparr>dw_cmd := setDwordCount 0 ?cmd,
      dw_index := 0, dw_pending := [], dw_ptrDump := totalSize ps,
      dw_stream := emit (bs @ mwd_headerBytes ?cmd @ take (totalSize ?q) ?rest) s0\<rparr>)"
    using s ne plain fits
    by (simp add: flushDiscontiguousToken_def index st ptr ps dumpPending_healthy Let_def)
  ultimately show ?thesis
    using core tok
    by (auto simp: dw_inv_def dw_core_def intro: token_restart)
qed

lemma flushToken_inv:
  assumes "healthy s0" and "dw_inv memory isLocal hint s0 ps d" and "totalSize ps \<le> length memory"
  shows "\<exists>d'. flushDiscontiguousToken memory isLocal d = Inr d' \<and> dw_pending d' = []
     \<and> dw_inv memory isLocal hint s0 ps d'"
proof (cases "dw_pending d = []")
  case True
  then show ?thesis
    using assms(2) by (auto simp: dw_inv_def dw_core_def flushDiscontiguousToken_def)
next
  case False
  then show ?thesis
    using assms flushToken_core by (auto simp: dw_inv_def)
qed

lemma writeAlone_inv:
  assumes s: "healthy s0" and inv: "dw_inv memory isLocal hint s0 ps d"
    and fits: "totalSize (ps @ [page]) \<le> length memory"
  shows "\<exists>d'. writeAlone memory isLocal hint page d = Inr d' \<and> dw_inv memory isLocal hint s0 (ps @ [page]) d'"
proof -
  obtain d1 where d1: "flushDiscontiguousToken memory isLocal d = Inr d1" "dw_pending d1 = []"
      "dw_inv memory isLocal hint s0 ps d1"
    using flushToken_inv [OF s inv] fits by auto
  then obtain bs where st: "dw_stream d1 = emit bs s0" "encodes bs (pageEvents hint ps memory)"
    and ptr: "dw_ptr d1 = totalSize ps"
    by (auto simp: dw_inv_def dw_core_def)
  have "writesEvents (emit bs s0) (writeContiguousPages (drop (totalSize ps) memory) (pi_size page)
      (pi_physicalAddress page) (addressSpaceOf (pi_isLocalMemory page)) hint (emit bs s0))
      (pageEvents hint [page] (drop (totalSize ps) memory))"
    using writeContiguous_event [of "emit bs s0" "pi_size page"] s fits by simp
  then obtain b where "writeContiguousPages (drop (totalSize ps) memory) (pi_size page)
      (pi_physicalAddress page) (addressSpaceOf (pi_isLocalMemory page)) hint (emit bs s0)
      = Inr (emit (bs @ b) s0)" "encodes b (pageEvents hint [page] (drop (totalSize ps) memory))"
    by (auto simp: writesEvents_def)
  moreover from this(2) have "encodes (bs @ b) (pageEvents hint (ps @ [page]) memory)"
    using st(2) by (simp only: pageEvents_append encodes_append)
  ultimately show ?thesis
    using d1 ptr st(1)
    by (auto simp: writeAlone_def dw_inv_def dw_core_def Let_def)
qed

definition dw_room ::
  "u8 list \<Rightarrow> bool \<Rightarrow> int \<Rightarrow> AubFileStream \<Rightarrow> PageInfo list \<Rightarrow> nat \<Rightarrow> dw_state \<Rightarrow> bool" where
  "dw_room memory isLocal hint s0 ps n d \<longleftrightarrow> dw_core memory isLocal hint s0 ps d
     \<and> cmdDwordCount (dw_cmd d) = tokenLength (dw_pending d)
     \<and> length (dw_pending d) < 63 \<and> n + tokenLength (dw_pending d) \<le> 65535"

lemma dw_core_setDwordCount [simp]:
  "dw_core memory isLocal hint s0 ps (d\<lparr>dw_cmd := setDwordCount n cmd\<rparr>) =
   dw_core memory isLocal hint s0 ps (d\<lparr>dw_cmd := cmd\<rparr>)"
  by (simp add: dw_core_def)

lemma startToken_core:
  assumes inv: "dw_inv memory isLocal hint s0 ps d"
  shows "\<exists>d'. startToken d = Inr d' \<and> dw_core memory isLocal hint s0 ps d'
     \<and> cmdDwordCount (dw_cmd d') = tokenLength (dw_pending d')"
proof (cases "dw_pending d = []")
  case True
  then have "dw_ptrDump d = dw_ptr d" "cmdDwordCount (dw_cmd d) = 0" "dw_index d = 0"
    using inv by (auto simp: dw_inv_def dw_core_def)
  then have "startToken d = Inr (d\<lparr>dw_cmd := setDwordCount 190 (dw_cmd d)\<rparr>)"
    using True by (simp add: startToken_def headerDwordCount_def)
  then show ?thesis
    using inv True by (auto simp: dw_inv_def)
next
  case False
  then show ?thesis
    using inv by (auto simp: startToken_def dw_inv_def)
qed

lemma makeRoom_room:
  assumes s: "healthy s0" and core: "dw_core memory isLocal hint s0 ps d"
    and count: "cmdDwordCount (dw_cmd d) = tokenLength (dw_pending d)"
    and fits: "totalSize ps \<le> length memory" and n: "n \<le> 65345"
  shows "\<exists>d'. makeRoom memory isLocal n d = Inr d' \<and> dw_room memory isLocal hint s0 ps n d'"
proof (cases "63 \<le> dw_index d \<or> 65535 < n + cmdDwordCount (dw_cmd d)")
  case True
  then have "dw_pending d \<noteq> []"
    using core count n by (auto simp: dw_core_def)
  then obtain d1 where d1: "flushDiscontiguousToken memory isLocal d = Inr d1" "dw_pending d1 = []"
      "dw_inv memory isLocal hint s0 ps d1"
    using flushToken_core [OF s core fits _ count] by auto
  moreover from this have "dw_ptrDump d1 = dw_ptr d1"
    by (auto simp: dw_inv_def dw_core_def)
  ultimately have "makeRoom memory isLocal n d = Inr (d1\<lparr>dw_cmd := setDwordCount 190 (dw_cmd d1)\<rparr>)"
    using True by (simp add: makeRoom_def maxEntries_def maxDwordCount_def headerDwordCount_def)
  then show ?thesis
    using d1 n by (auto simp: dw_room_def dw_inv_def)
next
  case False
  then show ?thesis
    using core count
    by (auto simp: makeRoom_def maxEntries_def maxDwordCount_def dw_room_def dw_core_def)
qed

lemma storePair_inv:
  assumes room: "dw_room memory isLocal hint s0 ps n d" and page: "plainPage isLocal page"
    and n: "4 * n = unat (pi_size page)"
  shows "\<exists>d'. storePair n page d = Inr d' \<and> dw_inv memory isLocal hint s0 (ps @ [page]) d'"
proof -
  let ?q = "dw_pending d"
  have tok: "token (addressSpaceOf isLocal) hint (pagePairs ?q) (dw_cmd d)" and len: "length ?q < 63"
    and index: "dw_index d = length ?q"
    and count: "cmdDwordCount (dw_cmd d) = tokenLength ?q" "n + tokenLength ?q \<le> 65535"
    using room by (auto simp: dw_room_def dw_core_def)
  have pairs: "length (mwd_Dword_2_To_190 (dw_cmd d)) = 63"
    using tok by (simp add: token_def)
  have "tokenLength ?q + n = tokenLength (?q @ [page])"
    using n [symmetric] by simp
  then have "cmdDwordCount (setDwordCount (tokenLength ?q + n)
      (setPair (length ?q) (pi_physicalAddress page) (ucast (pi_size page)) (dw_cmd d)))
      = tokenLength (?q @ [page])"
    using count(2) by (subst cmdDwordCount_simps(1)) linarith+
  then show ?thesis
    using room page token_setPair [OF tok, of "pi_physicalAddress page" "ucast (pi_size page)"]
    by (auto simp: storePair_def index pairs len count(1) dw_inv_def dw_room_def dw_core_def Let_def)
qed

text \<open>The loop accepts pages of any size below 16 GB, the width of its dword counter.\<close>

definition goodPage :: "PageInfo \<Rightarrow> bool" where
  "goodPage p \<longleftrightarrow> 0 < unat (pi_size p) \<and> unat (pi_size p) < 2 ^ 34 - 4"

lemma dw_step_inv:
  assumes s: "healthy s0" and inv: "dw_inv memory isLocal hint s0 ps d" and good: "goodPage page"
    and fits: "totalSize (ps @ [page]) \<le> length memory"
  shows "\<exists>d'. dw_step memory isLocal hint page d = Inr d' \<and> dw_inv memory isLocal hint s0 (ps @ [page]) d'"
proof (cases "needsContiguous isLocal page")
  case True
  then show ?thesis
    using writeAlone_inv [OF s inv fits] by (simp add: dw_step_def Let_def)
next
  case False
  let ?n = "unat (alignedDwords (pi_size page))"
  have nval: "?n = (unat (pi_size page) + 3) div 4"
    using good by (simp add: goodPage_def alignedDwords_value)
  have small: "?n \<le> 65345" and aligned: "unat (pi_size page) mod 4 = 0"
    using False by (auto simp: needsContiguous_def maxDataDwordCount_def maxDwordCount_def
        headerDwordCount_def word_4_aligned)
  then have n: "4 * ?n = unat (pi_size page)"
    unfolding nval by presburger
  then have plain: "plainPage isLocal page"
    using False good small by (auto simp: plainPage_def needsContiguous_def goodPage_def)
  obtain d1 where "startToken d = Inr d1" "dw_core memory isLocal hint s0 ps d1"
      "cmdDwordCount (dw_cmd d1) = tokenLength (dw_pending d1)"
    using startToken_core [OF inv] by auto
  moreover from this obtain d2 where "makeRoom memory isLocal ?n d1 = Inr d2"
      "dw_room memory isLocal hint s0 ps ?n d2"
    using makeRoom_room [OF s _ _ _ small] fits by fastforce
  ultimately show ?thesis
    using storePair_inv [OF _ plain n] False by (fastforce simp: dw_step_def Let_def)
qed

lemma dw_loop_inv:
  assumes "healthy s0"
  shows "dw_inv memory isLocal hint s0 ps d \<Longrightarrow> \<forall>p\<in>set qs. goodPage p \<Longrightarrow>
    totalSize (ps @ qs) \<le> length memory \<Longrightarrow>
    \<exists>d'. dw_loop memory isLocal hint qs d = Inr d' \<and> dw_inv memory isLocal hint s0 (ps @ qs) d'"
proof (induction qs arbitrary: ps d)
  case (Cons q qs)
  have "goodPage q" "totalSize (ps @ [q]) \<le> length memory"
    using Cons.prems by auto
  then obtain d1 where "dw_step memory isLocal hint q d = Inr d1"
      "dw_inv memory isLocal hint s0 (ps @ [q]) d1"
    using dw_step_inv [OF assms Cons.prems(1)] by blast
  then show ?case
    using Cons.IH [of "ps @ [q]" d1] Cons.prems by simp
qed simp

lemma writePages_event:
  assumes s: "healthy s" and ne: "ps \<noteq> []" and good: "\<forall>p\<in>set ps. goodPage p"
    and total: "totalSize ps = unat sz" and fits: "unat sz \<le> length memory"
  shows "writesEvents s (writeDiscontiguousPages memory sz ps hint s) (pageEvents hint ps memory)"
proof (cases "tl ps = []")
  case True
  then obtain p where "ps = [p]"
    using ne by (cases ps) auto
  then show ?thesis
    using writeContiguous_event [OF s fits] total by (simp add: writeDiscontiguousPages_def)
next
  case False
  let ?l = "pi_isLocalMemory (hd ps)"
  have "dw_inv memory ?l hint s [] (dw_start ?l hint s)"
    by (auto simp: dw_inv_def dw_core_def dw_start_def token_start intro!: exI [of _ "[]"])
  then obtain d where d: "dw_loop memory ?l hint ps (dw_start ?l hint s) = Inr d"
      "dw_inv memory ?l hint s ps d"
    using dw_loop_inv [OF s, of memory ?l hint "[]" _ ps] good total fits by auto
  then obtain d1 where d1: "flushDiscontiguousToken memory ?l d = Inr d1" "dw_pending d1 = []"
      "dw_inv memory ?l hint s ps d1"
    using flushToken_inv [OF s d(2)] total fits by auto
  then obtain bs where "dw_stream d1 = emit bs s" "encodes bs (pageEvents hint ps memory)"
    "dw_writtenSize d1 = sz"
    using total by (auto simp: dw_inv_def dw_core_def)
  moreover have "writeDiscontiguousPages memory sz ps hint s =
      bindR (dw_loop memory ?l hint ps (dw_start ?l hint s)) (\<lambda>d.
      bindR (flushDiscontiguousToken memory ?l d) (\<lambda>d.
      bindR (flush (dw_stream d)) (\<lambda>s. assertR (dw_writtenSize d = sz) (Inr s))))"
    using False by (cases ps rule: list.exhaust; cases "tl ps") (auto simp: writeDiscontiguousPages_def)
  ultimately show ?thesis
    using d(1) d1(1) s by (simp add: writesEvents_emit)
qed

section \<open>Comments\<close>

lemma maxMessage_value: "maxMessageBytesPerRecord = 262136"
  by (simp add: maxMessageBytesPerRecord_def)

lemma commentRecord_event:
  assumes s: "healthy s" and ne: "bs \<noteq> []" and len: "length bs \<le> maxMessageBytesPerRecord"
  shows "writesEvents s (commentRecord bs s) [EvComment (bs @ padOf bs)]"
proof -
  define k where "k = (length bs + 3) div 4"
  define w :: u16 where "w = word_of_nat (k + 1)"
  have k: "k \<le> 65534"
    using len by (simp add: k_def maxMessage_value)
  have w: "unat w = k + 1"
    unfolding w_def by (subst unat_word_of_nat_small) (use k in simp_all)
  have "cm_Header (commentHeader (length bs)) = memtraceHeader 8 w"
    by (simp add: commentHeader_def Let_def w_def k_def add.commute)
  then have "encodes (cm_headerBytes (commentHeader (length bs)) @ bs @ padOf bs)
      [EvComment (bs @ padOf bs)]"
    using encodes_comment [of "commentHeader (length bs)" w "bs @ padOf bs"] padOf_length [of bs]
    by (simp add: w k_def)
  then show ?thesis
    using s ne by (simp add: commentRecord_def writesEvents_emit)
qed

lemma addComment_loop_event:
  assumes "healthy s" and "bs \<noteq> []"
  shows "\<exists>chunks. writesEvents s (addComment_loop bs s) (map EvComment chunks)
     \<and> concat chunks = bs @ padOf bs \<and> (\<forall>c\<in>set chunks. length c \<le> 4 * 65534)"
  using assms
proof (induction "length bs" arbitrary: bs s rule: less_induct)
  case less
  show ?case
  proof (cases "length bs \<le> maxMessageBytesPerRecord")
    case True
    have "writesEvents s (addComment_loop bs s) [EvComment (bs @ padOf bs)]"
      using commentRecord_event [OF less.prems True] True
      by (subst addComment_loop.simps) (auto simp: writesEvents_def)
    moreover have "length bs + length (padOf bs) \<le> 4 * 65534"
      unfolding padOf_length using True by (simp add: maxMessage_value)
    ultimately show ?thesis
      by (intro exI [of _ "[bs @ padOf bs]"]) simp
  next
    case False
    define c where "c = take maxMessageBytesPerRecord bs"
    define rest where "rest = drop maxMessageBytesPerRecord bs"
    have c: "length c = 262136" and split: "bs = c @ rest" and ne: "c \<noteq> []" "rest \<noteq> []"
      using False by (auto simp: c_def rest_def maxMessage_value)
    have pad: "padOf c = []" "padOf bs = padOf rest"
    proof -
      have "length bs mod 4 = length rest mod 4"
        unfolding split length_append c by presburger
      then show "padOf c = []" "padOf bs = padOf rest"
        using c by simp_all
    qed
    have first: "writesEvents s (commentRecord c s) [EvComment c]"
      using commentRecord_event [OF less.prems(1) ne(1)] c pad by (simp add: maxMessage_value)
    then obtain b where b: "commentRecord c s = Inr (emit b s)" "encodes b [EvComment c]"
      by (auto simp: writesEvents_def)
    obtain chunks where chunks: "writesEvents (emit b s) (addComment_loop rest (emit b s)) (map EvComment chunks)"
        "concat chunks = rest @ padOf rest" "\<forall>c\<in>set chunks. length c \<le> 4 * 65534"
      using less.hyps [of rest "emit b s"] less.prems(1) ne(2) c split by auto
    have "addComment_loop bs s = addComment_loop rest (emit b s)"
      using False b(1) ne(2)
      by (subst addComment_loop.simps) (simp add: Let_def min_def flip: c_def rest_def)
    then have "writesEvents s (addComment_loop bs s) (map EvComment (c # chunks))"
      using chunks(1) encodes_append [OF b(2)] by (auto simp: writesEvents_def)
    then show ?thesis
      using chunks(2,3) c pad by (intro exI [of _ "c # chunks"]) (simp add: split)
  qed
qed

lemma takeWhile_nonzero: "takeWhile (\<lambda>b. b \<noteq> 0) (takeWhile (\<lambda>b. b \<noteq> 0) bs @ [0] @ pad) = takeWhile (\<lambda>b. b \<noteq> (0 :: u8)) bs"
  by (induction bs) auto

lemma addComment_event:
  assumes "healthy s"
  shows "\<exists>chunks. writesEvents s (addComment message s) (map EvComment chunks)
     \<and> takeWhile (\<lambda>b. b \<noteq> 0) (concat chunks) = takeWhile (\<lambda>b. b \<noteq> 0) (charBytes message)
     \<and> (\<forall>c\<in>set chunks. length c \<le> 4 * 65534)"
proof -
  define bs where "bs = takeWhile (\<lambda>b. b \<noteq> 0) (charBytes message) @ [0]"
  have "bs \<noteq> []"
    by (simp add: bs_def)
  then obtain chunks where "writesEvents s (addComment_loop bs s) (map EvComment chunks)"
      "concat chunks = bs @ padOf bs" "\<forall>c\<in>set chunks. length c \<le> 4 * 65534"
    using addComment_loop_event [OF assms] by blast
  moreover have "takeWhile (\<lambda>b. b \<noteq> 0) (bs @ padOf bs) = takeWhile (\<lambda>b. b \<noteq> 0) (charBytes message)"
    unfolding bs_def by (simp only: append_assoc takeWhile_nonzero)
  ultimately show ?thesis
    using assms by (auto simp: addComment_def bs_def intro!: exI [of _ chunks] writesEvents_flush)
qed

section \<open>Expected memory\<close>

fun compareEvents :: "u32 \<Rightarrow> PageInfo list \<Rightarrow> u8 list \<Rightarrow> AubEvent list" where
  "compareEvents op [] memory = []"
| "compareEvents op (p # ps) memory =
     EvMemoryCompare (spaceField (addressSpaceOf (pi_isLocalMemory p))) (pi_physicalAddress p)
       (take (unat (pi_size p)) memory) (take_bit 1 op) (if ps = [] \<or> op = 0 then 0 else 1)
     # compareEvents op ps (drop (unat (pi_size p)) memory)"

text \<open>The record of one entry: its length field has 16 bits and is not guarded.\<close>

lemma compareRecord_length:
  "cmp = compareRecord entry isLast op \<Longrightarrow> unat (pi_size entry) < 2 ^ 63 \<Longrightarrow>
   unat (DwordLength (mc_Header cmp)) = (4 + (unat (pi_size entry) + 3) div 4) mod 2 ^ 16"
proof -
  assume cmp: "cmp = compareRecord entry isLast op" and size: "unat (pi_size entry) < 2 ^ 63"
  have "unat (20 + pi_size entry + 4 - 1) = 23 + unat (pi_size entry)"
  proof -
    have "20 + pi_size entry + 4 - 1 = 23 + pi_size entry"
      by simp
    then show ?thesis
      using size by (simp only:) (subst unat_add_small, simp_all)
  qed
  then have q: "unat ((20 + pi_size entry + 4 - 1) div 4) = 5 + (unat (pi_size entry) + 3) div 4"
    by (simp only: unat_div) simp
  then have one: "(1 :: u64) \<le> (20 + pi_size entry + 4 - 1) div 4"
    by (simp only: word_le_nat_alt) simp
  have "unat ((20 + pi_size entry + 4 - 1) div 4 - 1) = 4 + (unat (pi_size entry) + 3) div 4"
    by (simp only: unat_sub [OF one] q) simp
  then show ?thesis
    unfolding cmp compareRecord_def Let_def
    by (simp add: memtraceHeader_def unsigned_ucast_eq take_bit_eq_mod)
qed

definition maxCompareSize :: nat where
  "maxCompareSize = 262124"

lemma compareRecord_encodes:
  assumes "bs \<noteq> []" and len: "length bs = unat (pi_size entry)" and small: "length bs \<le> maxCompareSize"
  shows "encodes (mc_headerBytes (compareRecord entry isLast op) @ bs @ padOf bs)
    [EvMemoryCompare (spaceField (addressSpaceOf (pi_isLocalMemory entry))) (pi_physicalAddress entry)
       bs (take_bit 1 op) (if isLast \<or> op = 0 then 0 else 1)]"
proof -
  let ?c = "compareRecord entry isLast op"
  define w where "w = DwordLength (mc_Header ?c)"
  have hdr: "mc_Header ?c = memtraceHeader 4 w"
    by (simp add: w_def compareRecord_def Let_def memtraceHeader_def)
  have "unat w = (4 + (length bs + 3) div 4) mod 2 ^ 16"
    using compareRecord_length [of ?c entry isLast op] len small
    by (simp add: w_def maxCompareSize_def)
  moreover have "4 + (length bs + 3) div 4 < 2 ^ 16"
    using small by (simp add: maxCompareSize_def)
  ultimately have w: "unat w = 4 + (length bs + 3) div 4"
    by simp
  have size: "unat (mc_dataSizeInBytes ?c) = length bs"
    using len small by (simp add: compareRecord_def Let_def maxCompareSize_def unat_ucast_32_small)
  have bit: "ucast (ucast op :: 1 word) = take_bit 1 op"
    by (rule bit_word_eqI) (auto simp: bit_simps bit_0)
  have fields: "mc_address ?c = ucast (pi_physicalAddress entry)"
    "mc_addressHigh ?c = ucast (drop_bit 32 (pi_physicalAddress entry))"
    "ucast (mc_addressSpace ?c) = spaceField (addressSpaceOf (pi_isLocalMemory entry))"
    "ucast (mc_compareOperation ?c) = take_bit 1 op"
    "ucast (mc_deferCompareEvaluation ?c) = (if isLast \<or> op = 0 then 0 else 1 :: u32)"
    by (simp_all add: compareRecord_def Let_def bit spaceField_def)
  show ?thesis
    using encodes_memoryCompare [OF hdr, of "bs @ padOf bs"] padOf_length [of bs]
      padded_paddedTo4 [of bs]
    by (simp add: w size fields)
qed

lemma expect_loop_event:
  "healthy s \<Longrightarrow> totalSize ps \<le> length memory \<Longrightarrow>
   \<forall>p\<in>set ps. 0 < unat (pi_size p) \<and> unat (pi_size p) \<le> maxCompareSize \<Longrightarrow>
   \<exists>bs. expectMemoryTable_loop memory n ps op s = Inr (n + word_of_nat (totalSize ps), emit bs s)
     \<and> encodes bs (compareEvents op ps memory)"
proof (induction ps arbitrary: memory n s)
  case Nil
  then show ?case
    by (intro exI [of _ "[]"]) simp
next
  case (Cons p ps)
  let ?m = "unat (pi_size p)"
  define b where "b = take ?m memory"
  have b: "b \<noteq> []" "length b = ?m" "length b \<le> maxCompareSize"
    using Cons.prems by (auto simp: b_def)
  let ?bytes = "mc_headerBytes (compareRecord p (ps = []) op) @ b @ padOf b"
  obtain bs where bs: "expectMemoryTable_loop (drop ?m memory) (n + pi_size p) ps op (emit ?bytes s)
      = Inr (n + pi_size p + word_of_nat (totalSize ps), emit bs (emit ?bytes s))"
      "encodes bs (compareEvents op ps (drop ?m memory))"
  proof -
    have "totalSize ps \<le> length (drop ?m memory)"
      using Cons.prems(2) by simp
    then show ?thesis
      using Cons.IH [of "emit ?bytes s" "drop ?m memory" "n + pi_size p"] Cons.prems that by auto
  qed
  have "expectMemoryTable_loop memory n (p # ps) op s =
      expectMemoryTable_loop (drop ?m memory) (n + pi_size p) ps op (emit ?bytes s)"
    using Cons.prems b by (simp add: Let_def readBuffer_def flip: b_def)
  moreover have "encodes (?bytes @ bs) (compareEvents op (p # ps) memory)"
    using encodes_append [OF compareRecord_encodes [OF b, of "ps = []" op] bs(2)]
    by (simp add: b_def)
  ultimately show ?case
    using bs(1) by (intro exI [of _ "?bytes @ bs"]) (simp add: add.assoc)
qed

lemma expect_event:
  assumes s: "healthy s" and total: "totalSize ps = unat sz" and fits: "unat sz \<le> length memory"
    and sizes: "\<forall>p\<in>set ps. 0 < unat (pi_size p) \<and> unat (pi_size p) \<le> maxCompareSize"
  shows "writesEvents s (expectMemoryTable memory sz ps op s) (compareEvents op ps memory)"
  using expect_loop_event [OF s _ sizes, of memory 0 op] s total fits
  by (auto simp: expectMemoryTable_def writesEvents_def)

section \<open>The header of the file and the records for the dump tools\<close>

definition versionEvent :: "u32 \<Rightarrow> int \<Rightarrow> 'z Gpu_scheme \<Rightarrow> AubEvent" where
  "versionEvent caller stepping gpu =
     (let v = versionRecord caller stepping gpu
      in EvVersion (ucast (ver_stepping v)) (ucast (ver_device v)) 1 5 (ver_deviceAbbreviation v)
           (ver_commandLine v))"

lemma getHeaderStr_length: "length header = 4 \<Longrightarrow> length (getHeaderStr caller header) = 4"
  by (simp add: getHeaderStr_def charBytes_def Let_def)

lemma version_encodes:
  "encodes (ver_bytes (versionRecord caller stepping gpu)) [versionEvent caller stepping gpu]"
  using encodes_version [of "versionRecord caller stepping gpu"]
  by (simp add: versionRecord_def versionEvent_def Let_def getHeaderStr_length charBytes_def)

lemma declareContext_event:
  "healthy s \<Longrightarrow> writesEvents s (declareContextForDumping h ppgtt s)
     [EvContext h (48 \<le> getNumAddressBits (pt_kind ppgtt))
        (if 48 \<le> getNumAddressBits (pt_kind ppgtt) then [pt_physicalAddress ppgtt, 0, 0, 0]
         else map (childAddress ppgtt) [0, 1, 2, 3])]"
  unfolding declareContextForDumping_def
  by (rule writesEvents_packet)
     (use encodes_context [of "contextCreate h ppgtt"] in
       \<open>auto simp: contextCreate_def Let_def legacyHdr_def legacyHeader_def split: if_splits\<close>)

lemma dumpBufferBIN_event:
  "healthy s \<Longrightarrow> afs_dumpBinSupported s \<Longrightarrow> writesEvents s (dumpBufferBIN gtt a sz h s)
     [EvDumpBin a sz (ucast (ucast gtt :: 2 word)) h]"
  unfolding dumpBufferBIN_def
  using encodes_dumpBin [of "binaryDump gtt a sz h"]
  by (auto simp: binaryDump_def cbd_zero_def legacyHdr_def legacyHeader_def intro!: writesEvents_emit)

lemma dumpSurface_event:
  "healthy s \<Longrightarrow> afs_dumpSurfaceSupported s \<Longrightarrow> writesEvents s (dumpSurface gtt si h s)
     [EvDumpSurface (si_address si) (ucast (ucast gtt :: 2 word)) h]"
  using encodes_dumpCompress [of "dumpCompress gtt si h"]
  by (auto simp: dumpSurface_def dumpCompress_def Let_def memtraceHeader_def intro!: writesEvents_emit)

section \<open>Round trips through the file\<close>

definition example_stream :: AubFileStream where
  "example_stream = newAubFileStream (\<lambda>_. []) []"

lemma example_stream_healthy: "healthy example_stream" "encodes (written example_stream) []"
  by (simp_all add: example_stream_def newAubFileStream_def healthy_def written_def isOpen_def)

text \<open>C5: Writing memory to a list of physical pages appends records to the AUB file (or to the buffer kept before the file is open) from which a reader recovers exactly the requested stores: every byte of the buffer, in order, at its physical address, in the address space of its page and with the given hint.  How the writer splits the pages into discontiguous tokens of at most 63 pairs and 65535 dwords, into separate contiguous records for unaligned pages or pages of the other address space, and into chunks below the 16-bit dword count, does not show.  The call never fails an assertion.\<close>

theorem discontiguous_write_roundtrip:
  assumes "healthy s" and "encodes (written s) old" and "ps \<noteq> []" and "\<forall>p\<in>set ps. goodPage p"
    and "totalSize ps = unat sz" and "unat sz \<le> length memory"
  shows "\<exists>s'. writeDiscontiguousPages memory sz ps hint s = Inr s'
    \<and> readAub (written s') = Some (old @ pageEvents hint ps memory)"
  by (rule writesEvents_read) (rule writePages_event assms)+

definition example_pages :: "PageInfo list" where
  "example_pages =
     [\<lparr>pi_physicalAddress = 0x1000, pi_size = 4, pi_isLocalMemory = True, pi_memoryBank = 1\<rparr>,
      \<lparr>pi_physicalAddress = 0x2000, pi_size = 3, pi_isLocalMemory = False, pi_memoryBank = 0\<rparr>]"

theorem discontiguous_write_roundtrip_witness:
  "\<exists>s'. writeDiscontiguousPages [1, 2, 3, 4, 5, 6, 7] 7 example_pages 0 example_stream = Inr s'
    \<and> readAub (written s') = Some ([] @
        [EvStore 1 0 0x1000 1, EvStore 1 0 0x1001 2, EvStore 1 0 0x1002 3, EvStore 1 0 0x1003 4,
         EvStore 2 0 0x2000 5, EvStore 2 0 0x2001 6, EvStore 2 0 0x2002 7])"
proof -
  have "pageEvents 0 example_pages [1, 2, 3, 4, 5, 6, 7] =
      [EvStore 1 0 0x1000 1, EvStore 1 0 0x1001 2, EvStore 1 0 0x1002 3, EvStore 1 0 0x1003 4,
       EvStore 2 0 0x2000 5, EvStore 2 0 0x2001 6, EvStore 2 0 0x2002 7]"
    by (simp add: example_pages_def spaceField_def hintField_def addressSpaceOf_def
        take_Cons' drop_Cons')
  moreover have "example_pages \<noteq> []" "\<forall>p\<in>set example_pages. goodPage p"
    "totalSize example_pages = unat (7 :: usize)" "unat (7 :: usize) \<le> length [1, 2, 3, 4, 5, 6, 7 :: u8]"
    by (auto simp: example_pages_def goodPage_def)
  ultimately show ?thesis
    using discontiguous_write_roundtrip [OF example_stream_healthy, of example_pages 7
        "[1, 2, 3, 4, 5, 6, 7]" 0] by (simp only:) blast
qed

text \<open>C18: Writing a table of page table entries appends records from which a reader recovers, for every entry in order, the eight little-endian bytes of its value at its physical address; the splitting into tokens of 63 pairs does not show, and the assertions of the loop never fail.\<close>

theorem entries_write_roundtrip:
  assumes "healthy s" and "encodes (written s) old"
  shows "\<exists>s'. writeDiscontiguousEntries es space hint s = Inr s'
    \<and> readAub (written s') = Some (old @ entryEvents space hint es)"
  by (rule writesEvents_read) (rule writeEntries_event assms)+

theorem entries_write_roundtrip_witness:
  "\<exists>s'. writeDiscontiguousEntries [\<lparr>pe_physicalAddress = 0x10, pe_tableEntry = 0x0102\<rparr>] 4 0 example_stream = Inr s'
    \<and> readAub (written s') = Some ([] @ stores 4 0 0x10 [2, 1, 0, 0, 0, 0, 0, 0])"
proof -
  have "entryEvents 4 0 [\<lparr>pe_physicalAddress = 0x10, pe_tableEntry = 0x0102\<rparr>] =
      stores 4 0 0x10 [2, 1, 0, 0, 0, 0, 0, 0]"
    by (simp add: entryEvents_def spaceField_def hintField_def qwordBytes_def dwordBytes_def
        drop_bit_eq_div)
  then show ?thesis
    using entries_write_roundtrip [OF example_stream_healthy] by metis
qed

text \<open>C22: A comment of any length is written as comment records whose payloads hold at most 65534 dwords; a reader that joins the payloads and stops at the terminating zero gets the message back.\<close>

theorem comment_roundtrip:
  assumes "healthy s" and "encodes (written s) old"
  shows "\<exists>s' chunks. addComment message s = Inr s'
    \<and> readAub (written s') = Some (old @ map EvComment chunks)
    \<and> (\<forall>c\<in>set chunks. length c \<le> 4 * 65534)
    \<and> takeWhile (\<lambda>b. b \<noteq> 0) (concat chunks) = takeWhile (\<lambda>b. b \<noteq> 0) (charBytes message)"
proof -
  obtain chunks where chunks: "writesEvents s (addComment message s) (map EvComment chunks)"
      "takeWhile (\<lambda>b. b \<noteq> 0) (concat chunks) = takeWhile (\<lambda>b. b \<noteq> 0) (charBytes message)"
      "\<forall>c\<in>set chunks. length c \<le> 4 * 65534"
    using addComment_event [OF assms(1)] by blast
  then show ?thesis
    using writesEvents_read [OF chunks(1) assms(2)] by blast
qed

theorem comment_roundtrip_witness:
  "\<exists>s' chunks. addComment ''ggtt'' example_stream = Inr s'
    \<and> readAub (written s') = Some ([] @ map EvComment chunks)
    \<and> (\<forall>c\<in>set chunks. length c \<le> 4 * 65534)
    \<and> takeWhile (\<lambda>b. b \<noteq> 0) (concat chunks) = takeWhile (\<lambda>b. b \<noteq> 0) (charBytes ''ggtt'')"
  by (rule comment_roundtrip [OF example_stream_healthy])

text \<open>C21: Expecting memory writes one compare record per page, from which a reader recovers the address space, the physical address, the expected bytes and the operation of every page; the comparison is deferred exactly for the pages before the last one when the operation is not "equal".  The pages must not exceed 262124 bytes.\<close>

theorem expect_roundtrip:
  assumes "healthy s" and "encodes (written s) old" and "totalSize ps = unat sz"
    and "unat sz \<le> length memory"
    and "\<forall>p\<in>set ps. 0 < unat (pi_size p) \<and> unat (pi_size p) \<le> maxCompareSize"
  shows "\<exists>s'. expectMemoryTable memory sz ps op s = Inr s'
    \<and> readAub (written s') = Some (old @ compareEvents op ps memory)"
  by (rule writesEvents_read) (rule expect_event assms)+

theorem expect_roundtrip_witness:
  "\<exists>s'. expectMemoryTable [1, 2, 3, 4, 5, 6, 7] 7 example_pages 1 example_stream = Inr s'
    \<and> readAub (written s') = Some ([] @
        [EvMemoryCompare 1 0x1000 [1, 2, 3, 4] 1 1, EvMemoryCompare 2 0x2000 [5, 6, 7] 1 0])"
proof -
  have "compareEvents 1 example_pages [1, 2, 3, 4, 5, 6, 7] =
      [EvMemoryCompare 1 0x1000 [1, 2, 3, 4] 1 1, EvMemoryCompare 2 0x2000 [5, 6, 7] 1 0]"
    by (simp add: example_pages_def spaceField_def addressSpaceOf_def take_Cons' drop_Cons')
  moreover have "totalSize example_pages = unat (7 :: usize)"
    "unat (7 :: usize) \<le> length [1, 2, 3, 4, 5, 6, 7 :: u8]"
    "\<forall>p\<in>set example_pages. 0 < unat (pi_size p) \<and> unat (pi_size p) \<le> maxCompareSize"
    by (auto simp: example_pages_def maxCompareSize_def)
  ultimately show ?thesis
    using expect_roundtrip [OF example_stream_healthy, of example_pages 7 "[1, 2, 3, 4, 5, 6, 7]" 1]
    by (simp only:)
qed

text \<open>The compare record of a page above 262124 bytes is corrupt: its 16-bit length field wraps, so the packet size its header announces is smaller than the header and the page data that are written.  A 2 MB page is such a page.\<close>

theorem expect_length_overflow:
  assumes "maxCompareSize < unat (pi_size entry)" and "unat (pi_size entry) < 2 ^ 63"
  shows "4 * nat (getPacketSize (mc_Header (compareRecord entry isLast op))) < 20 + unat (pi_size entry)"
proof -
  have "unat (DwordLength (mc_Header (compareRecord entry isLast op))) < 2 ^ 16"
    by (simp add: compareRecord_length [OF refl assms(2)])
  then have "nat (getPacketSize (mc_Header (compareRecord entry isLast op))) \<le> 2 ^ 16"
    by (simp add: getPacketSize_def nat_add_distrib)
  then show ?thesis
    using assms(1) by (simp add: maxCompareSize_def)
qed

theorem expect_length_overflow_witness:
  "4 * nat (getPacketSize (mc_Header (compareRecord \<lparr>pi_physicalAddress = 0x200000, pi_size = 0x200000,
     pi_isLocalMemory = True, pi_memoryBank = 1\<rparr> True 0)))
   < 20 + unat (pi_size \<lparr>pi_physicalAddress = 0x200000, pi_size = 0x200000,
     pi_isLocalMemory = True, pi_memoryBank = 1\<rparr>)"
  by (rule expect_length_overflow) (simp_all add: maxCompareSize_def)

section \<open>Failing writes\<close>

definition open_stream :: "string \<Rightarrow> IoOutcome list \<Rightarrow> bool \<Rightarrow> AubFileStream \<Rightarrow> bool" where
  "open_stream name outcomes throwing s \<longleftrightarrow> isOpen s \<and> \<not> of_bad (afs_file s) \<and> \<not> of_fail (afs_file s)
     \<and> of_name (afs_file s) = name \<and> afs_fileName s = name \<and> of_outcomes (afs_file s) = outcomes
     \<and> fh_throwOnError (afs_fileHandle s) = throwing"

lemmas file_simps = fh_write_def fh_check_def fh_close_def fh_open_def fh_clear_def ofs_write_def
  ofs_close_def ofs_open_def ofs_clear_def outcome_def nextOutcome_def appendFile_def isOpen_def

definition example_open :: "IoOutcome list \<Rightarrow> bool \<Rightarrow> AubFileStream" where
  "example_open outcomes throwing = example_stream\<lparr>
     afs_fileHandle := \<lparr>fh_file = \<lparr>of_isOpen = True, of_bad = False, of_fail = False, of_name = ''f.aub'',
       of_disk = (\<lambda>_. []), of_errno = 0, of_outcomes = outcomes\<rparr>, fh_throwOnError = throwing\<rparr>,
     afs_fileName := ''f.aub''\<rparr>"

lemma example_open_stream: "open_stream ''f.aub'' outcomes throwing (example_open outcomes throwing)"
  by (simp add: open_stream_def example_open_def isOpen_def)



text \<open>If the file cannot be opened again after such a failure, the loss is not reported: \<^verbatim>\<open>std::ofstream::open\<close> signals its failure by the fail bit, the wrapper looks at the bad bit only, and \<^verbatim>\<open>write\<close> returns normally although the bytes are in no file and the stream is closed.\<close>

theorem failed_reopen_unreported:
  assumes "open_stream name [IoError EFAULT 0, IoOk, IoError e n] False s" and "bs \<noteq> []"
  shows "\<exists>s'. afs_write bs s = Inr s' \<and> of_disk (afs_file s') = of_disk (afs_file s)
    \<and> afs_tmpWriteBuffer s' = afs_tmpWriteBuffer s \<and> \<not> isOpen s' \<and> \<not> of_bad (afs_file s')"
  using assms
  by (simp add: open_stream_def afs_write_def retryWrite_def file_simps EFAULT_def Let_def fun_upd_idem)

theorem failed_reopen_unreported_witness:
  "\<exists>s'. afs_write [1] (example_open [IoError EFAULT 0, IoOk, IoError 2 0] False) = Inr s'
    \<and> of_disk (afs_file s') = of_disk (afs_file (example_open [IoError EFAULT 0, IoOk, IoError 2 0] False))
    \<and> afs_tmpWriteBuffer s' = afs_tmpWriteBuffer (example_open [IoError EFAULT 0, IoOk, IoError 2 0] False)
    \<and> \<not> isOpen s' \<and> \<not> of_bad (afs_file s')"
  by (rule failed_reopen_unreported [OF example_open_stream]) simp

text \<open>C25: With \<^verbatim>\<open>throwOnError\<close> every failed write of an open file raises a runtime error; without it a failure other than EFAULT leaves the stream in a state in which no later write changes the file.\<close>

theorem failed_write_reported:
  assumes "open_stream name (IoError e n # rest) throwing s" and "bs \<noteq> []" and "e \<noteq> EFAULT \<or> throwing"
  shows "if throwing then afs_write bs s = Inl (RuntimeError (''write() to file failed'' @ newline))
    else \<exists>s'. afs_write bs s = Inr s' \<and> of_bad (afs_file s')
      \<and> (\<forall>cs. cs \<noteq> [] \<longrightarrow> (\<exists>s''. afs_write cs s' = Inr s'' \<and> of_disk (afs_file s'') = of_disk (afs_file s')))"
  using assms
  by (auto simp: open_stream_def afs_write_def retryWrite_def file_simps EFAULT_def Let_def)

theorem failed_write_reported_witness:
  "if False then afs_write [1] (example_open [IoError 28 0] False) = Inl (RuntimeError (''write() to file failed'' @ newline))
    else \<exists>s'. afs_write [1] (example_open [IoError 28 0] False) = Inr s' \<and> of_bad (afs_file s')
      \<and> (\<forall>cs. cs \<noteq> [] \<longrightarrow> (\<exists>s''. afs_write cs s' = Inr s'' \<and> of_disk (afs_file s'') = of_disk (afs_file s')))"
  by (rule failed_write_reported [OF example_open_stream]) (simp_all add: EFAULT_def)

section \<open>Opening the file\<close>

text \<open>C26: What is written before the file is open is kept in a buffer; opening the file and initialising the stream produces a file that starts with the version record, followed by exactly the buffered records, and the buffer is empty afterwards.\<close>

theorem open_writes_buffer:
  assumes "healthy s" and "\<not> isOpen s" and "encodes (afs_tmpWriteBuffer s) evs"
  shows "\<exists>s'. bindR (open_file name s) (afs_init caller stepping gpu) = Inr s'
    \<and> readAub (written s') = Some (versionEvent caller stepping gpu # evs)
    \<and> afs_tmpWriteBuffer s' = [] \<and> isOpen s' \<and> healthy s'"
proof -
  define f where "f = (afs_file s)\<lparr>of_isOpen := True, of_name := name, of_disk := (of_disk (afs_file s))(name := [])\<rparr>"
  define s1 where "s1 = s\<lparr>afs_fileHandle := (afs_fileHandle s)\<lparr>fh_file := f\<rparr>, afs_fileName := name\<rparr>"
  have open1: "open_file name s = Inr s1"
    using assms(1,2) by (simp add: open_file_def file_simps healthy_def s1_def f_def)
  define supp where "supp = (CoreFamily_XeHpCore \<le> gpu_gfxCoreFamily gpu \<and> gpu_gfxCoreFamily gpu \<le> CoreFamily_XeHpgCore)"
  define s2 where "s2 = s1\<lparr>afs_dumpBinSupported := supp, afs_dumpSurfaceSupported := supp\<rparr>"
  have s2: "healthy s2" "isOpen s2" "written s2 = []" "afs_tmpWriteBuffer s2 = afs_tmpWriteBuffer s"
    using assms(1) by (simp_all add: s2_def s1_def f_def healthy_def isOpen_def written_def)
  let ?v = "ver_bytes (versionRecord caller stepping gpu)" and ?t = "afs_tmpWriteBuffer s"
  have tmp: "afs_tmpWriteBuffer (emit bs s2) = ?t" for bs
    using s2 by (simp add: emit_def)
  define s3 where "s3 = (if ?t = [] then emit ?v s2 else (emit (?v @ ?t) s2)\<lparr>afs_tmpWriteBuffer := []\<rparr>)"
  have drain: "writeTmpBuffer (emit ?v s2) = Inr s3"
    using s2 by (cases "?t = []") (simp_all add: writeTmpBuffer_def tmp s3_def)
  have s3: "healthy s3" "isOpen s3" "written s3 = ?v @ ?t" "afs_tmpWriteBuffer s3 = []"
  proof -
    have upd: "healthy (x\<lparr>afs_tmpWriteBuffer := []\<rparr>) = healthy x" "isOpen (x\<lparr>afs_tmpWriteBuffer := []\<rparr>) = isOpen x"
      "isOpen x \<Longrightarrow> written (x\<lparr>afs_tmpWriteBuffer := []\<rparr>) = written x" for x
      by (simp_all add: healthy_def isOpen_def written_def)
    show "healthy s3" "isOpen s3" "written s3 = ?v @ ?t" "afs_tmpWriteBuffer s3 = []"
      using s2 by (auto simp: s3_def upd tmp)
  qed
  have "afs_init caller stepping gpu s1 = Inr s3"
    using s2(1) s3(1) drain by (simp add: afs_init_def Let_def flip: s2_def supp_def)
  moreover have "readAub (written s3) = Some (versionEvent caller stepping gpu # evs)"
    using encodes_read [OF encodes_append [OF version_encodes assms(3)]] by (simp add: s3)
  ultimately show ?thesis
    using open1 s3 by auto
qed

theorem open_writes_buffer_witness:
  "\<exists>s'. bindR (open_file ''f.aub'' example_stream) (afs_init 0 1 example_gpu) = Inr s'
    \<and> readAub (written s') = Some (versionEvent 0 1 example_gpu # [])
    \<and> afs_tmpWriteBuffer s' = [] \<and> isOpen s' \<and> healthy s'"
proof (rule open_writes_buffer [OF example_stream_healthy(1)])
  show "\<not> isOpen example_stream" "encodes (afs_tmpWriteBuffer example_stream) []"
    by (simp_all add: example_stream_def newAubFileStream_def isOpen_def)
qed

end
