(* ===== verification/TbxSockets.thy ===== *)
theory TbxSockets
  imports AubReader
begin

text \<open>
  The connection to a simulator: the messages of \<^verbatim>\<open>tbx_proto.h\<close> that the client uses, and the class
  \<^verbatim>\<open>TbxSocketsImp\<close> of \<^verbatim>\<open>tbx_sockets_imp.h\<close> and \<^verbatim>\<open>tbx_sockets_imp.cpp\<close>.  The calls of the operating system
  are a record of functions over a state of the other side; messages to the error stream and the mutex are
  left out.
\<close>

section \<open>Messages\<close>

definition MEM_TYPE_SYSTEM :: u32 where "MEM_TYPE_SYSTEM = 0"
definition MEM_TYPE_LOCALMEM :: u32 where "MEM_TYPE_LOCALMEM = 1"

definition HAS_MMIO_REQ_TYPE :: u32 where "HAS_MMIO_REQ_TYPE = 0"
definition HAS_MMIO_RES_TYPE :: u32 where "HAS_MMIO_RES_TYPE = 1"
definition HAS_GTT_REQ_TYPE :: u32 where "HAS_GTT_REQ_TYPE = 2"
definition HAS_WRITE_DATA_REQ_TYPE :: u32 where "HAS_WRITE_DATA_REQ_TYPE = 4"
definition HAS_READ_DATA_REQ_TYPE :: u32 where "HAS_READ_DATA_REQ_TYPE = 5"
definition HAS_READ_DATA_RES_TYPE :: u32 where "HAS_READ_DATA_RES_TYPE = 6"
definition HAS_MARKER_REQ_TYPE :: u32 where "HAS_MARKER_REQ_TYPE = 7"
definition HAS_MARKER_RES_TYPE :: u32 where "HAS_MARKER_RES_TYPE = 8"
definition HAS_CONTROL_REQ_TYPE :: u32 where "HAS_CONTROL_REQ_TYPE = 11"
definition HAS_PCICFG_REQ_TYPE :: u32 where "HAS_PCICFG_REQ_TYPE = 14"
definition HAS_PCICFG_RES_TYPE :: u32 where "HAS_PCICFG_RES_TYPE = 15"
definition MSG_TYPE_MMIO :: u32 where "MSG_TYPE_MMIO = 0"

lemmas tbx_types = MEM_TYPE_SYSTEM_def MEM_TYPE_LOCALMEM_def HAS_MMIO_REQ_TYPE_def HAS_MMIO_RES_TYPE_def
  HAS_GTT_REQ_TYPE_def HAS_WRITE_DATA_REQ_TYPE_def HAS_READ_DATA_REQ_TYPE_def HAS_READ_DATA_RES_TYPE_def
  HAS_MARKER_REQ_TYPE_def HAS_MARKER_RES_TYPE_def HAS_CONTROL_REQ_TYPE_def HAS_PCICFG_REQ_TYPE_def
  HAS_PCICFG_RES_TYPE_def MSG_TYPE_MMIO_def

record HAS_HDR =
  hdr_msg_type :: u32
  hdr_trans_id :: u32
  hdr_size :: u32

record HAS_MMIO_REQ =
  mmio_write :: "1 word"
  mmio_size :: "3 word"
  mmio_dev_idx :: "2 word"
  mmio_msg_type :: "3 word"
  mmio_reserved :: "7 word"
  mmio_delay :: u16
  mmio_offset :: u32
  mmio_data :: u32

record HAS_GTT64_REQ =
  gtt_write :: "1 word"
  gtt_reserved :: "31 word"
  gtt_offset :: u32
  gtt_data :: u32
  gtt_data_h :: u32

record HAS_WRITE_DATA_REQ =
  wr_addr_type :: "1 word"
  wr_mask_exist :: "1 word"
  wr_frontdoor :: "1 word"
  wr_take_ownership :: "1 word"
  wr_model_owned :: "1 word"
  wr_cacheline_disable :: "1 word"
  wr_memory_type :: "2 word"
  wr_reserved :: u16
  wr_address_h :: u8
  wr_address :: u32
  wr_size :: u32

record HAS_READ_DATA_REQ =
  rd_addr_type :: "1 word"
  rd_frontdoor :: "1 word"
  rd_ownership_req :: "1 word"
  rd_model_owned :: "1 word"
  rd_cacheline_disable :: "1 word"
  rd_memory_type :: "2 word"
  rd_reserved :: "17 word"
  rd_address_h :: u8
  rd_address :: u32
  rd_size :: u32

record HAS_PCICFG_REQ =
  pci_write :: "1 word"
  pci_size :: "3 word"
  pci_bus :: u8
  pci_device :: "5 word"
  pci_function :: "3 word"
  pci_reserved :: "12 word"
  pci_offset :: u32
  pci_data :: u32

record HAS_CONTROL_REQ =
  ctl_reset :: "1 word"
  ctl_has :: "1 word"
  ctl_rd_on_demand :: "1 word"
  ctl_write_mask :: "1 word"
  ctl_time_adv :: "1 word"
  ctl_async_msg :: "1 word"
  ctl_quit :: "1 word"
  ctl_cncry_enb :: "1 word"
  ctl_stime_enb :: "1 word"
  ctl_full_reset :: "1 word"
  ctl_auto_ownership :: "1 word"
  ctl_backdoor_model :: "1 word"
  ctl_flush :: "1 word"
  ctl_reserved :: "3 word"
  ctl_reset_mask :: "1 word"
  ctl_has_mask :: "1 word"
  ctl_rd_on_demand_mask :: "1 word"
  ctl_write_mask_mask :: "1 word"
  ctl_time_adv_mask :: "1 word"
  ctl_async_msg_mask :: "1 word"
  ctl_quit_mask :: "1 word"
  ctl_cncry_enb_mask :: "1 word"
  ctl_stime_enb_mask :: "1 word"
  ctl_full_reset_mask :: "1 word"
  ctl_auto_ownership_mask :: "1 word"
  ctl_backdoor_model_mask :: "1 word"
  ctl_flush_mask :: "1 word"
  ctl_reserved_mask :: "3 word"

definition mmio_req_dwords :: "HAS_MMIO_REQ \<Rightarrow> u32 list" where
  "mmio_req_dwords m =
     [packBits [(1, ucast (mmio_write m)), (3, ucast (mmio_size m)), (2, ucast (mmio_dev_idx m)),
                (3, ucast (mmio_msg_type m)), (7, ucast (mmio_reserved m)), (16, ucast (mmio_delay m))],
      mmio_offset m, mmio_data m]"

definition gtt64_req_dwords :: "HAS_GTT64_REQ \<Rightarrow> u32 list" where
  "gtt64_req_dwords g =
     [packBits [(1, ucast (gtt_write g)), (31, ucast (gtt_reserved g))], gtt_offset g, gtt_data g, gtt_data_h g]"

definition write_req_dwords :: "HAS_WRITE_DATA_REQ \<Rightarrow> u32 list" where
  "write_req_dwords w =
     [packBits [(1, ucast (wr_addr_type w)), (1, ucast (wr_mask_exist w)), (1, ucast (wr_frontdoor w)),
                (1, ucast (wr_take_ownership w)), (1, ucast (wr_model_owned w)), (1, ucast (wr_cacheline_disable w)),
                (2, ucast (wr_memory_type w)), (16, ucast (wr_reserved w)), (8, ucast (wr_address_h w))],
      wr_address w, wr_size w]"

definition read_req_dwords :: "HAS_READ_DATA_REQ \<Rightarrow> u32 list" where
  "read_req_dwords r =
     [packBits [(1, ucast (rd_addr_type r)), (1, ucast (rd_frontdoor r)), (1, ucast (rd_ownership_req r)),
                (1, ucast (rd_model_owned r)), (1, ucast (rd_cacheline_disable r)), (2, ucast (rd_memory_type r)),
                (17, ucast (rd_reserved r)), (8, ucast (rd_address_h r))],
      rd_address r, rd_size r]"

definition pcicfg_req_dwords :: "HAS_PCICFG_REQ \<Rightarrow> u32 list" where
  "pcicfg_req_dwords p =
     [packBits [(1, ucast (pci_write p)), (3, ucast (pci_size p)), (8, ucast (pci_bus p)), (5, ucast (pci_device p)),
                (3, ucast (pci_function p)), (12, ucast (pci_reserved p))],
      pci_offset p, pci_data p]"

definition HAS_CONTROL_REQ_zero :: HAS_CONTROL_REQ where
  "HAS_CONTROL_REQ_zero = \<lparr>
     ctl_reset = 0, ctl_has = 0, ctl_rd_on_demand = 0, ctl_write_mask = 0, ctl_time_adv = 0,
     ctl_async_msg = 0, ctl_quit = 0, ctl_cncry_enb = 0, ctl_stime_enb = 0, ctl_full_reset = 0,
     ctl_auto_ownership = 0, ctl_backdoor_model = 0, ctl_flush = 0, ctl_reserved = 0, ctl_reset_mask = 0,
     ctl_has_mask = 0, ctl_rd_on_demand_mask = 0, ctl_write_mask_mask = 0, ctl_time_adv_mask = 0, ctl_async_msg_mask = 0,
     ctl_quit_mask = 0, ctl_cncry_enb_mask = 0, ctl_stime_enb_mask = 0, ctl_full_reset_mask = 0, ctl_auto_ownership_mask = 0,
     ctl_backdoor_model_mask = 0, ctl_flush_mask = 0, ctl_reserved_mask = 0\<rparr>"

definition control_req_dwords :: "HAS_CONTROL_REQ \<Rightarrow> u32 list" where
  "control_req_dwords c =
     [packBits [
        (1, ucast (ctl_reset c)), (1, ucast (ctl_has c)), (1, ucast (ctl_rd_on_demand c)),
        (1, ucast (ctl_write_mask c)), (1, ucast (ctl_time_adv c)), (1, ucast (ctl_async_msg c)),
        (1, ucast (ctl_quit c)), (1, ucast (ctl_cncry_enb c)), (1, ucast (ctl_stime_enb c)),
        (1, ucast (ctl_full_reset c)), (1, ucast (ctl_auto_ownership c)), (1, ucast (ctl_backdoor_model c)),
        (1, ucast (ctl_flush c)), (3, ucast (ctl_reserved c)), (1, ucast (ctl_reset_mask c)),
        (1, ucast (ctl_has_mask c)), (1, ucast (ctl_rd_on_demand_mask c)), (1, ucast (ctl_write_mask_mask c)),
        (1, ucast (ctl_time_adv_mask c)), (1, ucast (ctl_async_msg_mask c)), (1, ucast (ctl_quit_mask c)),
        (1, ucast (ctl_cncry_enb_mask c)), (1, ucast (ctl_stime_enb_mask c)), (1, ucast (ctl_full_reset_mask c)),
        (1, ucast (ctl_auto_ownership_mask c)), (1, ucast (ctl_backdoor_model_mask c)), (1, ucast (ctl_flush_mask c)),
        (3, ucast (ctl_reserved_mask c))]]"

text \<open>A message as it is sent: the header with the size of the body, and the body.\<close>

definition hdr_dwords :: "HAS_HDR \<Rightarrow> u32 list" where
  "hdr_dwords h = [hdr_msg_type h, hdr_trans_id h, hdr_size h]"

definition hasMessage :: "u32 \<Rightarrow> u32 \<Rightarrow> u32 list \<Rightarrow> u8 list" where
  "hasMessage msgType transId body = concat (map dwordBytes
     (hdr_dwords \<lparr>hdr_msg_type = msgType, hdr_trans_id = transId, hdr_size = word_of_nat (4 * length body)\<rparr> @ body))"

definition sizeof_HAS_HDR :: nat where "sizeof_HAS_HDR = 12"

section \<open>The socket\<close>

text \<open>
  The calls of the operating system, over the state \<open>'p\<close> of the other side: \<open>send\<close> takes bytes and
  returns how many it took, \<open>recv\<close> takes a limit and returns a count and the bytes; \<open>socket\<close> returns a
  descriptor, \<open>gethostbyname\<close> whether a name is known, and \<open>connect\<close> the result of the attempt of that
  number with the seconds since the first.  The last field says whether assertions are compiled out.
\<close>

record 'p socket_api =
  so_send :: "u8 list \<Rightarrow> 'p \<Rightarrow> int \<times> 'p"
  so_recv :: "nat \<Rightarrow> 'p \<Rightarrow> int \<times> u8 list \<times> 'p"
  so_socket :: int
  so_gethostbyname :: "string \<Rightarrow> bool"
  so_connect :: "nat \<Rightarrow> int \<times> u64"
  so_ndebug :: bool

record 'p TbxSocketsImp =
  ts_socket :: int
  ts_transID :: u32
  ts_frontdoorMode :: bool
  ts_lmembar :: u64
  ts_inErrorState :: bool
  ts_throwOnError :: bool
  ts_peer :: 'p

definition newTbxSocketsImp :: "'p \<Rightarrow> 'p TbxSocketsImp" where
  "newTbxSocketsImp peer = \<lparr>ts_socket = 0, ts_transID = 0, ts_frontdoorMode = False, ts_lmembar = 0,
     ts_inErrorState = False, ts_throwOnError = False, ts_peer = peer\<rparr>"

definition tbx_close :: "'p TbxSocketsImp \<Rightarrow> 'p TbxSocketsImp" where
  "tbx_close s = (if ts_socket s \<noteq> 0 then s\<lparr>ts_socket := 0\<rparr> else s)"

definition tbx_enableThrowOnError :: "bool \<Rightarrow> 'p TbxSocketsImp \<Rightarrow> 'p TbxSocketsImp" where
  "tbx_enableThrowOnError enabled s = s\<lparr>ts_throwOnError := enabled\<rparr>"

text \<open>\<^verbatim>\<open>assert\<close>, which is nothing in a build with \<^verbatim>\<open>NDEBUG\<close>.\<close>

definition assertD :: "'p socket_api \<Rightarrow> bool \<Rightarrow> 'a result \<Rightarrow> 'a result" where
  "assertD api b r = (if b \<or> so_ndebug api then r else Inl AssertionFailure)"

definition logErrorInfo :: "'p socket_api \<Rightarrow> 'p TbxSocketsImp \<Rightarrow> 'p TbxSocketsImp result" where
  "logErrorInfo api s = assertD api False (Inr (s\<lparr>ts_inErrorState := True\<rparr>))"

definition nextTransID :: "'p TbxSocketsImp \<Rightarrow> 'p TbxSocketsImp" where
  "nextTransID s = s\<lparr>ts_transID := ts_transID s + 1\<rparr>"

text \<open>
  The loops.  The size is cast to \<^verbatim>\<open>int\<close>, so that a size of \<open>2 ^ 31\<close> or more asks the system for bytes
  outside the buffer.  A count that is not between -1 and the size is no result of the calls.
\<close>

function send_loop :: "'p socket_api \<Rightarrow> u8 list \<Rightarrow> 'p TbxSocketsImp \<Rightarrow> (bool \<times> 'p TbxSocketsImp) result" where
  "send_loop api buf s =
     (if 2 ^ 31 \<le> length buf then Inl IndexOutOfRange
      else let (bytesSent, p) = so_send api buf (ts_peer s); s' = s\<lparr>ts_peer := p\<rparr>
           in if bytesSent = 0 \<or> bytesSent = -1
              then bindR (logErrorInfo api s') (\<lambda>s. Inr (False, s\<lparr>ts_inErrorState := True\<rparr>))
              else if bytesSent < -1 \<or> int (length buf) < bytesSent then Inl IndexOutOfRange
              else if nat bytesSent < length buf then send_loop api (drop (nat bytesSent) buf) s'
              else Inr (True, s'))"
  by pat_completeness auto
termination
  by (relation "measure (\<lambda>(api, buf, s). length buf)") auto

declare send_loop.simps [simp del]

definition sendWriteData :: "'p socket_api \<Rightarrow> u8 list \<Rightarrow> 'p TbxSocketsImp \<Rightarrow> (bool \<times> 'p TbxSocketsImp) result" where
  "sendWriteData api buf s = (if ts_inErrorState s then Inr (False, s) else send_loop api buf s)"

function recv_loop ::
  "'p socket_api \<Rightarrow> nat \<Rightarrow> u8 list \<Rightarrow> 'p TbxSocketsImp \<Rightarrow> (bool \<times> u8 list \<times> 'p TbxSocketsImp) result" where
  "recv_loop api n acc s =
     (if 2 ^ 31 \<le> n then Inl IndexOutOfRange
      else let (bytesRecv, bs, p) = so_recv api n (ts_peer s); s' = s\<lparr>ts_peer := p\<rparr>
           in if bytesRecv = 0 \<or> bytesRecv = -1
              then bindR (logErrorInfo api s') (\<lambda>s. Inr (False, acc, s\<lparr>ts_inErrorState := True\<rparr>))
              else if bytesRecv < -1 \<or> int n < bytesRecv \<or> length bs \<noteq> nat bytesRecv then Inl IndexOutOfRange
              else if nat bytesRecv < n then recv_loop api (n - nat bytesRecv) (acc @ bs) s'
              else Inr (True, acc @ bs, s'))"
  by pat_completeness auto
termination
  by (relation "measure (\<lambda>(api, n, acc, s). n)") auto

declare recv_loop.simps [simp del]

text \<open>The bytes received so far are in the buffer when the call fails.\<close>

definition getResponseData ::
  "'p socket_api \<Rightarrow> nat \<Rightarrow> 'p TbxSocketsImp \<Rightarrow> (bool \<times> u8 list \<times> 'p TbxSocketsImp) result" where
  "getResponseData api n s = (if ts_inErrorState s then Inr (False, [], s) else recv_loop api n [] s)"

section \<open>Requests\<close>

datatype reply = NoReply | BadReply | Reply "u8 list"

text \<open>Send a request and read the answer; its type and transaction have to be the expected ones.\<close>

definition exchange ::
  "'p socket_api \<Rightarrow> u8 list \<Rightarrow> nat \<Rightarrow> u32 \<Rightarrow> u32 \<Rightarrow> 'p TbxSocketsImp \<Rightarrow> (reply \<times> 'p TbxSocketsImp) result" where
  "exchange api cmd n resType transId s =
     bindR (sendWriteData api cmd s) (\<lambda>(success, s).
     if \<not> success then Inr (NoReply, s)
     else bindR (getResponseData api n s) (\<lambda>(success, resp, s).
          if \<not> success then Inr (NoReply, s)
          else if dwordAt 0 resp \<noteq> resType \<or> transId \<noteq> dwordAt 4 resp then Inr (BadReply, s)
          else Inr (Reply resp, s)))"

definition stillConnected :: "'p socket_api \<Rightarrow> 'p TbxSocketsImp \<Rightarrow> (bool \<times> 'p TbxSocketsImp) result" where
  "stillConnected api s =
     (let t = ts_transID s
      in bindR (exchange api (hasMessage HAS_MARKER_REQ_TYPE t []) sizeof_HAS_HDR HAS_MARKER_RES_TYPE t (nextTransID s))
           (\<lambda>(r, s). let success = (case r of Reply _ \<Rightarrow> True | _ \<Rightarrow> False)
              in if \<not> success \<and> ts_throwOnError s
                 then Inl (RuntimeError ''Socket failed ping request to simulator.'')
                 else Inr (success, s)))"

definition mmioRequest :: "u32 \<Rightarrow> u32 \<Rightarrow> bool \<Rightarrow> HAS_MMIO_REQ" where
  "mmioRequest off val isWrite = \<lparr>mmio_write = of_bool isWrite, mmio_size = 4, mmio_dev_idx = 0,
     mmio_msg_type = ucast MSG_TYPE_MMIO, mmio_reserved = 0, mmio_delay = 0, mmio_offset = off, mmio_data = val\<rparr>"

text \<open>\<open>data\<close> is what the caller's variable holds before.\<close>

definition tbx_readMMIO ::
  "'p socket_api \<Rightarrow> u32 \<Rightarrow> u32 \<Rightarrow> 'p TbxSocketsImp \<Rightarrow> (bool \<times> u32 \<times> 'p TbxSocketsImp) result" where
  "tbx_readMMIO api off data s =
     (if ts_inErrorState s then Inr (False, data, s)
      else let t = ts_transID s
           in bindR (exchange api (hasMessage HAS_MMIO_REQ_TYPE t (mmio_req_dwords (mmioRequest off 0 False)))
                       (sizeof_HAS_HDR + 4) HAS_MMIO_RES_TYPE t (nextTransID s)) (\<lambda>(r, s).
              case r of
                NoReply \<Rightarrow> Inr (False, data, s)
              | BadReply \<Rightarrow> assertD api False (Inr (False, 0xdeadbeef, s))
              | Reply resp \<Rightarrow> Inr (True, dwordAt 12 resp, s)))"

definition tbx_writeMMIO :: "'p socket_api \<Rightarrow> u32 \<Rightarrow> u32 \<Rightarrow> 'p TbxSocketsImp \<Rightarrow> (bool \<times> 'p TbxSocketsImp) result" where
  "tbx_writeMMIO api off val s =
     sendWriteData api (hasMessage HAS_MMIO_REQ_TYPE (ts_transID s) (mmio_req_dwords (mmioRequest off val True)))
       (nextTransID s)"

definition pcicfgRequest :: "u32 \<Rightarrow> u32 \<Rightarrow> u32 \<Rightarrow> u32 \<Rightarrow> u32 \<Rightarrow> bool \<Rightarrow> HAS_PCICFG_REQ" where
  "pcicfgRequest bus device function off val isWrite = \<lparr>pci_write = of_bool isWrite, pci_size = 4, pci_bus = ucast bus,
     pci_device = ucast device, pci_function = ucast function, pci_reserved = 0, pci_offset = off, pci_data = val\<rparr>"

definition tbx_writePCICFG ::
  "'p socket_api \<Rightarrow> u32 \<Rightarrow> u32 \<Rightarrow> u32 \<Rightarrow> u32 \<Rightarrow> u32 \<Rightarrow> 'p TbxSocketsImp \<Rightarrow> (bool \<times> 'p TbxSocketsImp) result" where
  "tbx_writePCICFG api bus device function off val s =
     sendWriteData api (hasMessage HAS_PCICFG_REQ_TYPE (ts_transID s)
         (pcicfg_req_dwords (pcicfgRequest bus device function off val True)))
       (nextTransID s)"

definition tbx_readPCICFG ::
  "'p socket_api \<Rightarrow> u32 \<Rightarrow> u32 \<Rightarrow> u32 \<Rightarrow> u32 \<Rightarrow> u32 \<Rightarrow> 'p TbxSocketsImp \<Rightarrow> (bool \<times> u32 \<times> 'p TbxSocketsImp) result" where
  "tbx_readPCICFG api bus device function off data s =
     (let t = ts_transID s
      in bindR (exchange api (hasMessage HAS_PCICFG_REQ_TYPE t
                    (pcicfg_req_dwords (pcicfgRequest bus device function off 0 False)))
                  (sizeof_HAS_HDR + 4) HAS_PCICFG_RES_TYPE t (nextTransID s)) (\<lambda>(r, s).
         case r of
           NoReply \<Rightarrow> Inr (False, data, s)
         | BadReply \<Rightarrow> assertD api False (Inr (False, 0xdeadbeef, s))
         | Reply resp \<Rightarrow> Inr (True, dwordAt 12 resp, s)))"

section \<open>Memory\<close>

definition readRequest :: "u64 \<Rightarrow> usize \<Rightarrow> bool \<Rightarrow> u32 \<Rightarrow> HAS_READ_DATA_REQ" where
  "readRequest addr n frontdoor memoryType = \<lparr>rd_addr_type = 0, rd_frontdoor = of_bool frontdoor, rd_ownership_req = 0,
     rd_model_owned = 0, rd_cacheline_disable = of_bool frontdoor, rd_memory_type = ucast memoryType, rd_reserved = 0,
     rd_address_h = (if frontdoor then 0 else ucast (ucast (drop_bit 32 addr) :: u32)), rd_address = ucast addr,
     rd_size = ucast n\<rparr>"

definition writeRequest :: "u64 \<Rightarrow> usize \<Rightarrow> bool \<Rightarrow> u32 \<Rightarrow> HAS_WRITE_DATA_REQ" where
  "writeRequest addr n frontdoor memoryType = \<lparr>wr_addr_type = 0, wr_mask_exist = 0, wr_frontdoor = of_bool frontdoor,
     wr_take_ownership = 0, wr_model_owned = 0, wr_cacheline_disable = of_bool frontdoor,
     wr_memory_type = ucast memoryType, wr_reserved = 0,
     wr_address_h = (if frontdoor then 0 else ucast (ucast (drop_bit 32 addr) :: u32)), wr_address = ucast addr,
     wr_size = ucast n\<rparr>"

definition memoryType :: "bool \<Rightarrow> u32" where
  "memoryType isLocalMemory = (if isLocalMemory then MEM_TYPE_LOCALMEM else MEM_TYPE_SYSTEM)"

text \<open>The data follow the answer; the list returned is what the call stored at the start of the buffer.\<close>

definition receiveData ::
  "'p socket_api \<Rightarrow> u8 list \<Rightarrow> nat \<Rightarrow> u32 \<Rightarrow> nat \<Rightarrow> 'p TbxSocketsImp \<Rightarrow> (bool \<times> u8 list \<times> 'p TbxSocketsImp) result" where
  "receiveData api cmd resSize t n s =
     bindR (exchange api cmd resSize HAS_READ_DATA_RES_TYPE t s) (\<lambda>(r, s).
     case r of
       NoReply \<Rightarrow> Inr (False, [], s)
     | BadReply \<Rightarrow> assertD api False (Inr (False, [], s))
     | Reply _ \<Rightarrow> getResponseData api n s)"

definition lmemAddress :: "u64 \<Rightarrow> bool \<Rightarrow> 'p TbxSocketsImp \<Rightarrow> u64" where
  "lmemAddress addr isLocalMemory s = (if isLocalMemory then addr + ts_lmembar s else addr)"

definition readMemoryExt ::
  "'p socket_api \<Rightarrow> u64 \<Rightarrow> usize \<Rightarrow> bool \<Rightarrow> 'p TbxSocketsImp \<Rightarrow> (bool \<times> u8 list \<times> 'p TbxSocketsImp) result" where
  "readMemoryExt api addr n isLocalMemory s =
     (let t = ts_transID s; a = lmemAddress addr isLocalMemory s
      in receiveData api (hasMessage HAS_READ_DATA_REQ_TYPE t
             (read_req_dwords (readRequest a n True MEM_TYPE_SYSTEM) @ [ucast (drop_bit 32 a)]))
           (sizeof_HAS_HDR + 16) t (unat n) (nextTransID s))"

definition tbx_readMemory ::
  "'p socket_api \<Rightarrow> u64 \<Rightarrow> usize \<Rightarrow> bool \<Rightarrow> 'p TbxSocketsImp \<Rightarrow> (bool \<times> u8 list \<times> 'p TbxSocketsImp) result" where
  "tbx_readMemory api addr n isLocalMemory s =
     (if ts_frontdoorMode s then readMemoryExt api addr n isLocalMemory s
      else let t = ts_transID s
           in receiveData api (hasMessage HAS_READ_DATA_REQ_TYPE t
                  (read_req_dwords (readRequest addr n False (memoryType isLocalMemory))))
                (sizeof_HAS_HDR + 12) t (unat n) (nextTransID s))"

text \<open>The request and the data are sent apart; the data only when the request went out.\<close>

definition sendData :: "'p socket_api \<Rightarrow> u8 list \<Rightarrow> u8 list \<Rightarrow> 'p TbxSocketsImp \<Rightarrow> (bool \<times> 'p TbxSocketsImp) result" where
  "sendData api cmd data s =
     bindR (sendWriteData api cmd s) (\<lambda>(success, s).
     if \<not> success then Inr (False, s) else sendWriteData api data s)"

definition writeMemoryExt ::
  "'p socket_api \<Rightarrow> u64 \<Rightarrow> u8 list \<Rightarrow> bool \<Rightarrow> 'p TbxSocketsImp \<Rightarrow> (bool \<times> 'p TbxSocketsImp) result" where
  "writeMemoryExt api addr data isLocalMemory s =
     (let a = lmemAddress addr isLocalMemory s
      in sendData api (hasMessage HAS_WRITE_DATA_REQ_TYPE (ts_transID s)
             (write_req_dwords (writeRequest a (word_of_nat (length data)) True MEM_TYPE_SYSTEM) @ [ucast (drop_bit 32 a)]))
           data (nextTransID s))"

definition tbx_writeMemory ::
  "'p socket_api \<Rightarrow> u64 \<Rightarrow> u8 list \<Rightarrow> bool \<Rightarrow> 'p TbxSocketsImp \<Rightarrow> (bool \<times> 'p TbxSocketsImp) result" where
  "tbx_writeMemory api addr data isLocalMemory s =
     (if ts_frontdoorMode s then writeMemoryExt api addr data isLocalMemory s
      else sendData api (hasMessage HAS_WRITE_DATA_REQ_TYPE (ts_transID s)
               (write_req_dwords (writeRequest addr (word_of_nat (length data)) False (memoryType isLocalMemory))))
             data (nextTransID s))"

definition writeGTT :: "'p socket_api \<Rightarrow> u32 \<Rightarrow> u64 \<Rightarrow> 'p TbxSocketsImp \<Rightarrow> (bool \<times> 'p TbxSocketsImp) result" where
  "writeGTT api off entry s =
     sendWriteData api (hasMessage HAS_GTT_REQ_TYPE (ts_transID s) (gtt64_req_dwords
         \<lparr>gtt_write = 1, gtt_reserved = 0, gtt_offset = off div 8, gtt_data = ucast (entry AND 0xffffffff),
          gtt_data_h = ucast (drop_bit 32 entry)\<rparr>))
       (nextTransID s)"

section \<open>Connecting\<close>

definition timeoutInSeconds :: u64 where "timeoutInSeconds = 60"

text \<open>
  The loop ends when \<open>connect\<close> succeeds or an attempt fails after the timeout, so it has fuel.  Its result is
  whether the descriptor is not 0, also when the name is unknown or no attempt succeeded.
\<close>

definition is_alpha :: "char \<Rightarrow> bool" where
  "is_alpha c \<longleftrightarrow> (c \<in> set ''abcdefghijklmnopqrstuvwxyzABCDEFGHIJKLMNOPQRSTUVWXYZ'')"

fun connect_loop ::
  "nat \<Rightarrow> 'p socket_api \<Rightarrow> string \<Rightarrow> nat \<Rightarrow> 'p TbxSocketsImp \<Rightarrow> 'p TbxSocketsImp result option" where
  "connect_loop 0 api host i s = None"
| "connect_loop (Suc fuel) api host i s =
     (case host of
        [] \<Rightarrow> Some (Inl IndexOutOfRange)
      | c # _ \<Rightarrow>
          if is_alpha c \<and> \<not> so_gethostbyname api host then Some (Inr s)
          else let (r, timeDiff) = so_connect api i
               in if r = -1
                  then if timeDiff < timeoutInSeconds then connect_loop fuel api host (i + 1) s
                       else Some (logErrorInfo api s)
                  else Some (Inr s))"

definition connectToServer ::
  "nat \<Rightarrow> 'p socket_api \<Rightarrow> string \<Rightarrow> 'p TbxSocketsImp \<Rightarrow> (bool \<times> 'p TbxSocketsImp) result option" where
  "connectToServer fuel api host s = (case connect_loop fuel api host 0 s of
       None \<Rightarrow> None | Some r \<Rightarrow> Some (bindR r (\<lambda>s. Inr (ts_socket s \<noteq> 0, s))))"

definition LMEMBAR_DFLT :: u64 where "LMEMBAR_DFLT = 0x000ffff000000000"
definition LMEMBAR_MASK :: u64 where "LMEMBAR_MASK = 0xfffffffff0000000"

definition checkServerConfig :: "'p socket_api \<Rightarrow> bool \<Rightarrow> 'p TbxSocketsImp \<Rightarrow> (bool \<times> 'p TbxSocketsImp) result" where
  "checkServerConfig api frontdoor s =
     (if frontdoor
      then bindR (tbx_readPCICFG api 0 2 0 0x18 0 s) (\<lambda>(_, dataLo, s).
           bindR (tbx_readPCICFG api 0 2 0 0x1C 0 s) (\<lambda>(_, dataHi, s).
           let bar = (push_bit 32 (ucast dataHi) OR ucast dataLo) AND LMEMBAR_MASK
           in Inr (True, s\<lparr>ts_lmembar := (if bar = 0 then LMEMBAR_DFLT else bar), ts_frontdoorMode := True\<rparr>)))
      else Inr (True, s))"

definition controlRequest :: HAS_CONTROL_REQ where
  "controlRequest = HAS_CONTROL_REQ_zero\<lparr>ctl_time_adv_mask := 1, ctl_time_adv := 0, ctl_async_msg_mask := 1, ctl_async_msg := 0,
     ctl_has_mask := 1, ctl_has := 1\<rparr>"

definition sendControl :: "'p socket_api \<Rightarrow> 'p TbxSocketsImp \<Rightarrow> 'p TbxSocketsImp result" where
  "sendControl api s =
     bindR (sendWriteData api (hasMessage HAS_CONTROL_REQ_TYPE (ts_transID s) (control_req_dwords controlRequest))
              (nextTransID s)) (\<lambda>(_, s). Inr s)"

definition tbx_init ::
  "nat \<Rightarrow> 'p socket_api \<Rightarrow> string \<Rightarrow> bool \<Rightarrow> 'p TbxSocketsImp \<Rightarrow> (bool \<times> 'p TbxSocketsImp) result option" where
  "tbx_init fuel api host frontdoor s =
     (let s = s\<lparr>ts_socket := so_socket api\<rparr>; finish = (\<lambda>s. Inr (ts_socket s \<noteq> -1, s))
      in if ts_socket s = -1 then Some (bindR (logErrorInfo api s) finish)
         else case connectToServer fuel api host s of
                None \<Rightarrow> None
              | Some r \<Rightarrow> Some (bindR r (\<lambda>(connected, s).
                  if \<not> connected then finish s
                  else bindR (sendControl api s) (\<lambda>s.
                       bindR (checkServerConfig api frontdoor s) (\<lambda>(_, s). finish s)))))"

end
