(* ===== verification/AubStream.thy ===== *)
theory AubStream
  imports AubFileStream
begin

text \<open>
  The operations every stream shares: \<^verbatim>\<open>aub_stream.h\<close> and \<^verbatim>\<open>aub_stream.cpp\<close>.  They walk and change the
  page tables and reach the backend only through virtual functions; a call of a virtual function is a
  \<open>StreamCmd\<close>, and an operation returns the calls it makes, in order, with the tables and the allocator
  it leaves behind.  \<open>fileExec\<close> carries out the calls on the file backend.
\<close>

section \<open>The virtual functions\<close>

datatype StreamCmd =
    AddComment string
  | WriteGttPages "u64 \<times> bool" "PageEntryInfo list"
  | WritePages "u8 list" usize "PageInfo list" int
  | WriteEntries "PageEntryInfo list" int int
  | ExpectMemoryTable "u8 list" usize "PageInfo list" u32
  | ReserveContiguousPages "u64 list"
  | ReadPages usize "PageInfo list"
  | MemoryPoll "PageInfo list" u32 u32
  | RegisterPoll u32 u32 u32 bool u32
  | WriteMMIO u32 u32 u32
  | WritePCICFG u32 u32
  | DeclareContext u32 PageTable
  | DumpBufferBIN u32 u64 usize u32
  | DumpSurface u32 SurfaceInfo u32

fun fileExec :: "StreamCmd \<Rightarrow> AubFileStream \<Rightarrow> AubFileStream result" where
  "fileExec (AddComment message) s = addComment message s"
| "fileExec (WriteGttPages ggtt es) s = writeGttPages es s"
| "fileExec (WritePages memory sz pages hint) s = writeDiscontiguousPages memory sz pages hint s"
| "fileExec (WriteEntries es space hint) s = writeDiscontiguousEntries es space hint s"
| "fileExec (ExpectMemoryTable memory sz pages op) s = expectMemoryTable memory sz pages op s"
| "fileExec (ReserveContiguousPages pages) s = reserveContiguousPages pages s"
| "fileExec (ReadPages sz pages) s = Inr s"
| "fileExec (MemoryPoll entries val mode) s = memoryPoll entries val mode s"
| "fileExec (RegisterPoll off msk val ne t) s = registerPoll off msk val ne t s"
| "fileExec (WriteMMIO off val msk) s = writeMMIO off val msk s"
| "fileExec (WritePCICFG off val) s = Inr s"
| "fileExec (DeclareContext h ppgtt) s = declareContextForDumping h ppgtt s"
| "fileExec (DumpBufferBIN gtt a sz h) s = dumpBufferBIN gtt a sz h s"
| "fileExec (DumpSurface gtt si h) s = dumpSurface gtt si h s"

fun fileExecAll :: "StreamCmd list \<Rightarrow> AubFileStream \<Rightarrow> AubFileStream result" where
  "fileExecAll [] s = Inr s"
| "fileExecAll (c # cs) s = bindR (fileExec c s) (fileExecAll cs)"

section \<open>Modes\<close>

definition mode_aubFile :: u32 where "mode_aubFile = 0"
definition mode_tbx :: u32 where "mode_tbx = 1"
definition mode_aubFileAndTbx :: u32 where "mode_aubFileAndTbx = 2"
definition mode_tbxShm :: u32 where "mode_tbxShm = 3"
definition mode_tbxShm3 :: u32 where "mode_tbxShm3 = 4"
definition mode_tbxShm4 :: u32 where "mode_tbxShm4 = 5"
definition mode_null :: u32 where "mode_null = 6"
definition mode_aubFileAndShm :: u32 where "mode_aubFileAndShm = 7"
definition mode_aubFileAndShm4 :: u32 where "mode_aubFileAndShm4 = 8"

lemmas mode_defs = mode_aubFile_def mode_tbx_def mode_aubFileAndTbx_def mode_tbxShm_def
  mode_tbxShm3_def mode_tbxShm4_def mode_null_def mode_aubFileAndShm_def mode_aubFileAndShm4_def

definition IsAnyTbxShmMode :: "u32 \<Rightarrow> bool" where
  "IsAnyTbxShmMode m \<longleftrightarrow> m = mode_tbxShm \<or> m = mode_tbxShm3 \<or> m = mode_tbxShm4"

definition IsAnyTbxMode :: "u32 \<Rightarrow> bool" where
  "IsAnyTbxMode m \<longleftrightarrow> m = mode_tbx \<or> m = mode_aubFileAndTbx \<or> IsAnyTbxShmMode m"

section \<open>Writing the results of a walk\<close>

text \<open>
  The page table levels of \<^verbatim>\<open>PageTableLevel\<close>.  \<open>node_update\<close> follows the path of a node from the root,
  as a \<^verbatim>\<open>PageTable *\<close> of \<^verbatim>\<open>pendingNodes\<close> does.
\<close>

definition Pdp :: nat where "Pdp = 2"
definition Pml4 :: nat where "Pml4 = 3"
definition Pml5 :: nat where "Pml5 = 4"

fun node_update :: "path \<Rightarrow> (PageTable \<Rightarrow> PageTable) \<Rightarrow> PageTable \<Rightarrow> PageTable" where
  "node_update [] f n = f n"
| "node_update (i # p) f n =
     (case getChild n i of None \<Rightarrow> n | Some c \<Rightarrow> setChild i (Some (node_update p f c)) n)"

definition clearPending :: "PageTableWalker \<Rightarrow> PageTable \<Rightarrow> PageTable" where
  "clearPending w root =
     fold (\<lambda>p. node_update p (setPendingWrite False)) (concat (map (w_pendingNodes w) [0..<5])) root"

definition pageTableSpace :: "bool \<Rightarrow> int" where
  "pageTableSpace pageTablesInLocalMemory =
     addressSpaceValue (if pageTablesInLocalMemory then TraceLocal else TraceNonlocal)"

definition useLegacyAddressSpaces :: "bool \<Rightarrow> nat \<Rightarrow> bool" where
  "useLegacyAddressSpaces pageTablesInLocalMemory numAddressBits \<longleftrightarrow>
     \<not> 48 < numAddressBits \<and> \<not> pageTablesInLocalMemory"

definition walkEntryCmds :: "PageTableWalker \<Rightarrow> bool \<Rightarrow> nat \<Rightarrow> StreamCmd list" where
  "walkEntryCmds w inLocal numAddressBits =
     (let entries = w_pageWalkEntries w; notype = hintValue ''TraceNotype''; space = pageTableSpace inLocal
      in if useLegacyAddressSpaces inLocal numAddressBits
         then [WriteEntries (entries Pml4) (addressSpaceValue TracePml4Entry) notype,
               WriteEntries (entries Pdp) (addressSpaceValue TracePhysicalPdpEntry) notype,
               WriteEntries (entries Pde) (addressSpaceValue TracePpgttPdEntry) notype,
               WriteEntries (entries Pte) (addressSpaceValue TracePpgttEntry) notype]
         else (if 48 < numAddressBits
               then [WriteEntries (entries Pml5) space (hintValue ''TracePpgttLevel5'')] else [])
              @ [WriteEntries (entries Pml4) space (hintValue ''TracePpgttLevel4''),
                 WriteEntries (entries Pdp) space (hintValue ''TracePpgttLevel3''),
                 WriteEntries (entries Pde) space (hintValue ''TracePpgttLevel2''),
                 WriteEntries (entries Pte) space (hintValue ''TracePpgttLevel1'')])"

definition writePageWalkEntries ::
  "bool \<Rightarrow> PageTableWalker \<Rightarrow> bool \<Rightarrow> nat \<Rightarrow> PageTable \<Rightarrow> StreamCmd list \<times> PageTable" where
  "writePageWalkEntries committed w inLocal numAddressBits root =
     (walkEntryCmds w inLocal numAddressBits, if committed then clearPending w root else root)"

definition writePpgttLevel2 :: "PageEntryInfo list \<Rightarrow> bool \<Rightarrow> nat \<Rightarrow> StreamCmd" where
  "writePpgttLevel2 entries inLocal numAddressBits =
     (if useLegacyAddressSpaces inLocal numAddressBits
      then WriteEntries entries (addressSpaceValue TracePpgttPdEntry) (hintValue ''TraceNotype'')
      else WriteEntries entries (pageTableSpace inLocal) (hintValue ''TracePpgttLevel2''))"

definition writePpgttLevel1 :: "PageEntryInfo list \<Rightarrow> bool \<Rightarrow> nat \<Rightarrow> StreamCmd" where
  "writePpgttLevel1 entries inLocal numAddressBits =
     (if useLegacyAddressSpaces inLocal numAddressBits
      then WriteEntries entries (addressSpaceValue TracePpgttEntry) (hintValue ''TraceNotype'')
      else WriteEntries entries (pageTableSpace inLocal) (hintValue ''TracePpgttLevel1''))"

definition writePages ::
  "bool \<Rightarrow> PageTableWalker \<Rightarrow> u8 list option \<Rightarrow> usize \<Rightarrow> int \<Rightarrow> bool \<Rightarrow> nat \<Rightarrow> PageTable
    \<Rightarrow> StreamCmd list \<times> PageTable" where
  "writePages committed w memory sz hint inLocal numAddressBits root =
     (let reserve = (if 0 < length (w_pages64KB w) then [ReserveContiguousPages (w_pages64KB w)] else []);
          (entries, root') = writePageWalkEntries committed w inLocal numAddressBits root;
          pages = (case memory of None \<Rightarrow> [] | Some m \<Rightarrow> [WritePages m sz (w_entries w) hint])
      in (reserve @ entries @ pages, root'))"

section \<open>Writing, reading and comparing memory\<close>

text \<open>
  What an operation needs beside its arguments: the GPU, the setting \<^verbatim>\<open>EnablePs64\<close> and the answer of
  \<^verbatim>\<open>arePageTableWritesFullyCommitted\<close>.
\<close>

record stream_env =
  se_gpu :: Gpu
  se_enablePs64 :: bool
  se_committed :: bool

definition rangeComment :: "string \<Rightarrow> u64 \<Rightarrow> usize \<Rightarrow> usize \<Rightarrow> u32 \<Rightarrow> string" where
  "rangeComment prefix gfxAddress sz pageSize memoryBanks =
     prefix @ show_hex (unat gfxAddress) @ '' - '' @ show_hex (unat (gfxAddress + sz - 1))
     @ ''  pageSize: '' @ show_hex (unat pageSize) @ ''  banks:'' @ memoryBanksToString memoryBanks '' ''"

definition gttMemoryPoll ::
  "u64 \<Rightarrow> u32 \<Rightarrow> u32 \<Rightarrow> GGTT \<Rightarrow> PhysicalAddressAllocator
    \<Rightarrow> (StreamCmd list \<times> GGTT \<times> PhysicalAddressAllocator) result" where
  "gttMemoryPoll gfxAddress val compareMode ggtt alloc =
     bindR (walkGgtt mainBank 4096 Expect gfxAddress 4 ggtt (makeWalker alloc)) (\<lambda>(ggtt, w).
     Inr ([MemoryPoll (w_entries w) val compareMode], ggtt, w_alloc w))"

definition expectMemoryGgtt ::
  "u64 \<Rightarrow> u8 list \<Rightarrow> usize \<Rightarrow> u32 \<Rightarrow> GGTT \<Rightarrow> PhysicalAddressAllocator
    \<Rightarrow> (StreamCmd list \<times> GGTT \<times> PhysicalAddressAllocator) result" where
  "expectMemoryGgtt gfxAddress memory sz compareOperation ggtt alloc =
     bindR (walkGgtt mainBank 4096 Expect gfxAddress sz ggtt (makeWalker alloc)) (\<lambda>(ggtt, w).
     Inr ([ExpectMemoryTable memory sz (w_entries w) compareOperation], ggtt, w_alloc w))"

definition expectMemory ::
  "stream_env \<Rightarrow> u64 \<Rightarrow> u8 list \<Rightarrow> usize \<Rightarrow> u32 \<Rightarrow> PageTable \<Rightarrow> PhysicalAddressAllocator
    \<Rightarrow> (StreamCmd list \<times> PageTable \<times> PhysicalAddressAllocator) result" where
  "expectMemory env gfxAddress memory sz compareOperation ppgtt alloc =
     bindR (walkMemory (se_gpu env) (se_enablePs64 env)
              (makeAllocationParams gfxAddress None sz mainBank 0 65536) Expect [] None ppgtt
              (makeWalker alloc)) (\<lambda>(ppgtt, w).
     Inr ([ExpectMemoryTable memory sz (w_entries w) compareOperation], ppgtt, w_alloc w))"

definition readMemory ::
  "stream_env \<Rightarrow> u64 \<Rightarrow> usize \<Rightarrow> u32 \<Rightarrow> usize \<Rightarrow> PageTable \<Rightarrow> PhysicalAddressAllocator
    \<Rightarrow> (StreamCmd list \<times> PageTable \<times> PhysicalAddressAllocator) result" where
  "readMemory env gfxAddress sz memoryBanks pageSize ppgtt alloc =
     assertR (1 < getNumLevels (pt_kind ppgtt))
       (bindR (walkMemory (se_gpu env) (se_enablePs64 env)
                (makeAllocationParams gfxAddress None sz memoryBanks 0 pageSize) Expect [] None ppgtt
                (makeWalker alloc)) (\<lambda>(ppgtt, w).
        Inr ([ReadPages sz (w_entries w)], ppgtt, w_alloc w)))"

definition readMemoryGgtt ::
  "u64 \<Rightarrow> usize \<Rightarrow> u32 \<Rightarrow> usize \<Rightarrow> GGTT \<Rightarrow> PhysicalAddressAllocator
    \<Rightarrow> (StreamCmd list \<times> GGTT \<times> PhysicalAddressAllocator) result" where
  "readMemoryGgtt gfxAddress sz memoryBanks pageSize ggtt alloc =
     bindR (walkGgtt memoryBanks pageSize Expect gfxAddress sz ggtt (makeWalker alloc)) (\<lambda>(ggtt, w).
     Inr ([ReadPages sz (w_entries w)], ggtt, w_alloc w))"

definition writeMemoryGgtt ::
  "u64 \<Rightarrow> u8 list option \<Rightarrow> usize \<Rightarrow> u32 \<Rightarrow> int \<Rightarrow> usize \<Rightarrow> GGTT \<Rightarrow> PhysicalAddressAllocator
    \<Rightarrow> (StreamCmd list \<times> PageInfo list \<times> GGTT \<times> PhysicalAddressAllocator) result" where
  "writeMemoryGgtt gfxAddress memory sz memoryBanks hint pageSize ggtt alloc =
     bindR (walkGgtt memoryBanks pageSize Reserve gfxAddress sz ggtt (makeWalker alloc)) (\<lambda>(ggtt, w).
     Inr ([AddComment (rangeComment ''ggtt: '' gfxAddress sz pageSize memoryBanks),
           WriteGttPages (ggtt_gttTableOffset ggtt, ggtt_memoryBank ggtt \<noteq> mainBank) (w_pageWalkEntries w 0)]
          @ (case memory of None \<Rightarrow> [] | Some m \<Rightarrow> [WritePages m sz (w_entries w) hint]),
          w_entries w, ggtt, w_alloc w))"

definition writeMemory ::
  "stream_env \<Rightarrow> AllocationParams \<Rightarrow> PageTable \<Rightarrow> PhysicalAddressAllocator
    \<Rightarrow> (StreamCmd list \<times> PageInfo list \<times> PageTable \<times> PhysicalAddressAllocator) result" where
  "writeMemory env params ppgtt alloc =
     (let comment = rangeComment (''ppgtt'' @ (if ap_memory params = None then ''(pages only): '' else '':''))
            (ap_gfxAddress params) (ap_size params) (ap_pageSize params) (ap_memoryBanks params)
      in bindR (walkMemory (se_gpu env) (se_enablePs64 env) params Reserve [] None ppgtt (makeWalker alloc))
           (\<lambda>(ppgtt, w).
              let (cmds, ppgtt) = writePages (se_committed env) w (ap_memory params) (ap_size params)
                    (ap_hint params) (isLocalMemory ppgtt) (getNumAddressBits (pt_kind ppgtt)) ppgtt
              in Inr (AddComment comment # cmds, w_entries w, ppgtt, w_alloc w)))"

definition cloneMemory ::
  "stream_env \<Rightarrow> PageInfo list \<Rightarrow> AllocationParams \<Rightarrow> PageTable \<Rightarrow> PhysicalAddressAllocator
    \<Rightarrow> (StreamCmd list \<times> PageTable \<times> PhysicalAddressAllocator) result" where
  "cloneMemory env entries params ppgtt alloc =
     assertR (1 < getNumLevels (pt_kind ppgtt))
       (bindR (walkMemory (se_gpu env) (se_enablePs64 env) params Clone entries None ppgtt
                (makeWalker alloc)) (\<lambda>(ppgtt, w).
        let (cmds, ppgtt) = writePages (se_committed env) w None 0 0 (isLocalMemory ppgtt)
              (getNumAddressBits (pt_kind ppgtt)) ppgtt
        in Inr (cmds, ppgtt, w_alloc w)))"

fun cloneAll ::
  "stream_env \<Rightarrow> PageInfo list \<Rightarrow> AllocationParams \<Rightarrow> PageTable list \<Rightarrow> PhysicalAddressAllocator
    \<Rightarrow> (StreamCmd list \<times> PageTable list \<times> PhysicalAddressAllocator) result" where
  "cloneAll env entries params [] alloc = Inr ([], [], alloc)"
| "cloneAll env entries params (p # ps) alloc =
     bindR (cloneMemory env entries params p alloc) (\<lambda>(cmds, p, alloc).
     bindR (cloneAll env entries params ps alloc) (\<lambda>(cmds', ps, alloc).
     Inr (cmds @ cmds', p # ps, alloc)))"

definition writeMemoryAndClonePageTables ::
  "stream_env \<Rightarrow> u64 \<Rightarrow> u8 list option \<Rightarrow> usize \<Rightarrow> u32 \<Rightarrow> int \<Rightarrow> usize \<Rightarrow> PageTable \<Rightarrow> PageTable list
    \<Rightarrow> PhysicalAddressAllocator \<Rightarrow> (StreamCmd list \<times> PageTable \<times> PageTable list \<times> PhysicalAddressAllocator) result" where
  "writeMemoryAndClonePageTables env gfxAddress memory sz memoryBanks hint pageSize ppgtt ppgttForCloning alloc =
     (let comment = rangeComment ''ppgtt: '' gfxAddress sz pageSize memoryBanks;
          params = makeAllocationParams gfxAddress memory sz memoryBanks hint pageSize
      in bindR (walkMemory (se_gpu env) (se_enablePs64 env) params Reserve [] None ppgtt (makeWalker alloc))
           (\<lambda>(ppgtt, w).
              let (cmds, ppgtt) = writePages (se_committed env) w memory sz hint (isLocalMemory ppgtt)
                    (getNumAddressBits (pt_kind ppgtt)) ppgtt
              in bindR (cloneAll env (w_entries w) params ppgttForCloning (w_alloc w))
                   (\<lambda>(cmds', clones, alloc).
                      Inr (AddComment comment # cmds @ cmds', ppgtt, clones, alloc))))"

text \<open>\<open>memoryAddress\<close> is the value of the host pointer, which the comment shows.\<close>

definition writePhysicalMemoryPages ::
  "u64 \<Rightarrow> u8 list \<Rightarrow> usize \<Rightarrow> PageInfo list \<Rightarrow> int \<Rightarrow> StreamCmd list" where
  "writePhysicalMemoryPages memoryAddress memory sz entries hint =
     [AddComment (''memory only (without page tables entries): '' @ show_hex (unat memoryAddress)
        @ '' - '' @ show_hex (unat (memoryAddress + sz - 1))),
      WritePages memory sz entries hint]"

definition mapGpuVa ::
  "stream_env \<Rightarrow> AllocationParams \<Rightarrow> u64 \<Rightarrow> PageTable \<Rightarrow> PhysicalAddressAllocator
    \<Rightarrow> (StreamCmd list \<times> PageTable \<times> PhysicalAddressAllocator) result" where
  "mapGpuVa env params physicalAddress ppgtt alloc =
     bindR (walkMemory (se_gpu env) (se_enablePs64 env) params Reserve [] (Some physicalAddress) ppgtt
              (makeWalker alloc)) (\<lambda>(ppgtt, w).
     let (cmds, ppgtt) = writePages (se_committed env) w None 0 (ap_hint params) (isLocalMemory ppgtt)
           (getNumAddressBits (pt_kind ppgtt)) ppgtt
     in Inr (cmds, ppgtt, w_alloc w))"

definition compareMemory :: "u32 \<Rightarrow> u32 \<Rightarrow> u32 \<Rightarrow> bool result" where
  "compareMemory readValue expectedValue compareOperation =
     (if compareOperation = comparisonValue Equal then Inr (readValue = expectedValue)
      else if compareOperation = comparisonValue NotEqual then Inr (readValue \<noteq> expectedValue)
      else if compareOperation = comparisonValue Greater then Inr (readValue > expectedValue)
      else if compareOperation = comparisonValue GreaterEqual then Inr (readValue \<ge> expectedValue)
      else if compareOperation = comparisonValue Less then Inr (readValue < expectedValue)
      else if compareOperation = comparisonValue LessEqual then Inr (readValue \<le> expectedValue)
      else Inl AssertionFailure)"

section \<open>Freeing memory\<close>

text \<open>
  \<open>fc_start\<close> is the address the request starts at, \<open>fc_gfxAddress\<close> and \<open>fc_size\<close> what is left of it in
  this pass of the outer loop.  The inner loop descends one level per recursive call; the level is
  the first argument.  \<open>None\<close> is the \<^verbatim>\<open>return\<close> for a missing table: it leaves the whole function.
\<close>

record free_ctx =
  fc_gpu :: Gpu
  fc_enablePs64 :: bool
  fc_rootLevels :: nat
  fc_start :: u64
  fc_startAligned :: bool
  fc_endAligned :: bool
  fc_gfxAddress :: u64
  fc_size :: usize

record free_state =
  fs_entries :: "nat \<Rightarrow> PageEntryInfo list"
  fs_alloc :: PhysicalAddressAllocator

definition pushEntry :: "nat \<Rightarrow> u64 \<Rightarrow> u64 \<Rightarrow> free_state \<Rightarrow> free_state" where
  "pushEntry level address entry st = st\<lparr>fs_entries := (fs_entries st)
     (level := fs_entries st level @ [\<lparr>pe_physicalAddress = address, pe_tableEntry = entry\<rparr>])\<rparr>"

definition deleteNode :: "PageTable option \<Rightarrow> free_state \<Rightarrow> free_state result" where
  "deleteNode n st = (case n of
       None \<Rightarrow> Inr st
     | Some c \<Rightarrow> bindR (deletePageTable c (fs_alloc st)) (\<lambda>alloc. Inr (st\<lparr>fs_alloc := alloc\<rparr>)))"

text \<open>The loops over the neighbours of a removed PS64 slot.\<close>

definition clearPs64Slot :: "Gpu \<Rightarrow> nat \<Rightarrow> PageTable \<times> free_state \<Rightarrow> (PageTable \<times> free_state) result" where
  "clearPs64Slot gpu i = (\<lambda>(pte, st). case getChild pte i of
       None \<Rightarrow> Inr (pte, st)
     | Some ci \<Rightarrow>
         let ci = setPs64 False ci; pte = setChild i (Some ci) pte
         in bindR (getEntryValue gpu ci) (\<lambda>v. Inr (pte, pushEntry Pte (slotAddress pte i) v st)))"

definition breakPs64Group ::
  "free_ctx \<Rightarrow> nat \<Rightarrow> PageTable \<Rightarrow> free_state \<Rightarrow> (PageTable \<times> free_state) result" where
  "breakPs64Group c index pte st =
     assertR (fc_enablePs64 c) (assertR (fc_rootLevels c = 5)
       (let hwBase = index - index mod 16
        in bindR (if fc_gfxAddress c = fc_start c \<and> \<not> fc_startAligned c
                  then forSlots (clearPs64Slot (fc_gpu c)) [hwBase..<index] (pte, st)
                  else Inr (pte, st)) (\<lambda>(pte, st).
           if fc_size c \<le> 4096 \<and> \<not> fc_endAligned c
           then forSlots (clearPs64Slot (fc_gpu c)) [index + 1..<hwBase + 16] (pte, st)
           else Inr (pte, st))))"

text \<open>Level 0: the page is taken out of its table and handed to the caller.\<close>

definition freePte ::
  "free_ctx \<Rightarrow> PageTable \<Rightarrow> free_state \<Rightarrow> (PageTable option \<times> PageTable \<times> free_state) result" where
  "freePte c pte st =
     (let index = getIndex (pt_kind pte) (fc_gfxAddress c)
      in case getChild pte index of
           None \<Rightarrow> Inr (None, pte, st)
         | Some child \<Rightarrow>
             let st = pushEntry Pte (slotAddress pte index) 0 st; pte = setChild index None pte
             in bindR (if pt_ps64 child then breakPs64Group c index pte st else Inr (pte, st))
                  (\<lambda>(pte, st). Inr (Some child, pte, st)))"

definition finishPte ::
  "free_ctx \<Rightarrow> nat \<Rightarrow> PageTable \<Rightarrow> PageTable option \<times> PageTable \<times> free_state
    \<Rightarrow> (bool \<times> usize \<times> PageTable \<times> free_state) result" where
  "finishPte c index pde = (\<lambda>(child, pte, st).
     let ps = getPageSize (pt_kind pte)
     in assertR (ps = 4096 \<or> ps = 65536)
       (bindR (deleteNode child st) (\<lambda>st.
        if isEmpty pte
        then let st = pushEntry Pde (slotAddress pde index) 0 st
             in bindR (deleteNode (Some pte) st) (\<lambda>st. Inr (False, ps, setChild index None pde, st))
        else Inr (False, ps, setChild index (Some pte) pde, st))))"

text \<open>Level 1: a 2 MB page, a table of pages, or nothing.  The flag says which.\<close>

definition freePde ::
  "free_ctx \<Rightarrow> PageTable \<Rightarrow> free_state \<Rightarrow> (bool \<times> usize \<times> PageTable \<times> free_state) option result" where
  "freePde c pde st =
     (let index = getIndex (pt_kind pde) (fc_gfxAddress c)
      in case getChild pde index of
           None \<Rightarrow> Inr None
         | Some child \<Rightarrow>
             if getPageSize (pt_kind child) = pageSize2MB
             then let st = pushEntry Pde (slotAddress pde index) 0 st
                  in bindR (deleteNode (Some child) st) (\<lambda>st.
                     Inr (Some (True, pageSize2MB, setChild index None pde, st)))
             else bindR (bindR (freePte c child st) (finishPte c index pde)) (\<lambda>r. Inr (Some r)))"

text \<open>The levels above; an emptied table of 2 MB pages is removed at level 2.\<close>

definition removeEmptyPde ::
  "nat \<Rightarrow> PageTable \<Rightarrow> bool \<times> usize \<times> PageTable \<times> free_state \<Rightarrow> (bool \<times> usize \<times> PageTable \<times> free_state) result" where
  "removeEmptyPde index pdp = (\<lambda>(is2MB, ps, pde, st).
     if is2MB \<and> isEmpty pde
     then bindR (deleteNode (Some pde) (pushEntry Pdp (slotAddress pdp index) 0 st)) (\<lambda>st.
          Inr (is2MB, ps, setChild index None pdp, st))
     else Inr (is2MB, ps, setChild index (Some pde) pdp, st))"

fun freeLevels ::
  "free_ctx \<Rightarrow> nat \<Rightarrow> PageTable \<Rightarrow> free_state \<Rightarrow> (bool \<times> usize \<times> PageTable \<times> free_state) option result" where
  "freeLevels c 0 n st = Inl NullDereference"
| "freeLevels c (Suc 0) n st = freePde c n st"
| "freeLevels c (Suc (Suc lev)) n st =
     (let index = getIndex (pt_kind n) (fc_gfxAddress c)
      in case getChild n index of
           None \<Rightarrow> Inr None
         | Some child \<Rightarrow>
             bindR (freeLevels c (Suc lev) child st) (\<lambda>r. case r of
               None \<Rightarrow> Inr None
             | Some (is2MB, ps, child, st) \<Rightarrow>
                 if lev = 0
                 then bindR (removeEmptyPde index n (is2MB, ps, child, st)) (\<lambda>r. Inr (Some r))
                 else Inr (Some (is2MB, ps, setChild index (Some child) n, st))))"

text \<open>
  The outer loop; the flag of the result says that the function returned early.  A page size other
  than the three of the sources is impossible after the assertions; the loop then makes no progress.
\<close>

function freeLoop ::
  "free_ctx \<Rightarrow> PageTable \<Rightarrow> free_state \<Rightarrow> (bool \<times> PageTable \<times> free_state) result" where
  "freeLoop c ppgtt st =
     (if fc_size c > 0
      then bindR (freeLevels c (getNumLevels (pt_kind ppgtt) - 1) ppgtt st) (\<lambda>r. case r of
             None \<Rightarrow> Inr (True, ppgtt, st)
           | Some (is2MB, ps, ppgtt, st) \<Rightarrow>
               let sizeThisIteration = iterationSize ps (fc_gfxAddress c) (fc_size c)
               in if sizeThisIteration = 0 then Inl Diverges
                  else freeLoop (c\<lparr>fc_gfxAddress := fc_gfxAddress c + sizeThisIteration,
                                  fc_size := fc_size c - sizeThisIteration\<rparr>) ppgtt st)
      else Inr (False, ppgtt, st))"
  by pat_completeness auto
termination
proof (relation "measure (\<lambda>(c, n, st). unat (fc_size c))", goal_cases)
  case (2 c n st r x2 is2MB y ps z n' st' this)
  then have "this \<le> fc_size c" and "0 < unat this"
    by (auto simp: iterationSize_def unat_gt_0)
  then have "unat (fc_size c - this) < unat (fc_size c)"
    by (simp add: unat_sub word_le_nat_alt)
  then show ?case by simp
qed simp

declare freeLoop.simps [simp del]

definition freeContext :: "stream_env \<Rightarrow> nat \<Rightarrow> u64 \<Rightarrow> usize \<Rightarrow> free_ctx" where
  "freeContext env levels gfxAddress sz =
     \<lparr>fc_gpu = se_gpu env, fc_enablePs64 = se_enablePs64 env, fc_rootLevels = levels, fc_start = gfxAddress,
      fc_startAligned = (gfxAddress AND 65535 = 0), fc_endAligned = ((gfxAddress + sz) AND 65535 = 0),
      fc_gfxAddress = gfxAddress, fc_size = sz\<rparr>"

definition freeCmds :: "free_state \<Rightarrow> bool \<Rightarrow> nat \<Rightarrow> StreamCmd list" where
  "freeCmds st inLocal bits =
     [writePpgttLevel1 (fs_entries st Pte) inLocal bits, writePpgttLevel2 (fs_entries st Pde) inLocal bits]
     @ (if fs_entries st Pdp = [] then []
        else [WriteEntries (fs_entries st Pdp) (pageTableSpace inLocal) (hintValue ''TracePpgttLevel3'')])"

definition freeMemory ::
  "stream_env \<Rightarrow> u64 \<Rightarrow> usize \<Rightarrow> PageTable \<Rightarrow> PhysicalAddressAllocator
    \<Rightarrow> (StreamCmd list \<times> PageTable \<times> PhysicalAddressAllocator) result" where
  "freeMemory env gfxAddress sz ppgtt alloc =
     assertR (1 < getNumLevels (pt_kind ppgtt)) (assertR (sz \<noteq> 0)
       (bindR (freeLoop (freeContext env (getNumLevels (pt_kind ppgtt)) gfxAddress sz) ppgtt
                \<lparr>fs_entries = (\<lambda>_. []), fs_alloc = alloc\<rparr>) (\<lambda>(early, ppgtt, st).
        Inr (if early then []
             else freeCmds st (isLocalMemory ppgtt) (getNumAddressBits (pt_kind ppgtt)),
             ppgtt, fs_alloc st))))"

end
