(* ===== verification/TbxStream.thy ===== *)
theory TbxStream
  imports TbxSockets AubStream
begin

text \<open>
  The stream to a simulator (\<^verbatim>\<open>tbx_stream.h\<close>, \<^verbatim>\<open>tbx_stream.cpp\<close>) and the stream that writes a file beside it
  (\<^verbatim>\<open>aub_tbx_stream.h\<close>).  The log is left out.  \<open>uninit\<close> stands for what a local variable holds that has
  not been assigned.
\<close>

section \<open>The stream\<close>

record 'p TbxStream =
  tx_socket :: "'p TbxSocketsImp option"

definition onSocket ::
  "('p TbxSocketsImp \<Rightarrow> ('a \<times> 'p TbxSocketsImp) result) \<Rightarrow> 'p TbxStream \<Rightarrow> ('a \<times> 'p TbxStream) result" where
  "onSocket f st = (case tx_socket st of
       None \<Rightarrow> Inl NullDereference
     | Some s \<Rightarrow> bindR (f s) (\<lambda>(x, s). Inr (x, st\<lparr>tx_socket := Some s\<rparr>)))"

definition deleteTbxStream :: "'p TbxStream \<Rightarrow> 'p TbxStream" where
  "deleteTbxStream st = (case tx_socket st of None \<Rightarrow> st | Some s \<Rightarrow> st\<lparr>tx_socket := None\<rparr>)"

text \<open>The socket is created anew; \<open>peer\<close> is the other side before anything is sent.\<close>

definition tx_init ::
  "nat \<Rightarrow> 'p socket_api \<Rightarrow> 'p \<Rightarrow> string \<Rightarrow> bool \<Rightarrow> 'p TbxStream \<Rightarrow> (bool \<times> 'p TbxStream) result option" where
  "tx_init fuel api peer tbxServerIp tbxFrontdoorMode st =
     (case tbx_init fuel api tbxServerIp tbxFrontdoorMode (newTbxSocketsImp peer) of
        None \<Rightarrow> None
      | Some r \<Rightarrow> Some (bindR r (\<lambda>(ok, s). Inr (ok, st\<lparr>tx_socket := Some s\<rparr>))))"

definition isLocalSpace :: "int \<Rightarrow> bool" where
  "isLocalSpace addressSpace \<longleftrightarrow> addressSpace = addressSpaceValue TraceLocal"

text \<open>What a failed read leaves in the rest of the buffer is what it held before.\<close>

definition storeBytes :: "nat \<Rightarrow> u8 list \<Rightarrow> u8 list \<Rightarrow> u8 list result" where
  "storeBytes off bs memory =
     (if off + length bs \<le> length memory then Inr (take off memory @ bs @ drop (off + length bs) memory)
      else Inl IndexOutOfRange)"

definition tx_readContiguousPages ::
  "'p socket_api \<Rightarrow> u8 list \<Rightarrow> usize \<Rightarrow> u64 \<Rightarrow> int \<Rightarrow> 'p TbxStream \<Rightarrow> (u8 list \<times> 'p TbxStream) result" where
  "tx_readContiguousPages api memory sz physAddress addressSpace =
     onSocket (\<lambda>s. bindR (tbx_readMemory api physAddress sz (isLocalSpace addressSpace) s) (\<lambda>(_, bs, s).
       bindR (storeBytes 0 bs memory) (\<lambda>m. Inr (m, s))))"

fun readPages_loop ::
  "'p socket_api \<Rightarrow> PageInfo list \<Rightarrow> nat \<Rightarrow> u8 list \<Rightarrow> 'p TbxSocketsImp \<Rightarrow> (u8 list \<times> 'p TbxSocketsImp) result" where
  "readPages_loop api [] off memory s = Inr (memory, s)"
| "readPages_loop api (e # es) off memory s =
     bindR (tbx_readMemory api (pi_physicalAddress e) (pi_size e) (pi_isLocalMemory e) s) (\<lambda>(_, bs, s).
     bindR (storeBytes off bs memory) (\<lambda>memory. readPages_loop api es (off + unat (pi_size e)) memory s))"

definition tx_readDiscontiguousPages ::
  "'p socket_api \<Rightarrow> u8 list \<Rightarrow> PageInfo list \<Rightarrow> 'p TbxStream \<Rightarrow> (u8 list \<times> 'p TbxStream) result" where
  "tx_readDiscontiguousPages api memory es st =
     (if es = [] then Inr (memory, st) else onSocket (readPages_loop api es 0 memory) st)"

section \<open>Polling\<close>

text \<open>The loops may not end: \<open>None\<close> when the fuel was not enough.\<close>

fun memoryPoll_loop ::
  "nat \<Rightarrow> 'p socket_api \<Rightarrow> PageInfo \<Rightarrow> u32 \<Rightarrow> u32 \<Rightarrow> 'p TbxSocketsImp \<Rightarrow> (nat \<times> 'p TbxSocketsImp) result option" where
  "memoryPoll_loop 0 api e val compareMode s = None"
| "memoryPoll_loop (Suc fuel) api e val compareMode s =
     (case tbx_readMemory api (pi_physicalAddress e) 4 (pi_isLocalMemory e) s of
        Inl err \<Rightarrow> Some (Inl err)
      | Inr (status, bs, s) \<Rightarrow>
          if \<not> status then Some (Inr (fuel, s))
          else case compareMemory (dwordAt 0 bs) val compareMode of
                 Inl err \<Rightarrow> Some (Inl err)
               | Inr True \<Rightarrow> Some (Inr (fuel, s))
               | Inr False \<Rightarrow> memoryPoll_loop fuel api e val compareMode s)"

definition tx_memoryPoll ::
  "nat \<Rightarrow> 'p socket_api \<Rightarrow> PageInfo list \<Rightarrow> u32 \<Rightarrow> u32 \<Rightarrow> 'p TbxStream \<Rightarrow> 'p TbxStream result option" where
  "tx_memoryPoll fuel api es val compareMode st = (case (es, tx_socket st) of
       ([], _) \<Rightarrow> Some (assertD api False (Inl IndexOutOfRange))
     | (e # rest, None) \<Rightarrow> Some (assertD api (rest = []) (Inl NullDereference))
     | (e # rest, Some s) \<Rightarrow>
         if rest \<noteq> [] \<and> \<not> so_ndebug api then Some (Inl AssertionFailure)
         else map_option (\<lambda>r. bindR r (\<lambda>(_, s). Inr (st\<lparr>tx_socket := Some s\<rparr>)))
                (memoryPoll_loop fuel api e val compareMode s))"

text \<open>A value with bit 0 set ends the wait, whatever is asked for.\<close>

fun registerPoll_loop ::
  "nat \<Rightarrow> 'p socket_api \<Rightarrow> u32 \<Rightarrow> u32 \<Rightarrow> u32 \<Rightarrow> bool \<Rightarrow> 'p TbxSocketsImp \<Rightarrow> (nat \<times> 'p TbxSocketsImp) result option" where
  "registerPoll_loop 0 api off msk desired pollNotEqual s = None"
| "registerPoll_loop (Suc fuel) api off msk desired pollNotEqual s =
     (case tbx_readMMIO api off 0 s of
        Inl err \<Rightarrow> Some (Inl err)
      | Inr (status, val, s) \<Rightarrow>
          if \<not> status then Some (Inr (fuel, s))
          else let matches = ((val AND msk) = desired)
               in if val AND 1 \<noteq> 0 then Some (Inr (fuel, s))
                  else if matches = pollNotEqual then registerPoll_loop fuel api off msk desired pollNotEqual s
                  else Some (Inr (fuel, s)))"

definition tx_registerPoll ::
  "nat \<Rightarrow> 'p socket_api \<Rightarrow> u32 \<Rightarrow> u32 \<Rightarrow> u32 \<Rightarrow> bool \<Rightarrow> 'p TbxStream \<Rightarrow> 'p TbxStream result option" where
  "tx_registerPoll fuel api off msk desired pollNotEqual st = (case tx_socket st of
       None \<Rightarrow> Some (Inl NullDereference)
     | Some s \<Rightarrow> map_option (\<lambda>r. bindR r (\<lambda>(_, s). Inr (st\<lparr>tx_socket := Some s\<rparr>)))
         (registerPoll_loop fuel api off msk desired pollNotEqual s))"

section \<open>Registers\<close>

definition tx_readMMIO :: "'p socket_api \<Rightarrow> u32 \<Rightarrow> u32 \<Rightarrow> 'p TbxStream \<Rightarrow> (u32 \<times> 'p TbxStream) result" where
  "tx_readMMIO api uninit off = onSocket (\<lambda>s. bindR (tbx_readMMIO api off uninit s) (\<lambda>(_, v, s). Inr (v, s)))"

definition tx_writeMMIO :: "'p socket_api \<Rightarrow> u32 \<Rightarrow> u32 \<Rightarrow> u32 \<Rightarrow> u32 \<Rightarrow> 'p TbxStream \<Rightarrow> 'p TbxStream result" where
  "tx_writeMMIO api uninit off val msk st =
     bindR (if msk \<noteq> 0xffffffff
            then bindR (tx_readMMIO api uninit off st) (\<lambda>(current, st). Inr ((current AND NOT msk) OR (val AND msk), st))
            else Inr (val, st)) (\<lambda>(val, st).
     bindR (onSocket (tbx_writeMMIO api off val) st) (\<lambda>(_, st). Inr st))"

definition tx_writePCICFG :: "'p socket_api \<Rightarrow> u32 \<Rightarrow> u32 \<Rightarrow> 'p TbxStream \<Rightarrow> 'p TbxStream result" where
  "tx_writePCICFG api off val st = bindR (onSocket (tbx_writePCICFG api 0 2 0 off val) st) (\<lambda>(_, st). Inr st)"

definition tx_readPCICFG :: "'p socket_api \<Rightarrow> u32 \<Rightarrow> u32 \<Rightarrow> 'p TbxStream \<Rightarrow> (u32 \<times> 'p TbxStream) result" where
  "tx_readPCICFG api uninit off = onSocket (\<lambda>s. bindR (tbx_readPCICFG api 0 2 0 off uninit s) (\<lambda>(_, v, s). Inr (v, s)))"

section \<open>Writing pages\<close>

definition bytesOf :: "usize \<Rightarrow> u8 list \<Rightarrow> u8 list result" where
  "bytesOf sz memory = (if unat sz \<le> length memory then Inr (take (unat sz) memory) else Inl IndexOutOfRange)"

definition tx_writeContiguousPages ::
  "'p socket_api \<Rightarrow> u8 list \<Rightarrow> usize \<Rightarrow> u64 \<Rightarrow> int \<Rightarrow> 'p TbxStream \<Rightarrow> 'p TbxStream result" where
  "tx_writeContiguousPages api memory sz physAddress addressSpace st =
     bindR (bytesOf sz memory) (\<lambda>bs.
     bindR (onSocket (tbx_writeMemory api physAddress bs (isLocalSpace addressSpace)) st) (\<lambda>(_, st). Inr st))"

fun tx_writePages :: "'p socket_api \<Rightarrow> u8 list \<Rightarrow> PageInfo list \<Rightarrow> 'p TbxStream \<Rightarrow> 'p TbxStream result" where
  "tx_writePages api memory [] st = Inr st"
| "tx_writePages api memory (e # es) st =
     bindR (bytesOf (pi_size e) memory) (\<lambda>bs.
     bindR (onSocket (tbx_writeMemory api (pi_physicalAddress e) bs (pi_isLocalMemory e)) st) (\<lambda>(_, st).
     tx_writePages api (drop (unat (pi_size e)) memory) es st))"

fun tx_writeGttEntries :: "'p socket_api \<Rightarrow> PageEntryInfo list \<Rightarrow> 'p TbxStream \<Rightarrow> 'p TbxStream result" where
  "tx_writeGttEntries api [] st = Inr st"
| "tx_writeGttEntries api (e # es) st =
     bindR (onSocket (writeGTT api (ucast (pe_physicalAddress e)) (pe_tableEntry e)) st) (\<lambda>(_, st).
     tx_writeGttEntries api es st)"

fun tx_writeMemoryEntries :: "'p socket_api \<Rightarrow> bool \<Rightarrow> PageEntryInfo list \<Rightarrow> 'p TbxStream \<Rightarrow> 'p TbxStream result" where
  "tx_writeMemoryEntries api isLocal [] st = Inr st"
| "tx_writeMemoryEntries api isLocal (e # es) st =
     bindR (onSocket (tbx_writeMemory api (pe_physicalAddress e) (qwordBytes (pe_tableEntry e)) isLocal) st) (\<lambda>(_, st).
     tx_writeMemoryEntries api isLocal es st)"

definition tx_writeEntries :: "'p socket_api \<Rightarrow> PageEntryInfo list \<Rightarrow> int \<Rightarrow> 'p TbxStream \<Rightarrow> 'p TbxStream result" where
  "tx_writeEntries api es addressSpace =
     (if addressSpace = addressSpaceValue TraceGttEntry then tx_writeGttEntries api es
      else tx_writeMemoryEntries api (isLocalSpace addressSpace) es)"

definition tx_writeGttPages :: "'p socket_api \<Rightarrow> PageEntryInfo list \<Rightarrow> 'p TbxStream \<Rightarrow> 'p TbxStream result" where
  "tx_writeGttPages api es = tx_writeEntries api es (addressSpaceValue TraceGttEntry)"

section \<open>The calls of a stream\<close>

text \<open>The functions the class leaves empty do nothing.\<close>

fun tbxExec :: "nat \<Rightarrow> 'p socket_api \<Rightarrow> u32 \<Rightarrow> StreamCmd \<Rightarrow> 'p TbxStream \<Rightarrow> 'p TbxStream result option" where
  "tbxExec fuel api uninit (AddComment message) st = Some (Inr st)"
| "tbxExec fuel api uninit (WriteGttPages ggtt es) st = Some (tx_writeGttPages api es st)"
| "tbxExec fuel api uninit (WritePages memory sz pages hint) st = Some (tx_writePages api memory pages st)"
| "tbxExec fuel api uninit (WriteEntries es space hint) st = Some (tx_writeEntries api es space st)"
| "tbxExec fuel api uninit (ExpectMemoryTable memory sz pages op) st = Some (Inr st)"
| "tbxExec fuel api uninit (ReserveContiguousPages pages) st = Some (Inr st)"
| "tbxExec fuel api uninit (ReadPages sz pages) st =
     Some (bindR (tx_readDiscontiguousPages api (replicate (unat sz) 0) pages st) (\<lambda>(_, st). Inr st))"
| "tbxExec fuel api uninit (MemoryPoll es val mode) st = tx_memoryPoll fuel api es val mode st"
| "tbxExec fuel api uninit (RegisterPoll off msk val ne t) st = tx_registerPoll fuel api off msk val ne st"
| "tbxExec fuel api uninit (WriteMMIO off val msk) st = Some (tx_writeMMIO api uninit off val msk st)"
| "tbxExec fuel api uninit (WritePCICFG off val) st = Some (tx_writePCICFG api off val st)"
| "tbxExec fuel api uninit (DeclareContext h ppgtt) st = Some (Inr st)"
| "tbxExec fuel api uninit (DumpBufferBIN gtt a sz h) st = Some (Inr st)"
| "tbxExec fuel api uninit (DumpSurface gtt si h) st = Some (Inr st)"

fun tbxExecAll :: "nat \<Rightarrow> 'p socket_api \<Rightarrow> u32 \<Rightarrow> StreamCmd list \<Rightarrow> 'p TbxStream \<Rightarrow> 'p TbxStream result option" where
  "tbxExecAll fuel api uninit [] st = Some (Inr st)"
| "tbxExecAll fuel api uninit (c # cs) st = (case tbxExec fuel api uninit c st of
       None \<Rightarrow> None | Some (Inl e) \<Rightarrow> Some (Inl e) | Some (Inr st) \<Rightarrow> tbxExecAll fuel api uninit cs st)"

section \<open>File and simulator together\<close>

record 'p AubTbxStream =
  at_aubFileStream :: AubFileStream
  at_tbxStream :: "'p TbxStream"
  at_isAubFileStreamPaused :: bool

definition pauseAubFileStream :: "bool \<Rightarrow> 'p AubTbxStream \<Rightarrow> 'p AubTbxStream" where
  "pauseAubFileStream onoff st = st\<lparr>at_isAubFileStreamPaused := onoff\<rparr>"

definition at_arePageTableWritesFullyCommitted :: "'p AubTbxStream \<Rightarrow> bool" where
  "at_arePageTableWritesFullyCommitted st \<longleftrightarrow> \<not> at_isAubFileStreamPaused st"

text \<open>Every call goes to the file, unless it is paused, and then to the simulator; reads go to the simulator only.\<close>

definition aubTbxExec ::
  "nat \<Rightarrow> 'p socket_api \<Rightarrow> u32 \<Rightarrow> StreamCmd \<Rightarrow> 'p AubTbxStream \<Rightarrow> 'p AubTbxStream result option" where
  "aubTbxExec fuel api uninit c st =
     (case (if at_isAubFileStreamPaused st then Inr (at_aubFileStream st) else fileExec c (at_aubFileStream st)) of
        Inl e \<Rightarrow> Some (Inl e)
      | Inr f \<Rightarrow> map_option (\<lambda>r. bindR r (\<lambda>t. Inr (st\<lparr>at_aubFileStream := f, at_tbxStream := t\<rparr>)))
          (tbxExec fuel api uninit c (at_tbxStream st)))"

definition onTbx :: "('p TbxStream \<Rightarrow> ('a \<times> 'p TbxStream) result) \<Rightarrow> 'p AubTbxStream \<Rightarrow> ('a \<times> 'p AubTbxStream) result" where
  "onTbx f st = bindR (f (at_tbxStream st)) (\<lambda>(x, t). Inr (x, st\<lparr>at_tbxStream := t\<rparr>))"

definition at_readMMIO :: "'p socket_api \<Rightarrow> u32 \<Rightarrow> u32 \<Rightarrow> 'p AubTbxStream \<Rightarrow> (u32 \<times> 'p AubTbxStream) result" where
  "at_readMMIO api uninit off = onTbx (tx_readMMIO api uninit off)"

definition at_readPCICFG :: "'p socket_api \<Rightarrow> u32 \<Rightarrow> u32 \<Rightarrow> 'p AubTbxStream \<Rightarrow> (u32 \<times> 'p AubTbxStream) result" where
  "at_readPCICFG api uninit off = onTbx (tx_readPCICFG api uninit off)"

definition at_readDiscontiguousPages ::
  "'p socket_api \<Rightarrow> u8 list \<Rightarrow> PageInfo list \<Rightarrow> 'p AubTbxStream \<Rightarrow> (u8 list \<times> 'p AubTbxStream) result" where
  "at_readDiscontiguousPages api memory es = onTbx (tx_readDiscontiguousPages api memory es)"

definition at_writeContiguousPages ::
  "'p socket_api \<Rightarrow> u8 list \<Rightarrow> usize \<Rightarrow> u64 \<Rightarrow> int \<Rightarrow> int \<Rightarrow> 'p AubTbxStream \<Rightarrow> 'p AubTbxStream result" where
  "at_writeContiguousPages api memory sz physAddress addressSpace hint st =
     bindR (if at_isAubFileStreamPaused st then Inr (at_aubFileStream st)
            else writeContiguousPages memory sz physAddress addressSpace hint (at_aubFileStream st)) (\<lambda>f.
     bindR (tx_writeContiguousPages api memory sz physAddress addressSpace (at_tbxStream st)) (\<lambda>t.
     Inr (st\<lparr>at_aubFileStream := f, at_tbxStream := t\<rparr>)))"

definition tx_getStreamMode :: u32 where "tx_getStreamMode = mode_tbx"
definition at_getStreamMode :: u32 where "at_getStreamMode = mode_aubFileAndTbx"

fun aubTbxExecAll ::
  "nat \<Rightarrow> 'p socket_api \<Rightarrow> u32 \<Rightarrow> StreamCmd list \<Rightarrow> 'p AubTbxStream \<Rightarrow> 'p AubTbxStream result option" where
  "aubTbxExecAll fuel api uninit [] st = Some (Inr st)"
| "aubTbxExecAll fuel api uninit (c # cs) st = (case aubTbxExec fuel api uninit c st of
       None \<Rightarrow> None | Some (Inl e) \<Rightarrow> Some (Inl e) | Some (Inr st) \<Rightarrow> aubTbxExecAll fuel api uninit cs st)"

definition at_init ::
  "nat \<Rightarrow> 'p socket_api \<Rightarrow> 'p \<Rightarrow> string \<Rightarrow> bool \<Rightarrow> u32 \<Rightarrow> int \<Rightarrow> Gpu \<Rightarrow> 'p AubTbxStream
    \<Rightarrow> (bool \<times> 'p AubTbxStream) result option" where
  "at_init fuel api peer tbxServerIp tbxFrontdoorMode aubStreamCaller steppingValue gpu st =
     (case afs_init aubStreamCaller steppingValue gpu (at_aubFileStream st) of
        Inl e \<Rightarrow> Some (Inl e)
      | Inr f \<Rightarrow> map_option (\<lambda>r. bindR r (\<lambda>(ok, t). Inr (ok, st\<lparr>at_aubFileStream := f, at_tbxStream := t\<rparr>)))
          (tx_init fuel api peer tbxServerIp tbxFrontdoorMode (at_tbxStream st)))"

end
