(* ===== verification/TbxProps.thy ===== *)
theory TbxProps
  imports TbxStream
begin

text \<open>
  Correctness of the connection to a simulator.  The locale \<open>tbx_channel\<close> is what the client relies on from
  the sockets: bytes arrive in order, in pieces of any size.  A reference simulator decodes the messages
  and serves them on a device; the client over any such channel behaves like the device itself.
\<close>

section \<open>Messages as dwords\<close>

lemma concat_dwords_length [simp]: "length (concat (map dwordBytes ws)) = 4 * length ws"
  by (induction ws) simp_all

lemma dwordAt_dwords: "i < length ws \<Longrightarrow> dwordAt (4 * i) (concat (map dwordBytes ws) @ rest) = ws ! i"
proof (induction ws arbitrary: i)
  case (Cons w ws)
  then show ?case
    by (cases i) (simp_all add: dwordAt_append)
qed simp

lemma dwordAt_prefix:
  assumes "i + 4 \<le> length xs"
  shows "dwordAt i (xs @ ys) = dwordAt i xs"
proof -
  have "Suc (Suc (Suc (Suc 0))) \<le> length (drop i xs)"
    using assms by simp
  then obtain a b c d zs where "drop i xs = a # b # c # d # zs"
    by (metis Suc_le_length_iff)
  then show ?thesis
    using assms by (simp add: dwordAt_def)
qed

lemma hasMessage_length [simp]: "length (hasMessage mty t body) = 12 + 4 * length body"
  by (simp add: hasMessage_def hdr_dwords_def)

lemma hasMessage_neq_Nil [simp]: "hasMessage mty t body \<noteq> []"
  by (simp add: hasMessage_def hdr_dwords_def)

lemma hasMessage_at:
  "dwordAt 0 (hasMessage mty t body @ rest) = mty" "dwordAt 4 (hasMessage mty t body @ rest) = t"
  "dwordAt 8 (hasMessage mty t body @ rest) = word_of_nat (4 * length body)"
  "i < length body \<Longrightarrow> dwordAt (12 + 4 * i) (hasMessage mty t body @ rest) = body ! i"
  using dwordAt_dwords [of 0 "[mty, t, word_of_nat (4 * length body)] @ body" rest]
    dwordAt_dwords [of 1 "[mty, t, word_of_nat (4 * length body)] @ body" rest]
    dwordAt_dwords [of 2 "[mty, t, word_of_nat (4 * length body)] @ body" rest]
    dwordAt_dwords [of "3 + i" "[mty, t, word_of_nat (4 * length body)] @ body" rest]
  by (simp_all add: hasMessage_def hdr_dwords_def nth_append)

section \<open>A reference simulator\<close>

type_synonym cfg_key = "u8 \<times> 5 word \<times> 3 word \<times> u32"

record device =
  dv_mem :: "u32 \<Rightarrow> u64 \<Rightarrow> u8"
  dv_mmio :: "u32 \<Rightarrow> u32"
  dv_cfg :: "cfg_key \<Rightarrow> u32"
  dv_gtt :: "u32 \<Rightarrow> u64"

datatype request =
    ReqMmioRead u32
  | ReqMmioWrite u32 u32
  | ReqGttWrite u32 u64
  | ReqMemWrite u32 u64 "u8 list"
  | ReqMemRead bool u32 u64 u32
  | ReqCfgRead cfg_key
  | ReqCfgWrite cfg_key u32
  | ReqMarker
  | ReqControl

definition join64 :: "u32 \<Rightarrow> u32 \<Rightarrow> u64" where
  "join64 hi lo = push_bit 32 (ucast hi) OR ucast lo"

text \<open>What a message says: a request, or a write whose data follow.\<close>

datatype decoded = Immediate request | NeedsData u32 u64 u32

definition decodeWrite :: "u32 list \<Rightarrow> decoded option" where
  "decodeWrite body = (case body of
       [h, a, n] \<Rightarrow> (let f = unpackBits [1, 1, 1, 1, 1, 1, 2, 16, 8] h in Some (NeedsData (f ! 6) (join64 (f ! 8) a) n))
     | [h, a, n, ah] \<Rightarrow> (let f = unpackBits [1, 1, 1, 1, 1, 1, 2, 16, 8] h in Some (NeedsData (f ! 6) (join64 ah a) n))
     | _ \<Rightarrow> None)"

definition decodeRead :: "u32 list \<Rightarrow> decoded option" where
  "decodeRead body = (case body of
       [h, a, n] \<Rightarrow> (let f = unpackBits [1, 1, 1, 1, 1, 2, 17, 8] h
         in Some (Immediate (ReqMemRead False (f ! 5) (join64 (f ! 7) a) n)))
     | [h, a, n, ah] \<Rightarrow> (let f = unpackBits [1, 1, 1, 1, 1, 2, 17, 8] h
         in Some (Immediate (ReqMemRead True (f ! 5) (join64 ah a) n)))
     | _ \<Rightarrow> None)"

definition decodeMmio :: "u32 list \<Rightarrow> decoded option" where
  "decodeMmio body = (case body of
       [h, off, val] \<Rightarrow>
         Some (Immediate (if unpackBits [1, 3, 2, 3, 7, 16] h ! 0 = 0 then ReqMmioRead off else ReqMmioWrite off val))
     | _ \<Rightarrow> None)"

definition decodeCfg :: "u32 list \<Rightarrow> decoded option" where
  "decodeCfg body = (case body of
       [h, off, val] \<Rightarrow>
         (let f = unpackBits [1, 3, 8, 5, 3, 12] h; key = (ucast (f ! 2), ucast (f ! 3), ucast (f ! 4), off)
          in Some (Immediate (if f ! 0 = 0 then ReqCfgRead key else ReqCfgWrite key val)))
     | _ \<Rightarrow> None)"

definition decodeGtt :: "u32 list \<Rightarrow> decoded option" where
  "decodeGtt body = (case body of
       [h, off, lo, hi] \<Rightarrow> Some (Immediate (ReqGttWrite off (join64 hi lo))) | _ \<Rightarrow> None)"

definition decodeRequest :: "u32 \<Rightarrow> u32 list \<Rightarrow> decoded option" where
  "decodeRequest mty body =
     (if mty = HAS_MMIO_REQ_TYPE then decodeMmio body
      else if mty = HAS_GTT_REQ_TYPE then decodeGtt body
      else if mty = HAS_WRITE_DATA_REQ_TYPE then decodeWrite body
      else if mty = HAS_READ_DATA_REQ_TYPE then decodeRead body
      else if mty = HAS_PCICFG_REQ_TYPE then decodeCfg body
      else if mty = HAS_MARKER_REQ_TYPE then Some (Immediate ReqMarker)
      else if mty = HAS_CONTROL_REQ_TYPE then Some (Immediate ReqControl)
      else None)"

fun complete :: "decoded \<Rightarrow> u8 list \<Rightarrow> (request \<times> u8 list) option" where
  "complete (Immediate r) rest = Some (r, rest)"
| "complete (NeedsData mt a n) rest =
     (if unat n \<le> length rest then Some (ReqMemWrite mt a (take (unat n) rest), drop (unat n) rest) else None)"

definition bodyDwords :: "nat \<Rightarrow> u8 list \<Rightarrow> u32 list" where
  "bodyDwords n bs = map (\<lambda>i. dwordAt (12 + 4 * i) bs) [0..<n div 4]"

text \<open>The first complete message of the bytes received, with its transaction, and the bytes after it.\<close>

definition parseMessage :: "u8 list \<Rightarrow> ((u32 \<times> request) \<times> u8 list) option" where
  "parseMessage bs =
     (if length bs < 12 then None
      else let n = unat (dwordAt 8 bs)
           in if length bs < 12 + n then None
              else (case decodeRequest (dwordAt 0 bs) (bodyDwords n bs) of
                      None \<Rightarrow> None
                    | Some dec \<Rightarrow> (case complete dec (drop (12 + n) bs) of
                        None \<Rightarrow> None | Some (r, rest) \<Rightarrow> Some ((dwordAt 4 bs, r), rest))))"

fun serve :: "u32 \<Rightarrow> request \<Rightarrow> device \<Rightarrow> device \<times> u8 list" where
  "serve t (ReqMmioRead off) d = (d, hasMessage HAS_MMIO_RES_TYPE t [dv_mmio d off])"
| "serve t (ReqMmioWrite off val) d = (d\<lparr>dv_mmio := (dv_mmio d)(off := val)\<rparr>, [])"
| "serve t (ReqGttWrite i e) d = (d\<lparr>dv_gtt := (dv_gtt d)(i := e)\<rparr>, [])"
| "serve t (ReqMemWrite mt a bs) d = (d\<lparr>dv_mem := (dv_mem d)(mt := memStore a bs (dv_mem d mt))\<rparr>, [])"
| "serve t (ReqMemRead ext mt a n) d =
     (d, hasMessage HAS_READ_DATA_RES_TYPE t ([0, ucast a, n] @ (if ext then [ucast (drop_bit 32 a)] else []))
         @ memLoad a (unat n) (dv_mem d mt))"
| "serve t (ReqCfgRead key) d = (d, hasMessage HAS_PCICFG_RES_TYPE t [dv_cfg d key])"
| "serve t (ReqCfgWrite key val) d = (d\<lparr>dv_cfg := (dv_cfg d)(key := val)\<rparr>, [])"
| "serve t ReqMarker d = (d, hasMessage HAS_MARKER_RES_TYPE t [])"
| "serve t ReqControl d = (d, [])"

lemma complete_shrinks: "complete dec rest = Some (r, rest') \<Longrightarrow> length rest' \<le> length rest"
  by (cases dec) (auto split: if_splits)

lemma parseMessage_shrinks: "parseMessage bs = Some (r, rest) \<Longrightarrow> length rest < length bs"
  by (auto simp: parseMessage_def Let_def dest!: complete_shrinks split: if_splits option.splits)

text \<open>All complete messages in order: the device after them, the bytes answered, and what is left.\<close>

function simulate :: "device \<Rightarrow> u8 list \<Rightarrow> device \<times> u8 list \<times> u8 list" where
  "simulate d bs = (case parseMessage bs of
       None \<Rightarrow> (d, [], bs)
     | Some ((t, r), rest) \<Rightarrow>
         (case serve t r d of (d1, out1) \<Rightarrow>
           (case simulate d1 rest of (d2, out2, left) \<Rightarrow> (d2, out1 @ out2, left))))"
  by pat_completeness auto
termination
  by (relation "measure (\<lambda>(d, bs). length bs)") (auto dest: parseMessage_shrinks)

declare simulate.simps [simp del]

lemma complete_append: "complete dec rest = Some (r, rest') \<Longrightarrow> complete dec (rest @ ys) = Some (r, rest' @ ys)"
  by (cases dec) (auto split: if_splits)

lemma parseMessage_append:
  assumes "parseMessage xs = Some (r, rest)"
  shows "parseMessage (xs @ ys) = Some (r, rest @ ys)"
proof -
  let ?n = "unat (dwordAt 8 xs)"
  from assms have len: "12 \<le> length xs" "12 + ?n \<le> length xs"
    by (auto simp: parseMessage_def Let_def split: if_splits)
  have at: "dwordAt i (xs @ ys) = dwordAt i xs" if "i + 4 \<le> length xs" for i
    using that by (rule dwordAt_prefix)
  have "bodyDwords ?n (xs @ ys) = bodyDwords ?n xs"
    using len(2) by (auto simp: bodyDwords_def intro!: at)
  then show ?thesis
    using assms len at [of 0] at [of 4] at [of 8]
    by (auto simp: parseMessage_def Let_def complete_append split: option.splits)
qed

lemma simulate_append:
  "simulate d xs = (d1, out1, []) \<Longrightarrow>
   simulate d (xs @ ys) = (case simulate d1 ys of (d2, out2, left) \<Rightarrow> (d2, out1 @ out2, left))"
proof (induction d xs arbitrary: d1 out1 rule: simulate.induct)
  case (1 d bs)
  show ?case
  proof (cases "parseMessage bs")
    case None
    then show ?thesis
      using "1.prems" by (auto simp: simulate.simps [of d bs])
  next
    case (Some p)
    then obtain t r rest where p: "parseMessage bs = Some ((t, r), rest)"
      by (cases p) auto
    obtain d' out' where sv: "serve t r d = (d', out')"
      by (cases "serve t r d")
    obtain d2 out2 left where sim: "simulate d' rest = (d2, out2, left)"
      by (cases "simulate d' rest")
    have "d2 = d1" "out1 = out' @ out2" "left = []"
      using "1.prems" p sv sim by (simp_all add: simulate.simps [of d bs])
    then show ?thesis
      using "1.IH" [OF p refl refl sv [symmetric], of d1 out2] sim sv parseMessage_append [OF p, of ys]
      by (simp add: simulate.simps [of d "bs @ ys"] split: prod.splits)
  qed
qed

section \<open>Decoding what the client sends\<close>

lemma parse_message:
  assumes "length body < 2 ^ 30"
  shows "parseMessage (hasMessage mty t body @ rest) = (case decodeRequest mty body of
       None \<Rightarrow> None
     | Some dec \<Rightarrow> (case complete dec rest of None \<Rightarrow> None | Some (r, rest') \<Rightarrow> Some ((t, r), rest')))"
proof -
  have n: "unat (word_of_nat (4 * length body) :: u32) = 4 * length body"
    using assms by (subst unat_word_of_nat_small) simp_all
  have "bodyDwords (4 * length body) (hasMessage mty t body @ rest) = body"
    by (rule nth_equalityI) (simp_all add: bodyDwords_def hasMessage_at)
  then show ?thesis
    by (simp add: parseMessage_def Let_def hasMessage_at n del: of_nat_mult cong: option.case_cong)
qed

lemma unpack_fields:
  "sum_list (map fst fs) \<le> 32 \<Longrightarrow> ws = map fst fs \<Longrightarrow> i < length fs \<Longrightarrow>
   unpackBits ws (packBits fs) ! i = (case fs ! i of (w, v) \<Rightarrow> take_bit w v)"
  by (simp add: unpack_packBits)

lemma of_bool_ucast [simp]: "(ucast (of_bool b :: 1 word) :: u32) = of_bool b"
  by (cases b) simp_all

lemma decode_mmio [simp]:
  "decodeMmio (mmio_req_dwords (mmioRequest off val w))
     = Some (Immediate (if w then ReqMmioWrite off val else ReqMmioRead off))"
  by (simp add: decodeMmio_def mmio_req_dwords_def unpack_fields mmioRequest_def del: packBits.simps unpackBits.simps)

lemma decode_gtt [simp]:
  "decodeGtt (gtt64_req_dwords \<lparr>gtt_write = 1, gtt_reserved = 0, gtt_offset = i, gtt_data = ucast (e AND 0xffffffff),
     gtt_data_h = ucast (drop_bit 32 e)\<rparr>) = Some (Immediate (ReqGttWrite i e))"
proof -
  have "join64 (ucast (drop_bit 32 e)) (ucast (e AND 0xffffffff)) = e"
  proof -
    have "(ucast (e AND mask 32) :: u32) = ucast e"
      by (rule bit_word_eqI) (simp add: bit_simps)
    moreover have "(mask 32 :: u64) = 0xffffffff"
      by (simp add: mask_eq_exp_minus_1)
    ultimately show ?thesis
      using qword_join [of e] by (simp add: join64_def)
  qed
  then show ?thesis
    by (simp add: decodeGtt_def gtt64_req_dwords_def del: packBits.simps)
qed

lemma decode_cfg [simp]:
  "decodeCfg (pcicfg_req_dwords (pcicfgRequest bus dev fn off val w))
     = Some (Immediate (if w then ReqCfgWrite (ucast bus, ucast dev, ucast fn, off) val
                        else ReqCfgRead (ucast bus, ucast dev, ucast fn, off)))"
  by (simp add: decodeCfg_def pcicfg_req_dwords_def unpack_fields pcicfgRequest_def take_bit_ucast_full Let_def
      del: packBits.simps unpackBits.simps)

lemma join_low40:
  assumes "a < 2 ^ 40"
  shows "join64 (ucast (ucast (ucast (drop_bit 32 a) :: u32) :: u8)) (ucast a) = a"
proof (rule bit_word_eqI)
  fix n assume n: "n < LENGTH(64)"
  have "take_bit 40 a = a"
    using assms by (simp add: take_bit_eq_self_iff_drop_bit_eq_0 drop_bit_eq_div word_le_nat_alt div_word_less)
  then have "\<not> bit a n" if "40 \<le> n"
    using that by (metis bit_take_bit_iff not_le)
  then show "bit (join64 (ucast (ucast (ucast (drop_bit 32 a) :: u32) :: u8)) (ucast a)) n = bit a n"
    using n by (cases "n < 40") (auto simp: join64_def bit_simps)
qed

lemma decode_read [simp]:
  "a < 2 ^ 40 \<Longrightarrow> decodeRead (read_req_dwords (readRequest a n False (memoryType l)))
     = Some (Immediate (ReqMemRead False (memoryType l) a (ucast n)))"
  by (simp add: decodeRead_def read_req_dwords_def unpack_fields readRequest_def take_bit_ucast_full Let_def join_low40
      memoryType_def tbx_types del: packBits.simps unpackBits.simps)

lemma decode_read_ext [simp]:
  "decodeRead (read_req_dwords (readRequest a n True MEM_TYPE_SYSTEM) @ [ucast (drop_bit 32 a)])
     = Some (Immediate (ReqMemRead True MEM_TYPE_SYSTEM a (ucast n)))"
  using qword_join [of a]
  by (simp add: decodeRead_def read_req_dwords_def unpack_fields readRequest_def take_bit_ucast_full Let_def join64_def
      tbx_types del: packBits.simps unpackBits.simps)

lemma decode_write [simp]:
  "a < 2 ^ 40 \<Longrightarrow> decodeWrite (write_req_dwords (writeRequest a n False (memoryType l)))
     = Some (NeedsData (memoryType l) a (ucast n))"
  by (simp add: decodeWrite_def write_req_dwords_def unpack_fields writeRequest_def take_bit_ucast_full Let_def join_low40
      memoryType_def tbx_types del: packBits.simps unpackBits.simps)

lemma decode_write_ext [simp]:
  "decodeWrite (write_req_dwords (writeRequest a n True MEM_TYPE_SYSTEM) @ [ucast (drop_bit 32 a)])
     = Some (NeedsData MEM_TYPE_SYSTEM a (ucast n))"
  using qword_join [of a]
  by (simp add: decodeWrite_def write_req_dwords_def unpack_fields writeRequest_def take_bit_ucast_full Let_def join64_def
      tbx_types del: packBits.simps unpackBits.simps)

lemma dword_of_reply [simp]: "dwordAt 12 (hasMessage rty t [v]) = v"
  using hasMessage_at(4) [of 0 "[v]" rty t "[]"] by simp

lemma request_lengths [simp]:
  "length (mmio_req_dwords m) = 3" "length (pcicfg_req_dwords p) = 3" "length (gtt64_req_dwords g) = 4"
  "length (write_req_dwords w) = 3" "length (read_req_dwords r) = 3"
  by (simp_all add: mmio_req_dwords_def pcicfg_req_dwords_def gtt64_req_dwords_def write_req_dwords_def read_req_dwords_def
      del: packBits.simps)

lemma decode_types [simp]:
  "decodeRequest HAS_MMIO_REQ_TYPE = decodeMmio" "decodeRequest HAS_GTT_REQ_TYPE = decodeGtt"
  "decodeRequest HAS_WRITE_DATA_REQ_TYPE = decodeWrite" "decodeRequest HAS_READ_DATA_REQ_TYPE = decodeRead"
  "decodeRequest HAS_PCICFG_REQ_TYPE = decodeCfg"
  by (simp_all add: fun_eq_iff decodeRequest_def tbx_types)

section \<open>The channel\<close>

text \<open>
  \<open>sent\<close> is what has been sent so far, \<open>answer\<close> what the other side says to that, \<open>got\<close> how much of it has
  been read.
\<close>

locale tbx_channel =
  fixes api :: "'p socket_api" and sent :: "'p \<Rightarrow> u8 list" and got :: "'p \<Rightarrow> nat" and answer :: "u8 list \<Rightarrow> u8 list"
  assumes send_some: "buf \<noteq> [] \<Longrightarrow> \<exists>k p'. so_send api buf p = (int k, p') \<and> 0 < k \<and> k \<le> length buf
      \<and> sent p' = sent p @ take k buf \<and> got p' = got p"
    and recv_some: "0 < n \<Longrightarrow> got p < length (answer (sent p)) \<Longrightarrow>
      \<exists>k p'. so_recv api n p = (int k, take k (drop (got p) (answer (sent p))), p') \<and> 0 < k \<and> k \<le> n
        \<and> got p + k \<le> length (answer (sent p)) \<and> sent p' = sent p \<and> got p' = got p + k"
begin

lemma send_loop_delivers:
  "buf \<noteq> [] \<Longrightarrow> length buf < 2 ^ 31 \<Longrightarrow>
   \<exists>p'. send_loop api buf s = Inr (True, s\<lparr>ts_peer := p'\<rparr>) \<and> sent p' = sent (ts_peer s) @ buf \<and> got p' = got (ts_peer s)"
proof (induction buf arbitrary: s rule: length_induct)
  case (1 buf)
  obtain k p where k: "so_send api buf (ts_peer s) = (int k, p)" "0 < k" "k \<le> length buf"
      "sent p = sent (ts_peer s) @ take k buf" "got p = got (ts_peer s)"
    using send_some [OF "1.prems"(1)] by blast
  show ?case
  proof (cases "k < length buf")
    case True
    then obtain p' where "send_loop api (drop k buf) (s\<lparr>ts_peer := p\<rparr>) = Inr (True, s\<lparr>ts_peer := p'\<rparr>)"
        "sent p' = sent p @ drop k buf" "got p' = got p"
      using "1.IH" [rule_format, of "drop k buf" "s\<lparr>ts_peer := p\<rparr>"] "1.prems"(2) k(2) by force
    then show ?thesis
      using True k "1.prems"(2) by (intro exI [of _ p']) (subst send_loop.simps, simp)
  next
    case False
    then show ?thesis
      using k "1.prems"(2) by (intro exI [of _ p]) (simp add: send_loop.simps)
  qed
qed

lemma recv_loop_delivers:
  "0 < n \<Longrightarrow> n < 2 ^ 31 \<Longrightarrow> got (ts_peer s) + n \<le> length (answer (sent (ts_peer s))) \<Longrightarrow>
   \<exists>p'. recv_loop api n acc s = Inr (True, acc @ take n (drop (got (ts_peer s)) (answer (sent (ts_peer s)))), s\<lparr>ts_peer := p'\<rparr>)
     \<and> sent p' = sent (ts_peer s) \<and> got p' = got (ts_peer s) + n"
proof (induction n arbitrary: acc s rule: less_induct)
  case (less n)
  let ?a = "drop (got (ts_peer s)) (answer (sent (ts_peer s)))"
  obtain k p where k: "so_recv api n (ts_peer s) = (int k, take k ?a, p)" "0 < k" "k \<le> n" "k \<le> length ?a"
      "sent p = sent (ts_peer s)" "got p = got (ts_peer s) + k"
    using recv_some [of n "ts_peer s"] less.prems by fastforce
  show ?case
  proof (cases "k < n")
    case True
    then obtain p' where "recv_loop api (n - k) (acc @ take k ?a) (s\<lparr>ts_peer := p\<rparr>)
          = Inr (True, (acc @ take k ?a) @ take (n - k) (drop k ?a), s\<lparr>ts_peer := p'\<rparr>)"
        "sent p' = sent p" "got p' = got p + (n - k)"
      using less.IH [of "n - k" "s\<lparr>ts_peer := p\<rparr>" "acc @ take k ?a"] less.prems k by (force simp: add.commute)
    moreover have "take k ?a @ take (n - k) (drop k ?a) = take n ?a"
      using True take_add [of k "n - k" ?a] by simp
    ultimately show ?thesis
      using True k less.prems(2) by (intro exI [of _ p']) (subst recv_loop.simps, simp)
  next
    case False
    then show ?thesis
      using k less.prems(2) by (intro exI [of _ p]) (simp add: recv_loop.simps)
  qed
qed

lemma sendWriteData_delivers:
  assumes "\<not> ts_inErrorState s" and "buf \<noteq> []" and "length buf < 2 ^ 31"
  shows "\<exists>p'. sendWriteData api buf s = Inr (True, s\<lparr>ts_peer := p'\<rparr>) \<and> sent p' = sent (ts_peer s) @ buf
    \<and> got p' = got (ts_peer s)"
  using send_loop_delivers [OF assms(2,3)] assms(1) by (simp add: sendWriteData_def)

lemma getResponseData_delivers:
  assumes "\<not> ts_inErrorState s" and "0 < n" and "n < 2 ^ 31" and "got (ts_peer s) + n \<le> length (answer (sent (ts_peer s)))"
  shows "\<exists>p'. getResponseData api n s = Inr (True, take n (drop (got (ts_peer s)) (answer (sent (ts_peer s)))), s\<lparr>ts_peer := p'\<rparr>)
    \<and> sent p' = sent (ts_peer s) \<and> got p' = got (ts_peer s) + n"
  using recv_loop_delivers [OF assms(2-4), of "[]"] assms(1) by (simp add: getResponseData_def)

text \<open>The other side answers what was sent last with the message \<open>resp\<close>.\<close>

lemma exchange_delivers:
  assumes "\<not> ts_inErrorState s" and "length cmd < 2 ^ 31" and "cmd \<noteq> []"
    and "answer (sent (ts_peer s) @ cmd) = prev @ hasMessage mty t body @ tail" and "length prev = got (ts_peer s)"
    and "length body < 2 ^ 20"
  shows "\<exists>p'. exchange api cmd (12 + 4 * length body) mty t s = Inr (Reply (hasMessage mty t body), s\<lparr>ts_peer := p'\<rparr>)
    \<and> sent p' = sent (ts_peer s) @ cmd \<and> got p' = length prev + (12 + 4 * length body)"
proof -
  obtain p1 where p1: "sendWriteData api cmd s = Inr (True, s\<lparr>ts_peer := p1\<rparr>)" "sent p1 = sent (ts_peer s) @ cmd"
      "got p1 = length prev"
    using sendWriteData_delivers [OF assms(1,3,2)] assms(5) by auto
  then obtain p2 where "getResponseData api (12 + 4 * length body) (s\<lparr>ts_peer := p1\<rparr>)
        = Inr (True, hasMessage mty t body, s\<lparr>ts_peer := p2\<rparr>)" "sent p2 = sent p1" "got p2 = got p1 + (12 + 4 * length body)"
    using getResponseData_delivers [of "s\<lparr>ts_peer := p1\<rparr>" "12 + 4 * length body"] assms(1,4,6) by auto
  then show ?thesis
    using p1 hasMessage_at(1,2) [of mty t body "[]"] by (intro exI [of _ p2]) (simp add: exchange_def)
qed

end

section \<open>The client over a simulator\<close>

datatype tbx_op =
    WriteReg u32 u32
  | ReadReg u32
  | WriteCfg u32 u32 u32 u32 u32
  | ReadCfg u32 u32 u32 u32
  | WriteMem u64 "u8 list" bool
  | ReadMem u64 usize bool
  | WriteGttEntry u32 u64

text \<open>What a call returns: its status, and the value or the bytes read.\<close>

datatype outcome = Status bool | Value bool u32 | Bytes bool "u8 list"

fun runOp :: "'p socket_api \<Rightarrow> tbx_op \<Rightarrow> 'p TbxSocketsImp \<Rightarrow> (outcome \<times> 'p TbxSocketsImp) result" where
  "runOp api (WriteReg off val) s = bindR (tbx_writeMMIO api off val s) (\<lambda>(ok, s). Inr (Status ok, s))"
| "runOp api (ReadReg off) s = bindR (tbx_readMMIO api off 0 s) (\<lambda>(ok, v, s). Inr (Value ok v, s))"
| "runOp api (WriteCfg b dev f off val) s = bindR (tbx_writePCICFG api b dev f off val s) (\<lambda>(ok, s). Inr (Status ok, s))"
| "runOp api (ReadCfg b dev f off) s = bindR (tbx_readPCICFG api b dev f off 0 s) (\<lambda>(ok, v, s). Inr (Value ok v, s))"
| "runOp api (WriteMem a bs l) s = bindR (tbx_writeMemory api a bs l s) (\<lambda>(ok, s). Inr (Status ok, s))"
| "runOp api (ReadMem a n l) s = bindR (tbx_readMemory api a n l s) (\<lambda>(ok, bs, s). Inr (Bytes ok bs, s))"
| "runOp api (WriteGttEntry off e) s = bindR (writeGTT api off e s) (\<lambda>(ok, s). Inr (Status ok, s))"

fun runOps :: "'p socket_api \<Rightarrow> tbx_op list \<Rightarrow> 'p TbxSocketsImp \<Rightarrow> (outcome list \<times> 'p TbxSocketsImp) result" where
  "runOps api [] s = Inr ([], s)"
| "runOps api (op # ops) s = bindR (runOp api op s) (\<lambda>(r, s). bindR (runOps api ops s) (\<lambda>(rs, s). Inr (r # rs, s)))"

text \<open>The same operations on the device itself.  In the frontdoor mode local memory lies behind a BAR.\<close>

definition memoryOf :: "bool \<Rightarrow> bool \<Rightarrow> u32" where
  "memoryOf frontdoor isLocal = (if frontdoor then MEM_TYPE_SYSTEM else memoryType isLocal)"

definition addressOf :: "bool \<Rightarrow> u64 \<Rightarrow> bool \<Rightarrow> u64 \<Rightarrow> u64" where
  "addressOf frontdoor bar isLocal a = (if frontdoor \<and> isLocal then a + bar else a)"

fun directOp :: "bool \<Rightarrow> u64 \<Rightarrow> tbx_op \<Rightarrow> device \<Rightarrow> outcome \<times> device" where
  "directOp fd bar (WriteReg off val) d = (Status True, d\<lparr>dv_mmio := (dv_mmio d)(off := val)\<rparr>)"
| "directOp fd bar (ReadReg off) d = (Value True (dv_mmio d off), d)"
| "directOp fd bar (WriteCfg b dev f off val) d =
     (Status True, d\<lparr>dv_cfg := (dv_cfg d)((ucast b, ucast dev, ucast f, off) := val)\<rparr>)"
| "directOp fd bar (ReadCfg b dev f off) d = (Value True (dv_cfg d (ucast b, ucast dev, ucast f, off)), d)"
| "directOp fd bar (WriteMem a bs l) d =
     (let mt = memoryOf fd l
      in (Status True, d\<lparr>dv_mem := (dv_mem d)(mt := memStore (addressOf fd bar l a) bs (dv_mem d mt))\<rparr>))"
| "directOp fd bar (ReadMem a n l) d =
     (Bytes True (memLoad (addressOf fd bar l a) (unat n) (dv_mem d (memoryOf fd l))), d)"
| "directOp fd bar (WriteGttEntry off e) d = (Status True, d\<lparr>dv_gtt := (dv_gtt d)(off div 8 := e)\<rparr>)"

fun directOps :: "bool \<Rightarrow> u64 \<Rightarrow> tbx_op list \<Rightarrow> device \<Rightarrow> outcome list \<times> device" where
  "directOps fd bar [] d = ([], d)"
| "directOps fd bar (op # ops) d =
     (case directOp fd bar op d of (r, d1) \<Rightarrow> (case directOps fd bar ops d1 of (rs, d2) \<Rightarrow> (r # rs, d2)))"

lemma directOps_backdoor: "directOps False bar ops d = directOps False bar' ops d"
proof (induction ops arbitrary: d)
  case (Cons op ops)
  have "directOp False bar op d = directOp False bar' op d"
    by (cases op) (simp_all add: addressOf_def)
  then show ?case
    using Cons by simp
qed simp

text \<open>The operations the protocol can carry: something to transfer, less than 2 GB of it, and without the
  frontdoor an address of 40 bits.\<close>

fun op_ok :: "bool \<Rightarrow> tbx_op \<Rightarrow> bool" where
  "op_ok fd (WriteMem a bs l) \<longleftrightarrow> bs \<noteq> [] \<and> length bs < 2 ^ 31 \<and> (fd \<or> a < 2 ^ 40)"
| "op_ok fd (ReadMem a n l) \<longleftrightarrow> 0 < n \<and> n < 2 ^ 31 \<and> (fd \<or> a < 2 ^ 40)"
| "op_ok fd op \<longleftrightarrow> True"

definition simAnswer :: "device \<Rightarrow> u8 list \<Rightarrow> u8 list" where
  "simAnswer d0 bs = fst (snd (simulate d0 bs))"

text \<open>The BAR of the local memory as the configuration space of the device gives it.\<close>

definition lmembarOf :: "device \<Rightarrow> u64" where
  "lmembarOf d = (let bar = join64 (dv_cfg d (0, 2, 0, 0x1C)) (dv_cfg d (0, 2, 0, 0x18)) AND LMEMBAR_MASK
     in if bar = 0 then LMEMBAR_DFLT else bar)"

text \<open>
  A server that accepts the attempt number \<open>n\<close>, the ones before it failing within the time allowed; a name
  has to be known.
\<close>

definition reachable_server :: "'p socket_api \<Rightarrow> string \<Rightarrow> nat \<Rightarrow> bool" where
  "reachable_server api name n \<longleftrightarrow> so_socket api \<noteq> 0 \<and> so_socket api \<noteq> -1 \<and> name \<noteq> []
     \<and> (is_alpha (hd name) \<longrightarrow> so_gethostbyname api name)
     \<and> (\<forall>i<n. fst (so_connect api i) = -1 \<and> snd (so_connect api i) < timeoutInSeconds)
     \<and> fst (so_connect api n) \<noteq> -1"

text \<open>What the requests leave alone.\<close>

definition keeps :: "'p TbxSocketsImp \<Rightarrow> 'p TbxSocketsImp \<Rightarrow> bool" where
  "keeps s s' \<longleftrightarrow> ts_frontdoorMode s' = ts_frontdoorMode s \<and> ts_lmembar s' = ts_lmembar s \<and> ts_socket s' = ts_socket s"

locale tbx_simulator = tbx_channel api sent got "simAnswer d0"
  for api :: "'p socket_api" and sent got d0
begin

text \<open>Between two calls everything sent has been served and everything answered has been read.\<close>

definition synced :: "'p TbxSocketsImp \<Rightarrow> device \<Rightarrow> bool" where
  "synced s d \<longleftrightarrow> \<not> ts_inErrorState s
     \<and> (\<exists>out. simulate d0 (sent (ts_peer s)) = (d, out, []) \<and> got (ts_peer s) = length out)"

lemma simulate_message:
  assumes "length body < 2 ^ 30" and "decodeRequest mty body = Some dec" and "complete dec data = Some (r, [])"
  shows "simulate d (hasMessage mty t body @ data) = (case serve t r d of (d1, out) \<Rightarrow> (d1, out, []))"
  using assms by (simp add: simulate.simps [of d "hasMessage mty t body @ data"] simulate.simps [of _ "[]"]
      parse_message parseMessage_def [of "[]"] split: prod.splits)

text \<open>A request without an answer.\<close>

lemma send_request:
  assumes "synced s d" and "length body < 2 ^ 20" and "decodeRequest mty body = Some (Immediate r)" and "serve t r d = (d1, [])"
  shows "\<exists>s'. sendWriteData api (hasMessage mty t body) (nextTransID s) = Inr (True, s') \<and> synced s' d1
    \<and> keeps s s'"
proof -
  obtain out where sim: "simulate d0 (sent (ts_peer s)) = (d, out, [])" "got (ts_peer s) = length out"
    using assms(1) by (auto simp: synced_def)
  obtain p' where p': "sendWriteData api (hasMessage mty t body) (nextTransID s) = Inr (True, (nextTransID s)\<lparr>ts_peer := p'\<rparr>)"
      "sent p' = sent (ts_peer s) @ hasMessage mty t body" "got p' = got (ts_peer s)"
    using sendWriteData_delivers [of "nextTransID s" "hasMessage mty t body"] assms(1,2) by (auto simp: synced_def nextTransID_def)
  have "simulate d (hasMessage mty t body @ []) = (d1, [], [])"
    using simulate_message [of body mty _ "[]" r d t] assms(2-4) by simp
  then have "simulate d0 (sent p') = (d1, out, [])"
    using simulate_append [OF sim(1), of "hasMessage mty t body"] p'(2) by simp
  then show ?thesis
    using p' sim(2) assms(1) by (auto simp: synced_def nextTransID_def keeps_def)
qed

text \<open>A request with an answer.\<close>

lemma exchange_request:
  assumes "synced s d" and "length body < 2 ^ 20" and "decodeRequest mty body = Some (Immediate r)"
    and "serve t r d = (d1, hasMessage rty t rbody @ data)" and "length rbody < 2 ^ 20"
  shows "\<exists>p'. exchange api (hasMessage mty t body) (12 + 4 * length rbody) rty t (nextTransID s)
      = Inr (Reply (hasMessage rty t rbody), (nextTransID s)\<lparr>ts_peer := p'\<rparr>)
    \<and> (\<exists>out. simulate d0 (sent p') = (d1, out @ data, []) \<and> got p' = length out)"
proof -
  obtain out where sim: "simulate d0 (sent (ts_peer s)) = (d, out, [])" "got (ts_peer s) = length out"
    using assms(1) by (auto simp: synced_def)
  have "simulate d (hasMessage mty t body @ []) = (d1, hasMessage rty t rbody @ data, [])"
    using simulate_message [of body mty _ "[]" r d t] assms(2-4) by simp
  then have sim': "simulate d0 (sent (ts_peer s) @ hasMessage mty t body) = (d1, out @ hasMessage rty t rbody @ data, [])"
    using simulate_append [OF sim(1), of "hasMessage mty t body"] by simp
  then have ans: "simAnswer d0 (sent (ts_peer (nextTransID s)) @ hasMessage mty t body) = out @ hasMessage rty t rbody @ data"
    by (simp add: simAnswer_def nextTransID_def)
  have "\<not> ts_inErrorState (nextTransID s)" "length (hasMessage mty t body) < 2 ^ 31" "length out = got (ts_peer (nextTransID s))"
    using assms(1,2) sim(2) by (simp_all add: synced_def nextTransID_def)
  from exchange_delivers [OF this(1,2) hasMessage_neq_Nil ans this(3) assms(5)]
  obtain p' where "exchange api (hasMessage mty t body) (12 + 4 * length rbody) rty t (nextTransID s)
      = Inr (Reply (hasMessage rty t rbody), (nextTransID s)\<lparr>ts_peer := p'\<rparr>)"
      "sent p' = sent (ts_peer s) @ hasMessage mty t body" "got p' = length out + (12 + 4 * length rbody)"
    by (auto simp: nextTransID_def)
  then show ?thesis
    using sim' by (intro exI [of _ p']) (auto intro!: exI [of _ "out @ hasMessage rty t rbody"])
qed

lemma synced_after:
  "synced s d \<Longrightarrow> simulate d0 (sent p') = (d1, out, []) \<Longrightarrow> got p' = length out \<Longrightarrow> synced ((nextTransID s)\<lparr>ts_peer := p'\<rparr>) d1"
  by (auto simp: synced_def nextTransID_def)

text \<open>A write: the request, then the data.\<close>

lemma sendData_request:
  assumes "synced s d" and "length body < 2 ^ 20" and "decodeRequest mty body = Some (NeedsData mt a n)"
    and "unat n = length data" and "data \<noteq> []" and "length data < 2 ^ 31"
  shows "\<exists>s'. sendData api (hasMessage mty t body) data (nextTransID s) = Inr (True, s')
    \<and> synced s' (d\<lparr>dv_mem := (dv_mem d)(mt := memStore a data (dv_mem d mt))\<rparr>)
    \<and> keeps s s'"
proof -
  obtain out where sim: "simulate d0 (sent (ts_peer s)) = (d, out, [])" "got (ts_peer s) = length out"
    using assms(1) by (auto simp: synced_def)
  obtain p1 where p1: "sendWriteData api (hasMessage mty t body) (nextTransID s) = Inr (True, (nextTransID s)\<lparr>ts_peer := p1\<rparr>)"
      "sent p1 = sent (ts_peer s) @ hasMessage mty t body" "got p1 = got (ts_peer s)"
    using sendWriteData_delivers [of "nextTransID s" "hasMessage mty t body"] assms(1,2) by (auto simp: synced_def nextTransID_def)
  obtain p2 where p2: "sendWriteData api data ((nextTransID s)\<lparr>ts_peer := p1\<rparr>) = Inr (True, (nextTransID s)\<lparr>ts_peer := p2\<rparr>)"
      "sent p2 = sent p1 @ data" "got p2 = got p1"
    using sendWriteData_delivers [of "(nextTransID s)\<lparr>ts_peer := p1\<rparr>" data] assms(1,5,6) by (auto simp: synced_def nextTransID_def)
  have "simulate d (hasMessage mty t body @ data) = (d\<lparr>dv_mem := (dv_mem d)(mt := memStore a data (dv_mem d mt))\<rparr>, [], [])"
    using simulate_message [of body mty _ data "ReqMemWrite mt a data" d t] assms(2-4) by simp
  then have "simulate d0 (sent p2) = (d\<lparr>dv_mem := (dv_mem d)(mt := memStore a data (dv_mem d mt))\<rparr>, out, [])"
    using simulate_append [OF sim(1), of "hasMessage mty t body @ data"] p1(2) p2(2) by simp
  then show ?thesis
    using p1 p2 sim(2) assms(1) by (auto simp: sendData_def synced_def nextTransID_def keeps_def)
qed

text \<open>A read: the answer, then the data.\<close>

lemma receiveData_request:
  assumes "synced s d" and "length body < 2 ^ 20" and "decodeRequest HAS_READ_DATA_REQ_TYPE body = Some (Immediate (ReqMemRead ext mt a n))"
    and "0 < unat n" and "unat n < 2 ^ 31"
  shows "\<exists>s'. receiveData api (hasMessage HAS_READ_DATA_REQ_TYPE t body) (sizeof_HAS_HDR + (if ext then 16 else 12)) t (unat n) (nextTransID s)
      = Inr (True, memLoad a (unat n) (dv_mem d mt), s')
    \<and> synced s' d \<and> keeps s s'"
proof -
  let ?rbody = "[0, ucast a, n] @ (if ext then [ucast (drop_bit 32 a)] else [])"
  let ?data = "memLoad a (unat n) (dv_mem d mt)"
  have "serve t (ReqMemRead ext mt a n) d = (d, hasMessage HAS_READ_DATA_RES_TYPE t ?rbody @ ?data)"
    by simp
  moreover have "length ?rbody < 2 ^ 20"
    by simp
  ultimately have "\<exists>p'. exchange api (hasMessage HAS_READ_DATA_REQ_TYPE t body) (12 + 4 * length ?rbody) HAS_READ_DATA_RES_TYPE t (nextTransID s)
      = Inr (Reply (hasMessage HAS_READ_DATA_RES_TYPE t ?rbody), (nextTransID s)\<lparr>ts_peer := p'\<rparr>)
      \<and> (\<exists>out. simulate d0 (sent p') = (d, out @ ?data, []) \<and> got p' = length out)"
    by (rule exchange_request [OF assms(1-3)])
  then
  obtain p1 out where p1: "exchange api (hasMessage HAS_READ_DATA_REQ_TYPE t body) (12 + 4 * length ?rbody) HAS_READ_DATA_RES_TYPE t (nextTransID s)
      = Inr (Reply (hasMessage HAS_READ_DATA_RES_TYPE t ?rbody), (nextTransID s)\<lparr>ts_peer := p1\<rparr>)"
      "simulate d0 (sent p1) = (d, out @ ?data, [])" "got p1 = length out"
    by blast
  have len: "length ?data = unat n"
    by (simp add: memLoad_def)
  have ans: "simAnswer d0 (sent p1) = out @ ?data"
    using p1(2) by (simp add: simAnswer_def)
  have "\<not> ts_inErrorState ((nextTransID s)\<lparr>ts_peer := p1\<rparr>)"
    using assms(1) by (simp add: synced_def nextTransID_def)
  from getResponseData_delivers [OF this assms(4,5)]
  obtain p2 where p2: "getResponseData api (unat n) ((nextTransID s)\<lparr>ts_peer := p1\<rparr>) = Inr (True, ?data, (nextTransID s)\<lparr>ts_peer := p2\<rparr>)"
      "sent p2 = sent p1" "got p2 = got p1 + unat n"
    using p1(3) ans len by auto
  have "synced ((nextTransID s)\<lparr>ts_peer := p2\<rparr>) d"
    using synced_after [OF assms(1), of p2 d "out @ ?data"] p1 p2 len by simp
  moreover have "sizeof_HAS_HDR + (if ext then 16 else 12) = 12 + 4 * length ?rbody"
    by (simp add: sizeof_HAS_HDR_def)
  ultimately show ?thesis
    using p1(1) p2(1)
    by (intro exI [of _ "(nextTransID s)\<lparr>ts_peer := p2\<rparr>"]) (simp add: receiveData_def nextTransID_def keeps_def)
qed

text \<open>A read of one dword.\<close>

lemma exchange_dword:
  assumes "synced s d" and "length body < 2 ^ 20" and "decodeRequest mty body = Some (Immediate r)"
    and "serve t r d = (d, hasMessage rty t [v])"
  shows "\<exists>s'. exchange api (hasMessage mty t body) (sizeof_HAS_HDR + 4) rty t (nextTransID s) = Inr (Reply (hasMessage rty t [v]), s')
    \<and> synced s' d \<and> keeps s s'"
proof -
  obtain p' where "exchange api (hasMessage mty t body) (12 + 4 * length [v]) rty t (nextTransID s)
      = Inr (Reply (hasMessage rty t [v]), (nextTransID s)\<lparr>ts_peer := p'\<rparr>)"
      "\<exists>out. simulate d0 (sent p') = (d, out @ [], []) \<and> got p' = length out"
    using exchange_request [OF assms(1-3), of t d rty "[v]" "[]"] assms(4) by auto
  then show ?thesis
    using synced_after [OF assms(1)] by (intro exI [of _ "(nextTransID s)\<lparr>ts_peer := p'\<rparr>"]) (auto simp: sizeof_HAS_HDR_def nextTransID_def keeps_def)
qed

text \<open>Each operation does what it does on the device.\<close>

lemma runOp_direct:
  assumes "synced s d" and "op_ok (ts_frontdoorMode s) op"
  shows "\<exists>s'. runOp api op s = Inr (fst (directOp (ts_frontdoorMode s) (ts_lmembar s) op d), s')
    \<and> synced s' (snd (directOp (ts_frontdoorMode s) (ts_lmembar s) op d)) \<and> keeps s s'"
proof (cases op)
  case (WriteReg off val)
  then show ?thesis
    using send_request [OF assms(1), of "mmio_req_dwords (mmioRequest off val True)" HAS_MMIO_REQ_TYPE
        "ReqMmioWrite off val" "ts_transID s"]
    by (auto simp: tbx_writeMMIO_def keeps_def)
next
  case (ReadReg off)
  have "\<not> ts_inErrorState s"
    using assms(1) by (simp add: synced_def)
  then show ?thesis
    using ReadReg exchange_dword [OF assms(1), of "mmio_req_dwords (mmioRequest off 0 False)" HAS_MMIO_REQ_TYPE
        "ReqMmioRead off" "ts_transID s" HAS_MMIO_RES_TYPE "dv_mmio d off"]
    by (auto simp: tbx_readMMIO_def keeps_def Let_def)
next
  case (WriteCfg b dev f off val)
  then show ?thesis
    using send_request [OF assms(1), of "pcicfg_req_dwords (pcicfgRequest b dev f off val True)" HAS_PCICFG_REQ_TYPE
        "ReqCfgWrite (ucast b, ucast dev, ucast f, off) val" "ts_transID s"]
    by (auto simp: tbx_writePCICFG_def keeps_def)
next
  case (ReadCfg b dev f off)
  then show ?thesis
    using exchange_dword [OF assms(1), of "pcicfg_req_dwords (pcicfgRequest b dev f off 0 False)" HAS_PCICFG_REQ_TYPE
        "ReqCfgRead (ucast b, ucast dev, ucast f, off)" "ts_transID s" HAS_PCICFG_RES_TYPE "dv_cfg d (ucast b, ucast dev, ucast f, off)"]
    by (auto simp: tbx_readPCICFG_def keeps_def Let_def)
next
  case (WriteGttEntry off e)
  then show ?thesis
    using send_request [OF assms(1), of "gtt64_req_dwords \<lparr>gtt_write = 1, gtt_reserved = 0, gtt_offset = off div 8,
        gtt_data = ucast (e AND 0xffffffff), gtt_data_h = ucast (drop_bit 32 e)\<rparr>" HAS_GTT_REQ_TYPE
        "ReqGttWrite (off div 8) e" "ts_transID s"]
    by (auto simp: writeGTT_def keeps_def)
next
  case (WriteMem a bs l)
  then have bs: "bs \<noteq> []" "length bs < 2 ^ 31"
    using assms(2) by simp_all
  then have n: "unat (ucast (word_of_nat (length bs) :: usize) :: u32) = length bs"
    by (simp add: unsigned_ucast_eq unat_word_of_nat_small take_bit_nat_eq_self)
  show ?thesis
  proof (cases "ts_frontdoorMode s")
    case True
    then show ?thesis
      using WriteMem sendData_request [OF assms(1) _ _ n bs, of "write_req_dwords (writeRequest (lmemAddress a l s)
          (word_of_nat (length bs)) True MEM_TYPE_SYSTEM) @ [ucast (drop_bit 32 (lmemAddress a l s))]" HAS_WRITE_DATA_REQ_TYPE
          MEM_TYPE_SYSTEM "lmemAddress a l s" "ts_transID s"]
      by (auto simp: tbx_writeMemory_def writeMemoryExt_def keeps_def lmemAddress_def addressOf_def memoryOf_def Let_def)
  next
    case False
    then show ?thesis
      using assms(2) WriteMem sendData_request [OF assms(1) _ _ n bs, of "write_req_dwords (writeRequest a
          (word_of_nat (length bs)) False (memoryType l))" HAS_WRITE_DATA_REQ_TYPE
          "memoryType l" a "ts_transID s"]
      by (auto simp: tbx_writeMemory_def keeps_def addressOf_def memoryOf_def Let_def)
  qed
next
  case (ReadMem a n l)
  then have "unat n < 2 ^ 31" "0 < unat n"
    using assms(2) by (simp_all add: word_less_nat_alt unat_gt_0)
  then have n: "unat (ucast n :: u32) = unat n"
    by (simp add: unsigned_ucast_eq take_bit_nat_eq_self)
  have "0 < unat (ucast n :: u32)" "unat (ucast n :: u32) < 2 ^ 31"
    using n \<open>unat n < 2 ^ 31\<close> \<open>0 < unat n\<close> by simp_all
  note rcv = receiveData_request [OF assms(1) _ _ this]
  show ?thesis
  proof (cases "ts_frontdoorMode s")
    case True
    then show ?thesis
      using ReadMem n rcv [of "read_req_dwords (readRequest (lmemAddress a l s) n True MEM_TYPE_SYSTEM)
          @ [ucast (drop_bit 32 (lmemAddress a l s))]" True MEM_TYPE_SYSTEM "lmemAddress a l s" "ts_transID s"]
      by (auto simp: tbx_readMemory_def readMemoryExt_def keeps_def lmemAddress_def addressOf_def memoryOf_def Let_def)
  next
    case False
    then show ?thesis
      using assms(2) ReadMem n rcv [of "read_req_dwords (readRequest a n False (memoryType l))" False "memoryType l" a "ts_transID s"]
      by (auto simp: tbx_readMemory_def keeps_def addressOf_def memoryOf_def Let_def)
  qed
qed

lemma runOps_direct:
  "synced s d \<Longrightarrow> list_all (op_ok (ts_frontdoorMode s)) ops \<Longrightarrow>
   \<exists>s'. runOps api ops s = Inr (fst (directOps (ts_frontdoorMode s) (ts_lmembar s) ops d), s')
     \<and> synced s' (snd (directOps (ts_frontdoorMode s) (ts_lmembar s) ops d)) \<and> keeps s s'"
proof (induction ops arbitrary: s d)
  case Nil
  then show ?case
    by (simp add: keeps_def)
next
  case (Cons op ops)
  let ?fd = "ts_frontdoorMode s" and ?bar = "ts_lmembar s"
  obtain r d1 where d1: "directOp ?fd ?bar op d = (r, d1)"
    by (cases "directOp ?fd ?bar op d")
  obtain s1 where s1: "runOp api op s = Inr (r, s1)" "synced s1 d1" "keeps s s1"
    using runOp_direct [OF Cons.prems(1), of op] Cons.prems(2) d1 by auto
  obtain rs d2 where d2: "directOps ?fd ?bar ops d1 = (rs, d2)"
    by (cases "directOps ?fd ?bar ops d1")
  obtain s2 where "runOps api ops s1 = Inr (rs, s2)" "synced s2 d2" "keeps s1 s2"
    using Cons.IH [OF s1(2)] Cons.prems(2) s1(3) d2 by (auto simp: keeps_def)
  then show ?case
    using d1 d2 s1 by (simp add: keeps_def)
qed

lemma writeMemory_direct:
  assumes "synced s d" and "op_ok (ts_frontdoorMode s) (WriteMem a bs l)"
  shows "\<exists>s'. tbx_writeMemory api a bs l s = Inr (True, s') \<and> keeps s s'
    \<and> synced s' (snd (directOp (ts_frontdoorMode s) (ts_lmembar s) (WriteMem a bs l) d))"
  using runOp_direct [OF assms] by (auto simp: bindR_Inr_iff Let_def)

lemma readMemory_direct:
  assumes "synced s d" and "op_ok (ts_frontdoorMode s) (ReadMem a n l)"
  shows "\<exists>s'. tbx_readMemory api a n l s
      = Inr (True, memLoad (addressOf (ts_frontdoorMode s) (ts_lmembar s) l a) (unat n) (dv_mem d (memoryOf (ts_frontdoorMode s) l)), s')
    \<and> keeps s s' \<and> synced s' d"
  using runOp_direct [OF assms] by (auto simp: bindR_Inr_iff)

lemma writeMMIO_direct:
  assumes "synced s d"
  shows "\<exists>s'. tbx_writeMMIO api off val s = Inr (True, s') \<and> keeps s s' \<and> synced s' (d\<lparr>dv_mmio := (dv_mmio d)(off := val)\<rparr>)"
  using runOp_direct [OF assms, of "WriteReg off val"] by (auto simp: bindR_Inr_iff)

text \<open>The value the caller's variable held is overwritten.\<close>

lemma readMMIO_direct:
  assumes "synced s d"
  shows "\<exists>s'. tbx_readMMIO api off v s = Inr (True, dv_mmio d off, s') \<and> keeps s s' \<and> synced s' d"
proof -
  have "\<not> ts_inErrorState s"
    using assms by (simp add: synced_def)
  then show ?thesis
    using exchange_dword [OF assms, of "mmio_req_dwords (mmioRequest off 0 False)" HAS_MMIO_REQ_TYPE "ReqMmioRead off" "ts_transID s"
        HAS_MMIO_RES_TYPE "dv_mmio d off"]
    by (auto simp: tbx_readMMIO_def keeps_def Let_def)
qed

lemma writePCICFG_direct:
  assumes "synced s d"
  shows "\<exists>s'. tbx_writePCICFG api b dev f off val s = Inr (True, s') \<and> keeps s s'
    \<and> synced s' (d\<lparr>dv_cfg := (dv_cfg d)((ucast b, ucast dev, ucast f, off) := val)\<rparr>)"
  using runOp_direct [OF assms, of "WriteCfg b dev f off val"] by (auto simp: bindR_Inr_iff)

lemma readPCICFG_direct:
  assumes "synced s d"
  shows "\<exists>s'. tbx_readPCICFG api b dev f off 0 s = Inr (True, dv_cfg d (ucast b, ucast dev, ucast f, off), s') \<and> keeps s s' \<and> synced s' d"
  using runOp_direct [OF assms, of "ReadCfg b dev f off"] by (auto simp: bindR_Inr_iff)

lemma writeGTT_direct:
  assumes "synced s d"
  shows "\<exists>s'. writeGTT api off e s = Inr (True, s') \<and> keeps s s' \<and> synced s' (d\<lparr>dv_gtt := (dv_gtt d)(off div 8 := e)\<rparr>)"
  using runOp_direct [OF assms, of "WriteGttEntry off e"] by (auto simp: bindR_Inr_iff)

text \<open>Connecting: the control request, then in the frontdoor mode the BAR of the device.\<close>

lemma synced_start: "sent p = [] \<Longrightarrow> got p = 0 \<Longrightarrow> ts_peer s = p \<Longrightarrow> \<not> ts_inErrorState s \<Longrightarrow> synced s d0"
  by (simp add: synced_def simulate.simps [of _ "[]"] parseMessage_def)

lemma synced_fields [simp]:
  "synced (s\<lparr>ts_lmembar := x\<rparr>) d = synced s d" "synced (s\<lparr>ts_frontdoorMode := b\<rparr>) d = synced s d"
  by (simp_all add: synced_def)

lemma sendControl_direct: "synced s d \<Longrightarrow> \<exists>s'. sendControl api s = Inr s' \<and> keeps s s' \<and> synced s' d"
proof -
  assume s: "synced s d"
  have "decodeRequest HAS_CONTROL_REQ_TYPE (control_req_dwords controlRequest) = Some (Immediate ReqControl)"
    by (simp add: decodeRequest_def tbx_types)
  then show ?thesis
    using send_request [OF s, of "control_req_dwords controlRequest" HAS_CONTROL_REQ_TYPE ReqControl "ts_transID s" d]
    by (auto simp: sendControl_def control_req_dwords_def simp del: packBits.simps)
qed

lemma checkServerConfig_direct:
  assumes "synced s d"
  shows "\<exists>s'. checkServerConfig api fd s = Inr (True, s') \<and> synced s' d \<and> ts_socket s' = ts_socket s
    \<and> ts_frontdoorMode s' = (fd \<or> ts_frontdoorMode s) \<and> (fd \<longrightarrow> ts_lmembar s' = lmembarOf d)"
proof (cases fd)
  case True
  obtain s1 where s1: "tbx_readPCICFG api 0 2 0 0x18 0 s = Inr (True, dv_cfg d (0, 2, 0, 0x18), s1)" "keeps s s1" "synced s1 d"
    using readPCICFG_direct [OF assms, of 0 2 0 "0x18"] by auto
  obtain s2 where "tbx_readPCICFG api 0 2 0 0x1C 0 s1 = Inr (True, dv_cfg d (0, 2, 0, 0x1C), s2)" "keeps s1 s2" "synced s2 d"
    using readPCICFG_direct [OF s1(3), of 0 2 0 "0x1C"] by auto
  then show ?thesis
    using True s1 by (simp add: checkServerConfig_def keeps_def lmembarOf_def join64_def Let_def)
qed (simp add: checkServerConfig_def assms)

lemma connect_loop_connects:
  "(c # host) = name \<Longrightarrow> is_alpha c \<longrightarrow> so_gethostbyname api name \<Longrightarrow> \<forall>i<n. fst (so_connect api (k + i)) = -1 \<and> snd (so_connect api (k + i)) < timeoutInSeconds \<Longrightarrow>
   fst (so_connect api (k + n)) \<noteq> -1 \<Longrightarrow> n < fuel \<Longrightarrow> connect_loop fuel api name k s = Some (Inr s)"
proof (induction n arbitrary: k fuel)
  case 0
  then show ?case
    by (cases fuel) (auto simp: split_beta)
next
  case (Suc n)
  obtain f where f: "fuel = Suc f" "n < f"
    using Suc.prems(5) by (cases fuel) auto
  have "connect_loop f api name (k + 1) s = Some (Inr s)"
    using Suc.prems f(2) by (intro Suc.IH) auto
  then show ?case
    using Suc.prems(1,2) Suc.prems(3) [rule_format, of 0] f(1) by (auto simp: split_beta)
qed

lemma tbx_init_connects:
  assumes "reachable_server api name n" and "n < fuel"
    and "sent p = []" and "got p = 0"
  shows "\<exists>s. tbx_init fuel api name fd (newTbxSocketsImp p) = Some (Inr (True, s)) \<and> synced s d0
    \<and> ts_frontdoorMode s = fd \<and> (fd \<longrightarrow> ts_lmembar s = lmembarOf d0)"
proof -
  let ?s = "(newTbxSocketsImp p)\<lparr>ts_socket := so_socket api\<rparr>"
  have conn: "connectToServer fuel api name ?s = Some (Inr (True, ?s))"
    using connect_loop_connects [of "hd name" "tl name" name n 0 fuel ?s] assms(1,2)
    by (auto simp: reachable_server_def connectToServer_def)
  have "synced ?s d0"
    by (rule synced_start [OF assms(3,4)]) (simp_all add: newTbxSocketsImp_def)
  then obtain s1 where s1: "sendControl api ?s = Inr s1" "keeps ?s s1" "synced s1 d0"
    using sendControl_direct by blast
  obtain s2 where "checkServerConfig api fd s1 = Inr (True, s2)" "synced s2 d0" "ts_socket s2 = ts_socket s1"
      "ts_frontdoorMode s2 = (fd \<or> ts_frontdoorMode s1)" "fd \<longrightarrow> ts_lmembar s2 = lmembarOf d0"
    using checkServerConfig_direct [OF s1(3), of fd] by blast
  then show ?thesis
    using conn s1 assms(1) by (auto simp: tbx_init_def Let_def keeps_def newTbxSocketsImp_def reachable_server_def)
qed

end

section \<open>A channel that delivers in pieces\<close>

text \<open>
  The reference simulator behind a connection that takes and gives the bytes in pieces; \<open>chunk\<close> says how
  large the piece of each call may be.
\<close>

record peer =
  pr_sent :: "u8 list"
  pr_got :: nat
  pr_tick :: nat

definition newPeer :: peer where
  "newPeer = \<lparr>pr_sent = [], pr_got = 0, pr_tick = 0\<rparr>"

definition sim_send :: "(nat \<Rightarrow> nat) \<Rightarrow> u8 list \<Rightarrow> peer \<Rightarrow> int \<times> peer" where
  "sim_send chunk buf p = (let k = min (length buf) (max 1 (chunk (pr_tick p)))
     in (int k, p\<lparr>pr_sent := pr_sent p @ take k buf, pr_tick := pr_tick p + 1\<rparr>))"

definition sim_recv :: "device \<Rightarrow> (nat \<Rightarrow> nat) \<Rightarrow> nat \<Rightarrow> peer \<Rightarrow> int \<times> u8 list \<times> peer" where
  "sim_recv d chunk n p = (let avail = drop (pr_got p) (simAnswer d (pr_sent p));
       k = min n (min (length avail) (max 1 (chunk (pr_tick p))))
     in (int k, take k avail, p\<lparr>pr_got := pr_got p + k, pr_tick := pr_tick p + 1\<rparr>))"

text \<open>The first \<open>failures\<close> attempts to connect fail, one second after the other.\<close>

definition sim_api :: "device \<Rightarrow> (nat \<Rightarrow> nat) \<Rightarrow> nat \<Rightarrow> bool \<Rightarrow> peer socket_api" where
  "sim_api d chunk failures ndebug = \<lparr>so_send = sim_send chunk, so_recv = sim_recv d chunk, so_socket = 3,
     so_gethostbyname = (\<lambda>_. True), so_connect = (\<lambda>i. (if i < failures then -1 else 0, word_of_nat i)), so_ndebug = ndebug\<rparr>"

interpretation sim: tbx_simulator "sim_api d chunk failures ndebug" pr_sent pr_got d
  for d :: device and chunk :: "nat \<Rightarrow> nat" and failures :: nat and ndebug :: bool
proof unfold_locales
  fix buf :: "u8 list" and p :: peer
  assume "buf \<noteq> []"
  then have "0 < length buf"
    by simp
  then show "\<exists>k p'. so_send (sim_api d chunk failures ndebug) buf p = (int k, p') \<and> 0 < k \<and> k \<le> length buf
      \<and> pr_sent p' = pr_sent p @ take k buf \<and> pr_got p' = pr_got p"
    by (intro exI [of _ "min (length buf) (max 1 (chunk (pr_tick p)))"]) (auto simp: sim_api_def sim_send_def Let_def)
next
  fix n :: nat and p :: peer
  assume "0 < n" and "pr_got p < length (simAnswer d (pr_sent p))"
  then show "\<exists>k p'. so_recv (sim_api d chunk failures ndebug) n p = (int k, take k (drop (pr_got p) (simAnswer d (pr_sent p))), p')
      \<and> 0 < k \<and> k \<le> n \<and> pr_got p + k \<le> length (simAnswer d (pr_sent p)) \<and> pr_sent p' = pr_sent p \<and> pr_got p' = pr_got p + k"
    by (intro exI [of _ "min n (min (length (simAnswer d (pr_sent p)) - pr_got p) (max 1 (chunk (pr_tick p))))"])
       (auto simp: sim_api_def sim_recv_def Let_def)
qed

lemma sim_reachable: "failures < 60 \<Longrightarrow> host \<noteq> [] \<Longrightarrow> reachable_server (sim_api d chunk failures ndebug) host failures"
  by (auto simp: reachable_server_def sim_api_def timeoutInSeconds_def word_less_nat_alt unat_word_of_nat_small)

section \<open>Claims\<close>

text \<open>A whole session: connect, then the operations.\<close>

definition tbxSession ::
  "nat \<Rightarrow> 'p socket_api \<Rightarrow> string \<Rightarrow> bool \<Rightarrow> tbx_op list \<Rightarrow> 'p \<Rightarrow> (outcome list \<times> 'p TbxSocketsImp) result option" where
  "tbxSession fuel api host frontdoor ops p = map_option (\<lambda>r. bindR r (\<lambda>(_, s). runOps api ops s))
     (tbx_init fuel api host frontdoor (newTbxSocketsImp p))"

text \<open>C4: A session with a simulator behaves like the device itself.  Over every connection that delivers bytes in
  order, in pieces of any size, and accepts one of the attempts made within the time allowed, connecting
  succeeds and every sequence of register, configuration, memory and GTT accesses that the protocol can carry
  gives the results, the bytes and the values that the same accesses give on the device directly, leaves the
  simulated device in the same state, and leaves no bytes unread on either side.  In the frontdoor mode local
  memory is reached through the BAR that connecting has read.\<close>

theorem tbx_session_refines_device:
  assumes "tbx_channel api sent got (simAnswer d)" and "reachable_server api host n" and "n < fuel"
    and "sent p = []" and "got p = 0" and "list_all (op_ok fd) ops"
  shows "\<exists>s out. tbxSession fuel api host fd ops p = Some (Inr (fst (directOps fd (if fd then lmembarOf d else 0) ops d), s))
    \<and> simulate d (sent (ts_peer s)) = (snd (directOps fd (if fd then lmembarOf d else 0) ops d), out, [])
    \<and> got (ts_peer s) = length out \<and> \<not> ts_inErrorState s"
proof -
  have loc: "tbx_simulator api sent got d"
    by (simp add: tbx_simulator_def assms(1))
  obtain s0 where s0: "tbx_init fuel api host fd (newTbxSocketsImp p) = Some (Inr (True, s0))"
      "tbx_simulator.synced sent got d s0 d" "ts_frontdoorMode s0 = fd" "fd \<longrightarrow> ts_lmembar s0 = lmembarOf d"
    using tbx_simulator.tbx_init_connects [OF loc assms(2-5)] by blast
  have bar: "directOps fd (if fd then lmembarOf d else 0) ops d = directOps fd (ts_lmembar s0) ops d"
    using s0(4) directOps_backdoor by (cases fd) auto
  obtain s where "runOps api ops s0 = Inr (fst (directOps fd (ts_lmembar s0) ops d), s)"
      "tbx_simulator.synced sent got d s (snd (directOps fd (ts_lmembar s0) ops d))"
    using tbx_simulator.runOps_direct [OF loc s0(2), of ops] assms(6) s0(3) by auto
  then show ?thesis
    using s0(1) by (auto simp: tbxSession_def tbx_simulator.synced_def [OF loc] bar)
qed

definition example_device :: device where
  "example_device = \<lparr>dv_mem = (\<lambda>_ _. 0), dv_mmio = (\<lambda>_. 0), dv_cfg = (\<lambda>_. 0), dv_gtt = (\<lambda>_. 0)\<rparr>"

definition example_ops :: "tbx_op list" where
  "example_ops = [WriteMem 0x1000 [1, 2, 3] True, ReadMem 0x1001 2 True, WriteReg 0x2030 7, ReadReg 0x2030]"

theorem tbx_session_refines_device_witness:
  "\<exists>s out. tbxSession 5 (sim_api example_device (\<lambda>t. t mod 3) 2 True) ''host'' True example_ops newPeer
      = Some (Inr ([Status True, Bytes True [2, 3], Status True, Value True 7], s))
    \<and> simulate example_device (pr_sent (ts_peer s)) = (snd (directOps True (lmembarOf example_device) example_ops example_device), out, [])
    \<and> pr_got (ts_peer s) = length out \<and> \<not> ts_inErrorState s"
proof -
  have "fst (directOps True (lmembarOf example_device) example_ops example_device)
      = [Status True, Bytes True [2, 3], Status True, Value True 7]"
    by (simp add: example_ops_def memLoad_def memStore_def addressOf_def memoryOf_def lmembarOf_def example_device_def
        join64_def LMEMBAR_DFLT_def Let_def upt_rec)
  then show ?thesis
    using tbx_session_refines_device [OF sim.tbx_channel_axioms sim_reachable, of 2 "''host''" 5 newPeer True example_ops
        example_device "\<lambda>t. t mod 3" True]
    by (simp add: newPeer_def example_ops_def)
qed

fun failed :: "outcome \<Rightarrow> bool" where
  "failed (Status ok) \<longleftrightarrow> \<not> ok"
| "failed (Value ok v) \<longleftrightarrow> \<not> ok"
| "failed (Bytes ok bs) \<longleftrightarrow> \<not> ok \<and> bs = []"

lemma sendWriteData_error [simp]: "ts_inErrorState s \<Longrightarrow> sendWriteData api buf s = Inr (False, s)"
  by (simp add: sendWriteData_def)

lemma nextTransID_fields [simp]:
  "ts_inErrorState (nextTransID s) = ts_inErrorState s" "ts_peer (nextTransID s) = ts_peer s"
  "ts_frontdoorMode (nextTransID s) = ts_frontdoorMode s"
  by (simp_all add: nextTransID_def)

lemma exchange_error [simp]: "ts_inErrorState s \<Longrightarrow> exchange api cmd n ty t s = Inr (NoReply, s)"
  by (simp add: exchange_def)

lemma runOp_error:
  "ts_inErrorState s \<Longrightarrow> \<exists>r s'. runOp api op s = Inr (r, s') \<and> failed r \<and> ts_inErrorState s' \<and> ts_peer s' = ts_peer s"
  by (cases op) (auto simp: tbx_writeMMIO_def tbx_readMMIO_def tbx_writePCICFG_def tbx_readPCICFG_def tbx_writeMemory_def
      writeMemoryExt_def tbx_readMemory_def readMemoryExt_def receiveData_def sendData_def writeGTT_def Let_def)

text \<open>C39: A failure of the connection is final: once the error state is set, every access fails and returns at once,
  nothing more is sent to the simulator and nothing is read from it, whatever the accesses are.\<close>

theorem error_state_is_final:
  assumes "ts_inErrorState s"
  shows "\<exists>rs s'. runOps api ops s = Inr (rs, s') \<and> length rs = length ops \<and> list_all failed rs
    \<and> ts_inErrorState s' \<and> ts_peer s' = ts_peer s"
  using assms
proof (induction ops arbitrary: s)
  case (Cons op ops)
  obtain r s1 where s1: "runOp api op s = Inr (r, s1)" "failed r" "ts_inErrorState s1" "ts_peer s1 = ts_peer s"
    using runOp_error [OF Cons.prems] by blast
  then show ?case
    using Cons.IH [OF s1(3)] by auto
qed simp

theorem error_state_is_final_witness:
  "\<exists>rs s'. runOps (sim_api example_device (\<lambda>t. t) 0 True) example_ops ((newTbxSocketsImp newPeer)\<lparr>ts_inErrorState := True\<rparr>) = Inr (rs, s')
    \<and> length rs = 4 \<and> list_all failed rs \<and> ts_inErrorState s' \<and> ts_peer s' = newPeer"
proof -
  have "length example_ops = 4" "ts_inErrorState ((newTbxSocketsImp newPeer)\<lparr>ts_inErrorState := True\<rparr>)"
      "ts_peer ((newTbxSocketsImp newPeer)\<lparr>ts_inErrorState := True\<rparr>) = newPeer"
    by (simp_all add: example_ops_def newTbxSocketsImp_def)
  then show ?thesis
    using error_state_is_final [of "(newTbxSocketsImp newPeer)\<lparr>ts_inErrorState := True\<rparr>"] by metis
qed

text \<open>A write of no bytes sets the error state: \<open>send\<close> takes no byte and reports 0, which the loop reads as a failure.\<close>

lemma zero_length_write_fails:
  assumes "\<And>p. so_send api [] p = (0, p)" and "so_ndebug api" and "\<not> ts_inErrorState s"
  shows "sendWriteData api [] s = Inr (False, s\<lparr>ts_inErrorState := True\<rparr>)"
  using assms by (simp add: sendWriteData_def send_loop.simps logErrorInfo_def assertD_def)

text \<open>Outside the frontdoor mode the requests for memory hold 40 bits of the address only: accesses to two
  addresses that differ above bit 39 send the same bytes and have the same results, so that the second one
  reads or overwrites the memory of the first.\<close>

theorem backdoor_address_wraps:
  "tbx_writeMemory api (a + push_bit 40 k) bs l (s\<lparr>ts_frontdoorMode := False\<rparr>)
     = tbx_writeMemory api a bs l (s\<lparr>ts_frontdoorMode := False\<rparr>)
   \<and> tbx_readMemory api (a + push_bit 40 k) n l (s\<lparr>ts_frontdoorMode := False\<rparr>)
     = tbx_readMemory api a n l (s\<lparr>ts_frontdoorMode := False\<rparr>)"
proof -
  have low: "take_bit 40 (a + push_bit 40 k) = take_bit 40 a"
    by transfer (simp add: take_bit_push_bit flip: take_bit_add)
  then have bits: "bit (a + push_bit 40 k) n \<longleftrightarrow> bit a n" if "n < 40" for n
    using that by (metis bit_take_bit_iff)
  have "(ucast (a + push_bit 40 k) :: u32) = ucast a"
    by (rule bit_word_eqI) (simp add: bit_ucast_iff bits)
  moreover have "(ucast (ucast (drop_bit 32 (a + push_bit 40 k)) :: u32) :: u8) = ucast (ucast (drop_bit 32 a) :: u32)"
    by (rule bit_word_eqI) (simp add: bit_ucast_iff bit_drop_bit_eq bits)
  ultimately show ?thesis
    by (simp add: tbx_writeMemory_def tbx_readMemory_def writeRequest_def readRequest_def)
qed



end
