(* ===== verification/AubStreamProps.thy ===== *)
theory AubStreamProps
  imports AubStream WalkerProps AubFileStreamProps
begin

text \<open>
  Correctness of the stream operations: a write through the page tables to the AUB file puts every byte
  where the tables translate its address to, and freeing removes the translations of its range.
\<close>

section \<open>Clearing the pending flags\<close>

abbreviation unpend :: "path \<Rightarrow> PageTable \<Rightarrow> PageTable" where
  "unpend p \<equiv> node_update p (setPendingWrite False)"

lemma unpend_same_root [simp]: "same_root n (unpend p n)"
  by (cases p) (auto simp: same_root_def split: option.split)

lemma unpend_fields [simp]:
  "pt_kind (unpend p n) = pt_kind n" "pt_physicalAddress (unpend p n) = pt_physicalAddress n"
  "pt_memoryBank (unpend p n) = pt_memoryBank n" "pt_hasAllocator (unpend p n) = pt_hasAllocator n"
  using unpend_same_root [of n p] by (simp_all add: same_root_def)

text \<open>The page an address is in: its size and its physical address.\<close>

definition leaf_of :: "nat \<Rightarrow> PageTable \<Rightarrow> u64 \<Rightarrow> (usize \<times> u64) option" where
  "leaf_of L n g = map_option (\<lambda>(ps, leaf). (ps, pt_physicalAddress leaf)) (translate L n g)"

lemma leaf_of_0 [simp]: "leaf_of 0 n g = None"
  by (simp add: leaf_of_def)

lemma leaf_of_Suc:
  "leaf_of (Suc lev) n g = (case getChild n (getIndex (pt_kind n) g) of None \<Rightarrow> None
     | Some c \<Rightarrow> if lev = 0 then Some (getPageSize (pt_kind n), pt_physicalAddress c)
                 else if pt_kind c = Page2MB then Some (pageSize2MB, pt_physicalAddress c)
                 else leaf_of lev c g)"
  by (simp add: leaf_of_def split: option.split)

lemma leaf_of_unpend: "leaf_of L (unpend p n) g = leaf_of L n g"
proof (induction p arbitrary: n L)
  case Nil
  have "translate L (setPendingWrite False n) g = translate L n g"
    by (rule same_node_translate [symmetric]) simp
  then show ?case by (simp add: leaf_of_def)
next
  case (Cons i p)
  show ?case
  proof (cases L)
    case (Suc lev)
    show ?thesis
      unfolding Suc leaf_of_Suc unpend_fields using Cons.IH
      by (cases "getChild n i") (auto split: option.split)
  qed simp
qed

lemma wf_at_unpend: "wf_at lev n \<Longrightarrow> wf_at lev (unpend p n)"
proof (induction p arbitrary: n lev)
  case Nil
  then show ?case
    using same_node_wf [of n "setPendingWrite False n" lev] by (simp del: wf_at.simps)
next
  case (Cons i p)
  show ?case
  proof (cases "getChild n i")
    case None
    then show ?thesis
      using Cons.prems by simp
  next
    case (Some c)
    let ?n = "setChild i (Some (unpend p c)) n"
    have "wf_at lev ?n"
    proof (rule wf_at_slots [OF Cons.prems, of _ i])
      fix c' assume "getChild ?n i = Some c'"
      then have "c' = unpend p c"
        by simp
      then show "case lev of 0 \<Rightarrow> pt_kind c' = PageTableMemory
         | Suc k \<Rightarrow> wf_at k c' \<and> pt_memoryBank c' = pt_memoryBank n \<or> k = 0 \<and> pt_kind c' = Page2MB"
        using Cons.prems Some Cons.IH
        by (cases lev) (auto dest: wf_at_page wf_at_child simp del: wf_at.simps)
    qed (use Cons.prems wf_at_tableAt in auto)
    then show ?thesis
      using Some by simp
  qed
qed

lemma clearPending_same:
  "same_root n (clearPending w n)" "leaf_of L (clearPending w n) g = leaf_of L n g"
  "wf_at lev n \<Longrightarrow> wf_at lev (clearPending w n)"
proof -
  have "same_root n (fold unpend ps n) \<and> leaf_of L (fold unpend ps n) g = leaf_of L n g
      \<and> (wf_at lev n \<longrightarrow> wf_at lev (fold unpend ps n))" for ps
    by (induction ps arbitrary: n)
       (auto simp: leaf_of_unpend wf_at_unpend same_root_def simp del: wf_at.simps)
  then show "same_root n (clearPending w n)" "leaf_of L (clearPending w n) g = leaf_of L n g"
    "wf_at lev n \<Longrightarrow> wf_at lev (clearPending w n)"
    unfolding clearPending_def by blast+
qed

lemma translate_address_leaf:
  "translate_address lev n g = map_option (\<lambda>(ps, a). a + (g AND (ps - 1))) (leaf_of (Suc lev) n g)"
  by (cases "translate (Suc lev) n g") (auto simp: translate_address_def leaf_of_def simp del: translate.simps)

lemma clearPending_translate [simp]:
  "translate_address lev (clearPending w n) g = translate_address lev n g"
  by (simp only: translate_address_leaf clearPending_same)

section \<open>Freeing removes translations\<close>

section \<open>Freeing\<close>

text \<open>
  Taking out what is behind an address: the addresses that lose their translation are those that share
  the leaf of the given one, among them all addresses of its page.
\<close>

definition removes :: "nat \<Rightarrow> u64 \<Rightarrow> usize \<Rightarrow> PageTable \<Rightarrow> PageTable \<Rightarrow> bool" where
  "removes L g ps n n' \<longleftrightarrow> (\<exists>H. (\<forall>a. leaf_of (Suc L) n' a = (if H a then None else leaf_of (Suc L) n a))
     \<and> (\<forall>a. H a \<longrightarrow> leaf_of (Suc L) n a = leaf_of (Suc L) n g)
     \<and> (\<forall>a. drop_bit (page_shift ps) a = drop_bit (page_shift ps) g \<longrightarrow> H a))"

lemma removesI:
  assumes "\<And>a. leaf_of (Suc L) n' a = (if H a then None else leaf_of (Suc L) n a)"
    and "\<And>a. H a \<Longrightarrow> leaf_of (Suc L) n a = leaf_of (Suc L) n g"
    and "\<And>a. drop_bit (page_shift ps) a = drop_bit (page_shift ps) g \<Longrightarrow> H a"
  shows "removes L g ps n n'"
  unfolding removes_def using assms by (intro exI [of _ H] conjI allI impI)

lemma leaf_of_same_children:
  assumes "same_children n n'"
  shows "leaf_of (Suc L) n a = leaf_of (Suc L) n' a"
proof -
  let ?i = "getIndex (pt_kind n) a"
  have kind: "pt_kind n' = pt_kind n"
    using assms by (simp add: same_children_def)
  have "rel_option same_node (getChild n ?i) (getChild n' ?i)"
    using assms by (simp add: same_children_def)
  then show ?thesis
  proof (cases rule: option.rel_cases)
    case None
    then show ?thesis
      by (simp add: leaf_of_Suc kind)
  next
    case (Some c c')
    then have "leaf_of L c a = leaf_of L c' a" "pt_kind c = pt_kind c'"
        "pt_physicalAddress c = pt_physicalAddress c'"
      using same_node_translate [of c c' L a] by (simp_all add: leaf_of_def same_node_def)
    then show ?thesis
      by (simp add: leaf_of_Suc kind Some)
  qed
qed

lemma clearPs64Slot_same: "clearPs64Slot gpu i (n, st) = Inr (n', st') \<Longrightarrow> same_children n n'"
  by (auto simp: clearPs64Slot_def bindR_Inr_iff Let_def split: option.splits
      intro!: same_children_setChild)

lemma breakPs64Group_same:
  assumes "breakPs64Group c i n st = Inr (n', st')"
  shows "same_children n n'"
proof -
  obtain n1 st1 where "(if fc_gfxAddress c = fc_start c \<and> \<not> fc_startAligned c
        then forSlots (clearPs64Slot (fc_gpu c)) [i - i mod 16..<i] (n, st) else Inr (n, st)) = Inr (n1, st1)"
      and "(if fc_size c \<le> 4096 \<and> \<not> fc_endAligned c
        then forSlots (clearPs64Slot (fc_gpu c)) [i + 1..<i - i mod 16 + 16] (n1, st1) else Inr (n1, st1))
        = Inr (n', st')"
    using assms by (auto simp: breakPs64Group_def bindR_Inr_iff assertR_Inr_iff Let_def)
  moreover have "forSlots (clearPs64Slot (fc_gpu c)) is (x, s) = Inr (x', s') \<Longrightarrow> same_children x x'" for "is" x s x' s'
    using forSlots_same_children [of "clearPs64Slot (fc_gpu c)"] clearPs64Slot_same by blast
  ultimately have "same_children n n1" "same_children n1 n'"
    by (auto split: if_splits)
  then show ?thesis
    by (rule same_children_trans)
qed

lemma freePte_spec:
  assumes "freePte c n st = Inr (child, n', st')" and "wf_at 0 n"
  shows "same_root n n' \<and> wf_at 0 n'
    \<and> leaf_of (Suc 0) n' a = (if getIndex (pt_kind n) a = getIndex (pt_kind n) (fc_gfxAddress c) then None
         else leaf_of (Suc 0) n a)"
proof -
  let ?i = "getIndex (pt_kind n) (fc_gfxAddress c)"
  have same: "same_children (setChild ?i None n) n'"
  proof (cases "getChild n ?i")
    case None
    then have "n' = n"
      using assms(1) by (simp add: freePte_def Let_def)
    then show ?thesis
      using None by (auto simp: same_children_def)
  next
    case (Some ch)
    then show ?thesis
      using assms(1) breakPs64Group_same
      by (auto simp: freePte_def Let_def bindR_Inr_iff split: if_splits)
  qed
  then have root: "same_root n n'"
    by (simp add: same_children_def same_root_def)
  moreover have "wf_at 0 n'"
  proof (rule wf_at_slots [OF assms(2), of n' ?i])
    fix j assume "j \<noteq> ?i"
    then show "rel_option same_node (getChild n j) (getChild n' j)"
      using same by (auto simp: same_children_def dest!: spec [of _ j])
  next
    fix x assume "getChild n' ?i = Some x"
    moreover have "rel_option same_node None (getChild n' ?i)"
      using same by (auto simp: same_children_def dest!: spec [of _ ?i])
    ultimately show "case 0 of 0 \<Rightarrow> pt_kind x = PageTableMemory
       | Suc k \<Rightarrow> wf_at k x \<and> pt_memoryBank x = pt_memoryBank n \<or> k = 0 \<and> pt_kind x = Page2MB"
      by simp
  qed (use root assms(2) in \<open>auto simp: same_root_def\<close>)
  moreover have "leaf_of (Suc 0) n' a = leaf_of (Suc 0) (setChild ?i None n) a"
    using leaf_of_same_children [OF same] by simp
  moreover have "leaf_of (Suc 0) (setChild ?i None n) a =
      (if getIndex (pt_kind n) a = ?i then None else leaf_of (Suc 0) n a)"
    by (simp add: leaf_of_Suc split: option.split)
  ultimately show ?thesis
    by simp
qed

lemma isEmpty_leaf: "isEmpty n \<Longrightarrow> leaf_of L n a = None"
  by (cases L) (auto simp: leaf_of_Suc isEmpty_def getChild_def slot_get_def list_all_length)

text \<open>Replacing the child on the way to the address.\<close>

lemma removes_child:
  assumes child: "getChild n (getIndex (pt_kind n) g) = Some d" and table: "pt_kind d \<noteq> Page2MB"
    and rem: "removes L g ps d d'" and kind: "pt_kind d' = pt_kind d"
    and shift: "page_shift ps \<le> index_shift (pt_kind n)"
    and x: "x = Some d' \<or> x = None \<and> isEmpty d'"
  shows "removes (Suc L) g ps n (setChild (getIndex (pt_kind n) g) x n)"
proof -
  let ?i = "getIndex (pt_kind n) g" and ?S = "Suc (Suc L)"
  obtain H where H: "\<forall>a. leaf_of (Suc L) d' a = (if H a then None else leaf_of (Suc L) d a)"
      "\<forall>a. H a \<longrightarrow> leaf_of (Suc L) d a = leaf_of (Suc L) d g"
      "\<forall>a. drop_bit (page_shift ps) a = drop_bit (page_shift ps) g \<longrightarrow> H a"
    using rem unfolding removes_def by blast
  have new: "leaf_of ?S (setChild ?i x n) a =
      (if getIndex (pt_kind n) a = ?i then leaf_of (Suc L) d' a else leaf_of ?S n a)" for a
    using x isEmpty_leaf [of d' "Suc L" a] table kind
    by (auto simp: leaf_of_Suc [of "Suc L"] split: option.split)
  have old: "leaf_of ?S n a = leaf_of (Suc L) d a" if "getIndex (pt_kind n) a = ?i" for a
    using table child that by (simp add: leaf_of_Suc [of "Suc L"])
  have idx: "getIndex (pt_kind n) a = ?i" if "drop_bit (page_shift ps) a = drop_bit (page_shift ps) g" for a
    by (rule getIndex_shift) (rule drop_bit_mono [OF that shift])
  let ?H = "\<lambda>a. getIndex (pt_kind n) a = ?i \<and> H a"
  have "\<forall>a. leaf_of ?S (setChild ?i x n) a = (if ?H a then None else leaf_of ?S n a)"
    using new old H(1) by simp
  moreover have "\<forall>a. ?H a \<longrightarrow> leaf_of ?S n a = leaf_of ?S n g"
    using old H(2) by simp
  moreover have "\<forall>a. drop_bit (page_shift ps) a = drop_bit (page_shift ps) g \<longrightarrow> ?H a"
    using idx H(3) by blast
  ultimately show ?thesis
    unfolding removes_def by (intro exI [of _ ?H] conjI)
qed

lemma wf_at_replace:
  assumes "wf_at (Suc L) n" and "getChild n i = Some d" and "wf_at L d'" and "same_root d d'"
    and "wf_at L d \<and> pt_memoryBank d = pt_memoryBank n" and "x = Some d' \<or> x = None"
  shows "wf_at (Suc L) (setChild i x n)"
proof (rule wf_at_slots [OF assms(1), of _ i])
  fix c assume "getChild (setChild i x n) i = Some c"
  then have "c = d'"
    using assms(6) by auto
  then show "case Suc L of 0 \<Rightarrow> pt_kind c = PageTableMemory
     | Suc k \<Rightarrow> wf_at k c \<and> pt_memoryBank c = pt_memoryBank n \<or> k = 0 \<and> pt_kind c = Page2MB"
    using assms(3-5) by (simp add: same_root_def del: wf_at.simps)
qed (use assms(1) in auto)

lemma wf_at_remove: "wf_at (Suc L) n \<Longrightarrow> wf_at (Suc L) (setChild i None n)"
  by (rule wf_at_slots [of _ _ _ i]) auto

lemma same_root_setChild [simp]: "same_root n (setChild i x n)"
  by (simp add: same_root_def)

lemma pte_pageSize: "wf_at 0 n \<Longrightarrow> getPageSize (pt_kind n) = 4096 \<or> getPageSize (pt_kind n) = 65536"
  by (auto dest!: wf_at_tableAt)

lemma pte_not_2MB: "wf_at 0 n \<Longrightarrow> pt_kind n \<noteq> Page2MB"
  by (auto dest!: wf_at_tableAt)

lemma freePde_2MB:
  assumes "wf_at (Suc 0) n" and "getChild n (getIndex (pt_kind n) g) = Some d" and "pt_kind d = Page2MB"
  shows "removes (Suc 0) g pageSize2MB n (setChild (getIndex (pt_kind n) g) None n)"
proof -
  let ?i = "getIndex (pt_kind n) g"
  have "21 \<le> index_shift (pt_kind n)"
    using assms(1) by (intro table_shift [of 0]) (simp only: wf_at_tableAt)
  then have "page_shift pageSize2MB \<le> index_shift (pt_kind n)"
    using page_shift_le order_trans by blast
  then have idx: "getIndex (pt_kind n) a = ?i"
    if "drop_bit (page_shift pageSize2MB) a = drop_bit (page_shift pageSize2MB) g" for a
    by (intro getIndex_shift drop_bit_mono [OF that])
  have leaf: "leaf_of (Suc (Suc 0)) n a = Some (pageSize2MB, pt_physicalAddress d)" if "getIndex (pt_kind n) a = ?i" for a
    using assms(2,3) that by (simp add: leaf_of_Suc [of "Suc 0"])
  have gone: "leaf_of (Suc (Suc 0)) (setChild ?i None n) a =
      (if getIndex (pt_kind n) a = ?i then None else leaf_of (Suc (Suc 0)) n a)" for a
    by (simp add: leaf_of_Suc [of "Suc 0"] split: option.split)
  show ?thesis
    by (rule removesI [OF gone]) (simp add: leaf, rule idx)
qed

lemma freePte_removes:
  assumes "freePte c n st = Inr (child, n', st')" and wf: "wf_at 0 n"
  shows "removes 0 (fc_gfxAddress c) (getPageSize (pt_kind n)) n n'"
proof -
  let ?g = "fc_gfxAddress c"
  have shift: "page_shift (getPageSize (pt_kind n)) = index_shift (pt_kind n)"
    using wf by (simp only: pte_shift wf_at_tableAt)
  have idx: "getIndex (pt_kind n) a = getIndex (pt_kind n) ?g"
    if "drop_bit (page_shift (getPageSize (pt_kind n))) a = drop_bit (page_shift (getPageSize (pt_kind n))) ?g" for a
    using that unfolding shift by (rule getIndex_shift)
  have leaf: "leaf_of (Suc 0) n a = leaf_of (Suc 0) n ?g" if "getIndex (pt_kind n) a = getIndex (pt_kind n) ?g" for a
    using that by (simp add: leaf_of_Suc split: option.split)
  have gone: "leaf_of (Suc 0) n' a =
      (if getIndex (pt_kind n) a = getIndex (pt_kind n) ?g then None else leaf_of (Suc 0) n a)" for a
    using freePte_spec [OF assms] by blast
  show ?thesis
    by (rule removesI [OF gone leaf]) (assumption, rule idx)
qed

definition pageSizes :: "usize \<Rightarrow> bool" where
  "pageSizes ps \<longleftrightarrow> ps = 4096 \<or> ps = 65536 \<or> ps = pageSize2MB"

lemma freePde_spec:
  assumes free: "freePde c n st = Inr (Some (b, ps, n', st'))" and wf: "wf_at (Suc 0) n"
  shows "same_root n n' \<and> wf_at (Suc 0) n' \<and> pageSizes ps \<and> removes (Suc 0) (fc_gfxAddress c) ps n n'"
proof -
  let ?i = "getIndex (pt_kind n) (fc_gfxAddress c)"
  obtain d where d: "getChild n ?i = Some d"
    using free by (auto simp: freePde_def Let_def split: option.splits)
  show ?thesis
  proof (cases "pt_kind d = Page2MB")
    case True
    then have "ps = pageSize2MB" "n' = setChild ?i None n"
      using free d by (auto simp: freePde_def Let_def bindR_Inr_iff)
    then show ?thesis
      using freePde_2MB [OF wf d True] wf_at_remove [OF wf] by (simp add: pageSizes_def del: wf_at.simps)
  next
    case False
    then have wd: "wf_at 0 d \<and> pt_memoryBank d = pt_memoryBank n"
      using wf_at_child [OF wf d] by blast
    then have size: "getPageSize (pt_kind d) \<noteq> pageSize2MB"
      using pte_pageSize by (auto simp: pageSize2MB_def)
    obtain child d' st1 where pte: "freePte c d st = Inr (child, d', st1)"
      and fin: "finishPte c ?i n (child, d', st1) = Inr (b, ps, n', st')"
      using free d size by (auto simp: freePde_def Let_def bindR_Inr_iff)
    have root: "same_root d d'" and wd': "wf_at 0 d'"
      using freePte_spec [OF pte] wd by blast+
    then have kind: "pt_kind d' = pt_kind d"
      by (simp add: same_root_def)
    obtain x where n': "n' = setChild ?i x n" and x: "x = Some d' \<or> x = None \<and> isEmpty d'"
      and ps: "ps = getPageSize (pt_kind d)"
      using fin by (auto simp: finishPte_def Let_def bindR_Inr_iff assertR_Inr_iff kind split: if_splits)
    have "21 \<le> index_shift (pt_kind n)"
      using wf by (intro table_shift [of 0]) (simp only: wf_at_tableAt)
    then have "page_shift ps \<le> index_shift (pt_kind n)"
      using page_shift_le order_trans by blast
    then have "removes (Suc 0) (fc_gfxAddress c) ps n n'"
      unfolding n' using removes_child [OF d False _ kind _ x] freePte_removes [OF pte] wd ps by blast
    moreover have "wf_at (Suc 0) n'"
      unfolding n' by (rule wf_at_replace [OF wf d wd' root wd]) (use x in blast)
    moreover have "pageSizes ps"
      using pte_pageSize wd ps by (auto simp: pageSizes_def)
    ultimately show ?thesis
      by (simp add: n' del: wf_at.simps)
  qed
qed

lemma freeLevels_spec:
  "freeLevels c (Suc L) n st = Inr (Some (b, ps, n', st')) \<Longrightarrow> wf_at (Suc L) n \<Longrightarrow>
   same_root n n' \<and> wf_at (Suc L) n' \<and> pageSizes ps \<and> removes (Suc L) (fc_gfxAddress c) ps n n'"
proof (induction L arbitrary: n b ps n' st')
  case 0
  then show ?case
    using freePde_spec [of c n st b ps n' st'] by (simp del: wf_at.simps)
next
  case (Suc L)
  let ?i = "getIndex (pt_kind n) (fc_gfxAddress c)"
  obtain d b1 ps1 d' st1 where d: "getChild n ?i = Some d"
      and rec: "freeLevels c (Suc L) d st = Inr (Some (b1, ps1, d', st1))"
      and rest: "(if L = 0 then bindR (removeEmptyPde ?i n (b1, ps1, d', st1)) (\<lambda>r. Inr (Some r))
        else Inr (Some (b1, ps1, setChild ?i (Some d') n, st1))) = Inr (Some (b, ps, n', st'))"
    using Suc.prems(1)
    by (auto simp: Let_def bindR_Inr_iff split: option.splits prod.splits)
  have wd: "wf_at (Suc L) d \<and> pt_memoryBank d = pt_memoryBank n"
    using wf_at_child [OF Suc.prems(2) d] by blast
  then have IH: "same_root d d'" "wf_at (Suc L) d'" "pageSizes ps1" "removes (Suc L) (fc_gfxAddress c) ps1 d d'"
    using Suc.IH [OF rec] by blast+
  have kind: "pt_kind d' = pt_kind d"
    using IH(1) by (simp add: same_root_def)
  have table: "pt_kind d \<noteq> Page2MB"
    using wf_at_tableAt [of "Suc L" d] wd by (cases "(L, pt_kind d)" rule: tableAt.cases) auto
  obtain x where n': "n' = setChild ?i x n" and x: "x = Some d' \<or> x = None \<and> isEmpty d'" and ps: "ps = ps1"
    using rest by (auto simp: removeEmptyPde_def bindR_Inr_iff split: if_splits)
  have "21 \<le> index_shift (pt_kind n)"
    using Suc.prems(2) by (intro table_shift [of "Suc L"]) (simp only: wf_at_tableAt)
  then have "page_shift ps \<le> index_shift (pt_kind n)"
    using page_shift_le order_trans by blast
  then have "removes (Suc (Suc L)) (fc_gfxAddress c) ps n n'"
    unfolding n' using removes_child [OF d table _ kind _ x] IH(4) ps by blast
  moreover have "wf_at (Suc (Suc L)) n'"
    unfolding n' by (rule wf_at_replace [OF Suc.prems(2) d IH(2,1) wd]) (use x in blast)
  ultimately show ?case
    using IH(3) ps by (simp add: n' del: wf_at.simps)
qed

lemma removes_keeps:
  assumes "removes L g ps n n'"
  shows "leaf_of (Suc L) n' a \<noteq> None \<Longrightarrow> leaf_of (Suc L) n' a = leaf_of (Suc L) n a"
    and "leaf_of (Suc L) n a \<noteq> leaf_of (Suc L) n g \<Longrightarrow> leaf_of (Suc L) n' a = leaf_of (Suc L) n a"
    and "drop_bit (page_shift ps) a = drop_bit (page_shift ps) g \<Longrightarrow> leaf_of (Suc L) n' a = None"
  using assms unfolding removes_def by metis+

lemma iteration_inside:
  assumes "pageSizes ps" and "d < unat (iterationSize ps g sz)"
  shows "drop_bit (page_shift ps) (g + word_of_nat d) = drop_bit (page_shift ps) g"
proof -
  have ps: "ps = 2 ^ page_shift ps" "page_shift ps < 64"
    using assms(1) page_shift_power by (auto simp: pageSizes_def)
  have "iterationSize ps g sz \<le> ps - (g AND (ps - 1))"
    by (simp add: iterationSize_def)
  then have le: "unat (iterationSize ps g sz) \<le> unat (ps - (g AND (ps - 1)))"
    by (simp only: word_le_nat_alt)
  have "d < 2 ^ LENGTH(64)"
    using assms(2) unat_bound [of "iterationSize ps g sz"] by linarith
  then have "unat (word_of_nat d :: u64) = d"
    by (rule unat_word_of_nat_small)
  then have "unat (word_of_nat d :: u64) < unat (ps - (g AND (ps - 1)))"
    using assms(2) le by linarith
  then show ?thesis
    by (rule inside_page(1) [OF ps])
qed

definition frees :: "nat \<Rightarrow> u64 \<Rightarrow> nat \<Rightarrow> bool \<Rightarrow> PageTable \<Rightarrow> PageTable \<Rightarrow> bool" where
  "frees L g sz early n n' \<longleftrightarrow>
     (\<forall>a. leaf_of (Suc L) n' a \<noteq> None \<longrightarrow> leaf_of (Suc L) n' a = leaf_of (Suc L) n a)
     \<and> (\<forall>a. (\<forall>d < sz. leaf_of (Suc L) n a \<noteq> leaf_of (Suc L) n (g + word_of_nat d))
          \<longrightarrow> leaf_of (Suc L) n' a = leaf_of (Suc L) n a)
     \<and> (\<not> early \<longrightarrow> (\<forall>d < sz. leaf_of (Suc L) n' (g + word_of_nat d) = None))"

lemma frees_step:
  assumes rem: "removes L g ps n n1" and ps: "pageSizes ps"
    and t: "t = iterationSize ps g sz" "unat t \<le> unat sz" "0 < unat sz"
    and rest: "frees L (g + t) (unat sz - unat t) early n1 n'"
  shows "frees L g (unat sz) early n n'"
proof -
  let ?leaf = "leaf_of (Suc L)"
  have only: "?leaf n' a \<noteq> None \<Longrightarrow> ?leaf n' a = ?leaf n a" for a
    using removes_keeps(1) [OF rem] rest unfolding frees_def by metis
  moreover have "?leaf n' a = ?leaf n a" if far: "\<forall>d<unat sz. ?leaf n a \<noteq> ?leaf n (g + word_of_nat d)" for a
  proof (cases "?leaf n a")
    case None
    then show ?thesis
      using only [of a] by (cases "?leaf n' a") simp_all
  next
    case (Some x)
    have "?leaf n a \<noteq> ?leaf n g"
      using far [rule_format, of 0] t(3) by simp
    then have a1: "?leaf n1 a = ?leaf n a"
      by (rule removes_keeps(2) [OF rem])
    have "?leaf n1 a \<noteq> ?leaf n1 (g + t + word_of_nat d)" if "d < unat sz - unat t" for d
    proof -
      have "unat t + d < unat sz"
        using that by linarith
      moreover have "g + word_of_nat (unat t + d) = g + t + word_of_nat d"
        by (simp add: add.assoc)
      ultimately have "?leaf n a \<noteq> ?leaf n (g + t + word_of_nat d)"
        using far by metis
      then show ?thesis
        using a1 Some removes_keeps(1) [OF rem, of "g + t + word_of_nat d"]
        by (cases "?leaf n1 (g + t + word_of_nat d) = None") simp_all
    qed
    then show ?thesis
      using rest a1 unfolding frees_def by metis
  qed
  moreover have "?leaf n' (g + word_of_nat d) = None" if "\<not> early" "d < unat sz" for d
  proof (cases "d < unat t")
    case True
    then have "?leaf n1 (g + word_of_nat d) = None"
      using removes_keeps(3) [OF rem] iteration_inside [OF ps] t(1) by blast
    then show ?thesis
      using rest unfolding frees_def by metis
  next
    case False
    then have "d - unat t < unat sz - unat t"
      using that(2) by linarith
    moreover have "g + t + word_of_nat (d - unat t) = g + word_of_nat d"
      using False by (simp add: add.assoc of_nat_diff)
    ultimately show ?thesis
      using rest that(1) unfolding frees_def by metis
  qed
  ultimately show ?thesis
    unfolding frees_def by blast
qed

lemma frees_none: "early \<or> sz = 0 \<Longrightarrow> frees L g sz early n n"
  by (auto simp: frees_def)

lemma freeLoop_spec:
  "freeLoop c n st = Inr (early, n', st') \<Longrightarrow> wf_at (Suc L) n \<Longrightarrow> getNumLevels (pt_kind n) = Suc (Suc L) \<Longrightarrow>
   same_root n n' \<and> wf_at (Suc L) n' \<and> frees (Suc L) (fc_gfxAddress c) (unat (fc_size c)) early n n'"
proof (induction "unat (fc_size c)" arbitrary: c n st early n' st' rule: less_induct)
  case less
  show ?case
  proof (cases "fc_size c > 0")
    case False
    then have "early = False" "n' = n" "unat (fc_size c) = 0"
      using less.prems(1) by (auto simp: freeLoop.simps [of c] word_gt_0)
    then show ?thesis
      using less.prems(2) by (simp add: frees_none del: wf_at.simps)
  next
    case pos: True
    obtain r where levels: "freeLevels c (Suc L) n st = Inr r"
      and rest: "(case r of None \<Rightarrow> Inr (True, n, st) | Some (is2MB, ps, n1, st1) \<Rightarrow>
        let t = iterationSize ps (fc_gfxAddress c) (fc_size c)
        in if t = 0 then Inl Diverges
           else freeLoop (c\<lparr>fc_gfxAddress := fc_gfxAddress c + t, fc_size := fc_size c - t\<rparr>) n1 st1)
        = Inr (early, n', st')"
      using less.prems(1,3) pos by (auto simp: freeLoop.simps [of c] bindR_Inr_iff)
    show ?thesis
    proof (cases r)
      case None
      then show ?thesis
        using rest less.prems(2) by (auto simp: frees_none simp del: wf_at.simps)
    next
      case (Some q)
      obtain b ps n1 st1 where q: "q = (b, ps, n1, st1)"
        by (cases q)
      let ?t = "iterationSize ps (fc_gfxAddress c) (fc_size c)"
      let ?c = "c\<lparr>fc_gfxAddress := fc_gfxAddress c + ?t, fc_size := fc_size c - ?t\<rparr>"
      have t: "?t \<noteq> 0" "?t \<le> fc_size c" and loop: "freeLoop ?c n1 st1 = Inr (early, n', st')"
        using rest Some q by (auto simp: Let_def iterationSize_def split: if_splits)
      have spec: "same_root n n1" "wf_at (Suc L) n1" "pageSizes ps" "removes (Suc L) (fc_gfxAddress c) ps n n1"
        using freeLevels_spec levels less.prems(2) Some q by blast+
      have size: "unat (fc_size c - ?t) = unat (fc_size c) - unat ?t" "unat ?t \<le> unat (fc_size c)"
        using t(2) by (simp_all add: unat_sub word_le_nat_alt)
      then have "unat (fc_size ?c) < unat (fc_size c)"
        using t(1) pos by (simp add: unat_gt_0 word_less_nat_alt)
      moreover have "getNumLevels (pt_kind n1) = Suc (Suc L)"
        using spec(1) less.prems(3) by (simp add: same_root_def)
      ultimately have IH: "same_root n1 n'" "wf_at (Suc L) n'"
          "frees (Suc L) (fc_gfxAddress c + ?t) (unat (fc_size c) - unat ?t) early n1 n'"
        using less.hyps [OF _ loop spec(2)] size(1) by auto
      have "frees (Suc L) (fc_gfxAddress c) (unat (fc_size c)) early n n'"
        using frees_step [OF spec(4,3) refl size(2) _ IH(3)] pos by (simp add: word_less_nat_alt)
      then show ?thesis
        using IH(1,2) spec(1) by (simp add: same_root_def del: wf_at.simps)
    qed
  qed
qed

text \<open>C14: Freeing a range of GPU addresses leaves well-formed tables, adds no translation, and keeps the translation of every address that does not share a page with the range.  Unless the function returned early because a table of the range was missing (it then makes no stream call), no address of the range is translated any more.\<close>

theorem free_unmaps:
  assumes "freeMemory env g sz root alloc = Inr (cmds, root', alloc')"
    and "wf_at lev root" and "getNumLevels (pt_kind root) = Suc lev"
  shows "wf_at lev root' \<and> same_root root root'
    \<and> (\<forall>a. translate_address lev root' a \<noteq> None \<longrightarrow> translate_address lev root' a = translate_address lev root a)
    \<and> (\<forall>a. (\<forall>d < unat sz. leaf_of (Suc lev) root a \<noteq> leaf_of (Suc lev) root (g + word_of_nat d))
         \<longrightarrow> translate_address lev root' a = translate_address lev root a)
    \<and> (cmds \<noteq> [] \<longrightarrow> (\<forall>d < unat sz. translate_address lev root' (g + word_of_nat d) = None))"
proof -
  obtain L where lev: "lev = Suc L"
    using assms(1,3) by (cases lev) (auto simp: freeMemory_def assertR_def)
  obtain early st where loop: "freeLoop (freeContext env (Suc lev) g sz) root
      \<lparr>fs_entries = (\<lambda>_. []), fs_alloc = alloc\<rparr> = Inr (early, root', st)"
    and early: "cmds \<noteq> [] \<longrightarrow> \<not> early"
    using assms(1,3) by (auto simp: freeMemory_def assertR_def bindR_Inr_iff split: if_splits)
  have spec: "same_root root root'" "wf_at lev root'" "frees lev g (unat sz) early root root'"
    using freeLoop_spec [OF loop, of L] assms(2,3) lev by (simp_all add: freeContext_def del: wf_at.simps)
  have keeps: "translate_address lev root' a = translate_address lev root a"
    if "leaf_of (Suc lev) root' a = leaf_of (Suc lev) root a" for a
    using that by (simp add: translate_address_leaf)
  have none: "leaf_of (Suc lev) root' a = None \<longleftrightarrow> translate_address lev root' a = None" for a
    by (simp add: translate_address_leaf)
  show ?thesis
    using spec keeps early unfolding frees_def none by blast
qed

definition example_env :: stream_env where
  "example_env = \<lparr>se_gpu = example_gpu, se_enablePs64 = False, se_committed = True\<rparr>"

definition example_page :: "u64 \<Rightarrow> PageTable" where
  "example_page a = newPageTableAt PageTableMemory a 0 noAdditionalParams"

definition example_table :: "ptKind \<Rightarrow> PageTable option list \<Rightarrow> PageTable" where
  "example_table k t = PageTable k 0x1000 0 t False False True noAdditionalParams"

definition example_tree :: "PageTable \<Rightarrow> PageTable" where
  "example_tree pte = example_table PML4 [Some (example_table PDP [Some (example_table PDE [Some pte])])]"

definition example_pte :: PageTable where
  "example_pte = example_table PTE4KB [None, Some (example_page 0x5000), Some (example_page 0x6000)]"

lemma example_tree_levels: "getNumLevels (pt_kind (example_tree pte)) = Suc 3"
  by (simp add: example_tree_def example_table_def)

lemma example_table_fields [simp]:
  "pt_kind (example_table k t) = k" "pt_table (example_table k t) = t"
  "pt_memoryBank (example_table k t) = 0" "pt_hasAllocator (example_table k t)"
  "pt_physicalAddress (example_table k t) = 0x1000" "pt_ps64 (example_table k t) = False"
  by (simp_all add: example_table_def)

lemma example_page_fields [simp]:
  "pt_kind (example_page a) = PageTableMemory" "pt_physicalAddress (example_page a) = a" "pt_ps64 (example_page a) = False"
  "deletePageTable (example_page a) alloc = Inr alloc"
  by (simp_all add: example_page_def newPageTableAt_def)

lemma example_setChild [simp]: "setChild i c (example_table k t) = example_table k (slot_set i c t)"
  by (simp add: setChild_def example_table_def)

lemma slot_get_Cons: "slot_get (x # xs) i = (if i = 0 then x else slot_get xs (i - 1))"
  by (cases i) (simp_all add: slot_get_def)

lemma slot_set_Cons [simp]:
  "slot_set 0 c (x # xs) = c # xs" "slot_set (Suc i) c (x # xs) = x # slot_set i c xs"
  by (simp_all add: slot_set_def)

lemma example_tree_wf: "wf_at 0 pte \<Longrightarrow> pt_memoryBank pte = 0 \<Longrightarrow> wf_at 3 (example_tree pte)"
  by (auto simp: example_tree_def numeral_3_eq_3 getChild_def slot_get_Cons split: if_splits)

lemma example_pte_wf: "wf_at 0 example_pte"
  by (auto simp: example_pte_def getChild_def slot_get_Cons split: if_splits)

lemma example_free:
  "case freeMemory example_env 0x1000 0x1000 (example_tree example_pte) example_alloc of
     Inl e \<Rightarrow> False | Inr (cmds, root', alloc) \<Rightarrow> cmds \<noteq> []"
  "translate_address 3 (example_tree example_pte) 0x1234 = Some 0x5234"
  by code_simp+

theorem free_unmaps_witness:
  "\<exists>cmds root' alloc'. freeMemory example_env 0x1000 0x1000 (example_tree example_pte) example_alloc
       = Inr (cmds, root', alloc')
     \<and> translate_address 3 (example_tree example_pte) 0x1234 = Some 0x5234
     \<and> translate_address 3 root' 0x1234 = None"
proof -
  obtain cmds root' alloc' where free: "freeMemory example_env 0x1000 0x1000 (example_tree example_pte) example_alloc
      = Inr (cmds, root', alloc')" and "cmds \<noteq> []"
    using example_free(1) by (auto split: sum.splits)
  moreover have "wf_at 3 (example_tree example_pte)"
    by (rule example_tree_wf [OF example_pte_wf]) (simp add: example_pte_def)
  ultimately have "\<forall>d < unat (0x1000 :: usize). translate_address 3 root' (0x1000 + word_of_nat d) = None"
    using free_unmaps [OF free _ example_tree_levels] by blast
  moreover have "0x234 < unat (0x1000 :: usize)"
    by simp
  ultimately have "translate_address 3 root' (0x1000 + word_of_nat 0x234) = None"
    by blast
  then show ?thesis
    using free example_free(2) by auto
qed


section \<open>Stream calls on the file\<close>

lemma fileExecAll_append: "fileExecAll (xs @ ys) s = bindR (fileExecAll xs s) (fileExecAll ys)"
proof (induction xs arbitrary: s)
  case (Cons x xs)
  then show ?case
    by (cases "fileExec x s") simp_all
qed simp

lemma execAll_Cons:
  assumes "writesEvents s (fileExec c s) x" and "\<And>bs. writesEvents (emit bs s) (fileExecAll cs (emit bs s)) y"
  shows "writesEvents s (fileExecAll (c # cs) s) (x @ y)"
  using writesEvents_bind [OF assms] by simp

lemma execAll_append:
  assumes "writesEvents s (fileExecAll xs s) x" and "\<And>bs. writesEvents (emit bs s) (fileExecAll ys (emit bs s)) y"
  shows "writesEvents s (fileExecAll (xs @ ys) s) (x @ y)"
  using writesEvents_bind [OF assms] by (simp add: fileExecAll_append)

text \<open>The events of a list of table writes.\<close>

fun tableEvents :: "StreamCmd list \<Rightarrow> AubEvent list" where
  "tableEvents (WriteEntries es space hint # cs) = entryEvents space hint es @ tableEvents cs"
| "tableEvents cs = []"

lemma execAll_tables:
  "healthy s \<Longrightarrow> \<forall>c\<in>set cs. \<exists>es space hint. c = WriteEntries es space hint \<Longrightarrow>
   writesEvents s (fileExecAll cs s) (tableEvents cs)"
proof (induction cs arbitrary: s)
  case Nil
  then show ?case by (simp add: writesEvents_none)
next
  case (Cons c cs)
  then obtain es space hint where c: "c = WriteEntries es space hint"
    by auto
  show ?case
    unfolding c tableEvents.simps
    by (rule execAll_Cons) (use Cons in \<open>auto simp: writeEntries_event\<close>)
qed

lemma walkEntryCmds_tables: "\<forall>c\<in>set (walkEntryCmds w l b). \<exists>es space hint. c = WriteEntries es space hint"
  by (auto simp: walkEntryCmds_def Let_def)

text \<open>The levels whose entries a walk sends to the stream.\<close>

definition tableLevels :: "nat \<Rightarrow> nat list" where
  "tableLevels numAddressBits = (if 48 < numAddressBits then [Pml5] else []) @ [Pml4, Pdp, Pde, Pte]"

lemma tableEvents_member:
  "WriteEntries es space hint \<in> set cs \<Longrightarrow> \<forall>c\<in>set cs. \<exists>es space hint. c = WriteEntries es space hint \<Longrightarrow>
   set (entryEvents space hint es) \<subseteq> set (tableEvents cs)"
  by (induction cs) auto

lemma walkEntryCmds_levels:
  assumes "lvl \<in> set (tableLevels b)"
  shows "\<exists>space hint. set (entryEvents space hint (w_pageWalkEntries w lvl)) \<subseteq> set (tableEvents (walkEntryCmds w l b))"
proof -
  have "\<exists>space hint. WriteEntries (w_pageWalkEntries w lvl) space hint \<in> set (walkEntryCmds w l b)"
    using assms by (auto simp: tableLevels_def walkEntryCmds_def useLegacyAddressSpaces_def Let_def split: if_splits)
  then show ?thesis
    using tableEvents_member [OF _ walkEntryCmds_tables] by blast
qed

definition regionEvents :: "u64 list \<Rightarrow> AubEvent list" where
  "regionEvents pages = map (\<lambda>p. EvRegion p 0x10000) pages"

lemma writePages_events:
  assumes s: "healthy s" and "w_entries w \<noteq> []" and "\<forall>p\<in>set (w_entries w). goodPage p"
    and "totalSize (w_entries w) = unat sz" and "unat sz \<le> length m"
  shows "writesEvents s (fileExecAll (fst (writePages committed w (Some m) sz hint l b root)) s)
    (regionEvents (w_pages64KB w) @ tableEvents (walkEntryCmds w l b) @ pageEvents hint (w_entries w) m)"
proof -
  let ?r = "if 0 < length (w_pages64KB w) then [ReserveContiguousPages (w_pages64KB w)] else []"
  have cmds: "fst (writePages committed w (Some m) sz hint l b root) =
      ?r @ walkEntryCmds w l b @ [WritePages m sz (w_entries w) hint]"
    by (simp add: writePages_def writePageWalkEntries_def Let_def)
  have reserve: "writesEvents s (fileExecAll ?r s) (regionEvents (w_pages64KB w))"
    using reserve_events [OF s] execAll_Cons [of s "ReserveContiguousPages (w_pages64KB w)" _ "[]" "[]"]
    by (auto simp: regionEvents_def writesEvents_none)
  have pages: "writesEvents s' (fileExecAll [WritePages m sz (w_entries w) hint] s')
      (pageEvents hint (w_entries w) m)" if "healthy s'" for s'
    using writePages_event [OF that assms(2-5)]
      execAll_Cons [of s' "WritePages m sz (w_entries w) hint" _ "[]" "[]"]
    by (auto simp: writesEvents_none)
  have "writesEvents s' (fileExecAll (walkEntryCmds w l b @ [WritePages m sz (w_entries w) hint]) s')
      (tableEvents (walkEntryCmds w l b) @ pageEvents hint (w_entries w) m)" if "healthy s'" for s'
    by (rule execAll_append [OF execAll_tables [OF that walkEntryCmds_tables]]) (rule pages, use that in simp)
  then show ?thesis
    unfolding cmds by (intro execAll_append [OF reserve]) (use s in simp)
qed

section \<open>Every byte arrives where the tables point\<close>

lemma totalSize_total_size: "totalSize es = total_size es"
  by (simp add: totalSize_def total_size_def)

lemma covers_goodPage: "covers lev n g es \<Longrightarrow> \<forall>p\<in>set es. goodPage p"
proof (induction es arbitrary: g)
  case (Cons e es)
  then obtain ps leaf where t: "translate (Suc lev) n g = Some (ps, leaf)"
    by (auto split: option.splits simp del: translate.simps)
  with Cons.prems have ps: "ps = 4096 \<or> ps = 65536 \<or> ps = pageSize2MB"
    and sz: "0 < pi_size e" "pi_size e \<le> ps - (g AND (ps - 1))" and rest: "covers lev n (g + pi_size e) es"
    by (simp_all del: translate.simps)
  obtain k where "ps = 2 ^ k" "k < 64"
    using page_shift_power [OF ps] by blast
  then have "unat (ps - (g AND (ps - 1))) \<le> unat ps"
    by (subst unat_sub) (auto simp: word_le_nat_alt unat_low_bits unat_two_power intro: less_imp_le)
  moreover have "unat ps \<le> 2097152"
    using ps by (auto simp: pageSize2MB_def)
  ultimately have "goodPage e"
    using sz by (simp add: goodPage_def word_le_nat_alt word_less_nat_alt)
  then show ?case
    using Cons.IH [OF rest] by simp
qed simp

lemma walkMemory_pages_good:
  assumes "walkMemory gpu ps64 params mode infos None root (makeWalker alloc) = Inr (root', w')"
    and "wf_at lev root" and "getNumLevels (pt_kind root) = Suc lev"
  shows "\<forall>p\<in>set (w_entries w'). goodPage p"
    and "totalSize (w_entries w') = unat (ap_size params)"
    and "d < unat (ap_size params) \<Longrightarrow>
      byte_address (w_entries w') d = translate_address lev root' (ap_gfxAddress params + word_of_nat d)"
proof -
  have "w_entries (makeWalker alloc) = []"
    by (simp add: makeWalker_def)
  then have facts: "total_size (w_entries w') = unat (ap_size params)"
      "d < unat (ap_size params) \<Longrightarrow>
      byte_address (w_entries w') d = translate_address lev root' (ap_gfxAddress params + word_of_nat d)" for d
    using walkMemory_result [OF assms] by auto
  then show "totalSize (w_entries w') = unat (ap_size params)"
    and "d < unat (ap_size params) \<Longrightarrow>
      byte_address (w_entries w') d = translate_address lev root' (ap_gfxAddress params + word_of_nat d)"
    by (simp_all add: totalSize_total_size)
  show "\<forall>p\<in>set (w_entries w'). goodPage p"
  proof (cases "ap_size params = 0")
    case True
    then show ?thesis
      using assms(1) by (auto simp: walkMemory_def Let_def makeWalker_def)
  next
    case False
    from walkMemory_pages [OF assms(1) False] obtain a where
      pages: "walkPages a 0 None (ap_gfxAddress params) (ap_size params) root
        ((makeWalker alloc)\<lparr>w_emittedPending := (\<lambda>_. [])\<rparr>) = Inr (root', w')"
      by blast
    then show ?thesis
      using walkPages_spec [OF pages assms(2,3) levels_of_root [OF assms(3)]] covers_goodPage
      by (fastforce simp: makeWalker_def)
  qed
qed

lemma stores_nth: "d < length bs \<Longrightarrow> stores sp h a bs ! d = EvStore sp h (a + word_of_nat d) (bs ! d)"
proof (induction bs arbitrary: a d)
  case (Cons b bs)
  then show ?case
    by (cases d) (simp_all add: add.assoc)
qed simp

lemma pageEvents_length: "totalSize es \<le> length m \<Longrightarrow> length (pageEvents hint es m) = totalSize es"
  by (induction es arbitrary: m) simp_all

lemma pageEvents_nth:
  "d < totalSize es \<Longrightarrow> totalSize es \<le> length m \<Longrightarrow>
   \<exists>sp a. byte_address es d = Some a \<and> pageEvents hint es m ! d = EvStore sp (hintField hint) a (m ! d)"
proof (induction es arbitrary: d m)
  case (Cons e es)
  let ?n = "unat (pi_size e)"
  show ?case
  proof (cases "d < ?n")
    case True
    then show ?thesis
      using Cons.prems by (auto simp: nth_append stores_nth)
  next
    case False
    moreover have "d - ?n < totalSize es" "totalSize es \<le> length (drop ?n m)"
      using Cons.prems False by simp_all
    ultimately show ?thesis
      using Cons.IH [of "d - ?n" "drop ?n m"] Cons.prems
      by (auto simp: nth_append min_def)
  qed
qed simp

text \<open>
  What a write makes a healthy file take in: the records before the data, of which the entries of the tables are a
  part, and the data.
\<close>

lemma writeMemory_events:
  assumes "writeMemory env params root alloc = Inr (cmds, es, root', alloc')"
    and "wf_at lev root" and "getNumLevels (pt_kind root) = Suc lev"
    and "ap_memory params = Some m" and "unat (ap_size params) \<le> length m" and "0 < ap_size params" and "healthy s"
  shows "wf_at lev root' \<and> (\<forall>g a. translate_address lev root g = Some a \<longrightarrow> translate_address lev root' g = Some a)
    \<and> (\<exists>root1 w evs stored. writesEvents s (fileExecAll cmds s) (evs @ stored)
       \<and> walkMemory (se_gpu env) (se_enablePs64 env) params Reserve [] None root (makeWalker alloc) = Inr (root1, w)
       \<and> (\<forall>lvl \<in> set (tableLevels (getNumAddressBits (pt_kind root))).
            \<exists>space hint. set (entryEvents space hint (w_pageWalkEntries w lvl)) \<subseteq> set evs)
       \<and> length stored = unat (ap_size params)
       \<and> (\<forall>d < unat (ap_size params). \<exists>space a.
            translate_address lev root' (ap_gfxAddress params + word_of_nat d) = Some a
            \<and> stored ! d = EvStore space (hintField (ap_hint params)) a (m ! d)))"
proof -
  let ?n = "unat (ap_size params)"
  obtain root1 w where walk: "walkMemory (se_gpu env) (se_enablePs64 env) params Reserve [] None root
      (makeWalker alloc) = Inr (root1, w)"
    using assms(1) by (auto simp: writeMemory_def Let_def bindR_Inr_iff)
  let ?l = "isLocalMemory root1" and ?b = "getNumAddressBits (pt_kind root1)"
  obtain comment where cmds: "cmds = AddComment comment # fst (writePages (se_committed env) w (Some m)
        (ap_size params) (ap_hint params) ?l ?b root1)"
    and root': "root' = (if se_committed env then clearPending w root1 else root1)"
    using assms(1,4) walk
    by (auto simp: writeMemory_def Let_def writePages_def writePageWalkEntries_def split: if_splits)
  note walked = walkMemory_result [OF walk assms(2,3)]
  note pages = walkMemory_pages_good [OF walk assms(2,3)]
  have tr: "translate_address lev root' g = translate_address lev root1 g" for g
    by (simp add: root')
  have wf: "wf_at lev root'"
    using walked(1) clearPending_same(3) by (simp add: root' del: wf_at.simps)
  have keep: "translate_address lev root' g = Some a" if "translate_address lev root g = Some a" for g a
    using that walked(4) unfolding tr
    by (fastforce simp: translate_address_def extends_def same_node_def simp del: translate.simps)
  have "\<exists>evs. writesEvents s (fileExecAll cmds s) (evs @ pageEvents (ap_hint params) (w_entries w) m)
      \<and> set (tableEvents (walkEntryCmds w ?l ?b)) \<subseteq> set evs"
  proof -
    obtain chunks where "writesEvents s (addComment comment s) (map EvComment chunks)"
      using addComment_event [OF assms(7)] by blast
    then have comment: "writesEvents s (fileExec (AddComment comment) s) (map EvComment chunks)"
      by simp
    have "w_entries w \<noteq> []"
      using pages(2) assms(6) by (auto simp: word_less_nat_alt)
    then have "writesEvents s (fileExecAll cmds s) (map EvComment chunks @ regionEvents (w_pages64KB w)
        @ tableEvents (walkEntryCmds w ?l ?b) @ pageEvents (ap_hint params) (w_entries w) m)"
      using execAll_Cons [OF comment writePages_events] pages(1,2) assms(5,7) unfolding cmds by fastforce
    then show ?thesis
      by (intro exI [of _ "map EvComment chunks @ regionEvents (w_pages64KB w) @ tableEvents (walkEntryCmds w ?l ?b)"]) auto
  qed
  then obtain evs where evs: "writesEvents s (fileExecAll cmds s) (evs @ pageEvents (ap_hint params) (w_entries w) m)"
      and tables: "set (tableEvents (walkEntryCmds w ?l ?b)) \<subseteq> set evs"
    by blast
  have "pt_kind root1 = pt_kind root"
    using walked(2) by (simp add: same_root_def)
  then have levels: "\<forall>lvl \<in> set (tableLevels (getNumAddressBits (pt_kind root))).
      \<exists>space hint. set (entryEvents space hint (w_pageWalkEntries w lvl)) \<subseteq> set evs"
    using walkEntryCmds_levels [of _ ?b w ?l] tables by fastforce
  have arrive: "\<exists>space a. translate_address lev root' (ap_gfxAddress params + word_of_nat d) = Some a
      \<and> pageEvents (ap_hint params) (w_entries w) m ! d = EvStore space (hintField (ap_hint params)) a (m ! d)"
    if "d < ?n" for d
    using pageEvents_nth [of d "w_entries w" m "ap_hint params"] pages(2) pages(3) [OF that] that assms(5) tr
    by auto
  have "length (pageEvents (ap_hint params) (w_entries w) m) = ?n"
    using pages(2) assms(5) by (simp add: pageEvents_length)
  then show ?thesis
    using wf keep arrive levels walk evs by blast
qed

text \<open>C1: End to end: when memory is written through the PPGTT to an AUB file, the page tables, the walker and the file encoding agree.  The calls succeed on the file, the tables stay well-formed and keep every existing translation, and a reader of the file finds the entries of every level that the walk recorded and, as the last stores, byte d of the buffer at the physical address to which the new tables translate the GPU address of byte d.\<close>

theorem write_memory_end_to_end:
  assumes "writeMemory env params root alloc = Inr (cmds, es, root', alloc')"
    and "wf_at lev root" and "getNumLevels (pt_kind root) = Suc lev"
    and "ap_memory params = Some m" and "unat (ap_size params) \<le> length m" and "0 < ap_size params"
    and "healthy s" and "encodes (written s) old"
  shows "wf_at lev root' \<and> (\<forall>g a. translate_address lev root g = Some a \<longrightarrow> translate_address lev root' g = Some a)
    \<and> (\<exists>root1 w s' evs stored. fileExecAll cmds s = Inr s' \<and> readAub (written s') = Some (old @ evs @ stored)
       \<and> walkMemory (se_gpu env) (se_enablePs64 env) params Reserve [] None root (makeWalker alloc) = Inr (root1, w)
       \<and> (\<forall>lvl \<in> set (tableLevels (getNumAddressBits (pt_kind root))).
            \<exists>space hint. set (entryEvents space hint (w_pageWalkEntries w lvl)) \<subseteq> set evs)
       \<and> length stored = unat (ap_size params)
       \<and> (\<forall>d < unat (ap_size params). \<exists>space a.
            translate_address lev root' (ap_gfxAddress params + word_of_nat d) = Some a
            \<and> stored ! d = EvStore space (hintField (ap_hint params)) a (m ! d)))"
proof -
  obtain root1 w evs stored where evs: "writesEvents s (fileExecAll cmds s) (evs @ stored)"
    and rest: "walkMemory (se_gpu env) (se_enablePs64 env) params Reserve [] None root (makeWalker alloc) = Inr (root1, w)"
      "\<forall>lvl \<in> set (tableLevels (getNumAddressBits (pt_kind root))).
         \<exists>space hint. set (entryEvents space hint (w_pageWalkEntries w lvl)) \<subseteq> set evs"
      "length stored = unat (ap_size params)"
      "\<forall>d < unat (ap_size params). \<exists>space a. translate_address lev root' (ap_gfxAddress params + word_of_nat d) = Some a
         \<and> stored ! d = EvStore space (hintField (ap_hint params)) a (m ! d)"
    using writeMemory_events [OF assms(1-7)] by blast
  obtain s' where "fileExecAll cmds s = Inr s'" "readAub (written s') = Some (old @ evs @ stored)"
    using writesEvents_read [OF evs assms(8)] by blast
  then show ?thesis
    using writeMemory_events [OF assms(1-7)] rest by blast
qed

definition example_write :: AllocationParams where
  "example_write = makeAllocationParams 0x1ff800 (Some (replicate 0x2000 7)) 0x2000 0 0 4096"

lemma example_write_walk:
  obtains root' w' where "walkMemory example_gpu False example_write Reserve [] None example_root
      (makeWalker example_alloc) = Inr (root', w')"
proof -
  have "\<exists>root' w'. walkMemory example_gpu False example_write Reserve [] None example_root
      (makeWalker example_alloc) = Inr (root', w')"
    by (rule walkMemory_total [OF example_root_wf])
       (simp_all add: example_write_def makeAllocationParams_def example_root_def makeWalker_def
          example_alloc_def makePhysicalAddressAllocatorSimple_def)
  then show ?thesis
    using that by blast
qed

theorem write_memory_end_to_end_witness:
  "\<exists>cmds es root' alloc' s' evs stored a space.
     writeMemory example_env example_write example_root example_alloc = Inr (cmds, es, root', alloc')
     \<and> fileExecAll cmds example_stream = Inr s' \<and> readAub (written s') = Some ([] @ evs @ stored)
     \<and> translate_address 3 root' 0x2017ff = Some a \<and> stored ! 0x1fff = EvStore space 0 a 7"
proof -
  obtain root1 w where walk: "walkMemory example_gpu False example_write Reserve [] None example_root
      (makeWalker example_alloc) = Inr (root1, w)"
    by (rule example_write_walk)
  then obtain cmds es root' alloc' where
    wr: "writeMemory example_env example_write example_root example_alloc = Inr (cmds, es, root', alloc')"
    by (cases "writePages True w (ap_memory example_write) (ap_size example_write) (ap_hint example_write)
          (isLocalMemory root1) (getNumAddressBits (pt_kind root1)) root1")
       (auto simp: writeMemory_def example_env_def Let_def)
  have p: "ap_size example_write = 0x2000" "ap_gfxAddress example_write = 0x1ff800"
      "ap_memory example_write = Some (replicate 0x2000 7)" "ap_hint example_write = 0"
    by (simp_all add: example_write_def makeAllocationParams_def)
  have n: "unat (0x2000 :: usize) = 0x2000"
    by simp
  have "unat (ap_size example_write) \<le> length (replicate 0x2000 (7 :: u8))" "0 < ap_size example_write"
    by (simp_all add: p)
  then obtain s' evs stored where r: "fileExecAll cmds example_stream = Inr s'"
      "readAub (written s') = Some ([] @ evs @ stored)"
      "\<forall>d<0x2000. \<exists>space a. translate_address 3 root' (0x1ff800 + word_of_nat d) = Some a
         \<and> stored ! d = EvStore space (hintField 0) a (replicate 0x2000 7 ! d)"
    using write_memory_end_to_end [OF wr example_root_wf p(3) _ _ example_stream_healthy]
    unfolding p n by blast
  have "0x1fff < (0x2000 :: nat)"
    by simp
  with r(3) have "\<exists>space a. translate_address 3 root' (0x1ff800 + word_of_nat 0x1fff) = Some a
      \<and> stored ! 0x1fff = EvStore space (hintField 0) a (replicate 0x2000 7 ! 0x1fff)"
    by blast
  then obtain space a where
    "translate_address 3 root' 0x2017ff = Some a" "stored ! 0x1fff = EvStore space 0 a 7"
    by (auto simp: hintField_def)
  then show ?thesis
    using wr r(1,2) by blast
qed

end
