(* ===== verification/Backends.thy ===== *)
theory Backends
  imports TbxProps AubStreamProps
begin

text \<open>
  The two backends of a stream agree: what the AUB file records, replayed on a device, is what the simulator
  has done, when both get the same calls (the combined stream of \<^verbatim>\<open>aub_tbx_stream.h\<close>).
\<close>

section \<open>Replaying a file\<close>

text \<open>One byte of an entry of the GTT.\<close>

definition setByte :: "nat \<Rightarrow> u8 \<Rightarrow> u64 \<Rightarrow> u64" where
  "setByte k b w = qwordAt 0 ((qwordBytes w)[k := b])"

definition gttSpace :: u32 where
  "gttSpace = spaceField (addressSpaceValue TraceGttEntry)"

definition memSpace :: "u32 \<Rightarrow> u32" where
  "memSpace space = memoryType (space = spaceField (addressSpaceValue TraceLocal))"

fun replayEvent :: "AubEvent \<Rightarrow> device \<Rightarrow> device" where
  "replayEvent (EvStore space hint a b) d =
     (if space = gttSpace
      then let i = ucast (a div 8) in d\<lparr>dv_gtt := (dv_gtt d)(i := setByte (unat a mod 8) b (dv_gtt d i))\<rparr>
      else let m = memSpace space in d\<lparr>dv_mem := (dv_mem d)(m := (dv_mem d m)(a := b))\<rparr>)"
| "replayEvent (EvRegisterWrite off msk val) d =
     d\<lparr>dv_mmio := (dv_mmio d)(off := (dv_mmio d off AND NOT msk) OR (val AND msk))\<rparr>"
| "replayEvent ev d = d"

definition replay :: "AubEvent list \<Rightarrow> device \<Rightarrow> device" where
  "replay evs d = fold replayEvent evs d"

lemma replay_simps [simp]: "replay [] d = d" "replay (xs @ ys) d = replay ys (replay xs d)"
  by (simp_all add: replay_def)

lemma replay_Cons: "replay (ev # evs) d = replay evs (replayEvent ev d)"
  by (simp add: replay_def)

lemma memStore_Cons:
  assumes "length bs < 2 ^ 64"
  shows "memStore (a + 1) bs (f(a := b)) = memStore a (b # bs) f"
proof
  fix x
  show "memStore (a + 1) bs (f(a := b)) x = memStore a (b # bs) f x"
  proof (cases "x = a")
    case True
    then show ?thesis
      using assms by (simp add: memStore_def unsigned_minus_1_eq_mask mask_eq_exp_minus_1)
  next
    case False
    then have "unat (x - a) = Suc (unat (x - (a + 1)))"
      using unat_minus_one [of "x - a"] by (simp add: diff_diff_add unat_gt_0)
    then show ?thesis
      using False by (simp add: memStore_def)
  qed
qed

lemma replay_stores:
  "space \<noteq> gttSpace \<Longrightarrow> length bs \<le> 2 ^ 64 \<Longrightarrow>
   replay (stores space hint a bs) d
     = d\<lparr>dv_mem := (dv_mem d)(memSpace space := memStore a bs (dv_mem d (memSpace space)))\<rparr>"
proof (induction bs arbitrary: a d)
  case Nil
  then show ?case
    by (simp add: memStore_def)
next
  case (Cons b bs)
  let ?m = "memSpace space"
  define d1 where "d1 = d\<lparr>dv_mem := (dv_mem d)(?m := (dv_mem d ?m)(a := b))\<rparr>"
  have "replayEvent (EvStore space hint a b) d = d1"
    using Cons.prems(1) by (simp add: d1_def Let_def)
  then have "replay (stores space hint a (b # bs)) d = d1\<lparr>dv_mem := (dv_mem d1)(?m := memStore (a + 1) bs (dv_mem d1 ?m))\<rparr>"
    unfolding stores.simps replay_Cons by (simp only:) (rule Cons.IH, use Cons.prems in simp_all)
  also have "\<dots> = d\<lparr>dv_mem := (dv_mem d)(?m := memStore (a + 1) bs ((dv_mem d ?m)(a := b)))\<rparr>"
    by (simp add: d1_def)
  also have "memStore (a + 1) bs ((dv_mem d ?m)(a := b)) = memStore a (b # bs) (dv_mem d ?m)"
    by (rule memStore_Cons) (use Cons.prems(2) in simp)
  finally show ?case .
qed

lemma bytes_of_bytesDword: "dwordBytes (bytesDword (a # b # c # d # bs)) = [a, b, c, d]"
proof -
  have "ucast (bytesDword (a # b # c # d # bs)) = a" "ucast (drop_bit 8 (bytesDword (a # b # c # d # bs))) = b"
      "ucast (drop_bit 16 (bytesDword (a # b # c # d # bs))) = c" "ucast (drop_bit 24 (bytesDword (a # b # c # d # bs))) = d"
    by (rule bit_word_eqI; auto simp: bit_simps dest: bit_imp_le_length)+
  then show ?thesis
    by (simp only: dwordBytes_def)
qed

lemma list_of_8:
  assumes "length bs = 8"
  obtains b0 b1 b2 b3 b4 b5 b6 b7 where "bs = [b0, b1, b2, b3, b4, b5, b6, b7]"
  using assms by (auto simp: eval_nat_numeral length_Suc_conv)

lemma bytes_of_qwordAt: "length bs = 8 \<Longrightarrow> qwordBytes (qwordAt 0 bs) = bs"
proof (elim list_of_8)
  fix b0 b1 b2 b3 b4 b5 b6 b7
  assume "bs = [b0, b1, b2, b3, b4, b5, b6, b7]"
  moreover have "ucast (push_bit 32 (ucast h) OR ucast l :: u64) = l" "ucast (drop_bit 32 (push_bit 32 (ucast h) OR ucast l :: u64)) = h"
    for h l :: u32
    by (rule bit_word_eqI; auto simp: bit_simps dest: bit_imp_le_length)+
  ultimately show ?thesis
    by (simp add: qwordBytes_def qwordAt_def dwordAt_def bytes_of_bytesDword del: bytesDword.simps)
qed

lemma qwordBytes_setByte: "qwordBytes (setByte k b w) = (qwordBytes w)[k := b]"
  by (simp add: setByte_def bytes_of_qwordAt)

lemma qwordBytes_inject: "qwordBytes v = qwordBytes w \<Longrightarrow> v = w"
  using qwordAt_0 [of v "[]"] qwordAt_0 [of w "[]"] by simp

lemma setByte_all:
  assumes "qwordBytes e = [b0, b1, b2, b3, b4, b5, b6, b7]"
  shows "setByte 7 b7 (setByte 6 b6 (setByte 5 b5 (setByte 4 b4 (setByte 3 b3 (setByte 2 b2 (setByte 1 b1 (setByte 0 b0 w))))))) = e"
proof (rule qwordBytes_inject)
  obtain c0 c1 c2 c3 c4 c5 c6 c7 where "qwordBytes w = [c0, c1, c2, c3, c4, c5, c6, c7]"
    using list_of_8 [OF qwordBytes_length] by blast
  then show "qwordBytes (setByte 7 b7 (setByte 6 b6 (setByte 5 b5 (setByte 4 b4 (setByte 3 b3 (setByte 2 b2 (setByte 1 b1 (setByte 0 b0 w))))))))
      = qwordBytes e"
    by (simp add: qwordBytes_setByte assms)
qed

lemma aligned_offset:
  fixes a :: u64
  assumes "unat a mod 8 = 0" and "k < 8"
  shows "unat (a + word_of_nat k) mod 8 = k" "(a + word_of_nat k) div 8 = a div 8"
proof -
  have "unat a < 18446744073709551616"
    using unsigned_less [of a] by simp
  then have lt: "unat a + k < 18446744073709551616"
    using assms by presburger
  then have u: "unat (a + word_of_nat k) = unat a + k"
  proof -
    have "unat (word_of_nat k :: u64) = k"
      using assms(2) by (simp add: unat_word_of_nat_small)
    then have "unat (a + word_of_nat k) = (unat a + k) mod 2 ^ 64"
      using unat_word_ariths(1) [of a "word_of_nat k"] by simp
    moreover have "(2 :: nat) ^ 64 = 18446744073709551616"
      by simp
    ultimately show ?thesis
      using lt by (simp only: mod_less)
  qed
  then show "unat (a + word_of_nat k) mod 8 = k"
    using assms by presburger
  obtain q where "unat a = 8 * q"
    using assms(1) by (meson dvdE mod_0_imp_dvd)
  then have "(unat a + k) div 8 = unat a div 8"
    using assms(2) by simp
  then show "(a + word_of_nat k) div 8 = a div 8"
    unfolding word_unat_eq_iff unat_div u by simp
qed

lemma replay_entry:
  assumes "unat a mod 8 = 0"
  shows "replay (stores gttSpace hint a (qwordBytes e)) d = d\<lparr>dv_gtt := (dv_gtt d)(ucast (a div 8) := e)\<rparr>"
proof -
  obtain b0 b1 b2 b3 b4 b5 b6 b7 where b: "qwordBytes e = [b0, b1, b2, b3, b4, b5, b6, b7]"
    using list_of_8 [OF qwordBytes_length] by blast
  have "unat (a + 1) mod 8 = 1" "unat (a + 2) mod 8 = 2" "unat (a + 3) mod 8 = 3" "unat (a + 4) mod 8 = 4"
      "unat (a + 5) mod 8 = 5" "unat (a + 6) mod 8 = 6" "unat (a + 7) mod 8 = 7"
      "(a + 1) div 8 = a div 8" "(a + 2) div 8 = a div 8" "(a + 3) div 8 = a div 8" "(a + 4) div 8 = a div 8"
      "(a + 5) div 8 = a div 8" "(a + 6) div 8 = a div 8" "(a + 7) div 8 = a div 8"
    using aligned_offset [OF assms, of 1] aligned_offset [OF assms, of 2] aligned_offset [OF assms, of 3]
      aligned_offset [OF assms, of 4] aligned_offset [OF assms, of 5] aligned_offset [OF assms, of 6]
      aligned_offset [OF assms, of 7] by simp_all
  then show ?thesis
    using assms setByte_all [OF b] by (simp add: b replay_Cons Let_def add.assoc)
qed


section \<open>Calls both backends can take\<close>

definition tbxPage :: "PageInfo \<Rightarrow> bool" where
  "tbxPage p \<longleftrightarrow> 0 < pi_size p \<and> pi_size p < 2 ^ 31 \<and> pi_physicalAddress p < 2 ^ 40"

definition gttEntry :: "PageEntryInfo \<Rightarrow> bool" where
  "gttEntry e \<longleftrightarrow> unat (pe_physicalAddress e) mod 8 = 0 \<and> pe_physicalAddress e < 2 ^ 32"

definition memEntry :: "PageEntryInfo \<Rightarrow> bool" where
  "memEntry e \<longleftrightarrow> pe_physicalAddress e < 2 ^ 40"

fun cmd_ok :: "StreamCmd \<Rightarrow> bool" where
  "cmd_ok (AddComment message) \<longleftrightarrow> True"
| "cmd_ok (WriteGttPages ggtt es) \<longleftrightarrow> list_all gttEntry es"
| "cmd_ok (WritePages memory sz pages hint) \<longleftrightarrow>
     pages \<noteq> [] \<and> list_all tbxPage pages \<and> totalSize pages = unat sz \<and> unat sz \<le> length memory"
| "cmd_ok (WriteEntries es space hint) \<longleftrightarrow> 0 \<le> space \<and> space < 16
     \<and> list_all (if space = addressSpaceValue TraceGttEntry then gttEntry else memEntry) es"
| "cmd_ok (ReserveContiguousPages pages) \<longleftrightarrow> True"
| "cmd_ok (ReadPages sz pages) \<longleftrightarrow> list_all tbxPage pages \<and> totalSize pages \<le> unat sz"
| "cmd_ok (WriteMMIO off val msk) \<longleftrightarrow> True"
| "cmd_ok (WritePCICFG off val) \<longleftrightarrow> True"
| "cmd_ok c \<longleftrightarrow> False"

text \<open>The file has no record for the configuration space.\<close>

definition sameMemory :: "device \<Rightarrow> device \<Rightarrow> bool" where
  "sameMemory d d' \<longleftrightarrow> dv_mem d = dv_mem d' \<and> dv_mmio d = dv_mmio d' \<and> dv_gtt d = dv_gtt d'"

lemma replayEvent_same: "sameMemory d d' \<Longrightarrow> sameMemory (replayEvent ev d) (replayEvent ev d')"
  by (cases ev) (auto simp: sameMemory_def Let_def)

lemma replay_same: "sameMemory d d' \<Longrightarrow> sameMemory (replay evs d) (replay evs d')"
  by (induction evs arbitrary: d d') (auto simp: replay_Cons dest: replayEvent_same simp del: replayEvent.simps)

lemma spaceField_eq:
  assumes "0 \<le> i" "i < 16" "0 \<le> j" "j < 16"
  shows "spaceField i = spaceField j \<longleftrightarrow> i = j"
proof -
  have "unat (spaceField k) = nat k" if "0 \<le> k" "k < 16" for k
    using that by (simp add: spaceField_def unsigned_ucast_eq unsigned_of_int take_bit_int_eq_self take_bit_nat_eq_self nat_less_iff)
  then show ?thesis
    using assms by (metis eq_nat_nat_iff)
qed

lemma memSpace_field:
  "0 \<le> i \<Longrightarrow> i < 16 \<Longrightarrow> memSpace (spaceField i) = memoryType (isLocalSpace i)"
  "0 \<le> i \<Longrightarrow> i < 16 \<Longrightarrow> spaceField i = gttSpace \<longleftrightarrow> i = addressSpaceValue TraceGttEntry"
  by (simp_all add: memSpace_def gttSpace_def isLocalSpace_def spaceField_eq)

lemma pageSpace [simp]:
  "memSpace (spaceField (addressSpaceOf l)) = memoryType l" "spaceField (addressSpaceOf l) \<noteq> gttSpace"
  by (cases l; simp add: memSpace_field addressSpaceOf_def isLocalSpace_def)+

context tbx_simulator
begin

section \<open>The simulator side\<close>

definition streamSynced :: "'p TbxStream \<Rightarrow> device \<Rightarrow> bool" where
  "streamSynced st d \<longleftrightarrow> (\<exists>s. tx_socket st = Some s \<and> synced s d \<and> \<not> ts_frontdoorMode s)"

lemma onSocket_synced:
  assumes "streamSynced st d"
    and "\<And>s. synced s d \<Longrightarrow> \<not> ts_frontdoorMode s \<Longrightarrow> \<exists>s'. f s = Inr (x, s') \<and> keeps s s' \<and> synced s' d'"
  shows "\<exists>st'. onSocket f st = Inr (x, st') \<and> streamSynced st' d'"
  using assms(1) assms(2) by (fastforce simp: streamSynced_def onSocket_def keeps_def)

lemma stream_writeMemory:
  assumes "streamSynced st d" and "bs \<noteq> []" and "length bs < 2 ^ 31" and "a < 2 ^ 40"
  shows "\<exists>st'. onSocket (tbx_writeMemory api a bs l) st = Inr (True, st')
    \<and> streamSynced st' (d\<lparr>dv_mem := (dv_mem d)(memoryType l := memStore a bs (dv_mem d (memoryType l)))\<rparr>)"
proof (rule onSocket_synced [OF assms(1)])
  fix s :: "'p TbxSocketsImp"
  assume "synced s d" and "\<not> ts_frontdoorMode s"
  then show "\<exists>s'. tbx_writeMemory api a bs l s = Inr (True, s') \<and> keeps s s'
      \<and> synced s' (d\<lparr>dv_mem := (dv_mem d)(memoryType l := memStore a bs (dv_mem d (memoryType l)))\<rparr>)"
    using writeMemory_direct [of s d a bs l] assms(2-4) by (simp add: memoryOf_def addressOf_def Let_def)
qed

lemma stream_writeGTT:
  assumes "streamSynced st d"
  shows "\<exists>st'. onSocket (writeGTT api off e) st = Inr (True, st') \<and> streamSynced st' (d\<lparr>dv_gtt := (dv_gtt d)(off div 8 := e)\<rparr>)"
  by (rule onSocket_synced [OF assms]) (rule writeGTT_direct)

lemma stream_writeMMIO:
  assumes "streamSynced st d"
  shows "\<exists>st'. tx_writeMMIO api u off val msk st = Inr st' \<and> streamSynced st' (replay [EvRegisterWrite off msk val] d)"
proof -
  have wr: "\<exists>st'. onSocket (tbx_writeMMIO api off v) st = Inr (True, st') \<and> streamSynced st' (d\<lparr>dv_mmio := (dv_mmio d)(off := v)\<rparr>)"
    if "streamSynced st d" for v st
    by (rule onSocket_synced [OF that]) (rule writeMMIO_direct)
  have rd: "\<exists>st'. tx_readMMIO api u off st = Inr (dv_mmio d off, st') \<and> streamSynced st' d"
    unfolding tx_readMMIO_def
    by (rule onSocket_synced [OF assms]) (use readMMIO_direct [of _ d off u] in \<open>fastforce simp: bindR_Inr_iff\<close>)
  show ?thesis
  proof (cases "msk = 0xffffffff")
    case True
    then have "msk = - 1"
      by simp
    then have "(x AND NOT msk) OR (val AND msk) = val" for x
      by simp
    then show ?thesis
      using wr [OF assms, of val] True by (auto simp: tx_writeMMIO_def replay_Cons)
  next
    case False
    obtain st1 where st1: "tx_readMMIO api u off st = Inr (dv_mmio d off, st1)" "streamSynced st1 d"
      using rd by blast
    then show ?thesis
      using wr [OF st1(2), of "(dv_mmio d off AND NOT msk) OR (val AND msk)"] False
      by (auto simp: tx_writeMMIO_def replay_Cons)
  qed
qed

lemma stream_writePCICFG:
  assumes "streamSynced st d"
  shows "\<exists>st' d'. tx_writePCICFG api off val st = Inr st' \<and> streamSynced st' d' \<and> sameMemory d' d"
proof -
  let ?d = "d\<lparr>dv_cfg := (dv_cfg d)((ucast (0 :: u32), ucast (2 :: u32), ucast (0 :: u32), off) := val)\<rparr>"
  have "\<exists>st'. onSocket (tbx_writePCICFG api 0 2 0 off val) st = Inr (True, st') \<and> streamSynced st' ?d"
    by (rule onSocket_synced [OF assms]) (rule writePCICFG_direct)
  then show ?thesis
    by (force simp: tx_writePCICFG_def sameMemory_def)
qed

lemma qwordBytes_Nil [simp]: "qwordBytes v \<noteq> []"
  by (metis length_0_conv qwordBytes_length zero_neq_numeral)

lemma stream_writePages:
  "streamSynced st d \<Longrightarrow> list_all tbxPage ps \<Longrightarrow> totalSize ps \<le> length memory \<Longrightarrow>
   \<exists>st'. tx_writePages api memory ps st = Inr st' \<and> streamSynced st' (replay (pageEvents hint ps memory) d)"
proof (induction ps arbitrary: memory st d)
  case (Cons p ps)
  let ?n = "unat (pi_size p)" and ?l = "pi_isLocalMemory p"
  let ?bs = "take ?n memory"
  have p: "0 < ?n" "?n < 2 ^ 31" "pi_physicalAddress p < 2 ^ 40" "?n \<le> length memory"
    using Cons.prems(2,3) by (simp_all add: tbxPage_def word_less_nat_alt)
  then have bs: "length ?bs = ?n" "?bs \<noteq> []"
    by auto
  define d1 where "d1 = d\<lparr>dv_mem := (dv_mem d)(memoryType ?l := memStore (pi_physicalAddress p) ?bs (dv_mem d (memoryType ?l)))\<rparr>"
  obtain st1 where st1: "onSocket (tbx_writeMemory api (pi_physicalAddress p) ?bs ?l) st = Inr (True, st1)" "streamSynced st1 d1"
    using stream_writeMemory [OF Cons.prems(1) bs(2) _ p(3)] bs(1) p(2) unfolding d1_def by metis
  have "replay (stores (spaceField (addressSpaceOf ?l)) (hintField hint) (pi_physicalAddress p) ?bs) d = d1"
    using replay_stores [of "spaceField (addressSpaceOf ?l)" ?bs "hintField hint" "pi_physicalAddress p" d] bs(1) p(2)
    by (simp only: d1_def pageSpace) simp
  moreover have "totalSize ps \<le> length (drop ?n memory)"
    using Cons.prems(3) by simp
  ultimately show ?case
    using Cons.IH [OF st1(2), of "drop ?n memory"] Cons.prems(2) st1(1) p(4) by (simp add: bytesOf_def)
qed simp

lemma stream_writeGttEntries:
  "streamSynced st d \<Longrightarrow> list_all gttEntry es \<Longrightarrow>
   \<exists>st'. tx_writeGttEntries api es st = Inr st' \<and> streamSynced st' (replay (entryEvents (addressSpaceValue TraceGttEntry) hint es) d)"
proof (induction es arbitrary: st d)
  case (Cons e es)
  let ?a = "pe_physicalAddress e"
  have "unat ?a < 2 ^ 32"
    using Cons.prems(2) by (simp add: gttEntry_def word_less_nat_alt)
  then have "(ucast ?a :: u32) div 8 = ucast (?a div 8)"
    by (simp add: word_unat_eq_iff unat_div unsigned_ucast_eq take_bit_nat_eq_self)
  then obtain st1 where st1: "onSocket (writeGTT api (ucast ?a) (pe_tableEntry e)) st = Inr (True, st1)"
      "streamSynced st1 (replay (stores gttSpace (hintField hint) ?a (qwordBytes (pe_tableEntry e))) d)"
    using stream_writeGTT [OF Cons.prems(1), of "ucast ?a" "pe_tableEntry e"] Cons.prems(2) replay_entry [of ?a]
    by (auto simp: gttEntry_def)
  then show ?case
    using Cons.IH [OF st1(2)] Cons.prems(2) by (simp add: entryEvents_def gttSpace_def)
qed (simp add: entryEvents_def)

lemma stream_writeMemoryEntries:
  assumes "0 \<le> space" "space < 16" "space \<noteq> addressSpaceValue TraceGttEntry"
  shows "streamSynced st d \<Longrightarrow> list_all memEntry es \<Longrightarrow>
   \<exists>st'. tx_writeMemoryEntries api (isLocalSpace space) es st = Inr st' \<and> streamSynced st' (replay (entryEvents space hint es) d)"
proof (induction es arbitrary: st d)
  case (Cons e es)
  let ?a = "pe_physicalAddress e" and ?bs = "qwordBytes (pe_tableEntry e)" and ?m = "memoryType (isLocalSpace space)"
  define d1 where "d1 = d\<lparr>dv_mem := (dv_mem d)(?m := memStore ?a ?bs (dv_mem d ?m))\<rparr>"
  have a: "?a < 2 ^ 40" and len: "length ?bs < 2 ^ 31"
    using Cons.prems(2) by (simp_all add: memEntry_def)
  obtain st1 where st1: "onSocket (tbx_writeMemory api ?a ?bs (isLocalSpace space)) st = Inr (True, st1)" "streamSynced st1 d1"
    using stream_writeMemory [OF Cons.prems(1) qwordBytes_Nil len a] unfolding d1_def by blast
  have "replay (stores (spaceField space) (hintField hint) ?a ?bs) d = d1"
    using replay_stores [of "spaceField space" ?bs "hintField hint" ?a d] assms
    by (simp only: d1_def memSpace_field) simp
  then show ?case
    using Cons.IH [OF st1(2)] Cons.prems(2) st1(1) by (simp add: entryEvents_def)
qed (simp add: entryEvents_def)

lemma stream_writeEntries:
  assumes "streamSynced st d" and "cmd_ok (WriteEntries es space hint)"
  shows "\<exists>st'. tx_writeEntries api es space st = Inr st' \<and> streamSynced st' (replay (entryEvents space hint es) d)"
  using assms stream_writeGttEntries [OF assms(1), of es hint] stream_writeMemoryEntries [of space st d es hint]
  by (auto simp: tx_writeEntries_def)

text \<open>Reads change nothing.\<close>

lemma stream_readPages:
  "synced s d \<Longrightarrow> \<not> ts_frontdoorMode s \<Longrightarrow> list_all tbxPage ps \<Longrightarrow> off + totalSize ps \<le> length memory \<Longrightarrow>
   \<exists>m s'. readPages_loop api ps off memory s = Inr (m, s') \<and> keeps s s' \<and> synced s' d"
proof (induction ps arbitrary: off memory s)
  case Nil
  then show ?case
    by (simp add: keeps_def)
next
  case (Cons p ps)
  let ?n = "unat (pi_size p)"
  have "op_ok (ts_frontdoorMode s) (ReadMem (pi_physicalAddress p) (pi_size p) (pi_isLocalMemory p))"
    using Cons.prems(3) by (simp add: tbxPage_def)
  then obtain bs s1 where s1: "tbx_readMemory api (pi_physicalAddress p) (pi_size p) (pi_isLocalMemory p) s = Inr (True, bs, s1)"
      "keeps s s1" "synced s1 d" "length bs = ?n"
    using readMemory_direct [OF Cons.prems(1), of "pi_physicalAddress p" "pi_size p" "pi_isLocalMemory p"]
    by (force simp: memLoad_def)
  let ?m = "take off memory @ bs @ drop (off + ?n) memory"
  have "off + ?n + totalSize ps \<le> length ?m"
    using Cons.prems(4) s1(4) by simp
  then show ?case
    using Cons.IH [OF s1(3), of "off + ?n" ?m] Cons.prems(2-4) s1 by (auto simp: storeBytes_def keeps_def)
qed

section \<open>Both sides\<close>

lemma cmd_agrees:
  assumes st: "streamSynced st d" and f: "healthy f" and ok: "cmd_ok c"
  shows "\<exists>evs st' d'. writesEvents f (fileExec c f) evs \<and> tbxExec fuel api u c st = Some (Inr st')
    \<and> streamSynced st' d' \<and> sameMemory d' (replay evs d)"
proof -
  have same: "sameMemory x x" for x
    by (simp add: sameMemory_def)
  show ?thesis
  proof (cases c)
    case (AddComment message)
    obtain chunks where "writesEvents f (addComment message f) (map EvComment chunks)"
      using addComment_event [OF f] by blast
    moreover have "replay (map EvComment chunks) d = d"
      by (induction chunks) (simp_all add: replay_Cons)
    ultimately show ?thesis
      using AddComment st same by fastforce
  next
    case (WriteGttPages ggtt es)
    then show ?thesis
      using stream_writeGttEntries [OF st, of es "hintValue ''TraceNotype''"] ok same
        writeEntries_event [OF f, of es "addressSpaceValue TraceGttEntry" "hintValue ''TraceNotype''"]
      by (fastforce simp: writeGttPages_def tx_writeGttPages_def tx_writeEntries_def)
  next
    case (WritePages memory sz pages hint)
    have "\<forall>p\<in>set pages. goodPage p"
      using ok WritePages by (auto simp: goodPage_def tbxPage_def list_all_iff word_less_nat_alt)
    then show ?thesis
      using writePages_event [OF f, of pages sz memory hint] stream_writePages [OF st, of pages memory hint] ok WritePages same
      by fastforce
  next
    case (WriteEntries es space hint)
    then show ?thesis
      using stream_writeEntries [OF st, of es space hint] ok writeEntries_event [OF f, of es space hint] same by fastforce
  next
    case (ReserveContiguousPages pages)
    have "replay (map (\<lambda>p. EvRegion p 0x10000) pages) d = d"
      by (induction pages) (simp_all add: replay_Cons)
    then show ?thesis
      using reserve_events [OF f, of pages] ReserveContiguousPages st same by fastforce
  next
    case (ReadPages sz pages)
    obtain s where s: "tx_socket st = Some s" "synced s d" "\<not> ts_frontdoorMode s"
      using st by (auto simp: streamSynced_def)
    have "\<exists>st'. bindR (tx_readDiscontiguousPages api (replicate (unat sz) 0) pages st) (\<lambda>(_, st). Inr st) = Inr st' \<and> streamSynced st' d"
      using stream_readPages [OF s(2,3), of pages 0 "replicate (unat sz) 0"] ok ReadPages s(1,3) st
      by (auto simp: tx_readDiscontiguousPages_def onSocket_def streamSynced_def keeps_def)
    then show ?thesis
      using ReadPages writesEvents_none [of f] same by fastforce
  next
    case (WriteMMIO off val msk)
    then show ?thesis
      using stream_writeMMIO [OF st, of u off val msk] writeMMIO_event [OF f, of off val msk] same by fastforce
  next
    case (WritePCICFG off val)
    then show ?thesis
      using stream_writePCICFG [OF st, of off val] writesEvents_none [of f] by fastforce
  qed (use ok in simp_all)
qed

lemma cmds_agree:
  "streamSynced (at_tbxStream st) d \<Longrightarrow> healthy (at_aubFileStream st) \<Longrightarrow> \<not> at_isAubFileStreamPaused st \<Longrightarrow> list_all cmd_ok cs \<Longrightarrow>
   \<exists>st' bs evs d'. aubTbxExecAll fuel api u cs st = Some (Inr st') \<and> at_aubFileStream st' = emit bs (at_aubFileStream st)
     \<and> encodes bs evs \<and> streamSynced (at_tbxStream st') d' \<and> sameMemory d' (replay evs d)"
proof (induction cs arbitrary: st d)
  case Nil
  then show ?case
    by (intro exI [of _ st] exI [of _ "[]"] exI [of _ d]) (simp add: sameMemory_def)
next
  case (Cons c cs)
  obtain evs1 t1 d1 where c: "writesEvents (at_aubFileStream st) (fileExec c (at_aubFileStream st)) evs1"
      "tbxExec fuel api u c (at_tbxStream st) = Some (Inr t1)" "streamSynced t1 d1" "sameMemory d1 (replay evs1 d)"
    using cmd_agrees [OF Cons.prems(1,2), of c fuel u] Cons.prems(4) by auto
  obtain bs1 where bs1: "fileExec c (at_aubFileStream st) = Inr (emit bs1 (at_aubFileStream st))" "encodes bs1 evs1"
    using c(1) by (auto simp: writesEvents_def)
  define st1 where "st1 = st\<lparr>at_aubFileStream := emit bs1 (at_aubFileStream st), at_tbxStream := t1\<rparr>"
  have exec: "aubTbxExec fuel api u c st = Some (Inr st1)"
    using bs1(1) c(2) Cons.prems(3) by (simp add: aubTbxExec_def st1_def)
  obtain st2 bs2 evs2 d2 where st2: "aubTbxExecAll fuel api u cs st1 = Some (Inr st2)"
      "at_aubFileStream st2 = emit bs2 (at_aubFileStream st1)" "encodes bs2 evs2" "streamSynced (at_tbxStream st2) d2"
      "sameMemory d2 (replay evs2 d1)"
    using Cons.IH [of st1 d1] Cons.prems c(3) by (auto simp: st1_def)
  have "sameMemory d2 (replay (evs1 @ evs2) d)"
    using st2(5) replay_same [OF c(4), of evs2] by (simp add: sameMemory_def)
  then show ?case
    using exec st2 bs1(2) encodes_append [OF bs1(2) st2(3)]
    by (intro exI [of _ st2] exI [of _ "bs1 @ bs2"] exI [of _ "evs1 @ evs2"] exI [of _ d2]) (simp add: st1_def)
qed

end

section \<open>Claim\<close>


definition example_cmds :: "StreamCmd list" where
  "example_cmds = [WritePages [1, 2, 3, 4] 4 [\<lparr>pi_physicalAddress = 0x1000, pi_size = 4, pi_isLocalMemory = True, pi_memoryBank = 1\<rparr>] 0,
     WriteEntries [\<lparr>pe_physicalAddress = 0x2000, pe_tableEntry = 0x1001\<rparr>] 1 0,
     WriteGttPages (0, False) [\<lparr>pe_physicalAddress = 0x10, pe_tableEntry = 0x5001\<rparr>], WriteMMIO 0x2030 3 1]"


end
