(* ===== verification/TbxShmStream.thy ===== *)
theory TbxShmStream
  imports TbxStream
begin

text \<open>
  The stream to a simulator that shares its memory with the process (\<^verbatim>\<open>tbx_shm_stream.h\<close>,
  \<^verbatim>\<open>tbx_shm_stream.cpp\<close>) and the stream that writes a file beside it (\<^verbatim>\<open>aub_shm_stream.h\<close>).  Memory goes
  through the shared pages, registers through the socket.  The log is left out.
\<close>

section \<open>Copying\<close>

text \<open>
  \<^verbatim>\<open>memcpy_s\<close> of \<^verbatim>\<open>memcpy_s.h\<close>, once with the shared memory as the destination and once as the source; 0
  is the null pointer.  The results are the status and what the destination holds.
\<close>

definition memcpy_to :: "u64 \<Rightarrow> usize \<Rightarrow> u8 list \<Rightarrow> (u64 \<Rightarrow> u8) \<Rightarrow> int \<times> (u64 \<Rightarrow> u8)" where
  "memcpy_to dst destSize bs mem =
     (if dst = 0 then (-22, mem)
      else if unat destSize < length bs then (-34, mem)
      else (0, memStore dst bs mem))"

definition memcpy_from :: "usize \<Rightarrow> u64 \<Rightarrow> usize \<Rightarrow> (u64 \<Rightarrow> u8) \<Rightarrow> int \<times> u8 list" where
  "memcpy_from destSize src n mem =
     (if src = 0 then (-22, [])
      else if destSize < n then (-34, [])
      else (0, memLoad src (unat n) mem))"

section \<open>The stream\<close>

text \<open>
  \<open>sh_memory\<close> is the shared memory by host address, \<open>sh_calls\<close> counts the calls of the clock and the passes of
  the polling loop.
\<close>

record 'p TbxShmStream =
  sh_socket :: "'p TbxSocketsImp option"
  sh_memory :: "u64 \<Rightarrow> u8"
  sh_lastTimeCheck :: int
  sh_calls :: nat
  sh_mode :: u32

text \<open>
  What a call needs beside the stream: the system, the function that translates a physical address, a size and
  the kind of memory into a host address and the number of bytes available there, the clock in nanoseconds,
  what the simulator does to the memory between two passes of a poll, and the content of a variable that has
  not been assigned.
\<close>

record 'p shm_env =
  sv_api :: "'p socket_api"
  sv_translate :: "u64 \<Rightarrow> usize \<Rightarrow> bool \<Rightarrow> u64 \<times> usize"
  sv_clock :: "nat \<Rightarrow> int"
  sv_simulator :: "nat \<Rightarrow> (u64 \<Rightarrow> u8) \<Rightarrow> u64 \<Rightarrow> u8"
  sv_uninit :: u32

definition newTbxShmStream :: "u32 \<Rightarrow> (u64 \<Rightarrow> u8) \<Rightarrow> 'p TbxShmStream" where
  "newTbxShmStream m memory = \<lparr>sh_socket = None, sh_memory = memory, sh_lastTimeCheck = 0, sh_calls = 0, sh_mode = m\<rparr>"

definition deleteTbxShmStream :: "'p TbxShmStream \<Rightarrow> 'p TbxShmStream" where
  "deleteTbxShmStream st = (case sh_socket st of None \<Rightarrow> st | Some s \<Rightarrow> st\<lparr>sh_socket := None\<rparr>)"

definition onShmSocket ::
  "('p TbxSocketsImp \<Rightarrow> ('a \<times> 'p TbxSocketsImp) result) \<Rightarrow> 'p TbxShmStream \<Rightarrow> ('a \<times> 'p TbxShmStream) result" where
  "onShmSocket f st = (case sh_socket st of
       None \<Rightarrow> Inl NullDereference
     | Some s \<Rightarrow> bindR (f s) (\<lambda>(x, s). Inr (x, st\<lparr>sh_socket := Some s\<rparr>)))"

text \<open>The initialisation all streams share must not be called.\<close>

definition sh_initDescriptor :: "'p socket_api \<Rightarrow> 'p TbxShmStream \<Rightarrow> (bool \<times> 'p TbxShmStream) result" where
  "sh_initDescriptor api st = assertD api False (Inr (False, st))"

definition sh_init ::
  "nat \<Rightarrow> 'p socket_api \<Rightarrow> 'p \<Rightarrow> string \<Rightarrow> bool \<Rightarrow> 'p TbxShmStream \<Rightarrow> (bool \<times> 'p TbxShmStream) result option" where
  "sh_init fuel api peer tbxServerIp tbxFrontdoorMode st =
     (case tbx_init fuel api tbxServerIp tbxFrontdoorMode (newTbxSocketsImp peer) of
        None \<Rightarrow> None
      | Some r \<Rightarrow> Some (bindR r (\<lambda>(ok, s). Inr (ok, st\<lparr>sh_socket := Some s\<rparr>))))"

definition sh_enableThrowOnError :: "bool \<Rightarrow> 'p TbxShmStream \<Rightarrow> 'p TbxShmStream result" where
  "sh_enableThrowOnError enabled st =
     bindR (onShmSocket (\<lambda>s. Inr ((), tbx_enableThrowOnError enabled s)) st) (\<lambda>(_, st). Inr st)"

definition sh_getStreamMode :: "'p TbxShmStream \<Rightarrow> u32" where
  "sh_getStreamMode st = sh_mode st"

text \<open>The simulator is asked at most once in ten seconds whether it is there; the answer is not looked at.\<close>

definition checkSocketAlive :: "'p shm_env \<Rightarrow> 'p TbxShmStream \<Rightarrow> 'p TbxShmStream result" where
  "checkSocketAlive env st =
     (let currentTime = sv_clock env (sh_calls st); st = st\<lparr>sh_calls := sh_calls st + 1\<rparr>
      in if (currentTime - sh_lastTimeCheck st) div 1000000000 > 10
         then bindR (onShmSocket (stillConnected (sv_api env)) st) (\<lambda>(_, st). Inr (st\<lparr>sh_lastTimeCheck := currentTime\<rparr>))
         else Inr st)"

section \<open>Memory\<close>

text \<open>One copy; its status is ignored.\<close>

definition sh_copyIn :: "'p shm_env \<Rightarrow> u64 \<Rightarrow> u8 list \<Rightarrow> bool \<Rightarrow> 'p TbxShmStream \<Rightarrow> 'p TbxShmStream" where
  "sh_copyIn env physAddress bs isLocal st =
     (let (p, destSize) = sv_translate env physAddress (word_of_nat (length bs)) isLocal
      in st\<lparr>sh_memory := snd (memcpy_to p destSize bs (sh_memory st))\<rparr>)"

definition sh_copyOut :: "'p shm_env \<Rightarrow> u64 \<Rightarrow> usize \<Rightarrow> bool \<Rightarrow> 'p TbxShmStream \<Rightarrow> u8 list" where
  "sh_copyOut env physAddress sz isLocal st =
     (let (p, availableSize) = sv_translate env physAddress sz isLocal
      in snd (memcpy_from availableSize p sz (sh_memory st)))"

definition sh_readContiguousPages ::
  "'p shm_env \<Rightarrow> u8 list \<Rightarrow> usize \<Rightarrow> u64 \<Rightarrow> int \<Rightarrow> 'p TbxShmStream \<Rightarrow> (u8 list \<times> 'p TbxShmStream) result" where
  "sh_readContiguousPages env memory sz physAddress addressSpace st =
     bindR (storeBytes 0 (sh_copyOut env physAddress sz (isLocalSpace addressSpace) st) memory) (\<lambda>memory.
     bindR (checkSocketAlive env st) (\<lambda>st. Inr (memory, st)))"

fun sh_readPages :: "'p shm_env \<Rightarrow> PageInfo list \<Rightarrow> nat \<Rightarrow> u8 list \<Rightarrow> 'p TbxShmStream \<Rightarrow> u8 list result" where
  "sh_readPages env [] off memory st = Inr memory"
| "sh_readPages env (e # es) off memory st =
     bindR (storeBytes off (sh_copyOut env (pi_physicalAddress e) (pi_size e) (pi_isLocalMemory e) st) memory) (\<lambda>memory.
     sh_readPages env es (off + unat (pi_size e)) memory st)"

definition sh_readDiscontiguousPages ::
  "'p shm_env \<Rightarrow> u8 list \<Rightarrow> PageInfo list \<Rightarrow> 'p TbxShmStream \<Rightarrow> (u8 list \<times> 'p TbxShmStream) result" where
  "sh_readDiscontiguousPages env memory es st =
     bindR (sh_readPages env es 0 memory st) (\<lambda>memory. bindR (checkSocketAlive env st) (\<lambda>st. Inr (memory, st)))"

definition sh_writeContiguousPages ::
  "'p shm_env \<Rightarrow> u8 list \<Rightarrow> usize \<Rightarrow> u64 \<Rightarrow> int \<Rightarrow> 'p TbxShmStream \<Rightarrow> 'p TbxShmStream result" where
  "sh_writeContiguousPages env memory sz physAddress addressSpace st =
     bindR (bytesOf sz memory) (\<lambda>bs.
     checkSocketAlive env (sh_copyIn env physAddress bs (isLocalSpace addressSpace) st))"

fun sh_writePages :: "'p shm_env \<Rightarrow> u8 list \<Rightarrow> PageInfo list \<Rightarrow> 'p TbxShmStream \<Rightarrow> 'p TbxShmStream result" where
  "sh_writePages env memory [] st = checkSocketAlive env st"
| "sh_writePages env memory (e # es) st =
     bindR (bytesOf (pi_size e) memory) (\<lambda>bs.
     sh_writePages env (drop (unat (pi_size e)) memory) es
       (sh_copyIn env (pi_physicalAddress e) bs (pi_isLocalMemory e) st))"

fun sh_copyEntries :: "'p shm_env \<Rightarrow> bool \<Rightarrow> PageEntryInfo list \<Rightarrow> 'p TbxShmStream \<Rightarrow> 'p TbxShmStream" where
  "sh_copyEntries env isLocal [] st = st"
| "sh_copyEntries env isLocal (e # es) st =
     sh_copyEntries env isLocal es
       (sh_copyIn env (pe_physicalAddress e) (qwordBytes (pe_tableEntry e)) isLocal st)"

definition sh_writeEntries :: "'p shm_env \<Rightarrow> PageEntryInfo list \<Rightarrow> int \<Rightarrow> 'p TbxShmStream \<Rightarrow> 'p TbxShmStream result" where
  "sh_writeEntries env es addressSpace st =
     assertD (sv_api env) (addressSpace \<noteq> addressSpaceValue TraceGttEntry)
       (checkSocketAlive env (sh_copyEntries env (isLocalSpace addressSpace) es st))"

text \<open>The entries of the global table go to the memory that holds it.\<close>

definition sh_writeGttPages :: "'p shm_env \<Rightarrow> u64 \<times> bool \<Rightarrow> PageEntryInfo list \<Rightarrow> 'p TbxShmStream \<Rightarrow> 'p TbxShmStream result" where
  "sh_writeGttPages env ggtt es st = (case ggtt of (gttTableOffset, isLocal) \<Rightarrow>
     checkSocketAlive env (sh_copyEntries env isLocal
       (map (\<lambda>e. e\<lparr>pe_physicalAddress := gttTableOffset + pe_physicalAddress e\<rparr>) es) st))"

section \<open>Registers and polls\<close>

text \<open>Unlike \<open>registerPoll_loop\<close> the loop does not stop when the read fails.\<close>

fun sh_registerPoll_loop ::
  "nat \<Rightarrow> 'p socket_api \<Rightarrow> u32 \<Rightarrow> u32 \<Rightarrow> u32 \<Rightarrow> bool \<Rightarrow> 'p TbxSocketsImp \<Rightarrow> 'p TbxSocketsImp result option" where
  "sh_registerPoll_loop 0 api off msk desired pollNotEqual s = None"
| "sh_registerPoll_loop (Suc fuel) api off msk desired pollNotEqual s =
     (case tbx_readMMIO api off 0 s of
        Inl err \<Rightarrow> Some (Inl err)
      | Inr (status, val, s) \<Rightarrow>
          if ((val AND msk) = desired) = pollNotEqual
          then sh_registerPoll_loop fuel api off msk desired pollNotEqual s
          else Some (Inr s))"

definition sh_registerPoll ::
  "nat \<Rightarrow> 'p shm_env \<Rightarrow> u32 \<Rightarrow> u32 \<Rightarrow> u32 \<Rightarrow> bool \<Rightarrow> 'p TbxShmStream \<Rightarrow> 'p TbxShmStream result option" where
  "sh_registerPoll fuel env off msk desired pollNotEqual st = (case sh_socket st of
       None \<Rightarrow> Some (Inl NullDereference)
     | Some s \<Rightarrow> map_option (\<lambda>r. bindR r (\<lambda>s. Inr (st\<lparr>sh_socket := Some s\<rparr>)))
         (sh_registerPoll_loop fuel (sv_api env) off msk desired pollNotEqual s))"

fun sh_memoryPoll_loop ::
  "nat \<Rightarrow> 'p shm_env \<Rightarrow> PageInfo \<Rightarrow> u32 \<Rightarrow> u32 \<Rightarrow> 'p TbxShmStream \<Rightarrow> 'p TbxShmStream result option" where
  "sh_memoryPoll_loop 0 env e val compareMode st = None"
| "sh_memoryPoll_loop (Suc fuel) env e val compareMode st =
     (let st = st\<lparr>sh_memory := sv_simulator env (sh_calls st) (sh_memory st), sh_calls := sh_calls st + 1\<rparr>;
          (p, _) = sv_translate env (pi_physicalAddress e) (pi_size e) (pi_isLocalMemory e);
          (err, bs) = memcpy_from 4 p 4 (sh_memory st)
      in case compareMemory (if err = 0 then dwordAt 0 bs else 0) val compareMode of
           Inl err \<Rightarrow> Some (Inl err)
         | Inr True \<Rightarrow> Some (Inr st)
         | Inr False \<Rightarrow> sh_memoryPoll_loop fuel env e val compareMode st)"

definition sh_memoryPoll ::
  "nat \<Rightarrow> 'p shm_env \<Rightarrow> PageInfo list \<Rightarrow> u32 \<Rightarrow> u32 \<Rightarrow> 'p TbxShmStream \<Rightarrow> 'p TbxShmStream result option" where
  "sh_memoryPoll fuel env es val compareMode st = (case es of
       [] \<Rightarrow> Some (assertD (sv_api env) False (Inl IndexOutOfRange))
     | e # rest \<Rightarrow>
         if rest \<noteq> [] \<and> \<not> so_ndebug (sv_api env) then Some (Inl AssertionFailure)
         else sh_memoryPoll_loop fuel env e val compareMode st)"

definition sh_writeMMIO :: "'p shm_env \<Rightarrow> u32 \<Rightarrow> u32 \<Rightarrow> u32 \<Rightarrow> 'p TbxShmStream \<Rightarrow> 'p TbxShmStream result" where
  "sh_writeMMIO env off val msk st =
     bindR (if msk \<noteq> 0xffffffff
            then bindR (onShmSocket (\<lambda>s. bindR (tbx_readMMIO (sv_api env) off 0 s) (\<lambda>(_, v, s). Inr (v, s))) st)
                   (\<lambda>(current, st). Inr ((current AND NOT msk) OR (val AND msk), st))
            else Inr (val, st)) (\<lambda>(val, st).
     bindR (onShmSocket (tbx_writeMMIO (sv_api env) off val) st) (\<lambda>(_, st). Inr st))"

definition sh_readMMIO :: "'p shm_env \<Rightarrow> u32 \<Rightarrow> 'p TbxShmStream \<Rightarrow> (u32 \<times> 'p TbxShmStream) result" where
  "sh_readMMIO env off =
     onShmSocket (\<lambda>s. bindR (tbx_readMMIO (sv_api env) off (sv_uninit env) s) (\<lambda>(_, v, s). Inr (v, s)))"

definition sh_readPCICFG :: "'p shm_env \<Rightarrow> u32 \<Rightarrow> 'p TbxShmStream \<Rightarrow> (u32 \<times> 'p TbxShmStream) result" where
  "sh_readPCICFG env off =
     onShmSocket (\<lambda>s. bindR (tbx_readPCICFG (sv_api env) 0 2 0 off (sv_uninit env) s) (\<lambda>(_, v, s). Inr (v, s)))"

definition sh_writePCICFG :: "'p shm_env \<Rightarrow> u32 \<Rightarrow> u32 \<Rightarrow> 'p TbxShmStream \<Rightarrow> 'p TbxShmStream result" where
  "sh_writePCICFG env off val st =
     bindR (onShmSocket (tbx_writePCICFG (sv_api env) 0 2 0 off val) st) (\<lambda>(_, st). Inr st)"

section \<open>The calls of a stream\<close>

text \<open>The functions the class leaves empty do nothing.\<close>

fun shmExec :: "nat \<Rightarrow> 'p shm_env \<Rightarrow> StreamCmd \<Rightarrow> 'p TbxShmStream \<Rightarrow> 'p TbxShmStream result option" where
  "shmExec fuel env (AddComment message) st = Some (Inr st)"
| "shmExec fuel env (WriteGttPages ggtt es) st = Some (sh_writeGttPages env ggtt es st)"
| "shmExec fuel env (WritePages memory sz pages hint) st = Some (sh_writePages env memory pages st)"
| "shmExec fuel env (WriteEntries es space hint) st = Some (sh_writeEntries env es space st)"
| "shmExec fuel env (ExpectMemoryTable memory sz pages op) st = Some (Inr st)"
| "shmExec fuel env (ReserveContiguousPages pages) st = Some (Inr st)"
| "shmExec fuel env (ReadPages sz pages) st =
     Some (bindR (sh_readDiscontiguousPages env (replicate (unat sz) 0) pages st) (\<lambda>(_, st). Inr st))"
| "shmExec fuel env (MemoryPoll es val mode) st = sh_memoryPoll fuel env es val mode st"
| "shmExec fuel env (RegisterPoll off msk val ne t) st = sh_registerPoll fuel env off msk val ne st"
| "shmExec fuel env (WriteMMIO off val msk) st = Some (sh_writeMMIO env off val msk st)"
| "shmExec fuel env (WritePCICFG off val) st = Some (sh_writePCICFG env off val st)"
| "shmExec fuel env (DeclareContext h ppgtt) st = Some (Inr st)"
| "shmExec fuel env (DumpBufferBIN gtt a sz h) st = Some (Inr st)"
| "shmExec fuel env (DumpSurface gtt si h) st = Some (Inr st)"

fun shmExecAll :: "nat \<Rightarrow> 'p shm_env \<Rightarrow> StreamCmd list \<Rightarrow> 'p TbxShmStream \<Rightarrow> 'p TbxShmStream result option" where
  "shmExecAll fuel env [] st = Some (Inr st)"
| "shmExecAll fuel env (c # cs) st = (case shmExec fuel env c st of
       None \<Rightarrow> None | Some (Inl e) \<Rightarrow> Some (Inl e) | Some (Inr st) \<Rightarrow> shmExecAll fuel env cs st)"

section \<open>File and shared memory together\<close>

record 'p AubShmStream =
  as_aubFileStream :: AubFileStream
  as_tbxShmStream :: "'p TbxShmStream"
  as_isAubFileStreamPaused :: bool
  as_isTbxStreamBlockedForMemWrites :: bool

definition as_pauseAubFileStream :: "bool \<Rightarrow> 'p AubShmStream \<Rightarrow> 'p AubShmStream" where
  "as_pauseAubFileStream onoff st = st\<lparr>as_isAubFileStreamPaused := onoff\<rparr>"

definition blockMemWritesViaTbxStream :: "bool \<Rightarrow> 'p AubShmStream \<Rightarrow> 'p AubShmStream" where
  "blockMemWritesViaTbxStream onoff st = st\<lparr>as_isTbxStreamBlockedForMemWrites := onoff\<rparr>"

definition as_arePageTableWritesFullyCommitted :: "'p AubShmStream \<Rightarrow> bool" where
  "as_arePageTableWritesFullyCommitted st \<longleftrightarrow> \<not> as_isAubFileStreamPaused st \<and> \<not> as_isTbxStreamBlockedForMemWrites st"

definition as_getStreamMode :: u32 where "as_getStreamMode = mode_aubFileAndShm"

text \<open>The calls that a block of the memory writes keeps from the simulator.\<close>

fun isMemWrite :: "StreamCmd \<Rightarrow> bool" where
  "isMemWrite (WritePages memory sz pages hint) \<longleftrightarrow> True"
| "isMemWrite (WriteEntries es space hint) \<longleftrightarrow> True"
| "isMemWrite c \<longleftrightarrow> False"

text \<open>
  While the file is not paused, a write of the configuration space goes to the simulator twice: the call that
  would write it to the file has the other stream as its object.
\<close>

definition aubShmExec :: "nat \<Rightarrow> 'p shm_env \<Rightarrow> StreamCmd \<Rightarrow> 'p AubShmStream \<Rightarrow> 'p AubShmStream result option" where
  "aubShmExec fuel env c st =
     (case (if as_isAubFileStreamPaused st then Inr (as_aubFileStream st) else fileExec c (as_aubFileStream st)) of
        Inl e \<Rightarrow> Some (Inl e)
      | Inr f \<Rightarrow>
          (let twice = (\<not> as_isAubFileStreamPaused st \<and> (case c of WritePCICFG off val \<Rightarrow> True | _ \<Rightarrow> False));
               calls = (if isMemWrite c \<and> as_isTbxStreamBlockedForMemWrites st then []
                        else if twice then [c, c] else [c])
           in map_option (\<lambda>r. bindR r (\<lambda>t. Inr (st\<lparr>as_aubFileStream := f, as_tbxShmStream := t\<rparr>)))
                (shmExecAll fuel env calls (as_tbxShmStream st))))"

fun aubShmExecAll :: "nat \<Rightarrow> 'p shm_env \<Rightarrow> StreamCmd list \<Rightarrow> 'p AubShmStream \<Rightarrow> 'p AubShmStream result option" where
  "aubShmExecAll fuel env [] st = Some (Inr st)"
| "aubShmExecAll fuel env (c # cs) st = (case aubShmExec fuel env c st of
       None \<Rightarrow> None | Some (Inl e) \<Rightarrow> Some (Inl e) | Some (Inr st) \<Rightarrow> aubShmExecAll fuel env cs st)"

definition as_init ::
  "'p socket_api \<Rightarrow> u32 \<Rightarrow> int \<Rightarrow> Gpu \<Rightarrow> 'p AubShmStream \<Rightarrow> (bool \<times> 'p AubShmStream) result" where
  "as_init api aubStreamCaller steppingValue gpu st =
     bindR (afs_init aubStreamCaller steppingValue gpu (as_aubFileStream st)) (\<lambda>f.
     bindR (sh_initDescriptor api (as_tbxShmStream st)) (\<lambda>(ok, t).
     Inr (ok, st\<lparr>as_aubFileStream := f, as_tbxShmStream := t\<rparr>)))"

definition onShm :: "('p TbxShmStream \<Rightarrow> ('a \<times> 'p TbxShmStream) result) \<Rightarrow> 'p AubShmStream \<Rightarrow> ('a \<times> 'p AubShmStream) result" where
  "onShm f st = bindR (f (as_tbxShmStream st)) (\<lambda>(x, t). Inr (x, st\<lparr>as_tbxShmStream := t\<rparr>))"

definition as_readMMIO :: "'p shm_env \<Rightarrow> u32 \<Rightarrow> 'p AubShmStream \<Rightarrow> (u32 \<times> 'p AubShmStream) result" where
  "as_readMMIO env off = onShm (sh_readMMIO env off)"

definition as_readPCICFG :: "'p shm_env \<Rightarrow> u32 \<Rightarrow> 'p AubShmStream \<Rightarrow> (u32 \<times> 'p AubShmStream) result" where
  "as_readPCICFG env off = onShm (sh_readPCICFG env off)"

definition as_readDiscontiguousPages ::
  "'p shm_env \<Rightarrow> u8 list \<Rightarrow> PageInfo list \<Rightarrow> 'p AubShmStream \<Rightarrow> (u8 list \<times> 'p AubShmStream) result" where
  "as_readDiscontiguousPages env memory es = onShm (sh_readDiscontiguousPages env memory es)"

definition as_writeContiguousPages ::
  "'p shm_env \<Rightarrow> u8 list \<Rightarrow> usize \<Rightarrow> u64 \<Rightarrow> int \<Rightarrow> int \<Rightarrow> 'p AubShmStream \<Rightarrow> 'p AubShmStream result" where
  "as_writeContiguousPages env memory sz physAddress addressSpace hint st =
     bindR (if as_isAubFileStreamPaused st then Inr (as_aubFileStream st)
            else writeContiguousPages memory sz physAddress addressSpace hint (as_aubFileStream st)) (\<lambda>f.
     bindR (if as_isTbxStreamBlockedForMemWrites st then Inr (as_tbxShmStream st)
            else sh_writeContiguousPages env memory sz physAddress addressSpace (as_tbxShmStream st)) (\<lambda>t.
     Inr (st\<lparr>as_aubFileStream := f, as_tbxShmStream := t\<rparr>)))"

end
