(* ===== verification/ShmProps.thy ===== *)
theory ShmProps
  imports Backends TbxShmStream
begin

text \<open>
  The shared memory backend and the file agree: what the AUB file records, replayed on a device, is what lies in
  the shared memory and in the registers of the simulator afterwards.  The locale \<open>shared_pages\<close> is what the
  stream relies on from the translation of physical addresses.
\<close>

section \<open>The translation\<close>

text \<open>
  \<open>mapped l a n\<close> says that the \<open>n\<close> bytes at the physical address \<open>a\<close> lie in one piece of the shared memory, at
  the host address \<open>host l a\<close>; no two mapped bytes share a host address.
\<close>

text \<open>The shared memory holds what the device has at every mapped byte.\<close>

definition memoryAgrees ::
  "(bool \<Rightarrow> u64 \<Rightarrow> nat \<Rightarrow> bool) \<Rightarrow> (bool \<Rightarrow> u64 \<Rightarrow> u64) \<Rightarrow> (u64 \<Rightarrow> u8) \<Rightarrow> (u32 \<Rightarrow> u64 \<Rightarrow> u8) \<Rightarrow> bool" where
  "memoryAgrees mapped host mem dev \<longleftrightarrow> (\<forall>l a. mapped l a 1 \<longrightarrow> mem (host l a) = dev (memoryType l) a)"

text \<open>The calls whose memory is mapped.\<close>

fun sharedCall :: "(bool \<Rightarrow> u64 \<Rightarrow> nat \<Rightarrow> bool) \<Rightarrow> StreamCmd \<Rightarrow> bool" where
  "sharedCall mapped (AddComment message) \<longleftrightarrow> True"
| "sharedCall mapped (WritePages memory sz pages hint) \<longleftrightarrow> pages \<noteq> [] \<and> totalSize pages = unat sz \<and> unat sz \<le> length memory
     \<and> (\<forall>p\<in>set pages. goodPage p \<and> mapped (pi_isLocalMemory p) (pi_physicalAddress p) (unat (pi_size p)))"
| "sharedCall mapped (WriteEntries es space hint) \<longleftrightarrow> 0 \<le> space \<and> space < 16 \<and> space \<noteq> addressSpaceValue TraceGttEntry
     \<and> (\<forall>e\<in>set es. mapped (isLocalSpace space) (pe_physicalAddress e) 8)"
| "sharedCall mapped (ReserveContiguousPages pages) \<longleftrightarrow> True"
| "sharedCall mapped (WriteMMIO off val msk) \<longleftrightarrow> True"
| "sharedCall mapped (WritePCICFG off val) \<longleftrightarrow> True"
| "sharedCall mapped c \<longleftrightarrow> False"

locale shared_pages =
  fixes tr :: "u64 \<Rightarrow> usize \<Rightarrow> bool \<Rightarrow> u64 \<times> usize" and mapped :: "bool \<Rightarrow> u64 \<Rightarrow> nat \<Rightarrow> bool"
    and host :: "bool \<Rightarrow> u64 \<Rightarrow> u64"
  assumes translates: "mapped l a n \<Longrightarrow> n < 2 ^ 64 \<Longrightarrow> 0 < n \<Longrightarrow> \<exists>avail. tr a (word_of_nat n) l = (host l a, avail) \<and> n \<le> unat avail"
    and not_null: "mapped l a n \<Longrightarrow> host l a \<noteq> 0"
    and in_one_piece: "mapped l a n \<Longrightarrow> i < n \<Longrightarrow> mapped l (a + word_of_nat i) 1 \<and> host l (a + word_of_nat i) = host l a + word_of_nat i"
    and apart: "mapped l a 1 \<Longrightarrow> mapped l' b 1 \<Longrightarrow> host l a = host l' b \<Longrightarrow> l = l' \<and> a = b"
begin

abbreviation holds :: "(u64 \<Rightarrow> u8) \<Rightarrow> (u32 \<Rightarrow> u64 \<Rightarrow> u8) \<Rightarrow> bool" where
  "holds \<equiv> memoryAgrees mapped host"

lemma in_block_iff:
  assumes "mapped l a n" and "mapped l' x 1" and "n < 2 ^ 64"
  shows "unat (host l' x - host l a) < n \<longleftrightarrow> l' = l \<and> unat (x - a) < n"
proof
  assume lt: "unat (host l' x - host l a) < n"
  let ?i = "unat (host l' x - host l a)"
  have "mapped l (a + word_of_nat ?i) 1" "host l (a + word_of_nat ?i) = host l a + word_of_nat ?i"
    using in_one_piece [OF assms(1) lt] by simp_all
  then have l: "l' = l" and x: "x = a + word_of_nat ?i"
    using apart [OF assms(2)] by fastforce+
  have "x - a = word_of_nat ?i"
    using x by (metis add_diff_cancel_left')
  then show "l' = l \<and> unat (x - a) < n"
    using lt l by simp
next
  assume l: "l' = l \<and> unat (x - a) < n"
  then have "host l (a + word_of_nat (unat (x - a))) = host l a + word_of_nat (unat (x - a))"
    using in_one_piece [OF assms(1)] by blast
  then show "unat (host l' x - host l a) < n"
    using l by simp
qed

lemma holds_store:
  assumes "mapped l a (length bs)" and "length bs < 2 ^ 64" and "holds mem dev"
  shows "holds (memStore (host l a) bs mem) (dev(memoryType l := memStore a bs (dev (memoryType l))))"
  unfolding memoryAgrees_def
proof (intro allI impI)
  fix l' x
  assume x: "mapped l' x 1"
  have "unat (host l' x - host l a) = unat (x - a)" if "l' = l" "unat (x - a) < length bs"
    using in_one_piece [OF assms(1) that(2)] that(1) by simp
  moreover have "memoryType l' = memoryType l \<longleftrightarrow> l' = l"
    by (simp add: memoryType_def tbx_types)
  ultimately show "memStore (host l a) bs mem (host l' x) = (dev(memoryType l := memStore a bs (dev (memoryType l)))) (memoryType l') x"
    using in_block_iff [OF assms(1) x assms(2)] assms(3) x by (auto simp: memStore_def memoryAgrees_def)
qed

text \<open>One write.\<close>

lemma copyIn_holds:
  assumes "sv_translate env = tr" and "mapped l a (length bs)" and "bs \<noteq> []" and "length bs < 2 ^ 64" and "holds (sh_memory st) dev"
  shows "\<exists>mem. sh_copyIn env a bs l st = st\<lparr>sh_memory := mem\<rparr>
    \<and> holds mem (dev(memoryType l := memStore a bs (dev (memoryType l))))"
proof -
  obtain avail where "tr a (word_of_nat (length bs)) l = (host l a, avail)" "length bs \<le> unat avail"
    using translates [OF assms(2,4)] assms(3) by auto
  then have "sh_copyIn env a bs l st = st\<lparr>sh_memory := memStore (host l a) bs (sh_memory st)\<rparr>"
    using not_null [OF assms(2)] by (simp add: sh_copyIn_def memcpy_to_def assms(1))
  then show ?thesis
    using holds_store [OF assms(2,4,5)] by blast
qed

end

section \<open>A shared memory in one piece\<close>

text \<open>The mode \<open>mode_tbxShm\<close>: two arrays, for system and for local memory.\<close>

definition flatTranslate :: "u64 \<Rightarrow> u64 \<Rightarrow> u64 \<Rightarrow> u64 \<Rightarrow> u64 \<Rightarrow> usize \<Rightarrow> bool \<Rightarrow> u64 \<times> usize" where
  "flatTranslate sysBase sysSize localBase localSize physAddress n isLocal =
     ((if isLocal then localBase else sysBase) + physAddress, (if isLocal then localSize else sysSize) - physAddress)"

text \<open>The two arrays are not null, do not wrap and do not overlap.\<close>

definition flatArrays :: "u64 \<Rightarrow> u64 \<Rightarrow> u64 \<Rightarrow> u64 \<Rightarrow> bool" where
  "flatArrays sysBase sysSize localBase localSize \<longleftrightarrow> 0 < unat sysBase \<and> unat sysBase + unat sysSize \<le> unat localBase
     \<and> unat localBase + unat localSize < 2 ^ 64"

definition flatMapped :: "u64 \<Rightarrow> u64 \<Rightarrow> u64 \<Rightarrow> u64 \<Rightarrow> bool \<Rightarrow> u64 \<Rightarrow> nat \<Rightarrow> bool" where
  "flatMapped sysBase sysSize localBase localSize l a n \<longleftrightarrow>
     flatArrays sysBase sysSize localBase localSize \<and> unat a + n \<le> unat (if l then localSize else sysSize)"

definition flatHost :: "u64 \<Rightarrow> u64 \<Rightarrow> bool \<Rightarrow> u64 \<Rightarrow> u64" where
  "flatHost sysBase localBase l a = (if l then localBase else sysBase) + a"

lemma flatHost_value:
  assumes "flatMapped sysBase sysSize localBase localSize l a n"
  shows "unat (flatHost sysBase localBase l a) = unat (if l then localBase else sysBase) + unat a"
proof -
  have "unat (if l then localBase else sysBase) + unat a < 2 ^ 64"
    using assms by (cases l) (auto simp: flatMapped_def flatArrays_def)
  then show ?thesis
    unfolding flatHost_def by (intro unat_add_small) simp
qed

lemma flatMapped_step:
  assumes "flatMapped sysBase sysSize localBase localSize l a n" and "i < n"
  shows "unat (a + word_of_nat i) = unat a + i"
proof -
  have "unat (if l then localSize else sysSize) < 2 ^ 64"
    using unsigned_less [of "if l then localSize else sysSize"] by simp
  then have i: "unat a + i < 2 ^ 64"
    using assms by (auto simp: flatMapped_def)
  then have "unat (word_of_nat i :: u64) = i"
    by (simp add: unat_word_of_nat_small)
  then show ?thesis
    using i unat_add_small [of a "word_of_nat i"] by simp
qed

interpretation flat: shared_pages "flatTranslate sysBase sysSize localBase localSize"
  "flatMapped sysBase sysSize localBase localSize" "flatHost sysBase localBase"
  for sysBase sysSize localBase localSize :: u64
proof unfold_locales
  fix l a n
  assume m: "flatMapped sysBase sysSize localBase localSize l a n"
  then have "a \<le> (if l then localSize else sysSize)" and "unat a + n \<le> unat (if l then localSize else sysSize)"
    by (auto simp: flatMapped_def word_le_nat_alt)
  then have "n \<le> unat ((if l then localSize else sysSize) - a)"
    by (simp add: unat_sub)
  then show "\<exists>avail. flatTranslate sysBase sysSize localBase localSize a (word_of_nat n) l = (flatHost sysBase localBase l a, avail) \<and> n \<le> unat avail"
    by (simp add: flatTranslate_def flatHost_def)
next
  fix l a n
  assume m: "flatMapped sysBase sysSize localBase localSize l a n"
  then have "0 < unat (flatHost sysBase localBase l a)"
    unfolding flatHost_value [OF m] by (auto simp: flatMapped_def flatArrays_def)
  then show "flatHost sysBase localBase l a \<noteq> 0"
    by (simp add: unat_gt_0)
next
  fix l a n i
  assume "flatMapped sysBase sysSize localBase localSize l a n" and "i < n"
  then show "flatMapped sysBase sysSize localBase localSize l (a + word_of_nat i) 1
      \<and> flatHost sysBase localBase l (a + word_of_nat i) = flatHost sysBase localBase l a + word_of_nat i"
    using flatMapped_step by (auto simp: flatMapped_def flatHost_def add.assoc)
next
  fix l a l' b
  assume m: "flatMapped sysBase sysSize localBase localSize l a 1" "flatMapped sysBase sysSize localBase localSize l' b 1"
    and eq: "flatHost sysBase localBase l a = flatHost sysBase localBase l' b"
  then have "unat (if l then localBase else sysBase) + unat a = unat (if l' then localBase else sysBase) + unat b"
    using flatHost_value by metis
  then show "l = l' \<and> a = b"
    using m by (cases l; cases l') (auto simp: flatMapped_def flatArrays_def word_unat_eq_iff)
qed

section \<open>The simulator side\<close>

lemma stillConnected_direct:
  "tbx_simulator api sent got d0 \<Longrightarrow> tbx_simulator.synced sent got d0 s d \<Longrightarrow>
   \<exists>s'. stillConnected api s = Inr (True, s') \<and> tbx_simulator.synced sent got d0 s' d"
proof -
  assume loc: "tbx_simulator api sent got d0" and s: "tbx_simulator.synced sent got d0 s d"
  have dec: "decodeRequest HAS_MARKER_REQ_TYPE [] = Some (Immediate ReqMarker)"
    by (simp add: decodeRequest_def tbx_types)
  obtain p' out where "exchange api (hasMessage HAS_MARKER_REQ_TYPE (ts_transID s) []) 12 HAS_MARKER_RES_TYPE (ts_transID s) (nextTransID s)
      = Inr (Reply (hasMessage HAS_MARKER_RES_TYPE (ts_transID s) []), (nextTransID s)\<lparr>ts_peer := p'\<rparr>)"
      "simulate d0 (sent p') = (d, out, [])" "got p' = length out"
    using tbx_simulator.exchange_request [OF loc s, of "[]" HAS_MARKER_REQ_TYPE ReqMarker "ts_transID s" d HAS_MARKER_RES_TYPE "[]" "[]"] dec
    by auto
  then show ?thesis
    using tbx_simulator.synced_after [OF loc s, of p' d out]
    by (auto simp: stillConnected_def sizeof_HAS_HDR_def Let_def)
qed

section \<open>Both sides\<close>

locale shm_simulator = tbx_simulator api sent got d0 + shared_pages tr mapped host
  for api :: "'p socket_api" and sent got d0 tr mapped host +
  fixes env :: "'p shm_env"
  assumes env_api: "sv_api env = api" and env_translate: "sv_translate env = tr"
begin

text \<open>The registers of the simulated device and the shared memory are those of \<open>D\<close>.\<close>

definition agrees :: "'p TbxShmStream \<Rightarrow> device \<Rightarrow> bool" where
  "agrees st D \<longleftrightarrow> (\<exists>s d. sh_socket st = Some s \<and> synced s d \<and> dv_mmio d = dv_mmio D) \<and> holds (sh_memory st) (dv_mem D)"

lemma agrees_check:
  assumes "agrees st D"
  shows "\<exists>st'. checkSocketAlive env st = Inr st' \<and> agrees st' D"
proof -
  obtain s d where s: "sh_socket st = Some s" "synced s d" "dv_mmio d = dv_mmio D"
    using assms by (auto simp: agrees_def)
  obtain s' where "stillConnected api s = Inr (True, s')" "synced s' d"
    using stillConnected_direct [OF tbx_simulator_axioms s(2)] by blast
  then show ?thesis
    using assms s by (auto simp: checkSocketAlive_def Let_def onShmSocket_def env_api agrees_def)
qed

definition storeIn :: "bool \<Rightarrow> u64 \<Rightarrow> u8 list \<Rightarrow> device \<Rightarrow> device" where
  "storeIn l a bs D = D\<lparr>dv_mem := (dv_mem D)(memoryType l := memStore a bs (dv_mem D (memoryType l)))\<rparr>"

lemma agrees_copyIn:
  assumes "agrees st D" and "mapped l a (length bs)" and "bs \<noteq> []" and "length bs < 2 ^ 64"
  shows "agrees (sh_copyIn env a bs l st) (storeIn l a bs D)"
proof -
  obtain mem where "sh_copyIn env a bs l st = st\<lparr>sh_memory := mem\<rparr>"
      "holds mem ((dv_mem D)(memoryType l := memStore a bs (dv_mem D (memoryType l))))"
    using copyIn_holds [OF env_translate assms(2-4), of st "dv_mem D"] assms(1) by (auto simp: agrees_def)
  then show ?thesis
    using assms(1) by (simp add: agrees_def storeIn_def)
qed

lemma agrees_writePages:
  "agrees st D \<Longrightarrow> \<forall>p\<in>set ps. goodPage p \<and> mapped (pi_isLocalMemory p) (pi_physicalAddress p) (unat (pi_size p)) \<Longrightarrow>
   totalSize ps \<le> length memory \<Longrightarrow>
   \<exists>st'. sh_writePages env memory ps st = Inr st' \<and> agrees st' (replay (pageEvents hint ps memory) D)"
proof (induction ps arbitrary: memory st D)
  case Nil
  then show ?case
    using agrees_check by simp
next
  case (Cons p ps)
  let ?n = "unat (pi_size p)" and ?l = "pi_isLocalMemory p"
  let ?bs = "take ?n memory"
  have p: "0 < ?n" "?n < 2 ^ 34 - 4" "mapped ?l (pi_physicalAddress p) ?n" "?n \<le> length memory"
    using Cons.prems(2,3) by (simp_all add: goodPage_def)
  then have bs: "length ?bs = ?n" "?bs \<noteq> []" "length ?bs < 2 ^ 64" "length ?bs \<le> 2 ^ 64"
    by auto
  have ev: "replay (stores (spaceField (addressSpaceOf ?l)) (hintField hint) (pi_physicalAddress p) ?bs) D = storeIn ?l (pi_physicalAddress p) ?bs D"
    using replay_stores [of "spaceField (addressSpaceOf ?l)" ?bs "hintField hint" "pi_physicalAddress p" D] bs(4)
    by (simp only: storeIn_def pageSpace) simp
  have "agrees (sh_copyIn env (pi_physicalAddress p) ?bs ?l st) (storeIn ?l (pi_physicalAddress p) ?bs D)"
    using agrees_copyIn [OF Cons.prems(1) _ bs(2,3)] p(3) bs(1) by simp
  moreover have "totalSize ps \<le> length (drop ?n memory)"
    using Cons.prems(3) by simp
  ultimately show ?case
    using Cons.IH [of "sh_copyIn env (pi_physicalAddress p) ?bs ?l st" _ "drop ?n memory"] Cons.prems(2) p(4)
    by (simp add: bytesOf_def ev)
qed

lemma agrees_copyEntries:
  assumes "0 \<le> space" "space < 16" "space \<noteq> addressSpaceValue TraceGttEntry"
  shows "agrees st D \<Longrightarrow> \<forall>e\<in>set es. mapped (isLocalSpace space) (pe_physicalAddress e) 8 \<Longrightarrow>
   agrees (sh_copyEntries env (isLocalSpace space) es st) (replay (entryEvents space hint es) D)"
proof (induction es arbitrary: st D)
  case (Cons e es)
  let ?a = "pe_physicalAddress e" and ?bs = "qwordBytes (pe_tableEntry e)" and ?l = "isLocalSpace space"
  have "length ?bs = 8"
    by simp
  then have len: "length ?bs < 2 ^ 64" "mapped ?l ?a (length ?bs)"
    using Cons.prems(2) by simp_all
  have "replay (stores (spaceField space) (hintField hint) ?a ?bs) D = storeIn ?l ?a ?bs D"
    using replay_stores [of "spaceField space" ?bs "hintField hint" ?a D] assms
    by (simp only: storeIn_def memSpace_field) simp
  then show ?case
    using Cons.IH [OF agrees_copyIn [OF Cons.prems(1) len(2) qwordBytes_Nil len(1)]] Cons.prems(2)
    by (simp add: entryEvents_def)
qed (simp add: entryEvents_def)

abbreviation shm_ok :: "StreamCmd \<Rightarrow> bool" where
  "shm_ok \<equiv> sharedCall mapped"

lemma onShmSocket_agrees:
  assumes "agrees st D"
    and "\<And>s d. synced s d \<Longrightarrow> dv_mmio d = dv_mmio D \<Longrightarrow> \<exists>s' d'. f s = Inr (x, s') \<and> synced s' d' \<and> dv_mmio d' = dv_mmio D'"
    and "dv_mem D' = dv_mem D"
  shows "\<exists>st'. onShmSocket f st = Inr (x, st') \<and> agrees st' D'"
  using assms by (fastforce simp: agrees_def onShmSocket_def)

lemma agrees_writeMMIO:
  assumes "agrees st D"
  shows "\<exists>st'. sh_writeMMIO env off val msk st = Inr st' \<and> agrees st' (replay [EvRegisterWrite off msk val] D)"
proof -
  have wr: "\<exists>st'. onShmSocket (tbx_writeMMIO api off v) st = Inr (True, st') \<and> agrees st' (D\<lparr>dv_mmio := (dv_mmio D)(off := v)\<rparr>)"
    if "agrees st D" for v st
    by (rule onShmSocket_agrees [OF that]) (use writeMMIO_direct in \<open>fastforce\<close>, simp)
  have rd: "\<exists>st'. onShmSocket (\<lambda>s. bindR (tbx_readMMIO api off 0 s) (\<lambda>(_, v, s). Inr (v, s))) st = Inr (dv_mmio D off, st') \<and> agrees st' D"
    by (rule onShmSocket_agrees [OF assms]) (use readMMIO_direct [of _ _ off 0] in \<open>fastforce simp: bindR_Inr_iff\<close>, simp)
  show ?thesis
  proof (cases "msk = 0xffffffff")
    case True
    then have "msk = - 1"
      by simp
    then have "(x AND NOT msk) OR (val AND msk) = val" for x
      by simp
    then show ?thesis
      using wr [OF assms, of val] True by (auto simp: sh_writeMMIO_def replay_Cons env_api)
  next
    case False
    obtain st1 where st1: "onShmSocket (\<lambda>s. bindR (tbx_readMMIO api off 0 s) (\<lambda>(_, v, s). Inr (v, s))) st = Inr (dv_mmio D off, st1)"
        "agrees st1 D"
      using rd by blast
    then show ?thesis
      using wr [OF st1(2), of "(dv_mmio D off AND NOT msk) OR (val AND msk)"] False
      by (auto simp: sh_writeMMIO_def replay_Cons env_api)
  qed
qed

lemma agrees_writePCICFG:
  assumes "agrees st D"
  shows "\<exists>st'. sh_writePCICFG env off val st = Inr st' \<and> agrees st' D"
proof -
  have "\<exists>st'. onShmSocket (tbx_writePCICFG api 0 2 0 off val) st = Inr (True, st') \<and> agrees st' D"
    by (rule onShmSocket_agrees [OF assms]) (use writePCICFG_direct [of _ _ 0 2 0 off val] in \<open>fastforce\<close>, simp)
  then show ?thesis
    by (auto simp: sh_writePCICFG_def env_api)
qed

lemma shm_cmd_agrees:
  assumes st: "agrees (as_tbxShmStream st) D" and f: "healthy (as_aubFileStream st)" and ok: "shm_ok c"
    and run: "\<not> as_isAubFileStreamPaused st" "\<not> as_isTbxStreamBlockedForMemWrites st"
  shows "\<exists>evs bs t. encodes bs evs \<and> agrees t (replay evs D)
    \<and> aubShmExec fuel env c st = Some (Inr (st\<lparr>as_aubFileStream := emit bs (as_aubFileStream st), as_tbxShmStream := t\<rparr>))"
proof -
  let ?f = "as_aubFileStream st" and ?t = "as_tbxShmStream st"
  have step: ?thesis if ev: "writesEvents ?f (fileExec c ?f) evs" and "shmExec fuel env c ?t = Some (Inr t)" and "agrees t (replay evs D)"
    and "\<And>off val. c \<noteq> WritePCICFG off val" for evs t
  proof -
    obtain bs where "fileExec c ?f = Inr (emit bs ?f)" "encodes bs evs"
      using ev by (auto simp: writesEvents_def)
    then show ?thesis
      using that(2-4) run by (intro exI [of _ evs] exI [of _ bs] exI [of _ t]) (simp add: aubShmExec_def Let_def split: StreamCmd.split)
  qed
  show ?thesis
  proof (cases c)
    case (AddComment message)
    obtain chunks where ev: "writesEvents ?f (addComment message ?f) (map EvComment chunks)"
      using addComment_event [OF f] by blast
    have "replay (map EvComment chunks) D = D"
      by (induction chunks) (simp_all add: replay_Cons)
    then show ?thesis
      using step [of "map EvComment chunks" ?t] ev AddComment st by simp
  next
    case (WritePages memory sz pages hint)
    then obtain t where "sh_writePages env memory pages ?t = Inr t" "agrees t (replay (pageEvents hint pages memory) D)"
      using agrees_writePages [OF st, of pages memory hint] ok by auto
    then show ?thesis
      using step [of "pageEvents hint pages memory" t] writePages_event [OF f, of pages sz memory hint] ok WritePages by simp
  next
    case (WriteEntries es space hint)
    then have "agrees (sh_copyEntries env (isLocalSpace space) es ?t) (replay (entryEvents space hint es) D)"
      using agrees_copyEntries [OF _ _ _ st, of space es hint] ok by simp
    then obtain t where "sh_writeEntries env es space ?t = Inr t" "agrees t (replay (entryEvents space hint es) D)"
      using agrees_check ok WriteEntries by (fastforce simp: sh_writeEntries_def assertD_def)
    then show ?thesis
      using step [of "entryEvents space hint es" t] writeEntries_event [OF f, of es space hint] WriteEntries by simp
  next
    case (ReserveContiguousPages pages)
    have "replay (map (\<lambda>p. EvRegion p 0x10000) pages) D = D"
      by (induction pages) (simp_all add: replay_Cons)
    then show ?thesis
      using step [of "map (\<lambda>p. EvRegion p 0x10000) pages" ?t] reserve_events [OF f, of pages] ReserveContiguousPages st by simp
  next
    case (WriteMMIO off val msk)
    then show ?thesis
      using step [of "[EvRegisterWrite off msk val]"] agrees_writeMMIO [OF st, of off val msk] writeMMIO_event [OF f, of off val msk] by auto
  next
    case (WritePCICFG off val)
    obtain t1 where t1: "sh_writePCICFG env off val ?t = Inr t1" "agrees t1 D"
      using agrees_writePCICFG [OF st] by blast
    obtain t2 where "sh_writePCICFG env off val t1 = Inr t2" "agrees t2 D"
      using agrees_writePCICFG [OF t1(2)] by blast
    then show ?thesis
      using t1 WritePCICFG run by (intro exI [of _ "[]"] exI [of _ t2]) (simp add: aubShmExec_def Let_def)
  qed (use ok in simp_all)
qed

lemma shm_cmds_agree:
  "agrees (as_tbxShmStream st) D \<Longrightarrow> healthy (as_aubFileStream st) \<Longrightarrow> \<not> as_isAubFileStreamPaused st \<Longrightarrow>
   \<not> as_isTbxStreamBlockedForMemWrites st \<Longrightarrow> list_all shm_ok cs \<Longrightarrow>
   \<exists>st' bs evs. aubShmExecAll fuel env cs st = Some (Inr st') \<and> as_aubFileStream st' = emit bs (as_aubFileStream st)
     \<and> encodes bs evs \<and> agrees (as_tbxShmStream st') (replay evs D)"
proof (induction cs arbitrary: st D)
  case Nil
  then show ?case
    by (intro exI [of _ st] exI [of _ "[]"]) simp
next
  case (Cons c cs)
  obtain evs1 bs1 t1 where c: "encodes bs1 evs1" "agrees t1 (replay evs1 D)"
      "aubShmExec fuel env c st = Some (Inr (st\<lparr>as_aubFileStream := emit bs1 (as_aubFileStream st), as_tbxShmStream := t1\<rparr>))"
    using shm_cmd_agrees [OF Cons.prems(1,2) _ Cons.prems(3,4), of c fuel] Cons.prems(5) by auto
  define st1 where "st1 = st\<lparr>as_aubFileStream := emit bs1 (as_aubFileStream st), as_tbxShmStream := t1\<rparr>"
  obtain st2 bs2 evs2 where st2: "aubShmExecAll fuel env cs st1 = Some (Inr st2)"
      "as_aubFileStream st2 = emit bs2 (as_aubFileStream st1)" "encodes bs2 evs2" "agrees (as_tbxShmStream st2) (replay evs2 (replay evs1 D))"
    using Cons.IH [of st1 "replay evs1 D"] Cons.prems c(2) by (auto simp: st1_def)
  then show ?case
    using c(3) encodes_append [OF c(1) st2(3)]
    by (intro exI [of _ st2] exI [of _ "bs1 @ bs2"] exI [of _ "evs1 @ evs2"]) (simp add: st1_def)
qed

end

lemma shm_simulatorI:
  "tbx_channel api sent got (simAnswer d) \<Longrightarrow> shared_pages tr mapped host \<Longrightarrow> sv_api env = api \<Longrightarrow> sv_translate env = tr \<Longrightarrow>
   shm_simulator api sent got d tr mapped host env"
  by (simp add: shm_simulator_def shm_simulator_axioms_def tbx_simulator_def)

text \<open>The reference simulator with a shared memory in one piece.\<close>

definition flat_env :: "device \<Rightarrow> (nat \<Rightarrow> nat) \<Rightarrow> bool \<Rightarrow> u64 \<Rightarrow> u64 \<Rightarrow> u64 \<Rightarrow> u64 \<Rightarrow> (nat \<Rightarrow> int) \<Rightarrow> peer shm_env" where
  "flat_env d chunk ndebug sysBase sysSize localBase localSize clock =
     \<lparr>sv_api = sim_api d chunk 0 ndebug, sv_translate = flatTranslate sysBase sysSize localBase localSize,
      sv_clock = clock, sv_simulator = (\<lambda>_ mem. mem), sv_uninit = 0\<rparr>"

interpretation flat_simulator: shm_simulator "sim_api d chunk 0 ndebug" pr_sent pr_got d
  "flatTranslate sysBase sysSize localBase localSize" "flatMapped sysBase sysSize localBase localSize"
  "flatHost sysBase localBase" "flat_env d chunk ndebug sysBase sysSize localBase localSize clock"
  for d :: device and chunk :: "nat \<Rightarrow> nat" and ndebug :: bool and sysBase sysSize localBase localSize :: u64 and clock :: "nat \<Rightarrow> int"
  by (rule shm_simulatorI [OF sim.tbx_channel_axioms flat.shared_pages_axioms]) (simp_all add: flat_env_def)

section \<open>Claims\<close>

text \<open>C3: The file and the shared memory agree.  When the combined stream connects to a simulator that shares its
  memory and gets any sequence of writes of mapped pages, page table entries and registers, of comments and
  reservations, all calls succeed, the records added to the AUB file can be read back, and replaying them on
  the device as it was at the start gives at every mapped byte what the shared memory holds, and the registers
  of the simulated device; the checks whether the simulator is alive, at whatever times they happen, change
  nothing.\<close>

theorem file_and_shared_memory_agree:
  assumes "tbx_channel api sent got (simAnswer d)" and "shared_pages tr mapped host"
    and "sv_api env = api" and "sv_translate env = tr"
    and "reachable_server api name n" and "n < fuel" and "sent p = []" and "got p = 0"
    and "healthy f" and "memoryAgrees mapped host memory (dv_mem d)" and "list_all (sharedCall mapped) cs"
  shows "\<exists>t st s evs d' out. sh_init fuel api p name fd (newTbxShmStream m memory) = Some (Inr (True, t))
    \<and> aubShmExecAll fuel' env cs \<lparr>as_aubFileStream = f, as_tbxShmStream = t, as_isAubFileStreamPaused = False,
        as_isTbxStreamBlockedForMemWrites = False\<rparr> = Some (Inr st)
    \<and> readAub (drop (length (written f)) (written (as_aubFileStream st))) = Some evs
    \<and> memoryAgrees mapped host (sh_memory (as_tbxShmStream st)) (dv_mem (replay evs d))
    \<and> sh_socket (as_tbxShmStream st) = Some s \<and> simulate d (sent (ts_peer s)) = (d', out, [])
    \<and> dv_mmio d' = dv_mmio (replay evs d)"
proof -
  note loc = shm_simulatorI [OF assms(1-4)]
  have sim: "tbx_simulator api sent got d"
    by (simp add: tbx_simulator_def assms(1))
  obtain s0 where s0: "tbx_init fuel api name fd (newTbxSocketsImp p) = Some (Inr (True, s0))"
      "tbx_simulator.synced sent got d s0 d"
    using tbx_simulator.tbx_init_connects [OF sim assms(5-8)] by blast
  define t where "t = (newTbxShmStream m memory)\<lparr>sh_socket := Some s0\<rparr>"
  have init: "sh_init fuel api p name fd (newTbxShmStream m memory) = Some (Inr (True, t))"
    using s0(1) by (simp add: sh_init_def t_def)
  have "shm_simulator.agrees sent got d mapped host t d"
    using s0(2) assms(10) by (auto simp: shm_simulator.agrees_def [OF loc] t_def newTbxShmStream_def)
  then obtain st bs evs where st: "aubShmExecAll fuel' env cs \<lparr>as_aubFileStream = f, as_tbxShmStream = t, as_isAubFileStreamPaused = False,
        as_isTbxStreamBlockedForMemWrites = False\<rparr> = Some (Inr st)" "as_aubFileStream st = emit bs f" "encodes bs evs"
      "shm_simulator.agrees sent got d mapped host (as_tbxShmStream st) (replay evs d)"
    using shm_simulator.shm_cmds_agree [OF loc, of "\<lparr>as_aubFileStream = f, as_tbxShmStream = t, as_isAubFileStreamPaused = False,
        as_isTbxStreamBlockedForMemWrites = False\<rparr>" d cs fuel'] assms(9,11) by auto
  have "readAub bs = Some evs"
    using st(3) [unfolded encodes_def, rule_format, of "[]"] by simp
  then show ?thesis
    using init st by (auto simp: shm_simulator.agrees_def [OF loc] tbx_simulator.synced_def [OF sim])
qed

theorem file_and_shared_memory_agree_witness:
  "let env = flat_env example_device (\<lambda>t. t mod 2) True 0x10000 0x10000 0x80000 0x10000 (\<lambda>n. 20000000000 * int n) in
   \<exists>t st s evs d' out. sh_init 1 (sim_api example_device (\<lambda>t. t mod 2) 0 True) newPeer ''host'' False (newTbxShmStream mode_tbxShm (\<lambda>_. 0)) = Some (Inr (True, t))
    \<and> aubShmExecAll 0 env [WritePages [1, 2, 3, 4] 4 [\<lparr>pi_physicalAddress = 0x1000, pi_size = 4, pi_isLocalMemory = True, pi_memoryBank = 1\<rparr>] 0,
          WriteEntries [\<lparr>pe_physicalAddress = 0x2000, pe_tableEntry = 0x1001\<rparr>] 2 0, WriteMMIO 0x2030 3 1]
        \<lparr>as_aubFileStream = example_stream, as_tbxShmStream = t, as_isAubFileStreamPaused = False, as_isTbxStreamBlockedForMemWrites = False\<rparr> = Some (Inr st)
    \<and> readAub (drop (length (written example_stream)) (written (as_aubFileStream st))) = Some evs
    \<and> memoryAgrees (flatMapped 0x10000 0x10000 0x80000 0x10000) (flatHost 0x10000 0x80000) (sh_memory (as_tbxShmStream st)) (dv_mem (replay evs example_device))
    \<and> sh_socket (as_tbxShmStream st) = Some s \<and> simulate example_device (pr_sent (ts_peer s)) = (d', out, [])
    \<and> dv_mmio d' = dv_mmio (replay evs example_device)"
  unfolding Let_def
  by (rule file_and_shared_memory_agree [OF sim.tbx_channel_axioms flat.shared_pages_axioms _ _ sim_reachable])
     (simp_all add: flat_env_def newPeer_def example_stream_healthy(1) memoryAgrees_def example_device_def goodPage_def
        flatMapped_def flatArrays_def isLocalSpace_def)

text \<open>C34: Waiting for a register on a lost connection: once the socket is in the error state every read gives 0, so a
  wait of the shared memory stream that 0 does not end never returns, however many passes it makes, while
  the stream without shared memory stops at the first failed read.\<close>

theorem shm_registerPoll_hangs:
  assumes "sh_socket st = Some s" and "ts_inErrorState s" and "(desired = 0) = pollNotEqual"
  shows "sh_registerPoll fuel env off msk desired pollNotEqual st = None
    \<and> tx_registerPoll (Suc fuel) (sv_api env) off msk desired pollNotEqual \<lparr>tx_socket = Some s\<rparr> = Some (Inr \<lparr>tx_socket = Some s\<rparr>)"
proof -
  have "sh_registerPoll_loop fuel (sv_api env) off msk desired pollNotEqual s = None"
    using assms(2,3) by (induction fuel) (auto simp: tbx_readMMIO_def)
  then show ?thesis
    using assms by (simp add: sh_registerPoll_def tx_registerPoll_def tbx_readMMIO_def)
qed

theorem shm_registerPoll_hangs_witness:
  "sh_registerPoll 1000 (flat_env example_device (\<lambda>t. t) True 1 1 2 1 int) 0x2234 0x100 0x100 False
     ((newTbxShmStream mode_tbxShm (\<lambda>_. 0))\<lparr>sh_socket := Some ((newTbxSocketsImp newPeer)\<lparr>ts_inErrorState := True\<rparr>)\<rparr>) = None"
  using shm_registerPoll_hangs [of "(newTbxShmStream mode_tbxShm (\<lambda>_. 0))\<lparr>sh_socket := Some ((newTbxSocketsImp newPeer)\<lparr>ts_inErrorState := True\<rparr>)\<rparr>"
      "(newTbxSocketsImp newPeer)\<lparr>ts_inErrorState := True\<rparr>" "0x100" False 1000] by simp

end
