(* ===== verification/CommandStreamer.thy ===== *)
theory CommandStreamer
  imports AubStream
begin

text \<open>
  The engine traits: \<^verbatim>\<open>command_streamer_helper.h\<close> and \<^verbatim>\<open>command_streamer_helper.cpp\<close>.  A
  \<^verbatim>\<open>CommandStreamerHelper\<close> knows the registers of one engine, the layout of its logical ring context
  (LRCA) and the commands of its ring; the functions the core families override are fields of the
  record.  The LRCA is a byte array of the host; a write outside it is undefined behaviour, here
  \<open>IndexOutOfRange\<close>.
\<close>

section \<open>Engines\<close>

definition ENGINE_RCS :: u32 where "ENGINE_RCS = 0"
definition ENGINE_BCS :: u32 where "ENGINE_BCS = 1"
definition ENGINE_VCS :: u32 where "ENGINE_VCS = 2"
definition ENGINE_VECS :: u32 where "ENGINE_VECS = 3"
definition ENGINE_CCS :: u32 where "ENGINE_CCS = 4"
definition ENGINE_CCCS :: u32 where "ENGINE_CCCS = 8"
definition ENGINE_BCS1 :: u32 where "ENGINE_BCS1 = 9"
definition NUM_ENGINES :: u32 where "NUM_ENGINES = 17"

definition ccsEngineOffset :: "u32 \<Rightarrow> u32" where
  "ccsEngineOffset engineId =
     (if engineId \<le> 2 then 0x018000 + engineId * 0x2000
      else if engineId = 3 then 0x024000
      else -1)"

definition bcsLinkEngineOffset :: "u32 \<Rightarrow> u32" where
  "bcsLinkEngineOffset engineId =
     (if 1 \<le> engineId \<and> engineId \<le> 8 then 0x3DC000 + engineId * 0x2000 else -1)"

section \<open>Context descriptors\<close>

record MiContextDescriptorReg =
  cd_Valid :: "1 word"
  cd_ForcePageDirRestore :: "1 word"
  cd_ForceRestore :: "1 word"
  cd_Legacy :: "1 word"
  cd_ADor64bitSupport :: "1 word"
  cd_LlcCoherencySupport :: "1 word"
  cd_FaultSupport :: "2 word"
  cd_PrivilegeAccessOrPPGTT :: "1 word"
  cd_FunctionType :: "3 word"
  cd_LogicalRingCtxAddress :: "20 word"
  cd_Reserved :: "7 word"
  cd_ContextID :: u16
  cd_Reserved2 :: "9 word"

definition descriptorZero :: MiContextDescriptorReg where
  "descriptorZero = \<lparr>cd_Valid = 0, cd_ForcePageDirRestore = 0, cd_ForceRestore = 0, cd_Legacy = 0,
     cd_ADor64bitSupport = 0, cd_LlcCoherencySupport = 0, cd_FaultSupport = 0, cd_PrivilegeAccessOrPPGTT = 0,
     cd_FunctionType = 0, cd_LogicalRingCtxAddress = 0, cd_Reserved = 0, cd_ContextID = 0, cd_Reserved2 = 0\<rparr>"

text \<open>The two dwords of the union: the fields up to the ring address, and the rest.\<close>

definition ulData0 :: "MiContextDescriptorReg \<Rightarrow> u32" where
  "ulData0 d = packBits
     [(1, ucast (cd_Valid d)), (1, ucast (cd_ForcePageDirRestore d)), (1, ucast (cd_ForceRestore d)),
      (1, ucast (cd_Legacy d)), (1, ucast (cd_ADor64bitSupport d)), (1, ucast (cd_LlcCoherencySupport d)),
      (2, ucast (cd_FaultSupport d)), (1, ucast (cd_PrivilegeAccessOrPPGTT d)), (3, ucast (cd_FunctionType d)),
      (20, ucast (cd_LogicalRingCtxAddress d))]"

definition ulData1 :: "MiContextDescriptorReg \<Rightarrow> u32" where
  "ulData1 d = packBits
     [(7, ucast (cd_Reserved d)), (16, ucast (cd_ContextID d)), (9, ucast (cd_Reserved2 d))]"

section \<open>Host arrays\<close>

text \<open>A pointer to an array of bytes obtained by \<^verbatim>\<open>new uint8_t[n]\<close>.\<close>

datatype HostArray = NullArray | Live "u8 list" | Freed

definition arrayBytes :: "HostArray \<Rightarrow> u8 list result" where
  "arrayBytes p = (case p of NullArray \<Rightarrow> Inl NullDereference | Live bs \<Rightarrow> Inr bs | Freed \<Rightarrow> Inl UseAfterFree)"

definition arrayUpdate :: "(u8 list \<Rightarrow> u8 list result) \<Rightarrow> HostArray \<Rightarrow> HostArray result" where
  "arrayUpdate f p = bindR (arrayBytes p) (\<lambda>bs. bindR (f bs) (\<lambda>bs. Inr (Live bs)))"

text \<open>\<^verbatim>\<open>delete[]\<close>: nothing for a null pointer, undefined behaviour for an array already deleted.\<close>

definition deleteArray :: "HostArray \<Rightarrow> HostArray result" where
  "deleteArray p = (case p of NullArray \<Rightarrow> Inr NullArray | Live bs \<Rightarrow> Inr Freed | Freed \<Rightarrow> Inl UseAfterFree)"

definition putDword :: "nat \<Rightarrow> u32 \<Rightarrow> u8 list \<Rightarrow> u8 list result" where
  "putDword off val bs =
     (if off + 4 \<le> length bs then Inr (take off bs @ dwordBytes val @ drop (off + 4) bs)
      else Inl IndexOutOfRange)"

text \<open>Consecutive stores \<^verbatim>\<open>*p++ = ...\<close> from byte offset \<open>off\<close>.\<close>

fun putDwords :: "nat \<Rightarrow> u32 list \<Rightarrow> u8 list \<Rightarrow> u8 list result" where
  "putDwords off [] bs = Inr bs"
| "putDwords off (v # vs) bs = bindR (putDword off v bs) (putDwords (off + 4) vs)"

section \<open>The traits of an engine\<close>

record CommandStreamerHelper =
  csh_name :: string
  csh_gpu :: "Gpu option"
  csh_deviceIndex :: u32
  csh_sizeLRCA :: usize
  csh_aubHintLRCA :: int
  csh_aubHintCommandBuffer :: int
  csh_aubHintBatchBuffer :: int
  csh_engineType :: u32
  csh_mmioDevice :: u32
  csh_mmioEngine :: u32
  csh_getEngineMMIO :: MMIOList
  csh_addFlushCommands :: "u32 list"
  csh_getInitialContextSaveRestoreCtrlValue :: u32
  csh_getRingContextSaveRestoreCtrlValue :: u32
  csh_getPollForCompletionMask :: u32
  csh_isRingDataEnabled :: bool
  csh_initializeRingData :: "u8 list \<Rightarrow> u8 list \<Rightarrow> u32 \<Rightarrow> usize \<Rightarrow> u32 \<Rightarrow> u32 \<Rightarrow> (u8 list \<times> u8 list) result"
  csh_getRingDataOffset :: u32
  csh_setRingDataHead :: "HostArray \<Rightarrow> u32 \<Rightarrow> HostArray result"
  csh_setRingDataTail :: "HostArray \<Rightarrow> u32 \<Rightarrow> HostArray result"
  csh_getHintForInRingCtx :: u32
  csh_memoryBasedPollForCompletion :: bool
  csh_submitContext :: "MiContextDescriptorReg list \<Rightarrow> StreamCmd list result"
  csh_setPriority :: "MiContextDescriptorReg \<Rightarrow> u32 \<Rightarrow> MiContextDescriptorReg"

text \<open>The layout of the LRCA: offsets in bytes, the in-class initialisers that no family changes.\<close>

definition offsetContext :: u32 where "offsetContext = 0x1000"
definition offsetLRI0 :: u32 where "offsetLRI0 = 0x01 * 4"
definition numRegsLRI0 :: u32 where "numRegsLRI0 = 14"
definition numNoops0 :: u32 where "numNoops0 = 3"
definition offsetLRI1 :: u32 where "offsetLRI1 = offsetLRI0 + (1 + numRegsLRI0 * 2 + numNoops0) * 4"
definition numRegsLRI1 :: u32 where "numRegsLRI1 = 9"
definition numNoops1 :: u32 where "numNoops1 = 13"
definition offsetLRI2 :: u32 where "offsetLRI2 = offsetLRI1 + (1 + numRegsLRI1 * 2 + numNoops1) * 4"
definition numRegsLRI2 :: u32 where "numRegsLRI2 = 1"
definition offsetRingRegisters :: u32 where "offsetRingRegisters = offsetLRI0 + 3 * 4"
definition offsetRingHead :: u32 where "offsetRingHead = 0x0 * 4"
definition offsetRingTail :: u32 where "offsetRingTail = 0x2 * 4"
definition offsetRingBase :: u32 where "offsetRingBase = 0x4 * 4"
definition offsetRingCtrl :: u32 where "offsetRingCtrl = 0x6 * 4"
definition offsetBbCurrentHeadReg :: u32 where "offsetBbCurrentHeadReg = 0x8 * 4"
definition offsetPageTableRegisters :: u32 where "offsetPageTableRegisters = offsetLRI1 + 3 * 4"
definition offsetPDP0 :: u32 where "offsetPDP0 = 0xc * 4"
definition offsetPDP1 :: u32 where "offsetPDP1 = 0x8 * 4"
definition offsetPDP2 :: u32 where "offsetPDP2 = 0x4 * 4"
definition offsetPDP3 :: u32 where "offsetPDP3 = 0x0 * 4"

lemmas lrca_offsets = offsetContext_def offsetLRI0_def numRegsLRI0_def numNoops0_def offsetLRI1_def
  numRegsLRI1_def numNoops1_def offsetLRI2_def numRegsLRI2_def offsetRingRegisters_def offsetRingHead_def
  offsetRingTail_def offsetRingBase_def offsetRingCtrl_def offsetBbCurrentHeadReg_def
  offsetPageTableRegisters_def offsetPDP0_def offsetPDP1_def offsetPDP2_def offsetPDP3_def

text \<open>
  The constructor with the defaults of the base class.  The two functions the base class leaves pure
  get empty values here; the families fill them in.
\<close>

definition newCommandStreamerHelper :: "u32 \<Rightarrow> u32 \<Rightarrow> CommandStreamerHelper" where
  "newCommandStreamerHelper deviceIndex offsetEngine =
     (let mmioDevice = deviceIndex * 0x1000000
      in \<lparr>csh_name = ''XCS'', csh_gpu = None, csh_deviceIndex = deviceIndex, csh_sizeLRCA = 0x2000,
          csh_aubHintLRCA = hintValue ''TraceNotype'', csh_aubHintCommandBuffer = hintValue ''TraceCommandBuffer'',
          csh_aubHintBatchBuffer = hintValue ''TraceBatchBuffer'', csh_engineType = NUM_ENGINES,
          csh_mmioDevice = mmioDevice, csh_mmioEngine = mmioDevice + offsetEngine,
          csh_getEngineMMIO = [], csh_addFlushCommands = [],
          csh_getInitialContextSaveRestoreCtrlValue = 0x00090009,
          csh_getRingContextSaveRestoreCtrlValue = 0x00090008,
          csh_getPollForCompletionMask = 0x00000100, csh_isRingDataEnabled = False,
          csh_initializeRingData = (\<lambda>lrca ringState ringData n ring ctrl. Inr (lrca, ringState)),
          csh_getRingDataOffset = 0, csh_setRingDataHead = (\<lambda>p x. Inr p), csh_setRingDataTail = (\<lambda>p x. Inr p),
          csh_getHintForInRingCtx = 0, csh_memoryBasedPollForCompletion = False,
          csh_submitContext = (\<lambda>ds. Inr []), csh_setPriority = (\<lambda>d p. d)\<rparr>)"

section \<open>The engine classes\<close>

definition pipeControlFlush :: "u32 \<Rightarrow> u32 list" where
  "pipeControlFlush flags = [0x7a000004, flags, 0, 0, 0, 0]"

definition rcsFlushCommands :: "u32 list" where
  "rcsFlushCommands =
     pipeControlFlush (push_bit 20 1 OR push_bit 12 1 OR push_bit 5 1 OR push_bit 9 1 OR push_bit 0 1)
     @ pipeControlFlush (push_bit 20 1 OR push_bit 9 1 OR push_bit 2 1 OR push_bit 3 1 OR push_bit 4 1
         OR push_bit 5 1 OR push_bit 10 1 OR push_bit 11 1 OR push_bit 29 1)"

definition miFlushCommands :: "u32 list" where
  "miFlushCommands = [0x13000003, 0, 0, 0, 0]"

definition ccsFlushCommands :: "u32 list" where
  "ccsFlushCommands =
     pipeControlFlush (push_bit 20 1 OR push_bit 5 1 OR push_bit 9 1)
     @ pipeControlFlush (push_bit 20 1 OR push_bit 9 1 OR push_bit 2 1 OR push_bit 3 1
         OR push_bit 5 1 OR push_bit 10 1 OR push_bit 11 1 OR push_bit 29 1)"

definition newCommandStreamerHelperRcs :: "u32 \<Rightarrow> CommandStreamerHelper" where
  "newCommandStreamerHelperRcs deviceIndex = (newCommandStreamerHelper deviceIndex 0x000000)
     \<lparr>csh_aubHintLRCA := hintValue ''TraceLogicalRingContextRcs'',
      csh_aubHintCommandBuffer := hintValue ''TraceCommandBufferPrimary'',
      csh_aubHintBatchBuffer := hintValue ''TraceBatchBufferPrimary'',
      csh_sizeLRCA := 0x11000, csh_name := ''RCS'', csh_engineType := ENGINE_RCS,
      csh_addFlushCommands := rcsFlushCommands\<rparr>"

definition newCommandStreamerHelperBcs :: "u32 \<Rightarrow> CommandStreamerHelper" where
  "newCommandStreamerHelperBcs deviceIndex = (newCommandStreamerHelper deviceIndex 0x020000)
     \<lparr>csh_aubHintLRCA := hintValue ''TraceLogicalRingContextBcs'',
      csh_aubHintCommandBuffer := hintValue ''TraceCommandBufferBlt'',
      csh_aubHintBatchBuffer := hintValue ''TraceBatchBufferBlt'',
      csh_name := ''BCS'', csh_engineType := ENGINE_BCS, csh_addFlushCommands := miFlushCommands\<rparr>"

definition newCommandStreamerHelperVcs :: "u32 \<Rightarrow> CommandStreamerHelper" where
  "newCommandStreamerHelperVcs deviceIndex = (newCommandStreamerHelper deviceIndex 0x1be000)
     \<lparr>csh_aubHintLRCA := hintValue ''TraceLogicalRingContextVcs'',
      csh_aubHintCommandBuffer := hintValue ''TraceCommandBufferMfx'',
      csh_aubHintBatchBuffer := hintValue ''TraceBatchBufferMfx'',
      csh_name := ''VCS'', csh_engineType := ENGINE_VCS, csh_addFlushCommands := miFlushCommands\<rparr>"

definition newCommandStreamerHelperVecs :: "u32 \<Rightarrow> CommandStreamerHelper" where
  "newCommandStreamerHelperVecs deviceIndex = (newCommandStreamerHelper deviceIndex 0x1c6000)
     \<lparr>csh_aubHintLRCA := hintValue ''TraceLogicalRingContextVecs'',
      csh_name := ''VECS'', csh_engineType := ENGINE_VECS, csh_addFlushCommands := miFlushCommands\<rparr>"

definition newCommandStreamerHelperCcs :: "u32 \<Rightarrow> u32 \<Rightarrow> CommandStreamerHelper" where
  "newCommandStreamerHelperCcs deviceId engineId = (newCommandStreamerHelper deviceId (ccsEngineOffset engineId))
     \<lparr>csh_aubHintLRCA := hintValue ''TraceLogicalRingContextCcs'',
      csh_name := ''CCS'', csh_engineType := ENGINE_CCS + engineId, csh_addFlushCommands := ccsFlushCommands\<rparr>"

definition newCommandStreamerHelperCccs :: "u32 \<Rightarrow> CommandStreamerHelper" where
  "newCommandStreamerHelperCccs baseDevice = (newCommandStreamerHelperRcs baseDevice)
     \<lparr>csh_name := ''CCCS'', csh_engineType := ENGINE_CCCS\<rparr>"

definition newCommandStreamerHelperLinkBcs :: "u32 \<Rightarrow> u32 \<Rightarrow> CommandStreamerHelper" where
  "newCommandStreamerHelperLinkBcs deviceIndex engineId =
     (newCommandStreamerHelper deviceIndex (bcsLinkEngineOffset engineId))
     \<lparr>csh_aubHintLRCA := hintValue ''TraceLogicalRingContextBcs'',
      csh_aubHintCommandBuffer := hintValue ''TraceCommandBufferBlt'',
      csh_aubHintBatchBuffer := hintValue ''TraceBatchBufferBlt'',
      csh_name := ''BCS'' @ show_dec (unat engineId), csh_engineType := ENGINE_BCS1 + engineId - 1,
      csh_addFlushCommands := miFlushCommands\<rparr>"

section \<open>Page sizes\<close>

definition isMemorySupported :: "CommandStreamerHelper \<Rightarrow> u32 \<Rightarrow> u32 \<Rightarrow> bool result" where
  "isMemorySupported h memoryBank alignment = (case csh_gpu h of
       None \<Rightarrow> Inl AssertionFailure
     | Some gpu \<Rightarrow> Inr (gpu_isMemorySupported gpu memoryBank alignment))"

definition getSupportedPageSize :: "CommandStreamerHelper \<Rightarrow> u32 \<Rightarrow> usize \<Rightarrow> usize result" where
  "getSupportedPageSize h memoryBank pageSize =
     bindR (isMemorySupported h memoryBank (ucast pageSize)) (\<lambda>supported.
     if \<not> supported
     then let pageSize = (if pageSize = pageSize2MB then 65536
                          else if pageSize = 65536 then 4096 else 65536)
          in bindR (isMemorySupported h memoryBank (ucast pageSize)) (\<lambda>supported.
             assertR supported (Inr pageSize))
     else Inr pageSize)"

section \<open>The logical ring context\<close>

definition ringRegister :: "u32 \<Rightarrow> nat" where
  "ringRegister off = unat (offsetContext + offsetRingRegisters + off)"

definition pageTableRegister :: "u32 \<Rightarrow> nat" where
  "pageTableRegister off = unat (offsetContext + offsetPageTableRegisters + off)"

definition setRingTail :: "CommandStreamerHelper \<Rightarrow> u32 \<Rightarrow> u8 list \<Rightarrow> u8 list result" where
  "setRingTail h ringTail = putDwords (ringRegister offsetRingTail) [csh_mmioEngine h + 0x2030, ringTail]"

definition setRingHead :: "CommandStreamerHelper \<Rightarrow> u32 \<Rightarrow> u8 list \<Rightarrow> u8 list result" where
  "setRingHead h ringHead = putDwords (ringRegister offsetRingHead) [csh_mmioEngine h + 0x2034, ringHead]"

definition setRingBase :: "CommandStreamerHelper \<Rightarrow> u32 \<Rightarrow> u8 list \<Rightarrow> u8 list result" where
  "setRingBase h ringBase = putDwords (ringRegister offsetRingBase) [csh_mmioEngine h + 0x2038, ringBase]"

definition setRingCtrl :: "CommandStreamerHelper \<Rightarrow> u32 \<Rightarrow> u8 list \<Rightarrow> u8 list result" where
  "setRingCtrl h ringCtrl = putDwords (ringRegister offsetRingCtrl) [csh_mmioEngine h + 0x203c, ringCtrl]"

definition setBbCurrentHeadReg :: "CommandStreamerHelper \<Rightarrow> u8 list \<Rightarrow> u8 list result" where
  "setBbCurrentHeadReg h = putDwords (ringRegister offsetBbCurrentHeadReg)
     [csh_mmioEngine h + 0x2168, 0, csh_mmioEngine h + 0x2140, 0]"

definition pdpDwords :: "CommandStreamerHelper \<Rightarrow> u32 \<Rightarrow> u32 \<Rightarrow> u64 \<Rightarrow> u32 list" where
  "pdpDwords h high low address =
     [csh_mmioEngine h + high, ucast (drop_bit 32 address), csh_mmioEngine h + low, ucast (address AND 0xffffffff)]"

definition setPDP0 :: "CommandStreamerHelper \<Rightarrow> u64 \<Rightarrow> u8 list \<Rightarrow> u8 list result" where
  "setPDP0 h address = putDwords (pageTableRegister offsetPDP0) (pdpDwords h 0x2274 0x2270 address)"

definition setPDP1 :: "CommandStreamerHelper \<Rightarrow> u64 \<Rightarrow> u8 list \<Rightarrow> u8 list result" where
  "setPDP1 h address = putDwords (pageTableRegister offsetPDP1) (pdpDwords h 0x227c 0x2278 address)"

definition setPDP2 :: "CommandStreamerHelper \<Rightarrow> u64 \<Rightarrow> u8 list \<Rightarrow> u8 list result" where
  "setPDP2 h address = putDwords (pageTableRegister offsetPDP2) (pdpDwords h 0x2284 0x2280 address)"

definition setPDP3 :: "CommandStreamerHelper \<Rightarrow> u64 \<Rightarrow> u8 list \<Rightarrow> u8 list result" where
  "setPDP3 h address = putDwords (pageTableRegister offsetPDP3) (pdpDwords h 0x228c 0x2288 address)"

definition setPML :: "CommandStreamerHelper \<Rightarrow> u64 \<Rightarrow> u8 list \<Rightarrow> u8 list result" where
  "setPML h address = setPDP0 h address"

definition zeroLRCA :: "CommandStreamerHelper \<Rightarrow> u8 list \<Rightarrow> u8 list result" where
  "zeroLRCA h = putDwords 0 (replicate (unat (csh_sizeLRCA h div 4)) 0)"

text \<open>A load-register-immediate command with the same register and value \<open>numRegs\<close> times.\<close>

definition lriDwords :: "u32 \<Rightarrow> u32 \<Rightarrow> u32 \<Rightarrow> u32 \<Rightarrow> u32 list" where
  "lriDwords command numRegs register val =
     (command OR (2 * numRegs - 1)) # concat (replicate (unat numRegs) [register, val])"

definition initializeLRI :: "CommandStreamerHelper \<Rightarrow> u32 \<Rightarrow> u8 list \<Rightarrow> u8 list result" where
  "initializeLRI h flags lrca =
     bindR (putDwords (unat (offsetContext + offsetLRI0))
              (lriDwords 0x11001000 numRegsLRI0 (csh_mmioEngine h + 0x2244)
                 (csh_getInitialContextSaveRestoreCtrlValue h OR flags)) lrca) (\<lambda>lrca.
     assertR (offsetLRI1 = 0x21 * 4)
     (bindR (putDwords (unat (offsetContext + offsetLRI1))
              (lriDwords 0x11001000 numRegsLRI1 (csh_mmioEngine h + 0x20d8) 0x00200020) lrca) (\<lambda>lrca.
     assertR (offsetLRI2 = 0x41 * 4)
     (putDwords (unat (offsetContext + offsetLRI2))
              (lriDwords 0x11000000 numRegsLRI2 (csh_mmioEngine h + 0x2094) 0) lrca))))"

definition childPhysicalAddress :: "PageTable \<Rightarrow> nat \<Rightarrow> u64 result" where
  "childPhysicalAddress ppgtt i = (case getChild ppgtt i of
       None \<Rightarrow> Inl AssertionFailure | Some c \<Rightarrow> Inr (pt_physicalAddress c))"

definition initializePageTables :: "CommandStreamerHelper \<Rightarrow> PageTable option \<Rightarrow> u8 list \<Rightarrow> u8 list result" where
  "initializePageTables h ppgtt lrca = (case ppgtt of
       None \<Rightarrow> bindR (setPDP0 h 0 lrca) (\<lambda>lrca. bindR (setPDP1 h 0 lrca) (\<lambda>lrca.
               bindR (setPDP2 h 0 lrca) (setPDP3 h 0)))
     | Some root \<Rightarrow>
         if 48 \<le> getNumAddressBits (pt_kind root) then setPML h (pt_physicalAddress root) lrca
         else bindR (childPhysicalAddress root 0) (\<lambda>a. bindR (setPDP0 h a lrca) (\<lambda>lrca.
              bindR (childPhysicalAddress root 1) (\<lambda>a. bindR (setPDP1 h a lrca) (\<lambda>lrca.
              bindR (childPhysicalAddress root 2) (\<lambda>a. bindR (setPDP2 h a lrca) (\<lambda>lrca.
              bindR (childPhysicalAddress root 3) (\<lambda>a. setPDP3 h a lrca))))))))"

definition csh_initialize ::
  "CommandStreamerHelper \<Rightarrow> PageTable option \<Rightarrow> u32 \<Rightarrow> u8 list \<Rightarrow> u8 list result" where
  "csh_initialize h ppgtt flags lrca =
     bindR (zeroLRCA h lrca) (\<lambda>lrca. bindR (initializeLRI h flags lrca) (\<lambda>lrca.
     bindR (setRingHead h 0 lrca) (\<lambda>lrca. bindR (setRingTail h 0 lrca) (\<lambda>lrca.
     bindR (setRingBase h 0 lrca) (\<lambda>lrca. bindR (setRingCtrl h 0 lrca) (\<lambda>lrca.
     bindR (setBbCurrentHeadReg h lrca) (initializePageTables h ppgtt)))))))"

section \<open>Submission\<close>

definition contextDescriptor :: "CommandStreamerHelper \<Rightarrow> bool \<Rightarrow> u32 \<Rightarrow> u32 \<Rightarrow> u32 \<Rightarrow> MiContextDescriptorReg" where
  "contextDescriptor h is48Bits ggttLRCA contextId priority = csh_setPriority h
     (descriptorZero\<lparr>cd_Valid := 1, cd_ForcePageDirRestore := 0, cd_ForceRestore := 0, cd_Legacy := 1,
        cd_FaultSupport := 0, cd_PrivilegeAccessOrPPGTT := 1, cd_ADor64bitSupport := of_bool is48Bits,
        cd_LogicalRingCtxAddress := ucast (ggttLRCA div 4096), cd_Reserved := 0,
        cd_ContextID := ucast contextId, cd_Reserved2 := 0\<rparr>) priority"

definition submit ::
  "CommandStreamerHelper \<Rightarrow> u32 \<Rightarrow> bool \<Rightarrow> u32 \<Rightarrow> u32 \<Rightarrow> StreamCmd list result" where
  "submit h ggttLRCA is48Bits contextId priority =
     csh_submitContext h (contextDescriptor h is48Bits ggttLRCA contextId priority # replicate 7 descriptorZero)"

text \<open>A member of a group is given by its LRCA, its identifier and its priority.\<close>

definition submitGroup ::
  "CommandStreamerHelper \<Rightarrow> (u32 \<times> u32 \<times> u32) option list \<Rightarrow> bool \<Rightarrow> StreamCmd list result" where
  "submitGroup h hwContexts is48Bits = csh_submitContext h
     (map (\<lambda>c. case c of
          None \<Rightarrow> descriptorZero\<lparr>cd_Valid := 0\<rparr>
        | Some (ggttLRCA, contextId, priority) \<Rightarrow> contextDescriptor h is48Bits ggttLRCA contextId priority)
      hwContexts)"

definition initializeEngineMMIO :: "CommandStreamerHelper \<Rightarrow> StreamCmd list" where
  "initializeEngineMMIO h = map (\<lambda>(off, val). WriteMMIO off val 0xffffffff) (csh_getEngineMMIO h)"

text \<open>\<^verbatim>\<open>TimeoutActionValues::Abort\<close> is 0.\<close>

definition csh_pollForCompletion :: "CommandStreamerHelper \<Rightarrow> StreamCmd" where
  "csh_pollForCompletion h =
     RegisterPoll (csh_mmioEngine h + 0x2234) (csh_getPollForCompletionMask h)
       (csh_getPollForCompletionMask h) False 0"

definition addBatchBufferJump :: "CommandStreamerHelper \<Rightarrow> u64 \<Rightarrow> u32 list" where
  "addBatchBufferJump h gfxAddress =
     [0x11000001, csh_mmioEngine h + 0x2244, csh_getRingContextSaveRestoreCtrlValue h,
      0x18800101, ucast gfxAddress, ucast (drop_bit 32 gfxAddress)]"

definition storeFenceValue :: "u64 \<Rightarrow> u32 \<Rightarrow> u32 list" where
  "storeFenceValue gfxAddress fenceValue = [0x10400002, ucast gfxAddress, 0, fenceValue]"

end
