(* ===== verification/EngineFamilies.thy ===== *)
theory EngineFamilies
  imports CommandStreamer
begin

text \<open>
  The command streamer classes of the core families: the templates \<^verbatim>\<open>CommandStreamerHelper<Family>\<close> of the
  headers \<^verbatim>\<open>command_streamer_helper_<family>.h\<close>.  Each overrides functions of an engine class; here it is
  an update of the record of the engine.  \<open>mmio\<close> is the register table of the engine, which
  \<open>FamilyTables\<close> holds.  The settings \<^verbatim>\<open>ExeclistSubmitPortSubmission\<close> and \<^verbatim>\<open>IndirectRingState\<close> are
  integers, -1 when not set.
\<close>

section \<open>Submitting descriptors\<close>

definition reg :: "u32 \<Rightarrow> u32 \<Rightarrow> StreamCmd" where
  "reg off val = WriteMMIO off val 0xffffffff"

text \<open>The eight entries of the exec list queue; the loop reads eight descriptors whatever their number.\<close>

definition execlistQueue :: "u32 \<Rightarrow> MiContextDescriptorReg list \<Rightarrow> StreamCmd list result" where
  "execlistQueue mmioEngine ds =
     (if length ds < 8 then Inl IndexOutOfRange
      else Inr (concat (map (\<lambda>i. [reg (mmioEngine + 0x2510 + word_of_nat i * 8) (ulData0 (ds ! i)),
                                   reg (mmioEngine + 0x2514 + word_of_nat i * 8) (ulData1 (ds ! i))]) [0..<8])))"

text \<open>The submit port takes the descriptors one after the other, the lower dword first.\<close>

definition execlistPort :: "u32 \<Rightarrow> MiContextDescriptorReg list \<Rightarrow> StreamCmd list" where
  "execlistPort mmioEngine ds =
     concat (map (\<lambda>d. [reg (mmioEngine + 0x2230) (ulData0 d), reg (mmioEngine + 0x2230) (ulData1 d)]) ds)"

definition loadExeclist :: "u32 \<Rightarrow> StreamCmd list result \<Rightarrow> StreamCmd list result" where
  "loadExeclist mmioEngine r = bindR r (\<lambda>cmds. Inr (cmds @ [reg (mmioEngine + 0x2550) 1]))"

definition submitContext_Queue :: "u32 \<Rightarrow> MiContextDescriptorReg list \<Rightarrow> StreamCmd list result" where
  "submitContext_Queue mmioEngine ds =
     assertR (length ds \<le> 8) (loadExeclist mmioEngine (execlistQueue mmioEngine ds))"

definition settingOr :: "bool \<Rightarrow> int \<Rightarrow> bool" where
  "settingOr dflt setting = (if setting \<noteq> -1 then setting \<noteq> 0 else dflt)"

definition submitContext_XeHpg :: "int \<Rightarrow> u32 \<Rightarrow> MiContextDescriptorReg list \<Rightarrow> StreamCmd list result" where
  "submitContext_XeHpg execlistSetting mmioEngine ds =
     assertR (length ds \<le> 8) (loadExeclist mmioEngine
       (if \<not> settingOr False execlistSetting then execlistQueue mmioEngine ds
        else Inr (execlistPort mmioEngine ds)))"

definition submitContext_Xe3p :: "int \<Rightarrow> u32 \<Rightarrow> MiContextDescriptorReg list \<Rightarrow> StreamCmd list result" where
  "submitContext_Xe3p execlistSetting mmioEngine ds = loadExeclist mmioEngine
     (if \<not> settingOr True execlistSetting then execlistQueue mmioEngine ds
      else assertR (length ds \<le> 64) (Inr (execlistPort mmioEngine ds)))"

section \<open>The families\<close>

definition CommandStreamerHelperGen12LP :: "MMIOList \<Rightarrow> CommandStreamerHelper \<Rightarrow> CommandStreamerHelper" where
  "CommandStreamerHelperGen12LP mmio h = h\<lparr>csh_submitContext := submitContext_Queue (csh_mmioEngine h),
     csh_getPollForCompletionMask := 0x00008000, csh_getEngineMMIO := mmio\<rparr>"

definition CommandStreamerHelperXeHpgCore ::
  "int \<Rightarrow> MMIOList \<Rightarrow> CommandStreamerHelper \<Rightarrow> CommandStreamerHelper" where
  "CommandStreamerHelperXeHpgCore execlistSetting mmio h =
     h\<lparr>csh_submitContext := submitContext_XeHpg execlistSetting (csh_mmioEngine h),
       csh_getPollForCompletionMask := 0x00008000, csh_getEngineMMIO := mmio\<rparr>"

definition setPriority_XeCore :: "MiContextDescriptorReg \<Rightarrow> u32 \<Rightarrow> MiContextDescriptorReg" where
  "setPriority_XeCore d priority =
     (if priority \<noteq> 0 then d\<lparr>cd_FunctionType := ucast (priority AND 0x3)\<rparr> else d)"

definition CommandStreamerHelperXeCore :: "MMIOList \<Rightarrow> CommandStreamerHelper \<Rightarrow> CommandStreamerHelper" where
  "CommandStreamerHelperXeCore mmio h = h\<lparr>csh_setPriority := setPriority_XeCore,
     csh_submitContext := submitContext_Queue (csh_mmioEngine h),
     csh_getPollForCompletionMask := 0x00008000, csh_getEngineMMIO := mmio\<rparr>"

text \<open>XeHpc, Xe2Hpg and Xe3 change only the register tables of the engines.\<close>

definition CommandStreamerHelperXeHpcCore :: "MMIOList \<Rightarrow> CommandStreamerHelper \<Rightarrow> CommandStreamerHelper" where
  "CommandStreamerHelperXeHpcCore mmio h = CommandStreamerHelperXeCore mmio h"

definition CommandStreamerHelperXe2HpgCore :: "MMIOList \<Rightarrow> CommandStreamerHelper \<Rightarrow> CommandStreamerHelper" where
  "CommandStreamerHelperXe2HpgCore mmio h = CommandStreamerHelperXeCore mmio h"

definition CommandStreamerHelperXe3Core :: "MMIOList \<Rightarrow> CommandStreamerHelper \<Rightarrow> CommandStreamerHelper" where
  "CommandStreamerHelperXe3Core mmio h = CommandStreamerHelperXeCore mmio h"

section \<open>Indirect ring state\<close>

text \<open>From Xe3p on the ring registers may live in a page of their own, which the LRCA points to.\<close>

definition indirectRingBits :: "int \<Rightarrow> u32 \<Rightarrow> u32" where
  "indirectRingBits indirectSetting val =
     (if settingOr True indirectSetting then val OR (push_bit 16 (push_bit 4 1) OR push_bit 4 1) else val)"

definition getRingDataOffset_Xe3p :: u32 where
  "getRingDataOffset_Xe3p = 2 * 4"

definition pointToRingData :: "int \<Rightarrow> u32 \<Rightarrow> u32 \<Rightarrow> u8 list \<Rightarrow> u8 list result" where
  "pointToRingData indirectSetting mmioEngine ringData lrca =
     (if settingOr True indirectSetting
      then putDwords (unat (offsetContext + offsetLRI1 + 5 * 4)) [mmioEngine + 0x2108, ringData] lrca
      else Inr lrca)"

definition initializeRingState_Xe3p :: "u32 \<Rightarrow> usize \<Rightarrow> u32 \<Rightarrow> u32 \<Rightarrow> u8 list \<Rightarrow> u8 list result" where
  "initializeRingState_Xe3p mmioEngine sizeRingData ggttRing ringCtrl ringState =
     (let regs = 2 * 4
      in bindR (putDwords 0 (replicate (unat (sizeRingData div 4)) 0) ringState) (\<lambda>ringState.
         bindR (putDwords 4 ((0x11001000 OR (2 * 5 - 1)) # concat (replicate 5 [0, 0])) ringState) (\<lambda>ringState.
         bindR (putDwords (regs + unat offsetRingHead) [mmioEngine + 0x2034, 0] ringState) (\<lambda>ringState.
         bindR (putDwords (regs + unat offsetRingTail) [mmioEngine + 0x2030, 0] ringState) (\<lambda>ringState.
         bindR (putDwords (regs + unat offsetRingBase)
                  [mmioEngine + 0x2038, ggttRing, mmioEngine + 0x2048, 0] ringState) (\<lambda>ringState.
         bindR (putDwords (regs + unat (offsetRingCtrl + 2 * 4)) [mmioEngine + 0x203c, ringCtrl] ringState) (\<lambda>ringState.
         putDwords (17 * 4) [0x11001000 OR (2 * 9 - 1)] ringState)))))))"

definition initializeRingData_Xe3p ::
  "int \<Rightarrow> u32 \<Rightarrow> u8 list \<Rightarrow> u8 list \<Rightarrow> u32 \<Rightarrow> usize \<Rightarrow> u32 \<Rightarrow> u32 \<Rightarrow> (u8 list \<times> u8 list) result" where
  "initializeRingData_Xe3p indirectSetting mmioEngine lrca ringState ringData sizeRingData ggttRing ringCtrl =
     bindR (pointToRingData indirectSetting mmioEngine ringData lrca) (\<lambda>lrca.
     bindR (initializeRingState_Xe3p mmioEngine sizeRingData ggttRing ringCtrl ringState) (\<lambda>ringState.
     Inr (lrca, ringState)))"

definition setRingDataRegister :: "u32 \<Rightarrow> u32 \<Rightarrow> HostArray \<Rightarrow> u32 \<Rightarrow> HostArray result" where
  "setRingDataRegister off register ringData val =
     (if ringData = NullArray then Inr ringData
      else arrayUpdate (putDwords (unat (getRingDataOffset_Xe3p + off)) [register, val]) ringData)"

definition getHintForInRingCtx_Xe3p :: "u32 \<Rightarrow> u32" where
  "getHintForInRingCtx_Xe3p engineType =
     (if engineType = ENGINE_RCS then word_of_int (hintValue ''TraceIndirectRingContextRcs'')
      else if engineType = ENGINE_BCS then word_of_int (hintValue ''TraceIndirectRingContextBcs'')
      else if engineType = ENGINE_VCS then word_of_int (hintValue ''TraceIndirectRingContextVcs'')
      else if engineType = ENGINE_VECS then word_of_int (hintValue ''TraceIndirectRingContextVecs'')
      else if engineType = ENGINE_CCS then word_of_int (hintValue ''TraceIndirectRingContextCcs'')
      else 0)"

text \<open>The flush commands change for the compute engines only: the class Ccs, by its name.\<close>

definition drainFlushCommands :: "u32 list" where
  "drainFlushCommands =
     [0x7a001004, push_bit 5 1 OR push_bit 9 1, 0, 0, 0, 0,
      0x7a001004, push_bit 9 1 OR push_bit 2 1 OR push_bit 3 1 OR push_bit 5 1 OR push_bit 10 1
        OR push_bit 11 1 OR push_bit 29 1, 0, 0, 0, 0]"

definition CommandStreamerHelperXe3pCore ::
  "int \<Rightarrow> int \<Rightarrow> MMIOList \<Rightarrow> CommandStreamerHelper \<Rightarrow> CommandStreamerHelper" where
  "CommandStreamerHelperXe3pCore execlistSetting indirectSetting mmio h =
     (let e = csh_mmioEngine h
      in (CommandStreamerHelperXeCore mmio h)
         \<lparr>csh_submitContext := submitContext_Xe3p execlistSetting e,
          csh_getInitialContextSaveRestoreCtrlValue := indirectRingBits indirectSetting 0x00090009,
          csh_getRingContextSaveRestoreCtrlValue := indirectRingBits indirectSetting 0x00090008,
          csh_initializeRingData := initializeRingData_Xe3p indirectSetting e,
          csh_isRingDataEnabled := settingOr True indirectSetting,
          csh_getRingDataOffset := getRingDataOffset_Xe3p,
          csh_setRingDataHead := setRingDataRegister offsetRingHead (e + 0x2034),
          csh_setRingDataTail := setRingDataRegister offsetRingTail (e + 0x2030),
          csh_getHintForInRingCtx := getHintForInRingCtx_Xe3p (csh_engineType h),
          csh_addFlushCommands := (if csh_name h = ''CCS'' then drainFlushCommands else csh_addFlushCommands h)\<rparr>)"

end
