(* ===== verification/FamilyTables.thy ===== *)
theory FamilyTables
  imports EngineFamilies
begin

text \<open>
  The register tables of the core families and of the products: what the engines write when a context is
  initialised (\<^verbatim>\<open>getEngineMMIO\<close> of the files \<^verbatim>\<open>command_streamer_helper_<family>.cpp\<close>) and what a GPU writes at the
  start (\<^verbatim>\<open>getGlobalMMIO\<close> and \<^verbatim>\<open>getGlobalMMIOPlatformSpecific\<close>).  The tables of the engines that a family does not
  have are empty and their functions assert false; they are left out, no engine uses them.
\<close>

section \<open>PAT registers\<close>

text \<open>Between the registers 7 and 8 is a gap.\<close>

definition getPatIndexMmioAddr :: "u32 \<Rightarrow> u32" where
  "getPatIndexMmioAddr index = 0x4800 + index * 4 + (if index \<ge> 8 then 0x28 else 0)"

definition getPatIndexMmioAddr_XeHpcCore :: "u32 \<Rightarrow> u32" where
  "getPatIndexMmioAddr_XeHpcCore index = 0x4800 + index * 4"

definition getPatIndexMmioAddr_XeHpgCore :: "u32 \<Rightarrow> u32" where
  "getPatIndexMmioAddr_XeHpgCore index = 0x4800 + index * 4"

section \<open>Additional engine registers\<close>

text \<open>No product of the repository has any.\<close>

definition appendAdditionalEngineMMIO :: "MMIOList \<Rightarrow> MMIOList" where
  "appendAdditionalEngineMMIO engineMMIO = engineMMIO"

definition withAdditionalEngineMMIO :: "bool \<Rightarrow> MMIOList \<Rightarrow> MMIOList" where
  "withAdditionalEngineMMIO programAdditional engineMMIO =
     (if programAdditional then appendAdditionalEngineMMIO engineMMIO else engineMMIO)"

section \<open>Gen12LP\<close>

definition getEngineMMIO_Gen12LP_Rcs :: "u32 \<Rightarrow> MMIOList" where
  "getEngineMMIO_Gen12LP_Rcs mmioEngine =
    [(mmioEngine + 0x2058, 0), (mmioEngine + 0x20a8, 0), (mmioEngine + 0x229c, 0xffff8280),
     (mmioEngine + 0x24d0, 0x7014), (mmioEngine + 0x24d4, 0x7304), (mmioEngine + 0x24d8, 0x20c8),
     (mmioEngine + 0x24dc, 0xd924), (mmioEngine + 0x24e0, 0x10002351), (mmioEngine + 0x24e4, 0x10002341),
     (mmioEngine + 0x24e8, 0x100320e8), (mmioEngine + 0x24ec, 0x10032260), (mmioEngine + 0x24f0, 0x10032670),
     (mmioEngine + 0x24f4, 0x28a0), (mmioEngine + 0x24f8, 0x2754), (mmioEngine + 0x24fc, 0x7010),
     (mmioEngine + 0x2010, 0xd922), (mmioEngine + 0x2014, 0xda12), (mmioEngine + 0x2018, 0xdb1c),
     (mmioEngine + 0x201c, 0x20006100), (mmioEngine + 0x21e0, 0), (mmioEngine + 0x21e4, 0),
     (mmioEngine + 0x21e8, 0), (mmioEngine + 0x21ec, 0)]"

definition getEngineMMIO_Gen12LP_Bcs :: "u32 \<Rightarrow> MMIOList" where
  "getEngineMMIO_Gen12LP_Bcs mmioEngine =
    [(mmioEngine + 0x229c, 0xffff8280)]"

definition getEngineMMIO_Gen12LP_Vcs :: "u32 \<Rightarrow> MMIOList" where
  "getEngineMMIO_Gen12LP_Vcs mmioEngine =
    [(mmioEngine + 0x229c, 0xffff8280), (mmioEngine + 0x24d0, 0x100320e8), (mmioEngine + 0x24d4, 0x10032260),
     (mmioEngine + 0x24d8, 0x10032670), (mmioEngine + 0x24dc, 0x10032881), (mmioEngine + 0x24e0, 0x10032861),
     (mmioEngine + 0x24e4, 0x10032871), (mmioEngine + 0x24e8, 0x10032891), (mmioEngine + 0x24ec, 0x100328a1),
     (mmioEngine + 0x24f0, 0x100328b1), (mmioEngine + 0x24f4, 0x100328c1), (mmioEngine + 0x24f8, 0x100328d1),
     (mmioEngine + 0x24fc, 0), (mmioEngine + 0x2010, 0), (mmioEngine + 0x2014, 0), (mmioEngine + 0x2018, 0),
     (mmioEngine + 0x201c, 0), (mmioEngine + 0x21e0, 0), (mmioEngine + 0x21e4, 0), (mmioEngine + 0x21e8, 0),
     (mmioEngine + 0x21ec, 0)]"

definition getEngineMMIO_Gen12LP_Vecs :: "u32 \<Rightarrow> MMIOList" where
  "getEngineMMIO_Gen12LP_Vecs mmioEngine =
    [(mmioEngine + 0x229c, 0xffff8280), (mmioEngine + 0x24d0, 0x100320e8), (mmioEngine + 0x24d4, 0x10032260),
     (mmioEngine + 0x24d8, 0x10032670), (mmioEngine + 0x24dc, 0), (mmioEngine + 0x24e0, 0),
     (mmioEngine + 0x24e4, 0), (mmioEngine + 0x24e8, 0), (mmioEngine + 0x24ec, 0), (mmioEngine + 0x24f0, 0),
     (mmioEngine + 0x24f4, 0), (mmioEngine + 0x24f8, 0), (mmioEngine + 0x24fc, 0), (mmioEngine + 0x2010, 0),
     (mmioEngine + 0x2014, 0), (mmioEngine + 0x2018, 0), (mmioEngine + 0x201c, 0), (mmioEngine + 0x21e0, 0),
     (mmioEngine + 0x21e4, 0), (mmioEngine + 0x21e8, 0), (mmioEngine + 0x21ec, 0)]"

definition getEngineMMIO_Gen12LP_Ccs :: "u32 \<Rightarrow> MMIOList" where
  "getEngineMMIO_Gen12LP_Ccs mmioEngine =
    [(mmioEngine + 0x229c, 0xffff8280), (mmioEngine + 0x24d0, 0x1a0c8), (mmioEngine + 0x24d4, 0xd922),
     (mmioEngine + 0x24d8, 0xda12), (mmioEngine + 0x24dc, 0xdb1c), (mmioEngine + 0x24e0, 0),
     (mmioEngine + 0x24e4, 0), (mmioEngine + 0x24e8, 0), (mmioEngine + 0x24ec, 0), (mmioEngine + 0x24f0, 0),
     (mmioEngine + 0x24f4, 0), (mmioEngine + 0x24f8, 0), (mmioEngine + 0x24fc, 0), (mmioEngine + 0x2010, 0),
     (mmioEngine + 0x2014, 0), (mmioEngine + 0x2018, 0), (mmioEngine + 0x201c, 0), (mmioEngine + 0x21e0, 0),
     (mmioEngine + 0x21e4, 0), (mmioEngine + 0x21e8, 0), (mmioEngine + 0x21ec, 0)]"

section \<open>XeHpgCore\<close>

definition getEngineMMIO_XeHpgCore_Rcs :: "u32 \<Rightarrow> MMIOList" where
  "getEngineMMIO_XeHpgCore_Rcs mmioEngine =
    [(mmioEngine + 0x2058, 0), (mmioEngine + 0x20a8, 0), (mmioEngine + 0x229c, 0xffff8280),
     (mmioEngine + 0x209c, 0x10000000), (mmioEngine + 0x24d0, 0x40002580), (mmioEngine + 0x24d4, 0x7014),
     (mmioEngine + 0x24d8, 0x7304), (mmioEngine + 0x24dc, 0xd924), (mmioEngine + 0x24e0, 0x103860e8),
     (mmioEngine + 0x24e4, 0x10386260), (mmioEngine + 0x24e8, 0x10386670), (mmioEngine + 0x24ec, 0x20006100),
     (mmioEngine + 0x24f0, 0), (mmioEngine + 0x24f4, 0), (mmioEngine + 0x24f8, 0), (mmioEngine + 0x24fc, 0)]"

definition getEngineMMIO_XeHpgCore_Bcs :: "u32 \<Rightarrow> MMIOList" where
  "getEngineMMIO_XeHpgCore_Bcs mmioEngine =
    [(mmioEngine + 0x229c, 0xffff8280)]"

definition getEngineMMIO_XeHpgCore_Vcs :: "u32 \<Rightarrow> MMIOList" where
  "getEngineMMIO_XeHpgCore_Vcs mmioEngine =
    [(mmioEngine + 0x229c, 0xffff8280), (mmioEngine + 0x24d0, 0x103860e8), (mmioEngine + 0x24d4, 0x10386260),
     (mmioEngine + 0x24d8, 0x10386670), (mmioEngine + 0x24dc, 0x10386674), (mmioEngine + 0x24e0, 0x10386678),
     (mmioEngine + 0x24e4, 0x10386264), (mmioEngine + 0x24e8, 0x10386268), (mmioEngine + 0x24ec, 0x10386861),
     (mmioEngine + 0x24f0, 0x10386871), (mmioEngine + 0x24f4, 0x10386881), (mmioEngine + 0x24f8, 0x10386891),
     (mmioEngine + 0x24fc, 0x103868a1), (mmioEngine + 0x2010, 0x103868b1), (mmioEngine + 0x2014, 0x103868c1),
     (mmioEngine + 0x2018, 0x103868d1), (mmioEngine + 0x201c, 0), (mmioEngine + 0x21e0, 0),
     (mmioEngine + 0x21e4, 0), (mmioEngine + 0x21e8, 0), (mmioEngine + 0x21ec, 0)]"

definition getEngineMMIO_XeHpgCore_Vecs :: "u32 \<Rightarrow> MMIOList" where
  "getEngineMMIO_XeHpgCore_Vecs mmioEngine =
    [(mmioEngine + 0x229c, 0xffff8280), (mmioEngine + 0x24d0, 0x103860e8), (mmioEngine + 0x24d4, 0x10386260),
     (mmioEngine + 0x24d8, 0x10386670), (mmioEngine + 0x24dc, 0), (mmioEngine + 0x24e0, 0),
     (mmioEngine + 0x24e4, 0), (mmioEngine + 0x24e8, 0), (mmioEngine + 0x24ec, 0), (mmioEngine + 0x24f0, 0),
     (mmioEngine + 0x24f4, 0), (mmioEngine + 0x24f8, 0), (mmioEngine + 0x24fc, 0), (mmioEngine + 0x2010, 0),
     (mmioEngine + 0x2014, 0), (mmioEngine + 0x2018, 0), (mmioEngine + 0x201c, 0), (mmioEngine + 0x21e0, 0),
     (mmioEngine + 0x21e4, 0), (mmioEngine + 0x21e8, 0), (mmioEngine + 0x21ec, 0)]"

definition getEngineMMIO_XeHpgCore_Ccs :: "u32 \<Rightarrow> MMIOList" where
  "getEngineMMIO_XeHpgCore_Ccs mmioEngine =
    [(mmioEngine + 0x229c, 0xffff8280), (mmioEngine + 0x209c, 0x10000000)]"

definition getGlobalMMIO_XeHpgCore :: "MMIOList" where
  "getGlobalMMIO_XeHpgCore =
    [(0x2090, 0xffff0000), (0x20d8, 0x20000), (0x20e0, 0xffff4000), (0x20e4, 0xffff0000), (0x20ec, 0xffff0051),
     (0x2580, 0xffff0005), (0x4000, 0b1100), (0x4004, 0b100001100), (0x4008, 0b100110000), (0x400c, 0b100111100),
     (0x4010, 0b100000000), (0x4014, 0x60038), (0x4018, 0), (0x401c, 0x33), (0x4020, 0x60037), (0x4024, 0x3b),
     (0x4028, 0x32), (0x402c, 0x36), (0x4030, 0x3a), (0x4034, 0x33), (0x4038, 0x37), (0x403c, 0x3b), (0x4040, 0x30),
     (0x4044, 0x34), (0x4048, 0x38), (0x404c, 0x31), (0x4050, 0x32), (0x4054, 0x36), (0x4058, 0x3a), (0x405c, 0x33),
     (0x4060, 0x37), (0x4064, 0x3b), (0x4068, 0x32), (0x406c, 0x36), (0x4070, 0x3a), (0x4074, 0x33), (0x4078, 0x37),
     (0x407c, 0x3b), (0x4080, 0x30), (0x4084, 0x34), (0x4088, 0x38), (0x408c, 0x31), (0x4090, 0x32), (0x4094, 0x36),
     (0x4098, 0x3a), (0x409c, 0x33), (0x40a0, 0x37), (0x40a4, 0x3b), (0x40a8, 0x32), (0x40ac, 0x36), (0x40b0, 0x3a),
     (0x40b4, 0x33), (0x40b8, 0x37), (0x40bc, 0x3b), (0x40c0, 0x38), (0x40c4, 0x34), (0x40c8, 0x38), (0x40cc, 0x31),
     (0x40d0, 0x32), (0x40d4, 0x36), (0x40d8, 0x3a), (0x40dc, 0x33), (0x40e0, 0x37), (0x40e4, 0x3b), (0x40e8, 0x32),
     (0x40ec, 0x36), (0x40f0, 0x38), (0x40f4, 0x38), (0x40f8, 0x38), (0x40fc, 0x38), (0xb020, 0xd00090),
     (0xb024, 0xb00050), (0xb028, 0xb00010), (0xb02c, 0), (0xb030, 0x30001f), (0xb034, 0x170013), (0xb038, 0x1f),
     (0xb03c, 0), (0xb040, 0x100000), (0xb044, 0x170013), (0xb048, 0x10001f), (0xb04c, 0x170013),
     (0xb050, 0x30001f), (0xb054, 0x170013), (0xb058, 0x1f), (0xb05c, 0), (0xb060, 0x100000), (0xb064, 0x170013),
     (0xb068, 0x10001f), (0xb06c, 0x170013), (0xb070, 0x30001f), (0xb074, 0x170013), (0xb078, 0x1f), (0xb07c, 0),
     (0xb080, 0x9000b0), (0xb084, 0x170013), (0xb088, 0x10001f), (0xb08c, 0x170013), (0xb090, 0x30001f),
     (0xb094, 0x170013), (0xb098, 0x100010), (0xb09c, 0x100010), (0x4100, 0), (0x4104, 0), (0x4108, 0), (0x410c, 0),
     (0x4110, 0), (0x4114, 0), (0x4118, 0), (0x411c, 0), (0x4b80, 0xffff1001), (0x7000, 0xffff0000),
     (0x7004, 0xffff0000), (0x9008, 0x200), (0x900c, 0x1b40), (0xb120, 0x14000002), (0xb134, 0xa0000000),
     (0xb234, 0xa0000000), (0xce90, 0x30003), (0xcf58, 0x80000000), (0xe194, 0xffff0002), (0x14800, 0x30003),
     (0x14804, 0xfff0000), (0x1a0d8, 0x20000), (0x42080, 0)]"

section \<open>XeCore\<close>

definition getEngineMMIO_XeCore_Rcs :: "u32 \<Rightarrow> MMIOList" where
  "getEngineMMIO_XeCore_Rcs mmioEngine =
    [(mmioEngine + 0x2058, 0), (mmioEngine + 0x20a8, 0), (mmioEngine + 0x229c, 0xffff8280),
     (mmioEngine + 0x24d0, 0x10032a83), (mmioEngine + 0x24d4, 0x10032264), (mmioEngine + 0x24d8, 0x10032268),
     (mmioEngine + 0x24dc, 0x7014), (mmioEngine + 0x24e0, 0x20006100), (mmioEngine + 0x24e4, 0xd924),
     (mmioEngine + 0x24e8, 0x2248), (mmioEngine + 0x24ec, 0x10032883), (mmioEngine + 0x24f0, 0x10032861),
     (mmioEngine + 0x24f4, 0x10032678), (mmioEngine + 0x24f8, 0x7010), (mmioEngine + 0x24fc, 0xdb1c),
     (mmioEngine + 0x2010, 0x7304), (mmioEngine + 0x2014, 0x10032674), (mmioEngine + 0x2018, 0x10032b83),
     (mmioEngine + 0x201c, 0x10032871), (mmioEngine + 0x21e0, 0x10032983), (mmioEngine + 0x21e4, 0),
     (mmioEngine + 0x21e8, 0), (mmioEngine + 0x21ec, 0)]"

definition getEngineMMIO_XeCore_Bcs :: "u32 \<Rightarrow> MMIOList" where
  "getEngineMMIO_XeCore_Bcs mmioEngine =
    [(mmioEngine + 0x229c, 0xffff8280)]"

definition getEngineMMIO_XeCore_Vcs :: "u32 \<Rightarrow> MMIOList" where
  "getEngineMMIO_XeCore_Vcs mmioEngine =
    [(mmioEngine + 0x229c, 0xffff8280), (mmioEngine + 0x24d0, 0x100320e8), (mmioEngine + 0x24d4, 0x10032260),
     (mmioEngine + 0x24d8, 0x10032670), (mmioEngine + 0x24dc, 0x10032883), (mmioEngine + 0x24e0, 0x10032861),
     (mmioEngine + 0x24e4, 0x10032871), (mmioEngine + 0x24e8, 0x10032891), (mmioEngine + 0x24ec, 0x100328a1),
     (mmioEngine + 0x24f0, 0x100328b1), (mmioEngine + 0x24f4, 0x100328c1), (mmioEngine + 0x24f8, 0x100328d1),
     (mmioEngine + 0x24fc, 0x10032983), (mmioEngine + 0x2010, 0x10032a83), (mmioEngine + 0x2014, 0x10032b83),
     (mmioEngine + 0x2018, 0x10032264), (mmioEngine + 0x201c, 0x10032268), (mmioEngine + 0x21e0, 0x10032674),
     (mmioEngine + 0x21e4, 0x10032678), (mmioEngine + 0x21e8, 0), (mmioEngine + 0x21ec, 0)]"

definition getEngineMMIO_XeCore_Vecs :: "u32 \<Rightarrow> MMIOList" where
  "getEngineMMIO_XeCore_Vecs mmioEngine =
    [(mmioEngine + 0x229c, 0xffff8280), (mmioEngine + 0x24d0, 0x100320e8), (mmioEngine + 0x24d4, 0x10032260),
     (mmioEngine + 0x24d8, 0x10032670), (mmioEngine + 0x24dc, 0x10032883), (mmioEngine + 0x24e0, 0x10032861),
     (mmioEngine + 0x24e4, 0x10032871), (mmioEngine + 0x24e8, 0x10032983), (mmioEngine + 0x24ec, 0x10032a83),
     (mmioEngine + 0x24f0, 0x10032b83), (mmioEngine + 0x24f4, 0x10032264), (mmioEngine + 0x24f8, 0x10032268),
     (mmioEngine + 0x24fc, 0x10032674), (mmioEngine + 0x2010, 0x10032678), (mmioEngine + 0x2014, 0),
     (mmioEngine + 0x2018, 0), (mmioEngine + 0x201c, 0), (mmioEngine + 0x21e0, 0), (mmioEngine + 0x21e4, 0),
     (mmioEngine + 0x21e8, 0), (mmioEngine + 0x21ec, 0)]"

definition getEngineMMIO_XeCore_Ccs :: "u32 \<Rightarrow> MMIOList" where
  "getEngineMMIO_XeCore_Ccs mmioEngine =
    [(mmioEngine + 0x229c, 0xffff8280), (mmioEngine + 0x24d0, 0x1a0c8), (mmioEngine + 0x24d4, 0xd922),
     (mmioEngine + 0x24d8, 0xda12), (mmioEngine + 0x24dc, 0xdb1c), (mmioEngine + 0x24e0, 0x10032264),
     (mmioEngine + 0x24e4, 0x10032268), (mmioEngine + 0x24e8, 0x10032674), (mmioEngine + 0x24ec, 0x10032678),
     (mmioEngine + 0x24f0, 0x10032861), (mmioEngine + 0x24f4, 0x10032871), (mmioEngine + 0x24f8, 0x10032883),
     (mmioEngine + 0x24fc, 0x10032983), (mmioEngine + 0x2010, 0x10032a83), (mmioEngine + 0x2014, 0x10032b83),
     (mmioEngine + 0x2018, 0x2248), (mmioEngine + 0x201c, 0), (mmioEngine + 0x21e0, 0), (mmioEngine + 0x21e4, 0),
     (mmioEngine + 0x21e8, 0), (mmioEngine + 0x21ec, 0)]"

section \<open>XeHpcCore\<close>

definition getEngineMMIO_XeHpcCore_Rcs :: "u32 \<Rightarrow> MMIOList" where
  "getEngineMMIO_XeHpcCore_Rcs mmioEngine =
    [(mmioEngine + 0x2058, 0), (mmioEngine + 0x20a8, 0), (mmioEngine + 0x229c, 0xffff8280),
     (mmioEngine + 0x209c, 0x10000000), (mmioEngine + 0x24d0, 0x7014), (mmioEngine + 0x24d4, 0xe48c),
     (mmioEngine + 0x24d8, 0xe18c), (mmioEngine + 0x24dc, 0x4de0), (mmioEngine + 0x24e0, 0x4de4),
     (mmioEngine + 0x24e4, 0xf180), (mmioEngine + 0x24e8, 0xe194), (mmioEngine + 0x24ec, 0xe000),
     (mmioEngine + 0x24f0, 0xe000), (mmioEngine + 0x24f4, 0xe000), (mmioEngine + 0x24f8, 0xe000),
     (mmioEngine + 0x24fc, 0xe000)]"

definition getEngineMMIO_XeHpcCore_Cccs :: "u32 \<Rightarrow> MMIOList" where
  "getEngineMMIO_XeHpcCore_Cccs mmioEngine =
    [(mmioEngine + 0x2058, 0), (mmioEngine + 0x20a8, 0), (mmioEngine + 0x229c, 0xffff8280),
     (mmioEngine + 0x209c, 0x10000000), (mmioEngine + 0x24d0, 0x7014), (mmioEngine + 0x24d4, 0xe48c),
     (mmioEngine + 0x24d8, 0xe18c), (mmioEngine + 0x24dc, 0x4de0), (mmioEngine + 0x24e0, 0x4de4),
     (mmioEngine + 0x24e4, 0xf180), (mmioEngine + 0x24e8, 0xe194), (mmioEngine + 0x24ec, 0xe000),
     (mmioEngine + 0x24f0, 0xe000), (mmioEngine + 0x24f4, 0xe000), (mmioEngine + 0x24f8, 0xe000),
     (mmioEngine + 0x24fc, 0xe000)]"

definition getEngineMMIO_XeHpcCore_Bcs :: "u32 \<Rightarrow> MMIOList" where
  "getEngineMMIO_XeHpcCore_Bcs mmioEngine =
    [(mmioEngine + 0x229c, 0xffff8280)]"

definition getEngineMMIO_XeHpcCore_Vcs :: "u32 \<Rightarrow> MMIOList" where
  "getEngineMMIO_XeHpcCore_Vcs mmioEngine =
    [(mmioEngine + 0x229c, 0xffff8280)]"

definition getEngineMMIO_XeHpcCore_Vecs :: "u32 \<Rightarrow> MMIOList" where
  "getEngineMMIO_XeHpcCore_Vecs mmioEngine =
    [(mmioEngine + 0x229c, 0xffff8280)]"

definition getEngineMMIO_XeHpcCore_Ccs :: "u32 \<Rightarrow> MMIOList" where
  "getEngineMMIO_XeHpcCore_Ccs mmioEngine =
    [(mmioEngine + 0x229c, 0xffff8280), (mmioEngine + 0x209c, 0x10000000), (mmioEngine + 0x24d0, 0x7014),
     (mmioEngine + 0x24d4, 0xe48c), (mmioEngine + 0x24d8, 0xe18c), (mmioEngine + 0x24dc, 0x4de0),
     (mmioEngine + 0x24e0, 0x4de4), (mmioEngine + 0x24e4, 0xf180), (mmioEngine + 0x24e8, 0xe194),
     (mmioEngine + 0x24ec, 0xe000), (mmioEngine + 0x24f0, 0xe000), (mmioEngine + 0x24f4, 0xe000),
     (mmioEngine + 0x24f8, 0xe000), (mmioEngine + 0x24fc, 0xe000)]"

definition getEngineMMIO_XeHpcCore_LinkBcs :: "u32 \<Rightarrow> MMIOList" where
  "getEngineMMIO_XeHpcCore_LinkBcs mmioEngine =
    [(mmioEngine + 0x229c, 0xffff8280)]"

definition getGlobalMMIO_XeHpcCore :: "MMIOList" where
  "getGlobalMMIO_XeHpcCore =
    [(0x2090, 0xffff0000), (0x20d8, 0x20000), (0x20e0, 0xffff4000), (0x20e4, 0xffff0000), (0x20ec, 0xffff0051),
     (0x2580, 0xffff0005), (0x4000, 0b1100), (0x4004, 0b100001100), (0x4008, 0b100110000), (0x400c, 0b100111100),
     (0x4010, 0b100000000), (0x4014, 0x60038), (0x4018, 0), (0x401c, 0x33), (0x4020, 0x60037), (0x4024, 0x3b),
     (0x4028, 0x32), (0x402c, 0x36), (0x4030, 0x3a), (0x4034, 0x33), (0x4038, 0x37), (0x403c, 0x3b), (0x4040, 0x30),
     (0x4044, 0x34), (0x4048, 0x38), (0x404c, 0x31), (0x4050, 0x32), (0x4054, 0x36), (0x4058, 0x3a), (0x405c, 0x33),
     (0x4060, 0x37), (0x4064, 0x3b), (0x4068, 0x32), (0x406c, 0x36), (0x4070, 0x3a), (0x4074, 0x33), (0x4078, 0x37),
     (0x407c, 0x3b), (0x4080, 0x30), (0x4084, 0x34), (0x4088, 0x38), (0x408c, 0x31), (0x4090, 0x32), (0x4094, 0x36),
     (0x4098, 0x3a), (0x409c, 0x33), (0x40a0, 0x37), (0x40a4, 0x3b), (0x40a8, 0x32), (0x40ac, 0x36), (0x40b0, 0x3a),
     (0x40b4, 0x33), (0x40b8, 0x37), (0x40bc, 0x3b), (0x40c0, 0x38), (0x40c4, 0x34), (0x40c8, 0x38), (0x40cc, 0x31),
     (0x40d0, 0x32), (0x40d4, 0x36), (0x40d8, 0x3a), (0x40dc, 0x33), (0x40e0, 0x37), (0x40e4, 0x3b), (0x40e8, 0x32),
     (0x40ec, 0x36), (0x40f0, 0x38), (0x40f4, 0x38), (0x40f8, 0x38), (0x40fc, 0x38), (0xb020, 0x100000),
     (0xb024, 0x500030), (0xb028, 0xb00010), (0xb02c, 0), (0xb030, 0x30001f), (0xb034, 0x170013), (0xb038, 0x1f),
     (0xb03c, 0), (0xb040, 0x100000), (0xb044, 0x170013), (0xb048, 0x10001f), (0xb04c, 0x170013),
     (0xb050, 0x30001f), (0xb054, 0x170013), (0xb058, 0x1f), (0xb05c, 0), (0xb060, 0x100000), (0xb064, 0x170013),
     (0xb068, 0x10001f), (0xb06c, 0x170013), (0xb070, 0x30001f), (0xb074, 0x170013), (0xb078, 0x1f), (0xb07c, 0),
     (0xb080, 0x9000b0), (0xb084, 0x170013), (0xb088, 0x10001f), (0xb08c, 0x170013), (0xb090, 0x30001f),
     (0xb094, 0x170013), (0xb098, 0x100010), (0xb09c, 0x100010), (0x4100, 0), (0x4104, 0), (0x4108, 0), (0x410c, 0),
     (0x4110, 0), (0x4114, 0), (0x4118, 0), (0x411c, 0), (0x4b80, 0xffff1001), (0x7000, 0xffff0000),
     (0x7004, 0xffff0000), (0x9008, 0x200), (0x900c, 0x1b40), (0xb120, 0x14000002), (0xb134, 0xa0000000),
     (0xb234, 0xa0000000), (0xce90, 0x30003), (0xcf58, 0x80000000), (0xe194, 0xffff0002), (0x14800, 0x30003),
     (0x14804, 0xfff0000), (0x1a0d8, 0x20000), (0x42080, 0), (getPatIndexMmioAddr_XeHpcCore 0, 0),
     (getPatIndexMmioAddr_XeHpcCore 1, 0b1), (getPatIndexMmioAddr_XeHpcCore 2, 0b10),
     (getPatIndexMmioAddr_XeHpcCore 3, 0b11), (getPatIndexMmioAddr_XeHpcCore 4, 0b110),
     (getPatIndexMmioAddr_XeHpcCore 5, 0b111), (getPatIndexMmioAddr_XeHpcCore 6, 0b1010),
     (getPatIndexMmioAddr_XeHpcCore 7, 0b1011)]"

section \<open>Xe2HpgCore\<close>

definition getEngineMMIO_Xe2HpgCore_Rcs :: "u32 \<Rightarrow> MMIOList" where
  "getEngineMMIO_Xe2HpgCore_Rcs mmioEngine =
    [(mmioEngine + 0x2058, 0), (mmioEngine + 0x20a8, 0), (mmioEngine + 0x229c, 0xffff8280),
     (mmioEngine + 0x209c, 0x10000000), (mmioEngine + 0x24d0, 0x7304)]"

definition getEngineMMIO_Xe2HpgCore_Cccs :: "u32 \<Rightarrow> MMIOList" where
  "getEngineMMIO_Xe2HpgCore_Cccs mmioEngine =
    [(mmioEngine + 0x2058, 0), (mmioEngine + 0x20a8, 0), (mmioEngine + 0x229c, 0xffff8280),
     (mmioEngine + 0x209c, 0x10000000)]"

definition getEngineMMIO_Xe2HpgCore_Bcs :: "u32 \<Rightarrow> MMIOList" where
  "getEngineMMIO_Xe2HpgCore_Bcs mmioEngine =
    [(mmioEngine + 0x229c, 0xffff8280)]"

definition getEngineMMIO_Xe2HpgCore_Vcs :: "u32 \<Rightarrow> MMIOList" where
  "getEngineMMIO_Xe2HpgCore_Vcs mmioEngine =
    [(mmioEngine + 0x229c, 0xffff8280), (mmioEngine + 0x24d0, 0x2920)]"

definition getEngineMMIO_Xe2HpgCore_Vecs :: "u32 \<Rightarrow> MMIOList" where
  "getEngineMMIO_Xe2HpgCore_Vecs mmioEngine =
    [(mmioEngine + 0x229c, 0xffff8280)]"

definition getEngineMMIO_Xe2HpgCore_Ccs :: "u32 \<Rightarrow> MMIOList" where
  "getEngineMMIO_Xe2HpgCore_Ccs mmioEngine =
    [(mmioEngine + 0x229c, 0xffff8280), (mmioEngine + 0x209c, 0x10000000)]"

definition getEngineMMIO_Xe2HpgCore_LinkBcs :: "u32 \<Rightarrow> MMIOList" where
  "getEngineMMIO_Xe2HpgCore_LinkBcs mmioEngine =
    [(mmioEngine + 0x229c, 0xffff8280)]"

definition getGlobalMMIO_Xe2HpgCore :: "MMIOList" where
  "getGlobalMMIO_Xe2HpgCore =
    [(0x4000, 0b1100), (0x4004, 0b100001100), (0x4008, 0b100110000), (0x400c, 0b100111100), (0x4010, 0b100000000),
     (getPatIndexMmioAddr 0, 0b1100), (getPatIndexMmioAddr 1, 0b1110), (getPatIndexMmioAddr 2, 0b1111),
     (getPatIndexMmioAddr 3, 0b111100), (getPatIndexMmioAddr 4, 0b110010), (getPatIndexMmioAddr 5, 0b111110),
     (getPatIndexMmioAddr 6, 0b10000011100), (getPatIndexMmioAddr 7, 0b110011), (getPatIndexMmioAddr 8, 0b110000),
     (getPatIndexMmioAddr 9, 0b1000001100), (getPatIndexMmioAddr 10, 0b1000110000),
     (getPatIndexMmioAddr 11, 0b11000011100), (getPatIndexMmioAddr 12, 0b1000111100), (getPatIndexMmioAddr 13, 0),
     (getPatIndexMmioAddr 14, 0b1000000000), (getPatIndexMmioAddr 15, 0b11000010100),
     (getPatIndexMmioAddr 20, 0b1001100), (getPatIndexMmioAddr 21, 0b1001001100),
     (getPatIndexMmioAddr 22, 0b1001110), (getPatIndexMmioAddr 23, 0b1001111), (getPatIndexMmioAddr 24, 0b10001100),
     (getPatIndexMmioAddr 25, 0b1010001100), (getPatIndexMmioAddr 26, 0b10001110),
     (getPatIndexMmioAddr 27, 0b10001111), (getPatIndexMmioAddr 28, 0b11001100),
     (getPatIndexMmioAddr 29, 0b1011001100), (getPatIndexMmioAddr 30, 0b11001110),
     (getPatIndexMmioAddr 31, 0b11001111), (0x47fc, 0b1111), (0x4820, 0b1100), (0x2090, 0xffff0000),
     (0x20d8, 0x20000), (0x20e0, 0xffff4000), (0x20e4, 0xffff0000), (0x20ec, 0xffff0051), (0x2580, 0xffff0005),
     (0x4b80, 0xffff1001), (0x7000, 0xffff0000), (0x7004, 0xffff0000), (0x9008, 0x200), (0x900c, 0x1b40),
     (0xb120, 0x14000002), (0xb134, 0xa0000000), (0xb234, 0xa0000000), (0xce90, 0x30003), (0xcf58, 0x80000000),
     (0xe194, 0xffff0002), (0x14800, 0x30003), (0x14804, 0xfff0000), (0x1a0d8, 0x20000), (0x42080, 0)]"

section \<open>Xe3Core\<close>

definition getEngineMMIO_Xe3Core_Rcs :: "u32 \<Rightarrow> MMIOList" where
  "getEngineMMIO_Xe3Core_Rcs mmioEngine =
    [(mmioEngine + 0x2058, 0), (mmioEngine + 0x20a8, 0), (mmioEngine + 0x229c, 0xffff8280),
     (mmioEngine + 0x209c, 0x10000000), (mmioEngine + 0x24d0, 0x7304)]"

definition getEngineMMIO_Xe3Core_Cccs :: "u32 \<Rightarrow> MMIOList" where
  "getEngineMMIO_Xe3Core_Cccs mmioEngine =
    [(mmioEngine + 0x2058, 0), (mmioEngine + 0x20a8, 0), (mmioEngine + 0x229c, 0xffff8280),
     (mmioEngine + 0x209c, 0x10000000)]"

definition getEngineMMIO_Xe3Core_Bcs :: "u32 \<Rightarrow> MMIOList" where
  "getEngineMMIO_Xe3Core_Bcs mmioEngine =
    [(mmioEngine + 0x229c, 0xffff8280)]"

definition getEngineMMIO_Xe3Core_Vcs :: "u32 \<Rightarrow> MMIOList" where
  "getEngineMMIO_Xe3Core_Vcs mmioEngine =
    [(mmioEngine + 0x229c, 0xffff8280), (mmioEngine + 0x24d0, 0x2920)]"

definition getEngineMMIO_Xe3Core_Vecs :: "u32 \<Rightarrow> MMIOList" where
  "getEngineMMIO_Xe3Core_Vecs mmioEngine =
    [(mmioEngine + 0x229c, 0xffff8280)]"

definition getEngineMMIO_Xe3Core_Ccs :: "u32 \<Rightarrow> MMIOList" where
  "getEngineMMIO_Xe3Core_Ccs mmioEngine =
    [(mmioEngine + 0x229c, 0xffff8280), (mmioEngine + 0x209c, 0x10000000)]"

definition getEngineMMIO_Xe3Core_LinkBcs :: "u32 \<Rightarrow> MMIOList" where
  "getEngineMMIO_Xe3Core_LinkBcs mmioEngine =
    [(mmioEngine + 0x229c, 0xffff8280)]"

definition getGlobalMMIO_Xe3Core :: "MMIOList" where
  "getGlobalMMIO_Xe3Core =
    [(0x4000, 0b1100), (0x4004, 0b100001100), (0x4008, 0b100110000), (0x400c, 0b100111100), (0x4010, 0b100000000),
     (getPatIndexMmioAddr 0, 0b1100), (getPatIndexMmioAddr 1, 0b1110), (getPatIndexMmioAddr 2, 0b1111),
     (getPatIndexMmioAddr 3, 0b111100), (getPatIndexMmioAddr 4, 0b110010), (getPatIndexMmioAddr 5, 0b111110),
     (getPatIndexMmioAddr 6, 0b10000011100), (getPatIndexMmioAddr 7, 0b110011), (getPatIndexMmioAddr 8, 0b110000),
     (getPatIndexMmioAddr 9, 0b1000001100), (getPatIndexMmioAddr 10, 0b1000110000),
     (getPatIndexMmioAddr 11, 0b11000011100), (getPatIndexMmioAddr 12, 0b1000111100), (getPatIndexMmioAddr 13, 0),
     (getPatIndexMmioAddr 14, 0b1000000000), (getPatIndexMmioAddr 15, 0b11000010100),
     (getPatIndexMmioAddr 16, 0b1000001110), (getPatIndexMmioAddr 20, 0b1001100),
     (getPatIndexMmioAddr 21, 0b1001001100), (getPatIndexMmioAddr 22, 0b1001110),
     (getPatIndexMmioAddr 23, 0b1001111), (getPatIndexMmioAddr 24, 0b10001100),
     (getPatIndexMmioAddr 25, 0b1010001100), (getPatIndexMmioAddr 26, 0b10001110),
     (getPatIndexMmioAddr 27, 0b10001111), (getPatIndexMmioAddr 28, 0b11001100),
     (getPatIndexMmioAddr 29, 0b1011001100), (getPatIndexMmioAddr 30, 0b11001110),
     (getPatIndexMmioAddr 31, 0b11001111), (0x47fc, 0b1111), (0x4820, 0b1100), (0x2090, 0xffff0000),
     (0x20d8, 0x20000), (0x20e0, 0xffff4000), (0x20e4, 0xffff0000), (0x20ec, 0xffff0051), (0x2580, 0xffff0005),
     (0x4b80, 0xffff1001), (0x7000, 0xffff0000), (0x7004, 0xffff0000), (0x9008, 0x200), (0x900c, 0x1b40),
     (0xb120, 0x14000002), (0xb134, 0xa0000000), (0xb234, 0xa0000000), (0xce90, 0x30003), (0xcf58, 0x80000000),
     (0xe194, 0xffff0002), (0x14800, 0x30003), (0x14804, 0xfff0000), (0x1a0d8, 0x20000), (0x42080, 0), (0xe7c8, 0),
     (0xe7c8 + 4, 0x1000)]"

section \<open>Xe3pCore\<close>

definition getEngineMMIO_Xe3pCore_Rcs :: "bool \<Rightarrow> u32 \<Rightarrow> MMIOList" where
  "getEngineMMIO_Xe3pCore_Rcs programAdditional mmioEngine =
    withAdditionalEngineMMIO programAdditional
    [(mmioEngine + 0x2058, 0), (mmioEngine + 0x20a8, 0), (mmioEngine + 0x229c, 0xffff8280),
     (mmioEngine + 0x209c, 0x10000000), (mmioEngine + 0x24d0, 0x7304)]"

definition getEngineMMIO_Xe3pCore_Cccs :: "bool \<Rightarrow> u32 \<Rightarrow> MMIOList" where
  "getEngineMMIO_Xe3pCore_Cccs programAdditional mmioEngine =
    withAdditionalEngineMMIO programAdditional
    [(mmioEngine + 0x2058, 0), (mmioEngine + 0x20a8, 0), (mmioEngine + 0x229c, 0xffff8280),
     (mmioEngine + 0x209c, 0x10000000)]"

definition getEngineMMIO_Xe3pCore_Bcs :: "bool \<Rightarrow> u32 \<Rightarrow> MMIOList" where
  "getEngineMMIO_Xe3pCore_Bcs programAdditional mmioEngine =
    withAdditionalEngineMMIO programAdditional
    [(mmioEngine + 0x229c, 0xffff8284)]"

definition getEngineMMIO_Xe3pCore_Vcs :: "bool \<Rightarrow> u32 \<Rightarrow> MMIOList" where
  "getEngineMMIO_Xe3pCore_Vcs programAdditional mmioEngine =
    withAdditionalEngineMMIO programAdditional
    [(mmioEngine + 0x229c, 0xffff8280), (mmioEngine + 0x24d0, 0x2920)]"

definition getEngineMMIO_Xe3pCore_Vecs :: "bool \<Rightarrow> u32 \<Rightarrow> MMIOList" where
  "getEngineMMIO_Xe3pCore_Vecs programAdditional mmioEngine =
    withAdditionalEngineMMIO programAdditional
    [(mmioEngine + 0x229c, 0xffff8280)]"

definition getEngineMMIO_Xe3pCore_Ccs :: "bool \<Rightarrow> u32 \<Rightarrow> MMIOList" where
  "getEngineMMIO_Xe3pCore_Ccs programAdditional mmioEngine =
    withAdditionalEngineMMIO programAdditional
    [(mmioEngine + 0x229c, 0xffff8284), (mmioEngine + 0x209c, 0x10000000)]"

definition getEngineMMIO_Xe3pCore_LinkBcs :: "bool \<Rightarrow> u32 \<Rightarrow> MMIOList" where
  "getEngineMMIO_Xe3pCore_LinkBcs programAdditional mmioEngine =
    withAdditionalEngineMMIO programAdditional
    [(mmioEngine + 0x229c, 0xffff8284)]"

definition getGlobalMMIO_Xe3pCore :: "MMIOList" where
  "getGlobalMMIO_Xe3pCore =
    [(0x4b80, 0xffff1001), (0x7000, 0xffff0000), (0x7004, 0xffff0000), (0x9008, 0x200), (0x900c, 0x1b40),
     (0xb120, 0x14000002), (0xb134, 0xa0000000), (0xb234, 0xa0000000), (0xce90, 0x30003), (0xcf58, 0x80000000),
     (0xe194, 0xffff0002), (0x14800, 0x10001), (0x14804, 0xfff0000), (0x1a0d8, 0x20000), (0x42080, 0)]"

section \<open>Products\<close>

definition getGlobalMMIO_Gen12LP :: "MMIOList" where
  "getGlobalMMIO_Gen12LP =
    [(0x2090, 0xffff0000), (0x20d8, 0x20000), (0x20e0, 0xffff4000), (0x20e4, 0xffff0000), (0x20ec, 0xffff0051),
     (0x2580, 0xffff0005), (0x4000, 0x8), (0x4004, 0x38), (0x4008, 0x38), (0x400c, 0x8), (0x4010, 0x18),
     (0x4014, 0x60038), (0x4018, 0), (0x401c, 0x33), (0x4020, 0x60037), (0x4024, 0x3b), (0x4028, 0x32),
     (0x402c, 0x36), (0x4030, 0x3a), (0x4034, 0x33), (0x4038, 0x37), (0x403c, 0x3b), (0x4040, 0x30), (0x4044, 0x34),
     (0x4048, 0x38), (0x404c, 0x31), (0x4050, 0x32), (0x4054, 0x36), (0x4058, 0x3a), (0x405c, 0x33), (0x4060, 0x37),
     (0x4064, 0x3b), (0x4068, 0x32), (0x406c, 0x36), (0x4070, 0x3a), (0x4074, 0x33), (0x4078, 0x37), (0x407c, 0x3b),
     (0x4080, 0x30), (0x4084, 0x34), (0x4088, 0x38), (0x408c, 0x31), (0x4090, 0x32), (0x4094, 0x36), (0x4098, 0x3a),
     (0x409c, 0x33), (0x40a0, 0x37), (0x40a4, 0x3b), (0x40a8, 0x32), (0x40ac, 0x36), (0x40b0, 0x3a), (0x40b4, 0x33),
     (0x40b8, 0x37), (0x40bc, 0x3b), (0x40c0, 0x38), (0x40c4, 0x34), (0x40c8, 0x38), (0x40cc, 0x31), (0x40d0, 0x32),
     (0x40d4, 0x36), (0x40d8, 0x3a), (0x40dc, 0x33), (0x40e0, 0x37), (0x40e4, 0x3b), (0x40e8, 0x32), (0x40ec, 0x36),
     (0x40f0, 0x38), (0x40f4, 0x38), (0x40f8, 0x38), (0x40fc, 0x38), (0xb020, 0x300010), (0xb024, 0x300010),
     (0xb028, 0x300030), (0xb02c, 0), (0xb030, 0x30001f), (0xb034, 0x170013), (0xb038, 0x1f), (0xb03c, 0),
     (0xb040, 0x100000), (0xb044, 0x170013), (0xb048, 0x10001f), (0xb04c, 0x170013), (0xb050, 0x30001f),
     (0xb054, 0x170013), (0xb058, 0x1f), (0xb05c, 0), (0xb060, 0x100000), (0xb064, 0x170013), (0xb068, 0x10001f),
     (0xb06c, 0x170013), (0xb070, 0x30001f), (0xb074, 0x170013), (0xb078, 0x1f), (0xb07c, 0), (0xb080, 0x30),
     (0xb084, 0x170013), (0xb088, 0x10001f), (0xb08c, 0x170013), (0xb090, 0x30001f), (0xb094, 0x170013),
     (0xb098, 0x300010), (0xb09c, 0x300010), (0x4100, 0), (0x4104, 0), (0x4108, 0), (0x410c, 0), (0x4110, 0),
     (0x4114, 0), (0x4118, 0), (0x411c, 0), (0x4b80, 0xffff1001), (0x7000, 0xffff0000), (0x7004, 0xffff0000),
     (0x9008, 0x200), (0x900c, 0x1b40), (0xb120, 0x14000002), (0xb134, 0xd0000020), (0xb234, 0xd0000020),
     (0xce90, 0x30003), (0xcf58, 0x80000000), (0xe194, 0xffff0002), (0x14800, 0x10001), (0x1a0d8, 0x20000),
     (0x42080, 0)]"

definition getGlobalMMIOPlatformSpecific_Gen12LP :: "MMIOList" where
  "getGlobalMMIOPlatformSpecific_Gen12LP =
    [(0xe48c, 0x2020202)]"

definition getGlobalMMIOPlatformSpecific_Mtl :: "MMIOList" where
  "getGlobalMMIOPlatformSpecific_Mtl =
    [(getPatIndexMmioAddr_XeHpgCore 0, 0), (getPatIndexMmioAddr_XeHpgCore 1, 0b100),
     (getPatIndexMmioAddr_XeHpgCore 2, 0b1100), (getPatIndexMmioAddr_XeHpgCore 3, 0b10),
     (getPatIndexMmioAddr_XeHpgCore 4, 0b11)]"

definition getGlobalMMIO_Pvc :: "MMIOList" where
  "getGlobalMMIO_Pvc =
    [(0x2090, 0xffff0000), (0x20d8, 0x20000), (0x20e0, 0xffff4000), (0x20e4, 0xffff0000), (0x20ec, 0xffff0051),
     (0x2580, 0xffff0005), (0x4000, 0x8), (0x4004, 0x38), (0x4008, 0x38), (0x400c, 0x8), (0x4010, 0x18),
     (0x4014, 0x60038), (0x4018, 0), (0x401c, 0x33), (0x4020, 0x60037), (0x4024, 0x3b), (0x4028, 0x32),
     (0x402c, 0x36), (0x4030, 0x3a), (0x4034, 0x33), (0x4038, 0x37), (0x403c, 0x3b), (0x4040, 0x30), (0x4044, 0x34),
     (0x4048, 0x38), (0x404c, 0x31), (0x4050, 0x32), (0x4054, 0x36), (0x4058, 0x3a), (0x405c, 0x33), (0x4060, 0x37),
     (0x4064, 0x3b), (0x4068, 0x32), (0x406c, 0x36), (0x4070, 0x3a), (0x4074, 0x33), (0x4078, 0x37), (0x407c, 0x3b),
     (0x4080, 0x30), (0x4084, 0x34), (0x4088, 0x38), (0x408c, 0x31), (0x4090, 0x32), (0x4094, 0x36), (0x4098, 0x3a),
     (0x409c, 0x33), (0x40a0, 0x37), (0x40a4, 0x3b), (0x40a8, 0x32), (0x40ac, 0x36), (0x40b0, 0x3a), (0x40b4, 0x33),
     (0x40b8, 0x37), (0x40bc, 0x3b), (0x40c0, 0x38), (0x40c4, 0x34), (0x40c8, 0x38), (0x40cc, 0x31), (0x40d0, 0x32),
     (0x40d4, 0x36), (0x40d8, 0x3a), (0x40dc, 0x33), (0x40e0, 0x37), (0x40e4, 0x3b), (0x40e8, 0x32), (0x40ec, 0x36),
     (0x40f0, 0x38), (0x40f4, 0x38), (0x40f8, 0x38), (0x40fc, 0x38), (0xb020, 0x100000), (0xb024, 0x500030),
     (0xb028, 0xb00010), (0xb02c, 0), (0xb030, 0x30001f), (0xb034, 0x170013), (0xb038, 0x1f), (0xb03c, 0),
     (0xb040, 0x100000), (0xb044, 0x170013), (0xb048, 0x10001f), (0xb04c, 0x170013), (0xb050, 0x30001f),
     (0xb054, 0x170013), (0xb058, 0x1f), (0xb05c, 0), (0xb060, 0x100000), (0xb064, 0x170013), (0xb068, 0x10001f),
     (0xb06c, 0x170013), (0xb070, 0x30001f), (0xb074, 0x170013), (0xb078, 0x1f), (0xb07c, 0), (0xb080, 0x9000b0),
     (0xb084, 0x170013), (0xb088, 0x10001f), (0xb08c, 0x170013), (0xb090, 0x30001f), (0xb094, 0x170013),
     (0xb098, 0x100010), (0xb09c, 0x100010), (0x4100, 0), (0x4104, 0), (0x4108, 0), (0x410c, 0), (0x4110, 0),
     (0x4114, 0), (0x4118, 0), (0x411c, 0), (0x4b80, 0xffff1001), (0x7000, 0xffff0000), (0x7004, 0xffff0000),
     (0x9008, 0x200), (0x900c, 0x1b40), (0xb134, 0xa0000000), (0xb234, 0xa0000000), (0xce90, 0x30003),
     (0xcf58, 0x80000000), (0xe194, 0xffff0002), (0x14800, 0x30003), (0x14804, 0xfff0000), (0x1a0d8, 0x20000),
     (0x42080, 0)]"

definition getGlobalMMIOPlatformSpecific_Cri :: "MMIOList" where
  "getGlobalMMIOPlatformSpecific_Cri =
    [(0x4000, 0b1100), (0x4004, 0b100111100), (0x4008, 0b100001100), (0x400c, 0b100110000), (0x4010, 0b100000000),
     (getPatIndexMmioAddr 0, 0), (getPatIndexMmioAddr 1, 0b10), (getPatIndexMmioAddr 2, 0b11),
     (getPatIndexMmioAddr 3, 0b111100), (getPatIndexMmioAddr 4, 0b111110), (getPatIndexMmioAddr 5, 0b110000),
     (getPatIndexMmioAddr 6, 0b110010), (getPatIndexMmioAddr 7, 0b110011), (getPatIndexMmioAddr 8, 0b1100),
     (getPatIndexMmioAddr 9, 0b1110), (getPatIndexMmioAddr 10, 0b1111), (getPatIndexMmioAddr 23, 0b1000000),
     (getPatIndexMmioAddr 24, 0b1000010), (getPatIndexMmioAddr 25, 0b1000011), (getPatIndexMmioAddr 26, 0b10000000),
     (getPatIndexMmioAddr 27, 0b10000010), (getPatIndexMmioAddr 28, 0b10000011),
     (getPatIndexMmioAddr 29, 0b11000000), (getPatIndexMmioAddr 30, 0b11000010),
     (getPatIndexMmioAddr 31, 0b11000011), (0x47fc, 0b11), (0x4820, 0)]"

definition getGlobalMMIOPlatformSpecific_Nvlp :: "MMIOList" where
  "getGlobalMMIOPlatformSpecific_Nvlp =
    [(0x4000, 0b1100), (0x4004, 0b100001100), (0x4008, 0b100110000), (0x400c, 0b100111100), (0x4010, 0b100000000),
     (getPatIndexMmioAddr 0, 0b1100), (getPatIndexMmioAddr 1, 0b1110), (getPatIndexMmioAddr 2, 0b1111),
     (getPatIndexMmioAddr 3, 0b111100), (getPatIndexMmioAddr 4, 0b110010), (getPatIndexMmioAddr 5, 0b111110),
     (getPatIndexMmioAddr 6, 0b10000011100), (getPatIndexMmioAddr 7, 0b110011), (getPatIndexMmioAddr 8, 0b110000),
     (getPatIndexMmioAddr 9, 0b1000001100), (getPatIndexMmioAddr 10, 0b1000110000),
     (getPatIndexMmioAddr 11, 0b11000011100), (getPatIndexMmioAddr 12, 0b1000111100), (getPatIndexMmioAddr 13, 0),
     (getPatIndexMmioAddr 14, 0b1000000000), (getPatIndexMmioAddr 15, 0b11000010100),
     (getPatIndexMmioAddr 16, 0b1000001110), (getPatIndexMmioAddr 18, 0b10000101100),
     (getPatIndexMmioAddr 19, 0b10000101110), (getPatIndexMmioAddr 20, 0b1001100),
     (getPatIndexMmioAddr 21, 0b1001001100), (getPatIndexMmioAddr 22, 0b1001110),
     (getPatIndexMmioAddr 23, 0b1001111), (getPatIndexMmioAddr 24, 0b10001100),
     (getPatIndexMmioAddr 25, 0b1010001100), (getPatIndexMmioAddr 26, 0b10001110),
     (getPatIndexMmioAddr 27, 0b10001111), (getPatIndexMmioAddr 28, 0b11001100),
     (getPatIndexMmioAddr 29, 0b1011001100), (getPatIndexMmioAddr 30, 0b11001110),
     (getPatIndexMmioAddr 31, 0b11001111), (0x47fc, 0b1111), (0x4820, 0b11)]"

end
