(* ===== verification/GpuFamilies.thy ===== *)
theory GpuFamilies
  imports FamilyTables
begin

text \<open>
  The GPU classes of the core families and the products: \<^verbatim>\<open>GpuGen12LP\<close> to \<^verbatim>\<open>GpuXe3pCore\<close> in
  \<^verbatim>\<open>command_streamer_helper_<family>.h\<close> and \<^verbatim>\<open>.cpp\<close>, the classes \<^verbatim>\<open>Gpu<Product>\<close> below them, and \<^verbatim>\<open>family_mapper.cpp\<close>.
  The virtual functions that take a GPU and write registers are the fields of the record \<open>gpu_class\<close>; the
  functions that only describe the GPU are fields of \<open>Gpu\<close>.
\<close>

section \<open>Settings\<close>

record Settings =
  s_PrintSettings :: bool
  s_ExeclistSubmitPortSubmission :: int
  s_TbxConnectionDelayInSeconds :: int
  s_LogLevel :: int
  s_IndirectRingState :: int
  s_EnablePs64 :: bool
  s_AppTransientForUncompressedCachedPages :: bool

definition defaultSettings :: Settings where
  "defaultSettings = \<lparr>s_PrintSettings = False, s_ExeclistSubmitPortSubmission = -1,
     s_TbxConnectionDelayInSeconds = -1, s_LogLevel = 0, s_IndirectRingState = -1, s_EnablePs64 = True,
     s_AppTransientForUncompressedCachedPages = False\<rparr>"

section \<open>Programs over a stream\<close>

text \<open>What a function does to the stream it is given when it reads registers too.\<close>

datatype StreamProg =
    Finish
  | Raise aub_error
  | Call StreamCmd StreamProg
  | ReadRegister u32 "u32 \<Rightarrow> StreamProg"

definition progR :: "'a result \<Rightarrow> ('a \<Rightarrow> StreamProg) \<Rightarrow> StreamProg" where
  "progR r f = (case r of Inl e \<Rightarrow> Raise e | Inr x \<Rightarrow> f x)"

fun writeAll :: "MMIOList \<Rightarrow> StreamProg \<Rightarrow> StreamProg" where
  "writeAll [] p = p"
| "writeAll ((off, val) # ws) p = Call (reg off val) (writeAll ws p)"

text \<open>The calls it makes when reading a register gives \<open>reads\<close>.\<close>

primrec progCalls :: "(u32 \<Rightarrow> u32) \<Rightarrow> StreamProg \<Rightarrow> StreamCmd list result" where
  "progCalls reads Finish = Inr []"
| "progCalls reads (Raise e) = Inl e"
| "progCalls reads (Call c p) = bindR (progCalls reads p) (\<lambda>cs. Inr (c # cs))"
| "progCalls reads (ReadRegister off f) = progCalls reads (f (reads off))"

lemma progCalls_writeAll:
  "progCalls reads (writeAll ws p) = bindR (progCalls reads p) (\<lambda>cs. Inr (map (\<lambda>(off, val). reg off val) ws @ cs))"
  by (induction ws p rule: writeAll.induct) (auto simp: bindR_def split: sum.splits)

lemma progR_simps [simp]: "progR (Inl e) f = Raise e" "progR (Inr x) f = f x"
  by (simp_all add: progR_def)

section \<open>The virtual functions\<close>

record gpu_class =
  gc_getCommandStreamerHelper :: "Gpu \<Rightarrow> u32 \<Rightarrow> u32 \<Rightarrow> CommandStreamerHelper result"
  gc_initializeGlobalMMIO :: "Gpu \<Rightarrow> u32 \<Rightarrow> u32 \<Rightarrow> MMIOList"
  gc_setMemoryBankSize :: "Gpu \<Rightarrow> u32 \<Rightarrow> u64 \<Rightarrow> MMIOList result"
  gc_setGGTTBaseAddresses :: "Gpu \<Rightarrow> u32 \<Rightarrow> MMIOList result"
  gc_initializeDefaultMemoryPools :: "Gpu \<Rightarrow> u32 \<Rightarrow> u32 \<Rightarrow> u64 \<Rightarrow> StreamProg"
  gc_isValidDataStolenMemorySize :: "u64 \<Rightarrow> bool"
  gc_isValidWOPCMSize :: "u64 \<Rightarrow> bool"
  gc_getGSMBaseAddress :: "Gpu \<Rightarrow> u32 \<Rightarrow> u64 result"
  gc_ppgttKind :: "u64 \<Rightarrow> ptKind"

text \<open>
  The base class: \<^verbatim>\<open>Gpu\<close> of \<^verbatim>\<open>gpu.h\<close>.  \<open>gc_ppgttKind\<close> is the class of the object that \<^verbatim>\<open>allocatePPGTT\<close> makes for an
  address space.  A family overrides the three functions that are left here without a meaning.
\<close>

definition baseGpu :: Gpu where
  "baseGpu = \<lparr>gpu_productFamily = 0, gpu_gfxCoreFamily = 0, gpu_productAbbreviation = '''',
     gpu_deviceId = 0, gpu_deviceCount = 0, gpu_isMemorySupported = (\<lambda>banks alignment. False),
     gpu_getSupportedEngines = [], gpu_requireLocalMemoryForPageTables = False,
     gpu_getGlobalMMIO = [], gpu_getGlobalMMIOPlatformSpecific = [],
     gpu_getPPGTTExtraEntryBits = (\<lambda>params. 0), gpu_getWOPCMDefaultSize = 8 * ucast MB,
     gpu_getDSMDefaultSize = None, gpu_getGSMSize = 8 * ucast MB, gpu_getContextGroupCount = 8,
     gpu_stolenMemory = None, gpu_programAdditionalEngineMMIO = False,
     gpu_dsmSizeOverride = 0, gpu_wopcmSizeOverride = 0\<rparr>"

definition baseClass :: gpu_class where
  "baseClass = \<lparr>gc_getCommandStreamerHelper = (\<lambda>gpu device engine. Inl NullDereference),
     gc_initializeGlobalMMIO = (\<lambda>gpu devicesCount stepping. initializeGlobalMMIO gpu),
     gc_setMemoryBankSize = (\<lambda>gpu deviceCount memoryBankSize. Inr []),
     gc_setGGTTBaseAddresses = (\<lambda>gpu deviceCount. Inr []),
     gc_initializeDefaultMemoryPools = (\<lambda>gpu mode devicesCount memoryBankSize. Finish),
     gc_isValidDataStolenMemorySize = isValidDataStolenMemorySize, gc_isValidWOPCMSize = (\<lambda>wopcmSize. True),
     gc_getGSMBaseAddress = getGSMBaseAddress, gc_ppgttKind = (\<lambda>gpuAddressSpace. LegacyPML4)\<rparr>"

definition allocatePPGTT ::
  "gpu_class \<Rightarrow> u32 \<Rightarrow> u64 \<Rightarrow> PhysicalAddressAllocator \<Rightarrow> (PageTable \<times> PhysicalAddressAllocator) result" where
  "allocatePPGTT cls memoryBank gpuAddressSpace alloc =
     newTable (gc_ppgttKind cls gpuAddressSpace) True memoryBank alloc"

definition allocateGGTT :: "u32 \<Rightarrow> u64 \<Rightarrow> GGTT result" where
  "allocateGGTT memoryBank gttBaseAddress = newGGTT memoryBank gttBaseAddress"

section \<open>Engines\<close>

definition ENGINE_CCS1 :: u32 where "ENGINE_CCS1 = 5"
definition ENGINE_CCS2 :: u32 where "ENGINE_CCS2 = 6"
definition ENGINE_CCS3 :: u32 where "ENGINE_CCS3 = 7"
definition ENGINE_BCS2 :: u32 where "ENGINE_BCS2 = 10"
definition ENGINE_BCS3 :: u32 where "ENGINE_BCS3 = 11"
definition ENGINE_BCS4 :: u32 where "ENGINE_BCS4 = 12"
definition ENGINE_BCS5 :: u32 where "ENGINE_BCS5 = 13"
definition ENGINE_BCS6 :: u32 where "ENGINE_BCS6 = 14"
definition ENGINE_BCS7 :: u32 where "ENGINE_BCS7 = 15"
definition ENGINE_BCS8 :: u32 where "ENGINE_BCS8 = 16"

text \<open>The engine classes of \<^verbatim>\<open>command_streamer_helper.h\<close>, with the number that the constructor of some takes.\<close>

datatype HelperClass =
    HelperRcs | HelperBcs | HelperVcs | HelperVecs | HelperCcs u32 | HelperCccs | HelperLinkBcs u32

fun newHelper :: "u32 \<Rightarrow> HelperClass \<Rightarrow> CommandStreamerHelper" where
  "newHelper device HelperRcs = newCommandStreamerHelperRcs device"
| "newHelper device HelperBcs = newCommandStreamerHelperBcs device"
| "newHelper device HelperVcs = newCommandStreamerHelperVcs device"
| "newHelper device HelperVecs = newCommandStreamerHelperVecs device"
| "newHelper device (HelperCcs engineId) = newCommandStreamerHelperCcs device engineId"
| "newHelper device HelperCccs = newCommandStreamerHelperCccs device"
| "newHelper device (HelperLinkBcs engineId) = newCommandStreamerHelperLinkBcs device engineId"

text \<open>
  An access of the table of a GPU, which has \<open>devices\<close> rows; a slot the constructor leaves alone holds null.
  The GPU is stored in the helper.
\<close>

definition helperAt ::
  "nat \<Rightarrow> (u32 \<times> HelperClass) list \<Rightarrow> (u32 \<Rightarrow> HelperClass \<Rightarrow> CommandStreamerHelper) \<Rightarrow> Gpu \<Rightarrow> u32 \<Rightarrow> u32
    \<Rightarrow> CommandStreamerHelper result" where
  "helperAt devices slots new gpu device engine =
     (if devices \<le> unat device \<or> NUM_ENGINES \<le> engine then Inl IndexOutOfRange
      else case map_of slots engine of
             None \<Rightarrow> Inl NullDereference
           | Some c \<Rightarrow> Inr ((new device c)\<lparr>csh_gpu := Some gpu\<rparr>))"

section \<open>Register writes several families share\<close>

definition writesAt :: "u32 \<Rightarrow> MMIOList \<Rightarrow> MMIOList" where
  "writesAt mmioDevice ws = map (\<lambda>(off, val). (mmioDevice + off, val)) ws"

fun globalMMIO_loop :: "(u32 \<Rightarrow> MMIOList) \<Rightarrow> u32 \<Rightarrow> nat \<Rightarrow> MMIOList" where
  "globalMMIO_loop writes mmioDevice 0 = []"
| "globalMMIO_loop writes mmioDevice (Suc devices) =
     writes mmioDevice @ globalMMIO_loop writes (mmioDevice + mmioDeviceOffset) devices"

text \<open>One register per device: the size of its bank in bits 8 and up, its base in bits 1 to 7, in GB.\<close>

definition bankSizeValue :: "u64 \<Rightarrow> u64 \<Rightarrow> u32" where
  "bankSizeValue gb base = ucast (push_bit 8 gb) OR ucast (push_bit 1 base) OR 1"

fun bankSizes_loop :: "u64 \<Rightarrow> u64 \<Rightarrow> u32 \<Rightarrow> nat \<Rightarrow> MMIOList" where
  "bankSizes_loop gb base off 0 = []"
| "bankSizes_loop gb base off (Suc devices) =
     (off, bankSizeValue gb base) # bankSizes_loop gb (base + gb) (off + 4) devices"

text \<open>The base address of the global table of a device, the upper half first.\<close>

definition gsmBase :: u32 where "gsmBase = 0x108100"

definition gsmWrites :: "u32 \<Rightarrow> u64 \<Rightarrow> MMIOList" where
  "gsmWrites register gttBase =
     [(register + 4, ucast (drop_bit 32 gttBase)), (register, ucast (gttBase AND 0xFFF00000))]"

definition mmioDevices :: "u32 list" where
  "mmioDevices = [0, 16 * MB, 32 * MB, 48 * MB]"

text \<open>The other devices' tables are known to the first device too.\<close>

definition gsmDevice :: "(Gpu \<Rightarrow> u32 \<Rightarrow> u64 result) \<Rightarrow> Gpu \<Rightarrow> nat \<Rightarrow> MMIOList result" where
  "gsmDevice base gpu device =
     bindR (base gpu (word_of_nat device)) (\<lambda>gttBase.
     if length mmioDevices \<le> device then Inl IndexOutOfRange
     else Inr (gsmWrites (mmioDevices ! device + gsmBase) gttBase
        @ (if 0 < device then gsmWrites (mmioDevices ! 0 + gsmBase + 8 * word_of_nat device) gttBase else [])))"

fun gsm_loop :: "(Gpu \<Rightarrow> u32 \<Rightarrow> u64 result) \<Rightarrow> Gpu \<Rightarrow> nat \<Rightarrow> nat \<Rightarrow> MMIOList result" where
  "gsm_loop base gpu device 0 = Inr []"
| "gsm_loop base gpu device (Suc n) =
     bindR (gsmDevice base gpu device) (\<lambda>ws. bindR (gsm_loop base gpu (device + 1) n) (\<lambda>ws'. Inr (ws @ ws')))"

definition tileBankSizes :: "Gpu \<Rightarrow> u32 \<Rightarrow> u64 \<Rightarrow> MMIOList result" where
  "tileBankSizes gpu deviceCount memoryBankSize =
     assertR (0 < deviceCount) (assertR (deviceCount \<le> gpu_deviceCount gpu)
       (if deviceCount = 1 then Inr []
        else let gb = memoryBankSize div ucast GB
             in assertR (0 < gb) (assertR (gb < 128) (Inr (bankSizes_loop gb 0 0x4900 (unat deviceCount))))))"

definition tileGgttBases :: "Gpu \<Rightarrow> u32 \<Rightarrow> MMIOList result" where
  "tileGgttBases gpu deviceCount =
     assertR (0 < deviceCount) (assertR (deviceCount \<le> gpu_deviceCount gpu)
       (gsm_loop getGSMBaseAddress gpu 0 (unat deviceCount)))"

text \<open>A GPU with one device only.\<close>

definition singleGgttBase :: "Gpu \<Rightarrow> u32 \<Rightarrow> MMIOList result" where
  "singleGgttBase gpu deviceCount =
     assertR (0 < deviceCount) (assertR (deviceCount \<le> gpu_deviceCount gpu) (assertR (1 = gpu_deviceCount gpu)
       (bindR (getGSMBaseAddress gpu 0) (\<lambda>gttBase. Inr (gsmWrites gsmBase gttBase)))))"

text \<open>Support of local banks: pages of the sizes \<open>local\<close> in the banks \<open>supported\<close>.\<close>

definition banksSupported :: "u32 \<Rightarrow> u32 list \<Rightarrow> u32 \<Rightarrow> u32 \<Rightarrow> bool" where
  "banksSupported supported localSizes memoryBanks alignment =
     (let unsupported = MEMORY_BANKS_ALL XOR supported
      in if unsupported AND memoryBanks \<noteq> 0 then False
         else if memoryBanks AND supported \<noteq> 0 then alignment \<in> set localSizes
         else alignment = 4096 \<or> alignment = 65536)"

text \<open>The base address of the flat CCS of a device.\<close>

definition flatCcsWrites :: "u32 \<Rightarrow> u64 \<Rightarrow> MMIOList" where
  "flatCcsWrites deviceIndex flatCcsBaseAddress =
     [(deviceIndex * mmioDeviceOffset + 0x4910, ucast (drop_bit 8 flatCcsBaseAddress) OR 1)]"

definition stolenBase :: "Gpu \<Rightarrow> u32 \<Rightarrow> u64 result" where
  "stolenBase gpu device = (case gpu_stolenMemory gpu of
       None \<Rightarrow> Inl NullDereference | Some m \<Rightarrow> stolenMemory_getBaseAddress m device)"

fun flatCcs_loop :: "Gpu \<Rightarrow> u32 \<Rightarrow> nat \<Rightarrow> StreamProg" where
  "flatCcs_loop gpu i 0 = Finish"
| "flatCcs_loop gpu i (Suc n) =
     progR (stolenBase gpu i) (\<lambda>base. writeAll (flatCcsWrites i base) (flatCcs_loop gpu (i + 1) n))"

section \<open>Gen12LP\<close>

fun getEngineMMIO_Gen12LP :: "HelperClass \<Rightarrow> u32 \<Rightarrow> MMIOList" where
  "getEngineMMIO_Gen12LP HelperRcs mmioEngine = getEngineMMIO_Gen12LP_Rcs mmioEngine"
| "getEngineMMIO_Gen12LP HelperBcs mmioEngine = getEngineMMIO_Gen12LP_Bcs mmioEngine"
| "getEngineMMIO_Gen12LP HelperVcs mmioEngine = getEngineMMIO_Gen12LP_Vcs mmioEngine"
| "getEngineMMIO_Gen12LP HelperVecs mmioEngine = getEngineMMIO_Gen12LP_Vecs mmioEngine"
| "getEngineMMIO_Gen12LP (HelperCcs engineId) mmioEngine = getEngineMMIO_Gen12LP_Ccs mmioEngine"
| "getEngineMMIO_Gen12LP c mmioEngine = []"

definition helpers_Gen12LP :: "(u32 \<times> HelperClass) list" where
  "helpers_Gen12LP = [(ENGINE_RCS, HelperRcs), (ENGINE_BCS, HelperBcs), (ENGINE_VCS, HelperVcs),
     (ENGINE_VECS, HelperVecs), (ENGINE_CCS, HelperCcs 0)]"

definition newHelper_Gen12LP :: "u32 \<Rightarrow> HelperClass \<Rightarrow> CommandStreamerHelper" where
  "newHelper_Gen12LP device c = (let h = newHelper device c
     in CommandStreamerHelperGen12LP (getEngineMMIO_Gen12LP c (csh_mmioEngine h)) h)"

definition getCommandStreamerHelper_Gen12LP :: "Gpu \<Rightarrow> u32 \<Rightarrow> u32 \<Rightarrow> CommandStreamerHelper result" where
  "getCommandStreamerHelper_Gen12LP = helperAt 1 helpers_Gen12LP newHelper_Gen12LP"

definition isMemorySupported_Gen12LP :: "u32 \<Rightarrow> u32 \<Rightarrow> bool" where
  "isMemorySupported_Gen12LP memoryBanks alignment \<longleftrightarrow>
     memoryBanks = MEMORY_BANK_SYSTEM \<and> (alignment = 4096 \<or> alignment = 65536)"

definition GpuGen12LP :: Gpu where
  "GpuGen12LP = baseGpu\<lparr>gpu_isMemorySupported := isMemorySupported_Gen12LP,
     gpu_getSupportedEngines := [ENGINE_RCS, ENGINE_BCS, ENGINE_VCS, ENGINE_VECS, ENGINE_CCS],
     gpu_getGlobalMMIO := getGlobalMMIO_Gen12LP,
     gpu_getGlobalMMIOPlatformSpecific := getGlobalMMIOPlatformSpecific_Gen12LP\<rparr>"

definition setMemoryBankSize_Gen12LP :: "Gpu \<Rightarrow> u32 \<Rightarrow> u64 \<Rightarrow> MMIOList result" where
  "setMemoryBankSize_Gen12LP gpu deviceCount memoryBankSize = Inr [(0x4900, 0)]"

definition class_Gen12LP :: gpu_class where
  "class_Gen12LP = baseClass\<lparr>gc_getCommandStreamerHelper := getCommandStreamerHelper_Gen12LP,
     gc_setMemoryBankSize := setMemoryBankSize_Gen12LP,
     gc_getGSMBaseAddress := (\<lambda>gpu device. Inr 0)\<rparr>"

section \<open>XeHpgCore\<close>

fun getEngineMMIO_XeHpgCore :: "HelperClass \<Rightarrow> u32 \<Rightarrow> MMIOList" where
  "getEngineMMIO_XeHpgCore HelperRcs mmioEngine = getEngineMMIO_XeHpgCore_Rcs mmioEngine"
| "getEngineMMIO_XeHpgCore HelperBcs mmioEngine = getEngineMMIO_XeHpgCore_Bcs mmioEngine"
| "getEngineMMIO_XeHpgCore HelperVcs mmioEngine = getEngineMMIO_XeHpgCore_Vcs mmioEngine"
| "getEngineMMIO_XeHpgCore HelperVecs mmioEngine = getEngineMMIO_XeHpgCore_Vecs mmioEngine"
| "getEngineMMIO_XeHpgCore (HelperCcs engineId) mmioEngine = getEngineMMIO_XeHpgCore_Ccs mmioEngine"
| "getEngineMMIO_XeHpgCore c mmioEngine = []"

definition helpers_XeHpgCore :: "(u32 \<times> HelperClass) list" where
  "helpers_XeHpgCore = [(ENGINE_RCS, HelperRcs), (ENGINE_BCS, HelperBcs), (ENGINE_VCS, HelperVcs),
     (ENGINE_VECS, HelperVecs), (ENGINE_CCS, HelperCcs 0), (ENGINE_CCS1, HelperCcs 1), (ENGINE_CCS2, HelperCcs 2),
     (ENGINE_CCS3, HelperCcs 3)]"

definition newHelper_XeHpgCore :: "Settings \<Rightarrow> u32 \<Rightarrow> HelperClass \<Rightarrow> CommandStreamerHelper" where
  "newHelper_XeHpgCore settings device c = (let h = newHelper device c
     in CommandStreamerHelperXeHpgCore (s_ExeclistSubmitPortSubmission settings)
          (getEngineMMIO_XeHpgCore c (csh_mmioEngine h)) h)"

definition getCommandStreamerHelper_XeHpgCore :: "Settings \<Rightarrow> Gpu \<Rightarrow> u32 \<Rightarrow> u32 \<Rightarrow> CommandStreamerHelper result" where
  "getCommandStreamerHelper_XeHpgCore settings = helperAt 1 helpers_XeHpgCore (newHelper_XeHpgCore settings)"

text \<open>The table has four places for three engines; the last one holds the value 0, the render engine again.\<close>

definition getSupportedEngines_XeHpgCore :: "u32 list" where
  "getSupportedEngines_XeHpgCore = [ENGINE_RCS, ENGINE_BCS, ENGINE_CCS, 0]"

text \<open>The registers of the platform are written once per device, but always to the first one.\<close>

definition initializeGlobalMMIO_XeHpgCore :: "Gpu \<Rightarrow> u32 \<Rightarrow> u32 \<Rightarrow> MMIOList" where
  "initializeGlobalMMIO_XeHpgCore gpu devicesCount stepping =
     globalMMIO_loop (\<lambda>mmioDevice. writesAt mmioDevice (gpu_getGlobalMMIO gpu)
       @ gpu_getGlobalMMIOPlatformSpecific gpu) 0 (unat devicesCount)"

definition isMemorySupported_XeHpgCore :: "u32 \<Rightarrow> u32 \<Rightarrow> bool" where
  "isMemorySupported_XeHpgCore = banksSupported (MEMORY_BANK_SYSTEM OR MEMORY_BANK_0) [4096, 65536]"

definition setMemoryBankSize_XeHpgCore :: "Gpu \<Rightarrow> u32 \<Rightarrow> u64 \<Rightarrow> MMIOList result" where
  "setMemoryBankSize_XeHpgCore = tileBankSizes"

definition setGGTTBaseAddresses_XeHpgCore :: "Gpu \<Rightarrow> u32 \<Rightarrow> MMIOList result" where
  "setGGTTBaseAddresses_XeHpgCore gpu deviceCount = assertR (0 < deviceCount)
     (assertR (deviceCount \<le> gpu_deviceCount gpu) (assertR (1 = gpu_deviceCount gpu)
       (gsm_loop getGSMBaseAddress gpu 0 (unat deviceCount))))"

definition initializeFlatCcsBaseAddressMmio_XeHpgCore :: "u32 \<Rightarrow> u64 \<Rightarrow> MMIOList" where
  "initializeFlatCcsBaseAddressMmio_XeHpgCore = flatCcsWrites"

definition initializeDefaultMemoryPools_XeHpgCore :: "Gpu \<Rightarrow> u32 \<Rightarrow> u32 \<Rightarrow> u64 \<Rightarrow> StreamProg" where
  "initializeDefaultMemoryPools_XeHpgCore gpu mode devicesCount memoryBankSize =
     (if IsAnyTbxMode mode then flatCcs_loop gpu 0 (unat devicesCount) else Finish)"

definition GpuXeHpgCore :: Gpu where
  "GpuXeHpgCore = baseGpu\<lparr>gpu_isMemorySupported := isMemorySupported_XeHpgCore,
     gpu_getSupportedEngines := getSupportedEngines_XeHpgCore, gpu_getGlobalMMIO := getGlobalMMIO_XeHpgCore\<rparr>"

definition class_XeHpgCore :: "Settings \<Rightarrow> gpu_class" where
  "class_XeHpgCore settings = baseClass
     \<lparr>gc_getCommandStreamerHelper := getCommandStreamerHelper_XeHpgCore settings,
      gc_initializeGlobalMMIO := initializeGlobalMMIO_XeHpgCore,
      gc_setMemoryBankSize := setMemoryBankSize_XeHpgCore,
      gc_setGGTTBaseAddresses := setGGTTBaseAddresses_XeHpgCore,
      gc_initializeDefaultMemoryPools := initializeDefaultMemoryPools_XeHpgCore,
      gc_ppgttKind := (\<lambda>gpuAddressSpace. PML4)\<rparr>"

section \<open>XeCore\<close>

definition isMemorySupported_XeCore :: "u32 \<Rightarrow> u32 \<Rightarrow> bool" where
  "isMemorySupported_XeCore = banksSupported (MEMORY_BANK_SYSTEM OR MEMORY_BANK 0 OR MEMORY_BANK 1 OR MEMORY_BANK 2
     OR MEMORY_BANK 3) [65536]"

definition setMemoryBankSize_XeCore :: "Gpu \<Rightarrow> u32 \<Rightarrow> u64 \<Rightarrow> MMIOList result" where
  "setMemoryBankSize_XeCore = tileBankSizes"

definition setGGTTBaseAddresses_XeCore :: "Gpu \<Rightarrow> u32 \<Rightarrow> MMIOList result" where
  "setGGTTBaseAddresses_XeCore = tileGgttBases"

definition initializeFlatCcsBaseAddressMmio_XeCore :: "u32 \<Rightarrow> u64 \<Rightarrow> MMIOList" where
  "initializeFlatCcsBaseAddressMmio_XeCore = flatCcsWrites"

definition initializeDefaultMemoryPools_XeCore :: "Gpu \<Rightarrow> u32 \<Rightarrow> u32 \<Rightarrow> u64 \<Rightarrow> StreamProg" where
  "initializeDefaultMemoryPools_XeCore gpu mode devicesCount memoryBankSize =
     (if IsAnyTbxMode mode then flatCcs_loop gpu 0 (unat devicesCount) else Finish)"

definition GpuXeCore :: Gpu where
  "GpuXeCore = baseGpu\<lparr>gpu_isMemorySupported := isMemorySupported_XeCore\<rparr>"

definition class_XeCore :: gpu_class where
  "class_XeCore = baseClass\<lparr>gc_setMemoryBankSize := setMemoryBankSize_XeCore,
     gc_setGGTTBaseAddresses := setGGTTBaseAddresses_XeCore,
     gc_initializeDefaultMemoryPools := initializeDefaultMemoryPools_XeCore,
     gc_ppgttKind := (\<lambda>gpuAddressSpace. PML4)\<rparr>"

text \<open>
  The engines of XeHpc, Xe2Hpg and Xe3p, and the list of the engines they say they support; it has 17 places for
  16 engines, so the last one is the render engine.
\<close>

definition helpers_full :: "(u32 \<times> HelperClass) list" where
  "helpers_full = [(ENGINE_CCCS, HelperCccs), (ENGINE_RCS, HelperRcs), (ENGINE_BCS, HelperBcs), (ENGINE_VCS, HelperVcs),
     (ENGINE_VECS, HelperVecs), (ENGINE_CCS, HelperCcs 0), (ENGINE_CCS1, HelperCcs 1), (ENGINE_CCS2, HelperCcs 2),
     (ENGINE_CCS3, HelperCcs 3), (ENGINE_BCS1, HelperLinkBcs 1), (ENGINE_BCS2, HelperLinkBcs 2),
     (ENGINE_BCS3, HelperLinkBcs 3), (ENGINE_BCS4, HelperLinkBcs 4), (ENGINE_BCS5, HelperLinkBcs 5),
     (ENGINE_BCS6, HelperLinkBcs 6), (ENGINE_BCS7, HelperLinkBcs 7), (ENGINE_BCS8, HelperLinkBcs 8)]"

definition supportedEngines_full :: "u32 list" where
  "supportedEngines_full = [ENGINE_BCS, ENGINE_VCS, ENGINE_VECS, ENGINE_CCS, ENGINE_CCS1, ENGINE_CCS2, ENGINE_CCS3,
     ENGINE_CCCS, ENGINE_BCS1, ENGINE_BCS2, ENGINE_BCS3, ENGINE_BCS4, ENGINE_BCS5, ENGINE_BCS6, ENGINE_BCS7,
     ENGINE_BCS8, 0]"

section \<open>XeHpcCore\<close>

fun getEngineMMIO_XeHpcCore :: "HelperClass \<Rightarrow> u32 \<Rightarrow> MMIOList" where
  "getEngineMMIO_XeHpcCore HelperRcs mmioEngine = getEngineMMIO_XeHpcCore_Rcs mmioEngine"
| "getEngineMMIO_XeHpcCore HelperBcs mmioEngine = getEngineMMIO_XeHpcCore_Bcs mmioEngine"
| "getEngineMMIO_XeHpcCore HelperVcs mmioEngine = getEngineMMIO_XeHpcCore_Vcs mmioEngine"
| "getEngineMMIO_XeHpcCore HelperVecs mmioEngine = getEngineMMIO_XeHpcCore_Vecs mmioEngine"
| "getEngineMMIO_XeHpcCore (HelperCcs engineId) mmioEngine = getEngineMMIO_XeHpcCore_Ccs mmioEngine"
| "getEngineMMIO_XeHpcCore HelperCccs mmioEngine = getEngineMMIO_XeHpcCore_Cccs mmioEngine"
| "getEngineMMIO_XeHpcCore (HelperLinkBcs engineId) mmioEngine = getEngineMMIO_XeHpcCore_LinkBcs mmioEngine"

definition helpers_XeHpcCore :: "(u32 \<times> HelperClass) list" where
  "helpers_XeHpcCore = helpers_full"

definition newHelper_XeHpcCore :: "u32 \<Rightarrow> HelperClass \<Rightarrow> CommandStreamerHelper" where
  "newHelper_XeHpcCore device c = (let h = newHelper device c
     in CommandStreamerHelperXeHpcCore (getEngineMMIO_XeHpcCore c (csh_mmioEngine h)) h)"

definition getCommandStreamerHelper_XeHpcCore :: "Gpu \<Rightarrow> u32 \<Rightarrow> u32 \<Rightarrow> CommandStreamerHelper result" where
  "getCommandStreamerHelper_XeHpcCore = helperAt 4 helpers_XeHpcCore newHelper_XeHpcCore"

definition getSupportedEngines_XeHpcCore :: "u32 list" where
  "getSupportedEngines_XeHpcCore = supportedEngines_full"

definition getPPGTTExtraEntryBits_XeHpcCore :: "AdditionalParams \<Rightarrow> u64" where
  "getPPGTTExtraEntryBits_XeHpcCore params =
     toBitValue [atomicEnableBit] OR (if uncached params then 0 else toBitValue [3] OR toBitValue [4])"

definition ppgttKind_XeHpcCore :: "u64 \<Rightarrow> ptKind" where
  "ppgttKind_XeHpcCore gpuAddressSpace = (if gpuAddressSpace = push_bit 57 1 - 1 then PML5 else PML4)"

definition GpuXeHpcCore :: Gpu where
  "GpuXeHpcCore = GpuXeCore\<lparr>gpu_getSupportedEngines := getSupportedEngines_XeHpcCore,
     gpu_getGlobalMMIO := getGlobalMMIO_XeHpcCore, gpu_getPPGTTExtraEntryBits := getPPGTTExtraEntryBits_XeHpcCore\<rparr>"

definition class_XeHpcCore :: gpu_class where
  "class_XeHpcCore = class_XeCore\<lparr>gc_getCommandStreamerHelper := getCommandStreamerHelper_XeHpcCore,
     gc_ppgttKind := ppgttKind_XeHpcCore\<rparr>"

section \<open>Memory pools from Xe2Hpg on\<close>

text \<open>\<^verbatim>\<open>misc_helpers.h\<close>\<close>

definition countBits :: "u16 \<Rightarrow> u16" where
  "countBits v =
     (let r = (drop_bit 1 v AND 0x5555) + (v AND 0x5555); r = (drop_bit 2 r AND 0x3333) + (r AND 0x3333);
          r = (drop_bit 4 r AND 0x0f0f) + (r AND 0x0f0f); r = (drop_bit 8 r AND 0x0ff) + (r AND 0x0ff)
      in r AND 0xff)"

definition sizeToGMSMappings :: "(u32 \<times> u32) list" where
  "sizeToGMSMappings = [(0x00, 0), (0x01, 32 * MB), (0x02, 64 * MB), (0x03, 96 * MB), (0x04, 128 * MB),
     (0xf0, 4 * MB), (0xf1, 8 * MB), (0xf2, 12 * MB), (0xf3, 16 * MB), (0xf4, 20 * MB), (0xf5, 24 * MB),
     (0xf6, 28 * MB), (0xf7, 32 * MB), (0xf8, 36 * MB), (0xf9, 40 * MB), (0xfa, 44 * MB), (0xfb, 48 * MB),
     (0xfc, 52 * MB), (0xfd, 56 * MB), (0xfe, 60 * MB)]"

definition firstMapping :: "(u32 \<times> u32) list \<Rightarrow> u64 \<Rightarrow> u32" where
  "firstMapping mappings sz = (case find (\<lambda>(code, mapped). ucast mapped = sz) mappings of
       None \<Rightarrow> 0xff | Some (code, mapped) \<Rightarrow> code)"

text \<open>
  The registers of one device: the DSM, the sizes of DSM and GSM, the WOPCM (\<open>wopcmBits\<close> is the code of its size), the
  context of the power state RC6 and the address range of the tile.
\<close>

definition poolRegisters :: "Gpu \<Rightarrow> u32 \<Rightarrow> u64 \<Rightarrow> u64 \<Rightarrow> u64 \<Rightarrow> MMIOList" where
  "poolRegisters gpu i wopcmBits memoryBankSize dsm =
     (let wopcmBase = memoryBankSize - getWOPCMSize gpu; rc6Base = memoryBankSize - 64 * 1024
      in writesAt (i * mmioDeviceOffset)
        [(0x1080c0, ucast dsm), (0x1080c4, ucast (drop_bit 32 dsm)),
         (0x108040, 0xc0 OR push_bit 8 (firstMapping sizeToGMSMappings (getDSMSize gpu))),
         (0xC050, 0x1f0000), (0xC340, 0x600002),
         (0x1082C0, ucast (wopcmBase OR 0x5 OR wopcmBits)), (0x1082C4, ucast (drop_bit 32 wopcmBase)),
         (0xd48, ucast (rc6Base OR 1)), (0xd4c, ucast (drop_bit 32 rc6Base)), (0xd40, 0x80000001),
         (0x1083a0, push_bit 8 8 OR 1)])"

text \<open>The flat CCS of a device: the enable bit, the address in two registers and the size in units of 128 KB.\<close>

definition flatCcsRegisters :: "u32 \<Rightarrow> u64 \<Rightarrow> u64 \<Rightarrow> MMIOList result" where
  "flatCcsRegisters deviceIndex flatCcsBaseAddress sz =
     (let flatCcsSize = min (ucast (sz div (128 * ucast KB))) (0x3FF :: u32);
          enable = (if 0 < flatCcsSize then 1 else 0);
          mmioLow = ucast (flatCcsBaseAddress AND 0xFFFFFFFF) OR enable;
          addressHigh = ucast (drop_bit 32 flatCcsBaseAddress) :: u32;
          mmioHigh = addressHigh OR push_bit 14 flatCcsSize
      in assertR (flatCcsBaseAddress AND 0x3F = 0) (assertR (addressHigh AND 0xFFFFF00 = 0)
           (Inr (writesAt (deviceIndex * mmioDeviceOffset)
              [(0x8800, mmioLow), (0x1344b0, mmioLow), (0x8804, mmioHigh), (0x1344b4, mmioHigh),
               (0x4910, enable), (0x384910, enable)]))))"

definition tileRangeRegisters :: "u32 \<Rightarrow> u64 \<Rightarrow> u64 \<Rightarrow> MMIOList result" where
  "tileRangeRegisters deviceIndex lmemBaseAddress lmemSize =
     (let lmemSizeInGB = lmemSize div ucast GB; lmemBaseAddressInGB = lmemBaseAddress div ucast GB;
          mmioVal = push_bit 8 (ucast lmemSizeInGB) OR push_bit 1 (ucast lmemBaseAddressInGB)
            OR (if 0 < lmemSizeInGB then 1 else 0)
      in assertR (lmemSize mod ucast GB = 0) (assertR (lmemBaseAddress mod ucast GB = 0) (assertR (lmemSizeInGB \<le> 127)
           (Inr (writesAt (deviceIndex * mmioDeviceOffset) [(0x4900, mmioVal), (0x384900, mmioVal)])))))"

text \<open>
  \<open>flatCcs\<close> is the virtual function that writes the flat CCS.  \<open>flatCcsSize\<close> is a variable of the function, not of the
  pass: with several devices it is divided again in each pass.
\<close>

definition flatCcsPart :: "Gpu \<Rightarrow> u32 \<Rightarrow> u64 \<Rightarrow> (u64 \<Rightarrow> u64 \<Rightarrow> StreamProg) \<Rightarrow> StreamProg" where
  "flatCcsPart gpu i flatCcsSize continue =
     progR (stolenBase gpu i) (\<lambda>flatCcsBaseAddr.
     if gpu_isMemorySupported gpu (MEMORY_BANK i) 0x10000
     then ReadRegister 0x9118 (\<lambda>val. let numL3Banks = ucast (countBits (ucast (drop_bit 16 val)))
            in if numL3Banks = 0 then Finish
               else continue (flatCcsBaseAddr div numL3Banks) (flatCcsSize div numL3Banks))
     else continue flatCcsBaseAddr flatCcsSize)"

fun memoryPools_loop ::
  "(u32 \<Rightarrow> u64 \<Rightarrow> u64 \<Rightarrow> MMIOList result) \<Rightarrow> u64 \<Rightarrow> Gpu \<Rightarrow> u32 \<Rightarrow> u64 \<Rightarrow> u64 \<Rightarrow> u32 \<Rightarrow> nat \<Rightarrow> StreamProg" where
  "memoryPools_loop flatCcs wopcmBits gpu mode memoryBankSize flatCcsSize i 0 = Finish"
| "memoryPools_loop flatCcs wopcmBits gpu mode memoryBankSize flatCcsSize i (Suc n) =
     progR (getDSMBaseAddress gpu i) (\<lambda>dsm.
     writeAll (poolRegisters gpu i wopcmBits memoryBankSize dsm)
       (if mode = mode_aubFile then memoryPools_loop flatCcs wopcmBits gpu mode memoryBankSize flatCcsSize (i + 1) n
        else flatCcsPart gpu i flatCcsSize (\<lambda>base sz. progR (flatCcs i base sz) (\<lambda>ws.
               writeAll ws (memoryPools_loop flatCcs wopcmBits gpu mode memoryBankSize sz (i + 1) n)))))"

fun noPools_loop :: "(u32 \<Rightarrow> u64 \<Rightarrow> u64 \<Rightarrow> MMIOList result) \<Rightarrow> Gpu \<Rightarrow> u32 \<Rightarrow> nat \<Rightarrow> StreamProg" where
  "noPools_loop flatCcs gpu i 0 = Finish"
| "noPools_loop flatCcs gpu i (Suc n) =
     progR (flatCcs i 0 0) (\<lambda>ws. writeAll ws
       (progR (if gpu_isMemorySupported gpu (MEMORY_BANK i) 0x10000 then tileRangeRegisters i 0 0 else Inr [])
          (\<lambda>ws. writeAll ws (noPools_loop flatCcs gpu (i + 1) n))))"

definition memoryPools ::
  "(u32 \<Rightarrow> u64 \<Rightarrow> u64 \<Rightarrow> MMIOList result) \<Rightarrow> u64 \<Rightarrow> Gpu \<Rightarrow> u32 \<Rightarrow> u32 \<Rightarrow> u64 \<Rightarrow> StreamProg" where
  "memoryPools flatCcs wopcmBits gpu mode devicesCount memoryBankSize =
     (if mode \<noteq> mode_tbxShm3 \<and> mode \<noteq> mode_null
      then memoryPools_loop flatCcs wopcmBits gpu mode memoryBankSize (memoryBankSize div 512) 0 (unat devicesCount)
      else if mode = mode_tbxShm3 then noPools_loop flatCcs gpu 0 (unat devicesCount)
      else Finish)"

text \<open>The PAT indices of the extra bits of an entry.\<close>

definition patIndex3 :: u64 where "patIndex3 = toBitValue [4] OR toBitValue [3]"
definition patIndex9 :: u64 where "patIndex9 = toBitValue [62] OR toBitValue [3]"
definition patIndex12 :: u64 where "patIndex12 = toBitValue [62] OR toBitValue [7]"
definition patIndex18 :: u64 where "patIndex18 = toBitValue [61] OR toBitValue [4]"

definition patBits :: "u64 \<Rightarrow> AdditionalParams \<Rightarrow> u64" where
  "patBits cached params = toBitValue [atomicEnableBit] OR
     (if uncached params then (if compressionEnabled params then patIndex12 else patIndex3)
      else if compressionEnabled params then patIndex9 else cached)"

section \<open>Xe2HpgCore\<close>

fun getEngineMMIO_Xe2HpgCore :: "HelperClass \<Rightarrow> u32 \<Rightarrow> MMIOList" where
  "getEngineMMIO_Xe2HpgCore HelperRcs mmioEngine = getEngineMMIO_Xe2HpgCore_Rcs mmioEngine"
| "getEngineMMIO_Xe2HpgCore HelperBcs mmioEngine = getEngineMMIO_Xe2HpgCore_Bcs mmioEngine"
| "getEngineMMIO_Xe2HpgCore HelperVcs mmioEngine = getEngineMMIO_Xe2HpgCore_Vcs mmioEngine"
| "getEngineMMIO_Xe2HpgCore HelperVecs mmioEngine = getEngineMMIO_Xe2HpgCore_Vecs mmioEngine"
| "getEngineMMIO_Xe2HpgCore (HelperCcs engineId) mmioEngine = getEngineMMIO_Xe2HpgCore_Ccs mmioEngine"
| "getEngineMMIO_Xe2HpgCore HelperCccs mmioEngine = getEngineMMIO_Xe2HpgCore_Cccs mmioEngine"
| "getEngineMMIO_Xe2HpgCore (HelperLinkBcs engineId) mmioEngine = getEngineMMIO_Xe2HpgCore_LinkBcs mmioEngine"

definition helpers_Xe2HpgCore :: "(u32 \<times> HelperClass) list" where
  "helpers_Xe2HpgCore = helpers_full"

definition newHelper_Xe2HpgCore :: "u32 \<Rightarrow> HelperClass \<Rightarrow> CommandStreamerHelper" where
  "newHelper_Xe2HpgCore device c = (let h = newHelper device c
     in CommandStreamerHelperXe2HpgCore (getEngineMMIO_Xe2HpgCore c (csh_mmioEngine h)) h)"

definition getCommandStreamerHelper_Xe2HpgCore :: "Gpu \<Rightarrow> u32 \<Rightarrow> u32 \<Rightarrow> CommandStreamerHelper result" where
  "getCommandStreamerHelper_Xe2HpgCore = helperAt 1 helpers_Xe2HpgCore newHelper_Xe2HpgCore"

definition getSupportedEngines_Xe2HpgCore :: "u32 list" where
  "getSupportedEngines_Xe2HpgCore = supportedEngines_full"

definition sizeToGMS_Xe2HpgCore :: "u64 \<Rightarrow> u32" where
  "sizeToGMS_Xe2HpgCore = firstMapping sizeToGMSMappings"

definition isValidDataStolenMemorySize_Xe2HpgCore :: "u64 \<Rightarrow> bool" where
  "isValidDataStolenMemorySize_Xe2HpgCore dataStolenMemorySize \<longleftrightarrow> sizeToGMS_Xe2HpgCore dataStolenMemorySize \<noteq> 0xff"

definition initializeFlatCcsBaseAddressMmio_Xe2HpgCore :: "u32 \<Rightarrow> u64 \<Rightarrow> u64 \<Rightarrow> MMIOList result" where
  "initializeFlatCcsBaseAddressMmio_Xe2HpgCore = flatCcsRegisters"

definition initializeTileRangeMmio_Xe2HpgCore :: "u32 \<Rightarrow> u64 \<Rightarrow> u64 \<Rightarrow> MMIOList result" where
  "initializeTileRangeMmio_Xe2HpgCore = tileRangeRegisters"

definition initializeDefaultMemoryPools_Xe2HpgCore :: "Gpu \<Rightarrow> u32 \<Rightarrow> u32 \<Rightarrow> u64 \<Rightarrow> StreamProg" where
  "initializeDefaultMemoryPools_Xe2HpgCore = memoryPools initializeFlatCcsBaseAddressMmio_Xe2HpgCore 0x180"

definition getPPGTTExtraEntryBits_Xe2HpgCore :: "AdditionalParams \<Rightarrow> u64" where
  "getPPGTTExtraEntryBits_Xe2HpgCore = patBits 0"

definition isMemorySupported_Xe2HpgCore :: "u32 \<Rightarrow> u32 \<Rightarrow> bool" where
  "isMemorySupported_Xe2HpgCore = banksSupported (MEMORY_BANK_SYSTEM OR MEMORY_BANK_0) [65536]"

definition GpuXe2HpgCore :: Gpu where
  "GpuXe2HpgCore = GpuXeCore\<lparr>gpu_isMemorySupported := isMemorySupported_Xe2HpgCore, gpu_getSupportedEngines := getSupportedEngines_Xe2HpgCore,
     gpu_getGlobalMMIO := getGlobalMMIO_Xe2HpgCore, gpu_getPPGTTExtraEntryBits := getPPGTTExtraEntryBits_Xe2HpgCore\<rparr>"

definition class_Xe2HpgCore :: gpu_class where
  "class_Xe2HpgCore = class_XeCore\<lparr>gc_getCommandStreamerHelper := getCommandStreamerHelper_Xe2HpgCore,
     gc_initializeDefaultMemoryPools := initializeDefaultMemoryPools_Xe2HpgCore,
     gc_isValidDataStolenMemorySize := isValidDataStolenMemorySize_Xe2HpgCore,
     gc_ppgttKind := (\<lambda>gpuAddressSpace. PML5)\<rparr>"

section \<open>Xe3Core\<close>

fun getEngineMMIO_Xe3Core :: "HelperClass \<Rightarrow> u32 \<Rightarrow> MMIOList" where
  "getEngineMMIO_Xe3Core HelperRcs mmioEngine = getEngineMMIO_Xe3Core_Rcs mmioEngine"
| "getEngineMMIO_Xe3Core HelperBcs mmioEngine = getEngineMMIO_Xe3Core_Bcs mmioEngine"
| "getEngineMMIO_Xe3Core HelperVcs mmioEngine = getEngineMMIO_Xe3Core_Vcs mmioEngine"
| "getEngineMMIO_Xe3Core HelperVecs mmioEngine = getEngineMMIO_Xe3Core_Vecs mmioEngine"
| "getEngineMMIO_Xe3Core (HelperCcs engineId) mmioEngine = getEngineMMIO_Xe3Core_Ccs mmioEngine"
| "getEngineMMIO_Xe3Core HelperCccs mmioEngine = getEngineMMIO_Xe3Core_Cccs mmioEngine"
| "getEngineMMIO_Xe3Core (HelperLinkBcs engineId) mmioEngine = getEngineMMIO_Xe3Core_LinkBcs mmioEngine"

definition helpers_Xe3Core :: "(u32 \<times> HelperClass) list" where
  "helpers_Xe3Core = [(ENGINE_CCCS, HelperCccs), (ENGINE_RCS, HelperRcs), (ENGINE_BCS, HelperBcs), (ENGINE_VCS, HelperVcs),
     (ENGINE_VECS, HelperVecs), (ENGINE_CCS, HelperCcs 0), (ENGINE_BCS8, HelperLinkBcs 8)]"

definition newHelper_Xe3Core :: "u32 \<Rightarrow> HelperClass \<Rightarrow> CommandStreamerHelper" where
  "newHelper_Xe3Core device c = (let h = newHelper device c
     in CommandStreamerHelperXe3Core (getEngineMMIO_Xe3Core c (csh_mmioEngine h)) h)"

definition getCommandStreamerHelper_Xe3Core :: "Gpu \<Rightarrow> u32 \<Rightarrow> u32 \<Rightarrow> CommandStreamerHelper result" where
  "getCommandStreamerHelper_Xe3Core = helperAt 1 helpers_Xe3Core newHelper_Xe3Core"

definition getSupportedEngines_Xe3Core :: "u32 list" where
  "getSupportedEngines_Xe3Core = [ENGINE_BCS, ENGINE_VCS, ENGINE_VECS, ENGINE_CCS, ENGINE_CCCS, ENGINE_BCS8]"

definition sizeToGMS_Xe3Core :: "u64 \<Rightarrow> u32" where
  "sizeToGMS_Xe3Core = firstMapping sizeToGMSMappings"

definition isValidDataStolenMemorySize_Xe3Core :: "u64 \<Rightarrow> bool" where
  "isValidDataStolenMemorySize_Xe3Core dataStolenMemorySize \<longleftrightarrow> sizeToGMS_Xe3Core dataStolenMemorySize \<noteq> 0xff"

definition initializeFlatCcsBaseAddressMmio_Xe3Core :: "u32 \<Rightarrow> u64 \<Rightarrow> u64 \<Rightarrow> MMIOList result" where
  "initializeFlatCcsBaseAddressMmio_Xe3Core = flatCcsRegisters"

definition initializeTileRangeMmio_Xe3Core :: "u32 \<Rightarrow> u64 \<Rightarrow> u64 \<Rightarrow> MMIOList result" where
  "initializeTileRangeMmio_Xe3Core = tileRangeRegisters"

definition initializeDefaultMemoryPools_Xe3Core :: "Gpu \<Rightarrow> u32 \<Rightarrow> u32 \<Rightarrow> u64 \<Rightarrow> StreamProg" where
  "initializeDefaultMemoryPools_Xe3Core = memoryPools initializeFlatCcsBaseAddressMmio_Xe3Core 0x180"

definition getPPGTTExtraEntryBits_Xe3Core :: "AdditionalParams \<Rightarrow> u64" where
  "getPPGTTExtraEntryBits_Xe3Core = patBits 0"

definition GpuXe3Core :: Gpu where
  "GpuXe3Core = GpuXeCore\<lparr>gpu_getSupportedEngines := getSupportedEngines_Xe3Core,
     gpu_getGlobalMMIO := getGlobalMMIO_Xe3Core, gpu_getPPGTTExtraEntryBits := getPPGTTExtraEntryBits_Xe3Core\<rparr>"

definition class_Xe3Core :: gpu_class where
  "class_Xe3Core = class_XeCore\<lparr>gc_getCommandStreamerHelper := getCommandStreamerHelper_Xe3Core,
     gc_initializeDefaultMemoryPools := initializeDefaultMemoryPools_Xe3Core,
     gc_isValidDataStolenMemorySize := isValidDataStolenMemorySize_Xe3Core,
     gc_ppgttKind := (\<lambda>gpuAddressSpace. PML5)\<rparr>"

section \<open>Xe3pCore\<close>

fun getEngineMMIO_Xe3pCore :: "bool \<Rightarrow> HelperClass \<Rightarrow> u32 \<Rightarrow> MMIOList" where
  "getEngineMMIO_Xe3pCore programAdditional HelperRcs mmioEngine = getEngineMMIO_Xe3pCore_Rcs programAdditional mmioEngine"
| "getEngineMMIO_Xe3pCore programAdditional HelperBcs mmioEngine = getEngineMMIO_Xe3pCore_Bcs programAdditional mmioEngine"
| "getEngineMMIO_Xe3pCore programAdditional HelperVcs mmioEngine = getEngineMMIO_Xe3pCore_Vcs programAdditional mmioEngine"
| "getEngineMMIO_Xe3pCore programAdditional HelperVecs mmioEngine = getEngineMMIO_Xe3pCore_Vecs programAdditional mmioEngine"
| "getEngineMMIO_Xe3pCore programAdditional (HelperCcs engineId) mmioEngine = getEngineMMIO_Xe3pCore_Ccs programAdditional mmioEngine"
| "getEngineMMIO_Xe3pCore programAdditional HelperCccs mmioEngine = getEngineMMIO_Xe3pCore_Cccs programAdditional mmioEngine"
| "getEngineMMIO_Xe3pCore programAdditional (HelperLinkBcs engineId) mmioEngine = getEngineMMIO_Xe3pCore_LinkBcs programAdditional mmioEngine"

definition helpers_Xe3pCore :: "(u32 \<times> HelperClass) list" where
  "helpers_Xe3pCore = helpers_full"

definition newHelper_Xe3pCore :: "Settings \<Rightarrow> bool \<Rightarrow> u32 \<Rightarrow> HelperClass \<Rightarrow> CommandStreamerHelper" where
  "newHelper_Xe3pCore settings programAdditional device c = (let h = newHelper device c
     in CommandStreamerHelperXe3pCore (s_ExeclistSubmitPortSubmission settings) (s_IndirectRingState settings)
          (getEngineMMIO_Xe3pCore programAdditional c (csh_mmioEngine h)) h)"

definition getCommandStreamerHelper_Xe3pCore :: "Settings \<Rightarrow> Gpu \<Rightarrow> u32 \<Rightarrow> u32 \<Rightarrow> CommandStreamerHelper result" where
  "getCommandStreamerHelper_Xe3pCore settings gpu =
     helperAt 4 helpers_Xe3pCore (newHelper_Xe3pCore settings (gpu_programAdditionalEngineMMIO gpu)) gpu"

definition getSupportedEngines_Xe3pCore :: "u32 list" where
  "getSupportedEngines_Xe3pCore = supportedEngines_full"

definition initializeGlobalMMIO_Xe3pCore :: "Gpu \<Rightarrow> u32 \<Rightarrow> u32 \<Rightarrow> MMIOList" where
  "initializeGlobalMMIO_Xe3pCore gpu devicesCount stepping =
     globalMMIO_loop (\<lambda>mmioDevice. writesAt mmioDevice (gpu_getGlobalMMIO gpu)
       @ writesAt mmioDevice (gpu_getGlobalMMIOPlatformSpecific gpu)) 0 (unat devicesCount)"

definition sizeToPAVPC :: "u64 \<Rightarrow> u32" where
  "sizeToPAVPC = firstMapping [(0x0, 1 * MB), (0x1, 2 * MB), (0x2, 4 * MB), (0x3, 8 * MB), (0x5, 16 * MB), (0x6, 32 * MB)]"

definition sizeToGMS_Xe3pCore :: "u64 \<Rightarrow> u32" where
  "sizeToGMS_Xe3pCore = firstMapping sizeToGMSMappings"

definition isValidDataStolenMemorySize_Xe3pCore :: "u64 \<Rightarrow> bool" where
  "isValidDataStolenMemorySize_Xe3pCore dataStolenMemorySize \<longleftrightarrow> sizeToGMS_Xe3pCore dataStolenMemorySize \<noteq> 0xff"

definition isValidWOPCMSize_Xe3pCore :: "u64 \<Rightarrow> bool" where
  "isValidWOPCMSize_Xe3pCore wopcmSize \<longleftrightarrow> sizeToPAVPC wopcmSize \<noteq> 0xff"

text \<open>The flat CCS is left to the products.\<close>

definition initializeFlatCcsBaseAddressMmio_Xe3pCore :: "u32 \<Rightarrow> u64 \<Rightarrow> u64 \<Rightarrow> MMIOList result" where
  "initializeFlatCcsBaseAddressMmio_Xe3pCore deviceIndex flatCcsBaseAddress sz = Inr []"

definition initializeTileRangeMmio_Xe3pCore :: "u32 \<Rightarrow> u64 \<Rightarrow> u64 \<Rightarrow> MMIOList result" where
  "initializeTileRangeMmio_Xe3pCore = tileRangeRegisters"

definition initializeDefaultMemoryPools_Xe3pCore ::
  "(u32 \<Rightarrow> u64 \<Rightarrow> u64 \<Rightarrow> MMIOList result) \<Rightarrow> Gpu \<Rightarrow> u32 \<Rightarrow> u32 \<Rightarrow> u64 \<Rightarrow> StreamProg" where
  "initializeDefaultMemoryPools_Xe3pCore flatCcs gpu =
     memoryPools flatCcs (ucast (push_bit 7 (sizeToPAVPC (getWOPCMSize gpu)))) gpu"

definition getPPGTTExtraEntryBits_Xe3pCore :: "Settings \<Rightarrow> AdditionalParams \<Rightarrow> u64" where
  "getPPGTTExtraEntryBits_Xe3pCore settings =
     patBits (if s_AppTransientForUncompressedCachedPages settings then patIndex18 else 0)"

definition GpuXe3pCore :: "Settings \<Rightarrow> Gpu" where
  "GpuXe3pCore settings = GpuXeCore\<lparr>gpu_getSupportedEngines := getSupportedEngines_Xe3pCore,
     gpu_getGlobalMMIO := getGlobalMMIO_Xe3pCore,
     gpu_getPPGTTExtraEntryBits := getPPGTTExtraEntryBits_Xe3pCore settings, gpu_getContextGroupCount := 64\<rparr>"

definition class_Xe3pCore :: "Settings \<Rightarrow> (u32 \<Rightarrow> u64 \<Rightarrow> u64 \<Rightarrow> MMIOList result) \<Rightarrow> gpu_class" where
  "class_Xe3pCore settings flatCcs = class_XeCore
     \<lparr>gc_getCommandStreamerHelper := getCommandStreamerHelper_Xe3pCore settings,
      gc_initializeGlobalMMIO := initializeGlobalMMIO_Xe3pCore,
      gc_initializeDefaultMemoryPools := initializeDefaultMemoryPools_Xe3pCore flatCcs,
      gc_isValidDataStolenMemorySize := isValidDataStolenMemorySize_Xe3pCore,
      gc_isValidWOPCMSize := isValidWOPCMSize_Xe3pCore, gc_ppgttKind := (\<lambda>gpuAddressSpace. PML5)\<rparr>"

section \<open>Products\<close>

text \<open>A product is its description and its class; the constructor of the product fills in the identity.\<close>

type_synonym product = "Gpu \<times> gpu_class"

definition identify :: "u32 \<Rightarrow> u32 \<Rightarrow> string \<Rightarrow> u32 \<Rightarrow> u32 \<Rightarrow> Gpu \<Rightarrow> Gpu" where
  "identify productFamily gfxCoreFamily productAbbreviation deviceId deviceCount gpu =
     gpu\<lparr>gpu_productFamily := productFamily, gpu_gfxCoreFamily := gfxCoreFamily,
         gpu_productAbbreviation := productAbbreviation, gpu_deviceId := deviceId,
         gpu_deviceCount := deviceCount\<rparr>"

text \<open>Pages in system memory only.\<close>

definition systemMemorySupported :: "u32 \<Rightarrow> u32 \<Rightarrow> bool" where
  "systemMemorySupported memoryBanks alignment =
     (let unsupported = MEMORY_BANKS_ALL XOR MEMORY_BANK_SYSTEM
      in if unsupported AND memoryBanks \<noteq> 0 then False else alignment = 4096 \<or> alignment = 65536)"

definition GpuTgllp :: product where
  "GpuTgllp = (identify 7 3 ''tgllp'' 0x16 1 GpuGen12LP, class_Gen12LP)"

definition GpuAdls :: product where
  "GpuAdls = (identify 8 3 ''adls'' 0x25 1 GpuGen12LP, class_Gen12LP)"

definition GpuAdlp :: product where
  "GpuAdlp = (identify 9 3 ''adlp'' 0x22 1 GpuGen12LP, class_Gen12LP)"

definition GpuAdln :: product where
  "GpuAdln = (identify 10 3 ''adln'' 0x22 1 GpuGen12LP, class_Gen12LP)"

definition isMemorySupported_Dg1 :: "u32 \<Rightarrow> u32 \<Rightarrow> bool" where
  "isMemorySupported_Dg1 = banksSupported (MEMORY_BANK_SYSTEM OR MEMORY_BANK_0) [4096, 65536]"

definition setMemoryBankSize_Dg1 :: "Gpu \<Rightarrow> u32 \<Rightarrow> u64 \<Rightarrow> MMIOList result" where
  "setMemoryBankSize_Dg1 gpu deviceCount memoryBankSize =
     assertR (deviceCount = 1) (assertR (deviceCount \<le> gpu_deviceCount gpu)
       (let gb = memoryBankSize div ucast GB
        in assertR (0 < gb) (assertR (gb < 128) (Inr [(0x4900, bankSizeValue gb 0)]))))"

definition GpuDg1 :: product where
  "GpuDg1 = (identify 11 3 ''dg1'' 0x1e 1 (GpuGen12LP\<lparr>gpu_isMemorySupported := isMemorySupported_Dg1\<rparr>),
     class_Gen12LP\<lparr>gc_setMemoryBankSize := setMemoryBankSize_Dg1\<rparr>)"

definition getSupportedEngines_Dg2 :: "u32 list" where
  "getSupportedEngines_Dg2 = [ENGINE_RCS, ENGINE_BCS, ENGINE_CCS, ENGINE_CCS1, ENGINE_CCS2, ENGINE_CCS3, 0]"

definition GpuDg2 :: "Settings \<Rightarrow> product" where
  "GpuDg2 settings = (identify 13 5 ''dg2'' 0x24 1 (GpuXeHpgCore\<lparr>gpu_getSupportedEngines := getSupportedEngines_Dg2,
       gpu_getPPGTTExtraEntryBits := (\<lambda>params. toBitValue [atomicEnableBit])\<rparr>), class_XeHpgCore settings)"

definition initializeGlobalMMIO_Pvc :: "Gpu \<Rightarrow> u32 \<Rightarrow> u32 \<Rightarrow> MMIOList" where
  "initializeGlobalMMIO_Pvc gpu devicesCount stepping =
     globalMMIO_loop (\<lambda>mmioDevice. writesAt mmioDevice (gpu_getGlobalMMIO gpu)
       @ [(mmioDevice + 0xb120, if stepping = 0 then 0x54000002 else 0x14000002)]) 0 (unat devicesCount)"

definition GpuPvc :: product where
  "GpuPvc = (identify 14 6 ''pvc'' 0x27 4 (GpuXeHpcCore\<lparr>gpu_getGlobalMMIO := getGlobalMMIO_Pvc\<rparr>),
     class_XeHpcCore\<lparr>gc_initializeGlobalMMIO := initializeGlobalMMIO_Pvc\<rparr>)"

definition getPPGTTExtraEntryBits_Mtl :: "AdditionalParams \<Rightarrow> u64" where
  "getPPGTTExtraEntryBits_Mtl params = toBitValue [atomicEnableBit] OR (if uncached params then toBitValue [4] else 0)"

definition isMemorySupported_Mtl :: "u32 \<Rightarrow> u32 \<Rightarrow> bool" where
  "isMemorySupported_Mtl = systemMemorySupported"

definition GpuMtl :: "Settings \<Rightarrow> product" where
  "GpuMtl settings = (identify 15 5 ''mtl'' 42 1 (GpuXeHpgCore\<lparr>gpu_isMemorySupported := isMemorySupported_Mtl,
       gpu_getGlobalMMIOPlatformSpecific := getGlobalMMIOPlatformSpecific_Mtl,
       gpu_getPPGTTExtraEntryBits := getPPGTTExtraEntryBits_Mtl\<rparr>),
     (class_XeHpgCore settings)\<lparr>gc_initializeDefaultMemoryPools := (\<lambda>gpu mode devicesCount memoryBankSize. Finish)\<rparr>)"

definition GpuBmg :: product where
  "GpuBmg = (identify 17 7 ''bmg'' 43 1 GpuXe2HpgCore, class_Xe2HpgCore)"

definition setGGTTBaseAddresses_Lnl :: "Gpu \<Rightarrow> u32 \<Rightarrow> MMIOList result" where
  "setGGTTBaseAddresses_Lnl = singleGgttBase"

definition isMemorySupported_Lnl :: "u32 \<Rightarrow> u32 \<Rightarrow> bool" where
  "isMemorySupported_Lnl = systemMemorySupported"

definition GpuLnl :: product where
  "GpuLnl = (identify 18 7 ''lnl'' 45 1 (GpuXe2HpgCore\<lparr>gpu_isMemorySupported := isMemorySupported_Lnl\<rparr>),
     class_Xe2HpgCore\<lparr>gc_setGGTTBaseAddresses := setGGTTBaseAddresses_Lnl\<rparr>)"

definition setGGTTBaseAddresses_Ptl :: "Gpu \<Rightarrow> u32 \<Rightarrow> MMIOList result" where
  "setGGTTBaseAddresses_Ptl = singleGgttBase"

definition isMemorySupported_Ptl :: "u32 \<Rightarrow> u32 \<Rightarrow> bool" where
  "isMemorySupported_Ptl = systemMemorySupported"

definition GpuPtl :: product where
  "GpuPtl = (identify 21 8 ''ptl'' 51 1 (GpuXe3Core\<lparr>gpu_isMemorySupported := isMemorySupported_Ptl\<rparr>),
     class_Xe3Core\<lparr>gc_setGGTTBaseAddresses := setGGTTBaseAddresses_Ptl\<rparr>)"

definition getSupportedEngines_Cri :: "u32 list" where
  "getSupportedEngines_Cri = [ENGINE_BCS, ENGINE_VCS, ENGINE_VECS, ENGINE_CCS, ENGINE_CCS1, ENGINE_CCS2, ENGINE_CCS3,
     ENGINE_BCS1, ENGINE_BCS2, ENGINE_BCS3, ENGINE_BCS4, ENGINE_BCS5, ENGINE_BCS6, ENGINE_BCS7, ENGINE_BCS8]"

definition isMemorySupported_Cri :: "u32 \<Rightarrow> u32 \<Rightarrow> bool" where
  "isMemorySupported_Cri = banksSupported (MEMORY_BANK_SYSTEM OR MEMORY_BANK 0 OR MEMORY_BANK 1 OR MEMORY_BANK 2
     OR MEMORY_BANK 3) [65536, ucast pageSize2MB]"

definition GpuCri :: "Settings \<Rightarrow> product" where
  "GpuCri settings = (identify 22 9 ''cri'' 0 4 ((GpuXe3pCore settings)\<lparr>gpu_isMemorySupported := isMemorySupported_Cri,
       gpu_getSupportedEngines := getSupportedEngines_Cri,
       gpu_getGlobalMMIOPlatformSpecific := getGlobalMMIOPlatformSpecific_Cri\<rparr>),
     class_Xe3pCore settings initializeFlatCcsBaseAddressMmio_Xe3pCore)"

definition setGGTTBaseAddresses_Nvlp :: "Gpu \<Rightarrow> u32 \<Rightarrow> MMIOList result" where
  "setGGTTBaseAddresses_Nvlp = singleGgttBase"

definition isMemorySupported_Nvlp :: "u32 \<Rightarrow> u32 \<Rightarrow> bool" where
  "isMemorySupported_Nvlp = systemMemorySupported"

definition initializeFlatCcsBaseAddressMmio_Nvlp :: "u32 \<Rightarrow> u64 \<Rightarrow> u64 \<Rightarrow> MMIOList result" where
  "initializeFlatCcsBaseAddressMmio_Nvlp = flatCcsRegisters"

definition GpuNvlp :: "Settings \<Rightarrow> product" where
  "GpuNvlp settings = (identify 23 9 ''nvlp'' 0 1 ((GpuXe3pCore settings)\<lparr>gpu_isMemorySupported := isMemorySupported_Nvlp,
       gpu_getGlobalMMIOPlatformSpecific := getGlobalMMIOPlatformSpecific_Nvlp,
       gpu_getWOPCMDefaultSize := 16 * 1024 * 1024\<rparr>),
     (class_Xe3pCore settings initializeFlatCcsBaseAddressMmio_Nvlp)
       \<lparr>gc_setGGTTBaseAddresses := setGGTTBaseAddresses_Nvlp\<rparr>)"

text \<open>The table the products enter themselves in before the program starts, all of them enabled.\<close>

definition productFamilyTable :: "Settings \<Rightarrow> (u32 \<times> product) list" where
  "productFamilyTable settings = map (\<lambda>p. (gpu_productFamily (fst p), p))
     [GpuTgllp, GpuAdls, GpuAdlp, GpuAdln, GpuDg1, GpuDg2 settings, GpuPvc, GpuMtl settings, GpuBmg, GpuLnl, GpuPtl,
      GpuCri settings, GpuNvlp settings]"

definition getGpu :: "Settings \<Rightarrow> u32 \<Rightarrow> product option" where
  "getGpu settings productFamily = map_of (productFamilyTable settings) productFamily"

end
