(* ===== verification/HardwareContext.thy ===== *)
theory HardwareContext
  imports CommandStreamer
begin

text \<open>
  Hardware contexts: \<^verbatim>\<open>hardware_context_imp.h\<close> and \<^verbatim>\<open>hardware_context_imp.cpp\<close>.  A context owns the ring
  buffer, the logical ring context and the fence of one engine and submits batch buffers.  The contexts
  and the context groups live in stores, since the members of a group reach each other through the
  pointers of the group; the page tables of the devices, the allocator and the calls made of the
  stream so far are the rest of the state.  Log messages and mutexes are left out, and so are the
  hooks \<^verbatim>\<open>initializeContextEnvironment\<close> and \<^verbatim>\<open>invalidateTLB\<close>, which no class of the repository fills.
\<close>

section \<open>State\<close>

definition contextGroupFlag :: u32 where "contextGroupFlag = push_bit 15 1"
definition highPriorityFlag :: u32 where "highPriorityFlag = push_bit 14 1"
definition lowPriorityFlag :: u32 where "lowPriorityFlag = push_bit 13 1"
definition runAloneFlag :: u32 where "runAloneFlag = push_bit 0 1"

lemmas context_flags = contextGroupFlag_def highPriorityFlag_def lowPriorityFlag_def runAloneFlag_def

definition priorityLow :: u32 where "priorityLow = 0"
definition priorityNormal :: u32 where "priorityNormal = 1"
definition priorityHigh :: u32 where "priorityHigh = 2"

text \<open>\<^verbatim>\<open>std::numeric_limits<uint32_t>::max()\<close>: the context belongs to no group.\<close>

definition noGroup :: u32 where "noGroup = -1"

record ContextGroup =
  cg_contextGroupCounter :: u32
  cg_contexts :: "nat option list"

record HardwareContextImp =
  hc_runAlone :: bool
  hc_contextGroupId :: u32
  hc_priority :: u32
  hc_csTraits :: CommandStreamerHelper
  hc_deviceIndex :: u32
  hc_ggttRing :: u32
  hc_ringData :: u32
  hc_pRingData :: HostArray
  hc_ggttLRCA :: u32
  hc_ggttGlobalHWSP :: u32
  hc_pLRCA :: HostArray
  hc_ringTail :: u32
  hc_ringSize :: usize
  hc_flags :: u32
  hc_ggttContextFence :: u32
  hc_contextFenceValue :: u32
  hc_contextId :: u32
  hc_contextGroup :: "nat option"

record hw_state =
  hs_ggtts :: "GGTT list"
  hs_ppgtts :: "PageTable list"
  hs_alloc :: PhysicalAddressAllocator
  hs_contexts :: "nat \<Rightarrow> HardwareContextImp option"
  hs_groups :: "nat \<Rightarrow> ContextGroup option"
  hs_globalContextId :: u32
  hs_cmds :: "StreamCmd list"

text \<open>\<open>he_uninit\<close> is what a fresh host array holds.\<close>

record hw_env = stream_env +
  he_uninit :: "nat \<Rightarrow> u8"

definition streamEnv :: "hw_env \<Rightarrow> stream_env" where
  "streamEnv env = \<lparr>se_gpu = se_gpu env, se_enablePs64 = se_enablePs64 env, se_committed = se_committed env\<rparr>"

definition newArray :: "hw_env \<Rightarrow> nat \<Rightarrow> u8 list" where
  "newArray env n = map (he_uninit env) [0..<n]"

definition hw_context :: "nat \<Rightarrow> hw_state \<Rightarrow> HardwareContextImp result" where
  "hw_context this st = (case hs_contexts st this of None \<Rightarrow> Inl UseAfterFree | Some c \<Rightarrow> Inr c)"

definition setContext :: "nat \<Rightarrow> HardwareContextImp \<Rightarrow> hw_state \<Rightarrow> hw_state" where
  "setContext this c st = st\<lparr>hs_contexts := (hs_contexts st)(this := Some c)\<rparr>"

definition hw_group :: "nat option \<Rightarrow> hw_state \<Rightarrow> ContextGroup result" where
  "hw_group p st = (case p of
       None \<Rightarrow> Inl NullDereference
     | Some a \<Rightarrow> (case hs_groups st a of None \<Rightarrow> Inl UseAfterFree | Some g \<Rightarrow> Inr g))"

definition setGroup :: "nat option \<Rightarrow> ContextGroup \<Rightarrow> hw_state \<Rightarrow> hw_state" where
  "setGroup p g st = (case p of
       None \<Rightarrow> st | Some a \<Rightarrow> st\<lparr>hs_groups := (hs_groups st)(a := Some g)\<rparr>)"

definition emitCmds :: "StreamCmd list \<Rightarrow> hw_state \<Rightarrow> hw_state" where
  "emitCmds cmds st = st\<lparr>hs_cmds := hs_cmds st @ cmds\<rparr>"

definition hw_ggtt :: "HardwareContextImp \<Rightarrow> hw_state \<Rightarrow> GGTT result" where
  "hw_ggtt c st = (let i = unat (hc_deviceIndex c)
     in if i < length (hs_ggtts st) then Inr (hs_ggtts st ! i) else Inl IndexOutOfRange)"

definition hw_ppgtt :: "HardwareContextImp \<Rightarrow> hw_state \<Rightarrow> PageTable result" where
  "hw_ppgtt c st = (let i = unat (hc_deviceIndex c)
     in if i < length (hs_ppgtts st) then Inr (hs_ppgtts st ! i) else Inl IndexOutOfRange)"

definition setGgtt :: "HardwareContextImp \<Rightarrow> GGTT \<Rightarrow> hw_state \<Rightarrow> hw_state" where
  "setGgtt c g st = st\<lparr>hs_ggtts := (hs_ggtts st)[unat (hc_deviceIndex c) := g]\<rparr>"

definition setPpgtt :: "HardwareContextImp \<Rightarrow> PageTable \<Rightarrow> hw_state \<Rightarrow> hw_state" where
  "setPpgtt c n st = st\<lparr>hs_ppgtts := (hs_ppgtts st)[unat (hc_deviceIndex c) := n]\<rparr>"

section \<open>Construction\<close>

text \<open>
  Each clause writes \<open>flags\<close> afresh from the argument of the constructor, not from the value an
  earlier clause left.
\<close>

definition applyPriorityFlags :: "u32 \<Rightarrow> HardwareContextImp \<Rightarrow> HardwareContextImp" where
  "applyPriorityFlags flags c =
     (if flags AND highPriorityFlag \<noteq> 0
      then c\<lparr>hc_priority := priorityHigh, hc_flags := flags AND NOT highPriorityFlag\<rparr>
      else if flags AND lowPriorityFlag \<noteq> 0
      then c\<lparr>hc_priority := priorityLow, hc_flags := flags AND NOT lowPriorityFlag\<rparr>
      else c)"

definition joinGroup :: "u32 \<Rightarrow> HardwareContextImp \<times> hw_state \<Rightarrow> (HardwareContextImp \<times> hw_state) result" where
  "joinGroup flags = (\<lambda>(c, st).
     if flags AND contextGroupFlag \<noteq> 0
     then bindR (hw_group (hc_contextGroup c) st) (\<lambda>g.
          assertR (unat (cg_contextGroupCounter g) < length (cg_contexts g))
            (Inr (c\<lparr>hc_contextGroupId := cg_contextGroupCounter g, hc_flags := flags AND NOT contextGroupFlag\<rparr>,
                  setGroup (hc_contextGroup c)
                    (g\<lparr>cg_contextGroupCounter := cg_contextGroupCounter g + 1\<rparr>) st)))
     else Inr (c, st))"

definition applyRunAlone :: "u32 \<Rightarrow> HardwareContextImp \<Rightarrow> HardwareContextImp" where
  "applyRunAlone flags c =
     (if flags AND runAloneFlag \<noteq> 0 then c\<lparr>hc_runAlone := True, hc_flags := flags AND NOT runAloneFlag\<rparr> else c)"

definition contextFields ::
  "u32 \<Rightarrow> CommandStreamerHelper \<Rightarrow> nat option \<Rightarrow> u32 \<Rightarrow> u32 \<Rightarrow> u32 \<Rightarrow> HardwareContextImp" where
  "contextFields deviceIndex traits contextGroup flags priority contextId =
     \<lparr>hc_runAlone = False, hc_contextGroupId = noGroup, hc_priority = priority, hc_csTraits = traits,
      hc_deviceIndex = deviceIndex, hc_ggttRing = -1, hc_ringData = -1, hc_pRingData = NullArray,
      hc_ggttLRCA = -1, hc_ggttGlobalHWSP = -1, hc_pLRCA = NullArray, hc_ringTail = 0, hc_ringSize = 16384,
      hc_flags = flags, hc_ggttContextFence = 0, hc_contextFenceValue = 0, hc_contextId = contextId,
      hc_contextGroup = contextGroup\<rparr>"

text \<open>\<open>this\<close> is the address the new object gets.\<close>

definition newHardwareContextImp ::
  "nat \<Rightarrow> u32 \<Rightarrow> CommandStreamerHelper \<Rightarrow> nat option \<Rightarrow> u32 \<Rightarrow> u32 \<Rightarrow> hw_state \<Rightarrow> hw_state result" where
  "newHardwareContextImp this deviceIndex traits contextGroup flags priority st =
     (let c = contextFields deviceIndex traits contextGroup flags priority (hs_globalContextId st);
          st = st\<lparr>hs_globalContextId := hs_globalContextId st + 1\<rparr>
      in bindR (joinGroup flags (applyPriorityFlags flags c, st)) (\<lambda>(c, st).
         Inr (setContext this (applyRunAlone flags c) st)))"

section \<open>Initialisation\<close>

definition ggttPageSize :: "HardwareContextImp \<Rightarrow> hw_state \<Rightarrow> usize result" where
  "ggttPageSize c st = bindR (hw_ggtt c st) (\<lambda>g.
     bindR (isMemorySupported (hc_csTraits c) (ggtt_memoryBank g) 65536) (\<lambda>supported.
     Inr (if supported then 65536 else 4096)))"

definition ggttAlloc :: "HardwareContextImp \<Rightarrow> usize \<Rightarrow> usize \<Rightarrow> hw_state \<Rightarrow> (u32 \<times> hw_state) result" where
  "ggttAlloc c sz pageSize st = bindR (hw_ggtt c st) (\<lambda>g.
     let (a, s) = alignedAlloc sz (ucast pageSize) (ggtt_gfxAddressAllocator g)
     in Inr (a, setGgtt c (g\<lparr>ggtt_gfxAddressAllocator := s\<rparr>) st))"

definition ggttWrite ::
  "HardwareContextImp \<Rightarrow> u32 \<Rightarrow> u8 list option \<Rightarrow> usize \<Rightarrow> int \<Rightarrow> usize \<Rightarrow> hw_state \<Rightarrow> hw_state result" where
  "ggttWrite c address memory sz hint pageSize st = bindR (hw_ggtt c st) (\<lambda>g.
     bindR (writeMemoryGgtt (ucast address) memory sz (ggtt_memoryBank g) hint pageSize g (hs_alloc st))
       (\<lambda>(cmds, es, g, alloc). Inr (emitCmds cmds (setGgtt c g (st\<lparr>hs_alloc := alloc\<rparr>)))))"

text \<open>The global hardware status page and the page of the fence.\<close>

definition initializeStatusPages ::
  "usize \<Rightarrow> HardwareContextImp \<times> hw_state \<Rightarrow> (HardwareContextImp \<times> hw_state) result" where
  "initializeStatusPages pageSize = (\<lambda>(c, st).
     bindR (ggttAlloc c 4096 pageSize st) (\<lambda>(a, st).
     bindR (ggttWrite c a None 4096 (hintValue ''TraceNotype'') pageSize st) (\<lambda>st.
     bindR (ggttAlloc c 4096 pageSize st) (\<lambda>(f, st).
     bindR (ggttWrite c f (Some (dwordBytes (hc_contextFenceValue c))) 4 (hintValue ''TraceNotype'') pageSize st)
       (\<lambda>st. Inr (c\<lparr>hc_ggttGlobalHWSP := a, hc_ggttContextFence := f\<rparr>,
          emitCmds [WriteMMIO (csh_mmioEngine (hc_csTraits c) + 0x2080) a 0xffffffff] st))))))"

definition initializeRing ::
  "usize \<Rightarrow> HardwareContextImp \<times> hw_state \<Rightarrow> (HardwareContextImp \<times> hw_state) result" where
  "initializeRing pageSize = (\<lambda>(c, st).
     bindR (ggttAlloc c (hc_ringSize c) pageSize st) (\<lambda>(a, st).
     bindR (ggttWrite c a None (hc_ringSize c) (hintValue ''TraceNotype'') pageSize st) (\<lambda>st.
     Inr (c\<lparr>hc_ggttRing := a\<rparr>, st))))"

definition ringCtrl :: "HardwareContextImp \<Rightarrow> u32" where
  "ringCtrl c = ucast ((hc_ringSize c - 0x1000) OR 1)"

definition initializeLRCA ::
  "hw_env \<Rightarrow> usize \<Rightarrow> HardwareContextImp \<times> hw_state \<Rightarrow> (HardwareContextImp \<times> hw_state) result" where
  "initializeLRCA env pageSize = (\<lambda>(c, st).
     let h = hc_csTraits c; additionalBits = (if hc_runAlone c then 0x800080 else hc_flags c)
     in bindR (hw_ppgtt c st) (\<lambda>ppgtt.
        bindR (csh_initialize h (Some ppgtt) additionalBits (newArray env (unat (csh_sizeLRCA h)))) (\<lambda>lrca.
        bindR (setRingHead h 0 lrca) (\<lambda>lrca. bindR (setRingTail h 0 lrca) (\<lambda>lrca.
        bindR (setRingBase h (hc_ggttRing c) lrca) (\<lambda>lrca. bindR (setRingCtrl h (ringCtrl c) lrca) (\<lambda>lrca.
        bindR (ggttAlloc c (csh_sizeLRCA h) pageSize st) (\<lambda>(a, st).
        Inr (c\<lparr>hc_pLRCA := Live lrca, hc_ggttLRCA := a\<rparr>, st)))))))))"

definition initializeRingState ::
  "hw_env \<Rightarrow> usize \<Rightarrow> HardwareContextImp \<times> hw_state \<Rightarrow> (HardwareContextImp \<times> hw_state) result" where
  "initializeRingState env pageSize = (\<lambda>(c, st).
     let h = hc_csTraits c
     in if csh_isRingDataEnabled h
        then bindR (ggttAlloc c 4096 pageSize st) (\<lambda>(a, st).
             bindR (arrayBytes (hc_pLRCA c)) (\<lambda>lrca.
             bindR (csh_initializeRingData h lrca (newArray env 4096) a 4096 (hc_ggttRing c) (ringCtrl c))
               (\<lambda>(lrca, ringState).
             bindR (ggttWrite c a (Some ringState) 4096 (uint (csh_getHintForInRingCtx h)) pageSize st) (\<lambda>st.
             Inr (c\<lparr>hc_pLRCA := Live lrca, hc_ringData := a, hc_pRingData := Live ringState\<rparr>, st)))))
        else Inr (c, st))"

definition writeLRCA :: "nat \<Rightarrow> usize \<Rightarrow> HardwareContextImp \<times> hw_state \<Rightarrow> (HardwareContextImp \<times> hw_state) result" where
  "writeLRCA this pageSize = (\<lambda>(c, st).
     let h = hc_csTraits c
     in bindR (arrayBytes (hc_pLRCA c)) (\<lambda>lrca.
        bindR (ggttWrite c (hc_ggttLRCA c) (Some lrca) (csh_sizeLRCA h) (csh_aubHintLRCA h) pageSize st) (\<lambda>st.
        bindR (hw_ppgtt c st) (\<lambda>ppgtt. Inr (c, emitCmds [DeclareContext (word_of_nat this) ppgtt] st)))))"

definition groupSlot :: "HardwareContextImp \<Rightarrow> ContextGroup \<Rightarrow> nat option result" where
  "groupSlot c g = (let i = unat (hc_contextGroupId c)
     in if i < length (cg_contexts g) then Inr (cg_contexts g ! i) else Inl IndexOutOfRange)"

definition setGroupSlot :: "HardwareContextImp \<Rightarrow> nat option \<Rightarrow> ContextGroup \<Rightarrow> ContextGroup" where
  "setGroupSlot c x g = g\<lparr>cg_contexts := (cg_contexts g)[unat (hc_contextGroupId c) := x]\<rparr>"

definition enterGroup :: "nat \<Rightarrow> HardwareContextImp \<times> hw_state \<Rightarrow> (HardwareContextImp \<times> hw_state) result" where
  "enterGroup this = (\<lambda>(c, st).
     if hc_contextGroupId c \<noteq> noGroup
     then bindR (hw_group (hc_contextGroup c) st) (\<lambda>g. bindR (groupSlot c g) (\<lambda>slot.
          assertR (slot = None)
            (Inr (c, setGroup (hc_contextGroup c) (setGroupSlot c (Some this) g) st))))
     else Inr (c, st))"

definition hw_initialize :: "hw_env \<Rightarrow> nat \<Rightarrow> hw_state \<Rightarrow> hw_state result" where
  "hw_initialize env this st = bindR (hw_context this st) (\<lambda>c.
     if hc_pLRCA c \<noteq> NullArray then Inr st
     else bindR (ggttPageSize c st) (\<lambda>pageSize.
          bindR (initializeStatusPages pageSize (c, emitCmds (initializeEngineMMIO (hc_csTraits c)) st)) (\<lambda>s.
          bindR (initializeRing pageSize s) (\<lambda>s. bindR (initializeLRCA env pageSize s) (\<lambda>s.
          bindR (initializeRingState env pageSize s) (\<lambda>s. bindR (writeLRCA this pageSize s) (\<lambda>s.
          bindR (enterGroup this s) (\<lambda>(c, st). Inr (setContext this c st)))))))))"

section \<open>Release\<close>

text \<open>The members left in the group when its first context goes.\<close>

fun dissolveGroup :: "nat option list \<Rightarrow> hw_state \<Rightarrow> hw_state result" where
  "dissolveGroup [] st = Inr st"
| "dissolveGroup (None # cs) st = dissolveGroup cs st"
| "dissolveGroup (Some a # cs) st =
     bindR (hw_context a st) (\<lambda>c. dissolveGroup cs (setContext a (c\<lparr>hc_contextGroupId := noGroup\<rparr>) st))"

definition leaveGroup :: "nat \<Rightarrow> HardwareContextImp \<Rightarrow> hw_state \<Rightarrow> hw_state result" where
  "leaveGroup this c st =
     (if hc_contextGroupId c \<noteq> noGroup
      then bindR (hw_group (hc_contextGroup c) st) (\<lambda>g. bindR (groupSlot c g) (\<lambda>slot.
           let g = setGroupSlot c None g
           in if hc_contextGroupId c = 0
              then bindR (dissolveGroup (cg_contexts g) st) (\<lambda>st.
                   Inr (setGroup (hc_contextGroup c)
                     (g\<lparr>cg_contexts := map (\<lambda>_. None) (cg_contexts g), cg_contextGroupCounter := 0\<rparr>) st))
              else Inr (setGroup (hc_contextGroup c) g st)))
      else Inr st)"

definition hw_release :: "nat \<Rightarrow> hw_state \<Rightarrow> hw_state result" where
  "hw_release this st = bindR (hw_context this st) (\<lambda>c.
     bindR (deleteArray (hc_pLRCA c)) (\<lambda>_.
     bindR (deleteArray (hc_pRingData c)) (\<lambda>p.
     let c = c\<lparr>hc_pLRCA := NullArray, hc_pRingData := p\<rparr>
     in leaveGroup this c (setContext this c st))))"

definition deleteHardwareContext :: "nat \<Rightarrow> hw_state \<Rightarrow> hw_state result" where
  "deleteHardwareContext this st = bindR (hw_release this st) (\<lambda>st.
     Inr (st\<lparr>hs_contexts := (hs_contexts st)(this := None)\<rparr>))"

section \<open>Waiting\<close>

definition hw_pollForCompletion :: "HardwareContextImp \<Rightarrow> hw_state \<Rightarrow> hw_state result" where
  "hw_pollForCompletion c st =
     (if csh_memoryBasedPollForCompletion (hc_csTraits c)
      then bindR (hw_ggtt c st) (\<lambda>g.
           bindR (gttMemoryPoll (ucast (hc_ggttContextFence c)) (hc_contextFenceValue c)
                    (comparisonValue GreaterEqual) g (hs_alloc st)) (\<lambda>(cmds, g, alloc).
           Inr (emitCmds cmds (setGgtt c g (st\<lparr>hs_alloc := alloc\<rparr>)))))
      else Inr (emitCmds [csh_pollForCompletion (hc_csTraits c)] st))"

text \<open>One read of the fence; what the stream stores in the buffer is a parameter of its users.\<close>

definition readFence :: "HardwareContextImp \<Rightarrow> hw_state \<Rightarrow> hw_state result" where
  "readFence c st = bindR (ggttPageSize c st) (\<lambda>pageSize. bindR (hw_ggtt c st) (\<lambda>g.
     bindR (readMemoryGgtt (ucast (hc_ggttContextFence c)) 4 (ggtt_memoryBank g) pageSize g (hs_alloc st))
       (\<lambda>(cmds, g, alloc). Inr (emitCmds cmds (setGgtt c g (st\<lparr>hs_alloc := alloc\<rparr>))))))"

definition getCurrentFence :: "u32 \<Rightarrow> HardwareContextImp \<Rightarrow> hw_state \<Rightarrow> (u32 \<times> hw_state) result" where
  "getCurrentFence val c st = bindR (readFence c st) (\<lambda>st. Inr (val, st))"

definition getExpectedFence :: "HardwareContextImp \<Rightarrow> u32" where
  "getExpectedFence c = hc_contextFenceValue c"

definition maxSpinCount :: nat where "maxSpinCount = 16"
definition maxSleepMS :: u32 where "maxSleepMS = 4"

text \<open>
  The loop may not end, so it has fuel: \<open>None\<close> when that many passes were not enough.  \<open>reads i\<close> is the
  fence value pass \<open>i\<close> reads; the result counts the passes and lists the times slept.
\<close>

fun pollFence_loop ::
  "nat \<Rightarrow> (nat \<Rightarrow> u32) \<Rightarrow> HardwareContextImp \<Rightarrow> nat \<Rightarrow> nat \<Rightarrow> u32 \<Rightarrow> u32 list \<Rightarrow> hw_state
    \<Rightarrow> (nat \<times> u32 list \<times> hw_state) result option" where
  "pollFence_loop 0 reads c i spinCount sleepMS slept st = None"
| "pollFence_loop (Suc fuel) reads c i spinCount sleepMS slept st =
     (let (spinCount, sleepMS, slept) =
            (if spinCount \<ge> maxSpinCount
             then (spinCount, min maxSleepMS (push_bit 1 sleepMS), slept @ [sleepMS])
             else (spinCount + 1, sleepMS, slept))
      in case readFence c st of
           Inl e \<Rightarrow> Some (Inl e)
         | Inr st \<Rightarrow> if reads i \<noteq> hc_contextFenceValue c
                     then pollFence_loop fuel reads c (i + 1) spinCount sleepMS slept st
                     else Some (Inr (i + 1, slept, st)))"

definition pollForFenceCompletion ::
  "nat \<Rightarrow> (nat \<Rightarrow> u32) \<Rightarrow> HardwareContextImp \<Rightarrow> hw_state \<Rightarrow> (nat \<times> u32 list \<times> hw_state) result option" where
  "pollForFenceCompletion fuel reads c st = pollFence_loop fuel reads c 0 0 1 [] st"

section \<open>Submission\<close>

definition ringCommands :: "HardwareContextImp \<Rightarrow> u64 \<Rightarrow> u32 list" where
  "ringCommands c gfxAddress =
     (let h = hc_csTraits c;
          cmds = addBatchBufferJump h gfxAddress @ csh_addFlushCommands h
                 @ storeFenceValue (ucast (hc_ggttContextFence c)) (hc_contextFenceValue c + 1)
      in if length cmds mod 2 \<noteq> 0 then cmds @ [0] else cmds)"

text \<open>Room in the ring: fill the rest with no-ops, start at the front and wait for the engine.\<close>

definition wrapRing ::
  "usize \<Rightarrow> u32 \<Rightarrow> HardwareContextImp \<times> hw_state \<Rightarrow> (HardwareContextImp \<times> hw_state) result" where
  "wrapRing pageSize sizeCommandsInBytes = (\<lambda>(c, st).
     if ucast (hc_ringTail c + sizeCommandsInBytes) \<ge> hc_ringSize c
     then let sizeToNoop = hc_ringSize c - ucast (hc_ringTail c)
          in bindR (ggttWrite c (hc_ggttRing c + hc_ringTail c) (Some (replicate (4 * unat sizeToNoop) 0)) sizeToNoop
                      (csh_aubHintCommandBuffer (hc_csTraits c)) pageSize st) (\<lambda>st.
             let c = c\<lparr>hc_ringTail := 0\<rparr> in bindR (hw_pollForCompletion c st) (\<lambda>st. Inr (c, st)))
     else Inr (c, st))"

definition writeRing ::
  "usize \<Rightarrow> u32 list \<Rightarrow> u32 \<Rightarrow> HardwareContextImp \<times> hw_state \<Rightarrow> (HardwareContextImp \<times> hw_state) result" where
  "writeRing pageSize cmds sizeCommandsInBytes = (\<lambda>(c, st).
     let c = c\<lparr>hc_contextFenceValue := hc_contextFenceValue c + 1\<rparr>
     in bindR (ggttWrite c (hc_ggttRing c + hc_ringTail c) (Some (concat (map dwordBytes cmds)))
                 (ucast sizeCommandsInBytes) (csh_aubHintCommandBuffer (hc_csTraits c)) pageSize st) (\<lambda>st.
        Inr (c\<lparr>hc_ringTail := hc_ringTail c + sizeCommandsInBytes\<rparr>, st)))"

text \<open>The registers of the LRCA and of the ring state, with the offset and the size to write.\<close>

definition updateRegisters ::
  "bool \<Rightarrow> u32 \<Rightarrow> HardwareContextImp \<Rightarrow> (HardwareContextImp \<times> u32 \<times> u32 \<times> usize) result" where
  "updateRegisters overrideRingHead ringHead c =
     (let h = hc_csTraits c; ringOffset = offsetContext + offsetRingRegisters; ringDataOffset = csh_getRingDataOffset h
      in if overrideRingHead
         then bindR (arrayUpdate (setRingHead h ringHead) (hc_pLRCA c)) (\<lambda>lrca.
              bindR (arrayUpdate (setRingTail h (hc_ringTail c)) lrca) (\<lambda>lrca.
              bindR (csh_setRingDataHead h (hc_pRingData c) ringHead) (\<lambda>rd.
              bindR (csh_setRingDataTail h rd (hc_ringTail c)) (\<lambda>rd.
              Inr (c\<lparr>hc_pLRCA := lrca, hc_pRingData := rd\<rparr>, ringOffset + offsetRingHead,
                   ringDataOffset + offsetRingHead, 4 * 4)))))
         else bindR (arrayUpdate (setRingTail h (hc_ringTail c)) (hc_pLRCA c)) (\<lambda>lrca.
              bindR (csh_setRingDataTail h (hc_pRingData c) (hc_ringTail c)) (\<lambda>rd.
              Inr (c\<lparr>hc_pLRCA := lrca, hc_pRingData := rd\<rparr>, ringOffset + offsetRingTail,
                   ringDataOffset + offsetRingTail, 2 * 4))))"

definition writeRegisters ::
  "usize \<Rightarrow> HardwareContextImp \<times> u32 \<times> u32 \<times> usize \<Rightarrow> hw_state \<Rightarrow> (HardwareContextImp \<times> hw_state) result" where
  "writeRegisters pageSize = (\<lambda>(c, ringOffset, ringDataOffset, sz) st.
     bindR (arrayBytes (hc_pLRCA c)) (\<lambda>lrca.
     bindR (ggttWrite c (hc_ggttLRCA c + ringOffset) (Some (drop (unat ringOffset) lrca)) sz
              (hintValue ''TraceNotype'') pageSize st) (\<lambda>st.
     if csh_isRingDataEnabled (hc_csTraits c)
     then bindR (arrayBytes (hc_pRingData c)) (\<lambda>rd.
          bindR (ggttWrite c (hc_ringData c + ringDataOffset) (Some (drop (unat ringDataOffset) rd)) sz
                   (hintValue ''TraceNotype'') pageSize st) (\<lambda>st. Inr (c, st)))
     else Inr (c, st))))"

text \<open>The context is stored back before the group is read: \<open>this\<close> is one of its members.\<close>

fun groupMembers :: "nat option list \<Rightarrow> hw_state \<Rightarrow> (u32 \<times> u32 \<times> u32) option list result" where
  "groupMembers [] st = Inr []"
| "groupMembers (None # cs) st = bindR (groupMembers cs st) (\<lambda>ms. Inr (None # ms))"
| "groupMembers (Some a # cs) st = bindR (hw_context a st) (\<lambda>c.
     bindR (groupMembers cs st) (\<lambda>ms. Inr (Some (hc_ggttLRCA c, hc_contextId c, hc_priority c) # ms)))"

definition hw_resubmit :: "HardwareContextImp \<Rightarrow> hw_state \<Rightarrow> hw_state result" where
  "hw_resubmit c st = bindR (hw_ppgtt c st) (\<lambda>ppgtt.
     let is48Bits = getNumAddressBits (pt_kind ppgtt) \<noteq> 32; h = hc_csTraits c
     in bindR (if hc_contextGroupId c \<noteq> noGroup
               then bindR (hw_group (hc_contextGroup c) st) (\<lambda>g.
                    bindR (groupMembers (cg_contexts g) st) (\<lambda>ms. submitGroup h ms is48Bits))
               else submit h (hc_ggttLRCA c) is48Bits (hc_contextId c) (hc_priority c)) (\<lambda>cmds.
        Inr (emitCmds cmds st)))"

definition submitBatchBuffer :: "nat \<Rightarrow> u64 \<Rightarrow> bool \<Rightarrow> hw_state \<Rightarrow> hw_state result" where
  "submitBatchBuffer this gfxAddress overrideRingHead st = bindR (hw_context this st) (\<lambda>c.
     let cmds = ringCommands c gfxAddress; sizeCommandsInBytes = word_of_nat (length cmds * 4)
     in bindR (ggttPageSize c st) (\<lambda>pageSize.
        bindR (wrapRing pageSize sizeCommandsInBytes (c, st)) (\<lambda>(c, st).
        let ringHead = hc_ringTail c
        in bindR (writeRing pageSize cmds sizeCommandsInBytes (c, st)) (\<lambda>(c, st).
           bindR (updateRegisters overrideRingHead ringHead c) (\<lambda>r.
           bindR (writeRegisters pageSize r st) (\<lambda>(c, st). hw_resubmit c (setContext this c st)))))))"

section \<open>Memory operations\<close>

definition hw_writeMemory2 :: "hw_env \<Rightarrow> AllocationParams \<Rightarrow> HardwareContextImp \<Rightarrow> hw_state \<Rightarrow> hw_state result" where
  "hw_writeMemory2 env params c st =
     bindR (getSupportedPageSize (hc_csTraits c) (ap_memoryBanks params) (ap_pageSize params)) (\<lambda>pageSize.
     bindR (hw_ppgtt c st) (\<lambda>ppgtt.
     bindR (writeMemory (streamEnv env) (params\<lparr>ap_pageSize := pageSize\<rparr>) ppgtt (hs_alloc st))
       (\<lambda>(cmds, es, ppgtt, alloc). Inr (emitCmds cmds (setPpgtt c ppgtt (st\<lparr>hs_alloc := alloc\<rparr>))))))"

definition hw_writeMemory ::
  "hw_env \<Rightarrow> u64 \<Rightarrow> u8 list option \<Rightarrow> usize \<Rightarrow> u32 \<Rightarrow> int \<Rightarrow> usize \<Rightarrow> HardwareContextImp \<Rightarrow> hw_state
    \<Rightarrow> hw_state result" where
  "hw_writeMemory env gfxAddress memory sz memoryBanks hint pageSize =
     hw_writeMemory2 env (makeAllocationParams gfxAddress memory sz memoryBanks hint pageSize)"

definition writeAndSubmitBatchBuffer ::
  "hw_env \<Rightarrow> nat \<Rightarrow> u64 \<Rightarrow> u8 list option \<Rightarrow> usize \<Rightarrow> u32 \<Rightarrow> usize \<Rightarrow> hw_state \<Rightarrow> hw_state result" where
  "writeAndSubmitBatchBuffer env this gfxAddress batchBuffer sz memoryBanks pageSize st =
     bindR (hw_context this st) (\<lambda>c.
     bindR (getSupportedPageSize (hc_csTraits c) memoryBanks pageSize) (\<lambda>pageSize.
     bindR (hw_writeMemory env gfxAddress batchBuffer sz memoryBanks
              (csh_aubHintBatchBuffer (hc_csTraits c)) pageSize c st)
       (submitBatchBuffer this gfxAddress False)))"

definition hw_freeMemory :: "hw_env \<Rightarrow> u64 \<Rightarrow> usize \<Rightarrow> HardwareContextImp \<Rightarrow> hw_state \<Rightarrow> hw_state result" where
  "hw_freeMemory env gfxAddress sz c st = bindR (hw_ppgtt c st) (\<lambda>ppgtt.
     bindR (freeMemory (streamEnv env) gfxAddress sz ppgtt (hs_alloc st)) (\<lambda>(cmds, ppgtt, alloc).
     Inr (emitCmds cmds (setPpgtt c ppgtt (st\<lparr>hs_alloc := alloc\<rparr>)))))"

definition hw_expectMemory ::
  "hw_env \<Rightarrow> u64 \<Rightarrow> u8 list \<Rightarrow> usize \<Rightarrow> u32 \<Rightarrow> HardwareContextImp \<Rightarrow> hw_state \<Rightarrow> hw_state result" where
  "hw_expectMemory env gfxAddress memory sz compareOperation c st = bindR (hw_ppgtt c st) (\<lambda>ppgtt.
     bindR (expectMemory (streamEnv env) gfxAddress memory sz compareOperation ppgtt (hs_alloc st))
       (\<lambda>(cmds, ppgtt, alloc). Inr (emitCmds cmds (setPpgtt c ppgtt (st\<lparr>hs_alloc := alloc\<rparr>)))))"

definition hw_readMemory ::
  "hw_env \<Rightarrow> u64 \<Rightarrow> usize \<Rightarrow> u32 \<Rightarrow> usize \<Rightarrow> HardwareContextImp \<Rightarrow> hw_state \<Rightarrow> hw_state result" where
  "hw_readMemory env gfxAddress sz memoryBanks pageSize c st =
     bindR (getSupportedPageSize (hc_csTraits c) memoryBanks pageSize) (\<lambda>pageSize.
     bindR (hw_ppgtt c st) (\<lambda>ppgtt.
     bindR (readMemory (streamEnv env) gfxAddress sz memoryBanks pageSize ppgtt (hs_alloc st))
       (\<lambda>(cmds, ppgtt, alloc). Inr (emitCmds cmds (setPpgtt c ppgtt (st\<lparr>hs_alloc := alloc\<rparr>))))))"

definition hw_writeMMIO :: "u32 \<Rightarrow> u32 \<Rightarrow> hw_state \<Rightarrow> hw_state" where
  "hw_writeMMIO off val = emitCmds [WriteMMIO off val 0xffffffff]"

text \<open>\<^verbatim>\<open>PAGE_TABLE_PPGTT\<close> is 1; the handle is the address of the context.\<close>

definition hw_dumpBufferBIN :: "nat \<Rightarrow> u64 \<Rightarrow> usize \<Rightarrow> hw_state \<Rightarrow> hw_state" where
  "hw_dumpBufferBIN this gfxAddress sz = emitCmds [DumpBufferBIN 1 gfxAddress sz (word_of_nat this)]"

definition hw_dumpSurface :: "nat \<Rightarrow> SurfaceInfo \<Rightarrow> hw_state \<Rightarrow> hw_state" where
  "hw_dumpSurface this surfaceInfo = emitCmds [DumpSurface 1 surfaceInfo (word_of_nat this)]"

text \<open>\<open>readMMIO\<close> answers for the stream.\<close>

definition isActive :: "(u32 \<Rightarrow> u32) \<Rightarrow> HardwareContextImp \<Rightarrow> bool" where
  "isActive readMMIO c =
     (if hc_contextGroupId c \<noteq> noGroup then False
      else let execListStatusLo = readMMIO (csh_mmioEngine (hc_csTraits c) + 0x2234)
           in if execListStatusLo AND 0x80 = 0 then False
              else let execListStatusHi = readMMIO (csh_mmioEngine (hc_csTraits c) + 0x2234 + 4)
                   in drop_bit 7 execListStatusHi = hc_contextId c)"

end
