(* ===== verification/HardwareContextProps.thy ===== *)
theory HardwareContextProps
  imports HardwareContext EngineFamilies WalkerProps
begin

text \<open>
  Correctness of the hardware contexts: what the ring, the logical ring context and the fence hold
  before and after a submission, for the engines of every core family.  The locale \<open>ring_engine\<close> is what
  a context relies on from its engine; it is interpreted on the classes of the families.
\<close>

section \<open>Dwords in arrays\<close>

lemma dwords_length [simp]: "length (concat (map dwordBytes vs)) = 4 * length vs"
  by (induction vs) (simp_all add: dwordBytes_def)

lemma dwordBytes_len [simp]: "length (dwordBytes v) = 4"
  by (simp add: dwordBytes_def)

lemma putDwords_eq:
  "off + 4 * length vs \<le> length bs \<Longrightarrow>
   putDwords off vs bs = Inr (take off bs @ concat (map dwordBytes vs) @ drop (off + 4 * length vs) bs)"
proof (induction vs arbitrary: off bs)
  case (Cons v vs)
  let ?bs = "take off bs @ dwordBytes v @ drop (off + 4) bs"
  have "off + 4 \<le> length bs" "off + 4 + 4 * length vs \<le> length ?bs"
    using Cons.prems by simp_all
  then show ?case
    using Cons.IH [of "off + 4" ?bs] by (simp add: putDword_def ac_simps)
qed simp

lemma putDwords_fails: "vs \<noteq> [] \<Longrightarrow> length bs < off + 4 * length vs \<Longrightarrow> putDwords off vs bs = Inl IndexOutOfRange"
proof (induction vs arbitrary: off bs)
  case (Cons v vs)
  show ?case
  proof (cases "off + 4 \<le> length bs")
    case True
    moreover from True Cons.prems(2) have "vs \<noteq> []"
      by auto
    ultimately show ?thesis
      using Cons.IH [of "take off bs @ dwordBytes v @ drop (off + 4) bs" "off + 4"] Cons.prems
      by (simp add: putDword_def)
  qed (simp add: putDword_def)
qed simp

lemma putDwords_Inr:
  assumes "putDwords off vs bs = Inr bs'"
  shows "length bs' = length bs"
    and "vs \<noteq> [] \<Longrightarrow> bs' = take off bs @ concat (map dwordBytes vs) @ drop (off + 4 * length vs) bs"
proof -
  have "vs = [] \<or> off + 4 * length vs \<le> length bs"
    using assms putDwords_fails [of vs bs off] by (cases "off + 4 * length vs \<le> length bs") auto
  then show "length bs' = length bs"
    and "vs \<noteq> [] \<Longrightarrow> bs' = take off bs @ concat (map dwordBytes vs) @ drop (off + 4 * length vs) bs"
    using assms putDwords_eq [of off vs bs] by auto
qed

lemma putDwords_then:
  assumes "off + 4 * length vs \<le> length bs"
    and "\<And>bs'. putDwords off vs bs = Inr bs' \<Longrightarrow> length bs' = length bs \<Longrightarrow> \<exists>r. f bs' = Inr r \<and> P r"
  shows "\<exists>r. bindR (putDwords off vs bs) f = Inr r \<and> P r"
  using assms(2) [OF putDwords_eq [OF assms(1)]] putDwords_eq [OF assms(1)] assms(1) by simp

lemma putDwords_last:
  assumes "off + 4 * length vs \<le> length bs" and "\<And>bs'. length bs' = length bs \<Longrightarrow> P bs'"
  shows "\<exists>r. putDwords off vs bs = Inr r \<and> P r"
  using assms putDwords_eq [OF assms(1)] by simp

declare putDwords.simps(2) [simp del]

text \<open>The bytes \<open>[i, i + n)\<close> of an array.\<close>

definition slice :: "nat \<Rightarrow> nat \<Rightarrow> 'a list \<Rightarrow> 'a list" where
  "slice i n bs = take n (drop i bs)"

lemma slice_append: "slice i m bs @ slice (i + m) n bs = slice i (m + n) bs"
  by (simp add: slice_def take_add add.commute)

lemma slice_put_same:
  assumes "putDwords off vs bs = Inr bs'" and "vs \<noteq> []" and "off \<le> length bs"
  shows "slice off (4 * length vs) bs' = concat (map dwordBytes vs)"
  using putDwords_Inr(2) [OF assms(1,2)] assms(3) by (simp add: slice_def)

lemma slice_put_other:
  assumes "putDwords off vs bs = Inr bs'" and "i + n \<le> off \<or> off + 4 * length vs \<le> i" and "off \<le> length bs"
  shows "slice i n bs' = slice i n bs"
proof (cases "vs = []")
  case False
  then have bs': "bs' = take off bs @ concat (map dwordBytes vs) @ drop (off + 4 * length vs) bs"
    using putDwords_Inr(2) assms(1) by blast
  show ?thesis
  proof (cases "i + n \<le> off")
    case True
    then show ?thesis
      using assms(3) by (simp add: bs' slice_def drop_take)
  next
    case False
    then have "off + 4 * length vs \<le> i"
      using assms(2) by simp
    then obtain k where "i = off + 4 * length vs + k"
      using le_Suc_ex by blast
    then show ?thesis
      using assms(3) by (simp add: bs' slice_def add.commute)
  qed
qed (use assms in simp)

section \<open>The interface of an engine\<close>

definition ringDataShape :: "HostArray \<Rightarrow> HostArray \<Rightarrow> bool" where
  "ringDataShape p p' \<longleftrightarrow> (case p of NullArray \<Rightarrow> p' = NullArray
     | Live rs \<Rightarrow> length rs = 4096 \<longrightarrow> (\<exists>rs'. p' = Live rs' \<and> length rs' = 4096)
     | Freed \<Rightarrow> True)"

text \<open>The registers from the ring tail to the ring control: the part of the LRCA a context keeps.\<close>

abbreviation ringSlice :: "u8 list \<Rightarrow> u8 list" where
  "ringSlice lrca \<equiv> slice (ringRegister offsetRingTail) 24 lrca"

locale ring_engine =
  fixes h :: CommandStreamerHelper
  assumes flush_short: "length (csh_addFlushCommands h) \<le> 64"
    and lrca_size: "0x2000 \<le> unat (csh_sizeLRCA h)"
    and ring_data_init: "0x2000 \<le> length lrca \<Longrightarrow> length rs = 4096 \<Longrightarrow>
      \<exists>lrca' rs'. csh_initializeRingData h lrca rs a 4096 ring ctrl = Inr (lrca', rs')
        \<and> length lrca' = length lrca \<and> length rs' = 4096 \<and> ringSlice lrca' = ringSlice lrca"
    and ring_data_head: "p = NullArray \<or> (\<exists>rs. p = Live rs \<and> length rs = 4096) \<Longrightarrow>
      \<exists>p'. csh_setRingDataHead h p x = Inr p' \<and> ringDataShape p p'"
    and ring_data_tail: "p = NullArray \<or> (\<exists>rs. p = Live rs \<and> length rs = 4096) \<Longrightarrow>
      \<exists>p'. csh_setRingDataTail h p x = Inr p' \<and> ringDataShape p p'"
    and register_poll: "\<not> csh_memoryBasedPollForCompletion h"
    and submit_eight: "length ds = 8 \<Longrightarrow> \<exists>cmds. csh_submitContext h ds = Inr cmds"

text \<open>The engines of the core families, with the GPU they are bound to.\<close>

inductive engine_class :: "CommandStreamerHelper \<Rightarrow> bool" where
  "engine_class (newCommandStreamerHelperRcs d)"
| "engine_class (newCommandStreamerHelperBcs d)"
| "engine_class (newCommandStreamerHelperVcs d)"
| "engine_class (newCommandStreamerHelperVecs d)"
| "engine_class (newCommandStreamerHelperCcs d e)"
| "engine_class (newCommandStreamerHelperCccs d)"
| "engine_class (newCommandStreamerHelperLinkBcs d e)"

inductive family_engine :: "CommandStreamerHelper \<Rightarrow> bool" where
  Gen12LP: "engine_class h \<Longrightarrow> family_engine (CommandStreamerHelperGen12LP mmio h)"
| XeHpg: "engine_class h \<Longrightarrow> family_engine (CommandStreamerHelperXeHpgCore execlist mmio h)"
| XeHpc: "engine_class h \<Longrightarrow> family_engine (CommandStreamerHelperXeHpcCore mmio h)"
| Xe2Hpg: "engine_class h \<Longrightarrow> family_engine (CommandStreamerHelperXe2HpgCore mmio h)"
| Xe3: "engine_class h \<Longrightarrow> family_engine (CommandStreamerHelperXe3Core mmio h)"
| Xe3p: "engine_class h \<Longrightarrow> family_engine (CommandStreamerHelperXe3pCore execlist indirect mmio h)"
| bound: "family_engine h \<Longrightarrow> family_engine (h\<lparr>csh_gpu := gpu\<rparr>)"

lemma engine_class_facts:
  assumes "engine_class h"
  shows "length (csh_addFlushCommands h) \<le> 64" and "0x2000 \<le> unat (csh_sizeLRCA h)"
    and "csh_initializeRingData h lrca rs a n ring ctrl = Inr (lrca, rs)"
    and "csh_setRingDataHead h p x = Inr p" and "csh_setRingDataTail h p x = Inr p"
    and "\<not> csh_memoryBasedPollForCompletion h"
  using assms
  by (cases; simp add: newCommandStreamerHelperRcs_def newCommandStreamerHelperBcs_def newCommandStreamerHelperVcs_def
      newCommandStreamerHelperVecs_def newCommandStreamerHelperCcs_def newCommandStreamerHelperCccs_def
      newCommandStreamerHelperLinkBcs_def newCommandStreamerHelper_def Let_def rcsFlushCommands_def
      ccsFlushCommands_def miFlushCommands_def pipeControlFlush_def)+

lemma execlistQueue_eight: "length ds = 8 \<Longrightarrow> \<exists>cmds. execlistQueue e ds = Inr cmds"
  by (simp add: execlistQueue_def)

lemma submitContext_eight:
  assumes "length ds = 8"
  shows "\<exists>cmds. submitContext_Queue e ds = Inr cmds" and "\<exists>cmds. submitContext_XeHpg x e ds = Inr cmds"
    and "\<exists>cmds. submitContext_Xe3p x e ds = Inr cmds"
  using execlistQueue_eight [OF assms, of e] assms
  by (auto simp: submitContext_Queue_def submitContext_XeHpg_def submitContext_Xe3p_def loadExeclist_def assertR_def)

lemma ringDataShape_refl [simp]: "p = NullArray \<or> (\<exists>rs. p = Live rs \<and> length rs = 4096) \<Longrightarrow> ringDataShape p p"
  by (auto simp: ringDataShape_def)

lemma setRingDataRegister_shape:
  assumes "p = NullArray \<or> (\<exists>rs. p = Live rs \<and> length rs = 4096)" and "unat (getRingDataOffset_Xe3p + off) \<le> 4088"
  shows "\<exists>p'. setRingDataRegister off r p x = Inr p' \<and> ringDataShape p p'"
  using assms(1)
proof
  assume "p = NullArray"
  then show ?thesis
    by (simp add: setRingDataRegister_def ringDataShape_def)
next
  assume "\<exists>rs. p = Live rs \<and> length rs = 4096"
  then obtain rs where rs: "p = Live rs" "length rs = 4096"
    by blast
  then obtain rs' where "putDwords (unat (getRingDataOffset_Xe3p + off)) [r, x] rs = Inr rs'"
    using putDwords_eq [of "unat (getRingDataOffset_Xe3p + off)" "[r, x]" rs] assms(2) by simp
  then show ?thesis
    using rs putDwords_Inr(1) [of _ "[r, x]" rs rs']
    by (simp add: setRingDataRegister_def ringDataShape_def arrayUpdate_def arrayBytes_def)
qed

lemma initializeRingState_total:
  assumes "length rs = 4096"
  shows "\<exists>rs'. initializeRingState_Xe3p e 4096 ring ctrl rs = Inr rs' \<and> length rs' = 4096"
  unfolding initializeRingState_Xe3p_def Let_def
  by (intro putDwords_then putDwords_last; use assms in \<open>simp add: lrca_offsets length_concat sum_list_replicate\<close>)

lemma initializeRingData_total:
  assumes "0x2000 \<le> length lrca" and "length rs = 4096"
  shows "\<exists>lrca' rs'. initializeRingData_Xe3p s e lrca rs a 4096 ring ctrl = Inr (lrca', rs')
    \<and> length lrca' = length lrca \<and> length rs' = 4096 \<and> ringSlice lrca' = ringSlice lrca"
proof -
  obtain rs' where rs': "initializeRingState_Xe3p e 4096 ring ctrl rs = Inr rs'" "length rs' = 4096"
    using initializeRingState_total [OF assms(2)] by blast
  have "\<exists>lrca'. pointToRingData s e a lrca = Inr lrca' \<and> length lrca' = length lrca
      \<and> ringSlice lrca' = ringSlice lrca"
  proof (cases "settingOr True s")
    case True
    then obtain lrca' where put: "putDwords 0x1098 [e + 0x2108, a] lrca = Inr lrca'"
        "pointToRingData s e a lrca = Inr lrca'"
      using assms(1) putDwords_eq [of "0x1098" "[e + 0x2108, a]" lrca] by (simp add: pointToRingData_def lrca_offsets)
    have "ringSlice lrca' = ringSlice lrca"
      by (rule slice_put_other [OF put(1)]) (use assms(1) in \<open>simp_all add: ringRegister_def lrca_offsets\<close>)
    then show ?thesis
      using put putDwords_Inr(1) [OF put(1)] by simp
  qed (simp add: pointToRingData_def)
  then show ?thesis
    using rs' by (auto simp: initializeRingData_Xe3p_def)
qed

lemma family_engine_ring: "family_engine h \<Longrightarrow> ring_engine h"
proof (induction rule: family_engine.induct)
  case (bound h gpu)
  then show ?case
    by (simp add: ring_engine_def)
next
  case (Xe3p h execlist indirect mmio)
  have off: "unat (getRingDataOffset_Xe3p + offsetRingHead) \<le> 4088" "unat (getRingDataOffset_Xe3p + offsetRingTail) \<le> 4088"
    by (simp_all add: getRingDataOffset_Xe3p_def lrca_offsets)
  show ?case
    using engine_class_facts(1,2,6) [OF Xe3p] initializeRingData_total submitContext_eight(3)
      setRingDataRegister_shape [OF _ off(1)] setRingDataRegister_shape [OF _ off(2)]
    by unfold_locales
       (auto simp: CommandStreamerHelperXe3pCore_def CommandStreamerHelperXeCore_def Let_def drainFlushCommands_def)
qed (unfold_locales;
     simp add: CommandStreamerHelperGen12LP_def CommandStreamerHelperXeHpgCore_def CommandStreamerHelperXeHpcCore_def
       CommandStreamerHelperXe2HpgCore_def CommandStreamerHelperXe3Core_def CommandStreamerHelperXeCore_def
       engine_class_facts submitContext_eight)+

section \<open>Writing through the global table\<close>

definition ggtt_same :: "GGTT \<Rightarrow> GGTT \<Rightarrow> bool" where
  "ggtt_same g g' \<longleftrightarrow> ggtt_memoryBank g' = ggtt_memoryBank g
     \<and> ggtt_gfxAddressAllocator g' = ggtt_gfxAddressAllocator g"

lemma ggttDumpEntries_same:
  "ggttDumpEntries n i p b e g w = (g', w') \<Longrightarrow> ggtt_same g g' \<and> w_alloc w' = w_alloc w"
  by (induction n arbitrary: i p g w)
     (auto simp: Let_def ggtt_same_def ggtt_setChild_def ggttEntryInfo_def pushWalkEntry_def)

lemma ggttGetOrAllocate_runs:
  assumes "can_reserve (ggtt_memoryBank g) (w_alloc w)" and "mode \<noteq> Expect" and "ps \<noteq> 0"
  shows "\<exists>c g' w'. ggttGetOrAllocate banks ps mode i g w = Inr (c, g', w')
    \<and> ggtt_same g g' \<and> keeps_reserve (w_alloc w) (w_alloc w')"
proof (cases "ggtt_getChild g i")
  case None
  obtain n alloc where n: "newPageTable PageTableMemory True ps (ggtt_memoryBank g) noAdditionalParams (w_alloc w) = Inr (n, alloc)"
      and keep: "keeps_reserve (w_alloc w) alloc"
    using newPageTable_total [OF assms(1,3), of PageTableMemory noAdditionalParams] by auto
  define enable :: u64 where "enable = (if banks \<noteq> mainBank then 3 else 1)"
  let ?g = "ggtt_setChild i (Some n) g"
  let ?w = "ggttEntryInfo g i (pt_physicalAddress n) enable (w\<lparr>w_alloc := alloc\<rparr>)"
  obtain g' w' where d: "ggttDumpEntries (unat (ps div 4096) - 1) (i + 1) (pt_physicalAddress n) (pt_memoryBank n) enable ?g ?w
      = (g', w')"
    by (cases "ggttDumpEntries (unat (ps div 4096) - 1) (i + 1) (pt_physicalAddress n) (pt_memoryBank n) enable ?g ?w")
  have "ggttGetOrAllocate banks ps mode i g w = Inr (n, g', w')"
    using None n d assms(2) by (simp add: ggttGetOrAllocate_def ggtt_allocateChild_def assertR_def Let_def enable_def)
  moreover have "ggtt_same g g'" "w_alloc w' = alloc"
    using ggttDumpEntries_same [OF d]
    by (simp_all add: ggtt_same_def ggtt_setChild_def ggttEntryInfo_def pushWalkEntry_def)
  ultimately show ?thesis
    using keep by blast
qed (simp add: ggttGetOrAllocate_def ggtt_same_def)

lemma ggtt_pass_positive:
  assumes "ps = 4096 \<or> ps = 65536" and "0 < sz"
  shows "min (ps - (a AND (ps - 1))) sz \<noteq> (0 :: u64)"
proof -
  have "a AND (ps - 1) < ps"
  proof -
    have "unat (a AND 0xfff) < 4096" "unat (a AND 0xffff) < 65536"
      by (simp_all add: unat_low_bits [of a 12, simplified] unat_low_bits [of a 16, simplified])
    then show ?thesis
      using assms(1) by (auto simp: word_less_nat_alt)
  qed
  then show ?thesis
    using assms(2) by (auto simp: min_def)
qed

lemma walkGgtt_runs:
  assumes "can_reserve (ggtt_memoryBank g) (w_alloc w)" and "mode \<noteq> Expect" and "ps = 4096 \<or> ps = 65536"
  shows "\<exists>g' w'. walkGgtt banks ps mode a sz g w = Inr (g', w') \<and> ggtt_same g g' \<and> keeps_reserve (w_alloc w) (w_alloc w')"
  using assms
proof (induction banks ps mode a sz g w rule: walkGgtt.induct)
  case (1 banks ps mode a sz g w)
  show ?case
  proof (cases "sz > 0")
    case True
    let ?i = "ggtt_getIndex (ucast (ucast (a - (a AND (ps - 1))) :: u32))" and ?n = "min (ps - (a AND (ps - 1))) sz"
    have ps: "ps \<noteq> 0"
      using "1.prems"(3) by auto
    obtain c g1 w1 where get: "ggttGetOrAllocate banks ps mode ?i g w = Inr (c, g1, w1)"
        and one: "ggtt_same g g1" "keeps_reserve (w_alloc w) (w_alloc w1)"
      using ggttGetOrAllocate_runs [OF "1.prems"(1,2) ps] by blast
    note pos = ggtt_pass_positive [OF "1.prems"(3) True, of a]
    let ?w = "w1\<lparr>w_entries := w_entries w1 @ [\<lparr>pi_physicalAddress = pt_physicalAddress c + (a AND (ps - 1)),
        pi_size = ?n, pi_isLocalMemory = isLocalMemory c, pi_memoryBank = 0\<rparr>]\<rparr>"
    have "can_reserve (ggtt_memoryBank g1) (w_alloc ?w)"
      using one "1.prems"(1) by (simp add: ggtt_same_def keeps_reserve_def)
    then have "\<exists>g' w'. walkGgtt banks ps mode (a + ucast (ucast ?n :: u32)) (sz - ?n) g1 ?w = Inr (g', w')
        \<and> ggtt_same g1 g' \<and> keeps_reserve (w_alloc ?w) (w_alloc w')"
      using "1.IH" [OF True refl refl refl get refl refl refl refl pos] "1.prems"(2,3) by simp
    then show ?thesis
      using True get pos one keeps_reserve_trans
      by (subst walkGgtt.simps) (fastforce simp: Let_def ggtt_same_def)
  qed (simp add: walkGgtt.simps ggtt_same_def)
qed

text \<open>What a list of stream calls writes: data through the global table, registers, and waits.\<close>

datatype payload = Data "u8 list" | Poll | Reg u32 u32

fun payloadOf :: "StreamCmd \<Rightarrow> payload list" where
  "payloadOf (WritePages m sz pages hint) = [Data (take (unat sz) m)]"
| "payloadOf (MemoryPoll es v mode) = [Poll]"
| "payloadOf (RegisterPoll off msk v ne t) = [Poll]"
| "payloadOf (WriteMMIO off v msk) = [Reg off v]"
| "payloadOf c = []"

definition payloads :: "StreamCmd list \<Rightarrow> payload list" where
  "payloads cmds = concat (map payloadOf cmds)"

lemma payloads_append [simp]: "payloads (xs @ ys) = payloads xs @ payloads ys"
  by (simp add: payloads_def)

lemma payloads_Cons [simp]: "payloads (x # xs) = payloadOf x @ payloads xs" "payloads [] = []"
  by (simp_all add: payloads_def)

text \<open>The device of a context is there, and the bank of its global table has an allocator.\<close>

definition hw_ok :: "HardwareContextImp \<Rightarrow> hw_state \<Rightarrow> bool" where
  "hw_ok c st \<longleftrightarrow> unat (hc_deviceIndex c) < length (hs_ggtts st) \<and> unat (hc_deviceIndex c) < length (hs_ppgtts st)
     \<and> can_reserve (ggtt_memoryBank (hs_ggtts st ! unat (hc_deviceIndex c))) (hs_alloc st)"

definition hw_frame :: "HardwareContextImp \<Rightarrow> hw_state \<Rightarrow> hw_state \<Rightarrow> bool" where
  "hw_frame c st st' \<longleftrightarrow> hs_contexts st' = hs_contexts st \<and> hs_groups st' = hs_groups st
     \<and> hs_ppgtts st' = hs_ppgtts st \<and> length (hs_ggtts st') = length (hs_ggtts st)
     \<and> ggtt_memoryBank (hs_ggtts st' ! unat (hc_deviceIndex c)) = ggtt_memoryBank (hs_ggtts st ! unat (hc_deviceIndex c))"

lemma hw_frame_refl [simp]: "hw_frame c st st"
  by (simp add: hw_frame_def)

lemma hw_frame_trans: "hw_frame c a b \<Longrightarrow> hw_frame c b d \<Longrightarrow> hw_frame c a d"
  by (simp add: hw_frame_def)

lemma emitCmds_simps [simp]:
  "hs_cmds (emitCmds cs st) = hs_cmds st @ cs" "hw_frame c st (emitCmds cs st')  = hw_frame c st st'"
  "hw_ok c (emitCmds cs st) = hw_ok c st" "hs_contexts (emitCmds cs st) = hs_contexts st"
  "hs_alloc (emitCmds cs st) = hs_alloc st" "hs_groups (emitCmds cs st) = hs_groups st"
  "hs_ppgtts (emitCmds cs st) = hs_ppgtts st" "hs_ggtts (emitCmds cs st) = hs_ggtts st"
  by (simp_all add: emitCmds_def hw_frame_def hw_ok_def)

lemma ggttWrite_runs:
  assumes "hw_ok c st" and "ps = 4096 \<or> ps = 65536"
  shows "\<exists>st'. ggttWrite c a memory sz hint ps st = Inr st' \<and> hw_ok c st' \<and> hw_frame c st st'
    \<and> payloads (hs_cmds st') = payloads (hs_cmds st)
        @ (case memory of None \<Rightarrow> [] | Some m \<Rightarrow> [Data (take (unat sz) m)])"
proof -
  let ?i = "unat (hc_deviceIndex c)"
  let ?g = "hs_ggtts st ! ?i"
  obtain g w where walk: "walkGgtt (ggtt_memoryBank ?g) ps Reserve (ucast a) sz ?g (makeWalker (hs_alloc st)) = Inr (g, w)"
      and same: "ggtt_same ?g g" and keep: "keeps_reserve (hs_alloc st) (w_alloc w)"
    using walkGgtt_runs [of ?g "makeWalker (hs_alloc st)" Reserve ps "ggtt_memoryBank ?g" "ucast a" sz] assms
    by (auto simp: hw_ok_def makeWalker_def)
  let ?cmds = "[AddComment (rangeComment ''ggtt: '' (ucast a) sz ps (ggtt_memoryBank ?g)), WriteGttPages (ggtt_gttTableOffset g, ggtt_memoryBank g \<noteq> mainBank) (w_pageWalkEntries w 0)]
      @ (case memory of None \<Rightarrow> [] | Some m \<Rightarrow> [WritePages m sz (w_entries w) hint])"
  let ?st = "emitCmds ?cmds (setGgtt c g (st\<lparr>hs_alloc := w_alloc w\<rparr>))"
  have "ggttWrite c a memory sz hint ps st = Inr ?st"
    using walk assms(1) by (simp add: ggttWrite_def hw_ggtt_def hw_ok_def writeMemoryGgtt_def)
  moreover have "hw_ok c ?st" "hw_frame c st ?st"
    using assms(1) same keep by (simp_all add: hw_ok_def hw_frame_def setGgtt_def ggtt_same_def keeps_reserve_def)
  moreover have "payloads (hs_cmds ?st) = payloads (hs_cmds st)
      @ (case memory of None \<Rightarrow> [] | Some m \<Rightarrow> [Data (take (unat sz) m)])"
    by (simp add: setGgtt_def split: option.split)
  ultimately show ?thesis
    by blast
qed

section \<open>Submission\<close>

text \<open>The registers of the LRCA from the ring tail on, as a context expects them.\<close>

definition ringRegisters :: "HardwareContextImp \<Rightarrow> u8 list" where
  "ringRegisters c = (let e = csh_mmioEngine (hc_csTraits c)
     in concat (map dwordBytes [e + 0x2030, hc_ringTail c, e + 0x2038, hc_ggttRing c, e + 0x203c, ringCtrl c]))"

text \<open>
  The invariant of an initialised context: the tail is a multiple of 8 inside the ring, and the image
  of the LRCA in host memory holds the tail, the base and the size of the ring.
\<close>

definition ctx_ok :: "HardwareContextImp \<Rightarrow> bool" where
  "ctx_ok c \<longleftrightarrow> hc_ringSize c = 16384 \<and> unat (hc_ringTail c) < 16384 \<and> 8 dvd unat (hc_ringTail c)
     \<and> (\<exists>lrca. hc_pLRCA c = Live lrca \<and> 0x2000 \<le> length lrca \<and> ringSlice lrca = ringRegisters c)
     \<and> (hc_pRingData c = NullArray \<and> \<not> csh_isRingDataEnabled (hc_csTraits c)
        \<or> (\<exists>rs. hc_pRingData c = Live rs \<and> length rs = 4096))"

lemma ringRegisters_fence [simp]:
  "ringRegisters (c\<lparr>hc_contextFenceValue := f\<rparr>) = ringRegisters c"
  by (simp add: ringRegisters_def ringCtrl_def)

lemma ring_positions: "ringRegister offsetRingHead = 0x1010" "ringRegister offsetRingTail = 0x1018"
  "unat (offsetContext + offsetRingRegisters + offsetRingHead) = 0x1010"
  "unat (offsetContext + offsetRingRegisters + offsetRingTail) = 0x1018"
  by (simp_all add: ringRegister_def lrca_offsets)

lemma setRingTail_runs:
  assumes "0x2000 \<le> length lrca" and "ringSlice lrca = ringRegisters c" and "hc_csTraits c = h"
  shows "\<exists>lrca'. setRingTail h tail lrca = Inr lrca' \<and> length lrca' = length lrca
    \<and> ringSlice lrca' = ringRegisters (c\<lparr>hc_ringTail := tail\<rparr>)
    \<and> slice 0x1018 8 lrca' = dwordBytes (csh_mmioEngine h + 0x2030) @ dwordBytes tail
    \<and> slice 0x1010 8 lrca' = slice 0x1010 8 lrca"
proof -
  let ?e = "csh_mmioEngine h"
  obtain lrca' where put: "putDwords 0x1018 [?e + 0x2030, tail] lrca = Inr lrca'"
    using putDwords_eq [of "0x1018" "[?e + 0x2030, tail]" lrca] assms(1) by simp
  have tail: "slice 0x1018 8 lrca' = dwordBytes (?e + 0x2030) @ dwordBytes tail"
    using slice_put_same [OF put] assms(1) by simp
  have old: "slice 0x1020 16 lrca' = slice 0x1020 16 lrca" "slice 0x1010 8 lrca' = slice 0x1010 8 lrca"
    by (rule slice_put_other [OF put]; use assms(1) in simp)+
  have "slice 0x1020 16 lrca = drop 8 (ringSlice lrca)"
    by (simp add: slice_def ring_positions drop_take)
  also have "\<dots> = concat (map dwordBytes [?e + 0x2038, hc_ggttRing c, ?e + 0x203c, ringCtrl c])"
    using assms(2,3) by (simp add: ringRegisters_def Let_def dwordBytes_def)
  finally have "ringSlice lrca' = ringRegisters (c\<lparr>hc_ringTail := tail\<rparr>)"
    using slice_append [of "0x1018" 8 lrca' 16] tail old(1) assms(3)
    by (simp add: ring_positions ringRegisters_def Let_def ringCtrl_def)
  then show ?thesis
    using put putDwords_Inr(1) [OF put] tail old(2) by (simp add: setRingTail_def ring_positions)
qed

lemma setRingHead_runs:
  assumes "0x2000 \<le> length lrca"
  shows "\<exists>lrca'. setRingHead h ringHead lrca = Inr lrca' \<and> length lrca' = length lrca
    \<and> ringSlice lrca' = ringSlice lrca
    \<and> slice 0x1010 8 lrca' = dwordBytes (csh_mmioEngine h + 0x2034) @ dwordBytes ringHead"
proof -
  obtain lrca' where put: "putDwords 0x1010 [csh_mmioEngine h + 0x2034, ringHead] lrca = Inr lrca'"
    using putDwords_eq [of "0x1010" "[csh_mmioEngine h + 0x2034, ringHead]" lrca] assms by simp
  have "ringSlice lrca' = ringSlice lrca"
    by (rule slice_put_other [OF put]) (use assms in \<open>simp_all add: ring_positions\<close>)
  then show ?thesis
    using put putDwords_Inr(1) [OF put] slice_put_same [OF put] assms by (simp add: setRingHead_def ring_positions)
qed

text \<open>The dwords of the LRCA that a submission sends.\<close>

definition lrcaUpdate :: "bool \<Rightarrow> u32 \<Rightarrow> u32 \<Rightarrow> u32 \<Rightarrow> u8 list" where
  "lrcaUpdate overrideRingHead e ringHead tail =
     (if overrideRingHead then dwordBytes (e + 0x2034) @ dwordBytes ringHead else [])
     @ dwordBytes (e + 0x2030) @ dwordBytes tail"

lemma unat_widen: "unat (ucast x :: usize) = unat x"
  for x :: u32
  by (simp add: unsigned_ucast_eq take_bit_nat_eq_self unat_bound [THEN less_trans])

text \<open>Where the commands of a submission start, and what has to be written first to make room for them.\<close>

definition ringStart :: "HardwareContextImp \<Rightarrow> nat \<Rightarrow> u32" where
  "ringStart c n = (if 16384 \<le> unat (hc_ringTail c) + n then 0 else hc_ringTail c)"

definition wrapPayload :: "HardwareContextImp \<Rightarrow> nat \<Rightarrow> payload list" where
  "wrapPayload c n =
     (if 16384 \<le> unat (hc_ringTail c) + n then [Data (replicate (16384 - unat (hc_ringTail c)) 0), Poll] else [])"

lemma hw_device_simps [simp]:
  "hw_ok (c\<lparr>hc_ringTail := t\<rparr>) = hw_ok c" "hw_frame (c\<lparr>hc_ringTail := t\<rparr>) = hw_frame c"
  "hw_ok (c\<lparr>hc_contextFenceValue := f\<rparr>) = hw_ok c" "hw_frame (c\<lparr>hc_contextFenceValue := f\<rparr>) = hw_frame c"
  "hw_ok (c\<lparr>hc_pLRCA := l\<rparr>) = hw_ok c" "hw_frame (c\<lparr>hc_pLRCA := l\<rparr>) = hw_frame c"
  "hw_ok (c\<lparr>hc_pRingData := p\<rparr>) = hw_ok c" "hw_frame (c\<lparr>hc_pRingData := p\<rparr>) = hw_frame c"
  by (simp_all add: hw_ok_def hw_frame_def fun_eq_iff)

text \<open>
  The contract of a submission: the context \<open>c\<close> becomes \<open>c'\<close>, with the next fence value and the tail
  after the commands, and the stream gets the wrap, the commands, the registers of the LRCA (and of the
  ring state, when it is a page of its own) and the submission of the context, in this order.
\<close>

definition submitted ::
  "nat \<Rightarrow> u64 \<Rightarrow> bool \<Rightarrow> HardwareContextImp \<Rightarrow> hw_state \<Rightarrow> HardwareContextImp \<Rightarrow> hw_state \<Rightarrow> bool" where
  "submitted this gfxAddress overrideRingHead c st c' st' \<longleftrightarrow>
     (let h = hc_csTraits c; ring = ringCommands c gfxAddress; n = 4 * length ring;
          is48Bits = getNumAddressBits (pt_kind (hs_ppgtts st ! unat (hc_deviceIndex c))) \<noteq> 32
      in hs_contexts st' = (hs_contexts st)(this \<mapsto> c')
         \<and> (\<exists>lrca p. c' = c\<lparr>hc_contextFenceValue := hc_contextFenceValue c + 1,
               hc_ringTail := ringStart c n + word_of_nat n, hc_pLRCA := lrca, hc_pRingData := p\<rparr>)
         \<and> (\<exists>rs cmds. length rs = of_bool (csh_isRingDataEnabled h)
              \<and> submit h (hc_ggttLRCA c) is48Bits (hc_contextId c) (hc_priority c) = Inr cmds
              \<and> payloads (hs_cmds st') = payloads (hs_cmds st) @ wrapPayload c n
                  @ [Data (concat (map dwordBytes ring)),
                     Data (lrcaUpdate overrideRingHead (csh_mmioEngine h) (ringStart c n) (hc_ringTail c'))]
                  @ map Data rs @ payloads cmds))"

context ring_engine
begin

lemma updateRegisters_runs:
  assumes h: "hc_csTraits c = h" and lrca: "hc_pLRCA c = Live lrca" "0x2000 \<le> length lrca" "ringSlice lrca = ringRegisters (c\<lparr>hc_ringTail := t0\<rparr>)"
    and rd: "hc_pRingData c = NullArray \<or> (\<exists>rs. hc_pRingData c = Live rs \<and> length rs = 4096)"
  shows "\<exists>lrca' p ro rdo sz. updateRegisters ov ringHead c = Inr (c\<lparr>hc_pLRCA := Live lrca', hc_pRingData := p\<rparr>, ro, rdo, sz)
    \<and> 0x2000 \<le> length lrca' \<and> ringSlice lrca' = ringRegisters c \<and> ringDataShape (hc_pRingData c) p
    \<and> take (unat sz) (drop (unat ro) lrca') = lrcaUpdate ov (csh_mmioEngine h) ringHead (hc_ringTail c)"
proof (cases ov)
  case False
  obtain lrca' where l: "setRingTail h (hc_ringTail c) lrca = Inr lrca'" "length lrca' = length lrca"
      "ringSlice lrca' = ringRegisters c" "slice 0x1018 8 lrca' = dwordBytes (csh_mmioEngine h + 0x2030) @ dwordBytes (hc_ringTail c)"
    using setRingTail_runs [OF lrca(2,3), of h "hc_ringTail c"] h by auto
  obtain p where p: "csh_setRingDataTail h (hc_pRingData c) (hc_ringTail c) = Inr p" "ringDataShape (hc_pRingData c) p"
    using ring_data_tail [OF rd] by blast
  have "updateRegisters ov ringHead c = Inr (c\<lparr>hc_pLRCA := Live lrca', hc_pRingData := p\<rparr>,
      offsetContext + offsetRingRegisters + offsetRingTail, csh_getRingDataOffset h + offsetRingTail, 8)"
    using False l(1) lrca(1) h p(1) by (simp add: updateRegisters_def Let_def arrayUpdate_def arrayBytes_def)
  moreover have "take (unat (8 :: usize)) (drop (unat (offsetContext + offsetRingRegisters + offsetRingTail)) lrca')
      = lrcaUpdate ov (csh_mmioEngine h) ringHead (hc_ringTail c)"
    using False l(4) by (simp add: ring_positions slice_def lrcaUpdate_def)
  ultimately show ?thesis
    using l(2,3) lrca(2) p(2) by (metis (no_types))
next
  case True
  obtain lrca1 where l1: "setRingHead h ringHead lrca = Inr lrca1" "length lrca1 = length lrca"
      "ringSlice lrca1 = ringSlice lrca" "slice 0x1010 8 lrca1 = dwordBytes (csh_mmioEngine h + 0x2034) @ dwordBytes ringHead"
    using setRingHead_runs [OF lrca(2)] by blast
  obtain lrca' where l: "setRingTail h (hc_ringTail c) lrca1 = Inr lrca'" "length lrca' = length lrca1"
      "ringSlice lrca' = ringRegisters c" "slice 0x1018 8 lrca' = dwordBytes (csh_mmioEngine h + 0x2030) @ dwordBytes (hc_ringTail c)"
      "slice 0x1010 8 lrca' = slice 0x1010 8 lrca1"
    using setRingTail_runs [of lrca1 "c\<lparr>hc_ringTail := t0\<rparr>" h "hc_ringTail c"] l1 lrca h by auto
  have regs: "slice 0x1010 16 lrca' = lrcaUpdate True (csh_mmioEngine h) ringHead (hc_ringTail c)"
    using slice_append [of "0x1010" 8 lrca' 8] l l1 by (simp add: lrcaUpdate_def)
  obtain p1 where p1: "csh_setRingDataHead h (hc_pRingData c) ringHead = Inr p1" "ringDataShape (hc_pRingData c) p1"
    using ring_data_head [OF rd] by blast
  then have "p1 = NullArray \<or> (\<exists>rs. p1 = Live rs \<and> length rs = 4096)"
    using rd by (auto simp: ringDataShape_def)
  from ring_data_tail [OF this] obtain p where
    p: "csh_setRingDataTail h p1 (hc_ringTail c) = Inr p" "ringDataShape p1 p"
    by blast
  have shape: "ringDataShape (hc_pRingData c) p"
    using rd p1(2) p(2) by (auto simp: ringDataShape_def)
  have "updateRegisters ov ringHead c = Inr (c\<lparr>hc_pLRCA := Live lrca', hc_pRingData := p\<rparr>,
      offsetContext + offsetRingRegisters + offsetRingHead, csh_getRingDataOffset h + offsetRingHead, 16)"
    using True l(1) l1(1) lrca(1) h p(1) p1(1)
    by (simp add: updateRegisters_def Let_def arrayUpdate_def arrayBytes_def)
  moreover have "take (unat (16 :: usize)) (drop (unat (offsetContext + offsetRingRegisters + offsetRingHead)) lrca')
      = lrcaUpdate ov (csh_mmioEngine h) ringHead (hc_ringTail c)"
    using True regs by (simp add: ring_positions slice_def)
  ultimately show ?thesis
    using l(2,3) l1(2) lrca(2) shape by (metis (no_types))
qed

lemma ringCommands_size:
  assumes "hc_csTraits c = h"
  shows "even (length (ringCommands c gfx))" and "length (ringCommands c gfx) \<le> 75" and "ringCommands c gfx \<noteq> []"
  using flush_short assms
  by (auto simp: ringCommands_def Let_def addBatchBufferJump_def storeFenceValue_def)

lemma wrapRing_runs:
  assumes h: "hc_csTraits c = h" and ok: "ctx_ok c" "hw_ok c st" and ps: "ps = 4096 \<or> ps = 65536" and n: "n \<le> 300"
  shows "\<exists>st'. wrapRing ps (word_of_nat n) (c, st) = Inr (c\<lparr>hc_ringTail := ringStart c n\<rparr>, st')
    \<and> hw_ok c st' \<and> hw_frame c st st' \<and> payloads (hs_cmds st') = payloads (hs_cmds st) @ wrapPayload c n"
proof -
  have tail: "unat (hc_ringTail c) < 16384" and size: "hc_ringSize c = 16384"
    using ok(1) by (simp_all add: ctx_ok_def)
  have "unat (hc_ringTail c + word_of_nat n) = unat (hc_ringTail c) + n"
    using tail n unat_add_small [of "hc_ringTail c" "word_of_nat n"] by (simp add: unat_word_of_nat_small)
  then have guard: "ucast (hc_ringTail c + word_of_nat n) \<ge> hc_ringSize c \<longleftrightarrow> 16384 \<le> unat (hc_ringTail c) + n"
    by (simp add: size word_le_nat_alt unat_widen)
  show ?thesis
  proof (cases "16384 \<le> unat (hc_ringTail c) + n")
    case True
    let ?sz = "16384 - ucast (hc_ringTail c) :: usize"
    let ?c = "c\<lparr>hc_ringTail := 0\<rparr>"
    have sz: "unat ?sz = 16384 - unat (hc_ringTail c)"
      using tail unat_sub [of "ucast (hc_ringTail c)" "16384 :: usize"] by (simp add: word_le_nat_alt unat_widen)
    obtain st1 where st1: "ggttWrite c (hc_ggttRing c + hc_ringTail c) (Some (replicate (4 * unat ?sz) 0)) ?sz
          (csh_aubHintCommandBuffer h) ps st = Inr st1"
        and one: "hw_ok c st1" "hw_frame c st st1"
          "payloads (hs_cmds st1) = payloads (hs_cmds st) @ [Data (replicate (unat ?sz) 0)]"
      using ggttWrite_runs [OF ok(2) ps, of "hc_ggttRing c + hc_ringTail c" "Some (replicate (4 * unat ?sz) 0)" ?sz
          "csh_aubHintCommandBuffer h"]
      by auto
    let ?st = "emitCmds [csh_pollForCompletion h] st1"
    have "hw_pollForCompletion ?c st1 = Inr ?st"
      using register_poll h by (simp add: hw_pollForCompletion_def)
    then have "wrapRing ps (word_of_nat n) (c, st) = Inr (c\<lparr>hc_ringTail := ringStart c n\<rparr>, ?st)"
      using True guard st1 h size by (simp add: wrapRing_def Let_def ringStart_def)
    moreover have "payloads (hs_cmds ?st) = payloads (hs_cmds st) @ wrapPayload c n"
      using True one(3) sz by (simp add: wrapPayload_def csh_pollForCompletion_def)
    ultimately show ?thesis
      using one by (metis emitCmds_simps(2,3))
  qed (use guard ok in \<open>simp add: wrapRing_def ringStart_def wrapPayload_def\<close>)
qed

lemma writeRing_runs:
  assumes h: "hc_csTraits c = h" and ok: "hw_ok c st" and ps: "ps = 4096 \<or> ps = 65536" and n: "length cmds \<le> 75"
  shows "\<exists>st'. writeRing ps cmds (word_of_nat (length cmds * 4)) (c, st)
      = Inr (c\<lparr>hc_contextFenceValue := hc_contextFenceValue c + 1,
               hc_ringTail := hc_ringTail c + word_of_nat (4 * length cmds)\<rparr>, st')
    \<and> hw_ok c st' \<and> hw_frame c st st'
    \<and> payloads (hs_cmds st') = payloads (hs_cmds st) @ [Data (concat (map dwordBytes cmds))]"
proof -
  let ?c = "c\<lparr>hc_contextFenceValue := hc_contextFenceValue c + 1\<rparr>"
  let ?sz = "ucast (word_of_nat (length cmds * 4) :: u32) :: usize"
  have "unat ?sz = 4 * length cmds"
    unfolding unat_widen using n by (subst unat_word_of_nat_small) simp_all
  moreover have "hw_ok ?c st"
    using ok by (simp add: hw_ok_def)
  ultimately obtain st' where "ggttWrite ?c (hc_ggttRing c + hc_ringTail c) (Some (concat (map dwordBytes cmds))) ?sz
        (csh_aubHintCommandBuffer h) ps st = Inr st'"
      and "hw_ok ?c st'" "hw_frame ?c st st'"
      "payloads (hs_cmds st') = payloads (hs_cmds st) @ [Data (concat (map dwordBytes cmds))]"
    using ggttWrite_runs [OF _ ps, of ?c st "hc_ggttRing c + hc_ringTail c" "Some (concat (map dwordBytes cmds))" ?sz
        "csh_aubHintCommandBuffer h"]
    by auto
  then show ?thesis
    using h by (simp add: writeRing_def Let_def mult.commute)
qed

lemma writeRegisters_runs:
  assumes h: "hc_csTraits c = h" and lrca: "hc_pLRCA c = Live lrca" and ok: "hw_ok c st" and ps: "ps = 4096 \<or> ps = 65536"
    and rd: "csh_isRingDataEnabled h \<Longrightarrow> \<exists>rs. hc_pRingData c = Live rs"
  shows "\<exists>st' rs. writeRegisters ps (c, ro, rdo, sz) st = Inr (c, st') \<and> hw_ok c st' \<and> hw_frame c st st'
    \<and> payloads (hs_cmds st') = payloads (hs_cmds st) @ [Data (take (unat sz) (drop (unat ro) lrca))] @ map Data rs
    \<and> length rs = of_bool (csh_isRingDataEnabled h)"
proof -
  let ?m = "drop (unat ro) lrca"
  obtain st1 where st1: "ggttWrite c (hc_ggttLRCA c + ro) (Some ?m) sz (hintValue ''TraceNotype'') ps st = Inr st1"
      and one: "hw_ok c st1" "hw_frame c st st1" "payloads (hs_cmds st1) = payloads (hs_cmds st) @ [Data (take (unat sz) ?m)]"
    using ggttWrite_runs [OF ok ps, of "hc_ggttLRCA c + ro" "Some ?m" sz "hintValue ''TraceNotype''"] by auto
  show ?thesis
  proof (cases "csh_isRingDataEnabled h")
    case True
    then obtain rs where rs: "hc_pRingData c = Live rs"
      using rd by blast
    let ?d = "drop (unat rdo) rs"
    obtain st2 where "ggttWrite c (hc_ringData c + rdo) (Some ?d) sz (hintValue ''TraceNotype'') ps st1 = Inr st2"
        and "hw_ok c st2" "hw_frame c st1 st2" "payloads (hs_cmds st2) = payloads (hs_cmds st1) @ [Data (take (unat sz) ?d)]"
      using ggttWrite_runs [OF one(1) ps, of "hc_ringData c + rdo" "Some ?d" sz "hintValue ''TraceNotype''"] by auto
    then show ?thesis
      using True h lrca rs st1 one hw_frame_trans
      by (intro exI [of _ st2] exI [of _ "[take (unat sz) ?d]"]) (auto simp: writeRegisters_def arrayBytes_def)
  qed (use h lrca st1 one in \<open>simp add: writeRegisters_def arrayBytes_def\<close>)
qed

text \<open>The calls that tell the hardware of the context: outside a group the context is submitted alone.\<close>

lemma hw_resubmit_runs:
  assumes h: "hc_csTraits c = h" and alone: "hc_contextGroupId c = noGroup" and ok: "hw_ok c st"
  shows "\<exists>cmds. submit h (hc_ggttLRCA c) (getNumAddressBits (pt_kind (hs_ppgtts st ! unat (hc_deviceIndex c))) \<noteq> 32)
        (hc_contextId c) (hc_priority c) = Inr cmds
      \<and> hw_resubmit c st = Inr (emitCmds cmds st)"
proof -
  let ?b = "getNumAddressBits (pt_kind (hs_ppgtts st ! unat (hc_deviceIndex c))) \<noteq> 32"
  obtain cmds where "submit h (hc_ggttLRCA c) ?b (hc_contextId c) (hc_priority c) = Inr cmds"
    using submit_eight [of "contextDescriptor h ?b (hc_ggttLRCA c) (hc_contextId c) (hc_priority c) # replicate 7 descriptorZero"]
    by (auto simp: submit_def)
  then show ?thesis
    using h alone ok by (simp add: hw_resubmit_def hw_ppgtt_def hw_ok_def)
qed

lemma next_tail:
  assumes "ctx_ok c" and "hc_csTraits c = h" and "n = 4 * length (ringCommands c gfx)"
  shows "unat (ringStart c n + word_of_nat n) < 16384" and "8 dvd unat (ringStart c n + word_of_nat n)"
proof -
  have tail: "unat (hc_ringTail c) < 16384" "8 dvd unat (hc_ringTail c)"
    using assms(1) by (simp_all add: ctx_ok_def)
  have n: "n \<le> 300" "8 dvd n"
    using ringCommands_size [OF assms(2), of gfx] assms(3) by (simp, auto elim!: evenE)
  have start: "unat (ringStart c n) + n < 16384" "8 dvd unat (ringStart c n)"
    using tail n by (auto simp: ringStart_def)
  then have "unat (ringStart c n + word_of_nat n) = unat (ringStart c n) + n"
    using n(1) unat_add_small [of "ringStart c n" "word_of_nat n"] by (simp add: unat_word_of_nat_small)
  then show "unat (ringStart c n + word_of_nat n) < 16384" and "8 dvd unat (ringStart c n + word_of_nat n)"
    using start n(2) by simp_all
qed

lemma submit_runs:
  assumes c: "hs_contexts st this = Some c" and h: "hc_csTraits c = h" and gpu: "csh_gpu h = Some gpu"
    and ok: "ctx_ok c" "hw_ok c st" and alone: "hc_contextGroupId c = noGroup"
  shows "\<exists>c' st'. submitBatchBuffer this gfx ov st = Inr st' \<and> ctx_ok c' \<and> hw_ok c' st'
    \<and> submitted this gfx ov c st c' st'"
proof -
  define ring where "ring = ringCommands c gfx"
  define n where "n = 4 * length ring"
  have len: "length ring \<le> 75"
    using ringCommands_size(2) [OF h] by (simp add: ring_def)
  then have small: "n \<le> 300"
    by (simp add: n_def)
  obtain ps where page: "ggttPageSize c st = Inr ps" and ps: "ps = 4096 \<or> ps = 65536"
    using gpu ok(2) h by (auto simp: ggttPageSize_def hw_ggtt_def hw_ok_def isMemorySupported_def Let_def)
  let ?c1 = "c\<lparr>hc_ringTail := ringStart c n\<rparr>"
  obtain st1 where wrap: "wrapRing ps (word_of_nat n) (c, st) = Inr (?c1, st1)"
      and st1: "hw_ok c st1" "hw_frame c st st1" "payloads (hs_cmds st1) = payloads (hs_cmds st) @ wrapPayload c n"
    using wrapRing_runs [OF h ok ps small] by blast
  let ?c2 = "?c1\<lparr>hc_contextFenceValue := hc_contextFenceValue c + 1, hc_ringTail := ringStart c n + word_of_nat n\<rparr>"
  obtain st2 where writing: "writeRing ps ring (word_of_nat (length ring * 4)) (?c1, st1) = Inr (?c2, st2)"
      and st2: "hw_ok c st2" "hw_frame c st1 st2"
        "payloads (hs_cmds st2) = payloads (hs_cmds st1) @ [Data (concat (map dwordBytes ring))]"
    using writeRing_runs [OF _ _ ps len, of ?c1 st1] h st1(1) by (auto simp: n_def)
  obtain lrca where lrca: "hc_pLRCA c = Live lrca" "0x2000 \<le> length lrca" "ringSlice lrca = ringRegisters c"
    using ok(1) by (auto simp: ctx_ok_def)
  then have "ringSlice lrca = ringRegisters (?c2\<lparr>hc_ringTail := hc_ringTail c\<rparr>)"
    by (simp add: ringRegisters_def ringCtrl_def)
  moreover have rd: "hc_pRingData c = NullArray \<or> (\<exists>rs. hc_pRingData c = Live rs \<and> length rs = 4096)"
    using ok(1) by (auto simp: ctx_ok_def)
  ultimately obtain lrca' p ro rdo sz where
      regs: "updateRegisters ov (ringStart c n) ?c2 = Inr (?c2\<lparr>hc_pLRCA := Live lrca', hc_pRingData := p\<rparr>, ro, rdo, sz)"
      and lrca': "0x2000 \<le> length lrca'" "ringSlice lrca' = ringRegisters ?c2" and p: "ringDataShape (hc_pRingData c) p"
      and sent: "take (unat sz) (drop (unat ro) lrca')
        = lrcaUpdate ov (csh_mmioEngine h) (ringStart c n) (ringStart c n + word_of_nat n)"
    using updateRegisters_runs [of ?c2 lrca "hc_ringTail c" ov "ringStart c n"] h lrca by auto
  let ?c3 = "?c2\<lparr>hc_pLRCA := Live lrca', hc_pRingData := p\<rparr>"
  have ctx: "ctx_ok ?c3"
    using ok(1) lrca' p next_tail [OF ok(1) h, of n gfx]
    by (auto simp: ctx_ok_def ringDataShape_def ringRegisters_def ringCtrl_def n_def ring_def)
  have "csh_isRingDataEnabled h \<Longrightarrow> \<exists>rs. p = Live rs"
    using ctx h by (auto simp: ctx_ok_def)
  then obtain st3 rs where last: "writeRegisters ps (?c3, ro, rdo, sz) st2 = Inr (?c3, st3)"
      and st3: "hw_ok c st3" "hw_frame c st2 st3" "length rs = of_bool (csh_isRingDataEnabled h)"
        "payloads (hs_cmds st3) = payloads (hs_cmds st2) @ [Data (take (unat sz) (drop (unat ro) lrca'))] @ map Data rs"
    using writeRegisters_runs [of ?c3 lrca' st2 ps ro rdo sz] h st2(1) ps by auto
  let ?st = "setContext this ?c3 st3"
  have "hw_ok ?c3 ?st"
    using st3(1) by (simp add: hw_ok_def setContext_def)
  then obtain cmds where cmds: "submit h (hc_ggttLRCA c) (getNumAddressBits (pt_kind (hs_ppgtts st3 ! unat (hc_deviceIndex c))) \<noteq> 32)
        (hc_contextId c) (hc_priority c) = Inr cmds"
      and resubmit: "hw_resubmit ?c3 ?st = Inr (emitCmds cmds ?st)"
    using hw_resubmit_runs [of ?c3 ?st] h alone by (auto simp: setContext_def)
  have frame: "hw_frame c st st3"
    using st1(2) st2(2) st3(2) hw_frame_trans by blast
  have "submitBatchBuffer this gfx ov st = Inr (emitCmds cmds ?st)"
    using c page wrap writing regs last resubmit
    by (simp add: submitBatchBuffer_def hw_context_def Let_def flip: ring_def) (simp add: n_def mult.commute)
  moreover have "submitted this gfx ov c st ?c3 (emitCmds cmds ?st)"
    using frame cmds st1(3) st2(3) st3(3,4) h sent
    by (auto simp: submitted_def Let_def hw_frame_def setContext_def n_def ring_def)
  ultimately show ?thesis
    using ctx \<open>hw_ok ?c3 ?st\<close> by (metis emitCmds_simps(3))
qed

end

section \<open>Initialisation\<close>

lemma putDwords_total:
  "off + 4 * length vs \<le> length bs \<Longrightarrow> \<exists>bs'. putDwords off vs bs = Inr bs' \<and> length bs' = length bs"
  by (rule putDwords_last) simp_all

text \<open>A root of 32-bit addresses has its four directories from its constructor on.\<close>

definition root_ready :: "PageTable \<Rightarrow> bool" where
  "root_ready root \<longleftrightarrow> 48 \<le> getNumAddressBits (pt_kind root) \<or> (\<forall>i < 4. getChild root i \<noteq> None)"

lemmas lrca_setters = setRingHead_def setRingTail_def setRingBase_def setRingCtrl_def setBbCurrentHeadReg_def
  setPDP0_def setPDP1_def setPDP2_def setPDP3_def setPML_def

lemma lrca_setters_total:
  assumes "0x2000 \<le> length lrca"
  shows "\<exists>bs. setRingHead h v lrca = Inr bs \<and> length bs = length lrca"
    and "\<exists>bs. setRingTail h v lrca = Inr bs \<and> length bs = length lrca"
    and "\<exists>bs. setRingBase h v lrca = Inr bs \<and> length bs = length lrca"
    and "\<exists>bs. setRingCtrl h v lrca = Inr bs \<and> length bs = length lrca"
    and "\<exists>bs. setBbCurrentHeadReg h lrca = Inr bs \<and> length bs = length lrca"
    and "\<exists>bs. setPDP0 h a lrca = Inr bs \<and> length bs = length lrca"
    and "\<exists>bs. setPDP1 h a lrca = Inr bs \<and> length bs = length lrca"
    and "\<exists>bs. setPDP2 h a lrca = Inr bs \<and> length bs = length lrca"
    and "\<exists>bs. setPDP3 h a lrca = Inr bs \<and> length bs = length lrca"
  unfolding lrca_setters
  by (rule putDwords_total, use assms in \<open>simp add: ringRegister_def pageTableRegister_def pdpDwords_def lrca_offsets\<close>)+

lemma bindR_total:
  assumes "\<exists>b. f a = Inr b \<and> length b = length a" and "\<And>b. length b = length a \<Longrightarrow> \<exists>r. g b = Inr r \<and> length r = length b"
  shows "\<exists>r. bindR (f a) g = Inr r \<and> length r = length a"
  using assms by fastforce

lemma initializePageTables_total:
  assumes "0x2000 \<le> length lrca" and "root_ready root"
  shows "\<exists>bs. initializePageTables h (Some root) lrca = Inr bs \<and> length bs = length lrca"
proof (cases "48 \<le> getNumAddressBits (pt_kind root)")
  case True
  then show ?thesis
    using lrca_setters_total(6) [OF assms(1)] by (simp add: initializePageTables_def setPML_def)
next
  case False
  then have "getChild root 0 \<noteq> None" "getChild root 1 \<noteq> None" "getChild root 2 \<noteq> None" "getChild root 3 \<noteq> None"
    using assms(2) by (simp_all add: root_ready_def)
  then obtain c0 c1 c2 c3 where "getChild root 0 = Some c0" "getChild root 1 = Some c1"
      "getChild root 2 = Some c2" "getChild root 3 = Some c3"
    by auto
  then show ?thesis
    using False assms(1)
    by (simp add: initializePageTables_def childPhysicalAddress_def)
       (intro bindR_total lrca_setters_total; simp)
qed

lemma initializeLRI_total:
  assumes "0x2000 \<le> length lrca"
  shows "\<exists>bs. initializeLRI h flags lrca = Inr bs \<and> length bs = length lrca"
proof -
  have off: "offsetLRI1 = 0x21 * 4" "offsetLRI2 = 0x41 * 4"
    by (simp_all add: lrca_offsets)
  show ?thesis
    using assms unfolding initializeLRI_def assertR_def if_P [OF off(1)] if_P [OF off(2)]
    by (intro bindR_total putDwords_total)
       (simp_all add: lrca_offsets lriDwords_def length_concat sum_list_replicate)
qed

lemma csh_initialize_total:
  assumes "length lrca = unat (csh_sizeLRCA h)" and "0x2000 \<le> length lrca" and "root_ready root"
  shows "\<exists>bs. csh_initialize h (Some root) flags lrca = Inr bs \<and> length bs = length lrca"
proof -
  have "\<exists>bs. zeroLRCA h lrca = Inr bs \<and> length bs = length lrca"
    unfolding zeroLRCA_def by (rule putDwords_total) (simp add: assms(1) unat_div)
  then show ?thesis
    unfolding csh_initialize_def
    by (intro bindR_total lrca_setters_total initializeLRI_total initializePageTables_total) (use assms in simp_all)
qed

lemma ggttAlloc_runs:
  assumes "hw_ok c st"
  shows "\<exists>a st'. ggttAlloc c sz ps st = Inr (a, st') \<and> hw_ok c st' \<and> hw_frame c st st'"
proof -
  let ?g = "hs_ggtts st ! unat (hc_deviceIndex c)"
  obtain a s where a: "alignedAlloc sz (ucast ps) (ggtt_gfxAddressAllocator ?g) = (a, s)"
    by (cases "alignedAlloc sz (ucast ps) (ggtt_gfxAddressAllocator ?g)")
  let ?st = "setGgtt c (?g\<lparr>ggtt_gfxAddressAllocator := s\<rparr>) st"
  have "ggttAlloc c sz ps st = Inr (a, ?st)"
    using assms a by (simp add: ggttAlloc_def hw_ggtt_def hw_ok_def)
  moreover have "hw_ok c ?st" "hw_frame c st ?st"
    using assms by (simp_all add: hw_ok_def hw_frame_def setGgtt_def)
  ultimately show ?thesis
    by blast
qed

text \<open>The registers of the ring after the four stores of the initialisation.\<close>

lemma ring_setters:
  assumes len: "0x2000 \<le> length lrca" and h: "hc_csTraits c = h"
  shows "\<exists>lrca'. bindR (setRingHead h 0 lrca) (\<lambda>l. bindR (setRingTail h 0 l) (\<lambda>l.
      bindR (setRingBase h (hc_ggttRing c) l) (setRingCtrl h (ringCtrl c)))) = Inr lrca'
    \<and> length lrca' = length lrca \<and> ringSlice lrca' = ringRegisters (c\<lparr>hc_ringTail := 0\<rparr>)"
proof -
  let ?e = "csh_mmioEngine h"
  obtain l0 where l0: "setRingHead h 0 lrca = Inr l0" "length l0 = length lrca"
    using lrca_setters_total(1) [OF len] by blast
  obtain l1 where l1: "putDwords 0x1018 [?e + 0x2030, 0] l0 = Inr l1" "length l1 = length lrca"
    using putDwords_total [of "0x1018" "[?e + 0x2030, 0]" l0] l0 len by auto
  obtain l2 where l2: "putDwords 0x1020 [?e + 0x2038, hc_ggttRing c] l1 = Inr l2" "length l2 = length lrca"
    using putDwords_total [of "0x1020" "[?e + 0x2038, hc_ggttRing c]" l1] l1 len by auto
  obtain l3 where l3: "putDwords 0x1028 [?e + 0x203c, ringCtrl c] l2 = Inr l3" "length l3 = length lrca"
    using putDwords_total [of "0x1028" "[?e + 0x203c, ringCtrl c]" l2] l2 len by auto
  have "slice 0x1018 8 l3 = dwordBytes (?e + 0x2030) @ dwordBytes 0"
    using slice_put_same [OF l1(1)] slice_put_other [OF l2(1), of "0x1018" 8] slice_put_other [OF l3(1), of "0x1018" 8]
      l0(2) l1(2) l2(2) len by simp
  moreover have "slice 0x1020 8 l3 = dwordBytes (?e + 0x2038) @ dwordBytes (hc_ggttRing c)"
    using slice_put_same [OF l2(1)] slice_put_other [OF l3(1), of "0x1020" 8] l1(2) l2(2) len by simp
  moreover have "slice 0x1028 8 l3 = dwordBytes (?e + 0x203c) @ dwordBytes (ringCtrl c)"
    using slice_put_same [OF l3(1)] l2(2) len by simp
  ultimately have "ringSlice l3 = ringRegisters (c\<lparr>hc_ringTail := 0\<rparr>)"
    using slice_append [of "0x1018" 8 l3 16] slice_append [of "0x1020" 8 l3 8] h
    by (simp add: ring_positions ringRegisters_def Let_def ringCtrl_def)
  moreover have "ringRegister offsetRingBase = 0x1020" "ringRegister offsetRingCtrl = 0x1028"
    by (simp_all add: ringRegister_def lrca_offsets)
  ultimately show ?thesis
    using l0 l1 l2 l3 by (simp add: setRingTail_def setRingBase_def setRingCtrl_def ring_positions)
qed

lemma bindR_assoc: "bindR (bindR x f) g = bindR x (\<lambda>y. bindR (f y) g)"
  by (cases x) simp_all

lemma hw_new_fields [simp]:
  "hw_ok (c\<lparr>hc_ggttGlobalHWSP := a\<rparr>) = hw_ok c" "hw_frame (c\<lparr>hc_ggttGlobalHWSP := a\<rparr>) = hw_frame c"
  "hw_ok (c\<lparr>hc_ggttContextFence := a\<rparr>) = hw_ok c" "hw_frame (c\<lparr>hc_ggttContextFence := a\<rparr>) = hw_frame c"
  "hw_ok (c\<lparr>hc_ggttRing := a\<rparr>) = hw_ok c" "hw_frame (c\<lparr>hc_ggttRing := a\<rparr>) = hw_frame c"
  "hw_ok (c\<lparr>hc_ggttLRCA := a\<rparr>) = hw_ok c" "hw_frame (c\<lparr>hc_ggttLRCA := a\<rparr>) = hw_frame c"
  "hw_ok (c\<lparr>hc_ringData := a\<rparr>) = hw_ok c" "hw_frame (c\<lparr>hc_ringData := a\<rparr>) = hw_frame c"
  by (simp_all add: hw_ok_def hw_frame_def fun_eq_iff)

lemma initializeStatusPages_runs:
  assumes "hw_ok c st" and ps: "ps = 4096 \<or> ps = 65536"
  shows "\<exists>a f st'. initializeStatusPages ps (c, st) = Inr (c\<lparr>hc_ggttGlobalHWSP := a, hc_ggttContextFence := f\<rparr>, st')
    \<and> hw_ok c st' \<and> hw_frame c st st'"
proof -
  obtain a st1 where st1: "ggttAlloc c 4096 ps st = Inr (a, st1)" "hw_ok c st1" "hw_frame c st st1"
    using ggttAlloc_runs [OF assms(1)] by blast
  obtain st2 where st2: "ggttWrite c a None 4096 (hintValue ''TraceNotype'') ps st1 = Inr st2"
      "hw_ok c st2" "hw_frame c st1 st2"
    using ggttWrite_runs [OF st1(2) ps] by blast
  obtain f st3 where st3: "ggttAlloc c 4096 ps st2 = Inr (f, st3)" "hw_ok c st3" "hw_frame c st2 st3"
    using ggttAlloc_runs [OF st2(2)] by blast
  obtain st4 where st4: "ggttWrite c f (Some (dwordBytes (hc_contextFenceValue c))) 4 (hintValue ''TraceNotype'') ps st3 = Inr st4"
      "hw_ok c st4" "hw_frame c st3 st4"
    using ggttWrite_runs [OF st3(2) ps] by blast
  have "hw_frame c st st4"
    using st1(3) st2(3) st3(3) st4(3) hw_frame_trans by blast
  then show ?thesis
    using st1 st2 st3 st4 by (auto simp: initializeStatusPages_def)
qed

lemma initializeRing_runs:
  assumes "hw_ok c st" and ps: "ps = 4096 \<or> ps = 65536"
  shows "\<exists>a st'. initializeRing ps (c, st) = Inr (c\<lparr>hc_ggttRing := a\<rparr>, st') \<and> hw_ok c st' \<and> hw_frame c st st'"
proof -
  obtain a st1 where st1: "ggttAlloc c (hc_ringSize c) ps st = Inr (a, st1)" "hw_ok c st1" "hw_frame c st st1"
    using ggttAlloc_runs [OF assms(1)] by blast
  obtain st2 where st2: "ggttWrite c a None (hc_ringSize c) (hintValue ''TraceNotype'') ps st1 = Inr st2"
      "hw_ok c st2" "hw_frame c st1 st2"
    using ggttWrite_runs [OF st1(2) ps] by blast
  then show ?thesis
    using st1 hw_frame_trans by (fastforce simp: initializeRing_def)
qed

context ring_engine
begin

lemma initializeLRCA_runs:
  assumes h: "hc_csTraits c = h" and ok: "hw_ok c st" and root: "root_ready (hs_ppgtts st ! unat (hc_deviceIndex c))"
  shows "\<exists>lrca a st'. initializeLRCA env ps (c, st) = Inr (c\<lparr>hc_pLRCA := Live lrca, hc_ggttLRCA := a\<rparr>, st')
    \<and> hw_ok c st' \<and> hw_frame c st st' \<and> 0x2000 \<le> length lrca \<and> ringSlice lrca = ringRegisters (c\<lparr>hc_ringTail := 0\<rparr>)"
proof -
  let ?flags = "if hc_runAlone c then 0x800080 else hc_flags c"
  have "length (newArray env (unat (csh_sizeLRCA h))) = unat (csh_sizeLRCA h)"
    by (simp add: newArray_def)
  then obtain lrca0 where l0: "csh_initialize h (Some (hs_ppgtts st ! unat (hc_deviceIndex c))) ?flags
        (newArray env (unat (csh_sizeLRCA h))) = Inr lrca0" "0x2000 \<le> length lrca0"
    using csh_initialize_total [OF _ _ root, of "newArray env (unat (csh_sizeLRCA h))" h ?flags] lrca_size by auto
  obtain lrca where l: "bindR (setRingHead h 0 lrca0) (\<lambda>l. bindR (setRingTail h 0 l) (\<lambda>l.
      bindR (setRingBase h (hc_ggttRing c) l) (setRingCtrl h (ringCtrl c)))) = Inr lrca"
      "length lrca = length lrca0" "ringSlice lrca = ringRegisters (c\<lparr>hc_ringTail := 0\<rparr>)"
    using ring_setters [OF l0(2) h] by blast
  obtain a st1 where st1: "ggttAlloc c (csh_sizeLRCA h) ps st = Inr (a, st1)" "hw_ok c st1" "hw_frame c st st1"
    using ggttAlloc_runs [OF ok] by blast
  have "initializeLRCA env ps (c, st) = bindR (bindR (setRingHead h 0 lrca0) (\<lambda>l. bindR (setRingTail h 0 l) (\<lambda>l.
      bindR (setRingBase h (hc_ggttRing c) l) (setRingCtrl h (ringCtrl c)))))
      (\<lambda>lrca. bindR (ggttAlloc c (csh_sizeLRCA h) ps st) (\<lambda>(a, st). Inr (c\<lparr>hc_pLRCA := Live lrca, hc_ggttLRCA := a\<rparr>, st)))"
    using ok h l0(1) by (simp add: initializeLRCA_def Let_def hw_ppgtt_def hw_ok_def bindR_assoc)
  then show ?thesis
    using l l0(2) st1 by auto
qed

lemma initializeRingState_runs:
  assumes h: "hc_csTraits c = h" and ok: "hw_ok c st" and ps: "ps = 4096 \<or> ps = 65536"
    and lrca: "hc_pLRCA c = Live lrca" "0x2000 \<le> length lrca" "csh_isRingDataEnabled h \<or> hc_pRingData c = NullArray"
  shows "\<exists>lrca' a p st'. initializeRingState env ps (c, st)
      = Inr (c\<lparr>hc_pLRCA := Live lrca', hc_ringData := a, hc_pRingData := p\<rparr>, st') \<and> hw_ok c st' \<and> hw_frame c st st'
    \<and> 0x2000 \<le> length lrca' \<and> ringSlice lrca' = ringSlice lrca
    \<and> (p = NullArray \<and> \<not> csh_isRingDataEnabled h \<or> (\<exists>rs. p = Live rs \<and> length rs = 4096))"
proof (cases "csh_isRingDataEnabled h")
  case True
  obtain a st1 where st1: "ggttAlloc c 4096 ps st = Inr (a, st1)" "hw_ok c st1" "hw_frame c st st1"
    using ggttAlloc_runs [OF ok] by blast
  obtain lrca' rs where r: "csh_initializeRingData h lrca (newArray env 4096) a 4096 (hc_ggttRing c) (ringCtrl c) = Inr (lrca', rs)"
      "length lrca' = length lrca" "length rs = 4096" "ringSlice lrca' = ringSlice lrca"
    using ring_data_init [OF lrca(2), of "newArray env 4096" a "hc_ggttRing c" "ringCtrl c"] by (auto simp: newArray_def)
  obtain st2 where st2: "ggttWrite c a (Some rs) 4096 (uint (csh_getHintForInRingCtx h)) ps st1 = Inr st2"
      "hw_ok c st2" "hw_frame c st1 st2"
    using ggttWrite_runs [OF st1(2) ps] by blast
  have "initializeRingState env ps (c, st) = Inr (c\<lparr>hc_pLRCA := Live lrca', hc_ringData := a, hc_pRingData := Live rs\<rparr>, st2)"
    using True h lrca st1(1) st2(1) r(1) by (simp add: initializeRingState_def arrayBytes_def Let_def)
  moreover have "hw_frame c st st2"
    using st1(3) st2(3) hw_frame_trans by blast
  ultimately show ?thesis
    using st2(2) r lrca(2) by (metis (no_types))
next
  case False
  have "initializeRingState env ps (c, st) = Inr (c\<lparr>hc_pLRCA := Live lrca, hc_ringData := hc_ringData c, hc_pRingData := NullArray\<rparr>, st)"
    using False h lrca by (cases c) (simp add: initializeRingState_def)
  then show ?thesis
    using False ok lrca(2) hw_frame_refl by blast
qed

text \<open>
  A context that is not in a group and has no LRCA gets one that agrees with a ring whose tail is 0; the
  tail the context itself keeps is left as it is.
\<close>

lemma initialize_runs:
  assumes c: "hs_contexts st this = Some c" and h: "hc_csTraits c = h" and gpu: "csh_gpu h = Some gpu"
    and fresh: "hc_pLRCA c = NullArray" "csh_isRingDataEnabled h \<or> hc_pRingData c = NullArray" "hc_ringSize c = 16384"
    and ok: "hw_ok c st" and root: "root_ready (hs_ppgtts st ! unat (hc_deviceIndex c))" and alone: "hc_contextGroupId c = noGroup"
  shows "\<exists>c' st'. hw_initialize env this st = Inr st' \<and> hs_contexts st' = (hs_contexts st)(this \<mapsto> c')
    \<and> ctx_ok (c'\<lparr>hc_ringTail := 0\<rparr>) \<and> hw_ok c' st' \<and> hc_csTraits c' = h \<and> hc_contextGroupId c' = noGroup
    \<and> hc_ringTail c' = hc_ringTail c \<and> hc_contextFenceValue c' = hc_contextFenceValue c"
proof -
  obtain ps where page: "ggttPageSize c st = Inr ps" and ps: "ps = 4096 \<or> ps = 65536"
    using gpu ok h by (auto simp: ggttPageSize_def hw_ggtt_def hw_ok_def isMemorySupported_def Let_def)
  obtain a f st1 where s1: "initializeStatusPages ps (c, emitCmds (initializeEngineMMIO h) st)
        = Inr (c\<lparr>hc_ggttGlobalHWSP := a, hc_ggttContextFence := f\<rparr>, st1)" "hw_ok c st1" "hw_frame c st st1"
    using initializeStatusPages_runs [of c "emitCmds (initializeEngineMMIO h) st" ps] ok ps
    by (auto simp: hw_frame_def)
  let ?c1 = "c\<lparr>hc_ggttGlobalHWSP := a, hc_ggttContextFence := f\<rparr>"
  obtain r st2 where s2: "initializeRing ps (?c1, st1) = Inr (?c1\<lparr>hc_ggttRing := r\<rparr>, st2)" "hw_ok c st2" "hw_frame c st1 st2"
    using initializeRing_runs [of ?c1 st1 ps] s1(2) ps by auto
  let ?c2 = "?c1\<lparr>hc_ggttRing := r\<rparr>"
  have "root_ready (hs_ppgtts st2 ! unat (hc_deviceIndex c))"
    using root s1(3) s2(3) by (simp add: hw_frame_def)
  then obtain lrca l st3 where s3: "initializeLRCA env ps (?c2, st2) = Inr (?c2\<lparr>hc_pLRCA := Live lrca, hc_ggttLRCA := l\<rparr>, st3)"
      "hw_ok c st3" "hw_frame c st2 st3" "0x2000 \<le> length lrca" "ringSlice lrca = ringRegisters (?c2\<lparr>hc_ringTail := 0\<rparr>)"
    using initializeLRCA_runs [of ?c2 st2 env ps] h s2(2) by auto
  let ?c3 = "?c2\<lparr>hc_pLRCA := Live lrca, hc_ggttLRCA := l\<rparr>"
  have c3: "hc_csTraits ?c3 = h" "hw_ok ?c3 st3" "hc_pLRCA ?c3 = Live lrca"
      "csh_isRingDataEnabled h \<or> hc_pRingData ?c3 = NullArray"
    using h s3(2) fresh(2) by simp_all
  obtain lrca' d p st4 where s4: "initializeRingState env ps (?c3, st3)
        = Inr (?c3\<lparr>hc_pLRCA := Live lrca', hc_ringData := d, hc_pRingData := p\<rparr>, st4)"
      "hw_ok c st4" "hw_frame c st3 st4" "0x2000 \<le> length lrca'" "ringSlice lrca' = ringSlice lrca"
      "p = NullArray \<and> \<not> csh_isRingDataEnabled h \<or> (\<exists>rs. p = Live rs \<and> length rs = 4096)"
    using initializeRingState_runs [OF c3(1,2) ps c3(3) s3(4) c3(4), of env, unfolded hw_device_simps hw_new_fields]
    by blast
  let ?c4 = "?c3\<lparr>hc_pLRCA := Live lrca', hc_ringData := d, hc_pRingData := p\<rparr>"
  obtain st5 where s5: "ggttWrite ?c4 l (Some lrca') (csh_sizeLRCA h) (csh_aubHintLRCA h) ps st4 = Inr st5"
      "hw_ok c st5" "hw_frame c st4 st5"
    using ggttWrite_runs [of ?c4 st4 ps l "Some lrca'" "csh_sizeLRCA h" "csh_aubHintLRCA h"] s4(2) ps by auto
  let ?st = "emitCmds [DeclareContext (word_of_nat this) (hs_ppgtts st5 ! unat (hc_deviceIndex c))] st5"
  have "writeLRCA this ps (?c4, st4) = Inr (?c4, ?st)"
    using s5 h by (simp add: writeLRCA_def arrayBytes_def hw_ppgtt_def hw_ok_def)
  then have "hw_initialize env this st = Inr (setContext this ?c4 ?st)"
    using c page s1(1) s2(1) s3(1) s4(1) fresh(1) h alone by (simp add: hw_initialize_def hw_context_def enterGroup_def)
  moreover have "hs_contexts (setContext this ?c4 ?st) = (hs_contexts st)(this \<mapsto> ?c4)"
    using s1(3) s2(3) s3(3) s4(3) s5(3) by (simp add: setContext_def hw_frame_def)
  moreover have "ctx_ok (?c4\<lparr>hc_ringTail := 0\<rparr>)"
    using s3(4,5) s4(4-6) fresh h by (auto simp: ctx_ok_def ringRegisters_def ringCtrl_def)
  moreover have "hw_ok ?c4 (setContext this ?c4 ?st)"
    using s5(2) by (simp add: hw_ok_def setContext_def)
  ultimately show ?thesis
    using h alone by (intro exI [of _ ?c4] exI [of _ "setContext this ?c4 ?st"]) simp
qed

end

section \<open>Interpretations\<close>

text \<open>The engines of every core family keep the contract.\<close>

interpretation gen12lp: ring_engine "CommandStreamerHelperGen12LP mmio (newCommandStreamerHelperRcs d)" for mmio d
  by (intro family_engine_ring family_engine.intros engine_class.intros)

interpretation xe_hpg: ring_engine "CommandStreamerHelperXeHpgCore execlist mmio (newCommandStreamerHelperCcs d e)"
  for execlist mmio d e
  by (intro family_engine_ring family_engine.intros engine_class.intros)

interpretation xe_hpc: ring_engine "CommandStreamerHelperXeHpcCore mmio (newCommandStreamerHelperLinkBcs d e)" for mmio d e
  by (intro family_engine_ring family_engine.intros engine_class.intros)

interpretation xe2_hpg: ring_engine "CommandStreamerHelperXe2HpgCore mmio (newCommandStreamerHelperBcs d)" for mmio d
  by (intro family_engine_ring family_engine.intros engine_class.intros)

interpretation xe3: ring_engine "CommandStreamerHelperXe3Core mmio (newCommandStreamerHelperVcs d)" for mmio d
  by (intro family_engine_ring family_engine.intros engine_class.intros)

interpretation xe3p: ring_engine "CommandStreamerHelperXe3pCore execlist indirect mmio (newCommandStreamerHelperCccs d)"
  for execlist indirect mmio d
  by (intro family_engine_ring family_engine.intros engine_class.intros)

section \<open>Sequences of submissions\<close>

fun submitAll :: "nat \<Rightarrow> (u64 \<times> bool) list \<Rightarrow> hw_state \<Rightarrow> hw_state result" where
  "submitAll this [] st = Inr st"
| "submitAll this ((gfxAddress, overrideRingHead) # bs) st =
     bindR (submitBatchBuffer this gfxAddress overrideRingHead st) (submitAll this bs)"

text \<open>The state of a context that can take submissions, with \<open>n\<close> as its last fence value.\<close>

definition ready :: "nat \<Rightarrow> u32 \<Rightarrow> hw_state \<Rightarrow> bool" where
  "ready this n st \<longleftrightarrow> (\<exists>c. hs_contexts st this = Some c \<and> family_engine (hc_csTraits c) \<and> csh_gpu (hc_csTraits c) \<noteq> None
     \<and> ctx_ok c \<and> hw_ok c st \<and> hc_contextGroupId c = noGroup \<and> getExpectedFence c = n)"

lemma submit_ready:
  assumes "ready this n st"
  shows "\<exists>st'. submitBatchBuffer this gfx ov st = Inr st' \<and> ready this (n + 1) st'"
proof -
  obtain c gpu where c: "hs_contexts st this = Some c" "family_engine (hc_csTraits c)" "csh_gpu (hc_csTraits c) = Some gpu"
      "ctx_ok c" "hw_ok c st" "hc_contextGroupId c = noGroup" "hc_contextFenceValue c = n"
    using assms by (auto simp: ready_def getExpectedFence_def)
  obtain c' st' where s: "submitBatchBuffer this gfx ov st = Inr st'" "ctx_ok c'" "hw_ok c' st'"
      "submitted this gfx ov c st c' st'"
    using ring_engine.submit_runs [OF family_engine_ring [OF c(2)] c(1) refl c(3-6)] by blast
  then have "ready this (n + 1) st'"
    using c by (auto simp: ready_def submitted_def Let_def getExpectedFence_def)
  then show ?thesis
    using s(1) by blast
qed

lemma submitAll_ready:
  "ready this n st \<Longrightarrow> \<exists>st'. submitAll this bs st = Inr st' \<and> ready this (n + word_of_nat (length bs)) st'"
proof (induction bs arbitrary: n st)
  case (Cons b bs)
  obtain gfx ov where b: "b = (gfx, ov)"
    by (cases b)
  obtain st1 where "submitBatchBuffer this gfx ov st = Inr st1" "ready this (n + 1) st1"
    using submit_ready [OF Cons.prems] by blast
  then show ?case
    using Cons.IH [of "n + 1" st1] b by (simp add: ac_simps)
qed simp

lemma new_initialize_ready:
  assumes "family_engine h" and "csh_gpu h \<noteq> None" and "flags AND contextGroupFlag = 0"
    and "unat d < length (hs_ggtts st)" and "unat d < length (hs_ppgtts st)"
    and "can_reserve (ggtt_memoryBank (hs_ggtts st ! unat d)) (hs_alloc st)" and "root_ready (hs_ppgtts st ! unat d)"
  shows "\<exists>st'. bindR (newHardwareContextImp this d h grp flags prio st) (hw_initialize env this) = Inr st' \<and> ready this 0 st'"
proof -
  let ?c = "applyRunAlone flags (applyPriorityFlags flags (contextFields d h grp flags prio (hs_globalContextId st)))"
  let ?st = "setContext this ?c (st\<lparr>hs_globalContextId := hs_globalContextId st + 1\<rparr>)"
  have new: "newHardwareContextImp this d h grp flags prio st = Inr ?st"
    using assms(3) by (simp add: newHardwareContextImp_def joinGroup_def Let_def)
  have c: "hs_contexts ?st this = Some ?c" "hc_csTraits ?c = h" "hc_pLRCA ?c = NullArray" "hc_pRingData ?c = NullArray"
      "hc_ringSize ?c = 16384" "hc_ringTail ?c = 0" "hc_contextGroupId ?c = noGroup" "hc_contextFenceValue ?c = 0"
      "hc_deviceIndex ?c = d"
    by (simp_all add: setContext_def applyRunAlone_def applyPriorityFlags_def contextFields_def)
  obtain gpu where gpu: "csh_gpu h = Some gpu"
    using assms(2) by auto
  have "hw_ok ?c ?st" "root_ready (hs_ppgtts ?st ! unat (hc_deviceIndex ?c))"
    using assms(4-7) c(9) by (simp_all add: hw_ok_def setContext_def)
  from ring_engine.initialize_runs [OF family_engine_ring [OF assms(1)] c(1,2) gpu c(3) disjI2 [OF c(4)] c(5) this c(7), of env]
  obtain c' st' where "hw_initialize env this ?st = Inr st'" "hs_contexts st' = (hs_contexts ?st)(this \<mapsto> c')"
      "ctx_ok (c'\<lparr>hc_ringTail := 0\<rparr>)" "hw_ok c' st'" "hc_csTraits c' = h" "hc_contextGroupId c' = noGroup"
      "hc_contextFenceValue c' = 0" "hc_ringTail c' = 0"
    using c(6,8) by auto
  moreover from this(8) have "c'\<lparr>hc_ringTail := 0\<rparr> = c'"
    by (cases c') simp
  ultimately show ?thesis
    using new assms(1) gpu by (auto simp: ready_def getExpectedFence_def)
qed

section \<open>Polling the fence\<close>

text \<open>The page of the fence is mapped: \<open>initialize\<close> has written it through the global table.\<close>

definition fence_mapped :: "HardwareContextImp \<Rightarrow> hw_state \<Rightarrow> bool" where
  "fence_mapped c st \<longleftrightarrow> (\<exists>ps n. ggttPageSize c st = Inr ps \<and> 4 \<le> ps
     \<and> (ucast (hc_ggttContextFence c) :: u64) AND (ps - 1) = 0 \<and> unat (hc_deviceIndex c) < length (hs_ggtts st)
     \<and> ggtt_getChild (hs_ggtts st ! unat (hc_deviceIndex c)) (ggtt_getIndex (ucast (hc_ggttContextFence c))) = Some n)"

lemma ucast_narrow: "(ucast (ucast x :: u64) :: u32) = x"
  for x :: u32
  by (rule bit_word_eqI) (simp add: bit_simps)

lemma readFence_runs:
  assumes "fence_mapped c st"
  shows "\<exists>es. readFence c st = Inr (emitCmds [ReadPages 4 es] st)"
proof -
  obtain ps n where f: "ggttPageSize c st = Inr ps" "4 \<le> ps" "(ucast (hc_ggttContextFence c) :: u64) AND (ps - 1) = 0"
      "unat (hc_deviceIndex c) < length (hs_ggtts st)"
      "ggtt_getChild (hs_ggtts st ! unat (hc_deviceIndex c)) (ggtt_getIndex (ucast (hc_ggttContextFence c))) = Some n"
    using assms by (auto simp: fence_mapped_def)
  let ?g = "hs_ggtts st ! unat (hc_deviceIndex c)" and ?w = "makeWalker (hs_alloc st)"
  have "min ps 4 = 4"
    using f(2) by (simp add: min_def)
  then have "walkGgtt (ggtt_memoryBank ?g) ps Expect (ucast (hc_ggttContextFence c)) 4 ?g ?w
      = Inr (?g, ?w\<lparr>w_entries := [\<lparr>pi_physicalAddress = pt_physicalAddress n, pi_size = 4,
          pi_isLocalMemory = isLocalMemory n, pi_memoryBank = 0\<rparr>]\<rparr>)"
    using f(3,5)
    by (subst walkGgtt.simps, subst walkGgtt.simps) (simp add: ggttGetOrAllocate_def ucast_narrow makeWalker_def)
  then show ?thesis
    using f(1,4) by (auto simp: readFence_def hw_ggtt_def readMemoryGgtt_def setGgtt_def makeWalker_def)
qed

lemma fence_mapped_emit [simp]: "fence_mapped c (emitCmds cmds st) = fence_mapped c st"
  by (simp add: fence_mapped_def ggttPageSize_def hw_ggtt_def Let_def)

text \<open>The time slept in the passes after the spinning ones, in milliseconds.\<close>

definition sleepTime :: "nat \<Rightarrow> u32" where
  "sleepTime j = (if j = 0 then 1 else if j = 1 then 2 else 4)"

lemma sleepTime_Suc: "min maxSleepMS (sleepTime j * 2) = sleepTime (Suc j)"
  by (simp add: sleepTime_def maxSleepMS_def)

definition sleeps :: "nat \<Rightarrow> u32 list" where
  "sleeps passes = map sleepTime [0..<passes - maxSpinCount]"

lemma pollFence_pass:
  assumes "fence_mapped c st"
  shows "\<exists>es. pollFence_loop (Suc fuel) reads c i (min i maxSpinCount) (sleepTime (i - maxSpinCount)) (sleeps i) st
    = (if reads i \<noteq> hc_contextFenceValue c
       then pollFence_loop fuel reads c (Suc i) (min (Suc i) maxSpinCount) (sleepTime (Suc i - maxSpinCount)) (sleeps (Suc i))
              (emitCmds [ReadPages 4 es] st)
       else Some (Inr (Suc i, sleeps (Suc i), emitCmds [ReadPages 4 es] st)))"
proof -
  obtain es where "readFence c st = Inr (emitCmds [ReadPages 4 es] st)"
    using readFence_runs [OF assms] by blast
  moreover have "i < maxSpinCount \<or> (\<exists>j. i = maxSpinCount + j)"
    by (metis le_Suc_ex not_le)
  ultimately show ?thesis
    by (intro exI [of _ es]) (auto simp: sleeps_def sleepTime_Suc)
qed

lemma pollFence_returns:
  assumes "reads k = hc_contextFenceValue c" and "\<And>i. i < k \<Longrightarrow> reads i \<noteq> hc_contextFenceValue c"
  shows "fence_mapped c st \<Longrightarrow> i \<le> k \<Longrightarrow> k < i + fuel \<Longrightarrow>
    \<exists>st'. pollFence_loop fuel reads c i (min i maxSpinCount) (sleepTime (i - maxSpinCount)) (sleeps i) st
      = Some (Inr (Suc k, sleeps (Suc k), st'))"
proof (induction fuel arbitrary: i st)
  case (Suc fuel)
  obtain es where pass: "pollFence_loop (Suc fuel) reads c i (min i maxSpinCount) (sleepTime (i - maxSpinCount)) (sleeps i) st
    = (if reads i \<noteq> hc_contextFenceValue c
       then pollFence_loop fuel reads c (Suc i) (min (Suc i) maxSpinCount) (sleepTime (Suc i - maxSpinCount)) (sleeps (Suc i))
              (emitCmds [ReadPages 4 es] st)
       else Some (Inr (Suc i, sleeps (Suc i), emitCmds [ReadPages 4 es] st)))"
    using pollFence_pass [OF Suc.prems(1)] by blast
  show ?case
  proof (cases "i = k")
    case True
    then show ?thesis
      unfolding pass using assms(1) by simp
  next
    case False
    then show ?thesis
      unfolding pass using assms(2) Suc.IH [of "emitCmds [ReadPages 4 es] st" "Suc i"] Suc.prems by simp
  qed
qed simp

lemma pollFence_diverges:
  assumes "\<And>i. reads i \<noteq> hc_contextFenceValue c"
  shows "fence_mapped c st \<Longrightarrow>
    pollFence_loop fuel reads c i (min i maxSpinCount) (sleepTime (i - maxSpinCount)) (sleeps i) st = None"
proof (induction fuel arbitrary: i st)
  case (Suc fuel)
  then show ?case
    using pollFence_pass [OF Suc.prems, of fuel reads i] assms by fastforce
qed simp

lemma release_alone:
  assumes "hs_contexts st this = Some c" and "ctx_ok c" and "hc_contextGroupId c = noGroup"
  shows "hw_release this st = Inr (setContext this (c\<lparr>hc_pLRCA := NullArray,
      hc_pRingData := (if csh_isRingDataEnabled (hc_csTraits c) \<or> hc_pRingData c \<noteq> NullArray then Freed else NullArray)\<rparr>) st)"
  using assms by (auto simp: hw_release_def hw_context_def ctx_ok_def deleteArray_def leaveGroup_def Let_def)

lemma reinitialize_runs:
  assumes "family_engine (hc_csTraits c)" and "csh_gpu (hc_csTraits c) \<noteq> None" and "hs_contexts st this = Some c"
    and "ctx_ok c" and "hw_ok c st" and "root_ready (hs_ppgtts st ! unat (hc_deviceIndex c))"
    and "hc_contextGroupId c = noGroup" and "csh_isRingDataEnabled (hc_csTraits c) \<or> hc_pRingData c = NullArray"
  shows "\<exists>st' c' lrca. bindR (hw_release this st) (hw_initialize env this) = Inr st' \<and> hs_contexts st' this = Some c'
    \<and> hc_pLRCA c' = Live lrca \<and> hc_ringTail c' = hc_ringTail c \<and> ringSlice lrca = ringRegisters (c'\<lparr>hc_ringTail := 0\<rparr>)"
proof -
  let ?p = "if csh_isRingDataEnabled (hc_csTraits c) \<or> hc_pRingData c \<noteq> NullArray then Freed else NullArray"
  let ?c = "c\<lparr>hc_pLRCA := NullArray, hc_pRingData := ?p\<rparr>"
  let ?st = "setContext this ?c st"
  obtain gpu where gpu: "csh_gpu (hc_csTraits c) = Some gpu"
    using assms(2) by auto
  have c: "hs_contexts ?st this = Some ?c" "hc_csTraits ?c = hc_csTraits c" "hc_pLRCA ?c = NullArray"
      "csh_isRingDataEnabled (hc_csTraits c) \<or> hc_pRingData ?c = NullArray" "hc_ringSize ?c = 16384"
      "hc_contextGroupId ?c = noGroup" "root_ready (hs_ppgtts ?st ! unat (hc_deviceIndex ?c))"
    using assms(4,6-8) by (auto simp: setContext_def ctx_ok_def)
  have "hw_ok ?c ?st"
    using assms(5) by (simp add: hw_ok_def setContext_def)
  from ring_engine.initialize_runs [OF family_engine_ring [OF assms(1)] c(1,2) gpu c(3-5) this c(7,6), of env]
  obtain c' st' where "hw_initialize env this ?st = Inr st'" "hs_contexts st' = (hs_contexts ?st)(this \<mapsto> c')"
      "ctx_ok (c'\<lparr>hc_ringTail := 0\<rparr>)" "hc_ringTail c' = hc_ringTail c"
    by auto
  moreover obtain lrca where "hc_pLRCA c' = Live lrca" "ringSlice lrca = ringRegisters (c'\<lparr>hc_ringTail := 0\<rparr>)"
    using \<open>ctx_ok (c'\<lparr>hc_ringTail := 0\<rparr>)\<close> by (auto simp: ctx_ok_def)
  ultimately show ?thesis
    using release_alone [OF assms(3,4,7)] by simp
qed

lemma bit_highPriorityFlag: "bit highPriorityFlag n \<longleftrightarrow> n = 14"
  unfolding highPriorityFlag_def bit_push_bit_iff bit_1_iff by auto

lemma bit_contextGroupFlag: "bit contextGroupFlag n \<longleftrightarrow> n = 15"
  unfolding contextGroupFlag_def bit_push_bit_iff bit_1_iff by auto

section \<open>A concrete device\<close>

definition example_engine :: CommandStreamerHelper where
  "example_engine = (CommandStreamerHelperXe3pCore (-1) (-1) [] (newCommandStreamerHelperCcs 0 0))\<lparr>csh_gpu := Some example_gpu\<rparr>"

definition example_ggtt :: GGTT where
  "example_ggtt = \<lparr>ggtt_memoryBank = 0, ggtt_table = [], ggtt_entryOffset = 0,
     ggtt_gfxAddressAllocator = makeSimpleAllocator 0, ggtt_gttTableOffset = 0\<rparr>"

definition example_device :: "HardwareContextImp option \<Rightarrow> hw_state" where
  "example_device c = \<lparr>hs_ggtts = [example_ggtt], hs_ppgtts = [example_root], hs_alloc = example_alloc,
     hs_contexts = (\<lambda>a. if a = 7 then c else None), hs_groups = (\<lambda>_. None), hs_globalContextId = 0, hs_cmds = []\<rparr>"

definition example_fields :: HardwareContextImp where
  "example_fields = (contextFields 0 example_engine None 0 1 0)\<lparr>hc_ggttRing := 0x10000, hc_ringTail := 0x3ff8\<rparr>"

definition example_context :: HardwareContextImp where
  "example_context = example_fields\<lparr>hc_pRingData := Live (replicate 4096 0),
     hc_pLRCA := Live (replicate 0x1018 0 @ ringRegisters example_fields @ replicate 0xfd0 0)\<rparr>"

lemma example_engine_facts: "family_engine example_engine" "csh_gpu example_engine = Some example_gpu"
  "csh_isRingDataEnabled example_engine"
  unfolding example_engine_def
  by (intro family_engine.intros engine_class.intros)
     (simp_all add: CommandStreamerHelperXe3pCore_def Let_def settingOr_def)

lemma example_fields_facts: "hc_csTraits example_fields = example_engine" "hc_deviceIndex example_fields = 0"
  "hc_ringSize example_fields = 16384" "hc_ringTail example_fields = 0x3ff8" "hc_contextGroupId example_fields = noGroup"
  by (simp_all add: example_fields_def contextFields_def)

lemma example_context_facts: "hc_csTraits example_context = example_engine" "hc_deviceIndex example_context = 0"
  "hc_contextGroupId example_context = noGroup" "hc_ringTail example_context = 0x3ff8"
  "hc_pRingData example_context = Live (replicate 4096 0)"
  by (simp_all add: example_context_def example_fields_facts)

lemma example_context_ok: "ctx_ok example_context"
proof -
  let ?l = "replicate 0x1018 0 @ ringRegisters example_fields @ replicate 0xfd0 0"
  have len: "length (ringRegisters example_fields) = 24"
    by (simp add: ringRegisters_def Let_def)
  moreover from len have "ringSlice ?l = ringRegisters example_fields"
    by (simp add: slice_def ring_positions)
  moreover have "ringRegisters example_context = ringRegisters example_fields"
    by (simp add: example_context_def ringRegisters_def ringCtrl_def)
  ultimately show ?thesis
    by (auto simp: ctx_ok_def example_context_def example_fields_facts)
qed

lemma example_device_ok: "hw_ok example_context (example_device c)" "root_ready (hs_ppgtts (example_device c) ! 0)"
  by (simp_all add: hw_ok_def example_device_def example_context_facts example_alloc_def example_ggtt_def root_ready_def
      example_root_def)

definition example_hw_env :: hw_env where
  "example_hw_env = \<lparr>se_gpu = example_gpu, se_enablePs64 = False, se_committed = True, he_uninit = (\<lambda>_. 0xcd)\<rparr>"

text \<open>The same device with the first page of the global table mapped.\<close>

definition example_mapped :: hw_state where
  "example_mapped = (example_device None)\<lparr>hs_ggtts := [ggtt_setChild 0 (Some example_root) example_ggtt]\<rparr>"

lemma example_mapped_ok: "fence_mapped (example_context\<lparr>hc_contextFenceValue := f\<rparr>) example_mapped"
  by (simp add: fence_mapped_def example_mapped_def ggttPageSize_def hw_ggtt_def isMemorySupported_def example_context_facts
      example_engine_facts example_context_def example_fields_def contextFields_def ggtt_getIndex_def ggtt_getChild_def
      ggtt_setChild_def)

section \<open>Claims\<close>



text \<open>C8: A context that is constructed outside a group and initialised takes any sequence of batch buffers,
  whatever their addresses and flags: no assertion fails, no array is left, the invariant holds at the end,
  and the fence the context expects is the number of submissions modulo 2 ^ 32.\<close>

theorem context_takes_submissions:
  assumes "family_engine h" and "csh_gpu h \<noteq> None" and "flags AND contextGroupFlag = 0"
    and "unat d < length (hs_ggtts st)" and "unat d < length (hs_ppgtts st)"
    and "can_reserve (ggtt_memoryBank (hs_ggtts st ! unat d)) (hs_alloc st)" and "root_ready (hs_ppgtts st ! unat d)"
  shows "\<exists>st' c. bindR (bindR (newHardwareContextImp this d h grp flags prio st) (hw_initialize env this)) (submitAll this bs)
      = Inr st' \<and> hs_contexts st' this = Some c \<and> ctx_ok c \<and> getExpectedFence c = word_of_nat (length bs)"
proof -
  obtain st1 where st1: "bindR (newHardwareContextImp this d h grp flags prio st) (hw_initialize env this) = Inr st1" "ready this 0 st1"
    using new_initialize_ready [OF assms] by blast
  obtain st2 where "submitAll this bs st1 = Inr st2" "ready this (0 + word_of_nat (length bs)) st2"
    using submitAll_ready [OF st1(2)] by blast
  then show ?thesis
    using st1(1) by (auto simp: ready_def)
qed

theorem context_takes_submissions_witness:
  "\<exists>st' c. bindR (bindR (newHardwareContextImp 7 0 example_engine None lowPriorityFlag 1 (example_device None))
        (hw_initialize example_hw_env 7)) (submitAll 7 [(0x1000, True), (0x2000, False)]) = Inr st'
    \<and> hs_contexts st' 7 = Some c \<and> ctx_ok c \<and> getExpectedFence c = 2"
proof -
  have "lowPriorityFlag AND contextGroupFlag = 0"
    by (simp add: context_flags)
  from context_takes_submissions [OF example_engine_facts(1) _ this, of 0 "example_device None" 7 None 1 example_hw_env
      "[(0x1000, True), (0x2000, False)]"]
  show ?thesis
    using example_device_ok [of None] example_engine_facts(2)
    by (simp add: hw_ok_def example_context_facts)
qed

text \<open>C19: Waiting for the fence returns as soon as a read gives the value of the last submission: after the
  first such read, with 16 passes without sleeping and then 1, 2, 4, 4, ... milliseconds between the reads.\<close>

theorem pollForFenceCompletion_returns:
  assumes "fence_mapped c st" and "reads k = hc_contextFenceValue c" and "\<And>i. i < k \<Longrightarrow> reads i \<noteq> hc_contextFenceValue c"
    and "k < fuel"
  shows "\<exists>st'. pollForFenceCompletion fuel reads c st = Some (Inr (Suc k, sleeps (Suc k), st'))"
  using pollFence_returns [of reads k c st 0 fuel, OF assms(2) assms(3) assms(1)] assms(4)
  by (simp add: pollForFenceCompletion_def sleepTime_def sleeps_def)

theorem pollForFenceCompletion_returns_witness:
  "\<exists>st'. pollForFenceCompletion 30 (\<lambda>i. if i < 19 then 4 else 5) (example_context\<lparr>hc_contextFenceValue := 5\<rparr>) example_mapped
    = Some (Inr (20, [1, 2, 4, 4], st'))"
  using pollForFenceCompletion_returns [OF example_mapped_ok [of 5], of "\<lambda>i. if i < 19 then 4 else 5" 19 30]
  by (simp add: sleeps_def sleepTime_def maxSpinCount_def upt_rec)

text \<open>C37: On a stream that leaves the buffer of a read as it is, as the file stream does, the wait never
  ends once something has been submitted: no number of passes is enough.\<close>

theorem pollForFenceCompletion_hangs:
  assumes "fence_mapped c st" and "hc_contextFenceValue c \<noteq> 0"
  shows "\<forall>fuel. pollForFenceCompletion fuel (\<lambda>i. 0) c st = None"
  using pollFence_diverges [of "\<lambda>i. 0" c st _ 0] assms
  by (simp add: pollForFenceCompletion_def sleepTime_def sleeps_def)

theorem pollForFenceCompletion_hangs_witness:
  "\<forall>fuel. pollForFenceCompletion fuel (\<lambda>i. 0) (example_context\<lparr>hc_contextFenceValue := 1\<rparr>) example_mapped = None"
  using pollForFenceCompletion_hangs [OF example_mapped_ok [of 1]] by simp

text \<open>Releasing a context and deleting it afterwards frees its ring state page twice.\<close>

theorem release_delete_double_free:
  assumes "hs_contexts st this = Some c" and "ctx_ok c" and "hc_contextGroupId c = noGroup"
    and "csh_isRingDataEnabled (hc_csTraits c)"
  shows "\<exists>st'. hw_release this st = Inr st' \<and> deleteHardwareContext this st' = Inl UseAfterFree"
  using release_alone [OF assms(1-3)] assms(4)
  by (auto simp: deleteHardwareContext_def hw_release_def hw_context_def setContext_def deleteArray_def)

theorem release_delete_double_free_witness:
  "\<exists>st'. hw_release 7 (example_device (Some example_context)) = Inr st' \<and> deleteHardwareContext 7 st' = Inl UseAfterFree"
  using release_delete_double_free [OF _ example_context_ok, of "example_device (Some example_context)" 7]
    example_engine_facts(3) by (simp add: example_context_facts example_device_def)



text \<open>The constructor clears only the bit of the last flag it handles: a context of high priority in a
  group keeps the priority bit among the flags that go into the context control register.\<close>

theorem constructor_keeps_priority_bit:
  assumes "hs_groups st a = Some g" and "unat (cg_contextGroupCounter g) < length (cg_contexts g)"
    and "flags AND highPriorityFlag \<noteq> 0" and "flags AND contextGroupFlag \<noteq> 0" and "flags AND runAloneFlag = 0"
  shows "\<exists>st' c. newHardwareContextImp this d h (Some a) flags prio st = Inr st' \<and> hs_contexts st' this = Some c
    \<and> hc_priority c = priorityHigh \<and> hc_contextGroupId c = cg_contextGroupCounter g
    \<and> hc_flags c AND highPriorityFlag = highPriorityFlag \<and> hc_flags c AND contextGroupFlag = 0"
proof -
  have "bit flags 14"
  proof (rule ccontr)
    assume "\<not> bit flags 14"
    then have "flags AND highPriorityFlag = 0"
      by (intro bit_word_eqI) (auto simp: bit_and_iff bit_highPriorityFlag)
    then show False
      using assms(3) by simp
  qed
  then have "(flags AND NOT contextGroupFlag) AND highPriorityFlag = highPriorityFlag"
    by (intro bit_word_eqI)
       (auto simp: bit_and_iff bit_not_iff bit_highPriorityFlag bit_contextGroupFlag)
  moreover have "(flags AND NOT contextGroupFlag) AND contextGroupFlag = 0"
    by (intro bit_word_eqI) (auto simp: bit_and_iff bit_not_iff)
  ultimately show ?thesis
    using assms
    by (auto simp: newHardwareContextImp_def joinGroup_def applyPriorityFlags_def applyRunAlone_def contextFields_def
        hw_group_def setContext_def setGroup_def Let_def assertR_def)
qed

theorem constructor_keeps_priority_bit_witness:
  "\<exists>st' c. newHardwareContextImp 7 0 example_engine (Some 3) (highPriorityFlag OR contextGroupFlag) 1
      ((example_device None)\<lparr>hs_groups := (\<lambda>_. Some \<lparr>cg_contextGroupCounter = 0, cg_contexts = replicate 8 None\<rparr>)\<rparr>) = Inr st'
    \<and> hs_contexts st' 7 = Some c \<and> hc_flags c AND highPriorityFlag = highPriorityFlag"
  using constructor_keeps_priority_bit [of "(example_device None)\<lparr>hs_groups := (\<lambda>_. Some \<lparr>cg_contextGroupCounter = 0,
      cg_contexts = replicate 8 None\<rparr>)\<rparr>" 3 "\<lparr>cg_contextGroupCounter = 0, cg_contexts = replicate 8 None\<rparr>"
      "highPriorityFlag OR contextGroupFlag" 7 0 example_engine 1]
  by (simp add: context_flags) blast

end
