(* ===== verification/GpuProps.thy ===== *)
theory GpuProps
  imports GpuFamilies HardwareContextProps
begin

text \<open>
  What the products promise to the rest of the library: every engine a product says it supports has an engine object
  of its family, the registers of different engines are apart, and the registers that describe the memory hold what
  the GPU describes.
\<close>

section \<open>Engines\<close>

lemmas class_defs = newCommandStreamerHelperRcs_def newCommandStreamerHelperBcs_def newCommandStreamerHelperVcs_def
  newCommandStreamerHelperVecs_def newCommandStreamerHelperCcs_def newCommandStreamerHelperCccs_def
  newCommandStreamerHelperLinkBcs_def

lemmas newHelper_defs = newHelper_Gen12LP_def newHelper_XeHpgCore_def newHelper_XeHpcCore_def newHelper_Xe2HpgCore_def
  newHelper_Xe3Core_def newHelper_Xe3pCore_def

lemma engine_class_newHelper: "engine_class (newHelper device c)"
  by (cases c) (auto intro: engine_class.intros)

text \<open>The engine and the registers of an object do not depend on the family.\<close>

definition same_engine :: "(u32 \<Rightarrow> HelperClass \<Rightarrow> CommandStreamerHelper) \<Rightarrow> bool" where
  "same_engine new \<longleftrightarrow> (\<forall>device c. family_engine (new device c)
     \<and> csh_engineType (new device c) = csh_engineType (newHelper device c)
     \<and> csh_mmioDevice (new device c) = csh_mmioDevice (newHelper device c)
     \<and> csh_mmioEngine (new device c) = csh_mmioEngine (newHelper device c))"

lemma family_fields:
  "csh_engineType (CommandStreamerHelperGen12LP mmio h) = csh_engineType h"
  "csh_mmioDevice (CommandStreamerHelperGen12LP mmio h) = csh_mmioDevice h"
  "csh_mmioEngine (CommandStreamerHelperGen12LP mmio h) = csh_mmioEngine h"
  "csh_engineType (CommandStreamerHelperXeCore mmio h) = csh_engineType h"
  "csh_mmioDevice (CommandStreamerHelperXeCore mmio h) = csh_mmioDevice h"
  "csh_mmioEngine (CommandStreamerHelperXeCore mmio h) = csh_mmioEngine h"
  "csh_engineType (CommandStreamerHelperXeHpcCore mmio h) = csh_engineType h"
  "csh_mmioDevice (CommandStreamerHelperXeHpcCore mmio h) = csh_mmioDevice h"
  "csh_mmioEngine (CommandStreamerHelperXeHpcCore mmio h) = csh_mmioEngine h"
  "csh_engineType (CommandStreamerHelperXe2HpgCore mmio h) = csh_engineType h"
  "csh_mmioDevice (CommandStreamerHelperXe2HpgCore mmio h) = csh_mmioDevice h"
  "csh_mmioEngine (CommandStreamerHelperXe2HpgCore mmio h) = csh_mmioEngine h"
  "csh_engineType (CommandStreamerHelperXe3Core mmio h) = csh_engineType h"
  "csh_mmioDevice (CommandStreamerHelperXe3Core mmio h) = csh_mmioDevice h"
  "csh_mmioEngine (CommandStreamerHelperXe3Core mmio h) = csh_mmioEngine h"
  "csh_engineType (CommandStreamerHelperXeHpgCore x mmio h) = csh_engineType h"
  "csh_mmioDevice (CommandStreamerHelperXeHpgCore x mmio h) = csh_mmioDevice h"
  "csh_mmioEngine (CommandStreamerHelperXeHpgCore x mmio h) = csh_mmioEngine h"
  by (simp_all add: CommandStreamerHelperGen12LP_def CommandStreamerHelperXeHpgCore_def CommandStreamerHelperXeCore_def
      CommandStreamerHelperXeHpcCore_def CommandStreamerHelperXe2HpgCore_def CommandStreamerHelperXe3Core_def)

lemma family_fields_Xe3p:
  "csh_engineType (CommandStreamerHelperXe3pCore x i mmio h) = csh_engineType h"
  "csh_mmioDevice (CommandStreamerHelperXe3pCore x i mmio h) = csh_mmioDevice h"
  "csh_mmioEngine (CommandStreamerHelperXe3pCore x i mmio h) = csh_mmioEngine h"
  by (simp_all add: CommandStreamerHelperXe3pCore_def Let_def family_fields)

lemma families_same_engine:
  "same_engine newHelper_Gen12LP" "same_engine (newHelper_XeHpgCore settings)" "same_engine newHelper_XeHpcCore"
  "same_engine newHelper_Xe2HpgCore" "same_engine newHelper_Xe3Core" "same_engine (newHelper_Xe3pCore settings add)"
  by (simp_all add: same_engine_def newHelper_defs Let_def engine_class_newHelper family_engine.intros family_fields
      family_fields_Xe3p)

text \<open>The first register of an engine, from the first one of its device.\<close>

fun engineOffset :: "HelperClass \<Rightarrow> u32" where
  "engineOffset HelperRcs = 0"
| "engineOffset HelperBcs = 0x20000"
| "engineOffset HelperVcs = 0x1be000"
| "engineOffset HelperVecs = 0x1c6000"
| "engineOffset (HelperCcs engineId) = ccsEngineOffset engineId"
| "engineOffset HelperCccs = 0"
| "engineOffset (HelperLinkBcs engineId) = bcsLinkEngineOffset engineId"

fun classEngine :: "HelperClass \<Rightarrow> u32" where
  "classEngine HelperRcs = ENGINE_RCS"
| "classEngine HelperBcs = ENGINE_BCS"
| "classEngine HelperVcs = ENGINE_VCS"
| "classEngine HelperVecs = ENGINE_VECS"
| "classEngine (HelperCcs engineId) = ENGINE_CCS + engineId"
| "classEngine HelperCccs = ENGINE_CCCS"
| "classEngine (HelperLinkBcs engineId) = ENGINE_BCS1 + engineId - 1"

lemma newCommandStreamerHelper_registers:
  "csh_mmioDevice (newCommandStreamerHelper device off) = device * mmioDeviceOffset"
  "csh_mmioEngine (newCommandStreamerHelper device off) = device * mmioDeviceOffset + off"
  by (simp_all add: newCommandStreamerHelper_def Let_def mmioDeviceOffset_def MB_def KB_def)

lemma newHelper_registers:
  "csh_mmioDevice (newHelper device c) = device * mmioDeviceOffset"
  by (cases c) (simp_all add: class_defs newCommandStreamerHelper_registers)

lemma newHelper_mmioEngine:
  "csh_mmioEngine (newHelper device c) = device * mmioDeviceOffset + engineOffset c"
  by (cases c) (simp_all add: class_defs newCommandStreamerHelper_registers)

lemma newHelper_engineType: "csh_engineType (newHelper device c) = classEngine c"
  by (cases c) (simp_all add: class_defs)


text \<open>The engine table of a family answers every supported engine with its own engine class.\<close>

definition slots_cover :: "(u32 \<times> HelperClass) list \<Rightarrow> u32 list \<Rightarrow> bool" where
  "slots_cover slots engines \<longleftrightarrow> list_all (\<lambda>e. e < NUM_ENGINES
     \<and> (case map_of slots e of None \<Rightarrow> False | Some c \<Rightarrow> classEngine c = e)) engines"

lemma families_cover:
  "slots_cover helpers_Gen12LP (gpu_getSupportedEngines GpuGen12LP)"
  "slots_cover helpers_XeHpgCore getSupportedEngines_XeHpgCore"
  "slots_cover helpers_XeHpgCore getSupportedEngines_Dg2"
  "slots_cover helpers_full supportedEngines_full"
  "slots_cover helpers_full getSupportedEngines_Cri"
  "slots_cover helpers_Xe3Core getSupportedEngines_Xe3Core"
  by code_simp+

text \<open>The registers of an engine are 8 KB from its first register on; those of two slots are apart.\<close>

definition sameRegisters :: "u32 \<Rightarrow> u32 \<Rightarrow> bool" where
  "sameRegisters e1 e2 \<longleftrightarrow> e1 = e2 \<or> {e1, e2} = {ENGINE_RCS, ENGINE_CCCS}"

definition slots_apart :: "(u32 \<times> HelperClass) list \<Rightarrow> bool" where
  "slots_apart slots \<longleftrightarrow> list_all (\<lambda>(e1, c1). classEngine c1 = e1 \<and> engineOffset c1 \<le> 0xFFE000
     \<and> list_all (\<lambda>(e2, c2). e1 = e2 \<or> e1 = ENGINE_RCS \<and> e2 = ENGINE_CCCS \<or> e1 = ENGINE_CCCS \<and> e2 = ENGINE_RCS
          \<or> engineOffset c1 + 0x2000 \<le> engineOffset c2
          \<or> engineOffset c2 + 0x2000 \<le> engineOffset c1) slots) slots"

lemma helpers_full_apart: "slots_apart helpers_full"
  by code_simp

lemma slots_apartD:
  assumes "slots_apart slots" and "(e1, c1) \<in> set slots" and "(e2, c2) \<in> set slots"
  shows "engineOffset c1 \<le> 0xFFE000"
    and "e1 = e2 \<or> e1 = ENGINE_RCS \<and> e2 = ENGINE_CCCS \<or> e1 = ENGINE_CCCS \<and> e2 = ENGINE_RCS
      \<or> engineOffset c1 + 0x2000 \<le> engineOffset c2 \<or> engineOffset c2 + 0x2000 \<le> engineOffset c1"
proof -
  note first = bspec [OF assms(1) [unfolded slots_apart_def list_all_iff] assms(2), unfolded prod.case]
  show "engineOffset c1 \<le> 0xFFE000"
    by (rule conjunct1 [OF conjunct2 [OF first]])
  show "e1 = e2 \<or> e1 = ENGINE_RCS \<and> e2 = ENGINE_CCCS \<or> e1 = ENGINE_CCCS \<and> e2 = ENGINE_RCS
      \<or> engineOffset c1 + 0x2000 \<le> engineOffset c2 \<or> engineOffset c2 + 0x2000 \<le> engineOffset c1"
    by (rule bspec [OF conjunct2 [OF conjunct2 [OF first]] assms(3), unfolded prod.case])
qed

lemma helpers_full_distinct: "distinct (map fst helpers_full)"
  by code_simp

text \<open>The offset of an engine is its own, but for the render engine and the CCCS.\<close>

lemma same_offset:
  assumes "(e1, c1) \<in> set helpers_full" and "(e2, c2) \<in> set helpers_full"
    and "e1 = e2 \<or> {e1, e2} = {ENGINE_RCS, ENGINE_CCCS}"
  shows "engineOffset c1 = engineOffset c2"
proof -
  note key = eq_key_imp_eq_value [OF helpers_full_distinct]
  have render: "(ENGINE_RCS, HelperRcs) \<in> set helpers_full" "(ENGINE_CCCS, HelperCccs) \<in> set helpers_full"
    by (simp_all add: helpers_full_def)
  have zero: "engineOffset c = 0" if "(e, c) \<in> set helpers_full" "e = ENGINE_RCS \<or> e = ENGINE_CCCS" for e c
    using that key [OF _ render(1), of c] key [OF _ render(2), of c] by (metis engineOffset.simps(1,6))
  show ?thesis
    using assms(3)
  proof
    assume "e1 = e2"
    then show ?thesis
      using key assms(1,2) by auto
  next
    assume "{e1, e2} = {ENGINE_RCS, ENGINE_CCCS}"
    then have "e1 = ENGINE_RCS \<or> e1 = ENGINE_CCCS" "e2 = ENGINE_RCS \<or> e2 = ENGINE_CCCS"
      by blast+
    then show ?thesis
      using zero [OF assms(1)] zero [OF assms(2)] by simp
  qed
qed

lemma helpers_in_full:
  "set helpers_Gen12LP \<subseteq> set helpers_full" "set helpers_XeHpgCore \<subseteq> set helpers_full"
  "set helpers_Xe3Core \<subseteq> set helpers_full"
  by (simp_all add: helpers_Gen12LP_def helpers_XeHpgCore_def helpers_Xe3Core_def helpers_full_def)

lemma helperAt_covers:
  assumes "same_engine new" and "slots_cover slots engines" and "unat device < devices" and "engine \<in> set engines"
  shows "\<exists>h. helperAt devices slots new gpu device engine = Inr h \<and> family_engine h \<and> csh_engineType h = engine
    \<and> csh_gpu h = Some gpu \<and> csh_mmioDevice h = device * mmioDeviceOffset"
proof -
  from assms(2,4) obtain c where c: "map_of slots engine = Some c" "classEngine c = engine" "engine < NUM_ENGINES"
    by (force simp: slots_cover_def list_all_iff split: option.splits)
  then show ?thesis
    using assms(1,3) by (auto simp: helperAt_def same_engine_def family_engine.bound newHelper_engineType newHelper_registers)
qed


text \<open>What the table of a product holds.\<close>

definition table_ok :: "product \<Rightarrow> bool" where
  "table_ok p \<longleftrightarrow> (\<exists>devices slots new. gc_getCommandStreamerHelper (snd p) (fst p) = helperAt devices slots new (fst p)
     \<and> same_engine new \<and> slots_cover slots (gpu_getSupportedEngines (fst p)) \<and> set slots \<subseteq> set helpers_full
     \<and> unat (gpu_deviceCount (fst p)) \<le> devices \<and> devices \<le> 4)"

lemma table_okI:
  assumes "gc_getCommandStreamerHelper cls gpu = helperAt devices slots new gpu" and "same_engine new"
    and "slots_cover slots (gpu_getSupportedEngines gpu)" and "set slots \<subseteq> set helpers_full"
    and "unat (gpu_deviceCount gpu) \<le> devices" and "devices \<le> 4"
  shows "table_ok (gpu, cls)"
  using assms unfolding table_ok_def by auto

lemma gen12lp_tables:
  "table_ok GpuTgllp" "table_ok GpuAdls" "table_ok GpuAdlp" "table_ok GpuAdln" "table_ok GpuDg1"
  unfolding GpuTgllp_def GpuAdls_def GpuAdlp_def GpuAdln_def GpuDg1_def identify_def
  by (rule table_okI [where devices = 1 and slots = helpers_Gen12LP and new = newHelper_Gen12LP];
      simp add: class_Gen12LP_def getCommandStreamerHelper_Gen12LP_def families_same_engine families_cover helpers_in_full)+

lemma xe_hpg_tables: "table_ok (GpuDg2 settings)" "table_ok (GpuMtl settings)"
  unfolding GpuDg2_def GpuMtl_def identify_def
  by (rule table_okI [where devices = 1 and slots = helpers_XeHpgCore and new = "newHelper_XeHpgCore settings"];
      simp add: class_XeHpgCore_def GpuXeHpgCore_def getCommandStreamerHelper_XeHpgCore_def families_same_engine
        families_cover helpers_in_full)+

lemma xe_hpc_tables: "table_ok GpuPvc"
  unfolding GpuPvc_def identify_def
  by (rule table_okI [where devices = 4 and slots = helpers_full and new = newHelper_XeHpcCore];
      simp add: class_XeHpcCore_def GpuXeHpcCore_def getCommandStreamerHelper_XeHpcCore_def helpers_XeHpcCore_def
        getSupportedEngines_XeHpcCore_def families_same_engine families_cover)

lemma xe2_hpg_tables: "table_ok GpuBmg" "table_ok GpuLnl"
  unfolding GpuBmg_def GpuLnl_def identify_def
  by (rule table_okI [where devices = 1 and slots = helpers_full and new = newHelper_Xe2HpgCore];
      simp add: class_Xe2HpgCore_def GpuXe2HpgCore_def getCommandStreamerHelper_Xe2HpgCore_def helpers_Xe2HpgCore_def
        getSupportedEngines_Xe2HpgCore_def families_same_engine families_cover)+

lemma xe3_tables: "table_ok GpuPtl"
  unfolding GpuPtl_def identify_def
  by (rule table_okI [where devices = 1 and slots = helpers_Xe3Core and new = newHelper_Xe3Core];
      simp add: class_Xe3Core_def GpuXe3Core_def getCommandStreamerHelper_Xe3Core_def helpers_in_full
        families_same_engine families_cover)

lemma xe3p_tables: "table_ok (GpuCri settings)" "table_ok (GpuNvlp settings)"
  unfolding GpuCri_def GpuNvlp_def identify_def
  by (rule table_okI [where devices = 4 and slots = helpers_full and new = "newHelper_Xe3pCore settings False"];
      simp add: class_Xe3pCore_def GpuXe3pCore_def getCommandStreamerHelper_Xe3pCore_def helpers_Xe3pCore_def GpuXeCore_def
        baseGpu_def getSupportedEngines_Xe3pCore_def families_same_engine families_cover)+

lemma product_table_ok: "(pf, p) \<in> set (productFamilyTable settings) \<Longrightarrow> table_ok p"
  by (auto simp: productFamilyTable_def gen12lp_tables xe_hpg_tables xe_hpc_tables xe2_hpg_tables xe3_tables xe3p_tables)



text \<open>A register of an engine, in exact arithmetic.\<close>

lemma register_exact:
  assumes "unat device < 4" and "engineOffset c \<le> 0xFFE000" and "r < 0x2000"
  shows "unat (device * mmioDeviceOffset + engineOffset c + r) = unat device * 2 ^ 24 + (unat (engineOffset c) + unat r)"
proof -
  have "unat (device * mmioDeviceOffset) = unat device * 2 ^ 24"
    using assms(1) by (simp add: unat_word_ariths(2) mmioDeviceOffset_def MB_def KB_def)
  moreover have "unat (engineOffset c) \<le> 0xFFE000" "unat r < 0x2000"
    using assms(2,3) by (simp_all add: word_le_nat_alt word_less_nat_alt)
  ultimately show ?thesis
    using assms(1) by (simp add: unat_word_ariths(1))
qed

lemma same_window:
  fixes d1 d2 x1 x2 :: nat
  assumes "d1 * 2 ^ 24 + x1 = d2 * 2 ^ 24 + x2" and "x1 < 2 ^ 24" and "x2 < 2 ^ 24"
  shows "d1 = d2 \<and> x1 = x2"
proof -
  have "(d1 * 2 ^ 24 + x1) div 2 ^ 24 = d1" "(d2 * 2 ^ 24 + x2) div 2 ^ 24 = d2"
    using assms(2,3) by simp_all
  then have "d1 = d2"
    using assms(1) by metis
  then show ?thesis
    using assms(1) by simp
qed

lemma helperAt_slot:
  assumes "helperAt devices slots new gpu device engine = Inr h" and "same_engine new" and "set slots \<subseteq> set helpers_full"
  obtains c where "(engine, c) \<in> set helpers_full" "unat device < devices"
    "csh_mmioEngine h = device * mmioDeviceOffset + engineOffset c"
  using assms by (auto simp: helperAt_def same_engine_def newHelper_mmioEngine dest!: map_of_SomeD
      split: if_splits option.splits)

text \<open>C16: The registers of different engines are apart: if a register of one engine object of a product is a register of
  another (an engine has the 8 KB from its first register on), then they are on the same device and are the same engine,
  or one is the render engine and the other the CCCS, which the code gives the same registers.\<close>

theorem engine_registers_apart:
  assumes "(pf, (gpu, cls)) \<in> set (productFamilyTable settings)"
    and "gc_getCommandStreamerHelper cls gpu d1 e1 = Inr h1" and "gc_getCommandStreamerHelper cls gpu d2 e2 = Inr h2"
    and "r1 < 0x2000" and "r2 < 0x2000" and "csh_mmioEngine h1 + r1 = csh_mmioEngine h2 + r2"
  shows "d1 = d2 \<and> r1 = r2 \<and> (e1 = e2 \<or> {e1, e2} = {ENGINE_RCS, ENGINE_CCCS})"
proof -
  from product_table_ok [OF assms(1)] obtain devices slots new where
      t: "gc_getCommandStreamerHelper cls gpu = helperAt devices slots new gpu" "same_engine new"
      "set slots \<subseteq> set helpers_full" "devices \<le> 4"
    by (auto simp: table_ok_def)
  obtain c1 where c1: "(e1, c1) \<in> set helpers_full" "unat d1 < devices"
      "csh_mmioEngine h1 = d1 * mmioDeviceOffset + engineOffset c1"
    using helperAt_slot [OF _ t(2,3)] assms(2) t(1) by metis
  obtain c2 where c2: "(e2, c2) \<in> set helpers_full" "unat d2 < devices"
      "csh_mmioEngine h2 = d2 * mmioDeviceOffset + engineOffset c2"
    using helperAt_slot [OF _ t(2,3)] assms(3) t(1) by metis
  note small = slots_apartD(1) [OF helpers_full_apart c1(1) c2(1)] slots_apartD(1) [OF helpers_full_apart c2(1) c1(1)]
  have small_nat: "unat (engineOffset c1) \<le> 0xFFE000" "unat (engineOffset c2) \<le> 0xFFE000" "unat r1 < 0x2000" "unat r2 < 0x2000"
    using small assms(4,5) by (simp_all add: word_le_nat_alt word_less_nat_alt)
  have "unat (d1 * mmioDeviceOffset + engineOffset c1 + r1) = unat (d2 * mmioDeviceOffset + engineOffset c2 + r2)"
    using assms(6) c1(3) c2(3) by simp
  then have "unat d1 * 2 ^ 24 + (unat (engineOffset c1) + unat r1) = unat d2 * 2 ^ 24 + (unat (engineOffset c2) + unat r2)"
    using register_exact [of d1 c1 r1] register_exact [of d2 c2 r2] small assms(4,5) c1(2) c2(2) t(4) by simp
  then have same: "unat d1 = unat d2" "unat (engineOffset c1) + unat r1 = unat (engineOffset c2) + unat r2"
    using same_window [of "unat d1" _ "unat d2"] small_nat by auto
  have "\<not> engineOffset c1 + 0x2000 \<le> engineOffset c2" "\<not> engineOffset c2 + 0x2000 \<le> engineOffset c1"
    using same(2) small_nat by (simp_all add: word_le_nat_alt unat_word_ariths(1))
  then have e: "e1 = e2 \<or> {e1, e2} = {ENGINE_RCS, ENGINE_CCCS}"
    using slots_apartD(2) [OF helpers_full_apart c1(1) c2(1)] by blast
  then show ?thesis
    using same_offset [OF c1(1) c2(1) e] same by (simp add: word_unat_eq_iff)
qed

text \<open>Not vacuous: the third copy engine of the second device and a register of its own.\<close>

theorem engine_registers_apart_witness:
  "\<exists>h. gc_getCommandStreamerHelper (snd GpuPvc) (fst GpuPvc) 1 ENGINE_BCS3 = Inr h
    \<and> ((1 :: u32) = 1 \<and> (0x230 :: u32) = 0x230 \<and> (ENGINE_BCS3 = ENGINE_BCS3 \<or> {ENGINE_BCS3, ENGINE_BCS3} = {ENGINE_RCS, ENGINE_CCCS}))"
proof -
  have table: "(14, (fst GpuPvc, snd GpuPvc)) \<in> set (productFamilyTable defaultSettings)"
    by (simp add: productFamilyTable_def GpuPvc_def identify_def)
  obtain h where h: "gc_getCommandStreamerHelper (snd GpuPvc) (fst GpuPvc) 1 ENGINE_BCS3 = Inr h"
    using helperAt_covers [OF families_same_engine(3) families_cover(4), of 1 4 ENGINE_BCS3]
    by (auto simp: GpuPvc_def class_XeHpcCore_def getCommandStreamerHelper_XeHpcCore_def helpers_XeHpcCore_def
        supportedEngines_full_def)
  show ?thesis
    using engine_registers_apart [OF table h h, of "0x230" "0x230"] h by simp
qed

section \<open>Registers that describe the memory\<close>

text \<open>The value a register has after the writes: the last one counts.\<close>

definition written :: "MMIOList \<Rightarrow> u32 \<Rightarrow> u32 option" where
  "written ws off = map_of (rev ws) off"

text \<open>The address in two registers, the upper half in the second one.\<close>

definition writtenAddress :: "MMIOList \<Rightarrow> u32 \<Rightarrow> u64 option" where
  "writtenAddress ws off = (case (written ws off, written ws (off + 4)) of
       (Some low, Some high) \<Rightarrow> Some (push_bit 32 (ucast high) OR ucast low) | _ \<Rightarrow> None)"

lemma address_halves:
  fixes base :: u64
  assumes "2 ^ 20 dvd unat base"
  shows "push_bit 32 (ucast (ucast (drop_bit 32 base) :: u32)) OR ucast (ucast (base AND 0xFFF00000) :: u32) = base"
proof -
  have "unat (take_bit 20 base) = 0"
    using assms by (simp add: unsigned_take_bit_eq take_bit_eq_mod dvd_eq_mod_eq_0 unat_mod)
  then have low: "take_bit 20 base = 0"
    by (simp only: unsigned_eq_0_iff)
  have bit: "\<not> bit base n" if "n < 20" for n
    using low that by (metis bit_0_eq bit_take_bit_iff bot_apply bot_bool_def)
  have middle: "bit (base AND 0xFFF00000) n \<longleftrightarrow> bit base n" if "n < 32" for n
  proof -
    have "(0xFFF00000 :: u64) = push_bit 20 (mask 12)"
      by (simp add: mask_eq_decr_exp)
    then have "bit (0xFFF00000 :: u64) n \<longleftrightarrow> 20 \<le> n"
      using that by (simp only: bit_push_bit_iff bit_mask_iff) auto
    then show ?thesis
      using bit [of n] by (metis bit_and_iff not_less)
  qed
  show ?thesis
  proof (rule bit_word_eqI)
    fix n :: nat
    assume "n < LENGTH(64)"
    then show "bit (push_bit 32 (ucast (ucast (drop_bit 32 base) :: u32) :: u64)
        OR ucast (ucast (base AND 0xFFF00000) :: u32)) n = bit base n"
      using middle [of n] by (cases "n < 32")
        (simp_all only: bit_or_iff bit_push_bit_iff bit_unsigned_iff bit_drop_bit_eq, auto)
  qed
qed

text \<open>The loop over the devices, with bases \<open>b\<close> on a 1 MB boundary.\<close>

lemma gsm_loop_written:
  assumes "\<And>d. d < n \<Longrightarrow> base gpu (word_of_nat d) = Inr (b d) \<and> 2 ^ 20 dvd unat (b d)" and "n \<le> 4"
  shows "\<exists>ws. gsm_loop base gpu 0 n = Inr ws
    \<and> (\<forall>d < n. writtenAddress ws (word_of_nat d * mmioDeviceOffset + gsmBase) = Some (b d)
        \<and> writtenAddress ws (gsmBase + 8 * word_of_nat d) = Some (b d))"
proof -
  have halves: "push_bit 32 (ucast (ucast (drop_bit 32 (b d)) :: u32)) OR ucast (ucast (b d AND 0xFFF00000) :: u32) = b d"
    if "d < n" for d
    using assms(1) [OF that] address_halves by blast
  have bases: "base gpu (word_of_nat d) = Inr (b d)" if "d < n" for d
    using assms(1) [OF that] by simp
  note simps = gsmDevice_def mmioDevices_def gsmWrites_def gsmBase_def written_def writtenAddress_def
    mmioDeviceOffset_def MB_def KB_def All_less_Suc
  consider "n = 0" | "n = Suc 0" | "n = Suc (Suc 0)" | "n = Suc (Suc (Suc 0))" | "n = Suc (Suc (Suc (Suc 0)))"
    using assms(2) by linarith
  then show ?thesis
  proof cases
    case 2
    then show ?thesis
      using halves [of 0] bases [of 0] by (simp add: simps)
  next
    case 3
    then show ?thesis
      using halves [of 0] bases [of 0] halves [of 1] bases [of 1] by (simp add: simps)
  next
    case 4
    then show ?thesis
      using halves [of 0] bases [of 0] halves [of 1] bases [of 1] halves [of "Suc (Suc 0)"] bases [of "Suc (Suc 0)"] by (simp add: simps)
  next
    case 5
    then show ?thesis
      using halves [of 0] bases [of 0] halves [of 1] bases [of 1] halves [of "Suc (Suc 0)"] bases [of "Suc (Suc 0)"]
        halves [of "Suc (Suc (Suc 0))"] bases [of "Suc (Suc (Suc 0))"]
      by (simp add: simps)
  qed simp
qed

text \<open>The global table of a GPU whose stolen memory is in the memory banks.\<close>

definition stolenInBanks :: "u64 \<Rightarrow> Gpu \<Rightarrow> Gpu" where
  "stolenInBanks bankSize gpu =
     gpu\<lparr>gpu_stolenMemory := Some (StolenMemoryInStaticStorage (getStolenMemorySize gpu bankSize) bankSize)\<rparr>"

lemma MB_aligned_add:
  fixes x y :: u64
  assumes "2 ^ 20 dvd unat x" and "2 ^ 20 dvd unat y"
  shows "2 ^ 20 dvd unat (x + y)"
proof -
  have "(2 ^ 20 :: nat) dvd 2 ^ 64"
    by (simp add: le_imp_power_dvd)
  then show ?thesis
    using assms by (simp add: unat_word_ariths(1) dvd_mod_iff)
qed

lemma stolen_gsm_aligned:
  "\<exists>gsm. getGSMBaseAddress (stolenInBanks bankSize gpu) d = Inr gsm \<and> 2 ^ 20 dvd unat gsm"
proof -
  let ?base = "alignDown (bankSize * ucast (d + 1) - getStolenMemorySize gpu bankSize) 20"
  have sizes: "getDSMSize (stolenInBanks bankSize gpu) = getDSMSize gpu"
      "gpu_getGSMSize (stolenInBanks bankSize gpu) = gpu_getGSMSize gpu"
    by (simp_all add: stolenInBanks_def getDSMSize_def getDSMDefaultSize_def getWOPCMSize_def split: option.splits)
  have "getGSMBaseAddress (stolenInBanks bankSize gpu) d = Inr (?base + getFlatCCSSize bankSize)"
    unfolding getGSMBaseAddress_def getDSMBaseAddress_def sizes
    by (simp add: stolenInBanks_def getStolenMemorySize_def)
  moreover have "2 ^ 20 dvd unat ?base"
    by (simp add: unat_MB_aligned_down)
  moreover have "2 ^ 20 dvd unat (getFlatCCSSize bankSize)"
    by (simp only: getFlatCCSSize_def alignUp_def Let_def push_bit_one unat_high_bits) simp
  ultimately show ?thesis
    using MB_aligned_add by auto
qed

text \<open>Every product with stolen memory writes the bases in the same way.\<close>

definition gsm_ok :: "product \<Rightarrow> bool" where
  "gsm_ok p \<longleftrightarrow> unat (gpu_deviceCount (fst p)) \<le> 4
     \<and> (\<forall>gpu n. gpu_deviceCount gpu = gpu_deviceCount (fst p) \<longrightarrow> 0 < n \<longrightarrow> n \<le> gpu_deviceCount gpu
          \<longrightarrow> gc_setGGTTBaseAddresses (snd p) gpu n = gsm_loop getGSMBaseAddress gpu 0 (unat n))"

lemma one_device: "0 < n \<Longrightarrow> n \<le> 1 \<Longrightarrow> n = (1 :: u32)"
  by (simp add: word_le_nat_alt word_less_nat_alt word_unat_eq_iff)

lemma singleGgttBase_loop:
  "gpu_deviceCount gpu = 1 \<Longrightarrow> singleGgttBase gpu 1 = gsm_loop getGSMBaseAddress gpu 0 (unat (1 :: u32))"
  by (cases "getGSMBaseAddress gpu 0") (simp_all add: singleGgttBase_def gsmDevice_def mmioDevices_def)

lemma products_gsm:
  "gsm_ok (GpuDg2 settings)" "gsm_ok (GpuMtl settings)" "gsm_ok GpuPvc" "gsm_ok GpuBmg" "gsm_ok GpuLnl" "gsm_ok GpuPtl"
  "gsm_ok (GpuCri settings)" "gsm_ok (GpuNvlp settings)"
  by (auto simp: gsm_ok_def GpuDg2_def GpuMtl_def GpuPvc_def GpuBmg_def GpuLnl_def GpuPtl_def GpuCri_def GpuNvlp_def
      identify_def class_XeHpgCore_def class_XeCore_def class_XeHpcCore_def class_Xe2HpgCore_def class_Xe3Core_def
      class_Xe3pCore_def setGGTTBaseAddresses_XeHpgCore_def setGGTTBaseAddresses_XeCore_def tileGgttBases_def
      setGGTTBaseAddresses_Lnl_def setGGTTBaseAddresses_Ptl_def setGGTTBaseAddresses_Nvlp_def assertR_def
      singleGgttBase_loop dest: one_device)

lemma product_gsm_ok:
  "(pf, p) \<in> set (productFamilyTable settings) \<Longrightarrow> gpu_gfxCoreFamily (fst p) \<noteq> 3 \<Longrightarrow> gsm_ok p"
  by (auto simp: productFamilyTable_def products_gsm)
    (simp_all add: GpuTgllp_def GpuAdls_def GpuAdlp_def GpuAdln_def GpuDg1_def identify_def)

text \<open>C13: On every product with stolen memory (all families after Gen12LP), for every number of devices it supports,
  programming the global tables succeeds, and afterwards the pair of registers of each device holds exactly the address
  where the GPU puts the table of that device; the first device has the address of every other device too.\<close>

theorem ggtt_base_registers:
  assumes "(pf, (gpu, cls)) \<in> set (productFamilyTable settings)" and "gpu_gfxCoreFamily gpu \<noteq> 3"
    and "0 < deviceCount" and "deviceCount \<le> gpu_deviceCount gpu"
  shows "\<exists>ws. gc_setGGTTBaseAddresses cls (stolenInBanks bankSize gpu) deviceCount = Inr ws
    \<and> (\<forall>d < unat deviceCount. \<exists>gsm. getGSMBaseAddress (stolenInBanks bankSize gpu) (word_of_nat d) = Inr gsm
        \<and> writtenAddress ws (word_of_nat d * mmioDeviceOffset + gsmBase) = Some gsm
        \<and> writtenAddress ws (gsmBase + 8 * word_of_nat d) = Some gsm)"
proof -
  let ?gpu = "stolenInBanks bankSize gpu"
  have ok: "gsm_ok (gpu, cls)"
    using product_gsm_ok [OF assms(1)] assms(2) by simp
  then have loop: "gc_setGGTTBaseAddresses cls ?gpu deviceCount = gsm_loop getGSMBaseAddress ?gpu 0 (unat deviceCount)"
    using assms(3,4) by (simp add: gsm_ok_def stolenInBanks_def)
  define b where "b d = (THE gsm. getGSMBaseAddress ?gpu (word_of_nat d) = Inr gsm)" for d
  have b: "getGSMBaseAddress ?gpu (word_of_nat d) = Inr (b d) \<and> 2 ^ 20 dvd unat (b d)" for d
    using stolen_gsm_aligned [of bankSize gpu "word_of_nat d"] by (auto simp: b_def)
  have "unat deviceCount \<le> 4"
    using ok assms(4) by (simp add: gsm_ok_def word_le_nat_alt)
  then show ?thesis
    using gsm_loop_written [of "unat deviceCount" getGSMBaseAddress ?gpu b] b loop by auto
qed

theorem ggtt_base_registers_witness:
  "\<exists>ws. gc_setGGTTBaseAddresses (snd GpuPvc) (stolenInBanks 0x800000000 (fst GpuPvc)) 2 = Inr ws
    \<and> (\<forall>d < unat (2 :: u32). \<exists>gsm. getGSMBaseAddress (stolenInBanks 0x800000000 (fst GpuPvc)) (word_of_nat d) = Inr gsm
        \<and> writtenAddress ws (word_of_nat d * mmioDeviceOffset + gsmBase) = Some gsm
        \<and> writtenAddress ws (gsmBase + 8 * word_of_nat d) = Some gsm)"
proof (rule ggtt_base_registers)
  show "(14, (fst GpuPvc, snd GpuPvc)) \<in> set (productFamilyTable defaultSettings)"
    by (simp add: productFamilyTable_def GpuPvc_def identify_def)
qed (simp_all add: GpuPvc_def identify_def)

text \<open>The sizes and bases of the memory of the tiles, in GB: the base has seven bits, the size the bits above them.\<close>

definition bankSizeField :: "u32 \<Rightarrow> nat" where
  "bankSizeField v = unat (drop_bit 8 v)"

definition bankBaseField :: "u32 \<Rightarrow> nat" where
  "bankBaseField v = unat (take_bit 7 (drop_bit 1 v))"

lemma bankSizes_loop_written:
  assumes "n \<le> 4"
  shows "\<forall>d < n. written (bankSizes_loop gb 0 off n) (off + 4 * word_of_nat d) = Some (bankSizeValue gb (word_of_nat d * gb))"
proof -
  consider "n = 0" | "n = Suc 0" | "n = Suc (Suc 0)" | "n = Suc (Suc (Suc 0))" | "n = Suc (Suc (Suc (Suc 0)))"
    using assms by linarith
  then show ?thesis
    by cases (simp_all add: written_def All_less_Suc)
qed

lemma high_bits_clear:
  fixes x :: u64
  assumes "unat x < 2 ^ k" and "k \<le> n"
  shows "\<not> bit x n"
proof -
  have "unat x < 2 ^ n"
    using assms by (meson less_le_trans one_le_numeral power_increasing)
  then have "\<not> bit (unat x) n"
    by (simp add: bit_iff_odd)
  then show ?thesis
    by (simp add: bit_unsigned_iff)
qed

lemma bankSizeValue_fields:
  assumes "gb < 128" and "base < 128"
  shows "drop_bit 8 (bankSizeValue gb base) = ucast gb" and "take_bit 7 (drop_bit 1 (bankSizeValue gb base)) = ucast base"
proof -
  have clear: "\<not> bit gb n" "\<not> bit base n" if "7 \<le> n" for n
    using high_bits_clear [of gb 7 n] high_bits_clear [of base 7 n] assms that by (simp_all add: word_less_nat_alt)
  note bits = bankSizeValue_def bit_or_iff bit_push_bit_iff bit_unsigned_iff bit_drop_bit_eq bit_take_bit_iff bit_1_iff o_apply
  show "drop_bit 8 (bankSizeValue gb base) = ucast gb"
  proof (rule bit_word_eqI)
    fix n :: nat
    assume "n < LENGTH(32)"
    then show "bit (drop_bit 8 (bankSizeValue gb base)) n = bit (ucast gb :: u32) n"
      using clear(1) [of n] clear(2) [of "7 + n"] by (cases "n < 7") (simp_all only: bits, auto)
  qed
  show "take_bit 7 (drop_bit 1 (bankSizeValue gb base)) = ucast base"
  proof (rule bit_word_eqI)
    fix n :: nat
    assume "n < LENGTH(32)"
    then show "bit (take_bit 7 (drop_bit 1 (bankSizeValue gb base))) n = bit (ucast base :: u32) n"
      using clear(2) [of n] by (cases "n < 7") (simp_all only: bits, auto)
  qed
qed

lemma unat_ucast_small: "x < 128 \<Longrightarrow> unat (ucast (x :: u64) :: u32) = unat x"
  by (simp add: unsigned_ucast_eq take_bit_nat_eq_self word_less_nat_alt)

text \<open>C32: The registers that tell the device how its memory is split into tiles: with \<open>gb\<close> GB per tile the register of tile
  \<open>d\<close> can be read back, its size and its base, exactly when the base fits the seven bits it has; the code only checks
  \<open>gb\<close> itself, so from 128 GB in front of a tile on the register is wrong.\<close>

theorem tile_bank_registers:
  assumes "1 < deviceCount" and "deviceCount \<le> 4" and "deviceCount \<le> gpu_deviceCount gpu"
    and "gb = memoryBankSize div ucast GB" and "0 < gb" and "gb < 128"
  shows "\<exists>ws. setMemoryBankSize_XeCore gpu deviceCount memoryBankSize = Inr ws
    \<and> (\<forall>d < unat deviceCount. \<exists>v. written ws (0x4900 + 4 * word_of_nat d) = Some v
        \<and> ((bankSizeField v = unat gb \<and> bankBaseField v = d * unat gb) \<longleftrightarrow> d * unat gb < 128))"
proof -
  let ?ws = "bankSizes_loop gb 0 0x4900 (unat deviceCount)"
  have "0 < deviceCount"
    using assms(1) by (simp add: word_less_nat_alt)
  then have ws: "setMemoryBankSize_XeCore gpu deviceCount memoryBankSize = Inr ?ws"
    using assms by (auto simp: setMemoryBankSize_XeCore_def tileBankSizes_def assertR_def Let_def)
  have four: "unat deviceCount \<le> 4"
    using assms(2) by (simp add: word_le_nat_alt)
  have "(bankSizeField v = unat gb \<and> bankBaseField v = d * unat gb) \<longleftrightarrow> d * unat gb < 128"
    if d: "d < unat deviceCount" and v: "v = bankSizeValue gb (word_of_nat d * gb)" for d v
  proof
    assume "bankSizeField v = unat gb \<and> bankBaseField v = d * unat gb"
    moreover have "bankBaseField v < 128"
      by (simp add: bankBaseField_def take_bit_eq_mod unat_mod)
    ultimately show "d * unat gb < 128"
      by simp
  next
    assume fits: "d * unat gb < 128"
    have base: "unat (word_of_nat d * gb) = d * unat gb"
      using fits d four by (simp add: unat_word_ariths(2) unsigned_of_nat take_bit_nat_eq_self)
    then have "word_of_nat d * gb < 128"
      using fits by (simp add: word_less_nat_alt)
    then show "bankSizeField v = unat gb \<and> bankBaseField v = d * unat gb"
      using bankSizeValue_fields [OF assms(6)] assms(6) base v
      by (simp add: bankSizeField_def bankBaseField_def unat_ucast_small)
  qed
  then show ?thesis
    using ws bankSizes_loop_written [OF four, of gb "0x4900"] by auto
qed

text \<open>Four tiles of 64 GB: the registers of the third and the fourth are wrong.\<close>

theorem tile_bank_registers_witness:
  "\<exists>ws. setMemoryBankSize_XeCore (fst GpuPvc) 4 0x1000000000 = Inr ws
    \<and> (\<forall>d < unat (4 :: u32). \<exists>v. written ws (0x4900 + 4 * word_of_nat d) = Some v
        \<and> ((bankSizeField v = unat (64 :: u64) \<and> bankBaseField v = d * unat (64 :: u64)) \<longleftrightarrow> d * unat (64 :: u64) < 128))"
  by (rule tile_bank_registers) (simp_all add: GpuPvc_def identify_def GB_def MB_def KB_def)

end
