(* ===== verification/SettingsReader.thy ===== *)
theory SettingsReader
  imports GpuFamilies
begin

text \<open>
  The settings (\<^verbatim>\<open>settings.h\<close>, \<^verbatim>\<open>setting_vars_base.inl\<close>, \<^verbatim>\<open>settings_reader.cpp\<close>).  The environment is a map from names
  to values.
\<close>

section \<open>Reading a value\<close>

text \<open>
  \<^verbatim>\<open>atoll\<close> of the C library: white space, a sign and decimal digits; what follows is ignored.  The value of a number
  that does not fit 64 bits is left open by the C standard; here it is the number itself, which the conversions
  below reduce.
\<close>

definition isSpace :: "char \<Rightarrow> bool" where
  "isSpace c \<longleftrightarrow> of_char c \<in> {32 :: nat, 9, 10, 11, 12, 13}"

definition isDigit :: "char \<Rightarrow> bool" where
  "isDigit c \<longleftrightarrow> 48 \<le> (of_char c :: nat) \<and> (of_char c :: nat) \<le> 57"

fun digitsValue :: "string \<Rightarrow> int \<Rightarrow> int" where
  "digitsValue [] v = v"
| "digitsValue (c # cs) v = (if isDigit c then digitsValue cs (10 * v + of_char c - 48) else v)"

definition atoll :: "string \<Rightarrow> int" where
  "atoll s = (case dropWhile isSpace s of
       [] \<Rightarrow> 0
     | c # cs \<Rightarrow> if c = CHR ''-'' then - digitsValue cs 0
                 else if c = CHR ''+'' then digitsValue cs 0
                 else digitsValue (c # cs) 0)"

type_synonym environment = "string \<rightharpoonup> string"

definition getSetting64 :: "environment \<Rightarrow> string \<Rightarrow> int \<Rightarrow> int" where
  "getSetting64 environ settingName defaultValue = (case environ settingName of
       None \<Rightarrow> defaultValue
     | Some envValue \<Rightarrow> signed_take_bit 63 (atoll envValue))"

definition getSetting32 :: "environment \<Rightarrow> string \<Rightarrow> int \<Rightarrow> int" where
  "getSetting32 environ settingName defaultValue = signed_take_bit 31 (getSetting64 environ settingName defaultValue)"

definition getSettingBool :: "environment \<Rightarrow> string \<Rightarrow> bool \<Rightarrow> bool" where
  "getSettingBool environ settingName defaultValue \<longleftrightarrow>
     getSetting64 environ settingName (of_bool defaultValue) \<noteq> 0"

definition getSettingString :: "environment \<Rightarrow> string \<Rightarrow> string \<Rightarrow> string" where
  "getSettingString environ settingName val = (case environ settingName of None \<Rightarrow> val | Some envValue \<Rightarrow> envValue)"

section \<open>The settings\<close>

text \<open>The name of a variable in the environment; it is empty in a build with \<^verbatim>\<open>AUBSTREAM_SETTINGS_DISABLE\<close>.\<close>

definition getSettingName :: "bool \<Rightarrow> string \<Rightarrow> string" where
  "getSettingName disabled variable = (if disabled then '''' else ''AUBSTREAM_'' @ variable)"

definition readSettings :: "bool \<Rightarrow> environment \<Rightarrow> Settings \<Rightarrow> Settings" where
  "readSettings disabled environ s =
     (let name = getSettingName disabled
      in \<lparr>s_PrintSettings = getSettingBool environ (name ''PrintSettings'') (s_PrintSettings s),
          s_ExeclistSubmitPortSubmission =
            getSetting32 environ (name ''ExeclistSubmitPortSubmission'') (s_ExeclistSubmitPortSubmission s),
          s_TbxConnectionDelayInSeconds =
            getSetting32 environ (name ''TbxConnectionDelayInSeconds'') (s_TbxConnectionDelayInSeconds s),
          s_LogLevel = getSetting32 environ (name ''LogLevel'') (s_LogLevel s),
          s_IndirectRingState = getSetting32 environ (name ''IndirectRingState'') (s_IndirectRingState s),
          s_EnablePs64 = getSettingBool environ (name ''EnablePs64'') (s_EnablePs64 s),
          s_AppTransientForUncompressedCachedPages =
            getSettingBool environ (name ''AppTransientForUncompressedCachedPages'')
              (s_AppTransientForUncompressedCachedPages s)\<rparr>)"

text \<open>The constructor, without its output; \<open>printSettings\<close> is the output.\<close>

definition newSettings :: "bool \<Rightarrow> environment \<Rightarrow> Settings" where
  "newSettings disabled environ = readSettings disabled environ defaultSettings"

definition showSetting :: "bool \<Rightarrow> string \<Rightarrow> int \<Rightarrow> int \<Rightarrow> string" where
  "showSetting disabled variable val defaultValue =
     (if val \<noteq> defaultValue
      then getSettingName disabled variable @ '' = '' @ (if val < 0 then ''-'' else '''') @ show_dec (nat \<bar>val\<bar>) @ [CHR 0x0A]
      else '''')"

definition printSettings :: "bool \<Rightarrow> Settings \<Rightarrow> string" where
  "printSettings disabled s =
     (if \<not> s_PrintSettings s then ''''
      else showSetting disabled ''PrintSettings'' (of_bool (s_PrintSettings s)) 0
        @ showSetting disabled ''ExeclistSubmitPortSubmission'' (s_ExeclistSubmitPortSubmission s) (-1)
        @ showSetting disabled ''TbxConnectionDelayInSeconds'' (s_TbxConnectionDelayInSeconds s) (-1)
        @ showSetting disabled ''LogLevel'' (s_LogLevel s) 0
        @ showSetting disabled ''IndirectRingState'' (s_IndirectRingState s) (-1)
        @ showSetting disabled ''EnablePs64'' (of_bool (s_EnablePs64 s)) 1
        @ showSetting disabled ''AppTransientForUncompressedCachedPages''
            (of_bool (s_AppTransientForUncompressedCachedPages s)) 0)"

lemma atoll_examples: "atoll ''-12x'' = -12" "atoll ''  7'' = 7" "atoll ''abc'' = 0"
  by code_simp+

end
