(* ===== verification/AubManager.thy ===== *)
theory AubManager
  imports TbxShmStream SettingsReader HardwareContext
begin

text \<open>
  The manager: \<^verbatim>\<open>aub_manager_imp.h\<close>, \<^verbatim>\<open>aub_manager_imp.cpp\<close>, the global options of \<^verbatim>\<open>options.cpp\<close> and the contexts of
  the null mode (\<^verbatim>\<open>null_hardware_context.h\<close>).  A manager owns a GPU, the streams of its mode, the page tables of the
  devices, the allocator and the contexts.  The calls an operation makes of the stream are carried out on the
  stream of the mode.  An operation that throws has an error and no state; mutexes and log messages are left out.
\<close>

section \<open>Outcomes\<close>

text \<open>\<open>None\<close>: a loop that waits for the simulator did not end in the passes the fuel allows.\<close>

type_synonym 'a outcome = "'a result option"

definition bindO :: "'a outcome \<Rightarrow> ('a \<Rightarrow> 'b outcome) \<Rightarrow> 'b outcome" where
  "bindO m f = (case m of None \<Rightarrow> None | Some (Inl e) \<Rightarrow> Some (Inl e) | Some (Inr x) \<Rightarrow> f x)"

abbreviation doneO :: "'a \<Rightarrow> 'a outcome" where
  "doneO x \<equiv> Some (Inr x)"

abbreviation failO :: "aub_error \<Rightarrow> 'a outcome" where
  "failO e \<equiv> Some (Inl e)"

lemma bindO_simps [simp]:
  "bindO None f = None" "bindO (failO e) f = failO e" "bindO (doneO x) f = f x"
  by (simp_all add: bindO_def)

lemma bindO_done_iff: "bindO m f = doneO y \<longleftrightarrow> (\<exists>x. m = doneO x \<and> f x = doneO y)"
  by (auto simp: bindO_def split: option.splits sum.splits)

lemma bindO_cong [fundef_cong]:
  "m = m' \<Longrightarrow> (\<And>x. m' = doneO x \<Longrightarrow> f x = f' x) \<Longrightarrow> bindO m f = bindO m' f'"
  by (auto simp: bindO_def split: option.splits sum.splits)

lemma bindO_result: "bindO (Some (bindR r f)) g = bindO (Some r) (\<lambda>x. bindO (Some (f x)) g)"
  by (cases r) simp_all

section \<open>Global options\<close>

record Options =
  tbxServerIp :: string
  tbxServerPort :: u16
  tbxFrontdoorMode :: bool
  MMIOListInjected :: "MaskedMMIO list"
  aubStreamCaller :: u32

definition initialOptions :: Options where
  "initialOptions = \<lparr>tbxServerIp = ''127.0.0.1'', tbxServerPort = 4321, tbxFrontdoorMode = False,
     MMIOListInjected = [], aubStreamCaller = -1\<rparr>"

definition maskedMMIOWrite :: "MMIOPair \<Rightarrow> MaskedMMIO" where
  "maskedMMIOWrite p = \<lparr>mm_offset = fst p, mm_value = snd p, mm_mask = 0xffffffff\<rparr>"

definition injectMMIOList :: "MMIOList \<Rightarrow> Options \<Rightarrow> Options" where
  "injectMMIOList mmioList g = g\<lparr>MMIOListInjected := map maskedMMIOWrite mmioList\<rparr>"

definition injectMMIOListLegacy :: "MMIOList \<Rightarrow> Options \<Rightarrow> Options" where
  "injectMMIOListLegacy mmioList = injectMMIOList mmioList"

definition injectMaskedMMIOList :: "MaskedMMIO list \<Rightarrow> Options \<Rightarrow> Options" where
  "injectMaskedMMIOList maskedMmioList g = g\<lparr>MMIOListInjected := maskedMmioList\<rparr>"

definition setTbxServerPort :: "u16 \<Rightarrow> Options \<Rightarrow> Options" where
  "setTbxServerPort port g = g\<lparr>tbxServerPort := port\<rparr>"

definition setTbxServerIp :: "string \<Rightarrow> Options \<Rightarrow> Options" where
  "setTbxServerIp server g = g\<lparr>tbxServerIp := server\<rparr>"

definition setTbxServerIpLegacy :: "string \<Rightarrow> Options \<Rightarrow> Options" where
  "setTbxServerIpLegacy server = setTbxServerIp server"

definition setTbxFrontdoorMode :: "bool \<Rightarrow> Options \<Rightarrow> Options" where
  "setTbxFrontdoorMode frontdoor g = g\<lparr>tbxFrontdoorMode := frontdoor\<rparr>"

definition setAubStreamCaller :: "u32 \<Rightarrow> Options \<Rightarrow> Options" where
  "setAubStreamCaller caller g = g\<lparr>aubStreamCaller := caller\<rparr>"

section \<open>State\<close>

record SharedMemoryInfo =
  sysMemBase :: u64
  sysMemSize :: u64
  localMemBase :: u64
  localMemSize :: u64

definition noSharedMemory :: SharedMemoryInfo where
  "noSharedMemory = \<lparr>sysMemBase = 0, sysMemSize = 0, localMemBase = 0, localMemSize = 0\<rparr>"

record AubManagerOptions =
  ao_version :: u32
  ao_productFamily :: u32
  ao_devicesCount :: u32
  ao_memoryBankSize :: u64
  ao_stepping :: u32
  ao_localMemorySupported :: bool
  ao_mode :: u32
  ao_gpuAddressSpace :: u64
  ao_sharedMemoryInfo :: SharedMemoryInfo
  ao_throwOnError :: bool
  ao_dataStolenMemorySize :: u64
  ao_programAdditionalEngineMMIO :: bool
  ao_wopcmMemorySize :: u64

record PhysicalAllocationInfo =
  pa_physicalAddress :: u64
  pa_size :: usize
  pa_memoryBank :: u32
  pa_pageSize :: usize

text \<open>
  A vector of groups: the addresses of its elements and its capacity.  The groups themselves are in the store
  of the contexts.  \<open>gh_primaryContextIdToGroupId\<close> is read with \<^verbatim>\<open>operator[]\<close>, which gives 0 for a missing key.
\<close>

record GroupVector =
  gv_elements :: "nat list"
  gv_capacity :: nat

record GroupContextHelper =
  gh_contextGroups :: "nat \<Rightarrow> nat \<Rightarrow> GroupVector"
  gh_groupIds :: "nat \<Rightarrow> nat \<Rightarrow> u32"
  gh_primaryContextIdToGroupId :: "nat \<Rightarrow> nat \<Rightarrow> u32 \<Rightarrow> u32"

definition engineCount :: nat where "engineCount = unat NUM_ENGINES"

text \<open>A context the manager has handed out, by its address.\<close>

datatype HwContext = NullHardwareContext nat | HardwareContextAt nat

text \<open>
  The combined streams hold references to the two streams below them; what is left of them are their flags,
  the pause of the file and the block of the memory writes.  \<open>am_hasAllocator\<close> tells whether
  \<^verbatim>\<open>physicalAddressAllocator\<close> has been set; the allocator, the page tables and the objects of the contexts are in
  \<open>am_hw\<close>.  \<open>am_settings\<close> is the object the manager owns.
\<close>

record 'p AubManagerImp =
  am_gpu :: Gpu
  am_class :: gpu_class
  am_devicesCount :: u32
  am_memoryBankSize :: u64
  am_localMemorySupported :: bool
  am_streamMode :: u32
  am_stepping :: u32
  am_gpuAddressSpace :: u64
  am_ccsCount :: u32
  am_streamAub :: "AubFileStream option"
  am_streamTbx :: "'p TbxStream option"
  am_streamAubTbx :: "bool option"
  am_streamTbxShm :: "'p TbxShmStream option"
  am_streamAubShm :: "(bool \<times> bool) option"
  am_hasAllocator :: bool
  am_hw :: hw_state
  am_hwContexts :: "HwContext list"
  am_groups :: GroupContextHelper
  am_nextAddress :: nat
  am_sharedMemoryInfo :: SharedMemoryInfo
  am_enableThrow :: bool
  am_settings :: "nat option"

text \<open>
  What the operations need beside the manager: the fuel of the waiting loops, the system and the simulator behind
  it, the clock, what the simulator does to shared memory, the contents of fresh variables and arrays, the host
  allocator, the disk with the outcomes of its writes, the shared memory with the translation tables in it (for local
  and for system memory), the global options, the settings, the capacity the library gives a vector that grows to a
  number of elements, and the number of the next context.
\<close>

record 'p mgr_env =
  me_fuel :: nat
  me_api :: "'p socket_api"
  me_peer :: 'p
  me_clock :: "nat \<Rightarrow> int"
  me_simulator :: "nat \<Rightarrow> (u64 \<Rightarrow> u8) \<Rightarrow> u64 \<Rightarrow> u8"
  me_uninit :: u32
  me_newArray :: "nat \<Rightarrow> u8"
  me_aligned_alloc :: "nat \<Rightarrow> usize \<Rightarrow> usize \<Rightarrow> u64"
  me_disk :: "string \<Rightarrow> u8 list"
  me_outcomes :: "IoOutcome list"
  me_memory :: "u64 \<Rightarrow> u8"
  me_translationTable :: "bool \<Rightarrow> translation_table"
  me_options :: Options
  me_settings :: Settings
  me_growth :: "nat \<Rightarrow> nat"
  me_globalContextId :: u32

section \<open>Construction\<close>

definition newGroupContextHelper :: GroupContextHelper where
  "newGroupContextHelper = \<lparr>gh_contextGroups = (\<lambda>i j. \<lparr>gv_elements = [i * engineCount + j], gv_capacity = 4\<rparr>),
     gh_groupIds = (\<lambda>i j. 0), gh_primaryContextIdToGroupId = (\<lambda>i j k. 0)\<rparr>"

definition newContextGroup :: "u32 \<Rightarrow> ContextGroup" where
  "newContextGroup contextGroupCount =
     \<lparr>cg_contextGroupCounter = 0, cg_contexts = replicate (unat contextGroupCount) None\<rparr>"

definition newHwState :: "u32 \<Rightarrow> u32 \<Rightarrow> hw_state" where
  "newHwState contextGroupCount contextId = \<lparr>hs_ggtts = [], hs_ppgtts = [],
     hs_alloc = AllocSimple (makePhysicalAddressAllocatorSimple 0 0 False), hs_contexts = Map.empty,
     hs_groups = (\<lambda>a. if a < 4 * engineCount then Some (newContextGroup contextGroupCount) else None),
     hs_globalContextId = contextId, hs_cmds = []\<rparr>"

definition overrideSizes :: "AubManagerOptions \<Rightarrow> Gpu \<Rightarrow> Gpu" where
  "overrideSizes opts gpu =
     (let gpu = (if ao_dataStolenMemorySize opts \<noteq> 0 then overrideDSMSize (ao_dataStolenMemorySize opts) gpu else gpu)
      in if ao_wopcmMemorySize opts \<noteq> 0 then overrideWOPCMSize (ao_wopcmMemorySize opts) gpu else gpu)"

definition prepareGpu :: "'p mgr_env \<Rightarrow> AubManagerOptions \<Rightarrow> Gpu \<Rightarrow> Gpu" where
  "prepareGpu env opts gpu =
     (let gpu = overrideSizes opts gpu
      in gpu\<lparr>gpu_stolenMemory := CreateStolenMemory (me_aligned_alloc env) (ao_mode opts = mode_tbxShm3)
               (ao_devicesCount opts) (ao_memoryBankSize opts) (getStolenMemorySize gpu (ao_memoryBankSize opts)),
             gpu_programAdditionalEngineMMIO := ao_programAdditionalEngineMMIO opts\<rparr>)"

definition newAubManagerImp :: "'p mgr_env \<Rightarrow> product \<Rightarrow> AubManagerOptions \<Rightarrow> 'p AubManagerImp" where
  "newAubManagerImp env p opts =
     (let gpu = prepareGpu env opts (fst p)
      in \<lparr>am_gpu = gpu, am_class = snd p, am_devicesCount = ao_devicesCount opts,
          am_memoryBankSize = ao_memoryBankSize opts, am_localMemorySupported = ao_localMemorySupported opts,
          am_streamMode = ao_mode opts, am_stepping = ao_stepping opts, am_gpuAddressSpace = ao_gpuAddressSpace opts,
          am_ccsCount = 0, am_streamAub = None, am_streamTbx = None, am_streamAubTbx = None, am_streamTbxShm = None,
          am_streamAubShm = None, am_hasAllocator = False,
          am_hw = newHwState (gpu_getContextGroupCount gpu) (me_globalContextId env), am_hwContexts = [],
          am_groups = newGroupContextHelper, am_nextAddress = 4 * engineCount,
          am_sharedMemoryInfo = ao_sharedMemoryInfo opts, am_enableThrow = ao_throwOnError opts, am_settings = None\<rparr>)"

section \<open>The stream of the mode\<close>

definition throwErrorIfEnabled :: "string \<Rightarrow> 'p AubManagerImp \<Rightarrow> unit result" where
  "throwErrorIfEnabled str m = (if am_enableThrow m then Inl (RuntimeError str) else Inr ())"

definition isFileMode :: "u32 \<Rightarrow> bool" where
  "isFileMode md \<longleftrightarrow> md = mode_aubFile \<or> md = mode_aubFileAndTbx \<or> md = mode_aubFileAndShm \<or> md = mode_aubFileAndShm4"

definition isFileAndShmMode :: "u32 \<Rightarrow> bool" where
  "isFileAndShmMode md \<longleftrightarrow> md = mode_aubFileAndShm \<or> md = mode_aubFileAndShm4"

definition isShm4Mode :: "u32 \<Rightarrow> bool" where
  "isShm4Mode md \<longleftrightarrow> md = mode_tbxShm4 \<or> md = mode_aubFileAndShm4"

text \<open>Whether the pointer is not null.\<close>

definition getStream :: "'p AubManagerImp \<Rightarrow> bool result" where
  "getStream m =
     (if am_streamMode m = mode_aubFile then Inr (am_streamAub m \<noteq> None)
      else if am_streamMode m = mode_tbx then Inr (am_streamTbx m \<noteq> None)
      else if am_streamMode m = mode_aubFileAndTbx then Inr (am_streamAubTbx m \<noteq> None)
      else if IsAnyTbxShmMode (am_streamMode m) then Inr (am_streamTbxShm m \<noteq> None)
      else if isFileAndShmMode (am_streamMode m) then Inr (am_streamAubShm m \<noteq> None)
      else bindR (throwErrorIfEnabled ''Stream is null.'' m) (\<lambda>_. Inr False))"

definition needStream :: "'p AubManagerImp \<Rightarrow> unit result" where
  "needStream m = bindR (getStream m) (\<lambda>s. if s then Inr () else Inl NullDereference)"

text \<open>The functions \<open>initialize\<close> gives the shared memory stream for the three kinds of shared memory.\<close>

definition sharedMemoryAt :: "'p AubManagerImp \<Rightarrow> u64 \<Rightarrow> usize \<Rightarrow> bool \<Rightarrow> u64 \<times> usize" where
  "sharedMemoryAt m physAddress sz isLocal =
     (let info = am_sharedMemoryInfo m;
          memSize = (if isLocal then localMemSize info else sysMemSize info);
          base = (if isLocal then localMemBase info else sysMemBase info)
      in (base + physAddress, memSize - physAddress))"

definition mgr_translate :: "'p AubManagerImp \<Rightarrow> u64 \<Rightarrow> usize \<Rightarrow> bool \<Rightarrow> u64 \<times> usize" where
  "mgr_translate m physAddress sz isLocal =
     (if am_streamMode m = mode_tbxShm3 then (physAddress, sz)
      else if isShm4Mode (am_streamMode m)
      then (case hs_alloc (am_hw m) of
              AllocSHM4 s \<Rightarrow> translatePhysicalAddressToSystemMemory physAddress sz isLocal s
            | _ \<Rightarrow> (0, 0))
      else sharedMemoryAt m physAddress sz isLocal)"

definition shmEnv :: "'p mgr_env \<Rightarrow> 'p AubManagerImp \<Rightarrow> 'p shm_env" where
  "shmEnv env m = \<lparr>sv_api = me_api env, sv_translate = mgr_translate m, sv_clock = me_clock env,
     sv_simulator = me_simulator env, sv_uninit = me_uninit env\<rparr>"

text \<open>Calls of the file stream, of the simulator stream, of the shared memory stream, and of the stream of the mode.\<close>

definition execAub :: "StreamCmd list \<Rightarrow> 'p AubManagerImp \<Rightarrow> 'p AubManagerImp outcome" where
  "execAub cmds m = (case am_streamAub m of
       None \<Rightarrow> failO NullDereference
     | Some s \<Rightarrow> bindO (Some (fileExecAll cmds s)) (\<lambda>s. doneO (m\<lparr>am_streamAub := Some s\<rparr>)))"

definition execTbx :: "'p mgr_env \<Rightarrow> StreamCmd list \<Rightarrow> 'p AubManagerImp \<Rightarrow> 'p AubManagerImp outcome" where
  "execTbx env cmds m = (case am_streamTbx m of
       None \<Rightarrow> failO NullDereference
     | Some s \<Rightarrow> bindO (tbxExecAll (me_fuel env) (me_api env) (me_uninit env) cmds s)
         (\<lambda>s. doneO (m\<lparr>am_streamTbx := Some s\<rparr>)))"

definition execShm :: "'p mgr_env \<Rightarrow> StreamCmd list \<Rightarrow> 'p AubManagerImp \<Rightarrow> 'p AubManagerImp outcome" where
  "execShm env cmds m = (case am_streamTbxShm m of
       None \<Rightarrow> failO NullDereference
     | Some s \<Rightarrow> bindO (shmExecAll (me_fuel env) (shmEnv env m) cmds s) (\<lambda>s. doneO (m\<lparr>am_streamTbxShm := Some s\<rparr>)))"

definition execAubTbx :: "'p mgr_env \<Rightarrow> StreamCmd list \<Rightarrow> 'p AubManagerImp \<Rightarrow> 'p AubManagerImp outcome" where
  "execAubTbx env cmds m = (case (am_streamAub m, am_streamTbx m, am_streamAubTbx m) of
       (Some f, Some t, Some paused) \<Rightarrow>
         bindO (aubTbxExecAll (me_fuel env) (me_api env) (me_uninit env) cmds
                  \<lparr>at_aubFileStream = f, at_tbxStream = t, at_isAubFileStreamPaused = paused\<rparr>)
           (\<lambda>st. doneO (m\<lparr>am_streamAub := Some (at_aubFileStream st), am_streamTbx := Some (at_tbxStream st)\<rparr>))
     | _ \<Rightarrow> failO NullDereference)"

definition execAubShm :: "'p mgr_env \<Rightarrow> StreamCmd list \<Rightarrow> 'p AubManagerImp \<Rightarrow> 'p AubManagerImp outcome" where
  "execAubShm env cmds m = (case (am_streamAub m, am_streamTbxShm m, am_streamAubShm m) of
       (Some f, Some t, Some (paused, blocked)) \<Rightarrow>
         bindO (aubShmExecAll (me_fuel env) (shmEnv env m) cmds
                  \<lparr>as_aubFileStream = f, as_tbxShmStream = t, as_isAubFileStreamPaused = paused,
                   as_isTbxStreamBlockedForMemWrites = blocked\<rparr>)
           (\<lambda>st. doneO (m\<lparr>am_streamAub := Some (as_aubFileStream st), am_streamTbxShm := Some (as_tbxShmStream st)\<rparr>))
     | _ \<Rightarrow> failO NullDereference)"

definition mgr_exec :: "'p mgr_env \<Rightarrow> StreamCmd list \<Rightarrow> 'p AubManagerImp \<Rightarrow> 'p AubManagerImp outcome" where
  "mgr_exec env cmds m =
     (if am_streamMode m = mode_aubFile then execAub cmds m
      else if am_streamMode m = mode_tbx then execTbx env cmds m
      else if am_streamMode m = mode_aubFileAndTbx then execAubTbx env cmds m
      else if IsAnyTbxShmMode (am_streamMode m) then execShm env cmds m
      else if isFileAndShmMode (am_streamMode m) then execAubShm env cmds m
      else failO NullDereference)"

text \<open>\<^verbatim>\<open>getStreamMode\<close> of the stream and \<^verbatim>\<open>arePageTableWritesFullyCommitted\<close>.\<close>

definition streamModeOf :: "'p AubManagerImp \<Rightarrow> u32" where
  "streamModeOf m = (if isFileAndShmMode (am_streamMode m) then as_getStreamMode else am_streamMode m)"

definition writesCommitted :: "'p AubManagerImp \<Rightarrow> bool" where
  "writesCommitted m =
     (if am_streamMode m = mode_aubFileAndTbx then am_streamAubTbx m \<noteq> Some True
      else if isFileAndShmMode (am_streamMode m)
      then (case am_streamAubShm m of None \<Rightarrow> True | Some (paused, blocked) \<Rightarrow> \<not> paused \<and> \<not> blocked)
      else True)"

definition hwEnv :: "'p mgr_env \<Rightarrow> 'p AubManagerImp \<Rightarrow> hw_env" where
  "hwEnv env m = \<lparr>se_gpu = am_gpu m, se_enablePs64 = s_EnablePs64 (me_settings env), se_committed = writesCommitted m,
     he_uninit = me_newArray env\<rparr>"

definition mgrStreamEnv :: "'p mgr_env \<Rightarrow> 'p AubManagerImp \<Rightarrow> stream_env" where
  "mgrStreamEnv env m = streamEnv (hwEnv env m)"

text \<open>Reading a register or a word of the configuration space.\<close>

definition readOn ::
  "'p mgr_env \<Rightarrow> ('p TbxStream \<Rightarrow> (u32 \<times> 'p TbxStream) result) \<Rightarrow> ('p TbxShmStream \<Rightarrow> (u32 \<times> 'p TbxShmStream) result)
    \<Rightarrow> 'p AubManagerImp \<Rightarrow> (u32 \<times> 'p AubManagerImp) result" where
  "readOn env tbx shm m =
     (if am_streamMode m = mode_aubFile then bindR (needStream m) (\<lambda>_. Inr (0, m))
      else if am_streamMode m = mode_tbx \<or> am_streamMode m = mode_aubFileAndTbx
      then (case am_streamTbx m of
              None \<Rightarrow> Inl NullDereference
            | Some s \<Rightarrow> bindR (tbx s) (\<lambda>(v, s). Inr (v, m\<lparr>am_streamTbx := Some s\<rparr>)))
      else if IsAnyTbxShmMode (am_streamMode m) \<or> isFileAndShmMode (am_streamMode m)
      then (case am_streamTbxShm m of
              None \<Rightarrow> Inl NullDereference
            | Some s \<Rightarrow> bindR (shm s) (\<lambda>(v, s). Inr (v, m\<lparr>am_streamTbxShm := Some s\<rparr>)))
      else bindR (needStream m) (\<lambda>_. Inr (0, m)))"

definition stream_readMMIO :: "'p mgr_env \<Rightarrow> u32 \<Rightarrow> 'p AubManagerImp \<Rightarrow> (u32 \<times> 'p AubManagerImp) result" where
  "stream_readMMIO env off m =
     readOn env (tx_readMMIO (me_api env) (me_uninit env) off) (sh_readMMIO (shmEnv env m) off) m"

definition stream_readPCICFG :: "'p mgr_env \<Rightarrow> u32 \<Rightarrow> 'p AubManagerImp \<Rightarrow> (u32 \<times> 'p AubManagerImp) result" where
  "stream_readPCICFG env off m =
     readOn env (tx_readPCICFG (me_api env) (me_uninit env) off) (sh_readPCICFG (shmEnv env m) off) m"

text \<open>What a function of the GPU does to the stream of the mode.\<close>

primrec runProg :: "StreamProg \<Rightarrow> 'p mgr_env \<Rightarrow> 'p AubManagerImp \<Rightarrow> 'p AubManagerImp outcome" where
  "runProg Finish env m = doneO m"
| "runProg (Raise e) env m = failO e"
| "runProg (Call c p) env m = bindO (mgr_exec env [c] m) (runProg p env)"
| "runProg (ReadRegister off f) env m = bindO (Some (stream_readMMIO env off m)) (\<lambda>(v, m). runProg (f v) env m)"

section \<open>Creating the streams\<close>

definition logicErrorIfEnabled :: "string \<Rightarrow> 'p AubManagerImp \<Rightarrow> 'p AubManagerImp result" where
  "logicErrorIfEnabled str m = (if am_enableThrow m then Inl (LogicError str) else Inr m)"

definition setAllocator :: "PhysicalAddressAllocator \<Rightarrow> 'p AubManagerImp \<Rightarrow> 'p AubManagerImp" where
  "setAllocator alloc m = m\<lparr>am_hasAllocator := True, am_hw := (am_hw m)\<lparr>hs_alloc := alloc\<rparr>\<rparr>"

text \<open>The host allocator answers the calls of the stolen memory first.\<close>

definition newHostHeap :: "'p mgr_env \<Rightarrow> 'p AubManagerImp \<Rightarrow> HostHeap" where
  "newHostHeap env m =
     \<lparr>aligned_alloc = (\<lambda>n. me_aligned_alloc env (unat (am_devicesCount m) + n)), storage = []\<rparr>"

definition createAubFileStream :: "'p mgr_env \<Rightarrow> 'p AubManagerImp \<Rightarrow> 'p AubManagerImp" where
  "createAubFileStream env m =
     (if isFileMode (am_streamMode m)
      then m\<lparr>am_streamAub := Some (enableThrowOnError (am_enableThrow m)
               (newAubFileStream (me_disk env) (me_outcomes env)))\<rparr>
      else m)"

definition createShm3Stream :: "'p mgr_env \<Rightarrow> 'p AubManagerImp \<Rightarrow> 'p AubManagerImp result" where
  "createShm3Stream env m =
     (if sysMemBase (am_sharedMemoryInfo m) \<noteq> 0 \<or> localMemBase (am_sharedMemoryInfo m) \<noteq> 0
      then logicErrorIfEnabled
             (if localMemBase (am_sharedMemoryInfo m) \<noteq> 0
              then ''Trying to use shared memory v3 but legacy shared memory for system memory given.''
              else ''Trying to use shared memory v3 but legacy shared memory for local memory given.'') m
      else if gpu_gfxCoreFamily (am_gpu m) \<le> 3
      then logicErrorIfEnabled ''Trying to use shared memory v3 for legacy core family.'' m
      else Inr ((setAllocator (AllocHeap (newHostHeap env m)) m)
             \<lparr>am_streamTbxShm := Some (newTbxShmStream mode_tbxShm3 (me_memory env))\<rparr>))"

definition createSimulatorStream :: "'p mgr_env \<Rightarrow> 'p AubManagerImp \<Rightarrow> 'p AubManagerImp result" where
  "createSimulatorStream env m =
     (let md = am_streamMode m; shm = (md = mode_tbxShm \<or> md = mode_aubFileAndShm)
      in if md = mode_tbx \<or> md = mode_aubFileAndTbx then Inr (m\<lparr>am_streamTbx := Some \<lparr>tx_socket = None\<rparr>\<rparr>)
         else if shm \<or> isShm4Mode md
         then (if sysMemBase (am_sharedMemoryInfo m) = 0
               then logicErrorIfEnabled ''Trying to use shared memory but no shared memory for system memory given.'' m
               else Inr (m\<lparr>am_streamTbxShm :=
                      Some (newTbxShmStream (if shm then mode_tbxShm else mode_tbxShm4) (me_memory env))\<rparr>))
         else if md = mode_tbxShm3 then createShm3Stream env m
         else Inr m)"

text \<open>The references of a combined stream; the null pointer cannot be one.\<close>

definition createCombinedStream :: "'p AubManagerImp \<Rightarrow> 'p AubManagerImp result" where
  "createCombinedStream m =
     (if am_streamMode m = mode_aubFileAndTbx
      then (if am_streamAub m = None \<or> am_streamTbx m = None then Inl NullDereference
            else Inr (m\<lparr>am_streamAubTbx := Some False\<rparr>))
      else if isFileAndShmMode (am_streamMode m)
      then (if am_streamAub m = None \<or> am_streamTbxShm m = None then Inl NullDereference
            else Inr (m\<lparr>am_streamAubShm := Some (False, False)\<rparr>))
      else Inr m)"

definition createStream :: "'p mgr_env \<Rightarrow> 'p AubManagerImp \<Rightarrow> 'p AubManagerImp result" where
  "createStream env m =
     bindR (createSimulatorStream env (createAubFileStream env m)) createCombinedStream"

section \<open>Initialisation\<close>

definition makeSHM4Mapper :: "'p mgr_env \<Rightarrow> 'p AubManagerImp \<Rightarrow> SHM4Mapper" where
  "makeSHM4Mapper env m = PhysicalAddressAllocatorSimple.extend
     (makePhysicalAddressAllocatorSimple (am_devicesCount m) (am_memoryBankSize m) (am_localMemorySupported m))
     (SHM4Mapper.fields (me_translationTable env True) (me_translationTable env False) (newHostHeap env m))"

definition chooseAllocator :: "'p mgr_env \<Rightarrow> 'p AubManagerImp \<Rightarrow> 'p AubManagerImp" where
  "chooseAllocator env m = setAllocator
     (if am_streamMode m = mode_tbxShm3 then AllocHeap (newHostHeap env m)
      else if isShm4Mode (am_streamMode m) then AllocSHM4 (makeSHM4Mapper env m)
      else AllocSimple (makePhysicalAddressAllocatorSimple (am_devicesCount m) (am_memoryBankSize m)
             (am_localMemorySupported m))) m"

definition registerWrites :: "MMIOList \<Rightarrow> StreamCmd list" where
  "registerWrites ws = map (\<lambda>(off, val). reg off val) ws"

text \<open>\<^verbatim>\<open>initializeGlobalMMIO\<close>, \<^verbatim>\<open>setMemoryBankSize\<close> and \<^verbatim>\<open>setGGTTBaseAddresses\<close> on a stream.\<close>

definition globalWrites :: "'p AubManagerImp \<Rightarrow> MMIOList result" where
  "globalWrites m =
     (let cls = am_class m; gpu = am_gpu m; devicesCount = am_devicesCount m
      in bindR (gc_setMemoryBankSize cls gpu devicesCount (am_memoryBankSize m)) (\<lambda>banks.
         Inr (gc_initializeGlobalMMIO cls gpu devicesCount (am_stepping m) @ banks)))"

definition simulatorWrites :: "'p AubManagerImp \<Rightarrow> MMIOList result" where
  "simulatorWrites m =
     bindR (globalWrites m) (\<lambda>ws.
     bindR (gc_setGGTTBaseAddresses (am_class m) (am_gpu m) (am_devicesCount m)) (\<lambda>bases. Inr (ws @ bases)))"

definition connectTbx :: "'p mgr_env \<Rightarrow> 'p AubManagerImp \<Rightarrow> 'p AubManagerImp outcome" where
  "connectTbx env m = (case am_streamTbx m of
       None \<Rightarrow> failO NullDereference
     | Some s \<Rightarrow> bindO (tx_init (me_fuel env) (me_api env) (me_peer env) (tbxServerIp (me_options env))
                         (tbxFrontdoorMode (me_options env)) s) (\<lambda>(_, s). doneO (m\<lparr>am_streamTbx := Some s\<rparr>)))"

definition connectShm :: "'p mgr_env \<Rightarrow> 'p AubManagerImp \<Rightarrow> 'p AubManagerImp outcome" where
  "connectShm env m = (case am_streamTbxShm m of
       None \<Rightarrow> failO NullDereference
     | Some s \<Rightarrow> bindO (sh_init (me_fuel env) (me_api env) (me_peer env) (tbxServerIp (me_options env))
                         (tbxFrontdoorMode (me_options env)) s) (\<lambda>(_, s).
                 bindO (Some (sh_enableThrowOnError (am_enableThrow m) s)) (\<lambda>s.
                 doneO (m\<lparr>am_streamTbxShm := Some s\<rparr>))))"

definition initializeSimulator :: "'p mgr_env \<Rightarrow> 'p AubManagerImp \<Rightarrow> 'p AubManagerImp outcome" where
  "initializeSimulator env m =
     (let md = am_streamMode m
      in if md = mode_aubFileAndTbx \<or> md = mode_tbx
         then bindO (connectTbx env m) (\<lambda>m. bindO (Some (simulatorWrites m)) (\<lambda>ws. execTbx env (registerWrites ws) m))
         else if IsAnyTbxShmMode md \<or> isFileAndShmMode md
         then bindO (connectShm env m) (\<lambda>m. bindO (Some (simulatorWrites m)) (\<lambda>ws. execShm env (registerWrites ws) m))
         else doneO m)"

text \<open>The pass of the loop for device \<open>i\<close>.  The stolen memory was tested before.\<close>

definition tableBank :: "nat \<Rightarrow> 'p AubManagerImp \<Rightarrow> u32" where
  "tableBank i m =
     (if am_localMemorySupported m \<or> gpu_requireLocalMemoryForPageTables (am_gpu m) then push_bit i 1 else mainBank)"

definition mapStolenMemory :: "nat \<Rightarrow> 'p AubManagerImp \<Rightarrow> 'p AubManagerImp result" where
  "mapStolenMemory i m =
     (if isShm4Mode (am_streamMode m)
      then (case (gpu_stolenMemory (am_gpu m), hs_alloc (am_hw m)) of
              (Some stolen, AllocSHM4 s) \<Rightarrow>
                bindR (stolenMemory_getBaseAddress stolen (word_of_nat i)) (\<lambda>base.
                bindR (mapSystemMemoryToPhysicalAddress base (stolenMemory_size stolen) 0x10000
                         (tableBank i m \<noteq> mainBank) 0 s) (\<lambda>s.
                Inr (setAllocator (AllocSHM4 s) m)))
            | _ \<Rightarrow> Inl NullDereference)
      else Inr m)"

definition addTables :: "nat \<Rightarrow> 'p AubManagerImp \<Rightarrow> 'p AubManagerImp result" where
  "addTables i m =
     bindR (gc_getGSMBaseAddress (am_class m) (am_gpu m) (word_of_nat i)) (\<lambda>gttBaseAddress.
     bindR (mapStolenMemory i m) (\<lambda>m.
     bindR (allocatePPGTT (am_class m) (tableBank i m) (am_gpuAddressSpace m) (hs_alloc (am_hw m))) (\<lambda>(ppgtt, alloc).
     bindR (allocateGGTT (tableBank i m) gttBaseAddress) (\<lambda>ggtt.
     Inr (m\<lparr>am_hw := (am_hw m)\<lparr>hs_alloc := alloc, hs_ppgtts := hs_ppgtts (am_hw m) @ [ppgtt],
                               hs_ggtts := hs_ggtts (am_hw m) @ [ggtt]\<rparr>\<rparr>)))))"

fun addAllTables :: "nat list \<Rightarrow> 'p AubManagerImp \<Rightarrow> 'p AubManagerImp result" where
  "addAllTables [] m = Inr m"
| "addAllTables (i # is) m = bindR (addTables i m) (addAllTables is)"

definition injectedWrites :: "'p mgr_env \<Rightarrow> 'p AubManagerImp \<Rightarrow> StreamCmd list" where
  "injectedWrites env m =
     map (\<lambda>w. WriteMMIO (mm_offset w) (mm_value w) (mm_mask w))
       (injectMMIOs (MMIOListInjected (me_options env)) (am_devicesCount m))"

definition injectSimulator :: "'p mgr_env \<Rightarrow> 'p AubManagerImp \<Rightarrow> 'p AubManagerImp outcome" where
  "injectSimulator env m =
     (if am_streamTbx m \<noteq> None then execTbx env (injectedWrites env m) m
      else if am_streamTbxShm m \<noteq> None then execShm env (injectedWrites env m) m
      else doneO m)"

definition sizesValid :: "'p AubManagerImp \<Rightarrow> bool" where
  "sizesValid m \<longleftrightarrow> gpu_stolenMemory (am_gpu m) \<noteq> None
     \<and> gc_isValidDataStolenMemorySize (am_class m) (getDSMSize (am_gpu m))
     \<and> gc_isValidWOPCMSize (am_class m) (getWOPCMSize (am_gpu m))"

definition mgr_initialize :: "'p mgr_env \<Rightarrow> 'p AubManagerImp \<Rightarrow> 'p AubManagerImp outcome" where
  "mgr_initialize env m =
     (if \<not> sizesValid m then doneO m
      else bindO (Some (createStream env m)) (\<lambda>m.
           bindO (Some (getStream m)) (\<lambda>hasStream.
           if \<not> hasStream then doneO m
           else bindO (initializeSimulator env (chooseAllocator env m)) (\<lambda>m.
                bindO (Some (addAllTables [0..<unat (am_devicesCount m)] m)) (\<lambda>m.
                bindO (runProg (gc_initializeDefaultMemoryPools (am_class m) (am_gpu m) (streamModeOf m)
                                  (am_devicesCount m) (am_memoryBankSize m)) env m)
                  (injectSimulator env))))))"

definition isInitialized :: "'p AubManagerImp \<Rightarrow> bool result" where
  "isInitialized m = (if am_streamMode m = mode_null then Inr True else getStream m)"

section \<open>Registers\<close>

definition mgr_writeMMIO :: "'p mgr_env \<Rightarrow> u32 \<Rightarrow> u32 \<Rightarrow> 'p AubManagerImp \<Rightarrow> 'p AubManagerImp outcome" where
  "mgr_writeMMIO env off val m =
     (if am_streamMode m = mode_null then doneO m
      else bindO (Some (needStream m)) (\<lambda>_. mgr_exec env [reg off val] m))"

definition mgr_readMMIO :: "'p mgr_env \<Rightarrow> u32 \<Rightarrow> 'p AubManagerImp \<Rightarrow> (u32 \<times> 'p AubManagerImp) result" where
  "mgr_readMMIO env off m =
     (if am_streamMode m = mode_null then Inr (0, m)
      else bindR (needStream m) (\<lambda>_. stream_readMMIO env off m))"

definition mgr_writePCICFG :: "'p mgr_env \<Rightarrow> u32 \<Rightarrow> u32 \<Rightarrow> 'p AubManagerImp \<Rightarrow> 'p AubManagerImp outcome" where
  "mgr_writePCICFG env off val m =
     (if am_streamMode m = mode_null then doneO m
      else bindO (Some (needStream m)) (\<lambda>_. mgr_exec env [WritePCICFG off val] m))"

definition mgr_readPCICFG :: "'p mgr_env \<Rightarrow> u32 \<Rightarrow> 'p AubManagerImp \<Rightarrow> (u32 \<times> 'p AubManagerImp) result" where
  "mgr_readPCICFG env off m =
     (if am_streamMode m = mode_null then Inr (0, m)
      else bindR (needStream m) (\<lambda>_. stream_readPCICFG env off m))"

definition ccsModeValue :: "u32 \<Rightarrow> u32" where
  "ccsModeValue ccsCount = (if ccsCount \<le> 1 then 0xFFF0000 else if ccsCount = 2 then 0xFFF0208 else 0xFFF0688)"

fun ccsMode_loop :: "'p mgr_env \<Rightarrow> u32 \<Rightarrow> u32 \<Rightarrow> nat \<Rightarrow> 'p AubManagerImp \<Rightarrow> 'p AubManagerImp outcome" where
  "ccsMode_loop env val mmioDevice 0 m = doneO m"
| "ccsMode_loop env val mmioDevice (Suc n) m =
     bindO (mgr_writeMMIO env (mmioDevice + 0x14804) val m) (ccsMode_loop env val (mmioDevice + mmioDeviceOffset) n)"

definition setCCSMode :: "'p mgr_env \<Rightarrow> u32 \<Rightarrow> 'p AubManagerImp \<Rightarrow> 'p AubManagerImp outcome" where
  "setCCSMode env ccsCount m =
     (if am_hwContexts m \<noteq> []
      then (if am_enableThrow m
            then failO (LogicError ''Cannot set CCS mode after hardware contexts have been created.'')
            else doneO m)
      else ccsMode_loop env (ccsModeValue ccsCount) 0 (unat (am_devicesCount m)) (m\<lparr>am_ccsCount := ccsCount\<rparr>))"

section \<open>Calls of a context\<close>

text \<open>
  The operations of a context as values, for the virtual calls; a context of the null mode does nothing.  The
  calls the context makes of the stream are carried out when it returns.
\<close>

datatype ContextCall =
    CtxInitialize
  | CtxRelease
  | CtxPollForCompletion
  | CtxSubmit u64 bool
  | CtxWriteAndSubmit u64 "u8 list option" usize u32 usize
  | CtxWriteMemory2 AllocationParams
  | CtxFreeMemory u64 usize
  | CtxExpectMemory u64 "u8 list" usize u32
  | CtxReadMemory u64 usize u32 usize
  | CtxWriteMMIO u32 u32
  | CtxDumpBufferBIN u64 usize
  | CtxDumpSurface SurfaceInfo

fun contextCall :: "hw_env \<Rightarrow> ContextCall \<Rightarrow> nat \<Rightarrow> hw_state \<Rightarrow> hw_state result" where
  "contextCall he CtxInitialize this st = hw_initialize he this st"
| "contextCall he CtxRelease this st = hw_release this st"
| "contextCall he CtxPollForCompletion this st = bindR (hw_context this st) (\<lambda>c. hw_pollForCompletion c st)"
| "contextCall he (CtxSubmit a ov) this st = submitBatchBuffer this a ov st"
| "contextCall he (CtxWriteAndSubmit a bb sz banks ps) this st = writeAndSubmitBatchBuffer he this a bb sz banks ps st"
| "contextCall he (CtxWriteMemory2 params) this st = bindR (hw_context this st) (\<lambda>c. hw_writeMemory2 he params c st)"
| "contextCall he (CtxFreeMemory a sz) this st = bindR (hw_context this st) (\<lambda>c. hw_freeMemory he a sz c st)"
| "contextCall he (CtxExpectMemory a bs sz op) this st =
     bindR (hw_context this st) (\<lambda>c. hw_expectMemory he a bs sz op c st)"
| "contextCall he (CtxReadMemory a sz banks ps) this st =
     bindR (hw_context this st) (\<lambda>c. hw_readMemory he a sz banks ps c st)"
| "contextCall he (CtxWriteMMIO off val) this st = Inr (hw_writeMMIO off val st)"
| "contextCall he (CtxDumpBufferBIN a sz) this st = Inr (hw_dumpBufferBIN this a sz st)"
| "contextCall he (CtxDumpSurface si) this st = Inr (hw_dumpSurface this si st)"

definition withHw ::
  "'p mgr_env \<Rightarrow> (hw_state \<Rightarrow> hw_state result) \<Rightarrow> 'p AubManagerImp \<Rightarrow> 'p AubManagerImp outcome" where
  "withHw env f m =
     bindO (Some (f ((am_hw m)\<lparr>hs_cmds := []\<rparr>))) (\<lambda>st.
     if hs_cmds st = [] then doneO (m\<lparr>am_hw := st\<rparr>)
     else mgr_exec env (hs_cmds st) (m\<lparr>am_hw := st\<lparr>hs_cmds := []\<rparr>\<rparr>))"

fun callContext :: "'p mgr_env \<Rightarrow> ContextCall \<Rightarrow> HwContext \<Rightarrow> 'p AubManagerImp \<Rightarrow> 'p AubManagerImp outcome" where
  "callContext env call (NullHardwareContext a) m = doneO m"
| "callContext env call (HardwareContextAt a) m = withHw env (contextCall (hwEnv env m) call a) m"

fun forContexts :: "'p mgr_env \<Rightarrow> ContextCall \<Rightarrow> HwContext list \<Rightarrow> 'p AubManagerImp \<Rightarrow> 'p AubManagerImp outcome" where
  "forContexts env call [] m = doneO m"
| "forContexts env call (c # cs) m = bindO (callContext env call c m) (forContexts env call cs)"

fun callContexts :: "'p mgr_env \<Rightarrow> ContextCall list \<Rightarrow> HwContext \<Rightarrow> 'p AubManagerImp \<Rightarrow> 'p AubManagerImp outcome" where
  "callContexts env [] c m = doneO m"
| "callContexts env (call # calls) c m = bindO (callContext env call c m) (callContexts env calls c)"

section \<open>Opening and closing\<close>

definition onAub :: "(AubFileStream \<Rightarrow> AubFileStream result) \<Rightarrow> 'p AubManagerImp \<Rightarrow> 'p AubManagerImp outcome" where
  "onAub f m = (case am_streamAub m of
       None \<Rightarrow> failO NullDereference
     | Some s \<Rightarrow> bindO (Some (f s)) (\<lambda>s. doneO (m\<lparr>am_streamAub := Some s\<rparr>)))"

definition mgr_open :: "'p mgr_env \<Rightarrow> string \<Rightarrow> 'p AubManagerImp \<Rightarrow> 'p AubManagerImp outcome" where
  "mgr_open env aubFileName m =
     bindO (if isFileMode (am_streamMode m)
            then bindO (onAub (open_file aubFileName) m) (\<lambda>m.
                 bindO (onAub (afs_init (aubStreamCaller (me_options env)) (sint (am_stepping m)) (am_gpu m)) m) (\<lambda>m.
                 bindO (Some (globalWrites m)) (\<lambda>ws. bindO (execAub (registerWrites ws) m) (\<lambda>m.
                 bindO (setCCSMode env (am_ccsCount m) m) (\<lambda>m. execAub (injectedWrites env m) m)))))
            else doneO m)
       (\<lambda>m. forContexts env CtxInitialize (am_hwContexts m) m)"

definition closeTbx :: "'p TbxStream \<Rightarrow> 'p TbxStream" where
  "closeTbx st = st\<lparr>tx_socket := map_option tbx_close (tx_socket st)\<rparr>"

definition closeShm :: "'p TbxShmStream \<Rightarrow> 'p TbxShmStream" where
  "closeShm st = st\<lparr>sh_socket := map_option tbx_close (sh_socket st)\<rparr>"

definition closeSocket :: "'p AubManagerImp \<Rightarrow> 'p AubManagerImp result" where
  "closeSocket m = bindR (getStream m) (\<lambda>hasStream.
     let md = am_streamMode m
     in if \<not> hasStream then Inr m
        else if md = mode_tbx \<or> md = mode_aubFileAndTbx
        then Inr (m\<lparr>am_streamTbx := map_option closeTbx (am_streamTbx m)\<rparr>)
        else if IsAnyTbxShmMode md \<or> isFileAndShmMode md
        then Inr (m\<lparr>am_streamTbxShm := map_option closeShm (am_streamTbxShm m)\<rparr>)
        else Inr m)"

definition mgr_close :: "'p mgr_env \<Rightarrow> 'p AubManagerImp \<Rightarrow> 'p AubManagerImp outcome" where
  "mgr_close env m =
     bindO (forContexts env CtxRelease (am_hwContexts m) m) (\<lambda>m.
     if am_streamAub m \<noteq> None then onAub close_file m else doneO m)"

definition mgr_isOpen :: "'p AubManagerImp \<Rightarrow> bool" where
  "mgr_isOpen m =
     (if am_streamMode m = mode_null then True
      else (case am_streamAub m of Some s \<Rightarrow> isOpen s | None \<Rightarrow> False))"

definition mgr_getFileName :: "'p AubManagerImp \<Rightarrow> string" where
  "mgr_getFileName m = (case am_streamAub m of Some s \<Rightarrow> afs_fileName s | None \<Rightarrow> [])"

definition pause :: "bool \<Rightarrow> 'p AubManagerImp \<Rightarrow> 'p AubManagerImp" where
  "pause onoff m = m\<lparr>am_streamAubTbx := map_option (\<lambda>_. onoff) (am_streamAubTbx m),
     am_streamAubShm := map_option (\<lambda>(_, blocked). (onoff, blocked)) (am_streamAubShm m)\<rparr>"

definition blockMemWritesViaTbx :: "bool \<Rightarrow> 'p AubManagerImp \<Rightarrow> 'p AubManagerImp" where
  "blockMemWritesViaTbx onoff m =
     m\<lparr>am_streamAubShm := map_option (\<lambda>(paused, _). (paused, onoff)) (am_streamAubShm m)\<rparr>"

definition mgr_addComment :: "'p mgr_env \<Rightarrow> string \<Rightarrow> 'p AubManagerImp \<Rightarrow> 'p AubManagerImp outcome" where
  "mgr_addComment env message m = bindO (Some (getStream m)) (\<lambda>hasStream.
     if hasStream then mgr_exec env [AddComment message] m else doneO m)"

section \<open>Creating and releasing contexts\<close>

text \<open>A group vector of device \<open>i\<close> and engine \<open>j\<close>; the arrays have four rows of \<open>engineCount\<close>.\<close>

definition groupVector :: "nat \<Rightarrow> nat \<Rightarrow> 'p AubManagerImp \<Rightarrow> GroupVector result" where
  "groupVector i j m =
     (if i < 4 \<and> j < engineCount then Inr (gh_contextGroups (am_groups m) i j) else Inl IndexOutOfRange)"

definition setGroupVector :: "nat \<Rightarrow> nat \<Rightarrow> GroupVector \<Rightarrow> 'p AubManagerImp \<Rightarrow> 'p AubManagerImp" where
  "setGroupVector i j v m = m\<lparr>am_groups := (am_groups m)\<lparr>gh_contextGroups := (gh_contextGroups (am_groups m))
     (i := (gh_contextGroups (am_groups m) i)(j := v))\<rparr>\<rparr>"

text \<open>
  \<^verbatim>\<open>resize\<close> of a vector to \<open>n\<close> elements, more than it has.  Within the capacity the new elements follow; beyond it
  all elements move to new places and the old ones are freed.
\<close>

definition emptyGroup :: ContextGroup where
  "emptyGroup = \<lparr>cg_contextGroupCounter = 0, cg_contexts = []\<rparr>"

fun putGroups :: "nat \<Rightarrow> ContextGroup option list \<Rightarrow> hw_state \<Rightarrow> hw_state" where
  "putGroups a [] st = st"
| "putGroups a (g # gs) st = putGroups (Suc a) gs (st\<lparr>hs_groups := (hs_groups st)(a := g)\<rparr>)"

fun freeGroups :: "nat list \<Rightarrow> hw_state \<Rightarrow> hw_state" where
  "freeGroups [] st = st"
| "freeGroups (a # as) st = freeGroups as (st\<lparr>hs_groups := (hs_groups st)(a := None)\<rparr>)"

definition resizeGroups :: "'p mgr_env \<Rightarrow> nat \<Rightarrow> nat \<Rightarrow> GroupVector \<Rightarrow> nat \<Rightarrow> 'p AubManagerImp \<Rightarrow> 'p AubManagerImp" where
  "resizeGroups env i j v n m =
     (let old = gv_elements v; fresh = am_nextAddress m; added = replicate (n - length old) (Some emptyGroup)
      in if n \<le> gv_capacity v
         then setGroupVector i j (v\<lparr>gv_elements := old @ [fresh..<fresh + (n - length old)]\<rparr>)
                (m\<lparr>am_hw := putGroups fresh added (am_hw m), am_nextAddress := fresh + (n - length old)\<rparr>)
         else setGroupVector i j \<lparr>gv_elements = [fresh..<fresh + n], gv_capacity = max n (me_growth env n)\<rparr>
                (m\<lparr>am_hw := freeGroups old (putGroups fresh (map (hs_groups (am_hw m)) old @ added) (am_hw m)),
                   am_nextAddress := fresh + n\<rparr>))"

text \<open>The groups have the addresses of the vector; \<open>groupAt\<close> is the pointer to one of them.\<close>

definition groupAt :: "nat \<Rightarrow> nat \<Rightarrow> nat \<Rightarrow> 'p AubManagerImp \<Rightarrow> nat result" where
  "groupAt i j k m = bindR (groupVector i j m) (\<lambda>v.
     if k < length (gv_elements v) then Inr (gv_elements v ! k) else Inl IndexOutOfRange)"

definition prepareGroup :: "u32 \<Rightarrow> nat \<Rightarrow> 'p AubManagerImp \<Rightarrow> 'p AubManagerImp result" where
  "prepareGroup contextGroupCount a m =
     bindR (hw_group (Some a) (am_hw m)) (\<lambda>g.
     Inr (m\<lparr>am_hw := setGroup (Some a)
       (g\<lparr>cg_contexts := replicate (unat contextGroupCount) None\<rparr>) (am_hw m)\<rparr>))"

text \<open>The group of a context that names no primary context: a new one.\<close>

definition openGroup ::
  "'p mgr_env \<Rightarrow> nat \<Rightarrow> nat \<Rightarrow> u32 \<Rightarrow> 'p AubManagerImp \<Rightarrow> (u32 \<times> 'p AubManagerImp) result" where
  "openGroup env i j contextId m =
     bindR (groupVector i j m) (\<lambda>v.
     let gh = am_groups m; groupId = gh_groupIds gh i j;
         m = m\<lparr>am_groups := gh\<lparr>gh_primaryContextIdToGroupId := (gh_primaryContextIdToGroupId gh)
               (i := (gh_primaryContextIdToGroupId gh i)(j := (gh_primaryContextIdToGroupId gh i j)(contextId := groupId)))\<rparr>\<rparr>
     in bindR (if unat groupId \<ge> length (gv_elements v)
               then bindR (groupAt i j (unat groupId) (resizeGroups env i j v (unat (groupId + 1)) m)) (\<lambda>a.
                    prepareGroup (gpu_getContextGroupCount (am_gpu m)) a
                      (resizeGroups env i j v (unat (groupId + 1)) m))
               else Inr m) (\<lambda>m.
        Inr (groupId, m\<lparr>am_groups := (am_groups m)\<lparr>gh_groupIds := (gh_groupIds (am_groups m))
               (i := (gh_groupIds (am_groups m) i)(j := groupId + 1))\<rparr>\<rparr>)))"

definition invalidContextId :: u32 where "invalidContextId = -1"

definition selectGroup ::
  "'p mgr_env \<Rightarrow> u32 \<Rightarrow> u32 \<Rightarrow> u32 \<Rightarrow> u32 \<Rightarrow> 'p AubManagerImp \<Rightarrow> (nat \<times> 'p AubManagerImp) result" where
  "selectGroup env device engineType contextId primaryContextId m =
     (let i = unat device; j = unat engineType
      in bindR (groupVector i j m) (\<lambda>_.
         bindR (if primaryContextId = invalidContextId then openGroup env i j contextId m
                else Inr (gh_primaryContextIdToGroupId (am_groups m) i j primaryContextId, m)) (\<lambda>(groupId, m).
         bindR (groupAt i j (unat groupId) m) (\<lambda>a. Inr (a, m)))))"

text \<open>The new object; the references to the tables of the device must exist.\<close>

definition addContext ::
  "u32 \<Rightarrow> CommandStreamerHelper \<Rightarrow> nat option \<Rightarrow> u32 \<Rightarrow> u32 \<Rightarrow> 'p AubManagerImp
    \<Rightarrow> (HwContext \<times> 'p AubManagerImp) result" where
  "addContext device csTraits grp flags priority m =
     (if unat device < length (hs_ggtts (am_hw m))
      then bindR (newHardwareContextImp (am_nextAddress m) device csTraits grp flags priority (am_hw m)) (\<lambda>st.
           let ctxt = HardwareContextAt (am_nextAddress m)
           in Inr (ctxt, m\<lparr>am_hw := st, am_nextAddress := Suc (am_nextAddress m),
                           am_hwContexts := am_hwContexts m @ [ctxt]\<rparr>))
      else Inl IndexOutOfRange)"

definition addNullContext :: "'p AubManagerImp \<Rightarrow> HwContext \<times> 'p AubManagerImp" where
  "addNullContext m = (let ctxt = NullHardwareContext (am_nextAddress m)
     in (ctxt, m\<lparr>am_nextAddress := Suc (am_nextAddress m), am_hwContexts := am_hwContexts m @ [ctxt]\<rparr>))"

definition helperFor :: "u32 \<Rightarrow> u32 \<Rightarrow> 'p AubManagerImp \<Rightarrow> CommandStreamerHelper result" where
  "helperFor device engine m = gc_getCommandStreamerHelper (am_class m) (am_gpu m) device engine"

definition createHardwareContext ::
  "u32 \<Rightarrow> u32 \<Rightarrow> u32 \<Rightarrow> 'p AubManagerImp \<Rightarrow> (HwContext \<times> 'p AubManagerImp) result" where
  "createHardwareContext device engine flags m =
     (if am_streamMode m = mode_null then Inr (addNullContext m)
      else bindR (helperFor device engine m) (\<lambda>csTraits. bindR (needStream m) (\<lambda>_.
           bindR (groupAt (unat device) (unat (csh_engineType csTraits)) 0 m) (\<lambda>grp.
           addContext device csTraits (Some grp) flags priorityNormal m))))"

text \<open>What the second and the third version share.\<close>

definition createInGroup ::
  "'p mgr_env \<Rightarrow> u32 \<Rightarrow> u32 \<Rightarrow> u32 \<Rightarrow> u32 \<Rightarrow> u32 \<Rightarrow> u32 \<Rightarrow> 'p AubManagerImp
    \<Rightarrow> (HwContext \<times> 'p AubManagerImp) result" where
  "createInGroup env contextId primaryContextId device engine flags priority m =
     (if am_streamMode m = mode_null then Inr (addNullContext m)
      else bindR (helperFor device engine m) (\<lambda>csTraits. bindR (needStream m) (\<lambda>_.
           if flags AND contextGroupFlag \<noteq> 0
           then bindR (selectGroup env device (csh_engineType csTraits) contextId primaryContextId m) (\<lambda>(grp, m).
                addContext device csTraits (Some grp) flags priority m)
           else addContext device csTraits None flags priority m)))"

definition createHardwareContext2 ::
  "'p mgr_env \<Rightarrow> u32 \<Rightarrow> u32 \<Rightarrow> u32 \<Rightarrow> u32 \<Rightarrow> u32 \<Rightarrow> 'p AubManagerImp \<Rightarrow> (HwContext \<times> 'p AubManagerImp) result" where
  "createHardwareContext2 env contextId primaryContextId device engine flags =
     createInGroup env contextId primaryContextId device engine flags priorityNormal"

record CreateHardwareContext3Params =
  cp_version :: u32
  cp_size :: u32
  cp_device :: u32
  cp_engine :: u32
  cp_flags :: u32
  cp_contextId :: u32
  cp_primaryContextId :: u32
  cp_priority :: u32

text \<open>The structure has 32 bytes.\<close>

definition createHardwareContext3 ::
  "'p mgr_env \<Rightarrow> CreateHardwareContext3Params option \<Rightarrow> 'p AubManagerImp
    \<Rightarrow> (HwContext option \<times> 'p AubManagerImp) result" where
  "createHardwareContext3 env paramsHeader m = (case paramsHeader of
       None \<Rightarrow> Inr (None, m)
     | Some p \<Rightarrow>
         if cp_version p \<noteq> 1 \<or> cp_size p > 32 then Inr (None, m)
         else bindR (createInGroup env (cp_contextId p) (cp_primaryContextId p) (cp_device p) (cp_engine p)
                       (cp_flags p) (cp_priority p) m) (\<lambda>(ctxt, m). Inr (Some ctxt, m)))"

fun deleteContext :: "'p mgr_env \<Rightarrow> HwContext \<Rightarrow> 'p AubManagerImp \<Rightarrow> 'p AubManagerImp outcome" where
  "deleteContext env (NullHardwareContext a) m = doneO m"
| "deleteContext env (HardwareContextAt a) m = withHw env (deleteHardwareContext a) m"

definition releaseHardwareContext ::
  "'p mgr_env \<Rightarrow> HwContext \<Rightarrow> 'p AubManagerImp \<Rightarrow> (bool \<times> 'p AubManagerImp) outcome" where
  "releaseHardwareContext env ctxt m =
     (if ctxt \<in> set (am_hwContexts m)
      then bindO (deleteContext env ctxt (m\<lparr>am_hwContexts := remove1 ctxt (am_hwContexts m)\<rparr>)) (\<lambda>m. doneO (True, m))
      else doneO (False, m))"

section \<open>Memory\<close>

text \<open>
  A call of the stream on the table of device \<open>i\<close>: what it returns beside the calls, the table and the allocator
  is the first component.
\<close>

definition onPpgtt ::
  "'p mgr_env \<Rightarrow> nat
    \<Rightarrow> (PageTable \<Rightarrow> PhysicalAddressAllocator \<Rightarrow> (StreamCmd list \<times> 'a \<times> PageTable \<times> PhysicalAddressAllocator) result)
    \<Rightarrow> 'p AubManagerImp \<Rightarrow> ('a \<times> 'p AubManagerImp) outcome" where
  "onPpgtt env i f m =
     (if i < length (hs_ppgtts (am_hw m))
      then bindO (Some (f (hs_ppgtts (am_hw m) ! i) (hs_alloc (am_hw m)))) (\<lambda>(cmds, x, ppgtt, alloc).
           bindO (mgr_exec env cmds (m\<lparr>am_hw := (am_hw m)\<lparr>hs_ppgtts := (hs_ppgtts (am_hw m))[i := ppgtt],
                                                         hs_alloc := alloc\<rparr>\<rparr>)) (\<lambda>m. doneO (x, m)))
      else failO IndexOutOfRange)"

definition withoutPages ::
  "(PageTable \<Rightarrow> PhysicalAddressAllocator \<Rightarrow> (StreamCmd list \<times> PageTable \<times> PhysicalAddressAllocator) result)
    \<Rightarrow> PageTable \<Rightarrow> PhysicalAddressAllocator \<Rightarrow> (StreamCmd list \<times> unit \<times> PageTable \<times> PhysicalAddressAllocator) result" where
  "withoutPages f ppgtt alloc = bindR (f ppgtt alloc) (\<lambda>(cmds, ppgtt, alloc). Inr (cmds, (), ppgtt, alloc))"

fun forPpgtts ::
  "'p mgr_env \<Rightarrow> nat list
    \<Rightarrow> (PageTable \<Rightarrow> PhysicalAddressAllocator \<Rightarrow> (StreamCmd list \<times> PageTable \<times> PhysicalAddressAllocator) result)
    \<Rightarrow> 'p AubManagerImp \<Rightarrow> 'p AubManagerImp outcome" where
  "forPpgtts env [] f m = doneO m"
| "forPpgtts env (i # is) f m = bindO (onPpgtt env i (withoutPages f) m) (\<lambda>(_, m). forPpgtts env is f m)"

definition otherDevices :: "'p AubManagerImp \<Rightarrow> nat list" where
  "otherDevices m = [1..<length (hs_ppgtts (am_hw m))]"

definition supportedSize :: "u32 \<Rightarrow> usize \<Rightarrow> 'p AubManagerImp \<Rightarrow> usize result" where
  "supportedSize memoryBanks pageSize m =
     bindR (helperFor 0 ENGINE_CCS m) (\<lambda>csTraits. getSupportedPageSize csTraits memoryBanks pageSize)"

definition writeAndClone ::
  "'p mgr_env \<Rightarrow> AllocationParams \<Rightarrow> AllocationParams \<Rightarrow> 'p AubManagerImp \<Rightarrow> (PageInfo list \<times> 'p AubManagerImp) outcome" where
  "writeAndClone env params cloneParams m =
     bindO (Some (needStream m)) (\<lambda>_.
     bindO (onPpgtt env 0 (writeMemory (mgrStreamEnv env m) params) m) (\<lambda>(pages, m).
     bindO (forPpgtts env (otherDevices m) (cloneMemory (mgrStreamEnv env m) pages cloneParams) m) (\<lambda>m.
     doneO (pages, m))))"

definition mgr_writeMemory2 :: "'p mgr_env \<Rightarrow> AllocationParams \<Rightarrow> 'p AubManagerImp \<Rightarrow> 'p AubManagerImp outcome" where
  "mgr_writeMemory2 env params m =
     (if am_streamMode m = mode_null then doneO m
      else bindO (Some (supportedSize (ap_memoryBanks params) (ap_pageSize params) m)) (\<lambda>pageSize.
           let params = params\<lparr>ap_pageSize := pageSize\<rparr>
           in bindO (writeAndClone env params params m) (\<lambda>(_, m). doneO m)))"

definition mgr_writeMemory ::
  "'p mgr_env \<Rightarrow> u64 \<Rightarrow> u8 list option \<Rightarrow> usize \<Rightarrow> u32 \<Rightarrow> int \<Rightarrow> usize \<Rightarrow> 'p AubManagerImp \<Rightarrow> 'p AubManagerImp outcome" where
  "mgr_writeMemory env gfxAddress memory sz memoryBanks hint pageSize =
     mgr_writeMemory2 env (makeAllocationParams gfxAddress memory sz memoryBanks hint pageSize)"

definition writePageTableEntries ::
  "'p mgr_env \<Rightarrow> u64 \<Rightarrow> usize \<Rightarrow> u32 \<Rightarrow> int \<Rightarrow> PageInfo list \<Rightarrow> usize \<Rightarrow> 'p AubManagerImp
    \<Rightarrow> (PageInfo list \<times> 'p AubManagerImp) outcome" where
  "writePageTableEntries env gfxAddress sz memoryBanks hint lastLevelPages pageSize m =
     (if am_streamMode m = mode_null then doneO (lastLevelPages, m)
      else bindO (Some (supportedSize memoryBanks pageSize m)) (\<lambda>pageSize.
           bindO (writeAndClone env (makeAllocationParams gfxAddress None sz memoryBanks hint pageSize)
                    (makeAllocationParams gfxAddress None sz memoryBanks 0 pageSize) m) (\<lambda>(pages, m).
           doneO (lastLevelPages @ pages, m))))"

text \<open>\<open>memoryAddress\<close> is the value of the pointer, which the comment of the stream shows.\<close>

definition mgr_writePhysicalMemoryPages ::
  "'p mgr_env \<Rightarrow> u64 \<Rightarrow> u8 list \<Rightarrow> PageInfo list \<Rightarrow> usize \<Rightarrow> int \<Rightarrow> 'p AubManagerImp \<Rightarrow> 'p AubManagerImp outcome" where
  "mgr_writePhysicalMemoryPages env memoryAddress memory pages sz hint m =
     (if am_streamMode m = mode_null then doneO m
      else bindO (Some (assertD (me_api env) (1 \<le> length pages) (needStream m))) (\<lambda>_.
           mgr_exec env (writePhysicalMemoryPages memoryAddress memory sz pages hint) m))"

definition mgr_freeMemory :: "'p mgr_env \<Rightarrow> u64 \<Rightarrow> usize \<Rightarrow> 'p AubManagerImp \<Rightarrow> 'p AubManagerImp outcome" where
  "mgr_freeMemory env gfxAddress sz m =
     (if am_streamMode m = mode_null then doneO m
      else bindO (Some (needStream m)) (\<lambda>_.
           forPpgtts env [0..<length (hs_ppgtts (am_hw m))] (freeMemory (mgrStreamEnv env m) gfxAddress sz) m))"

text \<open>The size of a reservation, rounded up to whole pages from the offset in the first one.\<close>

definition pageAlignedSize :: "u64 \<Rightarrow> usize \<Rightarrow> usize \<Rightarrow> usize" where
  "pageAlignedSize gfxAddress sz pageSize =
     ((gfxAddress AND (pageSize - 1)) + sz + pageSize - 1) AND NOT (pageSize - 1)"

definition reservable :: "usize \<Rightarrow> usize \<Rightarrow> u32 \<Rightarrow> bool" where
  "reservable sz pageSize memoryBanks \<longleftrightarrow> sz \<noteq> 0 \<and> pageSize \<noteq> 0
     \<and> (memoryBanks \<noteq> 0 \<longrightarrow> memoryBanks AND (memoryBanks - 1) = 0)"

definition reserveWith ::
  "(u32 \<Rightarrow> usize \<Rightarrow> usize \<Rightarrow> PhysicalAddressAllocator \<Rightarrow> (u64 \<times> PhysicalAddressAllocator) result)
    \<Rightarrow> AllocationParams \<Rightarrow> usize \<Rightarrow> 'p AubManagerImp \<Rightarrow> (bool \<times> PhysicalAllocationInfo \<times> 'p AubManagerImp) result" where
  "reserveWith reserve params pageSize m =
     (if am_hasAllocator m
      then bindR (reserve (ap_memoryBanks params)
                    (pageAlignedSize (ap_gfxAddress params) (ap_size params) pageSize) pageSize (hs_alloc (am_hw m)))
             (\<lambda>(a, alloc). Inr (True, \<lparr>pa_physicalAddress = a, pa_size = ap_size params,
                pa_memoryBank = ap_memoryBanks params, pa_pageSize = pageSize\<rparr>,
                m\<lparr>am_hw := (am_hw m)\<lparr>hs_alloc := alloc\<rparr>\<rparr>))
      else Inl NullDereference)"

definition mgr_reservePhysicalMemory ::
  "AllocationParams \<Rightarrow> PhysicalAllocationInfo \<Rightarrow> 'p AubManagerImp
    \<Rightarrow> (bool \<times> PhysicalAllocationInfo \<times> 'p AubManagerImp) result" where
  "mgr_reservePhysicalMemory params info m =
     (if am_streamMode m = mode_null then Inr (True, info, m)
      else bindR (supportedSize (ap_memoryBanks params) (ap_pageSize params) m) (\<lambda>pageSize.
           if \<not> reservable (ap_size params) pageSize (ap_memoryBanks params) then Inr (False, info, m)
           else reserveWith reservePhysicalMemory params pageSize m))"

definition reserveSpace ::
  "u32 \<Rightarrow> usize \<Rightarrow> usize \<Rightarrow> PhysicalAddressAllocator \<Rightarrow> (u64 \<times> PhysicalAddressAllocator) result" where
  "reserveSpace memoryBank sz alignment alloc = (case alloc of
       AllocSHM4 s \<Rightarrow> bindR (reserveOnlyPhysicalSpace memoryBank sz alignment s) (\<lambda>(a, s). Inr (a, AllocSHM4 s))
     | _ \<Rightarrow> Inl NullDereference)"

definition mgr_reserveOnlyPhysicalSpace ::
  "AllocationParams \<Rightarrow> PhysicalAllocationInfo \<Rightarrow> 'p AubManagerImp
    \<Rightarrow> (bool \<times> PhysicalAllocationInfo \<times> 'p AubManagerImp) result" where
  "mgr_reserveOnlyPhysicalSpace params info m =
     (if am_streamMode m = mode_null then Inr (True, info, m)
      else bindR (supportedSize (ap_memoryBanks params) (ap_pageSize params) m) (\<lambda>pageSize.
           if \<not> isShm4Mode (am_streamMode m) then Inr (False, info, m)
           else if \<not> reservable (ap_size params) pageSize (ap_memoryBanks params) then Inr (False, info, m)
           else reserveWith reserveSpace params pageSize m))"

definition mgr_mapSystemMemoryToPhysicalAddress ::
  "u64 \<Rightarrow> usize \<Rightarrow> usize \<Rightarrow> bool \<Rightarrow> u64 \<Rightarrow> 'p AubManagerImp \<Rightarrow> (bool \<times> 'p AubManagerImp) result" where
  "mgr_mapSystemMemoryToPhysicalAddress physAddress sz alignment isLocal p m =
     (if \<not> isShm4Mode (am_streamMode m)
      then bindR (throwErrorIfEnabled ''mapSystemMemoryToPhysicalAddress is not supported for this stream mode.'' m)
             (\<lambda>_. Inr (False, m))
      else case hs_alloc (am_hw m) of
             AllocSHM4 s \<Rightarrow> bindR (mapSystemMemoryToPhysicalAddress physAddress sz alignment isLocal p s) (\<lambda>s.
               Inr (True, setAllocator (AllocSHM4 s) m))
           | _ \<Rightarrow> Inl NullDereference)"

definition mgr_translatePhysicalAddressToSystemMemory :: "u64 \<Rightarrow> bool \<Rightarrow> 'p AubManagerImp \<Rightarrow> u64 result" where
  "mgr_translatePhysicalAddressToSystemMemory physicalAddress isLocal m =
     (let md = am_streamMode m
      in if isShm4Mode md
         then (case hs_alloc (am_hw m) of
                 AllocSHM4 s \<Rightarrow> Inr (fst (translatePhysicalAddressToSystemMemory physicalAddress 0x1000 isLocal s))
               | _ \<Rightarrow> Inl NullDereference)
         else if md = mode_tbxShm3 then Inr physicalAddress
         else if md = mode_tbxShm \<or> md = mode_aubFileAndShm
         then Inr (fst (sharedMemoryAt m physicalAddress 0x1000 isLocal))
         else bindR (throwErrorIfEnabled
                       ''translatePhysicalAddressToSystemMemory is not supported for this stream mode.'' m) (\<lambda>_. Inr 0))"

definition mgr_mapGpuVa2 ::
  "'p mgr_env \<Rightarrow> u64 \<Rightarrow> AllocationParams \<Rightarrow> 'p AubManagerImp \<Rightarrow> (bool \<times> 'p AubManagerImp) outcome" where
  "mgr_mapGpuVa2 env physicalAddress params m =
     bindO (Some (getStream m)) (\<lambda>_.
     bindO (forPpgtts env [0..<length (hs_ppgtts (am_hw m))] (mapGpuVa (mgrStreamEnv env m) params physicalAddress) m)
       (\<lambda>m. doneO (True, m)))"

definition mgr_mapGpuVa ::
  "'p mgr_env \<Rightarrow> u64 \<Rightarrow> usize \<Rightarrow> PhysicalAllocationInfo \<Rightarrow> 'p AubManagerImp \<Rightarrow> (bool \<times> 'p AubManagerImp) outcome" where
  "mgr_mapGpuVa env gfxAddress sz info =
     mgr_mapGpuVa2 env (pa_physicalAddress info)
       (makeAllocationParams gfxAddress None sz (pa_memoryBank info) 0 (pa_pageSize info))"

section \<open>The life of a manager\<close>

text \<open>
  The global pointer to the settings and the objects it may point to.  An object that has been destroyed is no
  longer in \<open>pg_objects\<close>.
\<close>

record program =
  pg_globalSettings :: "nat option"
  pg_objects :: "nat \<Rightarrow> Settings option"
  pg_next :: nat

definition startProgram :: program where
  "startProgram = \<lparr>pg_globalSettings = None, pg_objects = Map.empty, pg_next = 0\<rparr>"

definition theSettings :: "program \<Rightarrow> Settings result" where
  "theSettings pg = (case pg_globalSettings pg of
       None \<Rightarrow> Inl NullDereference
     | Some a \<Rightarrow> (case pg_objects pg a of None \<Rightarrow> Inl UseAfterFree | Some s \<Rightarrow> Inr s))"

text \<open>The object a \<^verbatim>\<open>create\<close> makes when there is none, and the end of an object.\<close>

definition provideSettings :: "bool \<Rightarrow> environment \<Rightarrow> program \<Rightarrow> nat option \<times> program" where
  "provideSettings disabled environ pg =
     (if pg_globalSettings pg = None
      then (Some (pg_next pg),
            \<lparr>pg_globalSettings = Some (pg_next pg),
             pg_objects = (pg_objects pg)(pg_next pg \<mapsto> newSettings disabled environ), pg_next = Suc (pg_next pg)\<rparr>)
      else (None, pg))"

definition freeSettings :: "nat option \<Rightarrow> program \<Rightarrow> program" where
  "freeSettings p pg = (case p of None \<Rightarrow> pg | Some a \<Rightarrow> pg\<lparr>pg_objects := (pg_objects pg)(a := None)\<rparr>)"

definition setSettings :: "nat option \<Rightarrow> 'p AubManagerImp \<Rightarrow> 'p AubManagerImp" where
  "setSettings settingsIn m = m\<lparr>am_settings := settingsIn\<rparr>"

text \<open>
  The destructor: the contexts are not destroyed; the members are.  What is left of the file stream is its disk.
\<close>

definition deleteAubManagerImp ::
  "'p AubManagerImp \<Rightarrow> program \<Rightarrow> (AubFileStream option \<times> program) result" where
  "deleteAubManagerImp m pg =
     (let pg = freeSettings (am_settings m)
                 (if pg_globalSettings pg = am_settings m then pg\<lparr>pg_globalSettings := None\<rparr> else pg)
      in case am_streamAub m of
           None \<Rightarrow> Inr (None, pg)
         | Some s \<Rightarrow> bindR (deleteAubFileStream s) (\<lambda>s. Inr (Some s, pg)))"

text \<open>
  The settings are read when the GPU is made; the sources read them at the first use.  When an exception leaves
  the function, its own pointer to the settings goes with it.
\<close>

definition makeManager ::
  "'p mgr_env \<Rightarrow> Settings result \<Rightarrow> AubManagerOptions \<Rightarrow> ('p AubManagerImp \<times> bool) option outcome" where
  "makeManager env sr opts =
     (if ao_version opts \<noteq> 1 \<or> getGpu defaultSettings (ao_productFamily opts) = None then doneO None
      else bindO (Some sr) (\<lambda>s. case getGpu s (ao_productFamily opts) of
             None \<Rightarrow> doneO None
           | Some p \<Rightarrow>
               bindO (mgr_initialize (env\<lparr>me_settings := s\<rparr>) (newAubManagerImp (env\<lparr>me_settings := s\<rparr>) p opts)) (\<lambda>m.
               bindO (Some (isInitialized m)) (\<lambda>ready. doneO (Some (m, ready))))))"

definition create ::
  "'p mgr_env \<Rightarrow> bool \<Rightarrow> environment \<Rightarrow> AubManagerOptions \<Rightarrow> program
    \<Rightarrow> ('p AubManagerImp option result \<times> program) option" where
  "create env disabled environ opts pg =
     (let (settings, pg) = provideSettings disabled environ pg
      in case makeManager env (theSettings pg) opts of
           None \<Rightarrow> None
         | Some (Inl e) \<Rightarrow> Some (Inl e, freeSettings settings pg)
         | Some (Inr None) \<Rightarrow> Some (Inr None, freeSettings settings pg)
         | Some (Inr (Some (m, ready))) \<Rightarrow>
             if ready then Some (Inr (Some (setSettings settings m)), pg)
             else Some (case deleteAubManagerImp (setSettings settings m) pg of
                          Inl e \<Rightarrow> (Inl e, pg) | Inr (_, pg) \<Rightarrow> (Inr None, pg)))"

end
