(* ===== verification/ManagerInvariant.thy ===== *)
theory ManagerInvariant
  imports AubManager
begin

text \<open>
  The invariant of a manager: which objects its lists and pointers name.  What each operation keeps, the steps of
  a manager and the states they reach from a manager that \<^verbatim>\<open>create\<close> has returned.
\<close>

section \<open>What the calls of a context keep\<close>

text \<open>
  The objects of a state: the number of the tables, the contexts that exist with the group each points to, and
  the groups that exist.
\<close>

definition objects :: "hw_state \<Rightarrow> nat \<times> nat \<times> (nat \<Rightarrow> nat option option) \<times> nat set" where
  "objects st = (length (hs_ggtts st), length (hs_ppgtts st), (\<lambda>a. map_option hc_contextGroup (hs_contexts st a)),
     dom (hs_groups st))"

definition contextObjects :: "HardwareContextImp \<times> hw_state \<Rightarrow> nat option \<times> nat \<times> nat \<times> (nat \<Rightarrow> nat option option) \<times> nat set" where
  "contextObjects = (\<lambda>(c, st). (hc_contextGroup c, objects st))"

named_theorems keeps_dests \<open>what a successful call keeps\<close>

lemma contextObjects_pair [simp]: "contextObjects (c, st) = (hc_contextGroup c, objects st)"
  by (simp add: contextObjects_def)

lemma objects_updates [simp]:
  "objects (st\<lparr>hs_cmds := cs\<rparr>) = objects st" "objects (st\<lparr>hs_alloc := al\<rparr>) = objects st"
  "objects (emitCmds cmds st) = objects st" "objects (setGgtt c g st) = objects st" "objects (setPpgtt c n st) = objects st"
  by (simp_all add: objects_def emitCmds_def setGgtt_def setPpgtt_def)

lemma objects_setContext:
  "map_option hc_contextGroup (hs_contexts st this) = Some (hc_contextGroup c) \<Longrightarrow> objects (setContext this c st) = objects st"
  by (auto simp: objects_def setContext_def fun_eq_iff)

lemma objects_setGroup: "hw_group p st = Inr g \<Longrightarrow> objects (setGroup p g' st) = objects st"
  by (cases p) (auto simp: objects_def setGroup_def hw_group_def split: option.splits)

lemma hw_context_group:
  "hw_context this st = Inr c \<Longrightarrow> map_option hc_contextGroup (hs_contexts st this) = Some (hc_contextGroup c)"
  by (simp add: hw_context_def split: option.splits)

lemma objects_contexts:
  "objects st' = objects st \<Longrightarrow> map_option hc_contextGroup (hs_contexts st' a) = map_option hc_contextGroup (hs_contexts st a)"
  by (simp add: objects_def fun_eq_iff)

lemma ggttAlloc_keeps [keeps_dests]: "ggttAlloc c sz ps st = Inr (a, st') \<Longrightarrow> objects st' = objects st"
  by (auto simp: ggttAlloc_def bindR_Inr_iff split_beta Let_def)

lemma ggttWrite_keeps [keeps_dests]: "ggttWrite c a bs sz hint ps st = Inr st' \<Longrightarrow> objects st' = objects st"
  by (auto simp: ggttWrite_def bindR_Inr_iff)

lemma initializeStatusPages_keeps [keeps_dests]: "initializeStatusPages ps s = Inr s' \<Longrightarrow> contextObjects s' = contextObjects s"
  by (cases s; cases s') (auto simp: initializeStatusPages_def bindR_Inr_iff dest!: keeps_dests)

lemma initializeRing_keeps [keeps_dests]: "initializeRing ps s = Inr s' \<Longrightarrow> contextObjects s' = contextObjects s"
  by (cases s; cases s') (auto simp: initializeRing_def bindR_Inr_iff dest!: keeps_dests)

lemma initializeLRCA_keeps [keeps_dests]: "initializeLRCA env ps s = Inr s' \<Longrightarrow> contextObjects s' = contextObjects s"
  by (cases s; cases s') (auto simp: initializeLRCA_def Let_def bindR_Inr_iff dest!: keeps_dests)

lemma initializeRingState_keeps [keeps_dests]: "initializeRingState env ps s = Inr s' \<Longrightarrow> contextObjects s' = contextObjects s"
  by (cases s; cases s')
    (auto simp: initializeRingState_def Let_def bindR_Inr_iff dest!: keeps_dests split: if_splits)

lemma writeLRCA_keeps [keeps_dests]: "writeLRCA this ps s = Inr s' \<Longrightarrow> contextObjects s' = contextObjects s"
  by (cases s; cases s') (auto simp: writeLRCA_def Let_def bindR_Inr_iff dest!: keeps_dests)

lemma enterGroup_keeps [keeps_dests]: "enterGroup this s = Inr s' \<Longrightarrow> contextObjects s' = contextObjects s"
  by (cases s; cases s')
    (auto simp: enterGroup_def bindR_Inr_iff assertR_Inr_iff objects_setGroup split: if_splits)

lemma stored_keeps:
  "hw_context this st = Inr c \<Longrightarrow> contextObjects (c', st') = contextObjects (c, st) \<Longrightarrow>
   objects (setContext this c' st') = objects st"
  using objects_contexts [of st' st this] by (simp add: objects_setContext hw_context_group)

lemma hw_initialize_keeps [keeps_dests]: "hw_initialize env this st = Inr st' \<Longrightarrow> objects st' = objects st"
  by (auto simp: hw_initialize_def bindR_Inr_iff stored_keeps split: if_splits dest!: keeps_dests)

lemma dissolveGroup_keeps [keeps_dests]: "dissolveGroup cs st = Inr st' \<Longrightarrow> objects st' = objects st"
proof (induction cs st rule: dissolveGroup.induct)
  case (3 a cs st)
  then show ?case
    by (auto simp: bindR_Inr_iff objects_setContext hw_context_group)
qed simp_all

lemma hw_group_keeps: "hw_group p st = Inr g \<Longrightarrow> objects st' = objects st \<Longrightarrow> \<exists>g'. hw_group p st' = Inr g'"
  by (cases p; cases "hs_groups st' (the p)") (auto simp: hw_group_def objects_def dest: equalityD2 split: option.splits)

lemma leaveGroup_keeps [keeps_dests]: "leaveGroup this c st = Inr st' \<Longrightarrow> objects st' = objects st"
  by (auto simp: leaveGroup_def bindR_Inr_iff Let_def split: if_splits dest!: dissolveGroup_keeps)
    (metis hw_group_keeps objects_setGroup)+

lemma hw_release_keeps [keeps_dests]: "hw_release this st = Inr st' \<Longrightarrow> objects st' = objects st"
  by (auto simp: hw_release_def bindR_Inr_iff Let_def objects_setContext hw_context_group dest!: leaveGroup_keeps)

lemma hw_pollForCompletion_keeps [keeps_dests]: "hw_pollForCompletion c st = Inr st' \<Longrightarrow> objects st' = objects st"
  by (auto simp: hw_pollForCompletion_def bindR_Inr_iff split: if_splits)

lemma wrapRing_keeps [keeps_dests]: "wrapRing ps n s = Inr s' \<Longrightarrow> contextObjects s' = contextObjects s"
  by (cases s; cases s') (auto simp: wrapRing_def Let_def bindR_Inr_iff dest!: keeps_dests split: if_splits)

lemma writeRing_keeps [keeps_dests]: "writeRing ps cmds n s = Inr s' \<Longrightarrow> contextObjects s' = contextObjects s"
  by (cases s; cases s') (auto simp: writeRing_def Let_def bindR_Inr_iff dest!: keeps_dests)

lemma updateRegisters_keeps: "updateRegisters ov h c = Inr (c', x) \<Longrightarrow> hc_contextGroup c' = hc_contextGroup c"
  by (auto simp: updateRegisters_def Let_def bindR_Inr_iff split: if_splits)

lemma writeRegisters_keeps: "writeRegisters ps (c, x) st = Inr (c', st') \<Longrightarrow> contextObjects (c', st') = contextObjects (c, st)"
  by (cases x) (auto simp: writeRegisters_def bindR_Inr_iff dest!: keeps_dests split: if_splits)

lemma hw_resubmit_keeps [keeps_dests]: "hw_resubmit c st = Inr st' \<Longrightarrow> objects st' = objects st"
  by (auto simp: hw_resubmit_def Let_def bindR_Inr_iff)

lemma submitBatchBuffer_keeps [keeps_dests]:
  assumes "submitBatchBuffer this a ov st = Inr st'"
  shows "objects st' = objects st"
proof -
  obtain c ps n c1 st1 c2 st2 c3 x c4 st4 where c: "hw_context this st = Inr c"
    and steps: "wrapRing ps n (c, st) = Inr (c1, st1)" "writeRing ps (ringCommands c a) n (c1, st1) = Inr (c2, st2)"
      "updateRegisters ov (hc_ringTail c1) c2 = Inr (c3, x)" "writeRegisters ps (c3, x) st2 = Inr (c4, st4)"
    and st': "hw_resubmit c4 (setContext this c4 st4) = Inr st'"
    using assms by (auto simp: submitBatchBuffer_def Let_def bindR_Inr_iff)
  have "contextObjects (c4, st4) = contextObjects (c, st)"
    using wrapRing_keeps [OF steps(1)] writeRing_keeps [OF steps(2)] updateRegisters_keeps [OF steps(3)]
      writeRegisters_keeps [OF steps(4)] by simp
  then show ?thesis
    using hw_resubmit_keeps [OF st'] stored_keeps [OF c] by simp
qed

lemma memory_calls_keep [keeps_dests]:
  "hw_writeMemory2 env params c st = Inr st' \<Longrightarrow> objects st' = objects st"
  "hw_freeMemory env a sz c st = Inr st' \<Longrightarrow> objects st' = objects st"
  "hw_expectMemory env a bs sz op c st = Inr st' \<Longrightarrow> objects st' = objects st"
  "hw_readMemory env a sz banks ps c st = Inr st' \<Longrightarrow> objects st' = objects st"
  by (auto simp: hw_writeMemory2_def hw_freeMemory_def hw_expectMemory_def hw_readMemory_def bindR_Inr_iff)

lemma contextCall_keeps: "contextCall he call this st = Inr st' \<Longrightarrow> objects st' = objects st"
  by (cases call)
    (auto simp: bindR_Inr_iff writeAndSubmitBatchBuffer_def hw_writeMemory_def hw_writeMMIO_def hw_dumpBufferBIN_def
      hw_dumpSurface_def dest!: keeps_dests)

section \<open>What the operations of the manager keep\<close>

definition mgrObjects ::
  "'p AubManagerImp \<Rightarrow> (u32 \<times> u32 \<times> bool) \<times> (bool \<times> bool \<times> bool \<times> bool \<times> bool)
    \<times> (nat \<times> nat \<times> (nat \<Rightarrow> nat option option) \<times> nat set) \<times> HwContext list \<times> (nat \<Rightarrow> nat \<Rightarrow> GroupVector) \<times> nat" where
  "mgrObjects m = ((am_streamMode m, am_devicesCount m, am_enableThrow m),
     (am_streamAub m = None, am_streamTbx m = None, am_streamAubTbx m = None, am_streamTbxShm m = None,
      am_streamAubShm m = None), objects (am_hw m), am_hwContexts m, gh_contextGroups (am_groups m), am_nextAddress m)"

lemma mgrObjects_updates [simp]:
  "mgrObjects (m\<lparr>am_streamAub := x\<rparr>) = mgrObjects m \<longleftrightarrow> (x = None \<longleftrightarrow> am_streamAub m = None)"
  "mgrObjects (m\<lparr>am_streamTbx := y\<rparr>) = mgrObjects m \<longleftrightarrow> (y = None \<longleftrightarrow> am_streamTbx m = None)"
  "mgrObjects (m\<lparr>am_streamTbxShm := z\<rparr>) = mgrObjects m \<longleftrightarrow> (z = None \<longleftrightarrow> am_streamTbxShm m = None)"
  "mgrObjects (m\<lparr>am_streamAub := x, am_streamTbx := y\<rparr>) = mgrObjects m
    \<longleftrightarrow> (x = None \<longleftrightarrow> am_streamAub m = None) \<and> (y = None \<longleftrightarrow> am_streamTbx m = None)"
  "mgrObjects (m\<lparr>am_streamAub := x, am_streamTbxShm := z\<rparr>) = mgrObjects m
    \<longleftrightarrow> (x = None \<longleftrightarrow> am_streamAub m = None) \<and> (z = None \<longleftrightarrow> am_streamTbxShm m = None)"
  "mgrObjects (m\<lparr>am_hw := st\<rparr>) = mgrObjects m \<longleftrightarrow> objects st = objects (am_hw m)"
  "mgrObjects (m\<lparr>am_ccsCount := n\<rparr>) = mgrObjects m"
  by (auto simp: mgrObjects_def)

lemma exec_keeps [keeps_dests]:
  "execAub cmds m = doneO m' \<Longrightarrow> mgrObjects m' = mgrObjects m"
  "execTbx env cmds m = doneO m' \<Longrightarrow> mgrObjects m' = mgrObjects m"
  "execShm env cmds m = doneO m' \<Longrightarrow> mgrObjects m' = mgrObjects m"
  "execAubTbx env cmds m = doneO m' \<Longrightarrow> mgrObjects m' = mgrObjects m"
  "execAubShm env cmds m = doneO m' \<Longrightarrow> mgrObjects m' = mgrObjects m"
  by (auto simp: execAub_def execTbx_def execShm_def execAubTbx_def execAubShm_def bindO_done_iff split: option.splits)

lemma mgr_exec_keeps [keeps_dests]: "mgr_exec env cmds m = doneO m' \<Longrightarrow> mgrObjects m' = mgrObjects m"
  by (auto simp: mgr_exec_def split: if_splits dest!: keeps_dests)

lemma readOn_keeps [keeps_dests]: "readOn env f g m = Inr (v, m') \<Longrightarrow> mgrObjects m' = mgrObjects m"
  by (auto simp: readOn_def bindR_Inr_iff split: if_splits option.splits)

lemma stream_read_keeps [keeps_dests]:
  "stream_readMMIO env off m = Inr (v, m') \<Longrightarrow> mgrObjects m' = mgrObjects m"
  "stream_readPCICFG env off m = Inr (v, m') \<Longrightarrow> mgrObjects m' = mgrObjects m"
  by (auto simp: stream_readMMIO_def stream_readPCICFG_def dest!: keeps_dests)

lemma runProg_keeps: "runProg p env m = doneO m' \<Longrightarrow> mgrObjects m' = mgrObjects m"
proof (induction p arbitrary: m m')
  case (Call c p)
  then show ?case
    by (force simp: bindO_done_iff dest: keeps_dests)
next
  case (ReadRegister off f)
  then show ?case
    by (force simp: bindO_done_iff dest: keeps_dests)
qed simp_all

lemma registers_keep [keeps_dests]:
  "mgr_writeMMIO env off val m = doneO m' \<Longrightarrow> mgrObjects m' = mgrObjects m"
  "mgr_writePCICFG env off val m = doneO m' \<Longrightarrow> mgrObjects m' = mgrObjects m"
  "mgr_readMMIO env off m = Inr (v, m') \<Longrightarrow> mgrObjects m' = mgrObjects m"
  "mgr_readPCICFG env off m = Inr (v, m') \<Longrightarrow> mgrObjects m' = mgrObjects m"
  by (auto simp: mgr_writeMMIO_def mgr_writePCICFG_def mgr_readMMIO_def mgr_readPCICFG_def bindO_done_iff bindR_Inr_iff
      split: if_splits dest!: keeps_dests)

lemma ccsMode_loop_keeps [keeps_dests]: "ccsMode_loop env val d n m = doneO m' \<Longrightarrow> mgrObjects m' = mgrObjects m"
  by (induction n arbitrary: d m) (auto simp: bindO_done_iff dest!: registers_keep)

lemma setCCSMode_keeps [keeps_dests]: "setCCSMode env n m = doneO m' \<Longrightarrow> mgrObjects m' = mgrObjects m"
  by (auto simp: setCCSMode_def split: if_splits dest!: ccsMode_loop_keeps)

lemma withHw_keeps:
  "withHw env f m = doneO m' \<Longrightarrow> (\<And>st st'. f st = Inr st' \<Longrightarrow> objects st' = objects st) \<Longrightarrow> mgrObjects m' = mgrObjects m"
  by (fastforce simp: withHw_def bindO_done_iff split: if_splits dest!: mgr_exec_keeps)

lemma callContext_keeps [keeps_dests]: "callContext env call c m = doneO m' \<Longrightarrow> mgrObjects m' = mgrObjects m"
  by (cases c) (auto intro: withHw_keeps contextCall_keeps)

lemma forContexts_keeps [keeps_dests]: "forContexts env call cs m = doneO m' \<Longrightarrow> mgrObjects m' = mgrObjects m"
  by (induction cs arbitrary: m) (auto simp: bindO_done_iff dest!: callContext_keeps)

lemma onAub_keeps [keeps_dests]: "onAub f m = doneO m' \<Longrightarrow> mgrObjects m' = mgrObjects m"
  by (auto simp: onAub_def bindO_done_iff split: option.splits)

lemma open_close_keep [keeps_dests]:
  "mgr_open env name m = doneO m' \<Longrightarrow> mgrObjects m' = mgrObjects m"
  "mgr_close env m = doneO m' \<Longrightarrow> mgrObjects m' = mgrObjects m"
  "closeSocket m = Inr m' \<Longrightarrow> mgrObjects m' = mgrObjects m"
  "mgr_addComment env message m = doneO m' \<Longrightarrow> mgrObjects m' = mgrObjects m"
  by (auto simp: mgr_open_def mgr_close_def closeSocket_def mgr_addComment_def Let_def bindO_done_iff bindR_Inr_iff
      split: if_splits dest!: keeps_dests)

lemma pause_keeps [simp]: "mgrObjects (pause onoff m) = mgrObjects m" "mgrObjects (blockMemWritesViaTbx onoff m) = mgrObjects m"
  by (simp_all add: mgrObjects_def pause_def blockMemWritesViaTbx_def)

lemma objects_tables [simp]: "objects (st\<lparr>hs_ppgtts := (hs_ppgtts st)[i := p]\<rparr>) = objects st"
  by (simp add: objects_def)

lemma onPpgtt_keeps [keeps_dests]: "onPpgtt env i f m = doneO (x, m') \<Longrightarrow> mgrObjects m' = mgrObjects m"
  by (auto simp: onPpgtt_def bindO_done_iff split: if_splits dest!: mgr_exec_keeps)

lemma forPpgtts_keeps [keeps_dests]: "forPpgtts env is f m = doneO m' \<Longrightarrow> mgrObjects m' = mgrObjects m"
  by (induction "is" arbitrary: m) (auto simp: bindO_done_iff dest!: onPpgtt_keeps)

lemma setAllocator_keeps [simp]: "mgrObjects (setAllocator al m) = mgrObjects m"
  by (simp add: mgrObjects_def setAllocator_def)

lemma memory_operations_keep [keeps_dests]:
  "mgr_writeMemory2 env params m = doneO m' \<Longrightarrow> mgrObjects m' = mgrObjects m"
  "writePageTableEntries env a sz banks hint ps pageSize m = doneO (ps', m') \<Longrightarrow> mgrObjects m' = mgrObjects m"
  "mgr_writePhysicalMemoryPages env a memory ps sz hint m = doneO m' \<Longrightarrow> mgrObjects m' = mgrObjects m"
  "mgr_freeMemory env a sz m = doneO m' \<Longrightarrow> mgrObjects m' = mgrObjects m"
  "mgr_mapGpuVa2 env a params m = doneO (ok, m') \<Longrightarrow> mgrObjects m' = mgrObjects m"
  by (auto simp: mgr_writeMemory2_def writePageTableEntries_def writeAndClone_def mgr_writePhysicalMemoryPages_def
      mgr_freeMemory_def mgr_mapGpuVa2_def Let_def bindO_done_iff split: if_splits dest!: keeps_dests)

lemma reservations_keep [keeps_dests]:
  "mgr_reservePhysicalMemory params info m = Inr (ok, info', m') \<Longrightarrow> mgrObjects m' = mgrObjects m"
  "mgr_reserveOnlyPhysicalSpace params info m = Inr (ok, info', m') \<Longrightarrow> mgrObjects m' = mgrObjects m"
  "mgr_mapSystemMemoryToPhysicalAddress a sz al l p m = Inr (ok, m') \<Longrightarrow> mgrObjects m' = mgrObjects m"
  by (auto simp: mgr_reservePhysicalMemory_def mgr_reserveOnlyPhysicalSpace_def mgr_mapSystemMemoryToPhysicalAddress_def
      reserveWith_def bindR_Inr_iff split: if_splits PhysicalAddressAllocator.splits)

section \<open>The invariant\<close>

fun ctxAddress :: "HwContext \<Rightarrow> nat" where
  "ctxAddress (NullHardwareContext a) = a"
| "ctxAddress (HardwareContextAt a) = a"

abbreviation vectorOf :: "'p AubManagerImp \<Rightarrow> nat \<Rightarrow> nat \<Rightarrow> GroupVector" where
  "vectorOf m \<equiv> gh_contextGroups (am_groups m)"

definition withinCapacity :: "'p AubManagerImp \<Rightarrow> bool" where
  "withinCapacity m \<longleftrightarrow> (\<forall>i<4. \<forall>j<engineCount. gv_capacity (vectorOf m i j) = 4)"

definition tablesOk :: "'p AubManagerImp \<Rightarrow> bool" where
  "tablesOk m \<longleftrightarrow> am_streamMode m = mode_null \<or> getStream m = Inr True
     \<and> length (hs_ggtts (am_hw m)) = unat (am_devicesCount m) \<and> length (hs_ppgtts (am_hw m)) = unat (am_devicesCount m)"

definition contextsOk :: "'p AubManagerImp \<Rightarrow> bool" where
  "contextsOk m \<longleftrightarrow> distinct (map ctxAddress (am_hwContexts m))
     \<and> (\<forall>a. hs_contexts (am_hw m) a \<noteq> None \<longleftrightarrow> HardwareContextAt a \<in> set (am_hwContexts m))
     \<and> (\<forall>c\<in>set (am_hwContexts m). ctxAddress c < am_nextAddress m)"

definition vectorsOk :: "'p AubManagerImp \<Rightarrow> bool" where
  "vectorsOk m \<longleftrightarrow> (\<forall>a\<in>dom (hs_groups (am_hw m)). a < am_nextAddress m)
     \<and> (\<forall>i<4. \<forall>j<engineCount. 4 \<le> gv_capacity (vectorOf m i j)
          \<and> set (gv_elements (vectorOf m i j)) \<subseteq> dom (hs_groups (am_hw m)))
     \<and> (\<forall>i<4. \<forall>j<engineCount. \<forall>i'<4. \<forall>j'<engineCount. (i, j) \<noteq> (i', j') \<longrightarrow>
          set (gv_elements (vectorOf m i j)) \<inter> set (gv_elements (vectorOf m i' j')) = {})"

definition pointersOk :: "'p AubManagerImp \<Rightarrow> bool" where
  "pointersOk m \<longleftrightarrow> (withinCapacity m \<longrightarrow> (\<forall>a g. map_option hc_contextGroup (hs_contexts (am_hw m) a) = Some (Some g) \<longrightarrow>
     g \<in> dom (hs_groups (am_hw m))))"

definition mgr_ok :: "'p AubManagerImp \<Rightarrow> bool" where
  "mgr_ok m \<longleftrightarrow> tablesOk m \<and> contextsOk m \<and> vectorsOk m \<and> pointersOk m"

lemmas mgr_ok_defs = mgr_ok_def tablesOk_def contextsOk_def vectorsOk_def pointersOk_def withinCapacity_def

lemma mgr_ok_same: "mgrObjects m' = mgrObjects m \<Longrightarrow> mgr_ok m \<Longrightarrow> mgr_ok m'"
proof -
  assume same: "mgrObjects m' = mgrObjects m" and ok: "mgr_ok m"
  have eqs: "am_streamMode m' = am_streamMode m" "am_devicesCount m' = am_devicesCount m" "getStream m' = getStream m"
      "length (hs_ggtts (am_hw m')) = length (hs_ggtts (am_hw m))" "length (hs_ppgtts (am_hw m')) = length (hs_ppgtts (am_hw m))"
      "am_hwContexts m' = am_hwContexts m" "vectorOf m' = vectorOf m" "am_nextAddress m' = am_nextAddress m"
      "dom (hs_groups (am_hw m')) = dom (hs_groups (am_hw m))"
    and ctx: "map_option hc_contextGroup (hs_contexts (am_hw m') a) = map_option hc_contextGroup (hs_contexts (am_hw m) a)" for a
    using same by (auto simp: mgrObjects_def objects_def getStream_def throwErrorIfEnabled_def fun_eq_iff)
  have none: "hs_contexts (am_hw m') a = None \<longleftrightarrow> hs_contexts (am_hw m) a = None" for a
    using ctx [of a] by (metis map_option_is_None)
  have "tablesOk m' = tablesOk m" "contextsOk m' = contextsOk m" "vectorsOk m' = vectorsOk m" "pointersOk m' = pointersOk m"
    by (simp_all only: tablesOk_def contextsOk_def vectorsOk_def pointersOk_def withinCapacity_def eqs ctx none)
  then show "mgr_ok m'"
    using ok by (simp add: mgr_ok_def)
qed

section \<open>Groups\<close>

lemma putGroups_fields [simp]:
  "hs_contexts (putGroups a gs st) = hs_contexts st" "hs_ggtts (putGroups a gs st) = hs_ggtts st"
  "hs_ppgtts (putGroups a gs st) = hs_ppgtts st"
  by (induction gs arbitrary: a st) simp_all

lemma freeGroups_fields [simp]:
  "hs_contexts (freeGroups as st) = hs_contexts st" "hs_ggtts (freeGroups as st) = hs_ggtts st"
  "hs_ppgtts (freeGroups as st) = hs_ppgtts st" "hs_groups (freeGroups as st) = (hs_groups st) |` (- set as)"
  by (induction "as" arbitrary: st) (auto simp: restrict_map_def fun_eq_iff)

lemma putGroups_groups:
  "hs_groups (putGroups a gs st) x = (if a \<le> x \<and> x < a + length gs then gs ! (x - a) else hs_groups st x)"
proof (induction gs arbitrary: a st)
  case (Cons g gs)
  then show ?case
    by (cases "x = a") (auto simp: nth_Cons')
qed auto

lemma putGroups_dom:
  "None \<notin> set gs \<Longrightarrow> dom (hs_groups (putGroups a gs st)) = dom (hs_groups st) \<union> {a..<a + length gs}"
proof -
  assume "None \<notin> set gs"
  then have "gs ! k \<noteq> None" if "k < length gs" for k
    using that by (metis nth_mem)
  then show ?thesis
    by (fastforce simp: putGroups_groups dom_def)
qed

lemma setGroupVector_fields [simp]:
  "vectorOf (setGroupVector i j v m) i' j' = (if i' = i \<and> j' = j then v else vectorOf m i' j')"
  "am_hw (setGroupVector i j v m) = am_hw m" "am_hwContexts (setGroupVector i j v m) = am_hwContexts m"
  "am_nextAddress (setGroupVector i j v m) = am_nextAddress m" "getStream (setGroupVector i j v m) = getStream m"
  "am_streamMode (setGroupVector i j v m) = am_streamMode m" "am_devicesCount (setGroupVector i j v m) = am_devicesCount m"
  by (simp_all add: setGroupVector_def getStream_def throwErrorIfEnabled_def)

lemma getStream_updates [simp]:
  "getStream (m\<lparr>am_hw := st, am_nextAddress := n\<rparr>) = getStream m" "getStream (m\<lparr>am_groups := g\<rparr>) = getStream m"
  by (simp_all add: getStream_def throwErrorIfEnabled_def)

text \<open>The new vector, the groups that exist after it, and what stays.\<close>

definition resized :: "nat \<Rightarrow> nat \<Rightarrow> nat \<Rightarrow> 'p AubManagerImp \<Rightarrow> 'p AubManagerImp \<Rightarrow> bool" where
  "resized i j n m m' \<longleftrightarrow> (let old = gv_elements (vectorOf m i j); moved = \<not> n \<le> gv_capacity (vectorOf m i j)
     in length (gv_elements (vectorOf m' i j)) = n
        \<and> set (gv_elements (vectorOf m' i j)) = (if moved then {} else set old) \<union> {am_nextAddress m..<am_nextAddress m'}
        \<and> dom (hs_groups (am_hw m')) = dom (hs_groups (am_hw m)) - (if moved then set old else {}) \<union> {am_nextAddress m..<am_nextAddress m'}
        \<and> gv_capacity (vectorOf m' i j) \<ge> (if moved then n else gv_capacity (vectorOf m i j))
        \<and> (\<not> moved \<longrightarrow> gv_capacity (vectorOf m' i j) = gv_capacity (vectorOf m i j))
        \<and> am_nextAddress m \<le> am_nextAddress m')
     \<and> (\<forall>i' j'. (i', j') \<noteq> (i, j) \<longrightarrow> vectorOf m' i' j' = vectorOf m i' j')
     \<and> hs_contexts (am_hw m') = hs_contexts (am_hw m) \<and> hs_ggtts (am_hw m') = hs_ggtts (am_hw m)
     \<and> hs_ppgtts (am_hw m') = hs_ppgtts (am_hw m) \<and> am_hwContexts m' = am_hwContexts m
     \<and> am_streamMode m' = am_streamMode m \<and> getStream m' = getStream m \<and> am_devicesCount m' = am_devicesCount m"

lemma resizeGroups_resized:
  assumes "vectorsOk m" and "i < 4" and "j < engineCount" and "length (gv_elements (vectorOf m i j)) \<le> n"
  shows "resized i j n m (resizeGroups env i j (vectorOf m i j) n m)"
proof -
  let ?old = "gv_elements (vectorOf m i j)" and ?f = "am_nextAddress m"
  have live: "None \<notin> set (map (hs_groups (am_hw m)) ?old @ replicate k (Some emptyGroup))" for k
    using assms(1-3) by (fastforce simp: vectorsOk_def)
  have below: "a < ?f" if "a \<in> set ?old" for a
    using assms(1-3) that unfolding vectorsOk_def by blast
  show ?thesis
  proof (cases "n \<le> gv_capacity (vectorOf m i j)")
    case True
    then show ?thesis
      using assms(4) by (auto simp: resized_def resizeGroups_def Let_def putGroups_dom)
  next
    case False
    have "length (map (hs_groups (am_hw m)) ?old @ replicate (n - length ?old) (Some emptyGroup)) = n"
      using assms(4) by simp
    then have "dom (hs_groups (putGroups ?f (map (hs_groups (am_hw m)) ?old @ replicate (n - length ?old) (Some emptyGroup)) (am_hw m)))
        = dom (hs_groups (am_hw m)) \<union> {?f..<?f + n}"
      using putGroups_dom [OF live] by metis
    then show ?thesis
      using False below by (fastforce simp: resized_def resizeGroups_def Let_def dom_restrict)
  qed
qed

lemma resizedD:
  assumes "resized i j n m m'"
  defines "old \<equiv> set (gv_elements (vectorOf m i j))" and "fresh \<equiv> {am_nextAddress m..<am_nextAddress m'}"
  shows "set (gv_elements (vectorOf m' i j)) \<subseteq> old \<union> fresh" "set (gv_elements (vectorOf m' i j)) \<inter> (dom (hs_groups (am_hw m)) - old) \<subseteq> fresh"
    "fresh \<subseteq> dom (hs_groups (am_hw m'))" "dom (hs_groups (am_hw m)) - old \<subseteq> dom (hs_groups (am_hw m'))"
    "dom (hs_groups (am_hw m')) \<subseteq> dom (hs_groups (am_hw m)) \<union> fresh"
    "old \<subseteq> dom (hs_groups (am_hw m)) \<Longrightarrow> set (gv_elements (vectorOf m' i j)) \<subseteq> dom (hs_groups (am_hw m'))"
    "4 \<le> gv_capacity (vectorOf m i j) \<Longrightarrow> 4 \<le> gv_capacity (vectorOf m' i j)"
    "am_nextAddress m \<le> am_nextAddress m'"
    "(i', j') \<noteq> (i, j) \<Longrightarrow> vectorOf m' i' j' = vectorOf m i' j'"
proof -
  let ?moved = "\<not> n \<le> gv_capacity (vectorOf m i j)"
  have eqs: "set (gv_elements (vectorOf m' i j)) = (if ?moved then {} else old) \<union> fresh"
      "dom (hs_groups (am_hw m')) = dom (hs_groups (am_hw m)) - (if ?moved then old else {}) \<union> fresh"
      "gv_capacity (vectorOf m' i j) \<ge> (if ?moved then n else gv_capacity (vectorOf m i j))"
    and rest: "am_nextAddress m \<le> am_nextAddress m'" "(i', j') \<noteq> (i, j) \<Longrightarrow> vectorOf m' i' j' = vectorOf m i' j'"
    using assms(1) unfolding resized_def Let_def old_def fresh_def by blast+
  show "am_nextAddress m \<le> am_nextAddress m'" "(i', j') \<noteq> (i, j) \<Longrightarrow> vectorOf m' i' j' = vectorOf m i' j'"
    by (fact rest)+
  show "4 \<le> gv_capacity (vectorOf m i j) \<Longrightarrow> 4 \<le> gv_capacity (vectorOf m' i j)"
    using eqs(3) by (auto split: if_splits)
qed (use assms(1) in \<open>auto simp: resized_def Let_def old_def fresh_def split: if_splits\<close>)

lemma resized_ok:
  assumes "resized i j n m m'" and "mgr_ok m" and "i < 4" and "j < engineCount"
  shows "mgr_ok m'"
proof -
  let ?v = "vectorOf m i j" and ?v' = "vectorOf m' i j"
  have v: "vectorsOk m" "4 \<le> gv_capacity ?v" "set (gv_elements ?v) \<subseteq> dom (hs_groups (am_hw m))"
      "\<forall>a\<in>dom (hs_groups (am_hw m)). a < am_nextAddress m"
    using assms(2-4) by (auto simp: mgr_ok_def vectorsOk_def)
  have tables: "tablesOk m'" and contexts: "contextsOk m'"
    using assms(1,2) by (auto simp: resized_def mgr_ok_def tablesOk_def contextsOk_def Let_def)
  have other: "vectorOf m' i' j' = vectorOf m i' j'" if "(i', j') \<noteq> (i, j)" for i' j'
    using assms(1) that by (auto simp: resized_def)
  have apart: "set (gv_elements (vectorOf m i1 j1)) \<inter> set (gv_elements (vectorOf m i2 j2)) = {}"
    if "(i1, j1) \<noteq> (i2, j2)" "i1 < 4" "j1 < engineCount" "i2 < 4" "j2 < engineCount" for i1 j1 i2 j2
    using v(1) that unfolding vectorsOk_def by blast
  have sub: "set (gv_elements (vectorOf m i' j')) \<subseteq> dom (hs_groups (am_hw m))" "4 \<le> gv_capacity (vectorOf m i' j')"
    if "i' < 4" "j' < engineCount" for i' j'
    using v(1) that unfolding vectorsOk_def by blast+
  note new = resizedD [OF assms(1)]
  have fresh: "set (gv_elements ?v') \<inter> set (gv_elements (vectorOf m i' j')) = {}"
    if "(i', j') \<noteq> (i, j)" "i' < 4" "j' < engineCount" for i' j'
  proof -
    have "set (gv_elements (vectorOf m i' j')) \<inter> {am_nextAddress m..<am_nextAddress m'} = {}"
    proof (rule ccontr)
      assume "\<not> ?thesis"
      then obtain a where "a \<in> set (gv_elements (vectorOf m i' j'))" "am_nextAddress m \<le> a"
        by auto
      then show False
        using sub(1) [OF that(2,3)] v(4) by (meson leD subsetD)
    qed
    then show ?thesis
      using new(1) apart [OF that assms(3,4)] by blast
  qed
  have "a < am_nextAddress m'" if "a \<in> dom (hs_groups (am_hw m'))" for a
  proof -
    have "a \<in> dom (hs_groups (am_hw m)) \<or> a < am_nextAddress m'"
      using new(5) that by auto
    then show ?thesis
      using v(4) new(8) by (meson less_le_trans)
  qed
  moreover have "4 \<le> gv_capacity (vectorOf m' i' j') \<and> set (gv_elements (vectorOf m' i' j')) \<subseteq> dom (hs_groups (am_hw m'))"
    if "i' < 4" "j' < engineCount" for i' j'
  proof (cases "(i', j') = (i, j)")
    case True
    then show ?thesis
      using new(6,7) v(2,3) by blast
  next
    case False
    then show ?thesis
      using sub [OF that] apart [OF False that assms(3,4)] new(4) unfolding other [OF False] by blast
  qed
  moreover have "set (gv_elements (vectorOf m' i1 j1)) \<inter> set (gv_elements (vectorOf m' i2 j2)) = {}"
    if "i1 < 4" "j1 < engineCount" "i2 < 4" "j2 < engineCount" "(i1, j1) \<noteq> (i2, j2)" for i1 j1 i2 j2
  proof (cases "(i1, j1) = (i, j)")
    case True
    then show ?thesis
      using fresh [of i2 j2] other [of i2 j2] that by auto
  next
    case False
    then show ?thesis
      using that fresh [of i1 j1] other [of i1 j1] other [of i2 j2] apart [OF that(5,1-4)]
      by (cases "(i2, j2) = (i, j)") auto
  qed
  ultimately have "vectorsOk m'"
    unfolding vectorsOk_def by blast
  moreover have "pointersOk m'"
  proof (cases "n \<le> gv_capacity ?v")
    case True
    then have "gv_capacity ?v' = gv_capacity ?v" "dom (hs_groups (am_hw m)) \<subseteq> dom (hs_groups (am_hw m'))"
      using assms(1) by (auto simp: resized_def Let_def)
    moreover have "withinCapacity m' \<Longrightarrow> withinCapacity m"
      using other calculation(1) unfolding withinCapacity_def by (metis prod.inject)
    ultimately show ?thesis
      using assms(1,2) unfolding mgr_ok_def pointersOk_def resized_def by (metis (no_types, lifting) subsetD)
  next
    case False
    then have "gv_capacity ?v' > 4"
      using assms(1) v(2) by (auto simp: resized_def Let_def)
    then have "\<not> withinCapacity m'"
      using assms(3,4) unfolding withinCapacity_def by force
    then show ?thesis
      by (simp add: pointersOk_def)
  qed
  ultimately show ?thesis
    using tables contexts by (simp add: mgr_ok_def)
qed

lemma prepareGroup_keeps [keeps_dests]: "prepareGroup n a m = Inr m' \<Longrightarrow> mgrObjects m' = mgrObjects m"
  by (auto simp: prepareGroup_def bindR_Inr_iff objects_setGroup)

lemma mgrObjects_groups:
  "gh_contextGroups g = gh_contextGroups (am_groups m) \<Longrightarrow> mgrObjects (m\<lparr>am_groups := g\<rparr>) = mgrObjects m"
  by (simp add: mgrObjects_def)

text \<open>The contexts, the tables and the stream stay as they are while a group is looked up or made.\<close>

definition sameContexts :: "'p AubManagerImp \<Rightarrow> 'p AubManagerImp \<Rightarrow> bool" where
  "sameContexts m m' \<longleftrightarrow> am_streamMode m' = am_streamMode m \<and> am_hwContexts m' = am_hwContexts m
     \<and> am_nextAddress m \<le> am_nextAddress m'
     \<and> (\<forall>a. map_option hc_contextGroup (hs_contexts (am_hw m') a) = map_option hc_contextGroup (hs_contexts (am_hw m) a))"

lemma sameContexts_same: "mgrObjects m' = mgrObjects m \<Longrightarrow> sameContexts m m'"
  by (auto simp: sameContexts_def mgrObjects_def objects_def fun_eq_iff)

lemma sameContexts_trans: "sameContexts a b \<Longrightarrow> sameContexts b c \<Longrightarrow> sameContexts a c"
  by (simp add: sameContexts_def)

lemma resized_sameContexts: "resized i j n m m' \<Longrightarrow> sameContexts m m'"
  by (auto simp: resized_def sameContexts_def Let_def)

text \<open>Making a group is a resize of the vector when it has no element for the next number.\<close>

lemma openGroup_resized:
  fixes m :: "'p AubManagerImp"
  assumes "openGroup env i j contextId m = Inr (groupId, m')" and "mgr_ok m" and "i < 4" and "j < engineCount"
  obtains m1 r :: "'p AubManagerImp" where "mgrObjects m1 = mgrObjects m" and "vectorOf m1 = vectorOf m" and "mgrObjects m' = mgrObjects r"
    and "if length (gv_elements (vectorOf m i j)) \<le> unat (gh_groupIds (am_groups m) i j)
         then resized i j (unat (gh_groupIds (am_groups m) i j + 1)) m1 r
           \<and> unat (gh_groupIds (am_groups m) i j + 1) = Suc (unat (gh_groupIds (am_groups m) i j))
         else r = m1"
proof -
  let ?g = "gh_groupIds (am_groups m) i j" and ?v = "vectorOf m i j"
  obtain m1 m2 where m1: "mgrObjects m1 = mgrObjects m" "vectorOf m1 = vectorOf m"
    and m2: "if unat ?g \<ge> length (gv_elements ?v)
       then \<exists>a. prepareGroup (gpu_getContextGroupCount (am_gpu m1)) a (resizeGroups env i j ?v (unat (?g + 1)) m1) = Inr m2
         \<and> groupAt i j (unat ?g) (resizeGroups env i j ?v (unat (?g + 1)) m1) = Inr a
       else m2 = m1"
    and m': "mgrObjects m' = mgrObjects m2"
    using assms(1,3,4)
    by (auto simp: openGroup_def groupVector_def bindR_Inr_iff Let_def mgrObjects_groups split: if_splits
        intro!: that [of "m\<lparr>am_groups := (am_groups m)\<lparr>gh_primaryContextIdToGroupId := _\<rparr>\<rparr>"])
  show ?thesis
  proof (cases "length (gv_elements ?v) \<le> unat ?g")
    case True
    let ?r = "resizeGroups env i j ?v (unat (?g + 1)) m1"
    obtain a where a: "prepareGroup (gpu_getContextGroupCount (am_gpu m1)) a ?r = Inr m2" "groupAt i j (unat ?g) ?r = Inr a"
      using m2 True by auto
    have "?g + 1 \<noteq> 0"
    proof
      assume "?g + 1 = 0"
      then have "vectorOf ?r i j = ?v"
        by (simp add: resizeGroups_def Let_def)
      then show False
        using a(2) True by (auto simp: groupAt_def groupVector_def bindR_Inr_iff split: if_splits)
    qed
    then have Suc: "unat (?g + 1) = Suc (unat ?g)"
      using unatSuc [of ?g] by (simp add: add.commute)
    then have "resized i j (unat (?g + 1)) m1 ?r"
      using resizeGroups_resized [of m1 i j] mgr_ok_same [OF m1(1) assms(2)] assms(3,4) m1(2) True by (simp add: mgr_ok_def)
    then show ?thesis
      using that [of m1 ?r] m1 m' prepareGroup_keeps [OF a(1)] True Suc by simp
  next
    case False
    then show ?thesis
      using that [of m1 m1] m1 m' m2 by simp
  qed
qed

lemma openGroup_ok:
  fixes m :: "'p AubManagerImp"
  assumes "openGroup env i j contextId m = Inr (groupId, m')" and "mgr_ok m" and "i < 4" and "j < engineCount"
  shows "mgr_ok m' \<and> sameContexts m m'"
proof -
  obtain m1 r :: "'p AubManagerImp" where m1: "mgrObjects m1 = mgrObjects m" "mgrObjects m' = mgrObjects r"
    and r: "if length (gv_elements (vectorOf m i j)) \<le> unat (gh_groupIds (am_groups m) i j)
         then resized i j (unat (gh_groupIds (am_groups m) i j + 1)) m1 r
           \<and> unat (gh_groupIds (am_groups m) i j + 1) = Suc (unat (gh_groupIds (am_groups m) i j))
         else r = m1"
    using openGroup_resized [OF assms] .
  have ok1: "mgr_ok m1"
    using mgr_ok_same [OF m1(1) assms(2)] .
  have "mgr_ok r" "sameContexts m1 r"
    using r resized_ok [OF _ ok1 assms(3,4)] resized_sameContexts ok1 sameContexts_same [of m1 m1] by (auto split: if_splits)
  then show ?thesis
    using mgr_ok_same [OF m1(2)] sameContexts_same [OF m1(1)] sameContexts_same [OF m1(2)] sameContexts_trans by blast
qed

lemma groupAt_live:
  "groupAt i j k m = Inr a \<Longrightarrow> mgr_ok m \<Longrightarrow> i < 4 \<and> j < engineCount \<and> a \<in> dom (hs_groups (am_hw m))"
proof -
  assume at: "groupAt i j k m = Inr a" and ok: "mgr_ok m"
  then have ij: "i < 4" "j < engineCount" and a: "a \<in> set (gv_elements (vectorOf m i j))"
    by (auto simp: groupAt_def groupVector_def bindR_Inr_iff split: if_splits)
  have "set (gv_elements (vectorOf m i j)) \<subseteq> dom (hs_groups (am_hw m))"
    using ok ij unfolding mgr_ok_def vectorsOk_def by blast
  then show ?thesis
    using ij a by blast
qed

lemma selectGroup_ok:
  assumes "selectGroup env device engineType contextId primaryContextId m = Inr (a, m')" and "mgr_ok m"
  shows "mgr_ok m' \<and> sameContexts m m' \<and> a \<in> dom (hs_groups (am_hw m'))"
proof -
  let ?i = "unat device" and ?j = "unat engineType"
  have v: "?i < 4" "?j < engineCount"
    using assms(1) by (auto simp: selectGroup_def groupVector_def Let_def split: if_splits)
  then have sel: "selectGroup env device engineType contextId primaryContextId m =
      bindR (if primaryContextId = invalidContextId then openGroup env ?i ?j contextId m
             else Inr (gh_primaryContextIdToGroupId (am_groups m) ?i ?j primaryContextId, m)) (\<lambda>(groupId, m).
      bindR (groupAt ?i ?j (unat groupId) m) (\<lambda>a. Inr (a, m)))"
    by (simp only: selectGroup_def Let_def groupVector_def, simp)
  obtain y where y: "(if primaryContextId = invalidContextId then openGroup env ?i ?j contextId m
        else Inr (gh_primaryContextIdToGroupId (am_groups m) ?i ?j primaryContextId, m)) = Inr y"
      "(\<lambda>(groupId, m). bindR (groupAt ?i ?j (unat groupId) m) (\<lambda>a. Inr (a, m))) y = Inr (a, m')"
    using assms(1) unfolding sel by (rule bindR_InrE)
  obtain groupId m1 where m1: "y = (groupId, m1)"
    by (cases y)
  note step = y(1) [unfolded m1]
  have at: "groupAt ?i ?j (unat groupId) m1 = Inr a" and m': "m' = m1"
    using y(2) by (auto simp: m1 bindR_Inr_iff)
  have "mgr_ok m1 \<and> sameContexts m m1"
  proof (cases "primaryContextId = invalidContextId")
    case True
    then show ?thesis
      using step openGroup_ok [OF _ assms(2) v, of env contextId groupId m1] by simp
  next
    case False
    then show ?thesis
      using step assms(2) by (simp add: sameContexts_same)
  qed
  then show ?thesis
    using groupAt_live [OF at] m' by blast
qed

lemma newHardwareContextImp_objects:
  assumes "newHardwareContextImp this device csTraits grp flags priority st = Inr st'"
  shows "length (hs_ggtts st') = length (hs_ggtts st) \<and> length (hs_ppgtts st') = length (hs_ppgtts st)
    \<and> dom (hs_groups st') = dom (hs_groups st)
    \<and> (\<lambda>a. map_option hc_contextGroup (hs_contexts st' a))
        = (\<lambda>a. map_option hc_contextGroup (hs_contexts st a))(this := Some grp)"
proof -
  let ?c = "contextFields device csTraits grp flags priority (hs_globalContextId st)"
    and ?st = "st\<lparr>hs_globalContextId := hs_globalContextId st + 1\<rparr>"
  obtain c1 st1 where join: "joinGroup flags (applyPriorityFlags flags ?c, ?st) = Inr (c1, st1)"
    and st': "st' = setContext this (applyRunAlone flags c1) st1"
    using assms by (auto simp: newHardwareContextImp_def Let_def bindR_Inr_iff)
  have "hc_contextGroup (applyPriorityFlags flags ?c) = grp"
    by (simp add: applyPriorityFlags_def contextFields_def)
  then have c1: "hc_contextGroup c1 = grp" and st1: "objects st1 = objects ?st"
    using join by (auto simp: joinGroup_def bindR_Inr_iff assertR_Inr_iff objects_setGroup split: if_splits)
  have "hc_contextGroup (applyRunAlone flags c1) = grp"
    using c1 by (simp add: applyRunAlone_def)
  then show ?thesis
    using st1 by (auto simp: st' setContext_def objects_def fun_eq_iff)
qed

lemma addContext_ok:
  assumes "addContext device csTraits grp flags priority m = Inr (c, m')" and "mgr_ok m"
    and "\<And>g. grp = Some g \<Longrightarrow> g \<in> dom (hs_groups (am_hw m))"
  shows "mgr_ok m' \<and> am_hwContexts m' = am_hwContexts m @ [c]"
proof -
  let ?a = "am_nextAddress m"
  obtain st where st: "newHardwareContextImp ?a device csTraits grp flags priority (am_hw m) = Inr st"
    and c: "c = HardwareContextAt ?a"
    and m': "m' = m\<lparr>am_hw := st, am_nextAddress := Suc ?a, am_hwContexts := am_hwContexts m @ [c]\<rparr>"
    using assms(1) by (auto simp: addContext_def bindR_Inr_iff Let_def split: if_splits)
  note obj = newHardwareContextImp_objects [OF st]
  have groups: "map_option hc_contextGroup (hs_contexts st b)
      = (if b = ?a then Some grp else map_option hc_contextGroup (hs_contexts (am_hw m) b))" for b
    using obj by (metis fun_upd_apply)
  then have none: "hs_contexts st b = None \<longleftrightarrow> b \<noteq> ?a \<and> hs_contexts (am_hw m) b = None" for b
    by (metis map_option_is_None option.distinct(1))
  have fresh: "HardwareContextAt ?a \<notin> set (am_hwContexts m)" "?a \<notin> ctxAddress ` set (am_hwContexts m)"
    using assms(2) by (force simp: mgr_ok_def contextsOk_def)+
  have stream: "getStream m' = getStream m"
    by (simp add: m' getStream_def throwErrorIfEnabled_def)
  have "tablesOk m'"
    using assms(2) obj stream by (auto simp: mgr_ok_def tablesOk_def m')
  moreover have "contextsOk m'"
    using assms(2) fresh unfolding mgr_ok_def contextsOk_def m' c by (auto simp: none less_SucI)
  moreover have "vectorsOk m'"
    using assms(2) obj unfolding mgr_ok_def vectorsOk_def m' by (simp add: less_SucI)
  moreover have "pointersOk m'"
    using assms(2,3) obj unfolding mgr_ok_def pointersOk_def withinCapacity_def m' by (auto simp: groups split: if_splits)
  ultimately show ?thesis
    by (simp add: mgr_ok_def m')
qed

lemma addNullContext_ok: "addNullContext m = (c, m') \<Longrightarrow> mgr_ok m \<Longrightarrow> mgr_ok m' \<and> am_hwContexts m' = am_hwContexts m @ [c]"
proof -
  assume add: "addNullContext m = (c, m')" and ok: "mgr_ok m"
  have c: "c = NullHardwareContext (am_nextAddress m)"
    and m': "m' = m\<lparr>am_nextAddress := Suc (am_nextAddress m), am_hwContexts := am_hwContexts m @ [c]\<rparr>"
    using add by (auto simp: addNullContext_def Let_def)
  have stream: "getStream m' = getStream m"
    by (simp add: m' getStream_def throwErrorIfEnabled_def)
  have fresh: "am_nextAddress m \<notin> ctxAddress ` set (am_hwContexts m)"
    using ok by (force simp: mgr_ok_def contextsOk_def)
  have "tablesOk m'"
    using ok stream by (auto simp: mgr_ok_def tablesOk_def m')
  moreover have "contextsOk m'"
    using ok fresh unfolding mgr_ok_def contextsOk_def m' c by (auto simp: less_SucI)
  moreover have "vectorsOk m'"
    using ok unfolding mgr_ok_def vectorsOk_def m' by (simp add: less_SucI)
  moreover have "pointersOk m'"
    using ok unfolding mgr_ok_def pointersOk_def withinCapacity_def m' by simp
  ultimately show ?thesis
    by (simp add: mgr_ok_def m')
qed

lemma createHardwareContext_ok:
  assumes "createHardwareContext device engine flags m = Inr (c, m')" and "mgr_ok m"
  shows "mgr_ok m' \<and> am_hwContexts m' = am_hwContexts m @ [c]"
proof (cases "am_streamMode m = mode_null")
  case True
  then show ?thesis
    using assms addNullContext_ok [of m c m'] by (simp add: createHardwareContext_def)
next
  case False
  then obtain h a where "groupAt (unat device) (unat (csh_engineType h)) 0 m = Inr a"
      "addContext device h (Some a) flags priorityNormal m = Inr (c, m')"
    using assms(1) by (auto simp: createHardwareContext_def bindR_Inr_iff)
  then show ?thesis
    using addContext_ok [OF _ assms(2), of device h "Some a" flags priorityNormal c m'] groupAt_live [OF _ assms(2)] by blast
qed

lemma createInGroup_ok:
  assumes "createInGroup env contextId primaryContextId device engine flags priority m = Inr (c, m')" and "mgr_ok m"
  shows "mgr_ok m' \<and> am_hwContexts m' = am_hwContexts m @ [c]"
proof (cases "am_streamMode m = mode_null")
  case True
  then show ?thesis
    using assms addNullContext_ok [of m c m'] by (simp add: createInGroup_def)
next
  case False
  then have "\<exists>h. if flags AND contextGroupFlag \<noteq> 0
      then \<exists>a m1. selectGroup env device (csh_engineType h) contextId primaryContextId m = Inr (a, m1)
        \<and> addContext device h (Some a) flags priority m1 = Inr (c, m')
      else addContext device h None flags priority m = Inr (c, m')"
    using assms(1) by (cases "flags AND contextGroupFlag \<noteq> 0") (auto simp: createInGroup_def bindR_Inr_iff)
  then obtain h where h: "if flags AND contextGroupFlag \<noteq> 0
      then \<exists>a m1. selectGroup env device (csh_engineType h) contextId primaryContextId m = Inr (a, m1)
        \<and> addContext device h (Some a) flags priority m1 = Inr (c, m')
      else addContext device h None flags priority m = Inr (c, m')"
    by (elim exE)
  show ?thesis
  proof (cases "flags AND contextGroupFlag \<noteq> 0")
    case True
    then obtain a m1 where m1: "selectGroup env device (csh_engineType h) contextId primaryContextId m = Inr (a, m1)"
        "addContext device h (Some a) flags priority m1 = Inr (c, m')"
      using h by auto
    show ?thesis
      using selectGroup_ok [OF m1(1) assms(2)] addContext_ok [OF m1(2)] by (auto simp: sameContexts_def)
  next
    case False
    then show ?thesis
      using h addContext_ok [OF _ assms(2), of device h None flags priority c m'] by simp
  qed
qed

lemma createHardwareContext3_ok:
  "createHardwareContext3 env p m = Inr (c, m') \<Longrightarrow> mgr_ok m \<Longrightarrow>
   mgr_ok m' \<and> am_hwContexts m' = am_hwContexts m @ (case c of None \<Rightarrow> [] | Some c \<Rightarrow> [c])"
  by (auto simp: createHardwareContext3_def bindR_Inr_iff split: option.splits if_splits dest: createInGroup_ok)

lemma deleteHardwareContext_objects:
  assumes "deleteHardwareContext a st = Inr st'"
  shows "length (hs_ggtts st') = length (hs_ggtts st) \<and> length (hs_ppgtts st') = length (hs_ppgtts st)
    \<and> dom (hs_groups st') = dom (hs_groups st)
    \<and> (\<lambda>b. map_option hc_contextGroup (hs_contexts st' b)) = (\<lambda>b. map_option hc_contextGroup (hs_contexts st b))(a := None)"
proof -
  obtain st1 where "hw_release a st = Inr st1" "st' = st1\<lparr>hs_contexts := (hs_contexts st1)(a := None)\<rparr>"
    using assms by (auto simp: deleteHardwareContext_def bindR_Inr_iff)
  then show ?thesis
    using hw_release_keeps [of a st st1] by (simp add: objects_def fun_eq_iff)
qed

lemma deleteContext_null: "deleteContext env (NullHardwareContext a) m = doneO m' \<Longrightarrow> m' = m"
  by simp

lemma withHw_objects:
  assumes "withHw env f m = doneO m'"
  obtains st m1 where "f ((am_hw m)\<lparr>hs_cmds := []\<rparr>) = Inr st" and "mgrObjects m' = mgrObjects (m\<lparr>am_hw := st\<rparr>)"
  using assms by (fastforce simp: withHw_def bindO_done_iff mgrObjects_def split: if_splits dest: mgr_exec_keeps)

lemma releaseHardwareContext_ok:
  assumes "releaseHardwareContext env c m = doneO (found, m')" and "mgr_ok m"
  shows "mgr_ok m' \<and> am_hwContexts m' = remove1 c (am_hwContexts m) \<and> (found \<longleftrightarrow> c \<in> set (am_hwContexts m))"
proof (cases "c \<in> set (am_hwContexts m)")
  case False
  then show ?thesis
    using assms by (simp add: releaseHardwareContext_def remove1_idem)
next
  case True
  let ?m = "m\<lparr>am_hwContexts := remove1 c (am_hwContexts m)\<rparr>"
  have del: "deleteContext env c ?m = doneO m'" and found: "found"
    using assms(1) True by (auto simp: releaseHardwareContext_def bindO_done_iff)
  have dist: "distinct (map ctxAddress (am_hwContexts m))"
    using assms(2) by (simp add: mgr_ok_def contextsOk_def)
  then have dist': "distinct (am_hwContexts m)"
    by (simp add: distinct_map)
  have remdist: "distinct (map ctxAddress (remove1 c (am_hwContexts m)))"
    using dist by (simp add: distinct_map inj_on_diff)
  obtain st where st: "mgrObjects m' = mgrObjects (?m\<lparr>am_hw := st\<rparr>)"
    and lens: "length (hs_ggtts st) = length (hs_ggtts (am_hw m))" "length (hs_ppgtts st) = length (hs_ppgtts (am_hw m))"
      "dom (hs_groups st) = dom (hs_groups (am_hw m))"
    and ctx: "\<And>b. map_option hc_contextGroup (hs_contexts st b)
      = (if c = HardwareContextAt b then None else map_option hc_contextGroup (hs_contexts (am_hw m) b))"
  proof (cases c)
    case (NullHardwareContext a)
    show ?thesis
      using del by (intro that [of "am_hw m"]) (auto simp: NullHardwareContext mgrObjects_def)
  next
    case (HardwareContextAt a)
    then have "withHw env (deleteHardwareContext a) ?m = doneO m'"
      using del by simp
    then obtain st where st: "deleteHardwareContext a ((am_hw m)\<lparr>hs_cmds := []\<rparr>) = Inr st"
        "mgrObjects m' = mgrObjects (?m\<lparr>am_hw := st\<rparr>)"
      by (rule withHw_objects) simp
    have "map_option hc_contextGroup (hs_contexts st b)
      = (if c = HardwareContextAt b then None else map_option hc_contextGroup (hs_contexts (am_hw m) b))" for b
      using deleteHardwareContext_objects [OF st(1)] HardwareContextAt by (auto dest: fun_cong [of _ _ b])
    then show ?thesis
      using that [OF st(2)] deleteHardwareContext_objects [OF st(1)] by simp
  qed
  let ?n = "?m\<lparr>am_hw := st\<rparr>"
  have none: "hs_contexts st b = None \<longleftrightarrow> c = HardwareContextAt b \<or> hs_contexts (am_hw m) b = None" for b
    using ctx [of b] by (metis map_option_is_None)
  have stream: "getStream ?n = getStream m"
    by (simp add: getStream_def throwErrorIfEnabled_def)
  have "tablesOk ?n"
    using assms(2) stream lens by (auto simp: mgr_ok_def tablesOk_def)
  moreover have "contextsOk ?n"
    using assms(2) remdist dist' unfolding mgr_ok_def contextsOk_def by (auto simp: none set_remove1_eq)
  moreover have "vectorsOk ?n"
    using assms(2) lens unfolding mgr_ok_def vectorsOk_def by simp
  moreover have "pointersOk ?n"
    using assms(2) lens unfolding mgr_ok_def pointersOk_def withinCapacity_def by (auto simp: ctx split: if_splits)
  ultimately have "mgr_ok ?n"
    by (simp add: mgr_ok_def)
  moreover have "am_hwContexts m' = remove1 c (am_hwContexts m)"
    using st by (simp add: mgrObjects_def)
  ultimately show ?thesis
    using mgr_ok_same [OF st] True found by simp
qed

section \<open>Sequences of operations\<close>

text \<open>
  A step is an operation that returns; a context is called through the list of the manager.  The system and the
  global options may differ from step to step.
\<close>

inductive mgr_step :: "'p AubManagerImp \<Rightarrow> 'p AubManagerImp \<Rightarrow> bool" where
  step_open: "mgr_open env name m = doneO m' \<Longrightarrow> mgr_step m m'"
| step_close: "mgr_close env m = doneO m' \<Longrightarrow> mgr_step m m'"
| step_closeSocket: "closeSocket m = Inr m' \<Longrightarrow> mgr_step m m'"
| step_pause: "mgr_step m (pause onoff m)"
| step_block: "mgr_step m (blockMemWritesViaTbx onoff m)"
| step_addComment: "mgr_addComment env message m = doneO m' \<Longrightarrow> mgr_step m m'"
| step_create: "createHardwareContext device engine flags m = Inr (c, m') \<Longrightarrow> mgr_step m m'"
| step_create2: "createHardwareContext2 env contextId primaryContextId device engine flags m = Inr (c, m') \<Longrightarrow> mgr_step m m'"
| step_create3: "createHardwareContext3 env p m = Inr (c', m') \<Longrightarrow> mgr_step m m'"
| step_release: "releaseHardwareContext env c m = doneO (found, m') \<Longrightarrow> mgr_step m m'"
| step_context: "c \<in> set (am_hwContexts m) \<Longrightarrow> callContext env call c m = doneO m' \<Longrightarrow> mgr_step m m'"
| step_writeMemory: "mgr_writeMemory2 env params m = doneO m' \<Longrightarrow> mgr_step m m'"
| step_writePageTableEntries: "writePageTableEntries env a sz banks hint ps pageSize m = doneO (ps', m') \<Longrightarrow> mgr_step m m'"
| step_writePhysicalMemoryPages: "mgr_writePhysicalMemoryPages env a memory ps sz hint m = doneO m' \<Longrightarrow> mgr_step m m'"
| step_freeMemory: "mgr_freeMemory env a sz m = doneO m' \<Longrightarrow> mgr_step m m'"
| step_reserve: "mgr_reservePhysicalMemory params info m = Inr (ok, info', m') \<Longrightarrow> mgr_step m m'"
| step_reserveSpace: "mgr_reserveOnlyPhysicalSpace params info m = Inr (ok, info', m') \<Longrightarrow> mgr_step m m'"
| step_map: "mgr_mapSystemMemoryToPhysicalAddress a sz al isLocal p' m = Inr (ok, m') \<Longrightarrow> mgr_step m m'"
| step_mapGpuVa: "mgr_mapGpuVa2 env a params m = doneO (ok, m') \<Longrightarrow> mgr_step m m'"
| step_writeMMIO: "mgr_writeMMIO env off val m = doneO m' \<Longrightarrow> mgr_step m m'"
| step_writePCICFG: "mgr_writePCICFG env off val m = doneO m' \<Longrightarrow> mgr_step m m'"
| step_readMMIO: "mgr_readMMIO env off m = Inr (val, m') \<Longrightarrow> mgr_step m m'"
| step_readPCICFG: "mgr_readPCICFG env off m = Inr (val, m') \<Longrightarrow> mgr_step m m'"
| step_setCCSMode: "setCCSMode env n m = doneO m' \<Longrightarrow> mgr_step m m'"

inductive mgr_reachable :: "'p AubManagerImp \<Rightarrow> 'p AubManagerImp \<Rightarrow> bool" for m0 where
  reachable_start: "mgr_reachable m0 m0"
| reachable_step: "mgr_reachable m0 m \<Longrightarrow> mgr_step m m' \<Longrightarrow> mgr_reachable m0 m'"

lemma mgr_step_ok: "mgr_step m m' \<Longrightarrow> mgr_ok m \<Longrightarrow> mgr_ok m'"
proof (induction rule: mgr_step.induct)
  case (step_create device engine flags m c m')
  then show ?case
    using createHardwareContext_ok by blast
next
  case (step_create2 env contextId primaryContextId device engine flags m c m')
  then show ?case
    using createInGroup_ok unfolding createHardwareContext2_def by blast
next
  case (step_create3 env p m c' m')
  then show ?case
    using createHardwareContext3_ok by blast
next
  case (step_release env c m found m')
  then show ?case
    using releaseHardwareContext_ok by blast
qed (blast intro: mgr_ok_same pause_keeps dest: keeps_dests)+

lemma mgr_reachable_ok: "mgr_reachable m0 m \<Longrightarrow> mgr_ok m0 \<Longrightarrow> mgr_ok m"
  by (induction rule: mgr_reachable.induct) (auto intro: mgr_step_ok)

section \<open>A new manager\<close>

definition mgr_fresh :: "'p AubManagerImp \<Rightarrow> bool" where
  "mgr_fresh m \<longleftrightarrow> am_hwContexts m = [] \<and> (\<forall>a. hs_contexts (am_hw m) a = None)
     \<and> dom (hs_groups (am_hw m)) = {..<4 * engineCount} \<and> am_nextAddress m = 4 * engineCount
     \<and> vectorOf m = (\<lambda>i j. \<lparr>gv_elements = [i * engineCount + j], gv_capacity = 4\<rparr>)"

lemma slot_less: "i < 4 \<Longrightarrow> j < engineCount \<Longrightarrow> i * engineCount + j < 4 * engineCount"
  by (simp add: engineCount_def NUM_ENGINES_def)

lemma slot_inject:
  "j < engineCount \<Longrightarrow> j' < engineCount \<Longrightarrow> i * engineCount + j = i' * engineCount + j' \<longleftrightarrow> i = i' \<and> j = j'"
proof -
  assume "j < engineCount" "j' < engineCount"
  then have "j < 17" "j' < 17" and count: "engineCount = 17"
    by (simp_all add: engineCount_def NUM_ENGINES_def)
  then have "(i * 17 + j) div 17 = i" "(i * 17 + j) mod 17 = j" "(i' * 17 + j') div 17 = i'" "(i' * 17 + j') mod 17 = j'"
    by simp_all
  then show ?thesis
    unfolding count by metis
qed

lemma fresh_ok: "mgr_fresh m \<Longrightarrow> tablesOk m \<Longrightarrow> mgr_ok m"
  by (auto simp: mgr_ok_def mgr_fresh_def contextsOk_def vectorsOk_def pointersOk_def slot_less slot_inject)

lemma mgr_fresh_same: "mgrObjects m' = mgrObjects m \<Longrightarrow> mgr_fresh m \<Longrightarrow> mgr_fresh m'"
  by (auto simp: mgr_fresh_def mgrObjects_def objects_def fun_eq_iff)

lemma new_manager_fresh: "mgr_fresh (newAubManagerImp env p opts)"
  by (auto simp: mgr_fresh_def newAubManagerImp_def newHwState_def newGroupContextHelper_def Let_def dom_def)

text \<open>The steps before the tables are made leave everything but the streams and the allocator alone.\<close>

definition sameSetup :: "'p AubManagerImp \<Rightarrow> 'p AubManagerImp \<Rightarrow> bool" where
  "sameSetup m m' \<longleftrightarrow> am_streamMode m' = am_streamMode m \<and> am_devicesCount m' = am_devicesCount m
     \<and> am_hwContexts m' = am_hwContexts m \<and> am_groups m' = am_groups m \<and> am_nextAddress m' = am_nextAddress m
     \<and> hs_contexts (am_hw m') = hs_contexts (am_hw m) \<and> hs_groups (am_hw m') = hs_groups (am_hw m)
     \<and> hs_ggtts (am_hw m') = hs_ggtts (am_hw m) \<and> hs_ppgtts (am_hw m') = hs_ppgtts (am_hw m)"

lemma sameSetup_refl [simp]: "sameSetup m m"
  by (simp add: sameSetup_def)

lemma sameSetup_trans: "sameSetup a b \<Longrightarrow> sameSetup b c \<Longrightarrow> sameSetup a c"
  by (simp add: sameSetup_def)

lemma sameSetup_fresh: "sameSetup m m' \<Longrightarrow> mgr_fresh m \<Longrightarrow> mgr_fresh m'"
  by (simp add: sameSetup_def mgr_fresh_def)

lemma sameSetup_updates [simp]:
  "sameSetup m (setAllocator al m)" "sameSetup m (m\<lparr>am_streamAub := x\<rparr>)" "sameSetup m (m\<lparr>am_streamTbx := y\<rparr>)"
  "sameSetup m (m\<lparr>am_streamTbxShm := z\<rparr>)" "sameSetup m ((setAllocator al m)\<lparr>am_streamTbxShm := z\<rparr>)"
  "sameSetup m (m\<lparr>am_streamAubTbx := u\<rparr>)" "sameSetup m (m\<lparr>am_streamAubShm := v\<rparr>)"
  by (simp_all add: sameSetup_def setAllocator_def)

lemma createStream_steps:
  "sameSetup m (createAubFileStream env m)"
  "createSimulatorStream env m = Inr m' \<Longrightarrow> sameSetup m m'"
  "createCombinedStream m = Inr m' \<Longrightarrow> sameSetup m m'"
  by (auto simp: createAubFileStream_def createSimulatorStream_def createShm3Stream_def createCombinedStream_def
      logicErrorIfEnabled_def Let_def split: if_splits)

lemma createStream_keeps:
  assumes "createStream env m = Inr m'"
  shows "sameSetup m m'"
  using assms createStream_steps by (fastforce simp: createStream_def bindR_Inr_iff intro: sameSetup_trans)

lemma initializeSimulator_keeps: "initializeSimulator env m = doneO m' \<Longrightarrow> mgrObjects m' = mgrObjects m"
  by (auto simp: initializeSimulator_def connectTbx_def connectShm_def Let_def bindO_done_iff split: if_splits option.splits
      dest!: keeps_dests)

lemma setAllocator_stream [simp]: "getStream (setAllocator al m) = getStream m"
  by (simp add: getStream_def throwErrorIfEnabled_def setAllocator_def)

lemma mapStolenMemory_keeps: "mapStolenMemory i m = Inr m' \<Longrightarrow> sameSetup m m' \<and> getStream m' = getStream m"
  by (cases "isShm4Mode (am_streamMode m)"; cases "gpu_stolenMemory (am_gpu m)"; cases "hs_alloc (am_hw m)")
    (auto simp: mapStolenMemory_def bindR_Inr_iff)

lemma new_tables_keep [simp]:
  "mgr_fresh (m\<lparr>am_hw := (am_hw m)\<lparr>hs_alloc := al, hs_ppgtts := ps, hs_ggtts := gs\<rparr>\<rparr>) = mgr_fresh m"
  "getStream (m\<lparr>am_hw := st\<rparr>) = getStream m"
  by (simp_all add: mgr_fresh_def getStream_def throwErrorIfEnabled_def)

lemma addTables_keeps:
  assumes "addTables i m = Inr m'"
  shows "length (hs_ggtts (am_hw m')) = Suc (length (hs_ggtts (am_hw m)))
    \<and> length (hs_ppgtts (am_hw m')) = Suc (length (hs_ppgtts (am_hw m)))
    \<and> getStream m' = getStream m \<and> am_streamMode m' = am_streamMode m \<and> am_devicesCount m' = am_devicesCount m
    \<and> (mgr_fresh m \<longrightarrow> mgr_fresh m')"
proof (cases "mapStolenMemory i m")
  case (Inl e)
  then show ?thesis
    using assms by (auto simp: addTables_def bindR_Inr_iff)
next
  case (Inr m1)
  note keeps = mapStolenMemory_keeps [OF Inr]
  then have "mgr_fresh m \<longrightarrow> mgr_fresh m1"
    by (blast intro: sameSetup_fresh)
  with keeps show ?thesis
    using assms by (auto simp: addTables_def Inr bindR_Inr_iff sameSetup_def)
qed

lemma addAllTables_keeps:
  "addAllTables is m = Inr m' \<Longrightarrow>
   length (hs_ggtts (am_hw m')) = length (hs_ggtts (am_hw m)) + length is
   \<and> length (hs_ppgtts (am_hw m')) = length (hs_ppgtts (am_hw m)) + length is
   \<and> getStream m' = getStream m \<and> am_streamMode m' = am_streamMode m \<and> am_devicesCount m' = am_devicesCount m
   \<and> (mgr_fresh m \<longrightarrow> mgr_fresh m')"
proof (induction "is" arbitrary: m)
  case (Cons i "is")
  then obtain m1 where "addTables i m = Inr m1" "addAllTables is m1 = Inr m'"
    by (auto simp: bindR_Inr_iff)
  then show ?case
    using Cons.IH [of m1] addTables_keeps [of i m m1] by simp
qed simp

lemma injectSimulator_keeps: "injectSimulator env m = doneO m' \<Longrightarrow> mgrObjects m' = mgrObjects m"
  by (auto simp: injectSimulator_def split: if_splits dest!: keeps_dests)

lemma mgrObjects_views:
  "mgrObjects m' = mgrObjects m \<Longrightarrow> getStream m' = getStream m \<and> am_streamMode m' = am_streamMode m
    \<and> am_devicesCount m' = am_devicesCount m \<and> length (hs_ggtts (am_hw m')) = length (hs_ggtts (am_hw m))
    \<and> length (hs_ppgtts (am_hw m')) = length (hs_ppgtts (am_hw m))"
  by (auto simp: mgrObjects_def objects_def getStream_def throwErrorIfEnabled_def)

lemma mgr_initialize_fresh:
  assumes "mgr_initialize env m = doneO m'" and "mgr_fresh m" and "hs_ggtts (am_hw m) = []" and "hs_ppgtts (am_hw m) = []"
    and "isInitialized m' = Inr True" and "getStream m \<noteq> Inr True"
  shows "mgr_ok m'"
proof (cases "sizesValid m")
  case False
  then have "m' = m"
    using assms(1) by (simp add: mgr_initialize_def)
  then show ?thesis
    using assms by (auto simp: isInitialized_def tablesOk_def intro!: fresh_ok split: if_splits)
next
  case True
  obtain m1 s where m1: "createStream env m = Inr m1" "getStream m1 = Inr s"
    and rest: "if \<not> s then m' = m1 else \<exists>m2 m3 m4. initializeSimulator env (chooseAllocator env m1) = doneO m2
      \<and> addAllTables [0..<unat (am_devicesCount m2)] m2 = Inr m3
      \<and> runProg (gc_initializeDefaultMemoryPools (am_class m3) (am_gpu m3) (streamModeOf m3) (am_devicesCount m3)
                  (am_memoryBankSize m3)) env m3 = doneO m4
      \<and> injectSimulator env m4 = doneO m'"
    using assms(1) True by (auto simp: mgr_initialize_def bindO_done_iff split: if_splits)
  have m1': "mgr_fresh m1" "hs_ggtts (am_hw m1) = []" "hs_ppgtts (am_hw m1) = []"
    using sameSetup_fresh [OF createStream_keeps [OF m1(1)] assms(2)] createStream_keeps [OF m1(1)] assms(3,4)
    by (auto simp: sameSetup_def)
  show ?thesis
  proof (cases s)
    case False
    then have "m' = m1"
      using rest by simp
    then show ?thesis
      using assms(5) m1(2) False m1' by (auto simp: isInitialized_def tablesOk_def intro!: fresh_ok split: if_splits)
  next
    case True
    then obtain m2 m3 m4 where m2: "initializeSimulator env (chooseAllocator env m1) = doneO m2"
      and m3: "addAllTables [0..<unat (am_devicesCount m2)] m2 = Inr m3"
      and m4: "runProg (gc_initializeDefaultMemoryPools (am_class m3) (am_gpu m3) (streamModeOf m3) (am_devicesCount m3)
                  (am_memoryBankSize m3)) env m3 = doneO m4" and m': "injectSimulator env m4 = doneO m'"
      using rest by auto
    have s2: "mgrObjects m2 = mgrObjects m1"
      using initializeSimulator_keeps [OF m2] by (simp add: chooseAllocator_def)
    have s4: "mgrObjects m' = mgrObjects m3"
      using runProg_keeps [OF m4] injectSimulator_keeps [OF m'] by simp
    have fresh: "mgr_fresh m'"
      using mgr_fresh_same [OF s4] addAllTables_keeps [OF m3] mgr_fresh_same [OF s2 m1'(1)] by simp
    have "tablesOk m'"
      using mgrObjects_views [OF s4] addAllTables_keeps [OF m3] mgrObjects_views [OF s2] m1(2) m1' True
      by (simp add: tablesOk_def)
    then show ?thesis
      using fresh fresh_ok by blast
  qed
qed

lemma mgr_ok_settings: "mgr_ok (setSettings s m) = mgr_ok m"
  by (simp add: mgr_ok_defs setSettings_def getStream_def throwErrorIfEnabled_def)

lemma create_ok:
  assumes "create env disabled environ opts pg = Some (Inr (Some m), pg')"
  shows "mgr_ok m"
proof -
  obtain settings pg1 where pg1: "provideSettings disabled environ pg = (settings, pg1)"
    by fastforce
  obtain m1 where made: "makeManager env (theSettings pg1) opts = doneO (Some (m1, True))" and m: "m = setSettings settings m1"
    using assms pg1
    by (auto simp: create_def Let_def split: option.splits sum.splits if_splits)
  obtain s p where init: "mgr_initialize (env\<lparr>me_settings := s\<rparr>) (newAubManagerImp (env\<lparr>me_settings := s\<rparr>) p opts) = doneO m1"
      "isInitialized m1 = Inr True"
    using made by (auto simp: makeManager_def bindO_done_iff split: if_splits option.splits)
  have none: "getStream (newAubManagerImp (env\<lparr>me_settings := s\<rparr>) p opts) \<noteq> Inr True"
    by (auto simp: newAubManagerImp_def Let_def getStream_def bindR_Inr_iff)
  have "hs_ggtts (am_hw (newAubManagerImp (env\<lparr>me_settings := s\<rparr>) p opts)) = []"
      "hs_ppgtts (am_hw (newAubManagerImp (env\<lparr>me_settings := s\<rparr>) p opts)) = []"
    by (simp_all add: newAubManagerImp_def newHwState_def Let_def)
  then have "mgr_ok m1"
    by (rule mgr_initialize_fresh [OF init(1) new_manager_fresh _ _ init(2) none])
  then show ?thesis
    by (simp add: m mgr_ok_settings)
qed

section \<open>What a new group does to the groups of its engine\<close>

lemma openGroup_dom:
  fixes m :: "'p AubManagerImp"
  assumes "openGroup env i j contextId m = Inr (groupId, m')" and "mgr_ok m" and "i < 4" and "j < engineCount"
    and "a \<in> set (gv_elements (vectorOf m i j))"
  shows "a \<in> dom (hs_groups (am_hw m')) \<longleftrightarrow> \<not> (length (gv_elements (vectorOf m i j)) \<le> unat (gh_groupIds (am_groups m) i j)
    \<and> gv_capacity (vectorOf m i j) \<le> unat (gh_groupIds (am_groups m) i j))"
proof -
  let ?v = "vectorOf m i j" and ?g = "unat (gh_groupIds (am_groups m) i j)"
  obtain m1 r :: "'p AubManagerImp" where m1: "mgrObjects m1 = mgrObjects m" "vectorOf m1 = vectorOf m" "mgrObjects m' = mgrObjects r"
    and r: "if length (gv_elements ?v) \<le> ?g
         then resized i j (unat (gh_groupIds (am_groups m) i j + 1)) m1 r \<and> unat (gh_groupIds (am_groups m) i j + 1) = Suc ?g
         else r = m1"
    using openGroup_resized [OF assms(1-4)] .
  have views: "dom (hs_groups (am_hw m1)) = dom (hs_groups (am_hw m))" "am_nextAddress m1 = am_nextAddress m"
      "dom (hs_groups (am_hw m')) = dom (hs_groups (am_hw r))"
    using m1 by (auto simp: mgrObjects_def objects_def)
  have live: "a \<in> dom (hs_groups (am_hw m))" "a < am_nextAddress m"
    using assms(2-5) unfolding mgr_ok_def vectorsOk_def by blast+
  show ?thesis
  proof (cases "length (gv_elements ?v) \<le> ?g")
    case True
    then have "dom (hs_groups (am_hw r)) = dom (hs_groups (am_hw m)) - (if \<not> Suc ?g \<le> gv_capacity ?v then set (gv_elements ?v) else {})
        \<union> {am_nextAddress m..<am_nextAddress r}"
      using r views m1(2) by (simp add: resized_def Let_def)
    then show ?thesis
      using live assms(5) True views(3) by (auto simp: not_less_eq_eq)
  next
    case False
    then show ?thesis
      using r views live by simp
  qed
qed

lemma addContext_dom:
  "addContext device csTraits grp flags priority m = Inr (c, m') \<Longrightarrow> dom (hs_groups (am_hw m')) = dom (hs_groups (am_hw m))"
  using newHardwareContextImp_objects
  by (fastforce simp: addContext_def bindR_Inr_iff Let_def split: if_splits)

lemma resubmit_dangling:
  assumes "hc_contextGroup c = Some g" and "hc_contextGroupId c \<noteq> noGroup" and "g \<notin> dom (hs_groups st)"
    and "unat (hc_deviceIndex c) < length (hs_ppgtts st)"
  shows "hw_resubmit c st = Inl UseAfterFree"
  using assms by (simp add: hw_resubmit_def hw_ppgtt_def hw_group_def Let_def split: option.splits) (auto simp: dom_def)

end
