(* ===== verification/ManagerTables.thy ===== *)
theory ManagerTables
  imports ManagerInvariant AubStreamProps
begin

text \<open>
  The page tables of a manager: \<open>treeOk\<close> is a well-formed tree of a process.  Every walk and every free of
  \<open>AubStream\<close> keeps it, so do the operations of the contexts and those of the manager; a new manager has only
  such trees, and with rule induction so has every manager that is reached from it (\<open>mgr_reachable_trees\<close>).
\<close>

section \<open>Trees\<close>

text \<open>A well-formed page table of a process; every walk and every free keeps it and its root.\<close>

definition treeOk :: "PageTable \<Rightarrow> bool" where
  "treeOk p \<longleftrightarrow> (\<exists>lev. getNumLevels (pt_kind p) = Suc lev \<and> wf_at lev p)"

definition keepsTree :: "PageTable \<Rightarrow> PageTable \<Rightarrow> bool" where
  "keepsTree p p' \<longleftrightarrow> same_root p p' \<and> (treeOk p \<longrightarrow> treeOk p')"

lemma keepsTree_refl [simp]: "keepsTree p p"
  by (simp add: keepsTree_def)

lemma keepsTree_trans: "keepsTree a b \<Longrightarrow> keepsTree b c \<Longrightarrow> keepsTree a c"
  by (auto simp: keepsTree_def intro: same_root_trans)

lemma walkPage_tree:
  assumes "walkPage a i pa gfx sz root w = Inr (ps, bank, root', leaf, l, w')"
    and "wf_at lev root" and "getNumLevels (pt_kind root) = Suc lev"
  shows "wf_at lev root' \<and> same_root root root'"
proof -
  from assms(1) obtain info where
    levels: "walkLevels (pageCtx a info bank gfx sz) (Suc lev) [] root (startLocals a pa) w = Inr (root', leaf, l, w')"
    unfolding walkPage_def assms(3) by (auto simp: bindR_Inr_iff assertR_Inr_iff simp del: walkLevels.simps)
  have "locals_ok (startLocals a pa)" and "l_leafLevel (startLocals a pa) \<le> lev"
    using levels_of_root [OF assms(3)] by (auto simp: startLocals_def locals_ok_def Pde_def Pte_def)
  from walkLevels_spec [OF levels assms(2) this] show ?thesis
    by (auto simp: page_found_def)
qed

lemma walkPages_tree:
  assumes "walkPages a i pa gfx sz root w = Inr (root', w')"
    and "wf_at lev root" and "getNumLevels (pt_kind root) = Suc lev"
  shows "wf_at lev root' \<and> same_root root root'"
  using assms
proof (induction a i pa gfx sz root w arbitrary: root' w' rule: walkPages.induct)
  case (1 a i pa gfx sz root w)
  show ?case
  proof (cases "sz > 0")
    case False
    then show ?thesis
      using "1.prems" by (simp add: walkPages.simps)
  next
    case True
    then obtain ps bank root1 leaf l w1 where page: "walkPage a i pa gfx sz root w = Inr (ps, bank, root1, leaf, l, w1)"
      using "1.prems"(1) by (subst (asm) walkPages.simps) (auto simp: bindR_Inr_iff)
    note step = walkPage_tree [OF page "1.prems"(2,3)]
    have "walkPages a (i + 1) (map_option (nextPhysicalAddress ps (iterationSize ps gfx sz)) (l_physicalAddress l))
        (gfx + iterationSize ps gfx sz) (sz - iterationSize ps gfx sz) root1
        (w1\<lparr>w_entries := w_entries w1 @ [leafInfo leaf (gfx AND (ps - 1)) (iterationSize ps gfx sz) bank]\<rparr>) = Inr
          (root', w')"
      using "1.prems"(1) True page by (subst (asm) walkPages.simps) (simp add: Let_def)
    then have "wf_at lev root' \<and> same_root root1 root'"
      using "1.IH" [OF True page refl refl refl refl refl refl refl refl] step "1.prems"(3)
      by (simp add: same_root_def del: wf_at.simps)
    then show ?thesis
      using step same_root_trans by blast
  qed
qed

lemma walkMemory_tree:
  assumes "walkMemory gpu ps64 params mode infos pa root w = Inr (root', w')" and "treeOk root"
  shows "treeOk root' \<and> same_root root root'"
proof (cases "ap_size params = 0")
  case True
  then show ?thesis
    using assms by (simp add: walkMemory_def Let_def)
next
  case False
  obtain lev where lev: "getNumLevels (pt_kind root) = Suc lev" "wf_at lev root"
    using assms(2) by (auto simp: treeOk_def)
  obtain a where "walkPages a 0 pa (ap_gfxAddress params) (ap_size params) root (w\<lparr>w_emittedPending := (\<lambda>_. [])\<rparr>)
      = Inr (root', w')"
    using walkMemory_pages [OF assms(1) False] by blast
  from walkPages_tree [OF this lev(2,1)] show ?thesis
    using lev(1) by (auto simp: treeOk_def same_root_def simp del: wf_at.simps)
qed

lemma clearPending_tree: "treeOk p \<Longrightarrow> treeOk (clearPending w p) \<and> same_root p (clearPending w p)"
  using clearPending_same by (fastforce simp: treeOk_def same_root_def simp del: wf_at.simps)

lemma writePages_tree:
  "treeOk root \<Longrightarrow> treeOk (snd (writePages committed w memory sz hint l b root))
     \<and> same_root root (snd (writePages committed w memory sz hint l b root))"
  using clearPending_tree by (simp add: writePages_def writePageWalkEntries_def Let_def)

text \<open>What each operation of the stream does to the table it is given.\<close>

named_theorems tree_dests \<open>what an operation keeps of the page tables\<close>

lemma memory_operations_tree [tree_dests]:
  "writeMemory env params p al = Inr (cmds, es, p', al') \<Longrightarrow> treeOk p \<Longrightarrow> treeOk p' \<and> same_root p p'"
  "cloneMemory env infos params p al = Inr (cmds, p', al') \<Longrightarrow> treeOk p \<Longrightarrow> treeOk p' \<and> same_root p p'"
  "expectMemory env g bs sz op p al = Inr (cmds, p', al') \<Longrightarrow> treeOk p \<Longrightarrow> treeOk p' \<and> same_root p p'"
  "readMemory env g sz banks ps p al = Inr (cmds, p', al') \<Longrightarrow> treeOk p \<Longrightarrow> treeOk p' \<and> same_root p p'"
  "mapGpuVa env params pa p al = Inr (cmds, p', al') \<Longrightarrow> treeOk p \<Longrightarrow> treeOk p' \<and> same_root p p'"
  by (auto simp: writeMemory_def cloneMemory_def expectMemory_def readMemory_def mapGpuVa_def Let_def bindR_Inr_iff
      assertR_Inr_iff split_beta dest!: walkMemory_tree dest: writePages_tree same_root_trans)

lemma freeMemory_tree [tree_dests]:
  assumes "freeMemory env g sz p al = Inr (cmds, p', al')" and "treeOk p"
  shows "treeOk p' \<and> same_root p p'"
proof -
  obtain lev where lev: "getNumLevels (pt_kind p) = Suc lev" "wf_at lev p"
    using assms(2) by (auto simp: treeOk_def)
  moreover obtain L where L: "lev = Suc L"
    using levels_of_root [OF lev(1)] by (cases lev) auto
  moreover obtain early st where "freeLoop (freeContext env (getNumLevels (pt_kind p)) g sz) p
      \<lparr>fs_entries = (\<lambda>_. []), fs_alloc = al\<rparr> = Inr (early, p', st)"
    using assms(1) by (auto simp: freeMemory_def bindR_Inr_iff assertR_Inr_iff)
  ultimately have "same_root p p' \<and> wf_at lev p'"
    using freeLoop_spec by metis
  then show ?thesis
    using lev(1) by (auto simp: treeOk_def same_root_def simp del: wf_at.simps)
qed

section \<open>The trees of a context's device\<close>

definition treesOk :: "hw_state \<Rightarrow> bool" where
  "treesOk st \<longleftrightarrow> (\<forall>p\<in>set (hs_ppgtts st). treeOk p)"

lemma ppgtts_updates [simp]:
  "hs_ppgtts (emitCmds cmds st) = hs_ppgtts st" "hs_ppgtts (setGgtt c g st) = hs_ppgtts st"
  "hs_ppgtts (setContext this c st) = hs_ppgtts st" "hs_ppgtts (setGroup p g' st) = hs_ppgtts st"
  by (simp_all add: emitCmds_def setGgtt_def setContext_def setGroup_def split: option.splits)

lemma ggtt_calls_trees [tree_dests]:
  "ggttAlloc c sz ps st = Inr (a, st') \<Longrightarrow> hs_ppgtts st' = hs_ppgtts st"
  "ggttWrite c a' bs sz hint ps st = Inr st' \<Longrightarrow> hs_ppgtts st' = hs_ppgtts st"
  by (auto simp: ggttAlloc_def ggttWrite_def bindR_Inr_iff split_beta Let_def)

text \<open>The steps on a context and the state.\<close>

definition stepTrees :: "HardwareContextImp \<times> hw_state \<Rightarrow> PageTable list" where
  "stepTrees s = hs_ppgtts (snd s)"

lemma stepTrees_pair [simp]: "stepTrees (c, st) = hs_ppgtts st"
  by (simp add: stepTrees_def)

lemma initializeStatusPages_trees [tree_dests]: "initializeStatusPages ps s = Inr s' \<Longrightarrow> stepTrees s' = stepTrees s"
  by (cases s; cases s') (auto simp: initializeStatusPages_def bindR_Inr_iff dest!: tree_dests)

lemma initializeRing_trees [tree_dests]: "initializeRing ps s = Inr s' \<Longrightarrow> stepTrees s' = stepTrees s"
  by (cases s; cases s') (auto simp: initializeRing_def bindR_Inr_iff dest!: tree_dests)

lemma initializeLRCA_trees [tree_dests]: "initializeLRCA env ps s = Inr s' \<Longrightarrow> stepTrees s' = stepTrees s"
  by (cases s; cases s') (auto simp: initializeLRCA_def Let_def bindR_Inr_iff dest!: tree_dests)

lemma initializeRingState_trees [tree_dests]: "initializeRingState env ps s = Inr s' \<Longrightarrow> stepTrees s' = stepTrees s"
  by (cases s; cases s')
    (auto simp: initializeRingState_def Let_def bindR_Inr_iff dest!: tree_dests split: if_splits)

lemma writeLRCA_trees [tree_dests]: "writeLRCA this ps s = Inr s' \<Longrightarrow> stepTrees s' = stepTrees s"
  by (cases s; cases s') (auto simp: writeLRCA_def Let_def bindR_Inr_iff dest!: tree_dests)

lemma enterGroup_trees [tree_dests]: "enterGroup this s = Inr s' \<Longrightarrow> stepTrees s' = stepTrees s"
  by (cases s; cases s') (auto simp: enterGroup_def bindR_Inr_iff assertR_Inr_iff split: if_splits)

lemma hw_initialize_trees [tree_dests]: "hw_initialize env this st = Inr st' \<Longrightarrow> hs_ppgtts st' = hs_ppgtts st"
  by (auto simp: hw_initialize_def bindR_Inr_iff split: if_splits dest!: tree_dests)

lemma dissolveGroup_trees [tree_dests]: "dissolveGroup cs st = Inr st' \<Longrightarrow> hs_ppgtts st' = hs_ppgtts st"
  by (induction cs st rule: dissolveGroup.induct) (auto simp: bindR_Inr_iff)

lemma leaveGroup_trees [tree_dests]: "leaveGroup this c st = Inr st' \<Longrightarrow> hs_ppgtts st' = hs_ppgtts st"
  by (auto simp: leaveGroup_def bindR_Inr_iff Let_def split: if_splits dest!: dissolveGroup_trees)

lemma hw_release_trees [tree_dests]: "hw_release this st = Inr st' \<Longrightarrow> hs_ppgtts st' = hs_ppgtts st"
  by (auto simp: hw_release_def bindR_Inr_iff Let_def dest!: leaveGroup_trees)

lemma hw_pollForCompletion_trees [tree_dests]: "hw_pollForCompletion c st = Inr st' \<Longrightarrow> hs_ppgtts st' = hs_ppgtts st"
  by (auto simp: hw_pollForCompletion_def bindR_Inr_iff split: if_splits)

lemma wrapRing_trees [tree_dests]: "wrapRing ps n s = Inr s' \<Longrightarrow> stepTrees s' = stepTrees s"
  by (cases s; cases s') (auto simp: wrapRing_def Let_def bindR_Inr_iff dest!: tree_dests split: if_splits)

lemma writeRing_trees [tree_dests]: "writeRing ps cmds n s = Inr s' \<Longrightarrow> stepTrees s' = stepTrees s"
  by (cases s; cases s') (auto simp: writeRing_def Let_def bindR_Inr_iff dest!: tree_dests)

lemma writeRegisters_trees [tree_dests]: "writeRegisters ps r st = Inr s' \<Longrightarrow> stepTrees s' = hs_ppgtts st"
  by (cases r; cases "snd r"; cases s') (auto simp: writeRegisters_def bindR_Inr_iff dest!: tree_dests split: if_splits)

lemma hw_resubmit_trees [tree_dests]: "hw_resubmit c st = Inr st' \<Longrightarrow> hs_ppgtts st' = hs_ppgtts st"
  by (auto simp: hw_resubmit_def Let_def bindR_Inr_iff)

lemma submitBatchBuffer_trees [tree_dests]:
  assumes "submitBatchBuffer this a ov st = Inr st'"
  shows "hs_ppgtts st' = hs_ppgtts st"
proof -
  obtain c ps n c1 st1 c2 st2 r c4 st4 where
    steps: "wrapRing ps n (c, st) = Inr (c1, st1)" "writeRing ps (ringCommands c a) n (c1, st1) = Inr (c2, st2)"
      "writeRegisters ps r st2 = Inr (c4, st4)" and st': "hw_resubmit c4 (setContext this c4 st4) = Inr st'"
    using assms by (auto simp: submitBatchBuffer_def Let_def bindR_Inr_iff)
  then show ?thesis
    using wrapRing_trees [OF steps(1)] writeRing_trees [OF steps(2)] writeRegisters_trees [OF steps(3)]
      hw_resubmit_trees [OF st'] by simp
qed

lemma hw_ppgtt_tree: "hw_ppgtt c st = Inr p \<Longrightarrow> treesOk st \<Longrightarrow> treeOk p"
  by (auto simp: hw_ppgtt_def Let_def treesOk_def split: if_splits)

lemma treesOk_setPpgtt: "treesOk st \<Longrightarrow> treeOk p \<Longrightarrow> treesOk (emitCmds cmds (setPpgtt c p (st\<lparr>hs_alloc := al\<rparr>)))"
  unfolding treesOk_def setPpgtt_def emitCmds_def using set_update_subset_insert by (fastforce split: if_splits)

lemma memory_calls_trees:
  "hw_writeMemory2 env params c st = Inr st' \<Longrightarrow> treesOk st \<Longrightarrow> treesOk st'"
  "hw_freeMemory env a sz c st = Inr st' \<Longrightarrow> treesOk st \<Longrightarrow> treesOk st'"
  "hw_expectMemory env a bs sz op c st = Inr st' \<Longrightarrow> treesOk st \<Longrightarrow> treesOk st'"
  "hw_readMemory env a sz banks ps c st = Inr st' \<Longrightarrow> treesOk st \<Longrightarrow> treesOk st'"
  by (auto simp: hw_writeMemory2_def hw_freeMemory_def hw_expectMemory_def hw_readMemory_def bindR_Inr_iff
      intro!: treesOk_setPpgtt dest: memory_operations_tree freeMemory_tree hw_ppgtt_tree)

lemma treesOk_same: "hs_ppgtts st' = hs_ppgtts st \<Longrightarrow> treesOk st' = treesOk st"
  by (simp add: treesOk_def)

lemma contextCall_trees: "contextCall he call this st = Inr st' \<Longrightarrow> treesOk st \<Longrightarrow> treesOk st'"
proof (cases call)
  case (CtxWriteAndSubmit a bb sz banks ps)
  assume "contextCall he call this st = Inr st'" "treesOk st"
  with CtxWriteAndSubmit obtain c st1 params where "hw_writeMemory2 he params c st = Inr st1"
      "submitBatchBuffer this a False st1 = Inr st'"
    by (auto simp: writeAndSubmitBatchBuffer_def hw_writeMemory_def bindR_Inr_iff)
  then show "treesOk st'"
    using memory_calls_trees(1) submitBatchBuffer_trees treesOk_same \<open>treesOk st\<close> by metis
qed (auto simp: bindR_Inr_iff hw_writeMMIO_def hw_dumpBufferBIN_def hw_dumpSurface_def treesOk_def
      dest!: tree_dests dest: memory_calls_trees [unfolded treesOk_def])

section \<open>The trees of a manager\<close>

abbreviation mgrTrees :: "'p AubManagerImp \<Rightarrow> bool" where
  "mgrTrees m \<equiv> treesOk (am_hw m)"

named_theorems hw_dests \<open>what leaves the state of the contexts and tables alone\<close>

lemma exec_hw [hw_dests]:
  "execAub cmds m = doneO m' \<Longrightarrow> am_hw m' = am_hw m"
  "execTbx env cmds m = doneO m' \<Longrightarrow> am_hw m' = am_hw m"
  "execShm env cmds m = doneO m' \<Longrightarrow> am_hw m' = am_hw m"
  "execAubTbx env cmds m = doneO m' \<Longrightarrow> am_hw m' = am_hw m"
  "execAubShm env cmds m = doneO m' \<Longrightarrow> am_hw m' = am_hw m"
  by (auto simp: execAub_def execTbx_def execShm_def execAubTbx_def execAubShm_def bindO_done_iff split: option.splits)

lemma mgr_exec_hw [hw_dests]: "mgr_exec env cmds m = doneO m' \<Longrightarrow> am_hw m' = am_hw m"
  by (auto simp: mgr_exec_def split: if_splits dest!: hw_dests)

lemma readOn_hw [hw_dests]: "readOn env f g m = Inr (v, m') \<Longrightarrow> am_hw m' = am_hw m"
  by (auto simp: readOn_def bindR_Inr_iff split: if_splits option.splits)

lemma stream_read_hw [hw_dests]:
  "stream_readMMIO env off m = Inr (v, m') \<Longrightarrow> am_hw m' = am_hw m"
  "stream_readPCICFG env off m = Inr (v, m') \<Longrightarrow> am_hw m' = am_hw m"
  by (auto simp: stream_readMMIO_def stream_readPCICFG_def dest!: hw_dests)

lemma registers_hw [hw_dests]:
  "mgr_writeMMIO env off val m = doneO m' \<Longrightarrow> am_hw m' = am_hw m"
  "mgr_writePCICFG env off val m = doneO m' \<Longrightarrow> am_hw m' = am_hw m"
  "mgr_readMMIO env off m = Inr (v, m') \<Longrightarrow> am_hw m' = am_hw m"
  "mgr_readPCICFG env off m = Inr (v, m') \<Longrightarrow> am_hw m' = am_hw m"
  by (auto simp: mgr_writeMMIO_def mgr_writePCICFG_def mgr_readMMIO_def mgr_readPCICFG_def bindO_done_iff bindR_Inr_iff
      split: if_splits dest!: hw_dests)

lemma ccsMode_loop_hw [hw_dests]: "ccsMode_loop env val d n m = doneO m' \<Longrightarrow> am_hw m' = am_hw m"
  by (induction n arbitrary: d m) (auto simp: bindO_done_iff dest!: registers_hw)

lemma setCCSMode_hw [hw_dests]: "setCCSMode env n m = doneO m' \<Longrightarrow> am_hw m' = am_hw m"
  by (auto simp: setCCSMode_def split: if_splits dest!: ccsMode_loop_hw)

lemma onAub_hw [hw_dests]: "onAub f m = doneO m' \<Longrightarrow> am_hw m' = am_hw m"
  by (auto simp: onAub_def bindO_done_iff split: option.splits)

lemma withHw_hw:
  assumes "withHw env f m = doneO m'"
  obtains st where "f ((am_hw m)\<lparr>hs_cmds := []\<rparr>) = Inr st" and "hs_ppgtts (am_hw m') = hs_ppgtts st"
    and "hs_alloc (am_hw m') = hs_alloc st"
  using assms by (auto simp: withHw_def bindO_done_iff split: if_splits dest!: mgr_exec_hw)

lemma callContext_trees: "callContext env call c m = doneO m' \<Longrightarrow> mgrTrees m \<Longrightarrow> mgrTrees m'"
proof (cases c)
  case (HardwareContextAt a)
  assume "callContext env call c m = doneO m'" "mgrTrees m"
  then show "mgrTrees m'"
    using HardwareContextAt contextCall_trees by (auto elim!: withHw_hw simp: treesOk_def)
qed simp

lemma forContexts_trees: "forContexts env call cs m = doneO m' \<Longrightarrow> mgrTrees m \<Longrightarrow> mgrTrees m'"
  by (induction cs arbitrary: m) (auto simp: bindO_done_iff dest: callContext_trees)

lemma open_close_trees:
  assumes "mgrTrees m"
  shows "mgr_open env name m = doneO m' \<Longrightarrow> mgrTrees m'" "mgr_close env m = doneO m' \<Longrightarrow> mgrTrees m'"
    "closeSocket m = Inr m' \<Longrightarrow> mgrTrees m'" "mgr_addComment env message m = doneO m' \<Longrightarrow> mgrTrees m'"
proof -
  show "mgr_open env name m = doneO m' \<Longrightarrow> mgrTrees m'"
    using assms by (auto simp: mgr_open_def bindO_done_iff split: if_splits dest!: hw_dests dest: forContexts_trees)
  show "mgr_close env m = doneO m' \<Longrightarrow> mgrTrees m'"
    using assms by (auto simp: mgr_close_def bindO_done_iff split: if_splits dest!: hw_dests dest: forContexts_trees)
qed (use assms in \<open>auto simp: closeSocket_def mgr_addComment_def Let_def bindO_done_iff bindR_Inr_iff split: if_splits
      dest!: hw_dests\<close>)

text \<open>An operation on the table of a device, and on those of several devices.\<close>

lemma onPpgtt_trees:
  assumes "onPpgtt env i f m = doneO (x, m')" and "mgrTrees m"
    and "\<And>p al cmds x p' al'. f p al = Inr (cmds, x, p', al') \<Longrightarrow> treeOk p \<Longrightarrow> treeOk p'"
  shows "mgrTrees m'"
proof -
  obtain cmds p al where i: "i < length (hs_ppgtts (am_hw m))"
    and f: "f (hs_ppgtts (am_hw m) ! i) (hs_alloc (am_hw m)) = Inr (cmds, x, p, al)"
    and m': "hs_ppgtts (am_hw m') = (hs_ppgtts (am_hw m))[i := p]"
    using assms(1) by (auto simp: onPpgtt_def bindO_done_iff split: if_splits dest!: mgr_exec_hw)
  then have "treeOk p"
    using assms(2,3) nth_mem by (fastforce simp: treesOk_def)
  then show ?thesis
    using assms(2) m' set_update_subset_insert by (fastforce simp: treesOk_def)
qed

lemma forPpgtts_trees:
  assumes "forPpgtts env is f m = doneO m'" and "mgrTrees m"
    and "\<And>p al cmds p' al'. f p al = Inr (cmds, p', al') \<Longrightarrow> treeOk p \<Longrightarrow> treeOk p'"
  shows "mgrTrees m'"
  using assms(1,2)
proof (induction "is" arbitrary: m)
  case (Cons i "is")
  then obtain u m1 where "onPpgtt env i (withoutPages f) m = doneO (u, m1)" and "forPpgtts env is f m1 = doneO m'"
    by (auto simp: bindO_done_iff)
  moreover have "mgrTrees m1"
    using onPpgtt_trees [OF calculation(1) Cons.prems(2)] assms(3) by (auto simp: withoutPages_def bindR_Inr_iff)
  ultimately show ?case
    using Cons.IH by blast
qed simp

lemma writeAndClone_trees:
  "writeAndClone env params cloneParams m = doneO (pages, m') \<Longrightarrow> mgrTrees m \<Longrightarrow> mgrTrees m'"
  by (auto simp: writeAndClone_def bindO_done_iff dest!: onPpgtt_trees forPpgtts_trees dest: memory_operations_tree)

lemma setAllocator_trees [simp]: "mgrTrees (setAllocator al m) = mgrTrees m"
  by (simp add: setAllocator_def treesOk_def)

lemma memory_trees:
  assumes "mgrTrees m"
  shows "mgr_writeMemory2 env params m = doneO m' \<Longrightarrow> mgrTrees m'"
    "writePageTableEntries env a sz banks hint ps pageSize m = doneO (ps', m') \<Longrightarrow> mgrTrees m'"
    "mgr_writePhysicalMemoryPages env a memory ps sz hint m = doneO m' \<Longrightarrow> mgrTrees m'"
    "mgr_freeMemory env a sz m = doneO m' \<Longrightarrow> mgrTrees m'"
    "mgr_mapGpuVa2 env a params m = doneO (ok, m') \<Longrightarrow> mgrTrees m'"
  using assms
  by (auto simp: mgr_writeMemory2_def writePageTableEntries_def mgr_writePhysicalMemoryPages_def mgr_freeMemory_def
      mgr_mapGpuVa2_def Let_def bindO_done_iff split: if_splits dest!: writeAndClone_trees mgr_exec_hw
      elim!: forPpgtts_trees dest: memory_operations_tree freeMemory_tree)

lemma reservations_trees:
  assumes "mgrTrees m"
  shows "mgr_reservePhysicalMemory params info m = Inr (ok, info', m') \<Longrightarrow> mgrTrees m'"
    "mgr_reserveOnlyPhysicalSpace params info m = Inr (ok, info', m') \<Longrightarrow> mgrTrees m'"
    "mgr_mapSystemMemoryToPhysicalAddress a sz al l p m = Inr (ok, m') \<Longrightarrow> mgrTrees m'"
  using assms
  by (auto simp: mgr_reservePhysicalMemory_def mgr_reserveOnlyPhysicalSpace_def reserveWith_def
      mgr_mapSystemMemoryToPhysicalAddress_def setAllocator_def bindR_Inr_iff treesOk_def split: if_splits
        PhysicalAddressAllocator.splits)

text \<open>Creating and releasing contexts.\<close>

lemma resizeGroups_trees [simp]: "hs_ppgtts (am_hw (resizeGroups env i j v n m)) = hs_ppgtts (am_hw m)"
  by (simp add: resizeGroups_def setGroupVector_def Let_def)

lemma prepareGroup_trees [hw_dests]: "prepareGroup n a m = Inr m' \<Longrightarrow> hs_ppgtts (am_hw m') = hs_ppgtts (am_hw m)"
  by (auto simp: prepareGroup_def bindR_Inr_iff)

lemma selectGroup_trees [hw_dests]:
  "selectGroup env device engine contextId primary m = Inr (a, m') \<Longrightarrow> hs_ppgtts (am_hw m') = hs_ppgtts (am_hw m)"
  by (auto simp: selectGroup_def openGroup_def Let_def bindR_Inr_iff split: if_splits dest!: prepareGroup_trees)

lemma addContext_trees [hw_dests]:
  "addContext device h grp flags priority m = Inr (c, m') \<Longrightarrow> hs_ppgtts (am_hw m') = hs_ppgtts (am_hw m)"
  by (auto simp: addContext_def newHardwareContextImp_def joinGroup_def Let_def bindR_Inr_iff assertR_Inr_iff
      split: if_splits prod.splits)

lemma addNullContext_trees [simp]: "am_hw (snd (addNullContext m)) = am_hw m"
  by (simp add: addNullContext_def Let_def)

lemma create_trees:
  "createHardwareContext device engine flags m = Inr (c, m') \<Longrightarrow> hs_ppgtts (am_hw m') = hs_ppgtts (am_hw m)"
  "createInGroup env i p device engine flags priority m = Inr (c, m') \<Longrightarrow> hs_ppgtts (am_hw m') = hs_ppgtts (am_hw m)"
  by (auto simp: createHardwareContext_def createInGroup_def addNullContext_def Let_def bindR_Inr_iff
      split: if_splits dest!: hw_dests)

lemma createHardwareContext3_trees:
  "createHardwareContext3 env p m = Inr (c, m') \<Longrightarrow> hs_ppgtts (am_hw m') = hs_ppgtts (am_hw m)"
  by (auto simp: createHardwareContext3_def bindR_Inr_iff split: option.splits if_splits dest!: create_trees)

lemma release_trees: "releaseHardwareContext env c m = doneO (found, m') \<Longrightarrow> mgrTrees m \<Longrightarrow> mgrTrees m'"
  by (cases c) (auto simp: releaseHardwareContext_def bindO_done_iff deleteHardwareContext_def treesOk_def bindR_Inr_iff
    split: if_splits elim!: withHw_hw dest!: tree_dests)

lemma pause_hw [simp]: "am_hw (pause onoff m) = am_hw m" "am_hw (blockMemWritesViaTbx onoff m) = am_hw m"
  by (simp_all add: pause_def blockMemWritesViaTbx_def)

lemma mgr_step_trees: "mgr_step m m' \<Longrightarrow> mgrTrees m \<Longrightarrow> mgrTrees m'"
proof (induction rule: mgr_step.induct)
  case (step_create device engine flags m c m')
  then show ?case
    using create_trees(1) treesOk_same by metis
next
  case (step_create2 env contextId primaryContextId device engine flags m c m')
  then show ?case
    using create_trees(2) treesOk_same unfolding createHardwareContext2_def by metis
next
  case (step_create3 env p m c' m')
  then show ?case
    using createHardwareContext3_trees treesOk_same by metis
next
  case (step_context c m env call m')
  then show ?case
    using callContext_trees by blast
qed (auto dest: release_trees open_close_trees memory_trees reservations_trees dest!: registers_hw setCCSMode_hw)

lemma mgr_reachable_trees: "mgr_reachable m0 m \<Longrightarrow> mgrTrees m0 \<Longrightarrow> mgrTrees m"
  by (induction rule: mgr_reachable.induct) (auto intro: mgr_step_trees)

text \<open>The tables a new manager has.\<close>

definition rootKinds :: "ptKind set" where
  "rootKinds = {LegacyPML4, PML4, PML5}"

lemma newTable_tree:
  assumes "newTable kind True bank al = Inr (p, al')" and "kind \<in> rootKinds"
  shows "treeOk p"
proof -
  have p: "pt_kind p = kind" "pt_hasAllocator p" "pt_table p = []"
    using assms(1) by (auto simp: newTable_def newPageTable_def Let_def bindR_Inr_iff)
  obtain lev where "getNumLevels kind = Suc lev" "tableAt lev kind"
    using assms(2) by (auto simp: rootKinds_def eval_nat_numeral)
  then show ?thesis
    using p wf_at_fresh [of lev p] by (auto simp: treeOk_def simp del: wf_at.simps)
qed

lemma product_rootKinds: "(pf, p) \<in> set (productFamilyTable settings) \<Longrightarrow> gc_ppgttKind (snd p) space \<in> rootKinds"
  by (auto simp: productFamilyTable_def rootKinds_def GpuTgllp_def GpuAdls_def GpuAdlp_def GpuAdln_def GpuDg1_def
    GpuDg2_def
      GpuPvc_def GpuMtl_def GpuBmg_def GpuLnl_def GpuPtl_def GpuCri_def GpuNvlp_def class_Gen12LP_def
        class_XeHpgCore_def
      class_XeCore_def class_XeHpcCore_def class_Xe2HpgCore_def class_Xe3Core_def class_Xe3pCore_def baseClass_def
      ppgttKind_XeHpcCore_def)

definition rootsOk :: "'p AubManagerImp \<Rightarrow> bool" where
  "rootsOk m \<longleftrightarrow> (\<forall>space. gc_ppgttKind (am_class m) space \<in> rootKinds)"

lemma addTables_trees:
  assumes "addTables i m = Inr m'" and "mgrTrees m" and "rootsOk m"
  shows "mgrTrees m' \<and> rootsOk m'"
proof -
  obtain base m1 p al g where m1: "mapStolenMemory i m = Inr m1"
    and p: "allocatePPGTT (am_class m1) (tableBank i m1) (am_gpuAddressSpace m1) (hs_alloc (am_hw m1)) = Inr (p, al)"
    and m': "m' = m1\<lparr>am_hw := (am_hw m1)\<lparr>hs_alloc := al, hs_ppgtts := hs_ppgtts (am_hw m1) @ [p],
                               hs_ggtts := hs_ggtts (am_hw m1) @ [g]\<rparr>\<rparr>"
    using assms(1) by (auto simp: addTables_def bindR_Inr_iff)
  have "hs_ppgtts (am_hw m1) = hs_ppgtts (am_hw m) \<and> am_class m1 = am_class m"
    using m1 by (cases "isShm4Mode (am_streamMode m)"; cases "gpu_stolenMemory (am_gpu m)"; cases "hs_alloc (am_hw m)")
      (auto simp: mapStolenMemory_def setAllocator_def bindR_Inr_iff)
  then show ?thesis
    using p newTable_tree assms(2,3) by (auto simp: m' treesOk_def rootsOk_def allocatePPGTT_def)
qed

lemma addAllTables_trees: "addAllTables is m = Inr m' \<Longrightarrow> mgrTrees m \<Longrightarrow> rootsOk m \<Longrightarrow> mgrTrees m' \<and> rootsOk m'"
  by (induction "is" arbitrary: m) (auto simp: bindR_Inr_iff dest: addTables_trees)

lemma runProg_hw: "runProg p env m = doneO m' \<Longrightarrow> am_hw m' = am_hw m"
proof (induction p arbitrary: m m')
  case (Call c p)
  then show ?case
    by (force simp: bindO_done_iff dest: hw_dests)
next
  case (ReadRegister off f)
  then show ?case
    by (force simp: bindO_done_iff dest: hw_dests)
qed simp_all

lemma exec_class:
  "execTbx env cmds m = doneO m' \<Longrightarrow> am_class m' = am_class m \<and> am_hw m' = am_hw m"
  "execShm env cmds m = doneO m' \<Longrightarrow> am_class m' = am_class m \<and> am_hw m' = am_hw m"
  by (auto simp: execTbx_def execShm_def bindO_done_iff split: option.splits)

lemma initialize_steps_trees:
  "createStream env m = Inr m' \<Longrightarrow> hs_ppgtts (am_hw m') = hs_ppgtts (am_hw m) \<and> am_class m' = am_class m"
  "initializeSimulator env m = doneO m' \<Longrightarrow> hs_ppgtts (am_hw m') = hs_ppgtts (am_hw m) \<and> am_class m' = am_class m"
  "injectSimulator env m = doneO m' \<Longrightarrow> am_hw m' = am_hw m"
  by (auto simp: createStream_def createAubFileStream_def createSimulatorStream_def createShm3Stream_def
      createCombinedStream_def logicErrorIfEnabled_def initializeSimulator_def connectTbx_def connectShm_def
      injectSimulator_def setAllocator_def Let_def bindR_Inr_iff bindO_done_iff
      split: if_splits option.splits dest!: exec_class)

lemma mgr_initialize_trees:
  assumes "mgr_initialize env m = doneO m'" and "hs_ppgtts (am_hw m) = []" and "rootsOk m"
  shows "mgrTrees m'"
proof (cases "sizesValid m \<and> (\<exists>m1. createStream env m = Inr m1 \<and> getStream m1 = Inr True)")
  case False
  then have "m' = m \<or> createStream env m = Inr m'"
    using assms(1) by (auto simp: mgr_initialize_def bindO_done_iff split: if_splits)
  then show ?thesis
    using assms(2) by (auto simp: treesOk_def dest!: initialize_steps_trees(1))
next
  case True
  then obtain m1 m2 m3 m4 where m1: "createStream env m = Inr m1"
    and m2: "initializeSimulator env (chooseAllocator env m1) = doneO m2"
    and m3: "addAllTables [0..<unat (am_devicesCount m2)] m2 = Inr m3"
    and m4: "runProg (gc_initializeDefaultMemoryPools (am_class m3) (am_gpu m3) (streamModeOf m3) (am_devicesCount m3)
                (am_memoryBankSize m3)) env m3 = doneO m4" and m': "injectSimulator env m4 = doneO m'"
    using assms(1) by (auto simp: mgr_initialize_def bindO_done_iff split: if_splits)
  have "hs_ppgtts (am_hw m2) = []" "rootsOk m2"
    using initialize_steps_trees(1) [OF m1] initialize_steps_trees(2) [OF m2] assms(2,3)
    by (simp_all add: chooseAllocator_def setAllocator_def rootsOk_def)
  then show ?thesis
    using addAllTables_trees [OF m3] runProg_hw [OF m4] initialize_steps_trees(3) [OF m'] by (simp add: treesOk_def)
qed

lemma new_manager_trees: "create env disabled environ opts pg = Some (Inr (Some m), pg') \<Longrightarrow> mgrTrees m"
proof -
  assume made: "create env disabled environ opts pg = Some (Inr (Some m), pg')"
  obtain settings pg1 where pg1: "provideSettings disabled environ pg = (settings, pg1)"
    by fastforce
  obtain m1 where m1: "makeManager env (theSettings pg1) opts = doneO (Some (m1, True))" and m: "m = setSettings
    settings m1"
    using made pg1 by (auto simp: create_def Let_def split: option.splits sum.splits if_splits)
  obtain s p where p: "getGpu s (ao_productFamily opts) = Some p"
    and init: "mgr_initialize (env\<lparr>me_settings := s\<rparr>) (newAubManagerImp (env\<lparr>me_settings := s\<rparr>) p opts) = doneO m1"
    using m1 by (auto simp: makeManager_def bindO_done_iff split: if_splits option.splits)
  have "rootsOk (newAubManagerImp (env\<lparr>me_settings := s\<rparr>) p opts)"
    using product_rootKinds map_of_SomeD [OF p [unfolded getGpu_def]]
    by (fastforce simp: rootsOk_def newAubManagerImp_def Let_def)
  moreover have "hs_ppgtts (am_hw (newAubManagerImp (env\<lparr>me_settings := s\<rparr>) p opts)) = []"
    by (simp add: newAubManagerImp_def newHwState_def Let_def)
  ultimately show ?thesis
    using mgr_initialize_trees [OF init] by (simp add: m setSettings_def)
qed

end
