(* ===== verification/ManagerFile.thy ===== *)
theory ManagerFile
  imports ManagerTables
begin

text \<open>
  What the operations of a manager on memory add to its file: \<open>fileStep\<close> says which records they are and that no
  page table loses an address, for the stream's operations, for one table (\<open>onPpgtt_file\<close>), for the tables of the
  other devices and for \<^verbatim>\<open>writeMemory2\<close> as a whole.
\<close>

section \<open>Writing memory to the file\<close>

text \<open>The physical address a page table of a process translates an address to.\<close>

definition gpuAddress :: "PageTable \<Rightarrow> u64 \<Rightarrow> u64 option" where
  "gpuAddress p g = translate_address (getNumLevels (pt_kind p) - 1) p g"

definition keepsAddresses :: "PageTable \<Rightarrow> PageTable \<Rightarrow> bool" where
  "keepsAddresses p p' \<longleftrightarrow> (\<forall>g a. gpuAddress p g = Some a \<longrightarrow> gpuAddress p' g = Some a)"

lemma keepsAddresses_refl [simp]: "keepsAddresses p p"
  by (simp add: keepsAddresses_def)

lemma keepsAddresses_trans: "keepsAddresses a b \<Longrightarrow> keepsAddresses b c \<Longrightarrow> keepsAddresses a c"
  by (simp add: keepsAddresses_def)

lemma extends_keepsAddresses:
  assumes "extends lev p p'" and "getNumLevels (pt_kind p) = Suc lev" and "pt_kind p' = pt_kind p"
  shows "keepsAddresses p p'"
  using assms
  by (fastforce simp: keepsAddresses_def gpuAddress_def translate_address_def extends_def same_node_def simp del:
    translate.simps)

lemma writePages_none_events:
  "healthy s \<Longrightarrow> writesEvents s (fileExecAll (fst (writePages committed w None sz hint l b root)) s)
    (regionEvents (w_pages64KB w) @ tableEvents (walkEntryCmds w l b))"
proof -
  assume s: "healthy s"
  let ?r = "if 0 < length (w_pages64KB w) then [ReserveContiguousPages (w_pages64KB w)] else []"
  have reserve: "writesEvents s (fileExecAll ?r s) (regionEvents (w_pages64KB w))"
    using reserve_events [OF s] execAll_Cons [of s "ReserveContiguousPages (w_pages64KB w)" _ "[]" "[]"]
    by (auto simp: regionEvents_def writesEvents_none)
  have "fst (writePages committed w None sz hint l b root) = ?r @ walkEntryCmds w l b"
    by (simp add: writePages_def writePageWalkEntries_def Let_def)
  then show ?thesis
    using execAll_append [OF reserve execAll_tables [OF _ walkEntryCmds_tables]] s by simp
qed

lemma cloneMemory_file:
  assumes "cloneMemory env infos params p al = Inr (cmds, p', al')" and "treeOk p"
  shows "keepsAddresses p p'" and "healthy s \<Longrightarrow> \<exists>evs. writesEvents s (fileExecAll cmds s) evs"
proof -
  obtain p1 w where walk: "walkMemory (se_gpu env) (se_enablePs64 env) params Clone infos None p (makeWalker al) =
    Inr (p1, w)"
    and cmds: "cmds = fst (writePages (se_committed env) w None 0 0 (isLocalMemory p1) (getNumAddressBits (pt_kind
      p1)) p1)"
    and p': "p' = p1 \<or> p' = clearPending w p1"
    using assms(1) by (auto simp: cloneMemory_def writePages_def writePageWalkEntries_def Let_def bindR_Inr_iff
      assertR_Inr_iff split: if_splits)
  obtain lev where lev: "getNumLevels (pt_kind p) = Suc lev" "wf_at lev p"
    using assms(2) by (auto simp: treeOk_def)
  have same: "pt_kind p1 = pt_kind p" "extends lev p p1"
    using walkMemory_result [OF walk lev(2,1)] by (auto simp: same_root_def)
  have "gpuAddress (clearPending w p1) g = gpuAddress p1 g" for g
    using clearPending_same(1) [of p1 w] by (simp add: gpuAddress_def same_root_def)
  then show "keepsAddresses p p'"
    using extends_keepsAddresses [OF same(2) lev(1) same(1)] p' by (auto simp: keepsAddresses_def)
  show "\<exists>evs. writesEvents s (fileExecAll cmds s) evs" if "healthy s"
    using writePages_none_events [OF that] unfolding cmds by blast
qed

text \<open>Calls of the stream of a manager that writes a file.\<close>

lemma file_exec:
  assumes "am_streamMode m = mode_aubFile" and "am_streamAub m = Some s" and "writesEvents s (fileExecAll cmds s) evs"
  obtains bs where "mgr_exec env cmds m = doneO (m\<lparr>am_streamAub := Some (emit bs s)\<rparr>)" and "encodes bs evs"
  using assms by (auto simp: writesEvents_def mgr_exec_def execAub_def)

text \<open>What an operation on the tables adds to the file, and that no table loses an address.\<close>

definition fileStep :: "AubEvent list \<Rightarrow> 'p AubManagerImp \<Rightarrow> 'p AubManagerImp \<Rightarrow> bool" where
  "fileStep evs m m' \<longleftrightarrow> am_streamMode m' = am_streamMode m
     \<and> (\<exists>s bs. am_streamAub m = Some s \<and> am_streamAub m' = Some (emit bs s) \<and> encodes bs evs)
     \<and> list_all2 keepsAddresses (hs_ppgtts (am_hw m)) (hs_ppgtts (am_hw m'))"

lemma fileStep_refl: "am_streamAub m = Some s \<Longrightarrow> fileStep [] m m"
  unfolding fileStep_def by (auto intro!: exI [of _ "[]"] list_all2_refl)

lemma fileStep_trans:
  assumes "fileStep x a b" and "fileStep y b c"
  shows "fileStep (x @ y) a c"
proof -
  have "list_all2 keepsAddresses (hs_ppgtts (am_hw a)) (hs_ppgtts (am_hw c))"
    using assms list_all2_trans [of keepsAddresses keepsAddresses keepsAddresses] keepsAddresses_trans
    unfolding fileStep_def by blast
  then show ?thesis
    using assms unfolding fileStep_def by (fastforce intro: encodes_append)
qed

lemma onPpgtt_file:
  assumes "am_streamMode m = mode_aubFile" and "am_streamAub m = Some s" and "i < length (hs_ppgtts (am_hw m))"
    and "f (hs_ppgtts (am_hw m) ! i) (hs_alloc (am_hw m)) = Inr (cmds, x, p', al')"
    and "keepsAddresses (hs_ppgtts (am_hw m) ! i) p'" and "writesEvents s (fileExecAll cmds s) evs"
  obtains m' where "onPpgtt env i f m = doneO (x, m')" and "fileStep evs m m'"
    and "hs_ppgtts (am_hw m') = (hs_ppgtts (am_hw m))[i := p']" and "am_devicesCount m' = am_devicesCount m"
proof -
  let ?m = "m\<lparr>am_hw := (am_hw m)\<lparr>hs_ppgtts := (hs_ppgtts (am_hw m))[i := p'], hs_alloc := al'\<rparr>\<rparr>"
  have "am_streamMode ?m = mode_aubFile" "am_streamAub ?m = Some s"
    using assms(1,2) by simp_all
  then obtain bs where bs: "mgr_exec env cmds ?m = doneO (?m\<lparr>am_streamAub := Some (emit bs s)\<rparr>)" "encodes bs evs"
    using file_exec [OF _ _ assms(6)] by blast
  have "list_all2 keepsAddresses (hs_ppgtts (am_hw m)) ((hs_ppgtts (am_hw m))[i := p'])"
    using assms(5) by (metis keepsAddresses_refl list.rel_refl list_all2_update_cong list_update_id)
  then show thesis
    using that [of "?m\<lparr>am_streamAub := Some (emit bs s)\<rparr>"] assms(2,3,4) bs
    by (auto simp: onPpgtt_def fileStep_def)
qed

text \<open>The tables of the other devices.\<close>

lemma forPpgtts_clone_file:
  assumes "forPpgtts env is (cloneMemory se infos params) m = doneO m'" and "am_streamMode m = mode_aubFile"
    and "am_streamAub m = Some s" and "healthy s" and "mgrTrees m"
  shows "\<exists>evs. fileStep evs m m' \<and> (\<forall>j. j \<notin> set is \<longrightarrow> hs_ppgtts (am_hw m') ! j = hs_ppgtts (am_hw m) ! j)"
  using assms
proof (induction "is" arbitrary: m s)
  case Nil
  then show ?case
    using fileStep_refl by auto
next
  case (Cons i "is")
  let ?f = "withoutPages (cloneMemory se infos params)"
  obtain u m1 where m1: "onPpgtt env i ?f m = doneO (u, m1)" "forPpgtts env is (cloneMemory se infos params) m1 =
    doneO m'"
    using Cons.prems(1) by (auto simp: bindO_done_iff)
  obtain cmds p' al' where i: "i < length (hs_ppgtts (am_hw m))"
    and c: "cloneMemory se infos params (hs_ppgtts (am_hw m) ! i) (hs_alloc (am_hw m)) = Inr (cmds, p', al')"
    using m1(1) by (auto simp: onPpgtt_def withoutPages_def bindO_done_iff bindR_Inr_iff split: if_splits)
  then have tree: "treeOk (hs_ppgtts (am_hw m) ! i)"
    using Cons.prems(5) by (simp add: treesOk_def)
  obtain evs where evs: "writesEvents s (fileExecAll cmds s) evs"
    using cloneMemory_file(2) [OF c tree Cons.prems(4)] by blast
  have f: "?f (hs_ppgtts (am_hw m) ! i) (hs_alloc (am_hw m)) = Inr (cmds, (), p', al')"
    by (simp add: withoutPages_def c)
  obtain m2 where m2: "onPpgtt env i ?f m = doneO ((), m2)" "fileStep evs m m2"
      "hs_ppgtts (am_hw m2) = (hs_ppgtts (am_hw m))[i := p']"
    using onPpgtt_file [where f = ?f and env = env, OF Cons.prems(2,3) i f cloneMemory_file(1) [OF c tree] evs] by blast
  then have eq: "m2 = m1"
    using m1(1) by simp
  have "mgrTrees m1"
    using onPpgtt_trees [OF m1(1) Cons.prems(5)] memory_operations_tree(2)
    by (auto simp: withoutPages_def bindR_Inr_iff)
  moreover obtain s1 where "am_streamAub m1 = Some s1" "healthy s1" "am_streamMode m1 = mode_aubFile"
    using m2(2) Cons.prems(2,3,4) eq by (auto simp: fileStep_def)
  ultimately obtain evs' where "fileStep evs' m1 m'" "\<forall>j. j \<notin> set is \<longrightarrow> hs_ppgtts (am_hw m') ! j = hs_ppgtts (am_hw
    m1) ! j"
    using Cons.IH [OF m1(2)] by blast
  then show ?case
    using fileStep_trans [OF m2(2) [unfolded eq]] m2(3) eq by fastforce
qed

lemma writeMemory_file:
  assumes "writeMemory env params p al = Inr (cmds, es, p', al')" and "treeOk p" and "healthy s"
    and "ap_memory params = Some bytes" and "unat (ap_size params) \<le> length bytes" and "0 < ap_size params"
  shows "keepsAddresses p p'"
    and "\<exists>evs stored. writesEvents s (fileExecAll cmds s) (evs @ stored) \<and> length stored = unat (ap_size params)
       \<and> (\<forall>d < unat (ap_size params). \<exists>space a. gpuAddress p' (ap_gfxAddress params + word_of_nat d) = Some a
            \<and> stored ! d = EvStore space (hintField (ap_hint params)) a (bytes ! d))"
proof -
  obtain lev where lev: "getNumLevels (pt_kind p) = Suc lev" "wf_at lev p"
    using assms(2) by (auto simp: treeOk_def)
  note events = writeMemory_events [OF assms(1) lev(2,1) assms(4-6,3)]
  have kind: "pt_kind p' = pt_kind p"
    using memory_operations_tree(1) [OF assms(1,2)] by (simp add: same_root_def)
  then have address: "gpuAddress p' g = translate_address lev p' g" "gpuAddress p g = translate_address lev p g" for g
    using lev(1) by (simp_all add: gpuAddress_def)
  show "keepsAddresses p p'"
    using events by (simp add: keepsAddresses_def address)
  show "\<exists>evs stored. writesEvents s (fileExecAll cmds s) (evs @ stored) \<and> length stored = unat (ap_size params)
       \<and> (\<forall>d < unat (ap_size params). \<exists>space a. gpuAddress p' (ap_gfxAddress params + word_of_nat d) = Some a
            \<and> stored ! d = EvStore space (hintField (ap_hint params)) a (bytes ! d))"
    using events unfolding address by blast
qed

lemma mgr_writeMemory2_file:
  assumes "mgr_writeMemory2 env params m = doneO m'" and "am_streamMode m = mode_aubFile" and "am_streamAub m = Some s"
    and "healthy s" and "mgrTrees m"
    and "ap_memory params = Some bytes" and "unat (ap_size params) \<le> length bytes" and "0 < ap_size params"
  shows "\<exists>evs stored rest. fileStep (evs @ stored @ rest) m m' \<and> length stored = unat (ap_size params)
     \<and> (\<forall>d < unat (ap_size params). \<exists>space a. gpuAddress (hs_ppgtts (am_hw m') ! 0) (ap_gfxAddress params +
       word_of_nat d) = Some a
          \<and> stored ! d = EvStore space (hintField (ap_hint params)) a (bytes ! d))"
proof -
  have "am_streamMode m \<noteq> mode_null"
    using assms(2) by (simp add: mode_aubFile_def mode_null_def)
  then obtain pageSize pages m1 where
    m1: "onPpgtt env 0 (writeMemory (mgrStreamEnv env m) (params\<lparr>ap_pageSize := pageSize\<rparr>)) m = doneO (pages, m1)"
    and m': "forPpgtts env (otherDevices m1) (cloneMemory (mgrStreamEnv env m1) pages (params\<lparr>ap_pageSize :=
      pageSize\<rparr>)) m1 = doneO m'"
    using assms(1) by (auto simp: mgr_writeMemory2_def writeAndClone_def Let_def bindO_done_iff)
  let ?w = "writeMemory (mgrStreamEnv env m) (params\<lparr>ap_pageSize := pageSize\<rparr>)"
  obtain cmds es p' al' where i: "0 < length (hs_ppgtts (am_hw m))"
    and w: "?w (hs_ppgtts (am_hw m) ! 0) (hs_alloc (am_hw m)) = Inr (cmds, es, p', al')"
    using m1 by (auto simp: onPpgtt_def bindO_done_iff split: if_splits)
  have tree: "treeOk (hs_ppgtts (am_hw m) ! 0)"
    using assms(5) i by (simp add: treesOk_def)
  have params: "ap_memory (params\<lparr>ap_pageSize := pageSize\<rparr>) = Some bytes"
      "unat (ap_size (params\<lparr>ap_pageSize := pageSize\<rparr>)) \<le> length bytes" "0 < ap_size (params\<lparr>ap_pageSize := pageSize\<rparr>)"
    using assms(6-8) by simp_all
  obtain evs stored where evs: "writesEvents s (fileExecAll cmds s) (evs @ stored)" "length stored = unat (ap_size
    params)"
    and stored: "\<forall>d < unat (ap_size params). \<exists>space a. gpuAddress p' (ap_gfxAddress params + word_of_nat d) = Some a
       \<and> stored ! d = EvStore space (hintField (ap_hint params)) a (bytes ! d)"
    using writeMemory_file(2) [OF w tree assms(4) params] by auto
  obtain m2 where m2: "onPpgtt env 0 ?w m = doneO (es, m2)" "fileStep (evs @ stored) m m2"
      "hs_ppgtts (am_hw m2) = (hs_ppgtts (am_hw m))[0 := p']"
    using onPpgtt_file [where f = ?w and env = env, OF assms(2,3) i w writeMemory_file(1) [OF w tree assms(4)
      params] evs(1)]
    by blast
  then have eq: "m2 = m1"
    using m1 by simp
  obtain s1 where s1: "am_streamMode m1 = mode_aubFile" "am_streamAub m1 = Some s1" "healthy s1"
    using m2(2) assms(2-4) eq by (auto simp: fileStep_def)
  have "mgrTrees m1"
    using onPpgtt_trees [OF m1 assms(5)] memory_operations_tree(1) by blast
  then obtain rest where rest: "fileStep rest m1 m'" "\<forall>j. j \<notin> set (otherDevices m1) \<longrightarrow> hs_ppgtts (am_hw m') ! j =
    hs_ppgtts (am_hw m1) ! j"
    using forPpgtts_clone_file [OF m' s1] by blast
  have "hs_ppgtts (am_hw m') ! 0 = p'"
    using rest(2) m2(3) eq i by (simp add: otherDevices_def)
  moreover have "fileStep (evs @ stored @ rest) m m'"
    using fileStep_trans [OF m2(2) [unfolded eq] rest(1)] by simp
  ultimately show ?thesis
    using evs(2) stored by blast
qed

end
