(* ===== verification/ManagerExample.thy ===== *)
theory ManagerExample
  imports ManagerInvariant
begin

text \<open>
  A concrete manager for the properties of \<open>AubManagerProps\<close>: it is created with its options, and contexts are
  created until the vector of the groups of an engine is full.
\<close>

text \<open>A manager that writes a file for a Tiger Lake with one device.\<close>

definition exampleApi :: "unit socket_api" where
  "exampleApi = \<lparr>so_send = (\<lambda>bytes p. (int (length bytes), p)), so_recv = (\<lambda>n p. (int n, replicate n 0, p)),
    so_socket = 3,
     so_gethostbyname = (\<lambda>host. True), so_connect = (\<lambda>n. (0, 0)), so_ndebug = False\<rparr>"

definition exampleEnv :: "unit mgr_env" where
  "exampleEnv = \<lparr>me_fuel = 0, me_api = exampleApi, me_peer = (), me_clock = (\<lambda>_. 0), me_simulator = (\<lambda>_ m. m),
    me_uninit = 0,
    me_newArray = (\<lambda>_. 0), me_aligned_alloc = (\<lambda>n sz al. 0x10000), me_disk = (\<lambda>_. []), me_outcomes = [], me_memory
      = (\<lambda>_. 0),
    me_translationTable = (\<lambda>isLocal physAddress. 0), me_options = initialOptions, me_settings = defaultSettings,
      me_growth = (\<lambda>n. n),
    me_globalContextId = 0\<rparr>"

definition exampleOptions :: AubManagerOptions where
  "exampleOptions = \<lparr>ao_version = 1, ao_productFamily = 7, ao_devicesCount = 1, ao_memoryBankSize = 0x40000000,
    ao_stepping = 0,
    ao_localMemorySupported = False, ao_mode = mode_aubFile, ao_gpuAddressSpace = 0xFFFFFFFFFFFF,
      ao_sharedMemoryInfo = noSharedMemory,
    ao_throwOnError = True, ao_dataStolenMemorySize = 0, ao_programAdditionalEngineMMIO = False,
      ao_wopcmMemorySize = 0\<rparr>"

lemmas file_mode_only = isFileMode_def isShm4Mode_def isFileAndShmMode_def IsAnyTbxShmMode_def
  mode_aubFile_def mode_tbxShm4_def mode_tbxShm3_def mode_aubFileAndShm4_def mode_tbx_def mode_aubFileAndTbx_def
  mode_tbxShm_def mode_aubFileAndShm_def

lemmas tgllp_defs = GpuTgllp_def identify_def GpuGen12LP_def baseGpu_def

lemma getGpu_tgllp: "getGpu s 7 = Some GpuTgllp"
  by (simp add: getGpu_def productFamilyTable_def GpuTgllp_def identify_def)

definition exampleGpu :: Gpu where
  "exampleGpu = (fst GpuTgllp)\<lparr>gpu_stolenMemory := Some (StolenMemoryInStaticStorage 0x1400000 0x40000000)\<rparr>"

lemma example_new: "newAubManagerImp env GpuTgllp exampleOptions =
   \<lparr>am_gpu = exampleGpu, am_class = class_Gen12LP, am_devicesCount = 1,
          am_memoryBankSize = 0x40000000, am_localMemorySupported = False,
          am_streamMode = mode_aubFile, am_stepping = 0, am_gpuAddressSpace = 0xFFFFFFFFFFFF,
          am_ccsCount = 0, am_streamAub = None, am_streamTbx = None, am_streamAubTbx = None, am_streamTbxShm = None,
          am_streamAubShm = None, am_hasAllocator = False,
          am_hw = newHwState 8 (me_globalContextId env), am_hwContexts = [],
          am_groups = newGroupContextHelper, am_nextAddress = 4 * engineCount,
          am_sharedMemoryInfo = noSharedMemory, am_enableThrow = True, am_settings = None\<rparr>"
  by (simp add: newAubManagerImp_def prepareGpu_def overrideSizes_def exampleOptions_def GpuTgllp_def identify_def
    Let_def
      CreateStolenMemory_def getStolenMemorySize_def getFlatCCSSize_def getDSMSize_def getDSMDefaultSize_def
        getWOPCMSize_def
      GpuGen12LP_def baseGpu_def alignUp_def exampleGpu_def mode_aubFile_def mode_tbxShm3_def MB_def KB_def)

lemma example_sizes: "sizesValid (newAubManagerImp env GpuTgllp exampleOptions)"
  by (simp only: sizesValid_def example_new AubManagerImp.simps) (simp add: exampleGpu_def GpuTgllp_def
    identify_def class_Gen12LP_def baseClass_def
     isValidDataStolenMemorySize_def getDSMSize_def getDSMDefaultSize_def getWOPCMSize_def GpuGen12LP_def
       baseGpu_def MB_def KB_def)

definition exampleReady :: "'p AubManagerImp \<Rightarrow> bool" where
  "exampleReady m \<longleftrightarrow> am_streamMode m = mode_aubFile \<and> am_streamAub m \<noteq> None \<and> am_gpu m = exampleGpu \<and> am_class m =
    class_Gen12LP
     \<and> am_devicesCount m = 1 \<and> length (hs_ggtts (am_hw m)) = 1"

lemma example_reserve: "\<exists>a s'. reservePhysicalMemory mainBank 4096 4096 (AllocSimple s) = Inr (a, AllocSimple s')"
  by (simp add: mainBank_def reservePhysicalMemory_Simple_def split: prod.splits)

abbreviation withTables ::
  "PhysicalAddressAllocator \<Rightarrow> PageTable \<Rightarrow> GGTT \<Rightarrow> 'p AubManagerImp \<Rightarrow> 'p AubManagerImp" where
  "withTables alloc p g m \<equiv> m\<lparr>am_hw := (am_hw m)\<lparr>hs_alloc := alloc, hs_ppgtts := hs_ppgtts (am_hw m) @ [p],
     hs_ggtts := hs_ggtts (am_hw m) @ [g]\<rparr>\<rparr>"

text \<open>The stream and the tables of the manager just after its creation.\<close>

definition exampleFresh :: "(string \<Rightarrow> u8 list) \<Rightarrow> IoOutcome list \<Rightarrow> 'p AubManagerImp \<Rightarrow> bool" where
  "exampleFresh disk outcomes m \<longleftrightarrow>
     am_streamAub m = Some (enableThrowOnError True (newAubFileStream disk outcomes))
     \<and> (\<exists>s p. hs_alloc (am_hw m) = AllocSimple s \<and> hs_ppgtts (am_hw m) = [p] \<and> pt_memoryBank p = mainBank
       \<and> getNumLevels (pt_kind p) = 4)"

lemma example_tables:
  assumes "am_streamMode m = mode_aubFile" "am_class m = class_Gen12LP" "am_localMemorySupported m = False"
    "am_gpu m = exampleGpu"
    "hs_alloc (am_hw m) = AllocSimple s"
  shows "\<exists>s' p g. addTables 0 m = Inr (withTables (AllocSimple s') p g m) \<and> pt_memoryBank p = mainBank \<and>
    getNumLevels (pt_kind p) = 4"
proof -
  obtain a s' where r: "reservePhysicalMemory mainBank 4096 4096 (AllocSimple s) = Inr (a, AllocSimple s')"
    using example_reserve by blast
  have "tableBank 0 m = mainBank"
    by (simp add: tableBank_def assms exampleGpu_def tgllp_defs)
  moreover have "mapStolenMemory 0 m = Inr m"
    by (simp add: mapStolenMemory_def assms file_mode_only)
  ultimately show ?thesis using r
    by (simp add: addTables_def assms class_Gen12LP_def allocatePPGTT_def newTable_def newPageTable_def
      allocateGGTT_def newGGTT_def mainBank_def) (intro exI conjI, rule refl, simp, simp add: baseClass_def)
qed

lemma example_initialize: "\<exists>m. mgr_initialize env (newAubManagerImp env GpuTgllp exampleOptions) = doneO m \<and>
  isInitialized m = Inr True
   \<and> exampleReady m \<and> am_hwContexts m = [] \<and> am_groups m = newGroupContextHelper \<and> am_nextAddress m = 4 * engineCount
   \<and> hs_groups (am_hw m) = hs_groups (newHwState 8 (me_globalContextId env))
   \<and> exampleFresh (me_disk env) (me_outcomes env) m"
proof -
  let ?m = "newAubManagerImp env GpuTgllp exampleOptions"
  let ?m1 = "chooseAllocator env (createAubFileStream env ?m)"
  have md: "am_streamMode ?m = mode_aubFile"
    by (simp add: example_new)
  have "\<exists>s p g. addTables 0 ?m1 = Inr (withTables (AllocSimple s) p g ?m1) \<and> pt_memoryBank p = mainBank \<and>
    getNumLevels (pt_kind p) = 4"
    by (rule example_tables) (simp_all add: example_new chooseAllocator_def createAubFileStream_def
      setAllocator_def file_mode_only)
  then obtain s p g where t: "addTables 0 ?m1 = Inr (withTables (AllocSimple s) p g ?m1)" and bank: "pt_memoryBank
    p = mainBank" "getNumLevels (pt_kind p) = 4"
    by blast
  have c: "createStream env ?m = Inr (createAubFileStream env ?m)"
    by (simp add: createStream_def createSimulatorStream_def createCombinedStream_def createAubFileStream_def
      example_new file_mode_only)
  have i: "initializeSimulator env ?m1 = doneO ?m1"
    by (simp add: initializeSimulator_def chooseAllocator_def setAllocator_def createAubFileStream_def example_new
      file_mode_only)
  let ?m2 = "withTables (AllocSimple s) p g ?m1"
  have dev: "[0..<unat (am_devicesCount ?m1)] = [0]"
    by (simp add: example_new chooseAllocator_def createAubFileStream_def setAllocator_def isFileMode_def)
  have has: "getStream (createAubFileStream env ?m) = Inr True"
    by (simp add: example_new createAubFileStream_def isFileMode_def getStream_def)
  have fin: "gc_initializeDefaultMemoryPools (am_class ?m2) = (\<lambda>gpu mode devicesCount memoryBankSize. Finish)"
    by (simp add: example_new chooseAllocator_def createAubFileStream_def setAllocator_def isFileMode_def
      class_Gen12LP_def baseClass_def)
  have "injectSimulator env ?m2 = doneO ?m2"
    by (simp add: injectSimulator_def example_new chooseAllocator_def createAubFileStream_def setAllocator_def
      isFileMode_def)
  then have "mgr_initialize env ?m = doneO ?m2"
    by (simp only: mgr_initialize_def example_sizes c bindO_simps has i dev addAllTables.simps t bindR_simps fin
      runProg.simps simp_thms if_False)
  moreover have "exampleReady ?m2" "am_hwContexts ?m2 = []" "am_groups ?m2 = newGroupContextHelper"
    "am_nextAddress ?m2 = 4 * engineCount"
    "hs_groups (am_hw ?m2) = hs_groups (newHwState 8 (me_globalContextId env))" "isInitialized ?m2 = Inr True"
    "exampleFresh (me_disk env) (me_outcomes env) ?m2"
    by (simp_all add: bank exampleReady_def exampleFresh_def example_new chooseAllocator_def
      createAubFileStream_def setAllocator_def
      isFileMode_def newHwState_def isInitialized_def getStream_def)
  ultimately show ?thesis
    by blast
qed

definition exampleProgram :: program where
  "exampleProgram = \<lparr>pg_globalSettings = Some 0, pg_objects = (\<lambda>_. None)(0 \<mapsto> newSettings True Map.empty), pg_next = 1\<rparr>"

lemma exampleProgram_settings: "theSettings exampleProgram = Inr (newSettings True Map.empty)"
  by (simp add: theSettings_def exampleProgram_def)

lemma example_manager: "\<exists>m. create exampleEnv True Map.empty exampleOptions startProgram = Some (Inr (Some m),
  exampleProgram)
   \<and> exampleReady m \<and> am_hwContexts m = [] \<and> am_groups m = newGroupContextHelper \<and> am_nextAddress m = 4 * engineCount
   \<and> hs_groups (am_hw m) = hs_groups (newHwState 8 0) \<and> exampleFresh (\<lambda>_. []) [] m"
proof -
  let ?env = "exampleEnv\<lparr>me_settings := newSettings True Map.empty\<rparr>"
  obtain m where m: "mgr_initialize ?env (newAubManagerImp ?env GpuTgllp exampleOptions) = doneO m" "isInitialized
    m = Inr True"
   "exampleReady m" "am_hwContexts m = []" "am_groups m = newGroupContextHelper" "am_nextAddress m = 4 * engineCount"
   "hs_groups (am_hw m) = hs_groups (newHwState 8 (me_globalContextId ?env))"
   "exampleFresh (me_disk ?env) (me_outcomes ?env) m"
    using example_initialize [of ?env] by blast
  have p: "provideSettings True Map.empty startProgram = (Some 0, exampleProgram)"
    by (simp add: provideSettings_def startProgram_def exampleProgram_def)
  have "makeManager exampleEnv (Inr (newSettings True Map.empty)) exampleOptions = doneO (Some (m, True))"
    by (simp only: makeManager_def) (simp add: m getGpu_tgllp exampleOptions_def [THEN arg_cong, of ao_version]
      exampleOptions_def [THEN arg_cong, of ao_productFamily])
  then have "create exampleEnv True Map.empty exampleOptions startProgram = Some (Inr (Some (setSettings (Some 0)
    m)), exampleProgram)"
    by (simp add: create_def p exampleProgram_settings)
  moreover have "me_globalContextId ?env = 0" "me_disk ?env = (\<lambda>_. [])" "me_outcomes ?env = []"
    by (simp_all add: exampleEnv_def)
  ultimately show ?thesis
    using m by (intro exI [of _ "setSettings (Some 0) m"]) (simp add: setSettings_def exampleReady_def exampleFresh_def)
qed

text \<open>The manager after \<open>k\<close> groups of the render engine have been opened; the vector of the groups is \<open>els\<close>.\<close>

definition exampleGroups :: "nat \<Rightarrow> nat list \<Rightarrow> 'p AubManagerImp \<Rightarrow> bool" where
  "exampleGroups k els m \<longleftrightarrow> exampleReady m \<and> gh_groupIds (am_groups m) 0 0 = word_of_nat k
     \<and> gh_contextGroups (am_groups m) 0 0 = \<lparr>gv_elements = els, gv_capacity = 4\<rparr>"

lemma example_helper: "exampleReady m \<Longrightarrow> \<exists>h. helperFor 0 0 m = Inr h \<and> csh_engineType h = 0"
  by (simp add: exampleReady_def helperFor_def class_Gen12LP_def getCommandStreamerHelper_Gen12LP_def helperAt_def
    NUM_ENGINES_def
    helpers_Gen12LP_def ENGINE_RCS_def newHelper_Gen12LP_def CommandStreamerHelperGen12LP_def
      newCommandStreamerHelperRcs_def Let_def)

abbreviation createInExample :: "u32 \<Rightarrow> 'p mgr_env \<Rightarrow> 'p AubManagerImp \<Rightarrow> (HwContext \<times> 'p AubManagerImp) result" where
  "createInExample i env m \<equiv> createHardwareContext2 env i invalidContextId 0 0 contextGroupFlag m"

lemma example_addContext:
  assumes "exampleReady m" "csh_engineType h = 0" and "hs_groups (am_hw m) a = Some g" "unat
    (cg_contextGroupCounter g) < length (cg_contexts g)"
  shows "\<exists>c m'. addContext 0 h (Some a) contextGroupFlag priorityNormal m = Inr (c, m') \<and> am_groups m' = am_groups
    m \<and> exampleReady m'"
  using assms by (simp add: addContext_def exampleReady_def newHardwareContextImp_def applyPriorityFlags_def
    joinGroup_def hw_group_def setGroup_def assertR_def contextFields_def Let_def
     highPriorityFlag_def lowPriorityFlag_def contextGroupFlag_def setContext_def)

lemma example_groupCount: "gpu_getContextGroupCount exampleGpu = 8"
  by (simp add: exampleGpu_def tgllp_defs)

lemma example_selectGroup:
  assumes "exampleGroups (length els) els m" "els \<noteq> []" "length els < 4"
  shows "\<exists>m'. selectGroup env 0 0 i invalidContextId m = Inr (am_nextAddress m, m') \<and> exampleGroups (Suc (length
    els)) (els @ [am_nextAddress m]) m'
    \<and> hs_groups (am_hw m') (am_nextAddress m) = Some \<lparr>cg_contextGroupCounter = 0, cg_contexts = replicate 8 None\<rparr>"
proof -
  have k: "unat (word_of_nat (length els) :: u32) = length els" "unat (word_of_nat (length els) + 1 :: u32) = Suc
    (length els)"
    using assms(3) by (simp_all add: unat_word_ariths unat_of_nat)
  show ?thesis
    using assms
    by (simp add: selectGroup_def openGroup_def groupVector_def engineCount_def NUM_ENGINES_def exampleGroups_def
      Let_def k resizeGroups_def groupAt_def setGroupVector_def
       prepareGroup_def hw_group_def setGroup_def exampleReady_def example_groupCount emptyGroup_def nth_append)
qed

lemma example_create:
  assumes "exampleReady m" "selectGroup env 0 0 i invalidContextId m = Inr (a, m1)" "exampleReady m1"
    "hs_groups (am_hw m1) a = Some g" "unat (cg_contextGroupCounter g) < length (cg_contexts g)"
  shows "\<exists>c m'. createInExample i env m = Inr (c, m') \<and> am_groups m' = am_groups m1 \<and> exampleReady m'"
proof -
  obtain h where h: "helperFor 0 0 m = Inr h" "csh_engineType h = 0"
    using example_helper assms(1) by blast
  obtain c m' where "addContext 0 h (Some a) contextGroupFlag priorityNormal m1 = Inr (c, m')" "am_groups m' =
    am_groups m1" "exampleReady m'"
    using example_addContext [OF assms(3) h(2) assms(4,5)] by blast
  moreover have "needStream m = Inr ()" "am_streamMode m \<noteq> mode_null" "contextGroupFlag AND contextGroupFlag \<noteq> (0
    :: u32)"
    using assms(1) by (auto simp: exampleReady_def needStream_def getStream_def mode_aubFile_def mode_null_def
      contextGroupFlag_def)
  ultimately show ?thesis
    by (simp add: createHardwareContext2_def createInGroup_def h assms(2))
qed

lemma example_nextGroup:
  assumes "exampleGroups (length els) els m" "els \<noteq> []" "length els < 4"
  shows "\<exists>c m' a. createInExample i env m = Inr (c, m') \<and> exampleGroups (Suc (length els)) (els @ [a]) m'"
proof -
  obtain m1 where m1: "selectGroup env 0 0 i invalidContextId m = Inr (am_nextAddress m, m1)" "exampleGroups (Suc
    (length els)) (els @ [am_nextAddress m]) m1"
    "hs_groups (am_hw m1) (am_nextAddress m) = Some \<lparr>cg_contextGroupCounter = 0, cg_contexts = replicate 8 None\<rparr>"
    using example_selectGroup [OF assms] by blast
  have "exampleReady m" "exampleReady m1"
    using assms(1) m1(2) by (simp_all add: exampleGroups_def)
  then show ?thesis
    using example_create [OF _ m1(1) _ m1(3)] m1(2) by (fastforce simp: exampleGroups_def)
qed


lemma example_firstGroup:
  assumes "exampleGroups 0 [0] m" "hs_groups (am_hw m) 0 = Some (newContextGroup 8)"
  shows "\<exists>c m'. createInExample i env m = Inr (c, m') \<and> exampleGroups 1 [0] m'"
proof -
  obtain m1 where m1: "selectGroup env 0 0 i invalidContextId m = Inr (0, m1)" "exampleGroups 1 [0] m1" "hs_groups
    (am_hw m1) 0 = Some (newContextGroup 8)"
    using assms by (simp add: selectGroup_def openGroup_def groupVector_def engineCount_def NUM_ENGINES_def
      exampleGroups_def Let_def groupAt_def exampleReady_def)
  have "exampleReady m" "exampleReady m1"
    using assms(1) m1(2) by (simp_all add: exampleGroups_def)
  then show ?thesis
    using example_create [OF _ m1(1) _ m1(3)] m1(2) by (fastforce simp: exampleGroups_def newContextGroup_def)
qed


lemma example_fifthGroup:
  assumes "exampleGroups 4 [a, b, c, d] m" and "am_nextAddress m + 4 \<notin> {a, b, c, d}"
  shows "\<exists>c m'. createInExample i env m = Inr (c, m')"
proof -
  let ?v = "\<lparr>gv_elements = [a, b, c, d], gv_capacity = 4\<rparr>" and ?n = "am_nextAddress m + 4"
  let ?m = "m\<lparr>am_groups := (am_groups m)\<lparr>gh_primaryContextIdToGroupId := (gh_primaryContextIdToGroupId (am_groups m))
               (0 := (gh_primaryContextIdToGroupId (am_groups m) 0)(0 := (gh_primaryContextIdToGroupId (am_groups
                 m) 0 0)(i := 4)))\<rparr>\<rparr>"
  let ?r = "resizeGroups env 0 0 ?v 5 ?m"
  have new: "hs_groups (am_hw ?r) ?n = Some emptyGroup"
    using assms(2) by (simp add: resizeGroups_def Let_def putGroups_groups restrict_map_def del: putGroups.simps)
  have at: "groupAt 0 0 4 ?r = Inr ?n"
    by (simp add: groupAt_def groupVector_def engineCount_def NUM_ENGINES_def resizeGroups_def Let_def del:
      putGroups.simps upt.simps)
  have same: "exampleReady ?r" "gpu_getContextGroupCount (am_gpu m) = 8"
    using assms(1) by (simp_all add: exampleGroups_def exampleReady_def example_groupCount resizeGroups_def
      setGroupVector_def Let_def)
  let ?p = "?r\<lparr>am_hw := setGroup (Some ?n) (emptyGroup\<lparr>cg_contexts := replicate 8 None\<rparr>) (am_hw ?r)\<rparr>"
  have prep: "prepareGroup 8 ?n ?r = Inr ?p"
    by (simp add: prepareGroup_def hw_group_def new)
  let ?o = "?p\<lparr>am_groups := (am_groups ?p)\<lparr>gh_groupIds := (gh_groupIds (am_groups ?p))
               (0 := (gh_groupIds (am_groups ?p) 0)(0 := 5))\<rparr>\<rparr>"
  have gv: "groupVector 0 0 m = Inr ?v" "gh_groupIds (am_groups m) 0 0 = 4"
    using assms(1) by (simp_all add: groupVector_def engineCount_def NUM_ENGINES_def exampleGroups_def)
  have at': "groupAt 0 0 4 ?o = Inr ?n"
    using at by (simp add: groupAt_def groupVector_def setGroup_def engineCount_def NUM_ENGINES_def split: if_splits)
  have four: "unat (4 :: u32) = 4"
    by simp
  have "openGroup env 0 0 i m = Inr (4, ?o)"
    by (simp only: openGroup_def gv bindR_simps Let_def) (simp add: at prep same(2))
  note op = this
  have "selectGroup env 0 0 i invalidContextId m = Inr (?n, ?o)" 
    by (simp only: selectGroup_def gv Let_def bindR_simps unat_0 if_True refl at' op case_prod_conv four)
  moreover have "exampleReady ?o" "hs_groups (am_hw ?o) ?n = Some (emptyGroup\<lparr>cg_contexts := replicate 8 None\<rparr>)"
    using same(1) by (simp_all add: exampleReady_def setGroup_def)
  ultimately show ?thesis
    using example_create [of m env i ?n ?o] assms(1) by (fastforce simp: exampleGroups_def emptyGroup_def)
qed

text \<open>Four contexts, each the primary one of a new group.\<close>

lemma example_fourGroups:
  "\<exists>(m0 :: unit AubManagerImp) m a b c d. create exampleEnv True Map.empty exampleOptions startProgram = Some (Inr
    (Some m0), exampleProgram)
     \<and> mgr_reachable m0 m \<and> exampleGroups 4 [a, b, c, d] m"
proof -
  obtain m0 where m0: "create exampleEnv True Map.empty exampleOptions startProgram = Some (Inr (Some m0),
    exampleProgram)"
      "exampleReady m0" "am_groups m0 = newGroupContextHelper" "hs_groups (am_hw m0) = hs_groups (newHwState 8 0)"
    using example_manager by blast
  then have "exampleGroups 0 [0] m0" "hs_groups (am_hw m0) 0 = Some (newContextGroup 8)"
    by (simp_all add: exampleGroups_def newGroupContextHelper_def newHwState_def engineCount_def NUM_ENGINES_def)
  then obtain c1 m1 where m1: "createInExample 1 exampleEnv m0 = Inr (c1, m1)" "exampleGroups 1 [0] m1"
    using example_firstGroup by blast
  then obtain c2 m2 b where m2: "createInExample 2 exampleEnv m1 = Inr (c2, m2)" "exampleGroups 2 [0, b] m2"
    using example_nextGroup [of "[0]" m1 exampleEnv 2] by (auto simp: numeral_2_eq_2)
  then obtain c3 m3 c where m3: "createInExample 3 exampleEnv m2 = Inr (c3, m3)" "exampleGroups 3 [0, b, c] m3"
    using example_nextGroup [of "[0, b]" m2 exampleEnv 3] by (auto simp: eval_nat_numeral)
  then obtain c4 m4 d where m4: "createInExample 4 exampleEnv m3 = Inr (c4, m4)" "exampleGroups 4 [0, b, c, d] m4"
    using example_nextGroup [of "[0, b, c]" m3 exampleEnv 4] by (auto simp: eval_nat_numeral)
  have "mgr_reachable m0 m4"
    using reachable_start m1(1) m2(1) m3(1) m4(1) step_create2 reachable_step by metis
  then show ?thesis
    using m0(1) m4(2) by blast
qed

lemma example_fresh:
  assumes "create env disabled environ opts pg = Some (Inr (Some m0), pg')" and "mgr_reachable m0 m" and
    "exampleGroups 4 [a, b, c, d] m"
  shows "am_nextAddress m + 4 \<notin> {a, b, c, d}"
proof -
  have "vectorsOk m"
    using mgr_reachable_ok [OF assms(2) create_ok [OF assms(1)]] by (simp add: mgr_ok_def)
  moreover have "vectorOf m 0 0 = \<lparr>gv_elements = [a, b, c, d], gv_capacity = 4\<rparr>"
    using assms(3) by (simp add: exampleGroups_def)
  ultimately have "\<forall>x\<in>{a, b, c, d}. x < am_nextAddress m"
    unfolding vectorsOk_def by (simp add: engineCount_def NUM_ENGINES_def) force
  then show ?thesis
    by auto
qed

end
