(* ===== verification/ManagerAlloc.thy ===== *)
theory ManagerAlloc
  imports ManagerFile ManagerExample
begin

text \<open>
  The allocator of a manager.  An operation on memory never takes away a bank that the allocator could serve
  (\<open>keeps_reserve\<close>, from the allocator up through walks, frees, contexts and the manager), and the tables keep the
  banks of their roots.  A new manager that writes a file can serve the host, its devices and its tables
  (\<open>new_manager_room\<close>), so every manager that is reached from it can, and its writes succeed
  (\<open>mgr_writeMemory2_succeeds\<close>).
\<close>

section \<open>What the operations keep of the allocator\<close>

named_theorems alloc_dests \<open>an allocator that could serve a bank still can\<close>

lemma keeps_reserveD: "keeps_reserve al al' \<Longrightarrow> can_reserve b al \<Longrightarrow> can_reserve b al'"
  by (simp add: keeps_reserve_def)

lemma reserve_alloc [alloc_dests]: "reservePhysicalMemory bank sz a al = Inr (p, al') \<Longrightarrow> keeps_reserve al al'"
  by (cases al) (auto simp: keeps_reserve_def reservePhysicalMemory_Simple_def Let_def bindR_Inr_iff assertR_Inr_iff
    split: if_splits prod.splits)

lemma free_alloc [alloc_dests]: "freePhysicalMemory bank a al = Inr al' \<Longrightarrow> keeps_reserve al al'"
  by (cases al) (auto simp: keeps_reserve_def freePhysicalMemory_Simple_def Let_def bindR_Inr_iff assertR_Inr_iff
    split: if_splits prod.splits)

lemma newTable_alloc [alloc_dests]:
  "newPageTable k h sz bank params al = Inr (n, al') \<Longrightarrow> keeps_reserve al al'"
  "newTable k h bank al = Inr (n, al') \<Longrightarrow> keeps_reserve al al'"
  by (auto simp: newTable_def newPageTable_def Let_def bindR_Inr_iff split: if_splits dest!: reserve_alloc)

lemma allocateChild_alloc [alloc_dests]: "allocateChild n ps bank al = Inr (c, al') \<Longrightarrow> keeps_reserve al al'"
  by (cases "pt_kind n") (auto simp: allocateChild_def allocatePdeChild_def allocateTableChild_def Let_def bindR_Inr_iff
    assertR_Inr_iff split: if_splits dest!: newTable_alloc)

lemma allocateChildWith_alloc [alloc_dests]:
  "allocateChildWith n ps bank params al = Inr (c, al') \<Longrightarrow> keeps_reserve al al'"
  "allocateChildAt n ps bank params a al = Inr (c, al') \<Longrightarrow> keeps_reserve al al'"
  by (cases "pt_kind n"; auto simp: allocateChildWith_def allocateChildAt_def Let_def bindR_Inr_iff assertR_Inr_iff
    split: if_splits dest!: newTable_alloc allocateChild_alloc)+

lemma deletePageTable_alloc [alloc_dests]:
  "deletePageTable n al = Inr al' \<Longrightarrow> keeps_reserve al al'"
  "deleteChildren cs al = Inr al' \<Longrightarrow> keeps_reserve al al'"
  by (induction n al and cs al arbitrary: al' and al' rule: deletePageTable_deleteChildren.induct)
    (fastforce simp: bindR_Inr_iff split: if_splits dest: free_alloc intro: keeps_reserve_trans)+

lemma newWalkChild_alloc [alloc_dests]: "newWalkChild c level n l al = Inr (ch, al') \<Longrightarrow> keeps_reserve al al'"
  by (cases "level = l_leafLevel l"; cases "c_clonePageInfo c"; cases "l_physicalAddress l")
    (auto simp: newWalkChild_def Let_def bindR_Inr_iff split: if_splits dest!: allocateChild_alloc
      allocateChildWith_alloc)

lemma createChild_alloc [alloc_dests]: "createChild c level i n l w = Inr (n', ch, w') \<Longrightarrow> keeps_reserve (w_alloc w)
  (w_alloc w')"
  by (auto simp: createChild_def Let_def bindR_Inr_iff assertR_Inr_iff split: option.splits dest!: newWalkChild_alloc)

lemma walkStep_alloc:
  "walkStep c level p n l w = Inr (StepNext i n' ch l' w') \<Longrightarrow> keeps_reserve (w_alloc w) (w_alloc w')"
  by (erule walkStep_next) (auto simp: same_pages_def dest!: emitChild_pages createChild_alloc)

lemma walkLevels_alloc [alloc_dests]:
  "walkLevels c k p n l w = Inr (n', leaf, l', w') \<Longrightarrow> keeps_reserve (w_alloc w) (w_alloc w')"
proof (induction c k p n l w arbitrary: n' leaf l' w' rule: walkLevels.induct)
  case (2 c level p node l w)
  show ?case
  proof (cases "level < l_leafLevel l")
    case True
    then show ?thesis
      using "2.prems" by simp
  next
    case False
    then obtain step where step: "walkStep c level p node l w = Inr step"
      using "2.prems" by (auto simp: bindR_Inr_iff)
    show ?thesis
    proof (cases step)
      case (StepBreak parent child l1 w1)
      then show ?thesis
        using "2.prems" False step by (auto dest!: walkStep_break)
    next
      case (StepNext i parent child l1 w1)
      then obtain child' l2 where "walkLevels c level (p @ [i]) child l1 w1 = Inr (child', leaf, l2, w')"
        using "2.prems" False step by (auto simp: bindR_Inr_iff)
      then show ?thesis
        using "2.IH" [OF False step StepNext] walkStep_alloc [OF step [unfolded StepNext]] keeps_reserve_trans by blast
    qed
  qed
qed simp

lemma walkPage_alloc [alloc_dests]:
  "walkPage a i pa gfx sz root w = Inr (ps, bank, root', leaf, l, w') \<Longrightarrow> keeps_reserve (w_alloc w) (w_alloc w')"
  by (auto simp: walkPage_def bindR_Inr_iff assertR_Inr_iff dest!: walkLevels_alloc)

lemma walkPages_alloc [alloc_dests]:
  "walkPages a i pa gfx sz root w = Inr (root', w') \<Longrightarrow> keeps_reserve (w_alloc w) (w_alloc w')"
proof (induction a i pa gfx sz root w arbitrary: root' w' rule: walkPages.induct)
  case (1 a i pa gfx sz root w)
  show ?case
  proof (cases "sz > 0")
    case False
    then show ?thesis
      using "1.prems" by (simp add: walkPages.simps)
  next
    case True
    then obtain ps bank root1 leaf l w1 where page: "walkPage a i pa gfx sz root w = Inr (ps, bank, root1, leaf, l, w1)"
      using "1.prems"(1) by (subst (asm) walkPages.simps) (auto simp: bindR_Inr_iff)
    have "walkPages a (i + 1) (map_option (nextPhysicalAddress ps (iterationSize ps gfx sz)) (l_physicalAddress l))
        (gfx + iterationSize ps gfx sz) (sz - iterationSize ps gfx sz) root1
        (w1\<lparr>w_entries := w_entries w1 @ [leafInfo leaf (gfx AND (ps - 1)) (iterationSize ps gfx sz) bank]\<rparr>) = Inr
          (root', w')"
      using "1.prems"(1) True page by (subst (asm) walkPages.simps) (simp add: Let_def)
    then have "keeps_reserve (w_alloc w1) (w_alloc w')"
      using "1.IH" [OF True page refl refl refl refl refl refl refl refl] by simp
    then show ?thesis
      using walkPage_alloc [OF page] keeps_reserve_trans by blast
  qed
qed

lemma walkMemory_alloc [alloc_dests]:
  "walkMemory gpu ps64 params mode infos pa root w = Inr (root', w') \<Longrightarrow> keeps_reserve (w_alloc w) (w_alloc w')"
  by (auto simp: walkMemory_def Let_def assertR_Inr_iff split: if_splits option.splits dest!: walkPages_alloc)

lemma ggttDumpEntries_alloc: "ggttDumpEntries k i pa bank bits g w = (g', w') \<Longrightarrow> w_alloc w' = w_alloc w"
  by (induction k i pa bank bits g w rule: ggttDumpEntries.induct) (auto simp: Let_def ggttEntryInfo_def
    pushWalkEntry_def)

lemma ggttGetOrAllocate_alloc [alloc_dests]:
  "ggttGetOrAllocate banks ps mode i g w = Inr (ch, g', w') \<Longrightarrow> keeps_reserve (w_alloc w) (w_alloc w')"
  by (auto simp: ggttGetOrAllocate_def ggtt_allocateChild_def ggttEntryInfo_def pushWalkEntry_def Let_def bindR_Inr_iff
    assertR_Inr_iff split: option.splits prod.splits dest!: newTable_alloc ggttDumpEntries_alloc)

lemma walkGgtt_alloc [alloc_dests]: "walkGgtt banks ps mode gfx sz g w = Inr (g', w') \<Longrightarrow> keeps_reserve (w_alloc w)
  (w_alloc w')"
proof (induction banks ps mode gfx sz g w arbitrary: g' w' rule: walkGgtt.induct)
  case (1 banks ps mode gfx sz g w)
  show ?case
  proof (cases "sz > 0")
    case False
    then show ?thesis
      using "1.prems" by (simp add: walkGgtt.simps)
  next
    case True
    then obtain ch g1 w1 where "ggttGetOrAllocate banks ps mode (ggtt_getIndex (ucast (ucast (gfx - (gfx AND (ps -
      1))) :: u32))) g w
        = Inr (ch, g1, w1)"
      using "1.prems" by (subst (asm) walkGgtt.simps) (auto simp: Let_def bindR_Inr_iff)
    note page = this
    have rest: "min (ps - (gfx AND (ps - 1))) sz \<noteq> 0"
      "walkGgtt banks ps mode (gfx + ucast (ucast (min (ps - (gfx AND (ps - 1))) sz) :: u32))
       (sz - min (ps - (gfx AND (ps - 1))) sz) g1 (w1\<lparr>w_entries := w_entries w1 @
          [\<lparr>pi_physicalAddress = pt_physicalAddress ch + (gfx AND (ps - 1)), pi_size = min (ps - (gfx AND (ps - 1))) sz,
            pi_isLocalMemory = isLocalMemory ch, pi_memoryBank = 0\<rparr>]\<rparr>) = Inr (g', w')"
      using "1.prems" True page by (subst (asm) walkGgtt.simps, auto simp: Let_def split: if_splits)+
    have "keeps_reserve (w_alloc w1) (w_alloc w')"
      using "1.IH" [OF True refl refl refl page refl refl refl refl rest] by simp
    then show ?thesis
      using ggttGetOrAllocate_alloc [OF page] keeps_reserve_trans by blast
  qed
qed

text \<open>The operations of the stream on a page table.\<close>

lemma memory_operations_alloc [alloc_dests]:
  "writeMemory env params p al = Inr (cmds, es, p', al') \<Longrightarrow> keeps_reserve al al'"
  "cloneMemory env infos params p al = Inr (cmds, p', al') \<Longrightarrow> keeps_reserve al al'"
  "expectMemory env g bs sz op p al = Inr (cmds, p', al') \<Longrightarrow> keeps_reserve al al'"
  "readMemory env g sz banks ps p al = Inr (cmds, p', al') \<Longrightarrow> keeps_reserve al al'"
  "mapGpuVa env params pa p al = Inr (cmds, p', al') \<Longrightarrow> keeps_reserve al al'"
  by (auto simp: writeMemory_def cloneMemory_def expectMemory_def readMemory_def mapGpuVa_def makeWalker_def Let_def
      bindR_Inr_iff assertR_Inr_iff split_beta dest!: walkMemory_alloc)

lemma writeMemoryGgtt_alloc [alloc_dests]:
  "writeMemoryGgtt g memory sz banks hint ps t al = Inr (cmds, es, t', al') \<Longrightarrow> keeps_reserve al al'"
  by (auto simp: writeMemoryGgtt_def makeWalker_def bindR_Inr_iff dest!: walkGgtt_alloc)

lemma gttMemoryPoll_alloc [alloc_dests]: "gttMemoryPoll g v op t al = Inr (cmds, t', al') \<Longrightarrow> keeps_reserve al al'"
  by (auto simp: gttMemoryPoll_def makeWalker_def bindR_Inr_iff Let_def dest!: walkGgtt_alloc split: if_splits)

lemma deleteNode_alloc [alloc_dests]: "deleteNode n st = Inr st' \<Longrightarrow> keeps_reserve (fs_alloc st) (fs_alloc st')"
  by (auto simp: deleteNode_def bindR_Inr_iff split: option.splits dest!: deletePageTable_alloc)

lemma pushEntry_alloc [simp]: "fs_alloc (pushEntry level a v st) = fs_alloc st"
  by (simp add: pushEntry_def)

lemma clearPs64Slot_alloc: "clearPs64Slot gpu i (n, st) = Inr (n', st') \<Longrightarrow> fs_alloc st' = fs_alloc st"
  by (auto simp: clearPs64Slot_def Let_def bindR_Inr_iff split: option.splits if_splits)

lemma forSlots_alloc: "forSlots (clearPs64Slot gpu) is (n, st) = Inr (n', st') \<Longrightarrow> fs_alloc st' = fs_alloc st"
proof (induction "is" arbitrary: n st)
  case (Cons i "is")
  then obtain n1 st1 where "clearPs64Slot gpu i (n, st) = Inr (n1, st1)" "forSlots (clearPs64Slot gpu) is (n1,
    st1) = Inr (n', st')"
    by (auto simp: bindR_Inr_iff)
  then show ?case
    using Cons.IH clearPs64Slot_alloc by metis
qed simp

lemma freePte_alloc [alloc_dests]:
  "freePte c pte st = Inr (ch, pte', st') \<Longrightarrow> keeps_reserve (fs_alloc st) (fs_alloc st')"
  by (auto simp: freePte_def breakPs64Group_def Let_def bindR_Inr_iff assertR_Inr_iff split: option.splits if_splits
    dest!: forSlots_alloc)

lemma finishPte_alloc [alloc_dests]:
  "finishPte c i pde (ch, pte, st) = Inr (is2MB, ps, pde', st') \<Longrightarrow> keeps_reserve (fs_alloc st) (fs_alloc st')"
  by (auto simp: finishPte_def Let_def bindR_Inr_iff assertR_Inr_iff split: if_splits dest!: deleteNode_alloc
    simp: keeps_reserve_def)

lemma freePde_alloc [alloc_dests]:
  "freePde c pde st = Inr (Some (is2MB, ps, pde', st')) \<Longrightarrow> keeps_reserve (fs_alloc st) (fs_alloc st')"
  by (auto simp: freePde_def Let_def bindR_Inr_iff split: option.splits if_splits
    dest!: deleteNode_alloc freePte_alloc finishPte_alloc simp: keeps_reserve_def)

lemma removeEmptyPde_alloc [alloc_dests]:
  "removeEmptyPde i pdp (is2MB, ps, pde, st) = Inr (is2MB', ps', pdp', st') \<Longrightarrow> keeps_reserve (fs_alloc st)
    (fs_alloc st')"
  by (auto simp: removeEmptyPde_def bindR_Inr_iff split: if_splits dest!: deleteNode_alloc)

lemma freeLevels_alloc [alloc_dests]:
  "freeLevels c k n st = Inr (Some (is2MB, ps, n', st')) \<Longrightarrow> keeps_reserve (fs_alloc st) (fs_alloc st')"
proof (induction c k n st arbitrary: is2MB ps n' st' rule: freeLevels.induct)
  case (3 c lev n st)
  then obtain ch is2MB1 ps1 ch1 st1 where ch: "getChild n (getIndex (pt_kind n) (fc_gfxAddress c)) = Some ch"
      "freeLevels c (Suc lev) ch st = Inr (Some (is2MB1, ps1, ch1, st1))"
    by (auto simp: Let_def bindR_Inr_iff split: option.splits)
  then have "keeps_reserve (fs_alloc st) (fs_alloc st1)"
    using "3.IH" [OF refl ch] by blast
  moreover have "keeps_reserve (fs_alloc st1) (fs_alloc st')"
    using "3.prems" ch by (auto simp: Let_def bindR_Inr_iff split: if_splits dest!: removeEmptyPde_alloc)
  ultimately show ?case
    using keeps_reserve_trans by blast
qed (auto dest!: freePde_alloc)

lemma freeLoop_alloc [alloc_dests]:
  "freeLoop c n st = Inr (early, n', st') \<Longrightarrow> keeps_reserve (fs_alloc st) (fs_alloc st')"
proof (induction c n st arbitrary: early n' st' rule: freeLoop.induct)
  case (1 c n st)
  show ?case
  proof (cases "fc_size c > 0 \<and> (\<exists>r. freeLevels c (getNumLevels (pt_kind n) - 1) n st = Inr (Some r))")
    case False
    then show ?thesis
      using "1.prems" by (subst (asm) freeLoop.simps) (auto simp: bindR_Inr_iff split: if_splits option.splits)
  next
    case True
    then obtain is2MB ps n1 st1 where step: "freeLevels c (getNumLevels (pt_kind n) - 1) n st = Inr (Some (is2MB,
      ps, n1, st1))"
      by (metis prod.exhaust)
    have "keeps_reserve (fs_alloc st1) (fs_alloc st')"
      using "1.prems" True step
      by (subst (asm) freeLoop.simps) (auto simp: Let_def split: if_splits dest!: "1.IH" [OF _ step refl refl refl
        refl])
    then show ?thesis
      using freeLevels_alloc [OF step] keeps_reserve_trans by blast
  qed
qed

lemma freeMemory_alloc [alloc_dests]: "freeMemory env g sz p al = Inr (cmds, p', al') \<Longrightarrow> keeps_reserve al al'"
  by (auto simp: freeMemory_def bindR_Inr_iff assertR_Inr_iff dest!: freeLoop_alloc)

section \<open>The allocator of a context\<close>

definition keepsAlloc :: "hw_state \<Rightarrow> hw_state \<Rightarrow> bool" where
  "keepsAlloc st st' \<longleftrightarrow> (\<forall>b. can_reserve b (hs_alloc st) \<longrightarrow> can_reserve b (hs_alloc st'))"

lemma keepsAlloc_refl [simp]: "keepsAlloc st st"
  by (simp add: keepsAlloc_def)

lemma keepsAlloc_trans: "keepsAlloc a b \<Longrightarrow> keepsAlloc b c \<Longrightarrow> keepsAlloc a c"
  by (simp add: keepsAlloc_def)

lemma alloc_updates [simp]:
  "hs_alloc (emitCmds cmds st) = hs_alloc st" "hs_alloc (setGgtt c g st) = hs_alloc st"
  "hs_alloc (setContext this c st) = hs_alloc st" "hs_alloc (setGroup p g' st) = hs_alloc st"
  "hs_alloc (setPpgtt c n st) = hs_alloc st"
  by (simp_all add: emitCmds_def setGgtt_def setContext_def setGroup_def setPpgtt_def split: option.splits)

named_theorems keep_dests \<open>steps after which the allocator serves at least the same banks\<close>

lemma ggtt_calls_alloc [keep_dests]:
  "ggttAlloc c sz ps st = Inr (a, st') \<Longrightarrow> keepsAlloc st st'"
  "ggttWrite c a' bs sz hint ps st = Inr st' \<Longrightarrow> keepsAlloc st st'"
  by (auto simp: ggttAlloc_def ggttWrite_def bindR_Inr_iff split_beta Let_def keepsAlloc_def
    dest!: writeMemoryGgtt_alloc dest: keeps_reserveD)

lemma initializeStatusPages_alloc [keep_dests]: "initializeStatusPages ps (c, st) = Inr (c', st') \<Longrightarrow> keepsAlloc st st'"
  by (auto simp: initializeStatusPages_def bindR_Inr_iff dest!: keep_dests simp: keepsAlloc_def)

lemma initializeRing_alloc [keep_dests]: "initializeRing ps (c, st) = Inr (c', st') \<Longrightarrow> keepsAlloc st st'"
  by (auto simp: initializeRing_def bindR_Inr_iff dest!: keep_dests simp: keepsAlloc_def)

lemma initializeLRCA_alloc [keep_dests]: "initializeLRCA env ps (c, st) = Inr (c', st') \<Longrightarrow> keepsAlloc st st'"
  by (auto simp: initializeLRCA_def Let_def bindR_Inr_iff dest!: keep_dests simp: keepsAlloc_def)

lemma initializeRingState_alloc [keep_dests]: "initializeRingState env ps (c, st) = Inr (c', st') \<Longrightarrow> keepsAlloc st st'"
  by (auto simp: initializeRingState_def Let_def bindR_Inr_iff split: if_splits dest!: keep_dests simp: keepsAlloc_def)

lemma writeLRCA_alloc [keep_dests]: "writeLRCA this ps (c, st) = Inr (c', st') \<Longrightarrow> keepsAlloc st st'"
  by (auto simp: writeLRCA_def Let_def bindR_Inr_iff keepsAlloc_def dest!: keep_dests)

lemma enterGroup_alloc [keep_dests]: "enterGroup this (c, st) = Inr (c', st') \<Longrightarrow> keepsAlloc st st'"
  by (auto simp: enterGroup_def bindR_Inr_iff assertR_Inr_iff keepsAlloc_def split: if_splits)

lemma hw_initialize_alloc [keep_dests]: "hw_initialize env this st = Inr st' \<Longrightarrow> keepsAlloc st st'"
  by (auto simp: hw_initialize_def bindR_Inr_iff keepsAlloc_def split: if_splits dest!: keep_dests)

lemma dissolveGroup_alloc [keep_dests]: "dissolveGroup cs st = Inr st' \<Longrightarrow> keepsAlloc st st'"
  by (induction cs st rule: dissolveGroup.induct) (auto simp: bindR_Inr_iff keepsAlloc_def)

lemma leaveGroup_alloc [keep_dests]: "leaveGroup this c st = Inr st' \<Longrightarrow> keepsAlloc st st'"
  by (auto simp: leaveGroup_def bindR_Inr_iff Let_def keepsAlloc_def split: if_splits dest!: dissolveGroup_alloc)

lemma hw_release_alloc [keep_dests]: "hw_release this st = Inr st' \<Longrightarrow> keepsAlloc st st'"
  by (auto simp: hw_release_def bindR_Inr_iff Let_def keepsAlloc_def dest!: leaveGroup_alloc)

lemma hw_pollForCompletion_alloc [keep_dests]: "hw_pollForCompletion c st = Inr st' \<Longrightarrow> keepsAlloc st st'"
  by (auto simp: hw_pollForCompletion_def bindR_Inr_iff keepsAlloc_def split: if_splits
    dest!: gttMemoryPoll_alloc dest: keeps_reserveD)

lemma wrapRing_alloc [keep_dests]: "wrapRing ps n (c, st) = Inr (c', st') \<Longrightarrow> keepsAlloc st st'"
  by (auto simp: wrapRing_def Let_def bindR_Inr_iff keepsAlloc_def dest!: keep_dests split: if_splits)

lemma writeRing_alloc [keep_dests]: "writeRing ps cmds n (c, st) = Inr (c', st') \<Longrightarrow> keepsAlloc st st'"
  by (auto simp: writeRing_def Let_def bindR_Inr_iff keepsAlloc_def dest!: keep_dests)

lemma writeRegisters_alloc [keep_dests]: "writeRegisters ps r st = Inr (c', st') \<Longrightarrow> keepsAlloc st st'"
  by (cases r; cases "snd r") (auto simp: writeRegisters_def bindR_Inr_iff keepsAlloc_def dest!: keep_dests split:
    if_splits)

lemma hw_resubmit_alloc [keep_dests]: "hw_resubmit c st = Inr st' \<Longrightarrow> keepsAlloc st st'"
  by (auto simp: hw_resubmit_def Let_def bindR_Inr_iff keepsAlloc_def)

lemma submitBatchBuffer_alloc [keep_dests]:
  assumes "submitBatchBuffer this a ov st = Inr st'"
  shows "keepsAlloc st st'"
proof -
  obtain c ps n c1 st1 c2 st2 r c4 st4 where
    steps: "wrapRing ps n (c, st) = Inr (c1, st1)" "writeRing ps (ringCommands c a) n (c1, st1) = Inr (c2, st2)"
      "writeRegisters ps r st2 = Inr (c4, st4)" and st': "hw_resubmit c4 (setContext this c4 st4) = Inr st'"
    using assms by (auto simp: submitBatchBuffer_def Let_def bindR_Inr_iff)
  then show ?thesis
    using wrapRing_alloc [OF steps(1)] writeRing_alloc [OF steps(2)] writeRegisters_alloc [OF steps(3)]
      hw_resubmit_alloc [OF st'] by (simp add: keepsAlloc_def)
qed

lemma memory_calls_alloc [keep_dests]:
  "hw_writeMemory2 env params c st = Inr st' \<Longrightarrow> keepsAlloc st st'"
  "hw_freeMemory env a sz c st = Inr st' \<Longrightarrow> keepsAlloc st st'"
  "hw_expectMemory env a bs sz op c st = Inr st' \<Longrightarrow> keepsAlloc st st'"
  "hw_readMemory env a sz banks ps c st = Inr st' \<Longrightarrow> keepsAlloc st st'"
  by (auto simp: hw_writeMemory2_def hw_freeMemory_def hw_expectMemory_def hw_readMemory_def bindR_Inr_iff
      keepsAlloc_def dest!: memory_operations_alloc freeMemory_alloc dest: keeps_reserveD)

lemma contextCall_alloc: "contextCall he call this st = Inr st' \<Longrightarrow> keepsAlloc st st'"
  by (cases call) (auto simp: bindR_Inr_iff hw_writeMMIO_def hw_dumpBufferBIN_def hw_dumpSurface_def
    writeAndSubmitBatchBuffer_def hw_writeMemory_def keepsAlloc_def dest!: keep_dests)

section \<open>The allocator of a manager\<close>

text \<open>The banks that hold the roots of the tables.\<close>

definition rootBanks :: "hw_state \<Rightarrow> u32 list" where
  "rootBanks st = map pt_memoryBank (hs_ppgtts st)"

definition keepsRoom :: "hw_state \<Rightarrow> hw_state \<Rightarrow> bool" where
  "keepsRoom st st' \<longleftrightarrow> keepsAlloc st st' \<and> rootBanks st' = rootBanks st"

lemma keepsRoom_refl [simp]: "keepsRoom st st"
  by (simp add: keepsRoom_def)

lemma keepsRoom_trans: "keepsRoom a b \<Longrightarrow> keepsRoom b c \<Longrightarrow> keepsRoom a c"
  by (auto simp: keepsRoom_def intro: keepsAlloc_trans)

lemma rootBanks_same: "hs_ppgtts st' = hs_ppgtts st \<Longrightarrow> rootBanks st' = rootBanks st"
  by (simp add: rootBanks_def)

lemma rootBanks_update:
  assumes "i < length ps" and "same_root (ps ! i) p"
  shows "map pt_memoryBank (ps[i := p]) = map pt_memoryBank ps"
  using assms by (simp add: map_update same_root_def list_update_same_conv)

lemma setPpgtt_banks:
  assumes "hw_ppgtt c st = Inr n" and "same_root n p"
  shows "rootBanks (emitCmds cmds (setPpgtt c p (st\<lparr>hs_alloc := al\<rparr>))) = rootBanks st"
  using assms rootBanks_update [of "unat (hc_deviceIndex c)" "hs_ppgtts st" p]
  by (auto simp: rootBanks_def hw_ppgtt_def setPpgtt_def emitCmds_def Let_def split: if_splits)

lemma memory_calls_banks:
  "hw_writeMemory2 env params c st = Inr st' \<Longrightarrow> treesOk st \<Longrightarrow> rootBanks st' = rootBanks st"
  "hw_freeMemory env a sz c st = Inr st' \<Longrightarrow> treesOk st \<Longrightarrow> rootBanks st' = rootBanks st"
  "hw_expectMemory env a bs sz op c st = Inr st' \<Longrightarrow> treesOk st \<Longrightarrow> rootBanks st' = rootBanks st"
  "hw_readMemory env a sz banks ps c st = Inr st' \<Longrightarrow> treesOk st \<Longrightarrow> rootBanks st' = rootBanks st"
  by (auto simp: hw_writeMemory2_def hw_freeMemory_def hw_expectMemory_def hw_readMemory_def bindR_Inr_iff
      intro!: setPpgtt_banks dest: memory_operations_tree freeMemory_tree hw_ppgtt_tree)

lemma contextCall_room:
  assumes "contextCall he call this st = Inr st'" and "treesOk st"
  shows "keepsRoom st st'"
proof -
  have "rootBanks st' = rootBanks st"
  proof (cases call)
    case (CtxWriteAndSubmit a bb sz banks ps)
    with assms(1) obtain c st1 params where "hw_writeMemory2 he params c st = Inr st1"
        "submitBatchBuffer this a False st1 = Inr st'"
      by (auto simp: writeAndSubmitBatchBuffer_def hw_writeMemory_def bindR_Inr_iff)
    then show ?thesis
      using memory_calls_banks(1) [OF _ assms(2)] submitBatchBuffer_trees rootBanks_same by metis
  qed (use assms in \<open>auto simp: bindR_Inr_iff hw_writeMMIO_def hw_dumpBufferBIN_def hw_dumpSurface_def rootBanks_def
      dest!: tree_dests dest: memory_calls_banks [unfolded rootBanks_def]\<close>)
  then show ?thesis
    using contextCall_alloc [OF assms(1)] by (simp add: keepsRoom_def)
qed

abbreviation mgrRoom :: "'p AubManagerImp \<Rightarrow> 'p AubManagerImp \<Rightarrow> bool" where
  "mgrRoom m m' \<equiv> keepsRoom (am_hw m) (am_hw m')"

lemma room_same: "hs_ppgtts st' = hs_ppgtts st \<Longrightarrow> hs_alloc st' = hs_alloc st \<Longrightarrow> keepsRoom st st'"
  by (simp add: keepsRoom_def keepsAlloc_def rootBanks_def)

lemma callContext_room:
  assumes "callContext env call c m = doneO m'" and "mgrTrees m"
  shows "mgrRoom m m'"
proof (cases c)
  case (HardwareContextAt a)
  then obtain this st where st: "contextCall (hwEnv env m) call this ((am_hw m)\<lparr>hs_cmds := []\<rparr>) = Inr st"
      "hs_ppgtts (am_hw m') = hs_ppgtts st" "hs_alloc (am_hw m') = hs_alloc st"
    using assms(1) by (auto elim!: withHw_hw)
  moreover have "treesOk ((am_hw m)\<lparr>hs_cmds := []\<rparr>)"
    using assms(2) by (simp add: treesOk_def)
  ultimately have "keepsRoom ((am_hw m)\<lparr>hs_cmds := []\<rparr>) st"
    using contextCall_room by blast
  then show ?thesis
    using st(2,3) by (simp add: keepsRoom_def keepsAlloc_def rootBanks_def)
qed (use assms in simp)

lemma forContexts_room: "forContexts env call cs m = doneO m' \<Longrightarrow> mgrTrees m \<Longrightarrow> mgrRoom m m'"
proof (induction cs arbitrary: m)
  case (Cons c cs)
  then obtain m1 where m1: "callContext env call c m = doneO m1" "forContexts env call cs m1 = doneO m'"
    by (auto simp: bindO_done_iff)
  show ?case
    using keepsRoom_trans [OF callContext_room [OF m1(1) Cons.prems(2)] Cons.IH [OF m1(2) callContext_trees [OF
      m1(1) Cons.prems(2)]]] .
qed simp

lemma open_close_room:
  assumes "mgrTrees m"
  shows "mgr_open env name m = doneO m' \<Longrightarrow> mgrRoom m m'" "mgr_close env m = doneO m' \<Longrightarrow> mgrRoom m m'"
    "closeSocket m = Inr m' \<Longrightarrow> mgrRoom m m'" "mgr_addComment env message m = doneO m' \<Longrightarrow> mgrRoom m m'"
proof -
  show "mgr_open env name m = doneO m' \<Longrightarrow> mgrRoom m m'"
    using assms by (auto simp: mgr_open_def bindO_done_iff split: if_splits dest!: hw_dests dest: forContexts_room)
  show "mgr_close env m = doneO m' \<Longrightarrow> mgrRoom m m'"
    using assms by (auto simp: mgr_close_def bindO_done_iff split: if_splits dest!: hw_dests dest: forContexts_room)
qed (use assms in \<open>auto simp: closeSocket_def mgr_addComment_def Let_def bindO_done_iff bindR_Inr_iff split: if_splits
      dest!: hw_dests\<close>)

lemma onPpgtt_room:
  assumes "onPpgtt env i f m = doneO (x, m')" and "mgrTrees m"
    and "\<And>p al cmds x p' al'. f p al = Inr (cmds, x, p', al') \<Longrightarrow> treeOk p \<Longrightarrow> same_root p p' \<and> keeps_reserve al al'"
  shows "mgrRoom m m'"
proof -
  obtain cmds p al where i: "i < length (hs_ppgtts (am_hw m))"
    and f: "f (hs_ppgtts (am_hw m) ! i) (hs_alloc (am_hw m)) = Inr (cmds, x, p, al)"
    and m': "hs_ppgtts (am_hw m') = (hs_ppgtts (am_hw m))[i := p]" "hs_alloc (am_hw m') = al"
    using assms(1) by (auto simp: onPpgtt_def bindO_done_iff split: if_splits dest!: mgr_exec_hw)
  have "treeOk (hs_ppgtts (am_hw m) ! i)"
    using assms(2) i by (simp add: treesOk_def)
  then show ?thesis
    using assms(3) [OF f] m' rootBanks_update [OF i] by (simp add: keepsRoom_def keepsAlloc_def rootBanks_def
      keeps_reserve_def)
qed

lemma forPpgtts_room:
  assumes "forPpgtts env is f m = doneO m'" and "mgrTrees m"
    and "\<And>p al cmds p' al'. f p al = Inr (cmds, p', al') \<Longrightarrow> treeOk p \<Longrightarrow> treeOk p' \<and> same_root p p' \<and> keeps_reserve al al'"
  shows "mgrRoom m m'"
  using assms(1,2)
proof (induction "is" arbitrary: m)
  case (Cons i "is")
  then obtain u m1 where m1: "onPpgtt env i (withoutPages f) m = doneO (u, m1)" "forPpgtts env is f m1 = doneO m'"
    by (auto simp: bindO_done_iff)
  have "mgrTrees m1" "mgrRoom m m1"
    using onPpgtt_trees [OF m1(1) Cons.prems(2)] onPpgtt_room [OF m1(1) Cons.prems(2)] assms(3)
    by (auto simp: withoutPages_def bindR_Inr_iff)
  then show ?case
    using Cons.IH [OF m1(2)] keepsRoom_trans by blast
qed simp

lemma writeAndClone_room:
  assumes "writeAndClone env params cloneParams m = doneO (pages, m')" and "mgrTrees m"
  shows "mgrRoom m m'"
proof -
  obtain m1 where m1: "onPpgtt env 0 (writeMemory (mgrStreamEnv env m) params) m = doneO (pages, m1)"
    and m': "forPpgtts env (otherDevices m1) (cloneMemory (mgrStreamEnv env m1) pages cloneParams) m1 = doneO m'"
    using assms(1) by (auto simp: writeAndClone_def bindO_done_iff)
  have "mgrTrees m1"
    using onPpgtt_trees [OF m1 assms(2)] memory_operations_tree(1) by blast
  then have "mgrRoom m1 m'"
    using forPpgtts_room [OF m'] memory_operations_tree(2) memory_operations_alloc(2) by blast
  moreover have "mgrRoom m m1"
    using onPpgtt_room [OF m1 assms(2)] memory_operations_tree(1) memory_operations_alloc(1) by blast
  ultimately show ?thesis
    using keepsRoom_trans by blast
qed

lemma memory_room:
  assumes "mgrTrees m"
  shows "mgr_writeMemory2 env params m = doneO m' \<Longrightarrow> mgrRoom m m'"
    "writePageTableEntries env a sz banks hint ps pageSize m = doneO (ps', m') \<Longrightarrow> mgrRoom m m'"
    "mgr_writePhysicalMemoryPages env a memory ps sz hint m = doneO m' \<Longrightarrow> mgrRoom m m'"
    "mgr_freeMemory env a sz m = doneO m' \<Longrightarrow> mgrRoom m m'"
    "mgr_mapGpuVa2 env a params m = doneO (ok, m') \<Longrightarrow> mgrRoom m m'"
  using assms
  by (auto simp: mgr_writeMemory2_def writePageTableEntries_def mgr_writePhysicalMemoryPages_def mgr_freeMemory_def
      mgr_mapGpuVa2_def Let_def bindO_done_iff split: if_splits dest: writeAndClone_room dest!: mgr_exec_hw
      elim!: forPpgtts_room dest: memory_operations_tree freeMemory_tree memory_operations_alloc freeMemory_alloc)

lemma map_alloc: "keeps_reserve (AllocSHM4 s) al"
  by (simp add: keeps_reserve_def)

lemma reserveSpace_alloc: "reserveSpace bank sz a al = Inr (p, al') \<Longrightarrow> keeps_reserve al al'"
  by (cases al) (auto simp: reserveSpace_def keeps_reserve_def bindR_Inr_iff)

lemma reservations_room:
  shows "mgr_reservePhysicalMemory params info m = Inr (ok, info', m') \<Longrightarrow> mgrRoom m m'"
    "mgr_reserveOnlyPhysicalSpace params info m = Inr (ok, info', m') \<Longrightarrow> mgrRoom m m'"
    "mgr_mapSystemMemoryToPhysicalAddress a sz al l p m = Inr (ok, m') \<Longrightarrow> mgrRoom m m'"
  by (auto simp: mgr_reservePhysicalMemory_def mgr_reserveOnlyPhysicalSpace_def reserveWith_def
      mgr_mapSystemMemoryToPhysicalAddress_def setAllocator_def bindR_Inr_iff keepsRoom_def keepsAlloc_def rootBanks_def
      split: if_splits PhysicalAddressAllocator.splits dest!: reserve_alloc reserveSpace_alloc dest: keeps_reserveD)

text \<open>Creating and releasing contexts; the mode and the number of devices stay.\<close>

definition keepsSetup :: "'p AubManagerImp \<Rightarrow> 'p AubManagerImp \<Rightarrow> bool" where
  "keepsSetup m m' \<longleftrightarrow> am_streamMode m' = am_streamMode m \<and> am_devicesCount m' = am_devicesCount m"

lemma keepsSetup_refl [simp]: "keepsSetup m m"
  by (simp add: keepsSetup_def)

lemma keepsSetup_trans: "keepsSetup a b \<Longrightarrow> keepsSetup b c \<Longrightarrow> keepsSetup a c"
  by (simp add: keepsSetup_def)

lemma objects_setup: "mgrObjects m' = mgrObjects m \<Longrightarrow> keepsSetup m m'"
  by (simp add: mgrObjects_def keepsSetup_def)

definition keepsStores :: "'p AubManagerImp \<Rightarrow> 'p AubManagerImp \<Rightarrow> bool" where
  "keepsStores m m' \<longleftrightarrow> keepsSetup m m' \<and> hs_alloc (am_hw m') = hs_alloc (am_hw m)"

lemmas stores_defs = keepsStores_def keepsSetup_def

lemma putGroups_alloc [simp]: "hs_alloc (putGroups a gs st) = hs_alloc st"
  by (induction gs arbitrary: a st) simp_all

lemma freeGroups_alloc [simp]: "hs_alloc (freeGroups as st) = hs_alloc st"
  by (induction "as" arbitrary: st) simp_all

lemma resizeGroups_stores [simp]:
  "hs_alloc (am_hw (resizeGroups env i j v n m)) = hs_alloc (am_hw m)"
  "am_streamMode (resizeGroups env i j v n m) = am_streamMode m"
  "am_devicesCount (resizeGroups env i j v n m) = am_devicesCount m"
  by (simp_all add: resizeGroups_def setGroupVector_def Let_def)

lemma prepareGroup_stores: "prepareGroup n a m = Inr m' \<Longrightarrow> keepsStores m m'"
  by (auto simp: prepareGroup_def bindR_Inr_iff stores_defs)

lemma openGroup_stores: "openGroup env i j contextId m = Inr (number, m') \<Longrightarrow> keepsStores m m'"
  by (auto simp: openGroup_def Let_def bindR_Inr_iff stores_defs split: if_splits dest!: prepareGroup_stores)

lemma selectGroup_stores: "selectGroup env device engine contextId primary m = Inr (a, m') \<Longrightarrow> keepsStores m m'"
  by (auto simp: selectGroup_def Let_def bindR_Inr_iff stores_defs split: if_splits dest!: openGroup_stores
    prepareGroup_stores)

lemma addContext_stores: "addContext device h grp flags priority m = Inr (c, m') \<Longrightarrow> keepsStores m m'"
  by (auto simp: addContext_def newHardwareContextImp_def joinGroup_def Let_def bindR_Inr_iff assertR_Inr_iff
    stores_defs
      split: if_splits prod.splits)

lemma create_stores:
  "createHardwareContext device engine flags m = Inr (c, m') \<Longrightarrow> keepsStores m m'"
  "createInGroup env i p device engine flags priority m = Inr (c, m') \<Longrightarrow> keepsStores m m'"
  by (auto simp: createHardwareContext_def createInGroup_def addNullContext_def Let_def bindR_Inr_iff stores_defs
      split: if_splits dest!: selectGroup_stores addContext_stores)

lemma createHardwareContext3_stores: "createHardwareContext3 env p m = Inr (c, m') \<Longrightarrow> keepsStores m m'"
  by (auto simp: createHardwareContext3_def bindR_Inr_iff stores_defs split: option.splits if_splits dest!:
    create_stores)

lemma createHardwareContext2_trees:
  "createHardwareContext2 env i p device engine flags m = Inr (c, m') \<Longrightarrow> hs_ppgtts (am_hw m') = hs_ppgtts (am_hw m)"
  "createHardwareContext2 env i p device engine flags m = Inr (c, m') \<Longrightarrow> keepsStores m m'"
  by (simp_all add: createHardwareContext2_def create_trees create_stores)

lemma hw_release_room: "hw_release a (st\<lparr>hs_cmds := []\<rparr>) = Inr st' \<Longrightarrow> keepsRoom st st'"
  using hw_release_alloc [of a "st\<lparr>hs_cmds := []\<rparr>" st'] hw_release_trees [of a "st\<lparr>hs_cmds := []\<rparr>" st']
  by (auto simp: keepsRoom_def keepsAlloc_def rootBanks_def)

lemma release_room:
  assumes "releaseHardwareContext env c m = doneO (found, m')"
  shows "mgrRoom m m'"
  using assms
  by (cases c) (auto simp: releaseHardwareContext_def bindO_done_iff deleteHardwareContext_def bindR_Inr_iff
    split: if_splits elim!: withHw_hw dest!: hw_release_room simp: keepsRoom_def keepsAlloc_def rootBanks_def)

lemma release_setup: "releaseHardwareContext env c m = doneO (found, m') \<Longrightarrow> keepsSetup m m'"
  by (cases c) (auto simp: releaseHardwareContext_def bindO_done_iff deleteHardwareContext_def withHw_def bindR_Inr_iff
    keepsSetup_def split: if_splits dest!: mgr_exec_keeps mgrObjects_views)

lemma mgr_step_room: "mgr_step m m' \<Longrightarrow> mgrTrees m \<Longrightarrow> mgrRoom m m'"
proof (induction rule: mgr_step.induct)
  case (step_create device engine flags m c m')
  then show ?case
    using create_trees(1) create_stores(1) room_same unfolding keepsStores_def by metis
next
  case (step_create2 env contextId primaryContextId device engine flags m c m')
  then show ?case
    using createHardwareContext2_trees room_same unfolding keepsStores_def by metis
next
  case (step_create3 env p m c' m')
  then show ?case
    using createHardwareContext3_trees createHardwareContext3_stores room_same unfolding keepsStores_def by metis
next
  case (step_context c m env call m')
  then show ?case
    using callContext_room by blast
qed (auto dest: release_room open_close_room memory_room reservations_room dest!: registers_hw setCCSMode_hw)

lemma mgr_step_setup: "mgr_step m m' \<Longrightarrow> keepsSetup m m'"
proof (induction rule: mgr_step.induct)
  case (step_create device engine flags m c m')
  then show ?case
    using create_stores(1) keepsStores_def by blast
next
  case (step_create2 env contextId primaryContextId device engine flags m c m')
  then show ?case
    using createHardwareContext2_trees(2) keepsStores_def by blast
next
  case (step_create3 env p m c' m')
  then show ?case
    using createHardwareContext3_stores keepsStores_def by blast
next
  case (step_release env c m found m')
  then show ?case
    using release_setup by blast
qed (blast intro: objects_setup pause_keeps dest: keeps_dests)+

lemma mgr_reachable_room: "mgr_reachable m0 m \<Longrightarrow> mgrTrees m0 \<Longrightarrow> mgrRoom m0 m"
  by (induction rule: mgr_reachable.induct) (auto intro: keepsRoom_trans mgr_step_room mgr_reachable_trees)

lemma mgr_reachable_setup: "mgr_reachable m0 m \<Longrightarrow> keepsSetup m0 m"
  by (induction rule: mgr_reachable.induct) (auto intro: keepsSetup_trans mgr_step_setup)

section \<open>A new manager that writes a file\<close>

text \<open>The allocator can serve the memory of the host, that of every device, and the banks of the tables.\<close>

definition roomFor :: "'p AubManagerImp \<Rightarrow> bool" where
  "roomFor m \<longleftrightarrow> can_reserve 0 (hs_alloc (am_hw m))
     \<and> (\<forall>i < unat (am_devicesCount m). i < 32 \<longrightarrow> can_reserve (2 ^ i) (hs_alloc (am_hw m)))
     \<and> (\<forall>b \<in> set (rootBanks (am_hw m)). can_reserve b (hs_alloc (am_hw m)))"

lemma chooseAllocator_room:
  assumes "am_streamMode m = mode_aubFile" and "hs_ppgtts (am_hw m) = []"
  shows "roomFor (chooseAllocator env m)"
  using assms allocatorIndex_loop_power [of _ 0] length_bankAllocators
  by (simp add: roomFor_def rootBanks_def chooseAllocator_def setAllocator_def file_mode_only
    makePhysicalAddressAllocatorSimple_def)

lemma reserve_room: "can_reserve 0 al \<Longrightarrow> reservePhysicalMemory bank sz a al = Inr r \<Longrightarrow> can_reserve bank al"
  by (cases al) (auto simp: reservePhysicalMemory_Simple_def Let_def bindR_Inr_iff assertR_Inr_iff split: if_splits)

lemma addTables_room:
  assumes "addTables i m = Inr m'" and "roomFor m" and "am_streamMode m = mode_aubFile"
  shows "roomFor m' \<and> am_streamMode m' = mode_aubFile"
proof -
  have "mapStolenMemory i m = Inr m"
    using assms(3) by (simp add: mapStolenMemory_def file_mode_only)
  then obtain p al g where p: "newTable (gc_ppgttKind (am_class m) (am_gpuAddressSpace m)) True (tableBank i m)
    (hs_alloc (am_hw m)) = Inr (p, al)"
    and m': "m' = m\<lparr>am_hw := (am_hw m)\<lparr>hs_alloc := al, hs_ppgtts := hs_ppgtts (am_hw m) @ [p],
                               hs_ggtts := hs_ggtts (am_hw m) @ [g]\<rparr>\<rparr>"
    using assms(1) by (auto simp: addTables_def allocatePPGTT_def bindR_Inr_iff)
  have bank: "pt_memoryBank p = tableBank i m" "can_reserve (tableBank i m) (hs_alloc (am_hw m))"
    using p reserve_room assms(2) by (auto simp: newTable_def newPageTable_def roomFor_def Let_def bindR_Inr_iff)
  then show ?thesis
    using newTable_alloc(2) [OF p] assms(2,3) by (auto simp: m' roomFor_def rootBanks_def keeps_reserve_def)
qed

lemma addAllTables_room:
  "addAllTables is m = Inr m' \<Longrightarrow> roomFor m \<Longrightarrow> am_streamMode m = mode_aubFile \<Longrightarrow> roomFor m'"
  by (induction "is" arbitrary: m) (auto simp: bindR_Inr_iff dest: addTables_room)

lemma file_initialize_steps:
  assumes "am_streamMode m = mode_aubFile"
  shows "createStream env m = Inr (createAubFileStream env m)" and "initializeSimulator env m = doneO m"
  using assms by (simp_all add: createStream_def createSimulatorStream_def createCombinedStream_def
    createAubFileStream_def
      initializeSimulator_def file_mode_only)

lemma runProg_setup: "runProg p env m = doneO m' \<Longrightarrow> keepsSetup m m'"
  using runProg_keeps objects_setup by blast

lemma mgr_initialize_room:
  assumes "mgr_initialize env m = doneO m'" and "am_streamMode m = mode_aubFile" and "hs_ppgtts (am_hw m) = []"
    and "am_streamAub m = None" and "am_streamAub m' \<noteq> None"
  shows "roomFor m'"
proof -
  let ?m1 = "createAubFileStream env m"
  have stream: "getStream ?m1 = Inr True" and mode: "am_streamMode (chooseAllocator env ?m1) = mode_aubFile"
      "hs_ppgtts (am_hw ?m1) = []" "am_streamMode ?m1 = mode_aubFile"
    using assms(2,3) by (simp_all add: createAubFileStream_def getStream_def isFileMode_def chooseAllocator_def
      setAllocator_def)
  obtain m3 m4 where
    m3: "addAllTables [0..<unat (am_devicesCount (chooseAllocator env ?m1))] (chooseAllocator env ?m1) = Inr m3"
    and m4: "runProg (gc_initializeDefaultMemoryPools (am_class m3) (am_gpu m3) (streamModeOf m3) (am_devicesCount m3)
                (am_memoryBankSize m3)) env m3 = doneO m4" and m': "injectSimulator env m4 = doneO m'"
    using assms(1,4,5) stream file_initialize_steps(1) [OF assms(2)] file_initialize_steps(2) [OF mode(1)]
    by (auto simp: mgr_initialize_def bindO_done_iff split: if_splits)
  have "roomFor m3"
    using addAllTables_room [OF m3 chooseAllocator_room [OF mode(3,2)] mode(1)] .
  moreover have "am_hw m' = am_hw m3" "am_devicesCount m' = am_devicesCount m3"
    using runProg_hw [OF m4] initialize_steps_trees(3) [OF m'] runProg_setup [OF m4] injectSimulator_keeps [OF m']
    by (simp_all add: keepsSetup_def mgrObjects_def)
  ultimately show ?thesis
    by (simp add: roomFor_def)
qed

lemma mgr_initialize_setup:
  assumes "mgr_initialize env m = doneO m'"
  shows "keepsSetup m m'"
proof (cases "sizesValid m \<and> (\<exists>m1. createStream env m = Inr m1 \<and> getStream m1 = Inr True)")
  case False
  then have "m' = m \<or> createStream env m = Inr m'"
    using assms by (auto simp: mgr_initialize_def bindO_done_iff split: if_splits)
  then show ?thesis
    using createStream_keeps by (auto simp: sameSetup_def keepsSetup_def)
next
  case True
  then obtain m1 m2 m3 m4 where m1: "createStream env m = Inr m1"
    and m2: "initializeSimulator env (chooseAllocator env m1) = doneO m2"
    and m3: "addAllTables [0..<unat (am_devicesCount m2)] m2 = Inr m3"
    and m4: "runProg (gc_initializeDefaultMemoryPools (am_class m3) (am_gpu m3) (streamModeOf m3) (am_devicesCount m3)
                (am_memoryBankSize m3)) env m3 = doneO m4" and m': "injectSimulator env m4 = doneO m'"
    using assms by (auto simp: mgr_initialize_def bindO_done_iff split: if_splits)
  have "keepsSetup m m1" "keepsSetup m1 m2"
    using createStream_keeps [OF m1] objects_setup [OF initializeSimulator_keeps [OF m2]]
    by (simp_all add: sameSetup_def keepsSetup_def chooseAllocator_def setAllocator_def)
  moreover have "keepsSetup m2 m3"
    using addAllTables_keeps [OF m3] by (simp add: keepsSetup_def)
  ultimately show ?thesis
    using runProg_setup [OF m4] objects_setup [OF injectSimulator_keeps [OF m']] keepsSetup_trans by blast
qed

lemma new_manager_room:
  assumes "create env disabled environ opts pg = Some (Inr (Some m), pg')" and "am_streamMode m = mode_aubFile"
  shows "roomFor m"
proof -
  obtain settings pg1 where pg1: "provideSettings disabled environ pg = (settings, pg1)"
    by fastforce
  obtain m1 where m1: "makeManager env (theSettings pg1) opts = doneO (Some (m1, True))" and m: "m = setSettings
    settings m1"
    using assms(1) pg1 by (auto simp: create_def Let_def split: option.splits sum.splits if_splits)
  obtain s p where init: "mgr_initialize (env\<lparr>me_settings := s\<rparr>) (newAubManagerImp (env\<lparr>me_settings := s\<rparr>) p opts)
    = doneO m1"
      and ok: "isInitialized m1 = Inr True"
    using m1 by (auto simp: makeManager_def bindO_done_iff split: if_splits option.splits)
  let ?new = "newAubManagerImp (env\<lparr>me_settings := s\<rparr>) p opts"
  have mode: "am_streamMode m1 = mode_aubFile"
    using assms(2) by (simp add: m setSettings_def)
  have stream: "am_streamAub m1 \<noteq> None"
    using create_ok [OF assms(1)] assms(2) by (auto simp: m setSettings_def mgr_ok_def tablesOk_def getStream_def
      mode_aubFile_def mode_null_def)
  have new: "hs_ppgtts (am_hw ?new) = []" "am_streamAub ?new = None"
    by (simp_all add: newAubManagerImp_def newHwState_def Let_def)
  have "am_streamMode ?new = mode_aubFile"
    using mgr_initialize_setup [OF init] mode by (simp add: keepsSetup_def)
  then show ?thesis
    using mgr_initialize_room [OF init _ new stream] by (simp add: m setSettings_def roomFor_def)
qed

section \<open>Writing succeeds\<close>

lemma walkMemory_small:
  assumes "ap_pageSize params = 4096 \<or> ap_pageSize params = 65536"
    and "ps64 \<longrightarrow> ap_pageSize params = 65536 \<or> getNumLevels (pt_kind p) \<noteq> 5"
  shows "walkMemory gpu ps64 params mode infos pa p w = walkMemory gpu False params mode infos pa p w"
proof -
  have "adjustPageSizeForHardwareSupport gpu (ap_pageSize params) (ap_memoryBanks params) = ap_pageSize params"
    using assms(1) by (auto simp: adjustPageSizeForHardwareSupport_def)
  then have "(ps64 \<and> adjustPageSizeForHardwareSupport gpu (ap_pageSize params) (ap_memoryBanks params) = 4096
      \<and> getNumLevels (pt_kind p) = 5) = False"
    using assms(2) by auto
  then show ?thesis
    unfolding walkMemory_def Let_def simp_thms by (simp only:)
qed

lemma mgr_writeMemory2_succeeds:
  assumes "am_streamMode m = mode_aubFile" and "am_streamAub m = Some s" and "healthy s"
    and "hs_ppgtts (am_hw m) = [p]" and "treeOk p" and "can_reserve (pt_memoryBank p) (hs_alloc (am_hw m))"
    and "can_reserve (ap_memoryBanks params) (hs_alloc (am_hw m))"
    and "ap_memoryBanks params = 0 \<or> (\<exists>i<31. ap_memoryBanks params = 2 ^ i)"
    and "supportedSize (ap_memoryBanks params) (ap_pageSize params) m = Inr ps" and "ps = 4096 \<or> ps = 65536"
    and "s_EnablePs64 (me_settings env) \<longrightarrow> ps = 65536 \<or> getNumLevels (pt_kind p) \<noteq> 5"
    and "ap_memory params = Some bytes" and "unat (ap_size params) \<le> length bytes" and "0 < ap_size params"
  shows "\<exists>m'. mgr_writeMemory2 env params m = doneO m'"
proof -
  let ?p = "params\<lparr>ap_pageSize := ps\<rparr>"
  let ?w = "writeMemory (mgrStreamEnv env m) ?p"
  obtain lev where lev: "getNumLevels (pt_kind p) = Suc lev" "wf_at lev p"
    using assms(5) by (auto simp: treeOk_def)
  have "\<exists>root w. walkMemory gpu False ?p Reserve [] None p (makeWalker (hs_alloc (am_hw m))) = Inr (root, w)" for gpu
    by (rule walkMemory_total [OF lev(2,1)]) (use assms(6-8,10) in \<open>simp_all add: makeWalker_def\<close>)
  moreover have "walkMemory gpu (se_enablePs64 (mgrStreamEnv env m)) ?p mode infos pa p w
      = walkMemory gpu False ?p mode infos pa p w" for gpu mode infos pa w
    using assms(10,11) by (intro walkMemory_small) (simp_all add: mgrStreamEnv_def hwEnv_def streamEnv_def)
  ultimately obtain root w where "walkMemory (se_gpu (mgrStreamEnv env m)) (se_enablePs64 (mgrStreamEnv env m)) ?p
    Reserve [] None p
      (makeWalker (hs_alloc (am_hw m))) = Inr (root, w)"
    by metis
  then obtain cmds es p' al' where wrote: "?w p (hs_alloc (am_hw m)) = Inr (cmds, es, p', al')"
    by (simp add: writeMemory_def split_beta)
  have fits: "ap_memory ?p = Some bytes" "unat (ap_size ?p) \<le> length bytes" "0 < ap_size ?p"
    using assms(12-14) by simp_all
  obtain evs stored where evs: "writesEvents s (fileExecAll cmds s) (evs @ stored)"
    using writeMemory_file(2) [OF wrote assms(5,3) fits] by blast
  have first: "0 < length (hs_ppgtts (am_hw m))" "?w (hs_ppgtts (am_hw m) ! 0) (hs_alloc (am_hw m)) = Inr (cmds,
    es, p', al')"
    "keepsAddresses (hs_ppgtts (am_hw m) ! 0) p'"
    using wrote writeMemory_file(1) [OF wrote assms(5,3) fits] by (simp_all add: assms(4))
  obtain m' where "onPpgtt env 0 ?w m = doneO (es, m')" "hs_ppgtts (am_hw m') = (hs_ppgtts (am_hw m))[0 := p']"
    using onPpgtt_file [where f = ?w and env = env, OF assms(1,2) first evs] by blast
  moreover have "needStream m = Inr ()"
    by (simp add: needStream_def getStream_def assms(1,2) mode_aubFile_def)
  ultimately have "mgr_writeMemory2 env params m = doneO m'"
    using assms(9) by (simp add: mgr_writeMemory2_def writeAndClone_def Let_def assms(1,4) mode_aubFile_def
      mode_null_def otherDevices_def)
  then show ?thesis
    by blast
qed

lemma reachable_room:
  assumes "create env0 disabled environ opts pg = Some (Inr (Some m0), pg')" and "mgr_reachable m0 m"
    and "am_streamMode m = mode_aubFile"
  shows "can_reserve 0 (hs_alloc (am_hw m))"
    and "i < unat (am_devicesCount m) \<Longrightarrow> i < 32 \<Longrightarrow> can_reserve (2 ^ i) (hs_alloc (am_hw m))"
    and "p \<in> set (hs_ppgtts (am_hw m)) \<Longrightarrow> can_reserve (pt_memoryBank p) (hs_alloc (am_hw m))"
    and "length (hs_ppgtts (am_hw m)) = unat (am_devicesCount m)"
proof -
  have same: "keepsSetup m0 m"
    using mgr_reachable_setup [OF assms(2)] .
  then have "roomFor m0"
    using new_manager_room [OF assms(1)] assms(3) by (simp add: keepsSetup_def)
  moreover have "mgrRoom m0 m"
    using mgr_reachable_room [OF assms(2) new_manager_trees [OF assms(1)]] .
  ultimately have "roomFor m"
    using same by (simp add: roomFor_def keepsRoom_def keepsAlloc_def keepsSetup_def)
  then show "can_reserve 0 (hs_alloc (am_hw m))"
    "i < unat (am_devicesCount m) \<Longrightarrow> i < 32 \<Longrightarrow> can_reserve (2 ^ i) (hs_alloc (am_hw m))"
    "p \<in> set (hs_ppgtts (am_hw m)) \<Longrightarrow> can_reserve (pt_memoryBank p) (hs_alloc (am_hw m))"
    by (simp_all add: roomFor_def rootBanks_def)
  show "length (hs_ppgtts (am_hw m)) = unat (am_devicesCount m)"
    using mgr_reachable_ok [OF assms(2) create_ok [OF assms(1)]] assms(3)
    by (simp add: mgr_ok_def tablesOk_def mode_aubFile_def mode_null_def)
qed

end
