(* ===== verification/AubManagerProps.thy ===== *)
theory AubManagerProps
  imports ManagerAlloc
begin

text \<open>
  Properties of the manager: the way of written memory to its file, the objects it keeps, when opening a group
  invalidates the pointers of earlier contexts, opening a file late, and the life of the settings.
\<close>

text \<open>The example manager writes 8 KB to its memory.\<close>

lemma example_pageSize: "csh_gpu h = Some exampleGpu \<Longrightarrow> getSupportedPageSize h 0 4096 = Inr 4096"
proof -
  have "gpu_isMemorySupported exampleGpu 0 4096"
    by (simp add: exampleGpu_def tgllp_defs isMemorySupported_Gen12LP_def MEMORY_BANK_SYSTEM_def)
  then show "csh_gpu h = Some exampleGpu \<Longrightarrow> getSupportedPageSize h 0 4096 = Inr 4096"
    by (simp add: getSupportedPageSize_def isMemorySupported_def)
qed

lemma example_write_facts:
  assumes "exampleReady m" and "exampleFresh (\<lambda>_. []) [] m"
  obtains p where "supportedSize 0 4096 m = Inr 4096" and "hs_ppgtts (am_hw m) = [p]" and "getNumLevels (pt_kind p) = 4"
proof -
  have "\<exists>h. helperFor 0 ENGINE_CCS m = Inr h \<and> csh_gpu h = Some exampleGpu"
    using assms(1)
    by (simp add: exampleReady_def helperFor_def class_Gen12LP_def getCommandStreamerHelper_Gen12LP_def helperAt_def
      NUM_ENGINES_def helpers_Gen12LP_def ENGINE_RCS_def ENGINE_CCS_def ENGINE_BCS_def ENGINE_VCS_def ENGINE_VECS_def)
  then have "supportedSize 0 4096 m = Inr 4096"
    using example_pageSize by (auto simp: supportedSize_def)
  then show thesis
    using that assms(2) by (auto simp: exampleFresh_def)
qed

lemma example_writeMemory:
  assumes "exampleReady m" and "exampleFresh (\<lambda>_. []) [] m" and "mgrTrees m"
  shows "\<exists>m'. mgr_writeMemory2 exampleEnv example_write m = doneO m'"
proof -
  obtain s p where alloc: "hs_alloc (am_hw m) = AllocSimple s" and p: "hs_ppgtts (am_hw m) = [p]" "pt_memoryBank p = 0"
    and stream: "am_streamAub m = Some (enableThrowOnError True (newAubFileStream (\<lambda>_. []) []))"
    using assms(2) by (auto simp: exampleFresh_def mainBank_def)
  obtain p' where size: "supportedSize 0 4096 m = Inr 4096" and p': "hs_ppgtts (am_hw m) = [p']" "getNumLevels
    (pt_kind p') = 4"
    using example_write_facts [OF assms(1,2)] .
  show ?thesis
  proof (rule mgr_writeMemory2_succeeds [OF _ stream _ p(1)])
    show "treeOk p"
      using assms(3) p(1) by (simp add: treesOk_def)
    show "supportedSize (ap_memoryBanks example_write) (ap_pageSize example_write) m = Inr 4096"
      using size by (simp add: example_write_def makeAllocationParams_def)
    show "ap_memory example_write = Some (replicate 0x2000 7)"
      by (simp add: example_write_def makeAllocationParams_def)
  qed (use assms(1) p p' in \<open>simp_all add: exampleReady_def healthy_def enableThrowOnError_def
    newAubFileStream_def alloc
      example_write_def makeAllocationParams_def\<close>)
qed

text \<open>C9: Memory written through a manager arrives in its file.  In every state that a manager which writes a file can
  reach, writing memory makes the file grow by records from which a reader recovers each byte of the buffer, in order,
  at the physical address to which the page tables of the first device translate its GPU address afterwards; no table
  of any device loses an address it translated before, and all of them stay well-formed.\<close>

theorem manager_write_reaches_file:
  assumes "create env0 disabled environ opts pg = Some (Inr (Some m0), pg')" and "mgr_reachable m0 m"
    and "am_streamMode m = mode_aubFile" and "am_streamAub m = Some s" and "healthy s" and "encodes (written s) old"
    and "mgr_writeMemory2 env params m = doneO m'"
    and "ap_memory params = Some bytes" and "unat (ap_size params) \<le> length bytes" and "0 < ap_size params"
  shows "\<exists>s' evs stored rest. am_streamAub m' = Some s' \<and> readAub (written s') = Some (old @ evs @ stored @ rest)
     \<and> length stored = unat (ap_size params)
     \<and> (\<forall>d < unat (ap_size params). \<exists>space a.
          gpuAddress (hs_ppgtts (am_hw m') ! 0) (ap_gfxAddress params + word_of_nat d) = Some a
          \<and> stored ! d = EvStore space (hintField (ap_hint params)) a (bytes ! d))
     \<and> list_all2 keepsAddresses (hs_ppgtts (am_hw m)) (hs_ppgtts (am_hw m'))
     \<and> (\<forall>p \<in> set (hs_ppgtts (am_hw m')). treeOk p)"
proof -
  have trees: "mgrTrees m"
    using mgr_reachable_trees [OF assms(2) new_manager_trees [OF assms(1)]] .
  obtain evs stored rest where step: "fileStep (evs @ stored @ rest) m m'"
    and stored: "length stored = unat (ap_size params)"
      "\<forall>d < unat (ap_size params). \<exists>space a. gpuAddress (hs_ppgtts (am_hw m') ! 0) (ap_gfxAddress params +
        word_of_nat d) = Some a
         \<and> stored ! d = EvStore space (hintField (ap_hint params)) a (bytes ! d)"
    using mgr_writeMemory2_file [OF assms(7,3,4,5) trees assms(8-10)] by blast
  then obtain bs where bs: "am_streamAub m' = Some (emit bs s)" "encodes bs (evs @ stored @ rest)"
    using assms(4) by (auto simp: fileStep_def)
  have "readAub (written (emit bs s)) = Some (old @ evs @ stored @ rest)"
    using encodes_read [OF encodes_append [OF assms(6) bs(2)]] by simp
  moreover have "mgrTrees m'"
    using memory_trees(1) [OF trees assms(7)] .
  ultimately show ?thesis
    using step stored bs(1) unfolding fileStep_def treesOk_def by blast
qed

theorem manager_write_reaches_file_witness:
  "\<exists>m0 m' s s' evs stored rest space a.
     create exampleEnv True Map.empty exampleOptions startProgram = Some (Inr (Some m0), exampleProgram)
     \<and> mgr_writeMemory2 exampleEnv example_write m0 = doneO m' \<and> am_streamAub m0 = Some s \<and> written s = []
     \<and> am_streamAub m' = Some s' \<and> readAub (written s') = Some ([] @ evs @ stored @ rest) \<and> length stored = 0x2000
     \<and> gpuAddress (hs_ppgtts (am_hw m') ! 0) 0x2017ff = Some a \<and> stored ! 0x1fff = EvStore space 0 a 7"
proof -
  obtain m0 where m0: "create exampleEnv True Map.empty exampleOptions startProgram = Some (Inr (Some m0),
    exampleProgram)"
      "exampleReady m0" "exampleFresh (\<lambda>_. []) [] m0"
    using example_manager by blast
  obtain m' where m': "mgr_writeMemory2 exampleEnv example_write m0 = doneO m'"
    using example_writeMemory [OF m0(2,3) new_manager_trees [OF m0(1)]] by blast
  let ?s = "enableThrowOnError True (newAubFileStream (\<lambda>_. []) [])"
  have s: "am_streamMode m0 = mode_aubFile" "am_streamAub m0 = Some ?s"
    using m0(2,3) by (auto simp: exampleReady_def exampleFresh_def)
  have healthy: "healthy ?s" and empty: "written ?s = []"
    by (simp_all add: healthy_def written_def isOpen_def enableThrowOnError_def newAubFileStream_def)
  have p: "ap_memory example_write = Some (replicate 0x2000 7)" "ap_size example_write = 0x2000"
      "ap_gfxAddress example_write = 0x1ff800" "ap_hint example_write = 0"
    by (simp_all add: example_write_def makeAllocationParams_def)
  have fits: "unat (ap_size example_write) \<le> length (replicate 0x2000 (7 :: u8))" "0 < ap_size example_write"
    by (simp_all add: p)
  have "encodes (written ?s) []"
    by (simp add: empty)
  from manager_write_reaches_file [OF m0(1) reachable_start s healthy this m' p(1) fits]
  obtain s' evs stored rest where r: "am_streamAub m' = Some s'" "readAub (written s') = Some ([] @ evs @ stored @
    rest)"
     "length stored = unat (ap_size example_write)"
    and at: "\<forall>d < unat (ap_size example_write). \<exists>space a.
          gpuAddress (hs_ppgtts (am_hw m') ! 0) (ap_gfxAddress example_write + word_of_nat d) = Some a
          \<and> stored ! d = EvStore space (hintField (ap_hint example_write)) a (replicate 0x2000 7 ! d)"
    by blast
  obtain space a where "gpuAddress (hs_ppgtts (am_hw m') ! 0) (0x1ff800 + word_of_nat 0x1fff) = Some a"
      "stored ! 0x1fff = EvStore space (hintField 0) a (replicate 0x2000 7 ! 0x1fff)"
    using at [THEN spec, of "0x1fff"] by (auto simp: p)
  then have "gpuAddress (hs_ppgtts (am_hw m') ! 0) 0x2017ff = Some a" "stored ! 0x1fff = EvStore space 0 a 7"
    by (simp_all add: hintField_def)
  moreover have "length stored = 0x2000"
    using r(3) by (simp add: p)
  ultimately show ?thesis
    using m0(1) m' s(2) empty r(1,2) by blast
qed

text \<open>C10: A write to a manager with one device succeeds.  In every state that such a manager, which writes a file, can
  reach, \<^verbatim>\<open>writeMemory\<close> returns for memory of the host or of the device: no assertion fails on the way through the
  tables, the allocator can serve every table and page, and nothing is thrown.  The page size must be supported
    and small;
  with \<^verbatim>\<open>EnablePs64\<close> it must be 64 KB when the tables have five levels.\<close>

theorem manager_write_succeeds:
  assumes "create env0 disabled environ opts pg = Some (Inr (Some m0), pg')" and "mgr_reachable m0 m"
    and "am_streamMode m = mode_aubFile" and "am_streamAub m = Some s" and "healthy s" and "am_devicesCount m = 1"
    and "ap_memoryBanks params = MEMORY_BANK_SYSTEM \<or> ap_memoryBanks params = MEMORY_BANK_0"
    and "supportedSize (ap_memoryBanks params) (ap_pageSize params) m = Inr ps" and "ps = 4096 \<or> ps = 65536"
    and "s_EnablePs64 (me_settings env) \<longrightarrow> ps = 65536 \<or> getNumLevels (pt_kind (hs_ppgtts (am_hw m) ! 0)) \<noteq> 5"
    and "ap_memory params = Some bytes" and "unat (ap_size params) \<le> length bytes" and "0 < ap_size params"
  shows "\<exists>m'. mgr_writeMemory2 env params m = doneO m'"
proof -
  note room = reachable_room [OF assms(1-3)]
  obtain p where p: "hs_ppgtts (am_hw m) = [p]"
    using room(4) assms(6) by (auto simp: length_Suc_conv)
  have "treeOk p"
    using mgr_reachable_trees [OF assms(2) new_manager_trees [OF assms(1)]] p by (simp add: treesOk_def)
  moreover have "can_reserve (pt_memoryBank p) (hs_alloc (am_hw m))"
    using room(3) p by simp
  moreover have "can_reserve (ap_memoryBanks params) (hs_alloc (am_hw m))"
      "ap_memoryBanks params = 0 \<or> (\<exists>i<31. ap_memoryBanks params = 2 ^ i)"
    using assms(6,7) room(1) room(2) [of 0] by (auto simp: MEMORY_BANK_SYSTEM_def MEMORY_BANK_0_def intro: exI [of _ 0])
  moreover have "s_EnablePs64 (me_settings env) \<longrightarrow> ps = 65536 \<or> getNumLevels (pt_kind p) \<noteq> 5"
    using assms(10) p by simp
  ultimately show ?thesis
    using mgr_writeMemory2_succeeds [OF assms(3-5) p _ _ _ _ assms(8,9) _ assms(11-13)] by blast
qed

theorem manager_write_succeeds_witness:
  "\<exists>m0 m'. create exampleEnv True Map.empty exampleOptions startProgram = Some (Inr (Some m0), exampleProgram)
     \<and> mgr_writeMemory2 exampleEnv example_write m0 = doneO m'"
proof -
  obtain m0 where m0: "create exampleEnv True Map.empty exampleOptions startProgram = Some (Inr (Some m0),
    exampleProgram)"
      "exampleReady m0" "exampleFresh (\<lambda>_. []) [] m0"
    using example_manager by blast
  let ?s = "enableThrowOnError True (newAubFileStream (\<lambda>_. []) [])"
  have s: "am_streamMode m0 = mode_aubFile" "am_streamAub m0 = Some ?s" "healthy ?s" "am_devicesCount m0 = 1"
    using m0(2,3) by (auto simp: exampleReady_def exampleFresh_def healthy_def enableThrowOnError_def
      newAubFileStream_def)
  have w: "ap_memoryBanks example_write = MEMORY_BANK_SYSTEM \<or> ap_memoryBanks example_write = MEMORY_BANK_0"
      "ap_memory example_write = Some (replicate 0x2000 7)" "unat (ap_size example_write) \<le> length (replicate
        0x2000 (7 :: u8))"
      "0 < ap_size example_write"
    by (simp_all add: example_write_def makeAllocationParams_def MEMORY_BANK_SYSTEM_def)
  obtain p where p: "supportedSize 0 4096 m0 = Inr 4096" "hs_ppgtts (am_hw m0) = [p]" "getNumLevels (pt_kind p) = 4"
    using example_write_facts [OF m0(2,3)] .
  have fit: "supportedSize (ap_memoryBanks example_write) (ap_pageSize example_write) m0 = Inr 4096" "4096 = (4096
    :: usize) \<or> 4096 = (65536 :: usize)"
    using p(1) by (simp_all add: example_write_def makeAllocationParams_def)
  have "s_EnablePs64 (me_settings exampleEnv) \<longrightarrow> (4096 :: usize) = 65536 \<or> getNumLevels (pt_kind (hs_ppgtts (am_hw
    m0) ! 0)) \<noteq> 5"
    using p(2,3) by simp
  from manager_write_succeeds [OF m0(1) reachable_start s w(1) fit this w(2-4)] show ?thesis
    using m0(1) by blast
qed

text \<open>C11: The manager keeps track of its objects.  After any sequence of operations on a manager that \<^verbatim>\<open>create\<close> has
  returned, its list names every live context object exactly once and nothing else; unless it is in the null
  mode it has a stream and one table of each kind per device; and as long as no engine has needed more groups than
  the vector of its groups has reserved room for, the group pointer of every context points to a live group.\<close>

theorem manager_objects_live:
  assumes "create env disabled environ opts pg = Some (Inr (Some m0), pg')" and "mgr_reachable m0 m"
  shows "distinct (am_hwContexts m)
    \<and> (\<forall>a. HardwareContextAt a \<in> set (am_hwContexts m) \<longleftrightarrow> hs_contexts (am_hw m) a \<noteq> None)
    \<and> (am_streamMode m \<noteq> mode_null \<longrightarrow> getStream m = Inr True
         \<and> length (hs_ppgtts (am_hw m)) = unat (am_devicesCount m)
         \<and> length (hs_ggtts (am_hw m)) = unat (am_devicesCount m))
    \<and> (withinCapacity m \<longrightarrow> (\<forall>a c g. hs_contexts (am_hw m) a = Some c \<longrightarrow> hc_contextGroup c = Some g \<longrightarrow>
         hs_groups (am_hw m) g \<noteq> None))"
proof -
  have ok: "mgr_ok m"
    using mgr_reachable_ok [OF assms(2) create_ok [OF assms(1)]] .
  have "distinct (am_hwContexts m)"
    using ok by (simp add: mgr_ok_def contextsOk_def distinct_map)
  moreover have "hs_groups (am_hw m) g \<noteq> None"
    if "withinCapacity m" "hs_contexts (am_hw m) a = Some c" "hc_contextGroup c = Some g" for a c g
  proof -
    have "map_option hc_contextGroup (hs_contexts (am_hw m) a) = Some (Some g)"
      using that by simp
    then have "g \<in> dom (hs_groups (am_hw m))"
      using ok that(1) unfolding mgr_ok_def pointersOk_def by blast
    then show ?thesis
      by (simp add: domIff)
  qed
  ultimately show ?thesis
    using ok unfolding mgr_ok_def tablesOk_def contextsOk_def by blast
qed

theorem manager_objects_live_witness:
  "\<exists>(m :: unit AubManagerImp) a b c d. gv_elements (vectorOf m 0 0) = [a, b, c, d] \<and> getStream m = Inr True
     \<and> distinct (am_hwContexts m) \<and> (\<forall>a. HardwareContextAt a \<in> set (am_hwContexts m) \<longleftrightarrow> hs_contexts (am_hw m) a \<noteq> None)"
proof -
  obtain m0 m :: "unit AubManagerImp" and a b c d where
    m: "create exampleEnv True Map.empty exampleOptions startProgram = Some (Inr (Some m0), exampleProgram)"
      "mgr_reachable m0 m"
      "exampleGroups 4 [a, b, c, d] m"
    using example_fourGroups by blast
  have "am_streamMode m \<noteq> mode_null"
    using m(3) by (simp add: exampleGroups_def exampleReady_def mode_aubFile_def mode_null_def)
  then show ?thesis
    using manager_objects_live [OF m(1,2)] m(3) unfolding exampleGroups_def by (metis GroupVector.select_convs(1))
qed

text \<open>C23: The fifth group breaks the first four.  When a context is created as the primary one of a new group, the
  groups the engine has so far stay where they are exactly if the number of the new group is below the number of
  elements or the capacity of their vector (four at the start); otherwise the vector moves its elements, and every
  earlier context of those groups is left with a pointer to a destroyed group, through which its next submission
  reads.\<close>

theorem new_group_keeps_pointers_iff:
  assumes "create env0 disabled environ opts pg = Some (Inr (Some m0), pg')" and "mgr_reachable m0 m"
    and "helperFor device engine m = Inr h" and "am_streamMode m \<noteq> mode_null" and "flags AND contextGroupFlag \<noteq> 0"
    and "createHardwareContext2 env contextId invalidContextId device engine flags m = Inr (ctxt, m')"
    and "v = vectorOf m (unat device) (unat (csh_engineType h))"
    and "number = unat (gh_groupIds (am_groups m) (unat device) (unat (csh_engineType h)))"
    and "g \<in> set (gv_elements v)"
  shows "(hs_groups (am_hw m') g \<noteq> None \<longleftrightarrow> number < max (length (gv_elements v)) (gv_capacity v))
    \<and> (max (length (gv_elements v)) (gv_capacity v) \<le> number \<longrightarrow>
        (\<forall>c. hc_contextGroup c = Some g \<and> hc_contextGroupId c \<noteq> noGroup \<and>
           unat (hc_deviceIndex c) < unat (am_devicesCount m') \<longrightarrow> hw_resubmit c (am_hw m') = Inl UseAfterFree))"
proof -
  let ?i = "unat device" and ?j = "unat (csh_engineType h)"
  have ok: "mgr_ok m"
    using mgr_reachable_ok [OF assms(2) create_ok [OF assms(1)]] .
  obtain a m1 where sel: "selectGroup env device (csh_engineType h) contextId invalidContextId m = Inr (a, m1)"
    and add: "addContext device h (Some a) flags priorityNormal m1 = Inr (ctxt, m')"
    using assms(3-6) by (auto simp: createHardwareContext2_def createInGroup_def bindR_Inr_iff)
  have ij: "?i < 4" "?j < engineCount"
    using sel by (auto simp: selectGroup_def groupVector_def Let_def split: if_splits)
  obtain groupId where op: "openGroup env ?i ?j contextId m = Inr (groupId, m1)"
    using sel ij by (auto simp: selectGroup_def groupVector_def Let_def bindR_Inr_iff)
  have live: "hs_groups (am_hw m') g \<noteq> None \<longleftrightarrow> number < max (length (gv_elements v)) (gv_capacity v)"
    using openGroup_dom [OF op ok ij, of g] assms(7-9) addContext_dom [OF add] by (auto simp: domIff less_max_iff_disj)
  have "mgr_ok m'"
    using createInGroup_ok [OF assms(6) [unfolded createHardwareContext2_def] ok] by blast
  moreover have "am_streamMode m' = am_streamMode m"
    using selectGroup_ok [OF sel ok] add by (auto simp: sameContexts_def addContext_def bindR_Inr_iff Let_def
      split: if_splits)
  ultimately have "length (hs_ppgtts (am_hw m')) = unat (am_devicesCount m')"
    using assms(4) unfolding mgr_ok_def tablesOk_def by simp
  then show ?thesis
    using live resubmit_dangling [of _ g "am_hw m'"] by (auto simp: domIff)
qed

theorem new_group_keeps_pointers_iff_witness:
  "\<exists>(m :: unit AubManagerImp) c m' a. createInExample 5 exampleEnv m = Inr (c, m')
     \<and> a \<in> set (gv_elements (vectorOf m 0 0)) \<and> hs_groups (am_hw m') a = None"
proof -
  obtain m0 m :: "unit AubManagerImp" and a b c d where
    m: "create exampleEnv True Map.empty exampleOptions startProgram = Some (Inr (Some m0), exampleProgram)"
      "mgr_reachable m0 m"
      "exampleGroups 4 [a, b, c, d] m"
    using example_fourGroups by blast
  obtain h where h: "helperFor 0 0 m = Inr h" "csh_engineType h = 0"
    using m(3) example_helper by (auto simp: exampleGroups_def)
  obtain ctxt m' where new: "createInExample 5 exampleEnv m = Inr (ctxt, m')"
    using example_fifthGroup [OF m(3) example_fresh [OF m]] by blast
  have "am_streamMode m \<noteq> mode_null" "contextGroupFlag AND contextGroupFlag \<noteq> (0 :: u32)"
    using m(3) by (simp_all add: exampleGroups_def exampleReady_def mode_aubFile_def mode_null_def contextGroupFlag_def)
  note dead = new_group_keeps_pointers_iff [OF m(1,2) h(1) this new refl refl, of a]
  have els: "gv_elements (vectorOf m 0 0) = [a, b, c, d]" and rest: "gv_capacity (vectorOf m 0 0) = 4"
    "gh_groupIds (am_groups m) 0 0 = 4"
    using m(3) by (simp_all add: exampleGroups_def)
  have "hs_groups (am_hw m') a = None"
    using dead by (simp add: h(2) els rest)
  moreover have "a \<in> set (gv_elements (vectorOf m 0 0))"
    by (simp add: els)
  ultimately show ?thesis
    using new by blast
qed

text \<open>C35: A file cannot be opened after a context has been created.  With exceptions enabled, \<^verbatim>\<open>open\<close> of a manager that
  writes a file and has a context does not return: it sets the CCS mode on the way, which throws once there are
  contexts.\<close>

theorem open_after_context_fails:
  assumes "isFileMode (am_streamMode m)" and "am_hwContexts m \<noteq> []" and "am_enableThrow m"
  shows "(\<forall>m'. mgr_open env name m \<noteq> doneO m')
    \<and> setCCSMode env n m = failO (LogicError ''Cannot set CCS mode after hardware contexts have been created.'')"
proof -
  have ccs: "setCCSMode env n m1
      = failO (LogicError ''Cannot set CCS mode after hardware contexts have been created.'')"
    if "mgrObjects m1 = mgrObjects m" for m1 n
    using that assms(2,3) by (simp add: setCCSMode_def mgrObjects_def)
  then have "mgr_open env name m \<noteq> doneO m'" for m'
    using assms(1) by (auto simp: mgr_open_def bindO_done_iff ccs dest!: onAub_keeps exec_keeps(1))
  then show ?thesis
    using ccs by simp
qed

theorem open_after_context_fails_witness:
  "\<forall>m'. mgr_open exampleEnv ''trace.aub''
     ((newAubManagerImp exampleEnv GpuTgllp exampleOptions)\<lparr>am_hwContexts := [HardwareContextAt 0]\<rparr>) \<noteq> doneO m'"
  using open_after_context_fails
    [of "(newAubManagerImp exampleEnv GpuTgllp exampleOptions)\<lparr>am_hwContexts := [HardwareContextAt 0]\<rparr>" exampleEnv
      "''trace.aub''"]
  by (simp add: example_new isFileMode_def)

text \<open>C36: A failed \<^verbatim>\<open>create\<close> leaves a dangling pointer to the settings.  When there are no settings yet and the product
  or the version is unknown, \<^verbatim>\<open>create\<close> returns null and destroys the settings it has made, but the global pointer
  keeps their address; no later \<^verbatim>\<open>create\<close> makes new ones.\<close>

theorem failed_create_leaves_dangling_settings:
  assumes "pg_globalSettings pg = None"
    and "ao_version opts \<noteq> 1 \<or> getGpu defaultSettings (ao_productFamily opts) = None"
  shows "\<exists>pg'. create env disabled environ opts pg = Some (Inr None, pg') \<and> theSettings pg' = Inl UseAfterFree
    \<and> (\<forall>env' disabled' environ' opts' r pg''. create env' disabled' environ' opts' pg' = Some (r, pg'') \<longrightarrow>
         theSettings pg'' = Inl UseAfterFree)"
proof -
  let ?pg = "(pg\<lparr>pg_globalSettings := Some (pg_next pg), pg_objects := (pg_objects pg)(pg_next pg := None),
    pg_next := Suc (pg_next pg)\<rparr>)"
  have "create env disabled environ opts pg = Some (Inr None, ?pg)"
    using assms by (auto simp: create_def provideSettings_def makeManager_def freeSettings_def Let_def)
  moreover have bad: "theSettings ?pg = Inl UseAfterFree"
    by (simp add: theSettings_def)
  moreover have "pg'' = ?pg" if "create env' disabled' environ' opts' ?pg = Some (r, pg'')" for env' disabled'
    environ' opts' r pg''
    using that bad by (auto simp: create_def provideSettings_def makeManager_def freeSettings_def Let_def 
      split: if_splits)
  ultimately show ?thesis
    by blast
qed

theorem failed_create_leaves_dangling_settings_witness:
  "\<exists>pg'. create exampleEnv True Map.empty (exampleOptions\<lparr>ao_version := 2\<rparr>) startProgram = Some (Inr None, pg')
     \<and> theSettings pg' = Inl UseAfterFree"
  using failed_create_leaves_dangling_settings [of startProgram "exampleOptions\<lparr>ao_version := 2\<rparr>" exampleEnv True
    Map.empty]
  by (auto simp: startProgram_def exampleOptions_def)

end
