(* ===== verification/Spec2Isabelle.thy ===== *)
theory Spec2Isabelle
  imports WalkerProps AubFileStreamProps ShmProps GpuProps AubManagerProps
begin

text \<open>
  A verification development for aubstream, the library with which a graphics driver records what it does to a GPU
  in an AUB file, or does it to a simulator of the GPU, over a socket (TBX) or through shared memory.  All paths are
  under \<^verbatim>\<open>src/\<close>; most of the program is in \<^verbatim>\<open>src/aub_mem_dump/\<close>.

  \<^bold>\<open>The program.\<close>  A driver creates a manager (\<^verbatim>\<open>AubManager::create\<close>) for a product and a mode.  The manager owns the
  description of the GPU (\<^verbatim>\<open>Gpu\<close> with its families and products), the allocator of physical addresses, for every
  device a page table for the processes (PPGTT) and a global one (GGTT), the hardware contexts, and the stream of the
  mode: an AUB file, a simulator, or a file beside a simulator.  Writing memory walks and extends the page tables
  (\<^verbatim>\<open>PageTableWalker\<close>), which reserves physical pages and collects the new table entries; the operations that all
  streams share (\<^verbatim>\<open>AubStream\<close>) turn the result of the walk into calls of the virtual functions of the stream, and the
  stream turns these into records of the file, messages to the simulator, or stores into shared memory.  A hardware
  context keeps a ring and a logical ring context in memory; submitting a batch buffer writes commands into the ring
  through the same operations and starts the engine with register writes.

  \<^bold>\<open>Style.\<close>  The definitions are functions on explicit states, with the names of the sources.  A failed assertion, an
  access outside an array, a null or dangling pointer, and a thrown exception are values of \<open>aub_error\<close>
  (\<open>Inl\<close> of the type \<open>'a result\<close>); integers have the width of the C++ types and wrap.  An operation that throws has an
  error and no state, but for the file, where the contents of the disk belong to what is proved.  The operations of
  \<^verbatim>\<open>AubStream\<close> and of the contexts return the calls of the stream they make as a list of \<open>StreamCmd\<close>; each stream has a
  function that executes such calls (\<open>fileExec\<close>, \<open>tbxExec\<close>, \<open>shmExec\<close>, and those of the combined streams).  A class
  hierarchy is a datatype of kinds (page tables, allocators, streams) or a record of functions (engines, GPUs).

  \<^bold>\<open>Theories and sources\<close>

  \<^item> \<open>Prelude\<close>: machine types, results and errors, slots of growing vectors, facts on words and the collections
    \<open>align_simps\<close>, \<open>result_simps\<close>, \<open>table_simps\<close>.
  \<^item> \<open>MemoryBanks\<close>: \<^verbatim>\<open>align_helpers.h\<close>, \<^verbatim>\<open>memory_banks.h/.cpp\<close>, \<^verbatim>\<open>memory_bank_helper.h\<close>.
  \<^item> \<open>Allocator\<close>: \<^verbatim>\<open>physical_address_allocator.h/.cpp\<close>.  The three allocators are one datatype; the simple one is a
    list of free blocks with a next address.  The locale \<open>block_allocator\<close> states what an allocator of disjoint blocks
    promises (an abstract view of its live blocks, and the laws of the two operations) and is interpreted on it; reachable
    states and their invariants follow by rule induction.
  \<^item> \<open>GpuModel\<close>: \<^verbatim>\<open>gpu.h\<close>, \<^verbatim>\<open>gpu.cpp\<close> and the parameter structures of \<^verbatim>\<open>include/aubstream/\<close>; stolen memory.
  \<^item> \<open>PageTable\<close>: \<^verbatim>\<open>page_table_entry_bits.h\<close>, \<^verbatim>\<open>page_table.h\<close>, \<^verbatim>\<open>page_table_pml5.h\<close>, \<^verbatim>\<open>page_table.cpp\<close>.  A page table
    is a tree whose nodes carry their class as \<open>ptKind\<close>; the locale \<open>child_slots\<close> is what the walks need of the children,
    interpreted on both kinds of tables.
  \<^item> \<open>Walker\<close>, \<open>WalkerProps\<close>: \<^verbatim>\<open>page_table_walker.h/.cpp\<close>, with clones, remapping, the fallback from 2 MB pages and
    the groups of sixteen pages (PS64).  \<open>translate\<close> is the specification, the leaf that the hardware finds for an address;
    the walk refines it: well-formed trees stay so, no translation is lost, and the recorded pages are the translations
    of the addresses they stand for.
  \<^item> \<open>AubServices\<close>, \<open>AubReader\<close>: the packets of \<^verbatim>\<open>aub_header.h\<close> and \<^verbatim>\<open>includes/aub_services.h\<close> field by field with their
    bytes, and a reader of files of such packets, written from the format alone: the specification of the writer.
  \<^item> \<open>AubFileStream\<close>, \<open>AubFileStreamProps\<close>: \<^verbatim>\<open>aub_file_stream.h/.cpp\<close>, over a model of \<^verbatim>\<open>std::ofstream\<close> in which any
    write may fail.  Every operation is shown to append records from which the reader recovers what was asked for.
  \<^item> \<open>AubStream\<close>, \<open>AubStreamProps\<close>: \<^verbatim>\<open>aub_stream.h/.cpp\<close>; writing end to end, and what freeing removes and keeps.
  \<^item> \<open>CommandStreamer\<close>, \<open>EngineFamilies\<close>: \<^verbatim>\<open>command_streamer_helper.h/.cpp\<close> and the class templates of the families
    (\<^verbatim>\<open>gen12lp/\<close> to \<^verbatim>\<open>xe3p_core/\<close>): an engine is a record whose function fields are the virtual functions.
  \<^item> \<open>FamilyTables\<close>, \<open>GpuFamilies\<close>, \<open>GpuProps\<close>: the register tables, the GPU classes and the thirteen products of
    those directories, with the table the products enter themselves in; what every product promises.
  \<^item> \<open>HardwareContext\<close>, \<open>HardwareContextProps\<close>: \<^verbatim>\<open>hardware_context_imp.h/.cpp\<close>.  Contexts and groups are objects in a
    store (\<open>hs_contexts\<close>, \<open>hs_groups\<close>, maps from addresses), because groups and the manager share them.  The locale
    \<open>ring_engine\<close> is what a context needs of the class of its engine; it is interpreted on all families.
  \<^item> \<open>TbxSockets\<close>, \<open>TbxStream\<close>, \<open>TbxProps\<close>: \<^verbatim>\<open>tbx_proto.h\<close>, \<^verbatim>\<open>tbx_sockets_imp.h/.cpp\<close>, \<^verbatim>\<open>tbx_stream.h/.cpp\<close>,
    \<^verbatim>\<open>aub_tbx_stream.h\<close>.  The locales \<open>tbx_channel\<close> and \<open>tbx_simulator\<close> are the connection (bytes arrive in order, in
    pieces of any size) and a simulator at its other end; they are interpreted on a concrete one.
  \<^item> \<open>TbxShmStream\<close>, \<open>ShmProps\<close>: \<^verbatim>\<open>memcpy_s.h\<close>, \<^verbatim>\<open>tbx_shm_stream.h/.cpp\<close>, \<^verbatim>\<open>aub_shm_stream.h\<close>; the locales
    \<open>shared_pages\<close> and \<open>shm_simulator\<close>.
  \<^item> \<open>Backends\<close>: the file and the simulator beside it agree, for every sequence of calls.
  \<^item> \<open>SettingsReader\<close>: \<^verbatim>\<open>settings.h\<close>, \<^verbatim>\<open>setting_vars.inl\<close>, \<^verbatim>\<open>settings_reader.h/.cpp\<close>.
  \<^item> \<open>AubManager\<close>: \<^verbatim>\<open>aub_manager_imp.h/.cpp\<close>, \<^verbatim>\<open>options.h/.cpp\<close>, \<^verbatim>\<open>null_hardware_context.h\<close>: all operations, the
    creation and the end of a manager.  \<open>ManagerInvariant\<close> has the steps of a manager, the states they reach and the
    invariant on its objects, \<open>ManagerTables\<close> the same for its page tables (every manager that can be reached has
    well-formed trees), \<open>ManagerFile\<close> what its operations on memory add to the file, \<open>ManagerAlloc\<close> that its
    allocator can always serve the tables and banks it was made for, so that writes succeed, \<open>ManagerExample\<close> a
    manager that is run, \<open>AubManagerProps\<close> the properties.

  \<^bold>\<open>What is shown.\<close>  The properties carry the numbers C1 to C40.  The first group is about whole paths: what is written
  through the page tables, or through a manager, arrives in the file, and the file, the simulator and the shared memory agree with each other.
  The second is about the components: allocators, walks, packets, rings, the connection, the manager.  The third
  pins down behaviour that a user of the library may not expect: waits that never return, invalidations that are lost,
  dangling pointers, register fields that overflow.  These hold of the code as it is.

  \<^bold>\<open>Bounds and fuel.\<close>  Loops are structural or have a termination measure, with these exceptions.  The constructor of
  \<^verbatim>\<open>MemoryBankHelper\<close> may not end and is a \<open>partial_function\<close> with \<open>None\<close> for no result.  The loops that wait for a
  simulator (\<^verbatim>\<open>pollForFenceCompletion\<close>, the polls of the simulator streams, the attempts to connect) take fuel, one unit
  per pass, and have the result \<open>None\<close> when it runs out; the properties about them say how much is enough, or that no
  amount is.  A GGTT walk with a page size of 0 makes no progress; it has the error \<open>Diverges\<close>.

  \<^bold>\<open>Parameters.\<close>  What is not in the repository is an argument: the calls of the operating system (a record \<open>socket_api\<close>,
  with a state for the other side), the host allocator (\<open>aligned_alloc\<close>), the environment variables, the clock, the
  contents of fresh memory, the translation tables of shared memory (version 4), the outcomes of the writes to
  disk, and the capacity the library gives a vector that grows.

  \<^bold>\<open>Not modelled.\<close>
  \<^item> Log messages (\<^verbatim>\<open>PRINT_LOG\<close>) and the mutexes: the operations are modelled one after the other.
  \<^item> \<^verbatim>\<open>alloc_tools.h\<close> and \<^verbatim>\<open>os_interface/\<close>: wrappers of the C library, parameters here; the Windows side of the sockets.
  \<^item> The messages of \<^verbatim>\<open>tbx_proto.h\<close> and the enumerations of \<^verbatim>\<open>aub_services.h\<close> that no code of the library uses.
  \<^item> The tests, and the delay between two attempts to connect.
  \<^item> In the manager: the settings are read once, when the GPU is made, where the sources read them at each use; the
    calls of the stream that an operation of a context makes are carried out when the operation returns; a combined stream
    is the two streams and its flags, since it holds references only; and a manager whose operation has thrown is not
    continued.
\<close>

end
